(* ===== verification/Prelude.thy ===== *)
theory Prelude
  imports Complex_Main "HOL-Library.List_Lexorder" "HOL-Library.Char_ord"
begin

text \<open>
  What every component shares: points in time, the exceptions the Python code raises, the
  string helpers it uses, and the relational tables it reads and writes. A table is the list
  of its rows; a statement of the code (SELECT, UPDATE ... WHERE, INSERT, DELETE) is one of
  the operations below, and \<open>keyed\<close> is the primary key or unique constraint the database
  enforces.
\<close>

section \<open>Time\<close>

text \<open>
  An aware \<open>datetime\<close> is the number of microseconds since the epoch; \<open>as_utc\<close> of the code
  changes its representation only. A \<open>timedelta\<close> is a number of microseconds.
\<close>

type_synonym time = int

definition seconds :: "int \<Rightarrow> time" where
  "seconds n = n * 1000000"

definition days :: "int \<Rightarrow> time" where
  "days n = n * 86400000000"

lemma seconds_pos [simp]: "0 < seconds n \<longleftrightarrow> 0 < n" "0 \<le> seconds n \<longleftrightarrow> 0 \<le> n"
  by (simp_all add: seconds_def)

lemma days_pos [simp]: "0 < days n \<longleftrightarrow> 0 < n" "0 \<le> days n \<longleftrightarrow> 0 \<le> n"
  by (simp_all add: days_def)

section \<open>Exceptions\<close>

text \<open>
  \<open>PlatformError code status\<close> keeps the stable machine code and the HTTP status of
  \<^verbatim>\<open>app/platform/errors.py\<close>; the human-readable message is dropped.
\<close>

datatype exn =
    PlatformError string nat
  | ValueError
  | FenceViolation
  | IntegrityError
  | NoResultFound
  | CircuitOpen
  | InternalError
  | TypeError
  | KeyError
  | AttributeError
  | OverflowError
  | AssertionError
  | IndexError

section \<open>Python strings\<close>

definition py_isspace :: "char \<Rightarrow> bool" where
  "py_isspace c \<longleftrightarrow>
     c = CHR '' '' \<or> (9 \<le> (of_char c :: nat) \<and> (of_char c :: nat) \<le> 13) \<or>
     (28 \<le> (of_char c :: nat) \<and> (of_char c :: nat) \<le> 31) \<or>
     (of_char c :: nat) = 133 \<or> (of_char c :: nat) = 160"

definition py_strip :: "string \<Rightarrow> string" where
  "py_strip s = rev (dropWhile py_isspace (rev (dropWhile py_isspace s)))"

text \<open>\<open>str\<close> of an integer, and the ASCII form \<open>json.dumps\<close> gives a string.\<close>

definition digit_char :: "nat \<Rightarrow> char" where
  "digit_char d = char_of (48 + d)"

fun string_of_nat :: "nat \<Rightarrow> string" where
  "string_of_nat n = (if n < 10 then [digit_char n]
     else string_of_nat (n div 10) @ [digit_char (n mod 10)])"

declare string_of_nat.simps [simp del]

definition string_of_int :: "int \<Rightarrow> string" where
  "string_of_int i = (if i < 0 then CHR ''-'' # string_of_nat (nat (- i)) else string_of_nat (nat i))"

definition hex_digit :: "nat \<Rightarrow> char" where
  "hex_digit d = char_of (if d < 10 then 48 + d else 87 + d)"

definition json_escape_char :: "char \<Rightarrow> string" where
  "json_escape_char c =
     (let n = (of_char c :: nat) in
      if n = 34 then [CHR 0x5C, CHR 0x22]
      else if n = 92 then [CHR 0x5C, CHR 0x5C]
      else if n = 10 then [CHR 0x5C, CHR ''n'']
      else if n = 13 then [CHR 0x5C, CHR ''r'']
      else if n = 9 then [CHR 0x5C, CHR ''t'']
      else if n = 8 then [CHR 0x5C, CHR ''b'']
      else if n = 12 then [CHR 0x5C, CHR ''f'']
      else if 32 \<le> n \<and> n \<le> 126 then [c]
      else [CHR 0x5C, CHR ''u'', CHR ''0'', CHR ''0'', hex_digit (n div 16), hex_digit (n mod 16)])"

definition json_string :: "string \<Rightarrow> string" where
  "json_string s = CHR 0x22 # concat (map json_escape_char s) @ [CHR 0x22]"

text \<open>
  \<open>isoformat\<close> of an aware UTC datetime: the proleptic Gregorian date of the day number, by
  eras of 400 years, and the time of day with microseconds only when there are any.
\<close>

definition pad_left :: "nat \<Rightarrow> string \<Rightarrow> string" where
  "pad_left n s = replicate (n - length s) (CHR ''0'') @ s"

definition civil_of_days :: "int \<Rightarrow> int \<times> int \<times> int" where
  "civil_of_days d =
     (let z = d + 719468;
          era = z div 146097;
          doe = z mod 146097;
          yoe = (doe - doe div 1460 + doe div 36524 - doe div 146096) div 365;
          doy = doe - (365 * yoe + yoe div 4 - yoe div 100);
          mp = (5 * doy + 2) div 153;
          day = doy - (153 * mp + 2) div 5 + 1;
          month = (if mp < 10 then mp + 3 else mp - 9)
      in (yoe + era * 400 + (if month \<le> 2 then 1 else 0), month, day))"

definition isoformat :: "time \<Rightarrow> string" where
  "isoformat t =
     (let (year, month, day) = civil_of_days (t div days 1);
          us = t mod days 1;
          s = us div 1000000;
          two = (\<lambda>i. pad_left 2 (string_of_int i));
          fraction = us mod 1000000
      in pad_left 4 (string_of_int year) @ ''-'' @ two month @ ''-'' @ two day @ ''T'' @
         two (s div 3600) @ '':'' @ two (s div 60 mod 60) @ '':'' @ two (s mod 60) @
         (if fraction = 0 then [] else CHR ''.'' # pad_left 6 (string_of_int fraction)) @ ''+00:00'')"

section \<open>Sums as results\<close>

definition is_ok :: "'e + 'a \<Rightarrow> bool" where
  "is_ok r = (case r of Inl _ \<Rightarrow> False | Inr _ \<Rightarrow> True)"

lemma is_ok_simps [simp]: "is_ok (Inr x)" "\<not> is_ok (Inl e)"
  by (simp_all add: is_ok_def)

text \<open>
  Sequencing of steps that may raise, and the guard \<open>if not b: raise e\<close>. The rules say when
  a chain of them succeeds, and the simplifier uses them to read off every guard passed.
\<close>

definition bindE :: "'e + 'a \<Rightarrow> ('a \<Rightarrow> 'e + 'b) \<Rightarrow> 'e + 'b" where
  "bindE m f = (case m of Inl e \<Rightarrow> Inl e | Inr x \<Rightarrow> f x)"

definition require :: "bool \<Rightarrow> 'e \<Rightarrow> 'e + unit" where
  "require b e = (if b then Inr () else Inl e)"

lemma bindE_simps [simp]: "bindE (Inl e) f = Inl e" "bindE (Inr x) f = f x"
  by (simp_all add: bindE_def)

lemma bindE_Inr [simp]: "bindE m f = Inr y \<longleftrightarrow> (\<exists>x. m = Inr x \<and> f x = Inr y)"
  by (auto simp: bindE_def split: sum.splits)

lemma require_Inr [simp]: "require b e = Inr u \<longleftrightarrow> b"
  by (simp add: require_def)

lemma bindE_require: "bindE (require b e) f = (if b then f () else Inl e)"
  by (simp add: require_def)

section \<open>Tables\<close>

named_theorems sql "rewrite rules for the table operations"

definition sql_where :: "('r \<Rightarrow> bool) \<Rightarrow> 'r list \<Rightarrow> 'r list" where
  "sql_where p t = filter p t"

definition sql_first :: "('r \<Rightarrow> bool) \<Rightarrow> 'r list \<Rightarrow> 'r option" where
  "sql_first p t = (case filter p t of [] \<Rightarrow> None | r # _ \<Rightarrow> Some r)"

definition sql_count :: "('r \<Rightarrow> bool) \<Rightarrow> 'r list \<Rightarrow> nat" where
  "sql_count p t = length (filter p t)"

definition sql_update :: "('r \<Rightarrow> bool) \<Rightarrow> ('r \<Rightarrow> 'r) \<Rightarrow> 'r list \<Rightarrow> 'r list" where
  "sql_update p f t = map (\<lambda>r. if p r then f r else r) t"

definition sql_delete :: "('r \<Rightarrow> bool) \<Rightarrow> 'r list \<Rightarrow> 'r list" where
  "sql_delete p t = filter (\<lambda>r. \<not> p r) t"

text \<open>INSERT under a primary key: \<open>None\<close> is the engine's integrity error.\<close>

definition sql_insert :: "('r \<Rightarrow> 'k) \<Rightarrow> 'r \<Rightarrow> 'r list \<Rightarrow> 'r list option" where
  "sql_insert key r t = (if key r \<in> set (map key t) then None else Some (t @ [r]))"

definition keyed :: "('r \<Rightarrow> 'k) \<Rightarrow> 'r list \<Rightarrow> bool" where
  "keyed key t = distinct (map key t)"

text \<open>\<open>sql_max f t\<close> is SELECT max(f) over rows where the column may be NULL.\<close>

definition sql_max :: "('r \<Rightarrow> int option) \<Rightarrow> 'r list \<Rightarrow> int option" where
  "sql_max f t = (case List.map_filter f t of [] \<Rightarrow> None | x # xs \<Rightarrow> Some (foldl max x xs))"

lemma set_sql_where [simp, sql]: "r \<in> set (sql_where p t) \<longleftrightarrow> r \<in> set t \<and> p r"
  by (auto simp: sql_where_def)

lemma set_sql_update [sql]:
  "r \<in> set (sql_update p f t) \<longleftrightarrow> (\<exists>r0 \<in> set t. r = (if p r0 then f r0 else r0))"
  by (auto simp: sql_update_def)

lemma set_sql_delete [simp, sql]: "r \<in> set (sql_delete p t) \<longleftrightarrow> r \<in> set t \<and> \<not> p r"
  by (auto simp: sql_delete_def)

lemma sql_first_Some: "sql_first p t = Some r \<Longrightarrow> r \<in> set t \<and> p r"
proof -
  assume "sql_first p t = Some r"
  then obtain rs where "filter p t = r # rs"
    by (auto simp: sql_first_def split: list.splits)
  then have "r \<in> set (filter p t)" by simp
  then show ?thesis by simp
qed

lemma sql_first_None [sql]: "sql_first p t = None \<longleftrightarrow> (\<forall>r \<in> set t. \<not> p r)"
proof -
  have "sql_first p t = None \<longleftrightarrow> filter p t = []"
    by (simp add: sql_first_def split: list.split)
  then show ?thesis by (simp add: filter_empty_conv)
qed

lemma sql_first_Cons [simp]: "sql_first p (r # t) = (if p r then Some r else sql_first p t)"
  by (simp add: sql_first_def)

lemma sql_first_Nil [simp]: "sql_first p [] = None"
  by (simp add: sql_first_def)

lemma sql_first_append [sql]:
  "sql_first p (t @ u) = (case sql_first p t of None \<Rightarrow> sql_first p u | Some r \<Rightarrow> Some r)"
  by (induction t) auto

lemma sql_insert_Some [sql]:
  "sql_insert key r t = Some t' \<longleftrightarrow> key r \<notin> key ` set t \<and> t' = t @ [r]"
  by (auto simp: sql_insert_def)

lemma sql_insert_None [sql]: "sql_insert key r t = None \<longleftrightarrow> key r \<in> key ` set t"
  by (auto simp: sql_insert_def)

lemma keyed_insert: "keyed key t \<Longrightarrow> sql_insert key r t = Some t' \<Longrightarrow> keyed key t'"
  by (auto simp: keyed_def sql_insert_def split: if_splits)

lemma keyed_update:
  assumes "keyed key t" and "\<And>r. r \<in> set t \<Longrightarrow> p r \<Longrightarrow> key (f r) = key r"
  shows "keyed key (sql_update p f t)"
proof -
  have "map key (sql_update p f t) = map key t"
    using assms(2) by (auto simp: sql_update_def)
  then show ?thesis using assms(1) by (simp add: keyed_def)
qed

lemma keyed_delete: "keyed key t \<Longrightarrow> keyed key (sql_delete p t)"
  by (auto simp: keyed_def sql_delete_def distinct_map intro: inj_on_subset)

lemma keyed_Nil [simp]: "keyed key []"
  by (simp add: keyed_def)

lemma keyed_eq: "keyed key t \<Longrightarrow> r \<in> set t \<Longrightarrow> s \<in> set t \<Longrightarrow> key r = key s \<Longrightarrow> r = s"
  by (auto simp: keyed_def distinct_map dest: inj_onD)

text \<open>Under the key, a selection by key value finds the row that is there.\<close>

lemma sql_first_keyed:
  assumes "keyed key t" and "r \<in> set t" and "p r"
    and "\<And>s. s \<in> set t \<Longrightarrow> p s \<Longrightarrow> key s = key r"
  shows "sql_first p t = Some r"
proof (cases "sql_first p t")
  case None
  then show ?thesis using assms(2,3) by (auto simp: sql)
next
  case (Some s)
  then have "s \<in> set t" "p s" by (auto dest: sql_first_Some)
  then have "s = r" using assms by (auto intro: keyed_eq)
  then show ?thesis using Some by simp
qed

text \<open>Under the key, an UPDATE that fixes the key value touches at most one row.\<close>

lemma keyed_filter_le_1:
  assumes "keyed key t" and "\<And>s. s \<in> set t \<Longrightarrow> p s \<Longrightarrow> key s = k"
  shows "length (filter p t) \<le> 1"
  using assms
proof (induction t)
  case (Cons r t)
  have IH: "length (filter p t) \<le> 1"
    using Cons by (auto simp: keyed_def)
  show ?case
  proof (cases "p r")
    case True
    then have "filter p t = []"
      using Cons.prems by (fastforce simp: keyed_def filter_empty_conv)
    then show ?thesis by simp
  next
    case False
    then show ?thesis using IH by simp
  qed
qed simp

lemma sql_count_one_iff:
  assumes "keyed key t" and "\<And>s. s \<in> set t \<Longrightarrow> p s \<Longrightarrow> key s = k"
  shows "sql_count p t = 1 \<longleftrightarrow> (\<exists>r \<in> set t. p r)"
proof -
  have "length (filter p t) \<le> 1" by (rule keyed_filter_le_1 [OF assms])
  then have "length (filter p t) = 1 \<longleftrightarrow> filter p t \<noteq> []"
    by (cases "filter p t") auto
  then show ?thesis by (simp add: sql_count_def filter_empty_conv)
qed

lemma sql_count_zero [sql]: "sql_count p t = 0 \<longleftrightarrow> (\<forall>r \<in> set t. \<not> p r)"
  by (auto simp: sql_count_def filter_empty_conv)

lemma sql_count_append [sql]: "sql_count p (t @ u) = sql_count p t + sql_count p u"
  by (simp add: sql_count_def)

lemma sql_max_None [sql]: "sql_max f t = None \<longleftrightarrow> (\<forall>r \<in> set t. f r = None)"
proof -
  have "List.map_filter f t = [] \<longleftrightarrow> (\<forall>r \<in> set t. f r = None)"
    by (induction t) (auto simp: List.map_filter_def)
  then show ?thesis by (auto simp: sql_max_def split: list.splits)
qed

lemma foldl_max_ge: "x \<le> foldl max x xs \<and> (\<forall>y \<in> set xs. y \<le> foldl max (x::int) xs)"
  by (induction xs arbitrary: x) (fastforce simp: max_def)+

lemma sql_max_ge:
  assumes "sql_max f t = Some m" and "r \<in> set t" and "f r = Some v"
  shows "v \<le> m"
proof -
  have "v \<in> set (List.map_filter f t)"
    using assms(2,3) by (force simp: List.map_filter_def)
  then show ?thesis
    using assms(1) foldl_max_ge by (fastforce simp: sql_max_def split: list.splits)
qed

lemma filter_sql_update_other:
  "(\<And>r. r \<in> set t \<Longrightarrow> p r \<Longrightarrow> \<not> q r \<and> \<not> q (f r)) \<Longrightarrow> filter q (sql_update p f t) = filter q t"
  by (induction t) (auto simp: sql_update_def)

lemma sql_update_idem: "(\<And>r. r \<in> set t \<Longrightarrow> \<not> p r) \<Longrightarrow> sql_update p f t = t"
  by (induction t) (auto simp: sql_update_def)

end
