(* ===== verification/Json.thy ===== *)
theory Json
  imports Prelude
begin

text \<open>
  JSON values as the Python code holds them (payloads of events, command inputs), the
  canonical serialisation \<open>json.dumps(..., ensure_ascii=True, separators=(",", ":"),
  sort_keys=True)\<close> that every fingerprint of the code hashes, and Python's \<open>str\<close> and truth
  value of such a value. The shortest decimal form of a float is a parameter.
\<close>

datatype pfloat = Finite rat | Infinite bool | NotANumber

datatype pval =
    PNull
  | PBool bool
  | PInt int
  | PFloat pfloat
  | PStr string
  | PList "pval list"
  | PDict "(string \<times> pval) list"

type_synonym payload = "(string \<times> pval) list"

definition float_text :: "(rat \<Rightarrow> string) \<Rightarrow> string \<Rightarrow> string \<Rightarrow> string \<Rightarrow> pfloat \<Rightarrow> string" where
  "float_text repr pos neg nan x = (case x of Finite q \<Rightarrow> repr q
     | Infinite negative \<Rightarrow> if negative then neg else pos | NotANumber \<Rightarrow> nan)"

fun join_with :: "string \<Rightarrow> string list \<Rightarrow> string" where
  "join_with sep [] = []"
| "join_with sep [s] = s"
| "join_with sep (s # t # ts) = s @ sep @ join_with sep (t # ts)"

fun json_dumps :: "(rat \<Rightarrow> string) \<Rightarrow> pval \<Rightarrow> string" where
  "json_dumps repr PNull = ''null''"
| "json_dumps repr (PBool b) = (if b then ''true'' else ''false'')"
| "json_dumps repr (PInt i) = string_of_int i"
| "json_dumps repr (PFloat x) = float_text repr ''Infinity'' ''-Infinity'' ''NaN'' x"
| "json_dumps repr (PStr s) = json_string s"
| "json_dumps repr (PList vs) = ''['' @ join_with '','' (map (json_dumps repr) vs) @ '']''"
| "json_dumps repr (PDict kvs) =
     ''{'' @ join_with '','' (map (\<lambda>(k, t). json_string k @ '':'' @ t)
       (sort_key fst (map (\<lambda>(k, v). (k, json_dumps repr v)) kvs))) @ ''}''"

text \<open>\<open>bool(value)\<close>.\<close>

definition pval_truthy :: "pval \<Rightarrow> bool" where
  "pval_truthy v = (case v of PNull \<Rightarrow> False | PBool b \<Rightarrow> b | PInt i \<Rightarrow> i \<noteq> 0
     | PFloat x \<Rightarrow> x \<noteq> Finite 0 | PStr s \<Rightarrow> s \<noteq> [] | PList vs \<Rightarrow> vs \<noteq> [] | PDict kvs \<Rightarrow> kvs \<noteq> [])"

text \<open>\<open>repr\<close> of a string: single quotes unless the text has one and no double quote.\<close>

definition py_repr_char :: "char \<Rightarrow> char \<Rightarrow> string" where
  "py_repr_char q c =
     (let n = (of_char c :: nat) in
      if c = q \<or> n = 92 then [CHR 0x5C, c]
      else if n = 10 then [CHR 0x5C, CHR ''n'']
      else if n = 13 then [CHR 0x5C, CHR ''r'']
      else if n = 9 then [CHR 0x5C, CHR ''t'']
      else if n < 32 \<or> (127 \<le> n \<and> n \<le> 160) \<or> n = 173
        then [CHR 0x5C, CHR ''x'', hex_digit (n div 16), hex_digit (n mod 16)]
      else [c])"

definition py_repr_string :: "string \<Rightarrow> string" where
  "py_repr_string s =
     (let q = (if CHR 0x27 \<in> set s \<and> CHR 0x22 \<notin> set s then CHR 0x22 else CHR 0x27)
      in q # concat (map (py_repr_char q) s) @ [q])"

fun py_repr :: "(rat \<Rightarrow> string) \<Rightarrow> pval \<Rightarrow> string" where
  "py_repr repr PNull = ''None''"
| "py_repr repr (PBool b) = (if b then ''True'' else ''False'')"
| "py_repr repr (PInt i) = string_of_int i"
| "py_repr repr (PFloat x) = float_text repr ''inf'' ''-inf'' ''nan'' x"
| "py_repr repr (PStr s) = py_repr_string s"
| "py_repr repr (PList vs) = ''['' @ join_with '', '' (map (py_repr repr) vs) @ '']''"
| "py_repr repr (PDict kvs) =
     ''{'' @ join_with '', '' (map (\<lambda>(k, v). py_repr_string k @ '': '' @ py_repr repr v) kvs) @ ''}''"

definition pval_str :: "(rat \<Rightarrow> string) \<Rightarrow> pval \<Rightarrow> string" where
  "pval_str repr v = (case v of PStr s \<Rightarrow> s | _ \<Rightarrow> py_repr repr v)"

text \<open>
  \<open>str.casefold\<close> on the code points below 256: the capital letters, and the sharp s, which
  folds to two letters. The micro sign folds to a character outside the range and is left.
\<close>

definition casefold_char :: "char \<Rightarrow> string" where
  "casefold_char c =
     (let n = (of_char c :: nat) in
      if 65 \<le> n \<and> n \<le> 90 \<or> 192 \<le> n \<and> n \<le> 222 \<and> n \<noteq> 215 then [char_of (n + 32)]
      else if n = 223 then ''ss'' else [c])"

definition casefold :: "string \<Rightarrow> string" where
  "casefold s = concat (map casefold_char s)"

text \<open>\<open>payload.get(field)\<close>, where an absent field reads as \<open>None\<close>.\<close>

definition pget :: "string \<Rightarrow> payload \<Rightarrow> pval" where
  "pget field p = (case map_of p field of None \<Rightarrow> PNull | Some v \<Rightarrow> v)"

text \<open>\<open>{**p, **q}\<close>: later entries win and keep the place of the entry they replace.\<close>

fun dict_set :: "string \<Rightarrow> 'v \<Rightarrow> (string \<times> 'v) list \<Rightarrow> (string \<times> 'v) list" where
  "dict_set k v [] = [(k, v)]"
| "dict_set k v ((k', v') # p) = (if k = k' then (k, v) # p else (k', v') # dict_set k v p)"

definition dict_merge :: "(string \<times> 'v) list \<Rightarrow> (string \<times> 'v) list \<Rightarrow> (string \<times> 'v) list" where
  "dict_merge p q = fold (\<lambda>(k, v). dict_set k v) q p"

lemma map_of_dict_set [simp]: "map_of (dict_set k v p) = (map_of p)(k \<mapsto> v)"
  by (induction p) (auto simp: fun_eq_iff)

lemma map_of_dict_merge: "map_of (dict_merge p q) k = (case map_of (rev q) k of None \<Rightarrow> map_of p k | Some v \<Rightarrow> Some v)"
  by (induction q arbitrary: p)
    (auto simp: dict_merge_def map_add_def split: option.splits)

end
