(* ===== verification/Outbox_Model.thy ===== *)
theory Outbox_Model
  imports Json
begin

text \<open>
  The tables of the transactional outbox (\<^verbatim>\<open>app/outbox/schema.py\<close>) and the values that
  travel between its parts (\<^verbatim>\<open>app/outbox/ports.py\<close>). A row type has the columns the
  modelled code reads or writes. Statuses the schema restricts with a CHECK constraint are
  datatypes.
\<close>

section \<open>Rows\<close>

datatype delivery_status = Pending | Running | Retry_wait | Delivered | Dead_letter

datatype attempt_status = A_running | A_delivered | A_failed | A_expired

datatype storage_state = Full | Compacted

record delivery_summary =
  ds_consumer_name :: string
  ds_status :: delivery_status
  ds_version :: int
  ds_delivered_at :: "time option"
  ds_attempt_number :: int
  ds_replay_generation :: int

record event_row =
  ev_event_id :: string
  ev_event_type :: string
  ev_schema_version :: "int option"
  ev_aggregate_type :: string
  ev_aggregate_id :: string
  ev_transition_version :: int
  ev_occurred_at :: time
  ev_payload :: "payload option"
  ev_payload_fingerprint :: string
  ev_trace_id :: "string option"
  ev_created_at :: time
  ev_storage_state :: storage_state
  ev_compact_after_at :: "time option"
  ev_compacted_at :: "time option"
  ev_compacted_summary :: "delivery_summary list option"

record recipient_row =
  rc_event_id :: string
  rc_user_id :: string
  rc_kind :: string
  rc_required_role :: "string option"
  rc_selection_reason :: string
  rc_role_snapshot :: string
  rc_lifecycle_snapshot :: string
  rc_selected_at :: time

record delivery_row =
  dl_event_id :: string
  dl_consumer_name :: string
  dl_status :: delivery_status
  dl_version :: int
  dl_replay_generation :: int
  dl_attempt_number :: int
  dl_cycle_attempt_number :: int
  dl_error_category :: "string option"
  dl_error_code :: "string option"
  dl_next_attempt_at :: "time option"
  dl_lease_owner :: "string option"
  dl_lease_expires_at :: "time option"
  dl_fence_token :: "int option"
  dl_delivered_at :: "time option"

record attempt_row =
  at_attempt_id :: string
  at_event_id :: string
  at_consumer_name :: string
  at_replay_generation :: int
  at_attempt_number :: int
  at_cycle_attempt_number :: int
  at_fence_token :: int
  at_started_at :: time
  at_ended_at :: "time option"
  at_status :: attempt_status
  at_error_category :: "string option"
  at_error_code :: "string option"

record notification_row =
  nt_id :: string
  nt_event_id :: string
  nt_user_id :: string
  nt_type :: string
  nt_title :: string
  nt_payload :: payload
  nt_document_id :: "string option"
  nt_document_version_id :: "string option"
  nt_event_occurred_at :: time
  nt_materialized_at :: time
  nt_seq :: int
  nt_read_at :: "time option"
  nt_retire_after_at :: time
  nt_redacted :: bool

record inbox_row =
  ib_user_id :: string
  ib_next_seq :: int
  ib_read_through_seq :: int
  ib_read_all_at :: "time option"
  ib_version :: int
  ib_retired :: bool

record suppression_row =
  sp_event_id :: string
  sp_user_id :: string
  sp_reason :: string
  sp_suppressed_at :: time

record ack_row =
  ak_event_id :: string
  ak_user_id :: string
  ak_acked_at :: time

record receipt_row =
  rt_event_id :: string
  rt_user_id :: string
  rt_outcome :: string
  rt_seq :: "int option"
  rt_occurred_at :: time
  rt_materialized_at :: "time option"
  rt_retired_at :: "time option"
  rt_fingerprint :: string

record replay_receipt =
  rr_event_id :: string
  rr_consumer_name :: string
  rr_status :: delivery_status
  rr_replay_generation :: int
  rr_version :: int

record replay_idem_row =
  ri_event_id :: string
  ri_consumer_name :: string
  ri_key :: string
  ri_request_hash :: string
  ri_completed :: bool
  ri_response :: "replay_receipt option"
  ri_created_at :: time

record metric_row =
  mt_name :: string
  mt_observed_at :: time
  mt_value :: rat
  mt_event_id :: "string option"

record audit_row =
  au_actor_id :: string
  au_resource_type :: string
  au_resource_id :: string
  au_request_id :: string
  au_occurred_at :: time
  au_result :: string
  au_consumer_name :: string
  au_error_code :: string

text \<open>The columns of the identity and documents tables that materialization reads.\<close>

record user_row =
  us_id :: string
  us_role :: string
  us_lifecycle_status :: string

record document_row =
  dc_id :: string
  dc_name :: "string option"
  dc_lifecycle_status :: string

record doc_tombstone_row =
  dt_document_id :: string
  dt_document_version_id :: string
  dt_deletion_id :: string
  dt_created_at :: time

record retirement_tombstone_row =
  tb_user_id :: string
  tb_next_seq :: int
  tb_read_through_seq :: int
  tb_retired_at :: time

text \<open>The command tables of the lifecycle operations; their receipts are kept as counts.\<close>

datatype command_state = C_pending | C_accepted | C_completed

record redaction_row =
  rx_operation_id :: string
  rx_deletion_id :: string
  rx_document_id :: string
  rx_version_ids :: "string list"
  rx_input_fingerprint :: string
  rx_state :: command_state
  rx_redacted_count :: nat
  rx_already_redacted_count :: nat
  rx_created_at :: time

record retirement_row =
  rw_operation_id :: string
  rw_user_id :: string
  rw_deletion_id :: string
  rw_input_fingerprint :: string
  rw_archive_ref :: string
  rw_archive_checksum :: string
  rw_archive_ref_fingerprint :: string
  rw_durable :: bool
  rw_state :: command_state
  rw_receipt_count :: nat
  rw_notification_retired_count :: nat
  rw_inbox_removed :: bool
  rw_created_at :: time
  rw_completed_at :: "time option"

record compaction_row =
  cw_operation_id :: string
  cw_user_id :: string
  cw_deletion_id :: string
  cw_retirement_receipt_id :: string
  cw_input_fingerprint :: string
  cw_state :: command_state
  cw_eligible_count :: nat
  cw_compacted_count :: nat
  cw_blocked_count :: nat
  cw_created_at :: time
  cw_completed_at :: "time option"

section \<open>The database\<close>

record outbox_db =
  events :: "event_row list"
  recipients :: "recipient_row list"
  deliveries :: "delivery_row list"
  attempts :: "attempt_row list"
  notifications :: "notification_row list"
  inboxes :: "inbox_row list"
  suppressions :: "suppression_row list"
  acks :: "ack_row list"
  receipts :: "receipt_row list"
  replay_idem :: "replay_idem_row list"
  retirement_tombstones :: "retirement_tombstone_row list"
  doc_tombstones :: "doc_tombstone_row list"
  redactions :: "redaction_row list"
  retirements :: "retirement_row list"
  compactions :: "compaction_row list"
  users :: "user_row list"
  documents :: "document_row list"
  metrics :: "metric_row list"
  audits :: "audit_row list"

section \<open>Values\<close>

record delivery_claim =
  cl_event_id :: string
  cl_consumer_name :: string
  cl_version :: int
  cl_replay_generation :: int
  cl_attempt_number :: int
  cl_cycle_attempt_number :: int
  cl_fence_token :: int
  cl_lease_expires_at :: time
  cl_started_at :: time
  cl_attempt_id :: string
  cl_payload :: "payload option"
  cl_notification_type :: "string option"
  cl_title :: "string option"
  cl_redacted_title :: string
  cl_document_id :: "string option"
  cl_document_version_id :: "string option"

datatype outcome_status = O_delivered | O_failed | O_dead_letter

record delivery_outcome =
  oc_status :: outcome_status
  oc_error_category :: "string option"
  oc_error_code :: "string option"
  oc_retry_after_seconds :: "int option"

record materialization =
  mz_event_id :: string
  mz_user_id :: string
  mz_notification_id :: string
  mz_type :: string
  mz_title :: string
  mz_payload :: payload
  mz_seq :: int
  mz_read_at :: "time option"

record ops_delivery_view =
  ov_event_id :: string
  ov_consumer_name :: string
  ov_status :: delivery_status
  ov_version :: int
  ov_replay_generation :: int
  ov_attempt_number :: int
  ov_error_category :: "string option"
  ov_error_code :: "string option"
  ov_replayable :: bool
  ov_next_attempt_at :: "time option"
  ov_lease_expires_at :: "time option"

text \<open>
  The constructor arguments of the services that decide anything: which consumers are
  registered, whether a metrics sink is installed, the retention periods and lease length,
  the request id of the ambient context, and the SHA-256 hex digest and the
  decimal form of a float.
\<close>

record outbox_cfg =
  cf_consumers :: "string list"
  cf_metrics :: bool
  cf_retention_days :: int
  cf_notification_retention_days :: int
  cf_lease_seconds :: int
  cf_request_id :: "string option"
  cf_sha256 :: "string \<Rightarrow> string"
  cf_float_repr :: "rat \<Rightarrow> string"

section \<open>Keys\<close>

definition event_key :: "event_row \<Rightarrow> string" where
  "event_key r = ev_event_id r"

definition recipient_key :: "recipient_row \<Rightarrow> string \<times> string" where
  "recipient_key r = (rc_event_id r, rc_user_id r)"

definition delivery_key :: "delivery_row \<Rightarrow> string \<times> string" where
  "delivery_key r = (dl_event_id r, dl_consumer_name r)"

definition attempt_key :: "attempt_row \<Rightarrow> string" where
  "attempt_key r = at_attempt_id r"

definition notification_key :: "notification_row \<Rightarrow> string" where
  "notification_key r = nt_id r"

definition notification_event_recipient :: "notification_row \<Rightarrow> string \<times> string" where
  "notification_event_recipient r = (nt_event_id r, nt_user_id r)"

definition notification_recipient_seq :: "notification_row \<Rightarrow> string \<times> int" where
  "notification_recipient_seq r = (nt_user_id r, nt_seq r)"

definition inbox_key :: "inbox_row \<Rightarrow> string" where
  "inbox_key r = ib_user_id r"

definition suppression_key :: "suppression_row \<Rightarrow> string \<times> string" where
  "suppression_key r = (sp_event_id r, sp_user_id r)"

definition ack_key :: "ack_row \<Rightarrow> string \<times> string" where
  "ack_key r = (ak_event_id r, ak_user_id r)"

definition receipt_key :: "receipt_row \<Rightarrow> string \<times> string" where
  "receipt_key r = (rt_event_id r, rt_user_id r)"

definition replay_idem_key :: "replay_idem_row \<Rightarrow> string \<times> string \<times> string" where
  "replay_idem_key r = (ri_event_id r, ri_consumer_name r, ri_key r)"

definition doc_tombstone_key :: "doc_tombstone_row \<Rightarrow> string \<times> string" where
  "doc_tombstone_key r = (dt_document_id r, dt_document_version_id r)"

lemmas key_defs =
  event_key_def recipient_key_def delivery_key_def attempt_key_def notification_key_def
  notification_event_recipient_def notification_recipient_seq_def inbox_key_def
  suppression_key_def ack_key_def receipt_key_def replay_idem_key_def
  doc_tombstone_key_def

text \<open>INSERT INTO notification: one primary key and two unique constraints.\<close>

definition insert_notification ::
    "notification_row \<Rightarrow> notification_row list \<Rightarrow> notification_row list option" where
  "insert_notification r t =
     (if notification_event_recipient r \<in> notification_event_recipient ` set t
         \<or> notification_recipient_seq r \<in> notification_recipient_seq ` set t
      then None else sql_insert notification_key r t)"

section \<open>Constants and small helpers\<close>

definition V1_CONSUMER :: string where
  "V1_CONSUMER = ''in_app_notification''"

definition DELETED_DOCUMENT_TITLE :: string where
  "DELETED_DOCUMENT_TITLE = ''Deleted document''"

definition MAX_ONLINE_NOTIFICATIONS :: nat where
  "MAX_ONLINE_NOTIFICATIONS = 50"

text \<open>\<open>SqlAlchemyOutboxMetrics.record\<close> behind the dispatcher's \<open>_record_metric\<close>.\<close>

definition record_metric ::
    "outbox_cfg \<Rightarrow> time \<Rightarrow> string \<Rightarrow> string option \<Rightarrow> rat option \<Rightarrow> outbox_db \<Rightarrow> outbox_db" where
  "record_metric cfg now name ev v db =
     (if cf_metrics cfg
      then db\<lparr>metrics := metrics db @
             [\<lparr>mt_name = name, mt_observed_at = now,
               mt_value = (case v of None \<Rightarrow> 1 | Some x \<Rightarrow> x), mt_event_id = ev\<rparr>]\<rparr>
      else db)"

definition prune_metrics_before :: "time \<Rightarrow> outbox_db \<Rightarrow> outbox_db" where
  "prune_metrics_before cutoff db =
     db\<lparr>metrics := sql_delete (\<lambda>m. mt_observed_at m < cutoff) (metrics db)\<rparr>"

definition status_name :: "delivery_status \<Rightarrow> string" where
  "status_name s = (case s of Pending \<Rightarrow> ''pending'' | Running \<Rightarrow> ''running''
     | Retry_wait \<Rightarrow> ''retry_wait'' | Delivered \<Rightarrow> ''delivered''
     | Dead_letter \<Rightarrow> ''dead_letter'')"

definition record_status_metric ::
    "outbox_cfg \<Rightarrow> time \<Rightarrow> delivery_status \<Rightarrow> string option \<Rightarrow> outbox_db \<Rightarrow> outbox_db" where
  "record_status_metric cfg now st ev db =
     record_metric cfg now (''outbox.deliveries.status.'' @ status_name st) ev (Some 1) db"

text \<open>
  Writing a metric changes the metrics table only; these rules let the simplifier look
  through it at every other table.
\<close>

named_theorems frame "what an operation leaves alone"

lemma record_metric_frame [simp, frame]:
  "events (record_metric cfg now n ev v db) = events db"
  "recipients (record_metric cfg now n ev v db) = recipients db"
  "deliveries (record_metric cfg now n ev v db) = deliveries db"
  "attempts (record_metric cfg now n ev v db) = attempts db"
  "notifications (record_metric cfg now n ev v db) = notifications db"
  "inboxes (record_metric cfg now n ev v db) = inboxes db"
  "suppressions (record_metric cfg now n ev v db) = suppressions db"
  "acks (record_metric cfg now n ev v db) = acks db"
  "receipts (record_metric cfg now n ev v db) = receipts db"
  "replay_idem (record_metric cfg now n ev v db) = replay_idem db"
  "retirement_tombstones (record_metric cfg now n ev v db) = retirement_tombstones db"
  "doc_tombstones (record_metric cfg now n ev v db) = doc_tombstones db"
  "redactions (record_metric cfg now n ev v db) = redactions db"
  "retirements (record_metric cfg now n ev v db) = retirements db"
  "compactions (record_metric cfg now n ev v db) = compactions db"
  "users (record_metric cfg now n ev v db) = users db"
  "documents (record_metric cfg now n ev v db) = documents db"
  "audits (record_metric cfg now n ev v db) = audits db"
  by (simp_all add: record_metric_def)

lemma record_status_metric_frame [simp, frame]:
  "events (record_status_metric cfg now st ev db) = events db"
  "recipients (record_status_metric cfg now st ev db) = recipients db"
  "deliveries (record_status_metric cfg now st ev db) = deliveries db"
  "attempts (record_status_metric cfg now st ev db) = attempts db"
  "notifications (record_status_metric cfg now st ev db) = notifications db"
  "inboxes (record_status_metric cfg now st ev db) = inboxes db"
  "suppressions (record_status_metric cfg now st ev db) = suppressions db"
  "acks (record_status_metric cfg now st ev db) = acks db"
  "receipts (record_status_metric cfg now st ev db) = receipts db"
  "replay_idem (record_status_metric cfg now st ev db) = replay_idem db"
  "retirement_tombstones (record_status_metric cfg now st ev db) = retirement_tombstones db"
  "doc_tombstones (record_status_metric cfg now st ev db) = doc_tombstones db"
  "redactions (record_status_metric cfg now st ev db) = redactions db"
  "retirements (record_status_metric cfg now st ev db) = retirements db"
  "compactions (record_status_metric cfg now st ev db) = compactions db"
  "users (record_status_metric cfg now st ev db) = users db"
  "documents (record_status_metric cfg now st ev db) = documents db"
  "audits (record_status_metric cfg now st ev db) = audits db"
  by (simp_all add: record_status_metric_def)

end
