(* ===== verification/Outbox_Notifications.thy ===== *)
theory Outbox_Notifications
  imports Outbox_Model
begin

text \<open>
  The in-app notification read model: materialization of one event for one recipient
  (\<^verbatim>\<open>app/outbox/notifications.py\<close>), retirement of notifications with a permanent
  receipt (\<^verbatim>\<open>app/outbox/maintenance.py\<close>), and the inbox operations of a user
  (\<^verbatim>\<open>app/outbox/service.py\<close>). Per-user advisory locks serialise these transactions, so
  each is one atomic step on the database.
\<close>

section \<open>Receipts\<close>

text \<open>
  \<open>canonical_receipt_fingerprint\<close>: SHA-256 of a domain prefix and the JSON object with
  sorted keys. The digest itself is the parameter \<open>sha\<close>.
\<close>

definition canonical_receipt_fingerprint ::
    "(string \<Rightarrow> string) \<Rightarrow> string \<Rightarrow> string \<Rightarrow> string \<Rightarrow> int option \<Rightarrow> string" where
  "canonical_receipt_fingerprint sha event_id recipient_user_id outcome seq =
     sha (''outbox-receipt-v1'' @ [CHR 0x00] @ ''{'' @
       json_string ''event_id'' @ '':'' @ json_string event_id @ '','' @
       json_string ''outcome'' @ '':'' @ json_string outcome @ '','' @
       json_string ''recipient_user_id'' @ '':'' @ json_string recipient_user_id @ '','' @
       json_string ''seq'' @ '':'' @
       (case seq of None \<Rightarrow> ''null'' | Some n \<Rightarrow> string_of_int n) @ ''}'')"

text \<open>\<open>retire_notification_by_id\<close>: receipt first, then the projection and its ack.\<close>

definition retire_notification_by_id ::
    "outbox_cfg \<Rightarrow> string \<Rightarrow> time \<Rightarrow> outbox_db \<Rightarrow> bool \<times> outbox_db" where
  "retire_notification_by_id cfg notification_id now db =
     (case sql_first (\<lambda>n. nt_id n = notification_id) (notifications db) of
        None \<Rightarrow> (False, db)
      | Some row \<Rightarrow>
          let event_id = nt_event_id row;
              user_id = nt_user_id row;
              existing = sql_first (\<lambda>r. rt_event_id r = event_id \<and> rt_user_id r = user_id)
                           (receipts db);
              db1 = (case existing of
                 Some _ \<Rightarrow> db
               | None \<Rightarrow> db\<lparr>receipts := receipts db @
                   [\<lparr>rt_event_id = event_id, rt_user_id = user_id,
                     rt_outcome = ''materialized'', rt_seq = Some (nt_seq row),
                     rt_occurred_at = nt_event_occurred_at row,
                     rt_materialized_at = Some (nt_materialized_at row),
                     rt_retired_at = Some now,
                     rt_fingerprint = canonical_receipt_fingerprint (cf_sha256 cfg) event_id user_id
                                        ''materialized'' (Some (nt_seq row))\<rparr>]\<rparr>);
              db2 = db1\<lparr>notifications := sql_delete (\<lambda>n. nt_id n = notification_id)
                                            (notifications db1)\<rparr>
          in (True, db2\<lparr>acks := sql_delete (\<lambda>a. ak_event_id a = event_id \<and> ak_user_id a = user_id)
                                 (acks db2)\<rparr>))"

text \<open>The loop \<open>for notification_id in over: retire_notification_by_id(...)\<close>, counting.\<close>

fun retire_all ::
    "outbox_cfg \<Rightarrow> time \<Rightarrow> string list \<Rightarrow> nat \<times> outbox_db \<Rightarrow> nat \<times> outbox_db" where
  "retire_all cfg now [] (k, db) = (k, db)"
| "retire_all cfg now (i # is) (k, db) =
     (let (done, db') = retire_notification_by_id cfg i now db
      in retire_all cfg now is (if done then Suc k else k, db'))"

section \<open>Materialization\<close>

text \<open>\<open>_suppress\<close>: an INSERT, so a second suppression of the same recipient is an
  integrity error.\<close>

definition suppress :: "string \<Rightarrow> string \<Rightarrow> string \<Rightarrow> time \<Rightarrow> outbox_db \<Rightarrow> exn + outbox_db" where
  "suppress event_id user_id reason now db =
     (case sql_insert suppression_key
         \<lparr>sp_event_id = event_id, sp_user_id = user_id, sp_reason = reason, sp_suppressed_at = now\<rparr>
         (suppressions db) of
        None \<Rightarrow> Inl IntegrityError
      | Some t \<Rightarrow> Inr (db\<lparr>suppressions := t\<rparr>))"

text \<open>\<open>_trim_over_cap\<close>: unexpired notifications of the user, newest first, past the cap.\<close>

definition online_desc :: "string \<Rightarrow> time \<Rightarrow> outbox_db \<Rightarrow> notification_row list" where
  "online_desc user_id now db =
     rev (sort_key nt_seq
       (sql_where (\<lambda>n. nt_user_id n = user_id \<and> nt_retire_after_at n > now) (notifications db)))"

definition trim_over_cap :: "outbox_cfg \<Rightarrow> string \<Rightarrow> time \<Rightarrow> outbox_db \<Rightarrow> outbox_db" where
  "trim_over_cap cfg user_id now db =
     (let over = map nt_id (drop MAX_ONLINE_NOTIFICATIONS (online_desc user_id now db))
      in snd (retire_all cfg now over (0, db)))"

text \<open>
  \<open>_materialize_new\<close>, first half: the recipient's next sequence number, with the inbox
  created or advanced.
\<close>

definition next_sequence :: "string \<Rightarrow> outbox_db \<Rightarrow> int \<times> outbox_db" where
  "next_sequence recipient_user_id db =
     (case sql_first (\<lambda>i. ib_user_id i = recipient_user_id) (inboxes db) of
        None \<Rightarrow> (1, db\<lparr>inboxes := inboxes db @
          [\<lparr>ib_user_id = recipient_user_id, ib_next_seq = 2, ib_read_through_seq = 0,
            ib_read_all_at = None, ib_version = 1, ib_retired = False\<rparr>]\<rparr>)
      | Some inbox \<Rightarrow> (ib_next_seq inbox,
          db\<lparr>inboxes := sql_update (\<lambda>i. ib_user_id i = recipient_user_id)
               (\<lambda>i. i\<lparr>ib_next_seq := ib_next_seq inbox + 1,
                      ib_version := ib_version inbox + 1\<rparr>) (inboxes db)\<rparr>))"

text \<open>\<open>_materialize_new\<close>.\<close>


definition materialize_new ::
    "outbox_cfg \<Rightarrow> event_row \<Rightarrow> string \<Rightarrow> string \<Rightarrow> string \<Rightarrow> string \<Rightarrow> string option \<Rightarrow>
     string option \<Rightarrow> bool \<Rightarrow> time \<Rightarrow> outbox_db \<Rightarrow> exn + materialization \<times> outbox_db" where
  "materialize_new cfg event recipient_user_id notification_id notification_type title
       document_id document_version_id redacted now db =
     (let ack = sql_first (\<lambda>a. ak_event_id a = ev_event_id event \<and> ak_user_id a = recipient_user_id)
                  (acks db);
          acked_at = map_option ak_acked_at ack;
          (notification_seq, db1) = next_sequence recipient_user_id db;
          payload = (if redacted then [] else case ev_payload event of None \<Rightarrow> [] | Some p \<Rightarrow> p)
      in case insert_notification
           \<lparr>nt_id = notification_id, nt_event_id = ev_event_id event,
             nt_user_id = recipient_user_id, nt_type = notification_type, nt_title = title,
             nt_payload = payload, nt_document_id = document_id,
             nt_document_version_id = document_version_id,
             nt_event_occurred_at = ev_occurred_at event, nt_materialized_at = now,
             nt_seq = notification_seq, nt_read_at = acked_at,
             nt_retire_after_at = now + days (cf_notification_retention_days cfg),
             nt_redacted = redacted\<rparr> (notifications db1) of
          None \<Rightarrow> Inl IntegrityError
        | Some t \<Rightarrow>
            let db2 = db1\<lparr>notifications := t\<rparr>;
                db3 = trim_over_cap cfg recipient_user_id now db2
            in Inr (\<lparr>mz_event_id = ev_event_id event, mz_user_id = recipient_user_id,
                      mz_notification_id = notification_id, mz_type = notification_type,
                      mz_title = title, mz_payload = payload, mz_seq = notification_seq,
                      mz_read_at = acked_at\<rparr>, db3))"

text \<open>\<open>_existing_notification\<close>.\<close>

definition existing_notification :: "notification_row \<Rightarrow> materialization" where
  "existing_notification row =
     \<lparr>mz_event_id = nt_event_id row, mz_user_id = nt_user_id row,
      mz_notification_id = nt_id row, mz_type = nt_type row, mz_title = nt_title row,
      mz_payload = nt_payload row, mz_seq = nt_seq row, mz_read_at = nt_read_at row\<rparr>"

text \<open>
  \<open>NotificationMaterializer.materialize\<close>; \<open>None\<close> in the result is a suppressed recipient.
\<close>

definition materialize ::
    "outbox_cfg \<Rightarrow> event_row \<Rightarrow> recipient_row \<Rightarrow> string \<Rightarrow> string \<Rightarrow> string \<Rightarrow> string option \<Rightarrow>
     string option \<Rightarrow> bool \<Rightarrow> time \<Rightarrow> outbox_db \<Rightarrow> exn + materialization option \<times> outbox_db" where
  "materialize cfg event recipient notification_id notification_type title
       document_id document_version_id redacted now db =
     (let event_id = ev_event_id event;
          user_id = rc_user_id recipient;
          suppressed = (\<lambda>reason. case suppress event_id user_id reason now db of
             Inl e \<Rightarrow> Inl e | Inr db' \<Rightarrow> Inr (None, db'))
      in case sql_first (\<lambda>u. us_id u = user_id) (users db) of
        None \<Rightarrow> suppressed ''recipient_inactive''
      | Some account \<Rightarrow>
          if us_lifecycle_status account \<noteq> ''active'' then suppressed ''recipient_inactive''
          else if rc_kind recipient = ''role_snapshot'' \<and> rc_required_role recipient \<noteq> None
                  \<and> Some (us_role account) \<noteq> rc_required_role recipient
          then suppressed ''recipient_unauthorized''
          else case sql_first (\<lambda>n. nt_event_id n = event_id \<and> nt_user_id n = user_id)
                      (notifications db) of
            Some row \<Rightarrow> Inr (Some (existing_notification row), db)
          | None \<Rightarrow>
              if user_id \<in> tb_user_id ` set (retirement_tombstones db) then suppressed ''recipient_inactive''
              else if (case sql_first (\<lambda>i. ib_user_id i = user_id) (inboxes db) of
                         None \<Rightarrow> False | Some inbox \<Rightarrow> ib_retired inbox)
              then suppressed ''recipient_inactive''
              else case materialize_new cfg event user_id notification_id notification_type title
                          document_id document_version_id redacted now db of
                Inl e \<Rightarrow> Inl e
              | Inr (m, db') \<Rightarrow> Inr (Some m, db'))"

section \<open>Retention maintenance\<close>

definition expired_ids :: "time \<Rightarrow> nat \<Rightarrow> outbox_db \<Rightarrow> string list" where
  "expired_ids now limit db =
     take limit (map nt_id (sql_where (\<lambda>n. nt_retire_after_at n \<le> now) (notifications db)))"

text \<open>GROUP BY user HAVING count(*) > cap, in the order of the first row of each group.\<close>

definition over_cap_users :: "nat \<Rightarrow> outbox_db \<Rightarrow> string list" where
  "over_cap_users cap db =
     filter (\<lambda>u. sql_count (\<lambda>n. nt_user_id n = u) (notifications db) > cap)
       (remdups (map nt_user_id (notifications db)))"

fun trim_users ::
    "outbox_cfg \<Rightarrow> nat \<Rightarrow> time \<Rightarrow> nat \<Rightarrow> string list \<Rightarrow> nat \<times> outbox_db \<Rightarrow> nat \<times> outbox_db" where
  "trim_users cfg cap now limit [] (retired, db) = (retired, db)"
| "trim_users cfg cap now limit (u # us) (retired, db) =
     (if limit \<le> retired then (retired, db)
      else let over = map nt_id (drop cap (online_desc u now db))
           in trim_users cfg cap now limit us (retire_all cfg now over (retired, db)))"

text \<open>\<open>NotificationRetentionMaintenance._retire_due\<close>.\<close>

definition retire_due ::
    "outbox_cfg \<Rightarrow> nat \<Rightarrow> time \<Rightarrow> nat \<Rightarrow> outbox_db \<Rightarrow> nat \<times> outbox_db" where
  "retire_due cfg max_online now limit db =
     (let (retired, db1) = retire_all cfg now (expired_ids now limit db) (0, db)
      in trim_users cfg max_online now limit (over_cap_users max_online db1) (retired, db1))"

section \<open>The inbox of a user\<close>

record notification_item =
  ni_id :: string
  ni_type :: string
  ni_title :: string
  ni_payload :: payload
  ni_read :: bool
  ni_event_occurred_at :: time

definition read_through :: "string \<Rightarrow> outbox_db \<Rightarrow> int option" where
  "read_through user_id db =
     map_option ib_read_through_seq (sql_first (\<lambda>i. ib_user_id i = user_id) (inboxes db))"

text \<open>
  \<open>list_notifications\<close>: the outer join leaves \<open>read_through_seq\<close> NULL without an inbox, and
  the code reads NULL as 0.
\<close>

definition notification_item_of :: "int option \<Rightarrow> notification_row \<Rightarrow> notification_item" where
  "notification_item_of read_through_seq n =
     (let read_through = (case read_through_seq of None \<Rightarrow> 0 | Some r \<Rightarrow> r)
      in \<lparr>ni_id = nt_id n, ni_type = nt_type n, ni_title = nt_title n, ni_payload = nt_payload n,
          ni_read = (nt_read_at n \<noteq> None \<or> nt_seq n \<le> read_through),
          ni_event_occurred_at = nt_event_occurred_at n\<rparr>)"

definition list_notifications ::
    "string \<Rightarrow> nat \<Rightarrow> time \<Rightarrow> outbox_db \<Rightarrow> notification_item list" where
  "list_notifications user_id limit now db =
     map (notification_item_of (read_through user_id db)) (take limit (online_desc user_id now db))"

text \<open>
  \<open>unread_count\<close>: the same join, but the comparison with a NULL watermark is not true in
  SQL, so without an inbox nothing is counted.
\<close>

definition unread_count :: "string \<Rightarrow> time \<Rightarrow> outbox_db \<Rightarrow> nat" where
  "unread_count user_id now db =
     sql_count (\<lambda>n. nt_user_id n = user_id \<and> nt_retire_after_at n > now \<and> nt_read_at n = None
         \<and> (case read_through user_id db of None \<Rightarrow> False | Some r \<Rightarrow> nt_seq n > r))
       (notifications db)"

definition mark_read :: "string \<Rightarrow> string \<Rightarrow> time \<Rightarrow> outbox_db \<Rightarrow> exn + bool \<times> outbox_db" where
  "mark_read user_id notification_id now db =
     (case sql_first (\<lambda>n. nt_id n = notification_id \<and> nt_user_id n = user_id) (notifications db) of
        None \<Rightarrow> Inl (PlatformError ''not_found'' 404)
      | Some _ \<Rightarrow> Inr (True, db\<lparr>notifications :=
          sql_update (\<lambda>n. nt_id n = notification_id \<and> nt_user_id n = user_id \<and> nt_read_at n = None)
            (\<lambda>n. n\<lparr>nt_read_at := Some now\<rparr>) (notifications db)\<rparr>))"

text \<open>\<open>_read_all_in\<close>.\<close>

definition read_all :: "string \<Rightarrow> time \<Rightarrow> outbox_db \<Rightarrow> exn + outbox_db" where
  "read_all user_id now db =
     (case sql_first (\<lambda>i. ib_user_id i = user_id) (inboxes db) of
        None \<Rightarrow>
          let highest = (case sql_max (\<lambda>n. Some (nt_seq n))
                 (sql_where (\<lambda>n. nt_user_id n = user_id) (notifications db)) of
                 None \<Rightarrow> 0 | Some m \<Rightarrow> m)
          in Inr (db\<lparr>inboxes := inboxes db @
               [\<lparr>ib_user_id = user_id, ib_next_seq = highest + 1, ib_read_through_seq = highest,
                 ib_read_all_at = Some now, ib_version = 1, ib_retired = False\<rparr>]\<rparr>)
      | Some inbox \<Rightarrow>
          let target = ib_next_seq inbox - 1 in
          if target \<le> ib_read_through_seq inbox then Inr db
          else let matches = (\<lambda>i. ib_user_id i = user_id \<and> ib_version i = ib_version inbox) in
            if sql_count matches (inboxes db) \<noteq> 1
            then Inl (PlatformError ''inbox_version_conflict'' 409)
            else Inr (db\<lparr>inboxes := sql_update matches
                   (\<lambda>i. i\<lparr>ib_read_through_seq := target, ib_read_all_at := Some now,
                          ib_version := ib_version inbox + 1\<rparr>) (inboxes db)\<rparr>))"

text \<open>Acknowledgement: \<open>_assert_recipient_evidence\<close>, \<open>_write_ack\<close>, \<open>ack_event\<close>.\<close>

definition ACKNOWLEDGEABLE_EVENT_TYPES :: "string set" where
  "ACKNOWLEDGEABLE_EVENT_TYPES = {''ingestion_completed'', ''ocr_low_confidence''}"

definition has_receipt :: "string \<Rightarrow> string \<Rightarrow> outbox_db \<Rightarrow> string option" where
  "has_receipt event_id user_id db = map_option rt_outcome
     (sql_first (\<lambda>r. rt_event_id r = event_id \<and> rt_user_id r = user_id) (receipts db))"

definition recipient_evidence :: "string \<Rightarrow> string \<Rightarrow> outbox_db \<Rightarrow> bool" where
  "recipient_evidence event_id user_id db =
     (if (\<exists>s \<in> set (suppressions db). sp_event_id s = event_id \<and> sp_user_id s = user_id) then False
      else if (\<exists>r \<in> set (recipients db). rc_event_id r = event_id \<and> rc_user_id r = user_id) then True
      else if (\<exists>n \<in> set (notifications db). nt_event_id n = event_id \<and> nt_user_id n = user_id)
      then True
      else has_receipt event_id user_id db = Some ''materialized'')"

definition write_ack :: "string \<Rightarrow> string \<Rightarrow> time \<Rightarrow> outbox_db \<Rightarrow> outbox_db" where
  "write_ack event_id user_id now db =
     (let projection = sql_first (\<lambda>n. nt_event_id n = event_id \<and> nt_user_id n = user_id)
                         (notifications db)
      in if projection = None \<and> has_receipt event_id user_id db = Some ''materialized'' then db
         else
           let db1 = (case sql_insert ack_key
                    \<lparr>ak_event_id = event_id, ak_user_id = user_id, ak_acked_at = now\<rparr> (acks db) of
                  None \<Rightarrow> db | Some t \<Rightarrow> db\<lparr>acks := t\<rparr>)
           in db1\<lparr>notifications := sql_update
                (\<lambda>n. nt_event_id n = event_id \<and> nt_user_id n = user_id \<and> nt_read_at n = None)
                (\<lambda>n. n\<lparr>nt_read_at := Some now\<rparr>) (notifications db1)\<rparr>)"

definition ack_event ::
    "string \<Rightarrow> string \<Rightarrow> string option \<Rightarrow> time \<Rightarrow> outbox_db \<Rightarrow> exn + outbox_db" where
  "ack_event user_id event_id event_type now db =
     (case sql_first (\<lambda>e. ev_event_id e = event_id) (events db) of
        None \<Rightarrow> Inl (PlatformError ''not_found'' 404)
      | Some event \<Rightarrow>
          let actual_type = ev_event_type event in
          if event_type \<noteq> None \<and> event_type \<noteq> Some actual_type
          then Inl (PlatformError ''notification_event_not_acknowledgeable'' 409)
          else if actual_type \<notin> ACKNOWLEDGEABLE_EVENT_TYPES
          then Inl (PlatformError ''notification_event_not_acknowledgeable'' 409)
          else if \<not> recipient_evidence event_id user_id db
          then Inl (PlatformError ''not_found'' 404)
          else Inr (write_ack event_id user_id now db))"

end
