(* ===== verification/Outbox_Inbox.thy ===== *)
theory Outbox_Inbox
  imports Outbox_Notifications
begin

text \<open>
  Correctness of the notification read model: which tables each operation leaves alone, the
  inbox invariant (unique notifications per event and recipient, sequence numbers below the
  inbox counter), the cap on online notifications, receipts for everything retired, and the
  agreement of the unread counter with the list.
\<close>

section \<open>Frames\<close>

text \<open>The tables that belong to the dispatcher; no read-model operation writes them.\<close>

definition delivery_part :: "outbox_db \<Rightarrow>
    event_row list \<times> delivery_row list \<times> attempt_row list \<times> recipient_row list \<times> replay_idem_row list"
  where
  "delivery_part db = (events db, deliveries db, attempts db, recipients db, replay_idem db)"

lemma retire_delivery_part:
  "delivery_part (snd (retire_notification_by_id cfg i now db)) = delivery_part db"
  by (auto simp: retire_notification_by_id_def delivery_part_def Let_def split: option.splits)

lemma retire_inboxes [simp]: "inboxes (snd (retire_notification_by_id cfg i now db)) = inboxes db"
  and retire_suppressions [simp]:
    "suppressions (snd (retire_notification_by_id cfg i now db)) = suppressions db"
  by (auto simp: retire_notification_by_id_def Let_def split: option.splits)

lemma retire_tombstones [simp]:
  "doc_tombstones (snd (retire_notification_by_id cfg i now db)) = doc_tombstones db"
  "retirement_tombstones (snd (retire_notification_by_id cfg i now db)) = retirement_tombstones db"
  "redactions (snd (retire_notification_by_id cfg i now db)) = redactions db"
  by (auto simp: retire_notification_by_id_def Let_def split: option.splits)

lemma retire_notifications [simp]:
  "notifications (snd (retire_notification_by_id cfg i now db)) =
     filter (\<lambda>n. nt_id n \<noteq> i) (notifications db)"
proof (cases "sql_first (\<lambda>n. nt_id n = i) (notifications db)")
  case None
  then have "filter (\<lambda>n. nt_id n \<noteq> i) (notifications db) = notifications db"
    by (auto simp: sql filter_id_conv)
  then show ?thesis using None by (simp add: retire_notification_by_id_def)
next
  case (Some row)
  then show ?thesis
    by (auto simp: retire_notification_by_id_def sql_delete_def Let_def split: option.splits)
qed

lemma retire_all_count:
  "snd (retire_all cfg now js (m, x)) = snd (retire_all cfg now js (0, x))"
proof (induction js arbitrary: m x)
  case (Cons j js)
  obtain d y where r: "retire_notification_by_id cfg j now x = (d, y)" by fastforce
  show ?case by (simp add: r Cons.IH [of "Suc m"] Cons.IH [of "Suc 0"] Cons.IH [of m])
qed simp

lemma retire_all_step:
  "snd (retire_all cfg now (i # is) (k, db)) =
   snd (retire_all cfg now is (0, snd (retire_notification_by_id cfg i now db)))"
proof -
  obtain d y where r: "retire_notification_by_id cfg i now db = (d, y)" by fastforce
  show ?thesis by (simp add: r retire_all_count [of _ _ _ "Suc k"] retire_all_count [of _ _ _ k])
qed

lemma retire_all_delivery_part:
  "delivery_part (snd (retire_all cfg now is (k, db))) = delivery_part db"
proof (induction "is" arbitrary: k db)
  case (Cons i "is")
  then show ?case by (simp only: retire_all_step retire_delivery_part)
qed simp

lemma retire_all_inboxes [simp]: "inboxes (snd (retire_all cfg now is (k, db))) = inboxes db"
proof (induction "is" arbitrary: k db)
  case (Cons i "is")
  then show ?case by (simp only: retire_all_step retire_inboxes)
qed simp

lemma retire_all_suppressions [simp]:
  "suppressions (snd (retire_all cfg now is (k, db))) = suppressions db"
proof (induction "is" arbitrary: k db)
  case (Cons i "is")
  then show ?case by (simp only: retire_all_step retire_suppressions)
qed simp

lemma retire_all_tombstones [simp]:
  "doc_tombstones (snd (retire_all cfg now is (k, db))) = doc_tombstones db
   \<and> retirement_tombstones (snd (retire_all cfg now is (k, db))) = retirement_tombstones db
   \<and> redactions (snd (retire_all cfg now is (k, db))) = redactions db"
proof (induction "is" arbitrary: k db)
  case (Cons i "is")
  then show ?case by (simp only: retire_all_step retire_tombstones)
qed simp

text \<open>The loop removes exactly the rows whose ids it is given.\<close>

lemma retire_all_notifications [simp]:
  "notifications (snd (retire_all cfg now is (k, db))) =
     filter (\<lambda>n. nt_id n \<notin> set is) (notifications db)"
proof (induction "is" arbitrary: k db)
  case (Cons i "is")
  show ?case
    by (simp only: retire_all_step Cons.IH retire_notifications) (auto intro: filter_cong)
qed simp

section \<open>Receipts of what is retired\<close>

definition receipted :: "string \<Rightarrow> string \<Rightarrow> outbox_db \<Rightarrow> bool" where
  "receipted event_id user_id db \<longleftrightarrow>
     (\<exists>r \<in> set (receipts db). rt_event_id r = event_id \<and> rt_user_id r = user_id)"

lemma retire_receipts_mono:
  "set (receipts db) \<subseteq> set (receipts (snd (retire_notification_by_id cfg i now db)))"
  by (auto simp: retire_notification_by_id_def Let_def split: option.splits)

lemma receipted_retire:
  "receipted e u db \<Longrightarrow> receipted e u (snd (retire_notification_by_id cfg i now db))"
  using retire_receipts_mono unfolding receipted_def by blast

lemma receipted_retire_all:
  "receipted e u db \<Longrightarrow> receipted e u (snd (retire_all cfg now is (k, db)))"
proof (induction "is" arbitrary: k db)
  case (Cons i "is")
  then show ?case unfolding retire_all_step by (blast intro: receipted_retire)
qed simp

lemma retire_writes_receipt:
  assumes "keyed notification_key (notifications db)" and "n \<in> set (notifications db)"
  shows "receipted (nt_event_id n) (nt_user_id n) (snd (retire_notification_by_id cfg (nt_id n) now db))"
proof -
  have "sql_first (\<lambda>x. nt_id x = nt_id n) (notifications db) = Some n"
    by (rule sql_first_keyed [OF assms]) (simp_all add: key_defs)
  then show ?thesis
    by (auto simp: retire_notification_by_id_def receipted_def Let_def split: option.splits
        dest: sql_first_Some)
qed

lemma keyed_filter: "keyed key t \<Longrightarrow> keyed key (filter p t)"
  by (auto simp: keyed_def distinct_map intro: inj_on_subset)

lemma retire_all_receipts:
  assumes "keyed notification_key (notifications db)" and "n \<in> set (notifications db)"
  shows "n \<in> set (notifications (snd (retire_all cfg now is (k, db))))
       \<or> receipted (nt_event_id n) (nt_user_id n) (snd (retire_all cfg now is (k, db)))"
  using assms
proof (induction "is" arbitrary: k db)
  case (Cons i "is")
  let ?db = "snd (retire_notification_by_id cfg i now db)"
  have kd: "keyed notification_key (notifications ?db)"
    using Cons.prems(1) by (simp add: keyed_filter)
  show ?case
  proof (cases "nt_id n = i")
    case True
    then have "receipted (nt_event_id n) (nt_user_id n) ?db"
      using retire_writes_receipt [OF Cons.prems] by blast
    then show ?thesis unfolding retire_all_step by (blast intro: receipted_retire_all)
  next
    case False
    then have "n \<in> set (notifications ?db)" using Cons.prems(2) by simp
    then show ?thesis unfolding retire_all_step using Cons.IH [OF kd] by blast
  qed
qed simp

section \<open>The cap\<close>

lemma trim_notifications:
  "notifications (trim_over_cap cfg u now db) =
     filter (\<lambda>n. nt_id n \<notin> set (map nt_id (drop MAX_ONLINE_NOTIFICATIONS (online_desc u now db))))
       (notifications db)"
  unfolding trim_over_cap_def Let_def by (rule retire_all_notifications)

lemma filter_not_in_drop:
  assumes "distinct (map f xs)"
  shows "filter (\<lambda>x. f x \<notin> set (map f (drop k xs))) xs = take k xs"
proof -
  let ?p = "\<lambda>x. f x \<notin> set (map f (drop k xs))"
  have split: "xs = take k xs @ drop k xs" by simp
  then have "distinct (map f (take k xs) @ map f (drop k xs))"
    using assms by (metis map_append)
  then have disj: "set (map f (take k xs)) \<inter> set (map f (drop k xs)) = {}" by simp
  have "filter ?p (take k xs) = take k xs" using disj by (auto simp: filter_id_conv)
  moreover have "filter ?p (drop k xs) = []" by (auto simp: filter_empty_conv)
  ultimately show ?thesis by (metis append_Nil2 filter_append split)
qed

lemma online_desc_filter:
  "online_desc u now (db\<lparr>notifications := filter p (notifications db)\<rparr>) =
     filter p (online_desc u now db)"
  by (simp add: online_desc_def sql_where_def filter_sort rev_filter [symmetric] conj_commute
      filter_filter)

lemma online_desc_cong:
  "notifications db' = notifications db \<Longrightarrow> online_desc u now db' = online_desc u now db"
  by (simp add: online_desc_def)

lemma distinct_online_ids:
  assumes "keyed notification_key (notifications db)"
  shows "distinct (map nt_id (online_desc u now db))"
proof -
  have inj: "inj_on nt_id (set (notifications db))" and "distinct (notifications db)"
    using assms by (auto simp: keyed_def distinct_map key_defs inj_on_def)
  then have "distinct (online_desc u now db)" by (simp add: online_desc_def sql_where_def)
  moreover have "inj_on nt_id (set (online_desc u now db))"
    by (rule inj_on_subset [OF inj]) (auto simp: online_desc_def)
  ultimately show ?thesis by (simp add: distinct_map)
qed

lemma trim_online:
  assumes "keyed notification_key (notifications db)"
  shows "online_desc u now (trim_over_cap cfg u now db) =
           take MAX_ONLINE_NOTIFICATIONS (online_desc u now db)"
proof -
  let ?over = "set (map nt_id (drop MAX_ONLINE_NOTIFICATIONS (online_desc u now db)))"
  have "online_desc u now (trim_over_cap cfg u now db) =
          online_desc u now (db\<lparr>notifications := filter (\<lambda>n. nt_id n \<notin> ?over) (notifications db)\<rparr>)"
    by (rule online_desc_cong) (simp add: trim_notifications)
  also have "\<dots> = filter (\<lambda>n. nt_id n \<notin> ?over) (online_desc u now db)"
    by (rule online_desc_filter)
  also have "\<dots> = take MAX_ONLINE_NOTIFICATIONS (online_desc u now db)"
    by (rule filter_not_in_drop [OF distinct_online_ids [OF assms]])
  finally show ?thesis .
qed

section \<open>The inbox invariant\<close>

definition inbox_ok :: "inbox_row \<Rightarrow> bool" where
  "inbox_ok i \<longleftrightarrow> 1 \<le> ib_next_seq i \<and> 0 \<le> ib_read_through_seq i \<and> ib_read_through_seq i < ib_next_seq i"

definition inbox_inv :: "outbox_db \<Rightarrow> bool" where
  "inbox_inv db \<longleftrightarrow>
     keyed notification_key (notifications db)
     \<and> keyed notification_event_recipient (notifications db)
     \<and> keyed notification_recipient_seq (notifications db)
     \<and> keyed inbox_key (inboxes db)
     \<and> (\<forall>i \<in> set (inboxes db). inbox_ok i)
     \<and> (\<forall>n \<in> set (notifications db). \<exists>i \<in> set (inboxes db).
          ib_user_id i = nt_user_id n \<and> nt_seq n < ib_next_seq i)"

text \<open>The counter of a user, read through the primary key; 1 before the inbox exists.\<close>

definition seq_counter :: "string \<Rightarrow> outbox_db \<Rightarrow> int" where
  "seq_counter u db = (case sql_first (\<lambda>i. ib_user_id i = u) (inboxes db) of
     None \<Rightarrow> 1 | Some i \<Rightarrow> ib_next_seq i)"

lemma inbox_by_user:
  assumes "keyed inbox_key (inboxes db)" and "i \<in> set (inboxes db)"
  shows "sql_first (\<lambda>j. ib_user_id j = ib_user_id i) (inboxes db) = Some i"
  by (rule sql_first_keyed [OF assms]) (simp_all add: key_defs)

lemma seq_below_counter:
  assumes "inbox_inv db" and "n \<in> set (notifications db)"
  shows "nt_seq n < seq_counter (nt_user_id n) db"
proof -
  obtain i where i: "i \<in> set (inboxes db)" "ib_user_id i = nt_user_id n" "nt_seq n < ib_next_seq i"
    using assms by (auto simp: inbox_inv_def)
  have "sql_first (\<lambda>j. ib_user_id j = nt_user_id n) (inboxes db) = Some i"
    using inbox_by_user [of db i] assms i by (simp add: inbox_inv_def)
  then show ?thesis using i by (simp add: seq_counter_def)
qed

lemma inbox_inv_keys:
  assumes "inbox_inv db"
  shows "keyed notification_key (notifications db)"
    "keyed notification_event_recipient (notifications db)" "keyed inbox_key (inboxes db)"
  using assms by (simp_all add: inbox_inv_def)

subsection \<open>Allocating a sequence number\<close>

lemma next_sequence_frame [simp]:
  "notifications (snd (next_sequence u db)) = notifications db"
  "events (snd (next_sequence u db)) = events db"
  "receipts (snd (next_sequence u db)) = receipts db"
  "suppressions (snd (next_sequence u db)) = suppressions db"
  "delivery_part (snd (next_sequence u db)) = delivery_part db"
  "doc_tombstones (snd (next_sequence u db)) = doc_tombstones db"
  "retirement_tombstones (snd (next_sequence u db)) = retirement_tombstones db"
  "redactions (snd (next_sequence u db)) = redactions db"
  by (auto simp: next_sequence_def delivery_part_def split: option.splits)

lemma next_sequence_fst: "fst (next_sequence u db) = seq_counter u db"
  by (auto simp: next_sequence_def seq_counter_def split: option.splits)

lemma next_sequence_inboxes:
  assumes inv: "inbox_inv db"
  shows "keyed inbox_key (inboxes (snd (next_sequence u db)))"
    and "\<forall>i \<in> set (inboxes (snd (next_sequence u db))). inbox_ok i"
    and "\<exists>i \<in> set (inboxes (snd (next_sequence u db))). ib_user_id i = u \<and> seq_counter u db < ib_next_seq i"
    and "i \<in> set (inboxes db) \<Longrightarrow>
      \<exists>j \<in> set (inboxes (snd (next_sequence u db))). ib_user_id j = ib_user_id i \<and> ib_next_seq i \<le> ib_next_seq j"
proof -
  let ?p = "\<lambda>i. ib_user_id i = u"
  consider (new) "sql_first ?p (inboxes db) = None" | (old) i where "sql_first ?p (inboxes db) = Some i"
    by (cases "sql_first ?p (inboxes db)") auto
  then have "keyed inbox_key (inboxes (snd (next_sequence u db)))
    \<and> (\<forall>i \<in> set (inboxes (snd (next_sequence u db))). inbox_ok i)
    \<and> (\<exists>i \<in> set (inboxes (snd (next_sequence u db))). ib_user_id i = u \<and> seq_counter u db < ib_next_seq i)
    \<and> (i \<in> set (inboxes db) \<longrightarrow>
      (\<exists>j \<in> set (inboxes (snd (next_sequence u db))). ib_user_id j = ib_user_id i \<and> ib_next_seq i \<le> ib_next_seq j))"
  proof cases
    case new
    then have "\<forall>i \<in> set (inboxes db). ib_user_id i \<noteq> u" by (simp add: sql)
    then show ?thesis
      using inv new by (auto simp: next_sequence_def inbox_inv_def inbox_ok_def seq_counter_def keyed_def key_defs)
  next
    case (old j)
    then have j: "j \<in> set (inboxes db)" "ib_user_id j = u" by (auto dest: sql_first_Some)
    let ?f = "\<lambda>i. i\<lparr>ib_next_seq := ib_next_seq j + 1, ib_version := ib_version j + 1\<rparr>"
    have same: "k = j" if "k \<in> set (inboxes db)" "ib_user_id k = u" for k
      using keyed_eq [OF inbox_inv_keys(3) [OF inv], of k j] that j by (simp add: key_defs)
    have set': "inboxes (snd (next_sequence u db)) = sql_update ?p ?f (inboxes db)"
      using old by (simp add: next_sequence_def)
    have "keyed inbox_key (sql_update ?p ?f (inboxes db))"
      using inbox_inv_keys(3) [OF inv] by (rule keyed_update) (simp add: key_defs)
    moreover have "\<forall>i \<in> set (sql_update ?p ?f (inboxes db)). inbox_ok i"
    proof
      fix k assume "k \<in> set (sql_update ?p ?f (inboxes db))"
      then obtain r0 where r0: "r0 \<in> set (inboxes db)" "k = (if ?p r0 then ?f r0 else r0)"
        by (auto simp: sql)
      moreover have "inbox_ok r0" using inv r0(1) by (simp add: inbox_inv_def)
      ultimately show "inbox_ok k" using same [of r0] by (auto simp: inbox_ok_def)
    qed
    moreover have "?f j \<in> set (sql_update ?p ?f (inboxes db))" using j by (force simp: sql)
    moreover have "seq_counter u db = ib_next_seq j" using old by (simp add: seq_counter_def)
    moreover have "\<exists>k \<in> set (sql_update ?p ?f (inboxes db)). ib_user_id k = ib_user_id i
        \<and> ib_next_seq i \<le> ib_next_seq k" if "i \<in> set (inboxes db)"
    proof (cases "ib_user_id i = u")
      case True
      then have "i = j" using same that by blast
      then show ?thesis using \<open>?f j \<in> _\<close> by (intro bexI [of _ "?f j"]) auto
    next
      case False
      then show ?thesis using that by (intro bexI [of _ i]) (auto simp: sql intro!: bexI [of _ i])
    qed
    moreover have "\<exists>k \<in> set (sql_update ?p ?f (inboxes db)). ib_user_id k = u \<and> ib_next_seq j < ib_next_seq k"
      using \<open>?f j \<in> _\<close> j by (intro bexI [of _ "?f j"]) auto
    ultimately show ?thesis unfolding set' by simp
  qed
  then show "keyed inbox_key (inboxes (snd (next_sequence u db)))"
    and "\<forall>i \<in> set (inboxes (snd (next_sequence u db))). inbox_ok i"
    and "\<exists>i \<in> set (inboxes (snd (next_sequence u db))). ib_user_id i = u \<and> seq_counter u db < ib_next_seq i"
    and "i \<in> set (inboxes db) \<Longrightarrow>
      \<exists>j \<in> set (inboxes (snd (next_sequence u db))). ib_user_id j = ib_user_id i \<and> ib_next_seq i \<le> ib_next_seq j"
    by blast+
qed

subsection \<open>A new notification\<close>

text \<open>
  What a successful \<open>_materialize_new\<close> did: the row \<open>n\<close> was inserted with the next
  sequence number, and the recipient was trimmed to the cap.
\<close>

lemma materialize_new_cases:
  assumes "materialize_new cfg event u nid ty title did vid red now db = Inr (m, db')"
  obtains n where
    "db' = trim_over_cap cfg u now
       (snd (next_sequence u db)\<lparr>notifications := notifications db @ [n]\<rparr>)"
    "nt_id n = nid" "nt_event_id n = ev_event_id event" "nt_user_id n = u"
    "nt_seq n = seq_counter u db" "nt_materialized_at n = now"
    "nt_retire_after_at n = now + days (cf_notification_retention_days cfg)"
    "nt_redacted n = red" "red \<longrightarrow> nt_payload n = []"
    "m = existing_notification n"
    "notification_key n \<notin> notification_key ` set (notifications db)"
    "notification_event_recipient n \<notin> notification_event_recipient ` set (notifications db)"
    "notification_recipient_seq n \<notin> notification_recipient_seq ` set (notifications db)"
    "nt_title n = title" "nt_document_id n = did" "nt_document_version_id n = vid"
proof -
  obtain sq db1 where sq: "next_sequence u db = (sq, db1)" by fastforce
  then have e: "sq = seq_counter u db" "db1 = snd (next_sequence u db)" "notifications db1 = notifications db"
    using next_sequence_fst [of u db] next_sequence_frame(1) [of u db] by simp_all
  let ?n = "\<lparr>nt_id = nid, nt_event_id = ev_event_id event, nt_user_id = u, nt_type = ty,
      nt_title = title,
      nt_payload = (if red then [] else case ev_payload event of None \<Rightarrow> [] | Some p \<Rightarrow> p),
      nt_document_id = did, nt_document_version_id = vid,
      nt_event_occurred_at = ev_occurred_at event, nt_materialized_at = now, nt_seq = sq,
      nt_read_at = map_option ak_acked_at
        (sql_first (\<lambda>a. ak_event_id a = ev_event_id event \<and> ak_user_id a = u) (acks db)),
      nt_retire_after_at = now + days (cf_notification_retention_days cfg),
      nt_redacted = red\<rparr>"
  have ins: "insert_notification ?n (notifications db) = Some (notifications db @ [?n])"
    "notification_event_recipient ?n \<notin> notification_event_recipient ` set (notifications db)"
    "notification_recipient_seq ?n \<notin> notification_recipient_seq ` set (notifications db)"
    "notification_key ?n \<notin> notification_key ` set (notifications db)"
    using assms by (auto simp: materialize_new_def sq e(3) Let_def insert_notification_def sql_insert_def
        split: if_splits option.splits)
  have "m = existing_notification ?n \<and>
        db' = trim_over_cap cfg u now (db1\<lparr>notifications := notifications db @ [?n]\<rparr>)"
    using assms
    by (clarsimp simp only: materialize_new_def sq Let_def prod.case e(3) ins(1) option.case
        sum.inject prod.inject existing_notification_def notification_row.simps) simp
  then show ?thesis
    using ins(2-4) e(1,2) by (intro that [of ?n]) simp_all
qed

lemma trim_frame [simp]:
  "inboxes (trim_over_cap cfg u now db) = inboxes db"
  "suppressions (trim_over_cap cfg u now db) = suppressions db"
  "delivery_part (trim_over_cap cfg u now db) = delivery_part db"
  "doc_tombstones (trim_over_cap cfg u now db) = doc_tombstones db"
  "retirement_tombstones (trim_over_cap cfg u now db) = retirement_tombstones db"
  "redactions (trim_over_cap cfg u now db) = redactions db"
  by (simp_all add: trim_over_cap_def Let_def retire_all_delivery_part)

lemma delivery_part_update [simp]:
  "delivery_part (db\<lparr>notifications := x\<rparr>) = delivery_part db"
  "delivery_part (db\<lparr>suppressions := y\<rparr>) = delivery_part db"
  "delivery_part (db\<lparr>inboxes := z\<rparr>) = delivery_part db"
  by (simp_all add: delivery_part_def)

lemma materialize_new_delivery_part:
  assumes "materialize_new cfg event u nid ty title did vid red now db = Inr (m, db')"
  shows "delivery_part db' = delivery_part db"
  using assms by (rule materialize_new_cases) simp

lemma inbox_inv_trim:
  assumes "inbox_inv db"
  shows "inbox_inv (trim_over_cap cfg u now db)"
  using assms unfolding inbox_inv_def trim_notifications trim_frame
  by (auto intro: keyed_filter)

lemma materialize_new_inv:
  assumes inv: "inbox_inv db"
    and res: "materialize_new cfg event u nid ty title did vid red now db = Inr (m, db')"
  shows "inbox_inv db'"
  using res
proof (rule materialize_new_cases)
  fix n
  let ?db1 = "snd (next_sequence u db)\<lparr>notifications := notifications db @ [n]\<rparr>"
  assume db': "db' = trim_over_cap cfg u now ?db1"
    and n: "nt_user_id n = u" "nt_seq n = seq_counter u db"
    and fresh: "notification_key n \<notin> notification_key ` set (notifications db)"
      "notification_event_recipient n \<notin> notification_event_recipient ` set (notifications db)"
      "notification_recipient_seq n \<notin> notification_recipient_seq ` set (notifications db)"
  note nx = next_sequence_inboxes [where u = u, OF inv]
  have keys: "keyed notification_key (notifications ?db1)"
      "keyed notification_event_recipient (notifications ?db1)"
      "keyed notification_recipient_seq (notifications ?db1)"
    using inv fresh by (auto simp: inbox_inv_def keyed_def)
  have below: "\<exists>i \<in> set (inboxes ?db1). ib_user_id i = nt_user_id k \<and> nt_seq k < ib_next_seq i"
    if k: "k \<in> set (notifications ?db1)" for k
  proof (cases "k = n")
    case True
    then show ?thesis using nx(3) n by simp
  next
    case False
    then have "k \<in> set (notifications db)" using k by simp
    then obtain i where i: "i \<in> set (inboxes db)" "ib_user_id i = nt_user_id k" "nt_seq k < ib_next_seq i"
      using inv by (auto simp: inbox_inv_def)
    obtain j where j: "j \<in> set (inboxes (snd (next_sequence u db)))" "ib_user_id j = ib_user_id i"
        "ib_next_seq i \<le> ib_next_seq j"
      using next_sequence_inboxes(4) [where u = u, OF inv i(1)] by blast
    have "ib_user_id j = nt_user_id k" "nt_seq k < ib_next_seq j" using i j by simp_all
    then show ?thesis using j(1) by auto
  qed
  have "inbox_inv ?db1" using keys below nx(1,2) by (simp add: inbox_inv_def)
  then show ?thesis unfolding db' by (rule inbox_inv_trim)
qed

text \<open>Sequence numbers grow: the new one is above every one the user has had online.\<close>

lemma materialize_new_seq:
  assumes inv: "inbox_inv db" and k: "k \<in> set (notifications db)" "nt_user_id k = u"
    and res: "materialize_new cfg event u nid ty title did vid red now db = Inr (m, db')"
  shows "nt_seq k < mz_seq m"
  using res by (rule materialize_new_cases)
    (use seq_below_counter [OF inv k(1)] k in \<open>simp add: existing_notification_def\<close>)

lemma materialize_new_cap:
  assumes inv: "inbox_inv db"
    and res: "materialize_new cfg event u nid ty title did vid red now db = Inr (m, db')"
  shows "length (online_desc u now db') \<le> MAX_ONLINE_NOTIFICATIONS"
  using res
proof (rule materialize_new_cases)
  fix n
  let ?db1 = "snd (next_sequence u db)\<lparr>notifications := notifications db @ [n]\<rparr>"
  assume db': "db' = trim_over_cap cfg u now ?db1"
    and fresh: "notification_key n \<notin> notification_key ` set (notifications db)"
  have "keyed notification_key (notifications ?db1)"
    using inv fresh by (auto simp: inbox_inv_def keyed_def)
  then show ?thesis unfolding db' by (simp add: trim_online)
qed

section \<open>Materialization\<close>

lemma suppress_cases:
  assumes "suppress e u reason now db = Inr db'"
  shows "\<exists>s. db' = db\<lparr>suppressions := suppressions db @ [s]\<rparr> \<and> suppression_key s = (e, u)
           \<and> sp_reason s = reason"
  using assms by (force simp: suppress_def sql_insert_def key_defs split: option.splits if_splits)

lemma materialize_cases:
  assumes "materialize cfg event r nid ty title did vid red now db = Inr (x, db')"
  obtains (suppressed) reason where "x = None" "suppress (ev_event_id event) (rc_user_id r) reason now db = Inr db'"
  | (known) n where "x = Some (existing_notification n)" "db' = db" "n \<in> set (notifications db)"
      "nt_event_id n = ev_event_id event" "nt_user_id n = rc_user_id r"
  | (created) m where "x = Some m"
      "materialize_new cfg event (rc_user_id r) nid ty title did vid red now db = Inr (m, db')"
      "rc_user_id r \<notin> tb_user_id ` set (retirement_tombstones db)"
  using assms
  by (auto simp: materialize_def Let_def split: option.splits if_splits sum.splits dest: sql_first_Some)

lemma materialize_delivery_part:
  assumes "materialize cfg event r nid ty title did vid red now db = Inr (x, db')"
  shows "delivery_part db' = delivery_part db"
  using assms
proof (cases rule: materialize_cases)
  case (suppressed reason)
  then show ?thesis using suppress_cases [OF suppressed(2)] by auto
qed (auto dest: materialize_new_delivery_part)

lemma inbox_inv_suppress [simp]: "inbox_inv (db\<lparr>suppressions := s\<rparr>) = inbox_inv db"
  by (simp add: inbox_inv_def)

lemma materialize_inv:
  assumes "inbox_inv db" and "materialize cfg event r nid ty title did vid red now db = Inr (x, db')"
  shows "inbox_inv db'"
  using assms(2)
proof (cases rule: materialize_cases)
  case (suppressed reason)
  then show ?thesis using suppress_cases [OF suppressed(2)] assms(1) by auto
next
  case (created m)
  show ?thesis by (rule materialize_new_inv [OF assms(1) created(2)])
qed (use assms in simp)

lemma materialize_new_users:
  assumes "materialize_new cfg event u nid ty title did vid red now db = Inr (m, db')"
  shows "users db' = users db"
proof -
  have r: "users (snd (retire_notification_by_id cfg i now x)) = users x" for i x
    by (auto simp: retire_notification_by_id_def Let_def split: option.splits)
  have "users (snd (retire_all cfg now is (k, x))) = users x" for "is" k x
    by (induction "is" arbitrary: k x) (simp, simp only: retire_all_step r)
  then have t: "users (trim_over_cap cfg u now x) = users x" for x
    by (simp add: trim_over_cap_def Let_def)
  show ?thesis
    using assms by (rule materialize_new_cases) (auto simp: t next_sequence_def split: option.splits)
qed

text \<open>The newest notification of a user is never in the tail that the cap cuts off.\<close>

lemma newest_not_trimmed:
  assumes inv: "keyed notification_key (notifications db)" and n: "n \<in> set (online_desc u now db)"
    and top: "\<And>k. k \<in> set (notifications db) \<Longrightarrow> nt_user_id k = u \<Longrightarrow> k \<noteq> n \<Longrightarrow> nt_seq k < nt_seq n"
  shows "nt_id n \<notin> set (map nt_id (drop MAX_ONLINE_NOTIFICATIONS (online_desc u now db)))"
proof
  let ?L = "online_desc u now db"
  note dist = distinct_online_ids [OF inv, of u now]
  assume "nt_id n \<in> set (map nt_id (drop MAX_ONLINE_NOTIFICATIONS ?L))"
  then obtain x where x: "x \<in> set (drop MAX_ONLINE_NOTIFICATIONS ?L)" "nt_id x = nt_id n" by auto
  then have "x \<in> set ?L" by (rule_tac in_set_dropD)
  then have "x = n" using x(2) n dist by (auto simp: distinct_map dest: inj_onD)
  obtain h rest where L: "?L = h # rest" using n by (cases ?L) auto
  have nr: "n \<in> set rest" using x(1) \<open>x = n\<close> L
    by (auto simp: MAX_ONLINE_NOTIFICATIONS_def drop_Cons' dest: in_set_dropD)
  have "sorted (map nt_seq (rev rest) @ [nt_seq h])"
  proof -
    have "sorted (map nt_seq (rev ?L))" by (simp add: online_desc_def)
    then show ?thesis unfolding L by simp
  qed
  then have "nt_seq n \<le> nt_seq h" using nr by (simp add: sorted_append)
  moreover have "h \<in> set ?L" unfolding L by simp
  then have "h \<in> set (notifications db)" "nt_user_id h = u" by (simp_all add: online_desc_def)
  ultimately have "h = n" using top [of h] by fastforce
  then show False using dist L nr by (auto simp: distinct_map)
qed

lemma materialize_new_present:
  assumes inv: "inbox_inv db"
    and res: "materialize_new cfg event u nid ty title did vid red now db = Inr (m, db')"
  shows "\<exists>n \<in> set (notifications db'). nt_event_id n = ev_event_id event \<and> nt_user_id n = u
           \<and> existing_notification n = m"
  using res
proof (rule materialize_new_cases)
  fix n
  let ?db1 = "snd (next_sequence u db)\<lparr>notifications := notifications db @ [n]\<rparr>"
  assume db': "db' = trim_over_cap cfg u now ?db1"
    and n: "nt_event_id n = ev_event_id event" "nt_user_id n = u" "nt_seq n = seq_counter u db"
      "m = existing_notification n"
    and fresh: "notification_key n \<notin> notification_key ` set (notifications db)"
  have kd: "keyed notification_key (notifications ?db1)"
    using inv fresh by (auto simp: inbox_inv_def keyed_def)
  let ?over = "set (map nt_id (drop MAX_ONLINE_NOTIFICATIONS (online_desc u now ?db1)))"
  have "nt_id n \<notin> ?over"
  proof (cases "n \<in> set (online_desc u now ?db1)")
    case True
    show ?thesis
      by (rule newest_not_trimmed [OF kd True]) (use seq_below_counter [OF inv] n in auto)
  next
    case False
    have "nt_id n \<noteq> nt_id k" if k: "k \<in> set (online_desc u now ?db1)" for k
    proof
      assume "nt_id n = nt_id k"
      moreover have "k \<in> set (notifications ?db1)" using k by (simp add: online_desc_def)
      ultimately have "k = n" using keyed_eq [OF kd, of k n] by (simp add: key_defs)
      then show False using False k by simp
    qed
    then show ?thesis by (auto dest: in_set_dropD)
  qed
  then have "n \<in> set (notifications db')" unfolding db' trim_notifications by simp
  then show ?thesis using n by auto
qed

end
