(* ===== verification/Outbox_Dispatcher.thy ===== *)
theory Outbox_Dispatcher
  imports Outbox_Notifications
begin

text \<open>
  The outbox dispatcher (\<^verbatim>\<open>app/outbox/dispatcher.py\<close>) and event compaction
  (\<^verbatim>\<open>app/outbox/compaction.py\<close>): definitions. Each method that opens
  \<open>engine.begin()\<close> is a function from the database to an exception or a result with the
  new database; an exception carries no database, which is the rollback. \<open>claim_one\<close> is
  split into its SELECT (\<open>claim_candidates\<close>) and its compare-and-set write on the row
  read (\<open>claim_row\<close>), so that the write can be studied against a database that has moved
  on. Clock readings, random ids and the jitter draw are arguments.
\<close>

section \<open>Retry policy\<close>

definition MAX_CYCLE_ATTEMPTS :: int where
  "MAX_CYCLE_ATTEMPTS = 8"

definition RETRY_DELAYS_SECONDS :: "int list" where
  "RETRY_DELAYS_SECONDS = [5, 30, 120, 600, 1800, 7200, 21600]"

definition COMPACT_BATCH :: nat where
  "COMPACT_BATCH = 100"

text \<open>
  \<open>RetryPolicy.delay_for_cycle_attempt\<close>: \<open>self.delays[n - 1]\<close> is Python indexing, so
  \<open>n = 0\<close> reads the last delay; a smaller \<open>n\<close> never occurs and is read as an index from
  the end as long as it is in range.
\<close>

definition delay_for_cycle_attempt :: "int \<Rightarrow> int option" where
  "delay_for_cycle_attempt n =
     (if n \<ge> MAX_CYCLE_ATTEMPTS then None
      else let len = int (length RETRY_DELAYS_SECONDS);
               i = (if n - 1 < 0 then len + (n - 1) else n - 1)
           in Some (RETRY_DELAYS_SECONDS ! nat i))"

text \<open>
  \<open>_jittered_delay\<close>: \<open>u\<close> is the draw of \<open>random.uniform(-0.2, 0.2)\<close>; \<open>int\<close> truncates
  towards zero.
\<close>

definition trunc :: "rat \<Rightarrow> int" where
  "trunc x = (if x \<ge> 0 then floor x else ceiling x)"

definition jittered_delay :: "int \<Rightarrow> rat \<Rightarrow> time" where
  "jittered_delay delay_seconds u = seconds (max 1 (trunc (of_int delay_seconds * (1 + u))))"

section \<open>Titles and identifiers\<close>

definition default_title :: "string \<Rightarrow> string" where
  "default_title t =
     (if t = ''ingestion_completed'' then ''Document ingestion completed''
      else if t = ''ingestion_failed'' then ''Document ingestion failed''
      else if t = ''ingestion_cancelled'' then ''Document ingestion cancelled''
      else if t = ''ocr_low_confidence'' then ''Low-confidence OCR result''
      else if t = ''submission_approved'' then ''Submission approved''
      else if t = ''submission_rejected'' then ''Submission rejected''
      else if t = ''submission_invalidated'' then ''Submission invalidated''
      else if t = ''quota_approved'' then ''Quota request approved''
      else if t = ''quota_rejected'' then ''Quota request rejected''
      else if t = ''calibration_window_suggested'' then ''Calibration window suggested''
      else if t = ''graph_build_completed'' then ''Knowledge graph build completed''
      else if t = ''evaluation_judge_configuration_missing''
        then ''Evaluation judge configuration missing''
      else if t = ''usage_ledger_invariant_conflict'' then ''Usage ledger invariant conflict''
      else ''Notification'')"

definition document_title_template :: "string \<Rightarrow> (string \<Rightarrow> string) option" where
  "document_title_template t =
     (let quoted = (\<lambda>name. [CHR 0x22] @ name @ [CHR 0x22]) in
      if t = ''ingestion_completed''
        then Some (\<lambda>name. ''Document '' @ quoted name @ '' ingestion completed'')
      else if t = ''ingestion_failed''
        then Some (\<lambda>name. ''Document '' @ quoted name @ '' ingestion failed'')
      else if t = ''ingestion_cancelled''
        then Some (\<lambda>name. ''Document '' @ quoted name @ '' ingestion cancelled'')
      else if t = ''ocr_low_confidence''
        then Some (\<lambda>name. ''Low-confidence OCR result for document '' @ quoted name)
      else None)"

text \<open>\<open>str(value) if value else None\<close> on a payload value.\<close>

definition payload_text :: "outbox_cfg \<Rightarrow> string \<Rightarrow> payload \<Rightarrow> string option" where
  "payload_text cfg field p = (case map_of p field of None \<Rightarrow> None
     | Some v \<Rightarrow> if pval_truthy v then Some (pval_str (cf_float_repr cfg) v) else None)"

definition document_event_types :: "string list" where
  "document_event_types =
     [''ingestion_completed'', ''ingestion_failed'', ''ingestion_cancelled'', ''ocr_low_confidence'']"

definition document_id_for :: "outbox_cfg \<Rightarrow> string \<Rightarrow> payload \<Rightarrow> string option" where
  "document_id_for cfg event_type p =
     (if event_type \<in> set document_event_types then payload_text cfg ''document_id'' p else None)"

definition document_version_id_for :: "outbox_cfg \<Rightarrow> string \<Rightarrow> payload \<Rightarrow> string option" where
  "document_version_id_for cfg event_type p =
     (if event_type \<in> set document_event_types then payload_text cfg ''document_version_id'' p
      else None)"

section \<open>Claiming\<close>

definition claimable :: "time \<Rightarrow> delivery_row \<Rightarrow> bool" where
  "claimable now d =
     (dl_status d = Pending \<and> dl_next_attempt_at d = None
      \<or> dl_status d = Pending \<and> (case dl_next_attempt_at d of None \<Rightarrow> False | Some t \<Rightarrow> t \<le> now)
      \<or> dl_status d = Retry_wait \<and> (case dl_next_attempt_at d of None \<Rightarrow> False | Some t \<Rightarrow> t \<le> now))"

text \<open>
  \<open>_claim_candidates\<close>: rows that another transaction holds locked are skipped
  (SKIP LOCKED); \<open>skip\<close> is the set of their keys.
\<close>

definition claim_candidates ::
    "(string \<times> string) set \<Rightarrow> time \<Rightarrow> nat \<Rightarrow> outbox_db \<Rightarrow> delivery_row list" where
  "claim_candidates skip now limit db =
     take limit (sql_where (\<lambda>d. claimable now d \<and> delivery_key d \<notin> skip) (deliveries db))"

definition cycle_attempt_after :: "delivery_row \<Rightarrow> int" where
  "cycle_attempt_after row =
     (if dl_status row = Retry_wait then dl_cycle_attempt_number row + 1 else 1)"

definition fence_or_zero :: "delivery_row \<Rightarrow> int" where
  "fence_or_zero row = (case dl_fence_token row of None \<Rightarrow> 0 | Some f \<Rightarrow> f)"

definition claimed_row :: "outbox_cfg \<Rightarrow> string \<Rightarrow> time \<Rightarrow> delivery_row \<Rightarrow> delivery_row \<Rightarrow> delivery_row" where
  "claimed_row cfg owner now row d =
     d\<lparr>dl_status := Running, dl_version := dl_version row + 1,
       dl_attempt_number := dl_attempt_number row + 1,
       dl_cycle_attempt_number := cycle_attempt_after row,
       dl_error_category := None, dl_error_code := None, dl_next_attempt_at := None,
       dl_lease_owner := Some owner,
       dl_lease_expires_at := Some (now + seconds (cf_lease_seconds cfg)),
       dl_fence_token := Some (fence_or_zero row + 1)\<rparr>"

definition claim_matches :: "delivery_row \<Rightarrow> delivery_row \<Rightarrow> bool" where
  "claim_matches row d =
     (delivery_key d = delivery_key row \<and> dl_status d \<in> {Pending, Retry_wait}
      \<and> dl_version d = dl_version row)"

text \<open>
  The body of \<open>claim_one\<close> after its SELECT, for the row read there. \<open>Inr (None, db)\<close> is the
  lost race (\<open>claimed != 1\<close>).
\<close>

definition claim_row ::
    "outbox_cfg \<Rightarrow> string \<Rightarrow> time \<Rightarrow> string \<Rightarrow> delivery_row \<Rightarrow> outbox_db \<Rightarrow>
     exn + delivery_claim option \<times> outbox_db" where
  "claim_row cfg owner now attempt_id row db =
     (let event_id = dl_event_id row;
          consumer_name = dl_consumer_name row;
          new = claimed_row cfg owner now row row;
          fence = fence_or_zero row + 1
      in if sql_count (claim_matches row) (deliveries db) \<noteq> 1 then Inr (None, db)
         else
           let db1 = db\<lparr>deliveries := sql_update (claim_matches row) (claimed_row cfg owner now row)
                                        (deliveries db)\<rparr>
           in case sql_insert attempt_key
                \<lparr>at_attempt_id = attempt_id, at_event_id = event_id,
                  at_consumer_name = consumer_name,
                  at_replay_generation = dl_replay_generation row,
                  at_attempt_number = dl_attempt_number new,
                  at_cycle_attempt_number = dl_cycle_attempt_number new,
                  at_fence_token = fence, at_started_at = now, at_ended_at = None,
                  at_status = A_running, at_error_category = None, at_error_code = None\<rparr>
                (attempts db1) of
              None \<Rightarrow> Inl IntegrityError
            | Some t \<Rightarrow>
                let db2 = record_metric cfg now ''outbox.attempts.started'' (Some event_id) None
                            (db1\<lparr>attempts := t\<rparr>);
                    claim = \<lparr>cl_event_id = event_id, cl_consumer_name = consumer_name,
                      cl_version = dl_version new,
                      cl_replay_generation = dl_replay_generation row,
                      cl_attempt_number = dl_attempt_number new,
                      cl_cycle_attempt_number = dl_cycle_attempt_number new,
                      cl_fence_token = fence,
                      cl_lease_expires_at = now + seconds (cf_lease_seconds cfg),
                      cl_started_at = now, cl_attempt_id = attempt_id, cl_payload = None,
                      cl_notification_type = None, cl_title = None,
                      cl_redacted_title = DELETED_DOCUMENT_TITLE, cl_document_id = None,
                      cl_document_version_id = None\<rparr>
                in if consumer_name \<noteq> V1_CONSUMER then Inr (Some claim, db2)
                   else case sql_first (\<lambda>e. ev_event_id e = event_id) (events db2) of
                     None \<Rightarrow> Inl NoResultFound
                   | Some event \<Rightarrow>
                       let p = (case ev_payload event of None \<Rightarrow> [] | Some p \<Rightarrow> p);
                           age = max 0 (of_int (now - ev_occurred_at event) / 1000000);
                           db3 = record_metric cfg now ''outbox.deliveries.oldest_pending_seconds''
                                   (Some event_id) (Some age) db2
                       in Inr (Some (claim\<lparr>cl_payload := Some p,
                            cl_notification_type := Some (ev_event_type event),
                            cl_title := Some (default_title (ev_event_type event)),
                            cl_document_id := document_id_for cfg (ev_event_type event) p,
                            cl_document_version_id :=
                              document_version_id_for cfg (ev_event_type event) p\<rparr>), db3))"

definition claim_one ::
    "outbox_cfg \<Rightarrow> (string \<times> string) set \<Rightarrow> string \<Rightarrow> time \<Rightarrow> nat \<Rightarrow> string \<Rightarrow> outbox_db \<Rightarrow>
     exn + delivery_claim option \<times> outbox_db" where
  "claim_one cfg skip owner now limit attempt_id db =
     (let normalized_owner = py_strip owner in
      if normalized_owner = [] then Inl ValueError
      else case claim_candidates skip now limit db of
        [] \<Rightarrow> Inr (None, db)
      | row # _ \<Rightarrow> claim_row cfg normalized_owner now attempt_id row db)"

section \<open>Fences\<close>

text \<open>The WHERE clause every write of a runner carries: its own running row.\<close>

definition fence_matches :: "delivery_claim \<Rightarrow> string \<Rightarrow> delivery_row \<Rightarrow> bool" where
  "fence_matches claim owner d =
     (dl_event_id d = cl_event_id claim \<and> dl_consumer_name d = cl_consumer_name claim
      \<and> dl_status d = Running \<and> dl_lease_owner d = Some owner
      \<and> dl_fence_token d = Some (cl_fence_token claim))"

definition live_fence_matches :: "delivery_claim \<Rightarrow> string \<Rightarrow> time \<Rightarrow> delivery_row \<Rightarrow> bool" where
  "live_fence_matches claim owner now d =
     (fence_matches claim owner d
      \<and> (case dl_lease_expires_at d of None \<Rightarrow> False | Some t \<Rightarrow> t > now))"

text \<open>\<open>_assert_fence\<close>: true when no \<open>FenceViolation\<close> is raised.\<close>

definition assert_fence :: "delivery_claim \<Rightarrow> string \<Rightarrow> time \<Rightarrow> outbox_db \<Rightarrow> bool" where
  "assert_fence claim owner db_now db =
     ((\<exists>d \<in> set (deliveries db). fence_matches claim owner d)
      \<and> \<not> cl_lease_expires_at claim \<le> db_now)"

definition renew_lease ::
    "outbox_cfg \<Rightarrow> delivery_claim \<Rightarrow> string \<Rightarrow> time \<Rightarrow> outbox_db \<Rightarrow>
     delivery_claim option \<times> outbox_db" where
  "renew_lease cfg claim owner now db =
     (let expires_at = now + seconds (cf_lease_seconds cfg) in
      if sql_count (live_fence_matches claim owner now) (deliveries db) \<noteq> 1 then (None, db)
      else (Some (claim\<lparr>cl_lease_expires_at := expires_at\<rparr>),
            db\<lparr>deliveries := sql_update (live_fence_matches claim owner now)
                 (\<lambda>d. d\<lparr>dl_lease_expires_at := Some expires_at\<rparr>) (deliveries db)\<rparr>))"

section \<open>Failure and retry\<close>

definition alert_dead_letter ::
    "outbox_cfg \<Rightarrow> string \<Rightarrow> string \<Rightarrow> string \<Rightarrow> time \<Rightarrow> outbox_db \<Rightarrow> outbox_db" where
  "alert_dead_letter cfg event_id consumer_name error_code now db =
     db\<lparr>audits := audits db @
        [\<lparr>au_actor_id = ''system:outbox'', au_resource_type = ''outbox_delivery'',
          au_resource_id = event_id,
          au_request_id = (case cf_request_id cfg of None \<Rightarrow> ''req_outbox'' | Some r \<Rightarrow> r),
          au_occurred_at = now, au_result = ''dead_lettered'',
          au_consumer_name = consumer_name, au_error_code = error_code\<rparr>]\<rparr>"

text \<open>
  The branches of \<open>fail_and_schedule\<close>: the next status, the next attempt and the category
  recorded.
\<close>

definition failure_plan ::
    "delivery_claim \<Rightarrow> string \<Rightarrow> time \<Rightarrow> rat \<Rightarrow> delivery_status \<times> time option \<times> string" where
  "failure_plan claim error_category now u =
     (let permanent = (error_category = ''permanent'') in
      case delay_for_cycle_attempt (cl_cycle_attempt_number claim) of
        None \<Rightarrow> (Dead_letter, None, if permanent then ''permanent'' else ''retryable'')
      | Some s \<Rightarrow> if permanent then (Dead_letter, None, ''permanent'')
                  else (Retry_wait, Some (now + jittered_delay s u), error_category))"

definition failed_row ::
    "delivery_claim \<Rightarrow> string \<Rightarrow> delivery_status \<times> time option \<times> string \<Rightarrow>
     delivery_row \<Rightarrow> delivery_row" where
  "failed_row claim error_code plan d =
     (let (next_status, next_at, category) = plan in
      d\<lparr>dl_status := next_status, dl_version := cl_version claim,
        dl_cycle_attempt_number := cl_cycle_attempt_number claim,
        dl_error_category := Some category, dl_error_code := Some error_code,
        dl_next_attempt_at := next_at, dl_lease_owner := None, dl_lease_expires_at := None\<rparr>)"

definition failed_attempt :: "time \<Rightarrow> string \<Rightarrow> string \<Rightarrow> attempt_row \<Rightarrow> attempt_row" where
  "failed_attempt now category error_code a =
     a\<lparr>at_status := A_failed, at_ended_at := Some now,
       at_error_category := Some category, at_error_code := Some error_code\<rparr>"

definition fail_and_schedule ::
    "outbox_cfg \<Rightarrow> delivery_claim \<Rightarrow> string \<Rightarrow> string \<Rightarrow> string \<Rightarrow> time \<Rightarrow> time \<Rightarrow> rat \<Rightarrow>
     outbox_db \<Rightarrow> exn + delivery_outcome \<times> outbox_db" where
  "fail_and_schedule cfg claim owner error_category error_code db_now now u db =
     (if error_category \<notin> {''retryable'', ''permanent'', ''lease_expired''} then Inl ValueError
      else if \<not> assert_fence claim owner db_now db then Inl FenceViolation
      else
        let plan = failure_plan claim error_category now u;
            (next_status, next_at, category) = plan;
            m = live_fence_matches claim owner now
        in if sql_count m (deliveries db) \<noteq> 1 then Inl FenceViolation
           else
             let db1 = db\<lparr>deliveries := sql_update m (failed_row claim error_code plan) (deliveries db)\<rparr>;
                 db2 = db1\<lparr>attempts := sql_update (\<lambda>a. at_attempt_id a = cl_attempt_id claim)
                   (failed_attempt now category error_code) (attempts db1)\<rparr>;
                 ev = Some (cl_event_id claim);
                 db3 = (if next_status = Dead_letter
                   then record_status_metric cfg now Dead_letter ev
                     (record_metric cfg now ''outbox.deliveries.dead_letter'' ev None
                       (alert_dead_letter cfg (cl_event_id claim) (cl_consumer_name claim)
                          error_code now db2))
                   else record_status_metric cfg now Retry_wait ev
                     (record_metric cfg now ''outbox.deliveries.retry'' ev None
                       (record_metric cfg now ''outbox.deliveries.retry_wait'' ev None db2)))
             in Inr (\<lparr>oc_status = (if next_status = Dead_letter then O_dead_letter else O_failed),
                       oc_error_category = Some category, oc_error_code = Some error_code,
                       oc_retry_after_seconds =
                         delay_for_cycle_attempt (cl_cycle_attempt_number claim)\<rparr>, db3))"

definition is_permanent_materialization_error :: "exn \<Rightarrow> bool" where
  "is_permanent_materialization_error e =
     (case e of PlatformError _ status \<Rightarrow> status \<in> {400, 403, 404, 409, 422} | _ \<Rightarrow> False)"

definition permanent_error_code :: "exn \<Rightarrow> string" where
  "permanent_error_code e = (case e of PlatformError code _ \<Rightarrow> code | _ \<Rightarrow> ''internal_error'')"

definition handle_materialization_error ::
    "outbox_cfg \<Rightarrow> delivery_claim \<Rightarrow> string \<Rightarrow> exn \<Rightarrow> time \<Rightarrow> time \<Rightarrow> rat \<Rightarrow> outbox_db \<Rightarrow>
     exn + delivery_outcome \<times> outbox_db" where
  "handle_materialization_error cfg claim owner e db_now now u db =
     (if is_permanent_materialization_error e
      then fail_and_schedule cfg claim owner ''permanent'' (permanent_error_code e) db_now now u db
      else fail_and_schedule cfg claim owner ''retryable'' ''internal_error'' db_now now u db)"

end
