(* ===== verification/Outbox_Delivery.thy ===== *)
theory Outbox_Delivery
  imports Outbox_Dispatcher
begin

text \<open>
  The dispatcher's delivery run, the recycling of expired leases, the operator's view and
  replay (\<^verbatim>\<open>app/outbox/dispatcher.py\<close>), and compaction of delivered events
  (\<^verbatim>\<open>app/outbox/compaction.py\<close>): definitions.
\<close>

section \<open>Facts read during a delivery\<close>

definition event_redacted :: "delivery_claim \<Rightarrow> outbox_db \<Rightarrow> bool" where
  "event_redacted claim db =
     (case (cl_document_id claim, cl_document_version_id claim) of
        (Some d, Some v) \<Rightarrow>
          (\<exists>t \<in> set (doc_tombstones db). dt_document_id t = d \<and> dt_document_version_id t = v)
      | _ \<Rightarrow> False)"

definition materialization_title :: "delivery_claim \<Rightarrow> bool \<Rightarrow> outbox_db \<Rightarrow> string" where
  "materialization_title claim redacted db =
     (if redacted then cl_redacted_title claim
      else
        let typed_title = (case cl_title claim of Some t \<Rightarrow> t | None \<Rightarrow> cl_redacted_title claim)
        in case cl_document_id claim of
          None \<Rightarrow> typed_title
        | Some document_id \<Rightarrow>
            case document_title_template
                (case cl_notification_type claim of None \<Rightarrow> [] | Some t \<Rightarrow> t) of
              None \<Rightarrow> typed_title
            | Some template \<Rightarrow>
                case sql_first (\<lambda>d. dc_id d = document_id) (documents db) of
                  None \<Rightarrow> typed_title
                | Some document \<Rightarrow>
                    if dc_lifecycle_status document \<noteq> ''active'' then cl_redacted_title claim
                    else let name = (case dc_name document of None \<Rightarrow> [] | Some n \<Rightarrow> n)
                         in if name = [] then typed_title else template name)"

definition recipients_for :: "string \<Rightarrow> outbox_db \<Rightarrow> recipient_row list" where
  "recipients_for event_id db =
     sort_key rc_user_id (sql_where (\<lambda>r. rc_event_id r = event_id) (recipients db))"

text \<open>
  \<open>_maybe_freeze_compaction\<close>: once every delivery of the event is delivered, its compaction
  time is fixed, once.
\<close>

definition maybe_freeze_compaction :: "outbox_cfg \<Rightarrow> string \<Rightarrow> outbox_db \<Rightarrow> outbox_db" where
  "maybe_freeze_compaction cfg event_id db =
     (if sql_count (\<lambda>d. dl_event_id d = event_id \<and> dl_status d \<noteq> Delivered) (deliveries db) \<noteq> 0
      then db
      else case sql_max dl_delivered_at (sql_where (\<lambda>d. dl_event_id d = event_id) (deliveries db)) of
        None \<Rightarrow> db
      | Some latest \<Rightarrow> db\<lparr>events := sql_update
          (\<lambda>e. ev_event_id e = event_id \<and> ev_storage_state e = Full \<and> ev_compact_after_at e = None)
          (\<lambda>e. e\<lparr>ev_compact_after_at := Some (latest + days (cf_retention_days cfg))\<rparr>)
          (events db)\<rparr>)"

section \<open>Delivery\<close>

text \<open>
  The loop over the recipients: \<open>ids\<close> supplies the random notification ids, one per
  recipient.
\<close>

fun materialize_all ::
    "outbox_cfg \<Rightarrow> event_row \<Rightarrow> delivery_claim \<Rightarrow> string \<Rightarrow> bool \<Rightarrow> time \<Rightarrow> (nat \<Rightarrow> string) \<Rightarrow>
     recipient_row list \<Rightarrow> nat \<Rightarrow> outbox_db \<Rightarrow> exn + outbox_db" where
  "materialize_all cfg event claim title redacted now ids [] k db = Inr db"
| "materialize_all cfg event claim title redacted now ids (r # rs) k db =
     (case materialize cfg event r (ids k)
          (case cl_notification_type claim of Some t \<Rightarrow> if t = [] then ''unknown'' else t
             | None \<Rightarrow> ''unknown'')
          title (cl_document_id claim) (cl_document_version_id claim) redacted now db of
        Inl e \<Rightarrow> Inl e
      | Inr (_, db') \<Rightarrow> materialize_all cfg event claim title redacted now ids rs (Suc k) db')"

text \<open>
  What one call of \<open>run_consumer_and_finalize\<close> meets outside the database: the two clock
  readings of its transaction, the random ids, an exception the infrastructure raises
  during the transaction, and the readings and jitter of the failure transaction.
\<close>

record run_env =
  re_fence_now :: time
  re_now :: time
  re_ids :: "nat \<Rightarrow> string"
  re_fault :: "exn option"
  re_fail_fence_now :: time
  re_fail_now :: time
  re_jitter :: rat

text \<open>The V1 consumer's part of the transaction.\<close>

definition materialize_event ::
    "outbox_cfg \<Rightarrow> delivery_claim \<Rightarrow> time \<Rightarrow> (nat \<Rightarrow> string) \<Rightarrow> outbox_db \<Rightarrow> exn + outbox_db" where
  "materialize_event cfg claim now ids db =
     (if cl_consumer_name claim \<noteq> V1_CONSUMER then Inr db
      else
        let rs = recipients_for (cl_event_id claim) db;
            db1 = (if rs = [] then record_metric cfg now ''outbox.deliveries.zero_recipients''
                     (Some (cl_event_id claim)) None db else db)
        in case sql_first (\<lambda>e. ev_event_id e = cl_event_id claim) (events db1) of
          None \<Rightarrow> Inl NoResultFound
        | Some event \<Rightarrow>
            let redacted = event_redacted claim db1;
                title = materialization_title claim redacted db1
            in materialize_all cfg event claim title redacted now ids rs 0 db1)"

definition delivered_row :: "delivery_claim \<Rightarrow> time \<Rightarrow> delivery_row \<Rightarrow> delivery_row" where
  "delivered_row claim now d =
     d\<lparr>dl_status := Delivered, dl_version := cl_version claim, dl_error_category := None,
       dl_error_code := None, dl_next_attempt_at := None, dl_lease_owner := None,
       dl_lease_expires_at := None, dl_delivered_at := Some now\<rparr>"

text \<open>
  The body of the \<open>try\<close> in \<open>run_consumer_and_finalize\<close>. An infrastructure exception
  strikes after the fence has been checked; before it, the effect is the same as failing
  the fence or striking after it.
\<close>

definition finalize_tx ::
    "outbox_cfg \<Rightarrow> delivery_claim \<Rightarrow> string \<Rightarrow> run_env \<Rightarrow> outbox_db \<Rightarrow> exn + outbox_db" where
  "finalize_tx cfg claim owner env db =
     (let now = re_now env; ev = Some (cl_event_id claim) in
      if \<not> assert_fence claim owner (re_fence_now env) db then Inl FenceViolation
      else case re_fault env of Some e \<Rightarrow> Inl e
      | None \<Rightarrow>
        case materialize_event cfg claim now (re_ids env) db of
          Inl e \<Rightarrow> Inl e
        | Inr db1 \<Rightarrow>
            let m = live_fence_matches claim owner now in
            if sql_count m (deliveries db1) \<noteq> 1 then Inl FenceViolation
            else
              let db2 = db1\<lparr>deliveries := sql_update m (delivered_row claim now) (deliveries db1)\<rparr>;
                  am = (\<lambda>a. at_attempt_id a = cl_attempt_id claim \<and> at_status a = A_running
                            \<and> at_fence_token a = cl_fence_token claim)
              in if sql_count am (attempts db2) \<noteq> 1 then Inl FenceViolation
                 else
                   let db3 = db2\<lparr>attempts := sql_update am
                         (\<lambda>a. a\<lparr>at_status := A_delivered, at_ended_at := Some now\<rparr>) (attempts db2)\<rparr>;
                       latency = max 0 (of_int (now - cl_started_at claim) / 1000);
                       db4 = record_metric cfg now ''outbox.deliveries.latency_ms'' ev (Some latency)
                              (record_status_metric cfg now Delivered ev
                                (record_metric cfg now ''outbox.deliveries.delivered'' ev None db3))
                   in Inr (maybe_freeze_compaction cfg (cl_event_id claim) db4))"

text \<open>
  \<open>run_consumer_and_finalize\<close>: a \<open>FenceViolation\<close> escapes, every other exception is
  recorded by a second transaction.
\<close>

definition run_consumer_and_finalize ::
    "outbox_cfg \<Rightarrow> delivery_claim \<Rightarrow> string \<Rightarrow> run_env \<Rightarrow> outbox_db \<Rightarrow>
     exn + delivery_outcome \<times> outbox_db" where
  "run_consumer_and_finalize cfg claim owner env db =
     (if cl_consumer_name claim \<notin> set (cf_consumers cfg)
      then fail_and_schedule cfg claim owner ''permanent'' ''unsupported_consumer''
             (re_fail_fence_now env) (re_fail_now env) (re_jitter env) db
      else case finalize_tx cfg claim owner env db of
        Inr db' \<Rightarrow> Inr (\<lparr>oc_status = O_delivered, oc_error_category = None,
                         oc_error_code = None, oc_retry_after_seconds = None\<rparr>, db')
      | Inl e \<Rightarrow>
          if e = FenceViolation then Inl FenceViolation
          else handle_materialization_error cfg claim owner e (re_fail_fence_now env)
                 (re_fail_now env) (re_jitter env) db)"

section \<open>Recycling expired leases\<close>

definition lease_expired :: "time \<Rightarrow> delivery_row \<Rightarrow> bool" where
  "lease_expired now d =
     (dl_status d = Running
      \<and> (case dl_lease_expires_at d of None \<Rightarrow> False | Some t \<Rightarrow> t \<le> now))"

definition lease_order :: "delivery_row \<Rightarrow> int \<times> string \<times> string" where
  "lease_order d = ((case dl_lease_expires_at d of None \<Rightarrow> 0 | Some t \<Rightarrow> t),
                    dl_event_id d, dl_consumer_name d)"

text \<open>
  ORDER BY lease_expires_at, event_id, consumer_name: a stable sort by each column, the last
  first. Every selected row has an expiry.
\<close>

definition expired_candidates :: "time \<Rightarrow> nat \<Rightarrow> outbox_db \<Rightarrow> delivery_row list" where
  "expired_candidates now limit db =
     take limit (sort_key (\<lambda>d. fst (lease_order d)) (sort_key dl_event_id
       (sort_key dl_consumer_name (sql_where (lease_expired now) (deliveries db)))))"

text \<open>One round of the loop, for a row read at the start; \<open>u\<close> gives its jitter draw.\<close>

definition recycle_plan :: "time \<Rightarrow> rat \<Rightarrow> delivery_row \<Rightarrow> delivery_status \<times> time option" where
  "recycle_plan now u row =
     (case delay_for_cycle_attempt (dl_cycle_attempt_number row) of
        None \<Rightarrow> (Dead_letter, None)
      | Some d \<Rightarrow> (Retry_wait, Some (now + jittered_delay d u)))"

definition same_lease :: "delivery_row \<Rightarrow> delivery_row \<Rightarrow> bool" where
  "same_lease row d =
     (delivery_key d = delivery_key row \<and> dl_status d = Running
      \<and> dl_lease_owner d = dl_lease_owner row \<and> dl_fence_token d = dl_fence_token row)"

definition recycled_row ::
    "delivery_row \<Rightarrow> delivery_status \<times> time option \<Rightarrow> delivery_row \<Rightarrow> delivery_row" where
  "recycled_row row plan d =
     d\<lparr>dl_status := fst plan, dl_cycle_attempt_number := dl_cycle_attempt_number row,
       dl_error_category := Some ''lease_expired'', dl_error_code := Some ''lease_expired'',
       dl_next_attempt_at := snd plan, dl_lease_owner := None, dl_lease_expires_at := None\<rparr>"

definition lease_attempt :: "delivery_row \<Rightarrow> attempt_row \<Rightarrow> bool" where
  "lease_attempt row a =
     (at_event_id a = dl_event_id row \<and> at_consumer_name a = dl_consumer_name row
      \<and> Some (at_fence_token a) = dl_fence_token row \<and> at_status a = A_running)"

definition expired_attempt :: "time \<Rightarrow> attempt_row \<Rightarrow> attempt_row" where
  "expired_attempt now a =
     a\<lparr>at_status := A_expired, at_ended_at := Some now,
       at_error_category := Some ''lease_expired'', at_error_code := Some ''lease_expired''\<rparr>"

definition recycle_row ::
    "outbox_cfg \<Rightarrow> time \<Rightarrow> (string \<times> string \<Rightarrow> rat) \<Rightarrow> delivery_row \<Rightarrow> nat \<times> outbox_db \<Rightarrow>
     nat \<times> outbox_db" where
  "recycle_row cfg now u row s =
     (let (recycled, db) = s;
          event_id = dl_event_id row;
          plan = recycle_plan now (u (delivery_key row)) row
      in if sql_count (same_lease row) (deliveries db) \<noteq> 1 then (recycled, db)
         else
           let db1 = db\<lparr>deliveries :=
                 sql_update (same_lease row) (recycled_row row plan) (deliveries db)\<rparr>;
               db2 = db1\<lparr>attempts :=
                 sql_update (lease_attempt row) (expired_attempt now) (attempts db1)\<rparr>;
               db3 = (if fst plan = Dead_letter
                      then alert_dead_letter cfg event_id (dl_consumer_name row)
                             ''lease_expired'' now db2
                      else db2)
           in (Suc recycled,
               record_status_metric cfg now (fst plan) (Some event_id)
                 (record_metric cfg now ''outbox.deliveries.lease_expired'' (Some event_id) None db3)))"

definition recycle_expired_running ::
    "outbox_cfg \<Rightarrow> time \<Rightarrow> (string \<times> string \<Rightarrow> rat) \<Rightarrow> nat \<Rightarrow> outbox_db \<Rightarrow> nat \<times> outbox_db" where
  "recycle_expired_running cfg now u limit db =
     fold (recycle_row cfg now u) (expired_candidates now limit db) (0, db)"

section \<open>Operator view and replay\<close>

definition ops_view :: "string \<Rightarrow> string \<Rightarrow> outbox_db \<Rightarrow> ops_delivery_view option" where
  "ops_view event_id consumer_name db =
     (case (sql_first (\<lambda>d. dl_event_id d = event_id \<and> dl_consumer_name d = consumer_name)
              (deliveries db),
            sql_first (\<lambda>e. ev_event_id e = event_id) (events db)) of
        (Some row, Some event) \<Rightarrow> Some
          \<lparr>ov_event_id = event_id, ov_consumer_name = consumer_name, ov_status = dl_status row,
           ov_version = dl_version row, ov_replay_generation = dl_replay_generation row,
           ov_attempt_number = dl_attempt_number row, ov_error_category = dl_error_category row,
           ov_error_code = dl_error_code row,
           ov_replayable = (ev_storage_state event = Full \<and> dl_status row = Dead_letter),
           ov_next_attempt_at = dl_next_attempt_at row,
           ov_lease_expires_at = dl_lease_expires_at row\<rparr>
      | _ \<Rightarrow> None)"

definition replayed_row :: "delivery_row \<Rightarrow> time \<Rightarrow> delivery_row \<Rightarrow> delivery_row" where
  "replayed_row delivery now d =
     d\<lparr>dl_status := Pending, dl_version := dl_version delivery + 1,
       dl_replay_generation := dl_replay_generation delivery + 1,
       dl_attempt_number := dl_attempt_number delivery, dl_cycle_attempt_number := 0,
       dl_error_category := None, dl_error_code := None, dl_next_attempt_at := Some now,
       dl_lease_owner := None, dl_lease_expires_at := None\<rparr>"

definition replay ::
    "outbox_cfg \<Rightarrow> string \<Rightarrow> string \<Rightarrow> int \<Rightarrow> string \<Rightarrow> string \<Rightarrow> time \<Rightarrow> outbox_db \<Rightarrow>
     exn + replay_receipt \<times> outbox_db" where
  "replay cfg event_id consumer_name expected_version idempotency_key request_hash now db =
     (case sql_first (\<lambda>e. ev_event_id e = event_id) (events db) of
        None \<Rightarrow> Inl (PlatformError ''not_found'' 404)
      | Some event \<Rightarrow>
        if ev_storage_state event \<noteq> Full
        then Inl (PlatformError ''outbox_delivery_not_replayable'' 409)
        else case sql_first (\<lambda>d. dl_event_id d = event_id \<and> dl_consumer_name d = consumer_name)
                    (deliveries db) of
          None \<Rightarrow> Inl (PlatformError ''outbox_delivery_not_replayable'' 409)
        | Some delivery \<Rightarrow>
          let inserted = sql_insert replay_idem_key
                \<lparr>ri_event_id = event_id, ri_consumer_name = consumer_name,
                 ri_key = idempotency_key, ri_request_hash = request_hash, ri_completed = False,
                 ri_response = None, ri_created_at = now\<rparr> (replay_idem db);
              reserved = (inserted \<noteq> None);
              db1 = (case inserted of None \<Rightarrow> db | Some t \<Rightarrow> db\<lparr>replay_idem := t\<rparr>);
              existing = sql_first (\<lambda>r. ri_event_id r = event_id \<and>
                  ri_consumer_name r = consumer_name \<and> ri_key r = idempotency_key) (replay_idem db1)
          in case (if reserved then None else existing) of
            Some row \<Rightarrow>
              if ri_request_hash row \<noteq> request_hash
              then Inl (PlatformError ''idempotency_key_conflict'' 409)
              else (case (ri_completed row, ri_response row) of
                 (True, Some response) \<Rightarrow> Inr (response, db1)
               | _ \<Rightarrow> Inl (PlatformError ''idempotency_in_progress'' 409))
          | None \<Rightarrow>
              if dl_status delivery \<noteq> Dead_letter
              then Inl (PlatformError ''outbox_delivery_not_replayable'' 409)
              else if dl_version delivery \<noteq> expected_version
              then Inl (PlatformError ''version_conflict'' 409)
              else
                let m = (\<lambda>d. dl_event_id d = event_id \<and> dl_consumer_name d = consumer_name
                             \<and> dl_version d = expected_version \<and> dl_status d = Dead_letter)
                in if sql_count m (deliveries db1) \<noteq> 1
                   then Inl (PlatformError ''outbox_delivery_not_replayable'' 409)
                   else
                     let db2 = db1\<lparr>deliveries := sql_update m (replayed_row delivery now)
                                    (deliveries db1)\<rparr>;
                         response = \<lparr>rr_event_id = event_id, rr_consumer_name = consumer_name,
                           rr_status = Pending,
                           rr_replay_generation = dl_replay_generation delivery + 1,
                           rr_version = dl_version delivery + 1\<rparr>;
                         db3 = db2\<lparr>replay_idem := sql_update
                           (\<lambda>r. ri_event_id r = event_id \<and> ri_consumer_name r = consumer_name
                                \<and> ri_key r = idempotency_key \<and> ri_request_hash r = request_hash
                                \<and> \<not> ri_completed r)
                           (\<lambda>r. r\<lparr>ri_completed := True, ri_response := Some response\<rparr>)
                           (replay_idem db2)\<rparr>
                     in Inr (response, record_metric cfg now ''outbox.deliveries.replayed''
                                         (Some event_id) None db3))"

section \<open>Compaction\<close>

definition suppression_outcome :: "suppression_row \<Rightarrow> string" where
  "suppression_outcome row =
     (if sp_reason row = ''recipient_inactive'' then ''recipient_inactive''
      else ''recipient_unauthorized'')"

text \<open>\<open>_write_suppression_receipts\<close>: the loop over the suppressions of the event.\<close>

fun write_receipts ::
    "outbox_cfg \<Rightarrow> string \<Rightarrow> time \<Rightarrow> time \<Rightarrow> suppression_row list \<Rightarrow> receipt_row list \<Rightarrow>
     receipt_row list" where
  "write_receipts cfg event_id occurred now [] rts = rts"
| "write_receipts cfg event_id occurred now (row # rows) rts =
     (let user_id = sp_user_id row; outcome = suppression_outcome row in
      case sql_first (\<lambda>r. rt_event_id r = event_id \<and> rt_user_id r = user_id) rts of
        Some _ \<Rightarrow> write_receipts cfg event_id occurred now rows rts
      | None \<Rightarrow> write_receipts cfg event_id occurred now rows (rts @
          [\<lparr>rt_event_id = event_id, rt_user_id = user_id, rt_outcome = outcome, rt_seq = None,
            rt_occurred_at = occurred, rt_materialized_at = None, rt_retired_at = Some now,
            rt_fingerprint = canonical_receipt_fingerprint (cf_sha256 cfg) event_id user_id
                               outcome None\<rparr>]))"

definition write_suppression_receipts ::
    "outbox_cfg \<Rightarrow> string \<Rightarrow> time \<Rightarrow> outbox_db \<Rightarrow> outbox_db" where
  "write_suppression_receipts cfg event_id now db =
     (case sql_first (\<lambda>e. ev_event_id e = event_id) (events db) of
        None \<Rightarrow> db
      | Some event \<Rightarrow> db\<lparr>receipts := write_receipts cfg event_id (ev_occurred_at event) now
          (sql_where (\<lambda>s. sp_event_id s = event_id) (suppressions db)) (receipts db)\<rparr>)"

definition summary_of :: "delivery_row \<Rightarrow> delivery_summary" where
  "summary_of row =
     \<lparr>ds_consumer_name = dl_consumer_name row, ds_status = dl_status row,
      ds_version = dl_version row, ds_delivered_at = dl_delivered_at row,
      ds_attempt_number = dl_attempt_number row,
      ds_replay_generation = dl_replay_generation row\<rparr>"

definition compacted_event :: "delivery_summary list \<Rightarrow> time \<Rightarrow> event_row \<Rightarrow> event_row" where
  "compacted_event summary now e =
     e\<lparr>ev_storage_state := Compacted, ev_payload := None, ev_trace_id := None,
       ev_schema_version := None, ev_compact_after_at := None,
       ev_compacted_summary := Some summary, ev_compacted_at := Some now\<rparr>"

text \<open>
  \<open>compact_event\<close>. The \<open>return False\<close> after the receipts have been written keeps them: the
  caller's transaction goes on.
\<close>

definition compact_event :: "outbox_cfg \<Rightarrow> string \<Rightarrow> time \<Rightarrow> outbox_db \<Rightarrow> exn + bool \<times> outbox_db" where
  "compact_event cfg event_id now db =
     (if sql_count (\<lambda>d. dl_event_id d = event_id \<and> dl_status d \<noteq> Delivered) (deliveries db) \<noteq> 0
      then Inr (False, db)
      else case sql_first (\<lambda>e. ev_event_id e = event_id) (events db) of
        None \<Rightarrow> Inl NoResultFound
      | Some event \<Rightarrow>
        if ev_compacted_at event \<noteq> None then Inr (False, db)
        else
          let summary = map summary_of (sql_where (\<lambda>d. dl_event_id d = event_id) (deliveries db));
              db1 = write_suppression_receipts cfg event_id now db;
              m = (\<lambda>e. ev_event_id e = event_id \<and> ev_storage_state e = Full
                       \<and> ev_compacted_at e = None)
          in if sql_count m (events db1) \<noteq> 1 then Inr (False, db1)
             else Inr (True, db1\<lparr>
               events := sql_update m (compacted_event summary now) (events db1),
               recipients := sql_delete (\<lambda>r. rc_event_id r = event_id) (recipients db1),
               deliveries := sql_delete (\<lambda>d. dl_event_id d = event_id) (deliveries db1),
               attempts := sql_delete (\<lambda>a. at_event_id a = event_id) (attempts db1),
               suppressions := sql_delete (\<lambda>s. sp_event_id s = event_id) (suppressions db1)\<rparr>))"

fun compact_all ::
    "outbox_cfg \<Rightarrow> time \<Rightarrow> string list \<Rightarrow> nat \<Rightarrow> outbox_db \<Rightarrow> exn + nat \<times> outbox_db" where
  "compact_all cfg now [] k db = Inr (k, db)"
| "compact_all cfg now (e # es) k db =
     (case compact_event cfg e now db of
        Inl x \<Rightarrow> Inl x
      | Inr (done, db') \<Rightarrow> compact_all cfg now es (if done then Suc k else k) db')"

definition compact_due_events :: "outbox_cfg \<Rightarrow> time \<Rightarrow> outbox_db \<Rightarrow> exn + nat \<times> outbox_db" where
  "compact_due_events cfg now db =
     (let db1 = (if cf_metrics cfg
                 then prune_metrics_before (now - days (cf_retention_days cfg)) db else db);
          candidates = take COMPACT_BATCH (map ev_event_id
             (sql_where (\<lambda>e. ev_storage_state e = Full
                 \<and> (case ev_compact_after_at e of None \<Rightarrow> False | Some t \<Rightarrow> t \<le> now)) (events db1)))
      in compact_all cfg now candidates 0 db1)"

end
