(* ===== verification/Outbox_Examples.thy ===== *)
theory Outbox_Examples
  imports Outbox_Delivery
begin

text \<open>
  A small outbox used by the witnesses: one completed ingestion with one recipient, whose
  delivery to the in-app consumer is pending.
\<close>

definition ex_cfg :: outbox_cfg where
  "ex_cfg = \<lparr>cf_consumers = [V1_CONSUMER], cf_metrics = False, cf_retention_days = 30,
     cf_notification_retention_days = 90, cf_lease_seconds = 60, cf_request_id = None,
     cf_sha256 = (\<lambda>s. s),
     cf_float_repr = (\<lambda>q. ''0.9'')\<rparr>"

definition ex_event :: event_row where
  "ex_event = \<lparr>ev_event_id = ''e'', ev_event_type = ''ingestion_completed'',
     ev_schema_version = Some 1, ev_aggregate_type = ''job'', ev_aggregate_id = ''j'',
     ev_transition_version = 1, ev_occurred_at = 0, ev_payload = Some [(''document_id'', PStr ''d'')],
     ev_payload_fingerprint = ''f'', ev_trace_id = None, ev_created_at = 0, ev_storage_state = Full,
     ev_compact_after_at = None, ev_compacted_at = None, ev_compacted_summary = None\<rparr>"

definition ex_recipient :: recipient_row where
  "ex_recipient = \<lparr>rc_event_id = ''e'', rc_user_id = ''u'', rc_kind = ''identity'',
     rc_required_role = None, rc_selection_reason = ''ingestion_job_creator'',
     rc_role_snapshot = ''user'', rc_lifecycle_snapshot = ''active'', rc_selected_at = 0\<rparr>"

definition ex_delivery :: delivery_row where
  "ex_delivery = \<lparr>dl_event_id = ''e'', dl_consumer_name = V1_CONSUMER, dl_status = Pending,
     dl_version = 1, dl_replay_generation = 0, dl_attempt_number = 0, dl_cycle_attempt_number = 0,
     dl_error_category = None, dl_error_code = None, dl_next_attempt_at = None,
     dl_lease_owner = None, dl_lease_expires_at = None, dl_fence_token = None,
     dl_delivered_at = None\<rparr>"

definition ex_db :: outbox_db where
  "ex_db = \<lparr>events = [ex_event], recipients = [ex_recipient], deliveries = [ex_delivery],
     attempts = [], notifications = [], inboxes = [], suppressions = [], acks = [],
     receipts = [], replay_idem = [], retirement_tombstones = [], doc_tombstones = [], redactions = [],
     retirements = [], compactions = [],
     users = [\<lparr>us_id = ''u'', us_role = ''user'', us_lifecycle_status = ''active''\<rparr>],
     documents = [\<lparr>dc_id = ''d'', dc_name = Some ''n'', dc_lifecycle_status = ''active''\<rparr>],
     metrics = [], audits = []\<rparr>"

text \<open>The claim of the delivery at time 0 by worker \<open>w\<close>, and the database after it.\<close>

definition ex_claim :: delivery_claim where
  "ex_claim = \<lparr>cl_event_id = ''e'', cl_consumer_name = V1_CONSUMER, cl_version = 2,
     cl_replay_generation = 0, cl_attempt_number = 1, cl_cycle_attempt_number = 1,
     cl_fence_token = 1, cl_lease_expires_at = 60000000, cl_started_at = 0,
     cl_attempt_id = ''a'', cl_payload = Some [(''document_id'', PStr ''d'')],
     cl_notification_type = Some ''ingestion_completed'',
     cl_title = Some ''Document ingestion completed'',
     cl_redacted_title = ''Deleted document'', cl_document_id = Some ''d'',
     cl_document_version_id = None\<rparr>"

definition ex_running :: delivery_row where
  "ex_running = ex_delivery\<lparr>dl_status := Running, dl_version := 2, dl_attempt_number := 1,
     dl_cycle_attempt_number := 1, dl_lease_owner := Some ''w'',
     dl_lease_expires_at := Some 60000000, dl_fence_token := Some 1\<rparr>"

definition ex_attempt :: attempt_row where
  "ex_attempt = \<lparr>at_attempt_id = ''a'', at_event_id = ''e'', at_consumer_name = V1_CONSUMER,
     at_replay_generation = 0, at_attempt_number = 1, at_cycle_attempt_number = 1,
     at_fence_token = 1, at_started_at = 0, at_ended_at = None, at_status = A_running,
     at_error_category = None, at_error_code = None\<rparr>"

definition ex_running_db :: outbox_db where
  "ex_running_db = ex_db\<lparr>deliveries := [ex_running], attempts := [ex_attempt]\<rparr>"

lemmas ex_defs = ex_cfg_def ex_event_def ex_recipient_def ex_delivery_def ex_db_def ex_claim_def
  ex_running_def ex_attempt_def ex_running_db_def V1_CONSUMER_def

lemma ex_claimed: "claim_one ex_cfg {} ''w'' 0 1 ''a'' ex_db = Inr (Some ex_claim, ex_running_db)"
  by code_simp

end
