(* ===== verification/Inbox_Properties.thy ===== *)
theory Inbox_Properties
  imports Outbox_Inbox Outbox_Examples
begin

text \<open>
  The properties of the notification read model, each with a witness on the small outbox of
  \<open>Outbox_Examples\<close>.
\<close>

section \<open>Exactly one notification per event and recipient\<close>

lemma existing_by_key:
  assumes "inbox_inv db" and "n \<in> set (notifications db)"
  shows "sql_first (\<lambda>k. nt_event_id k = nt_event_id n \<and> nt_user_id k = nt_user_id n)
           (notifications db) = Some n"
  by (rule sql_first_keyed [OF inbox_inv_keys(2) [OF assms(1)] assms(2)]) (simp_all add: key_defs)

text \<open>A materialized recipient is one that passes the account checks.\<close>

lemma materialize_account:
  assumes "materialize cfg event r nid ty title did vid red now db = Inr (Some m, db')"
  shows "\<exists>a. sql_first (\<lambda>u. us_id u = rc_user_id r) (users db) = Some a
           \<and> us_lifecycle_status a = ''active''
           \<and> \<not> (rc_kind r = ''role_snapshot'' \<and> rc_required_role r \<noteq> None
                 \<and> Some (us_role a) \<noteq> rc_required_role r)"
  using assms
  by (auto simp: materialize_def Let_def split: option.splits if_splits sum.splits)

lemma materialize_known:
  assumes "sql_first (\<lambda>u. us_id u = rc_user_id r) (users db) = Some a"
    and "us_lifecycle_status a = ''active''"
    and "\<not> (rc_kind r = ''role_snapshot'' \<and> rc_required_role r \<noteq> None
             \<and> Some (us_role a) \<noteq> rc_required_role r)"
    and "sql_first (\<lambda>n. nt_event_id n = ev_event_id event \<and> nt_user_id n = rc_user_id r)
           (notifications db) = Some n"
  shows "materialize cfg event r nid ty title did vid red now db = Inr (Some (existing_notification n), db)"
  using assms by (auto simp: materialize_def Let_def)

text \<open>Materializing an event for a recipient a second time, with any new id, title and
  time, changes nothing and returns the first notification: a redelivery is never a duplicate.\<close>

theorem rematerialize_idempotent:
  assumes inv: "inbox_inv db"
    and res: "materialize cfg event r nid ty title did vid red now db = Inr (Some m, db')"
  shows "materialize cfg event r nid2 ty2 title2 did2 vid2 red2 now2 db' = Inr (Some m, db')"
proof -
  obtain a where a: "sql_first (\<lambda>u. us_id u = rc_user_id r) (users db) = Some a"
      "us_lifecycle_status a = ''active''"
      "\<not> (rc_kind r = ''role_snapshot'' \<and> rc_required_role r \<noteq> None
          \<and> Some (us_role a) \<noteq> rc_required_role r)"
    using materialize_account [OF res] by blast
  have inv': "inbox_inv db'" by (rule materialize_inv [OF inv res])
  have "users db' = users db \<and> (\<exists>n \<in> set (notifications db'). nt_event_id n = ev_event_id event
          \<and> nt_user_id n = rc_user_id r \<and> existing_notification n = m)"
    using res
  proof (cases rule: materialize_cases)
    case (created m')
    then show ?thesis
      using materialize_new_users [OF created(2)] materialize_new_present [OF inv created(2)] by simp
  qed auto
  then obtain n where u: "users db' = users db" and n: "n \<in> set (notifications db')"
      "nt_event_id n = ev_event_id event" "nt_user_id n = rc_user_id r" "existing_notification n = m"
    by blast
  show ?thesis
    using materialize_known [of r db' a event n cfg nid2 ty2 title2 did2 vid2 red2 now2]
      a u existing_by_key [OF inv' n(1)] n by simp
qed

lemma ex_inbox_inv: "inbox_inv ex_db"
  by (simp add: inbox_inv_def ex_defs)

definition ex_materialized :: "materialization \<times> outbox_db" where
  "ex_materialized = (case materialize ex_cfg ex_event ex_recipient ''n1'' ''t'' ''T'' None None False 5 ex_db of
     Inr (Some m, db) \<Rightarrow> (m, db))"

theorem rematerialize_idempotent_witness:
  "materialize ex_cfg ex_event ex_recipient ''n2'' ''t'' ''T2'' None None False 9 (snd ex_materialized)
     = Inr (Some (fst ex_materialized), snd ex_materialized)"
proof -
  have "materialize ex_cfg ex_event ex_recipient ''n1'' ''t'' ''T'' None None False 5 ex_db
      = Inr (Some (fst ex_materialized), snd ex_materialized)"
    by code_simp
  then show ?thesis by (rule rematerialize_idempotent [OF ex_inbox_inv])
qed

section \<open>The cap and the receipts\<close>

text \<open>After a notification is created the recipient has at most 50 online notifications,
  and every notification that was there before is still there or has left a receipt.\<close>

theorem materialize_capped_with_receipts:
  assumes inv: "inbox_inv db"
    and res: "materialize_new cfg event u nid ty title did vid red now db = Inr (m, db')"
  shows "length (online_desc u now db') \<le> 50 \<and>
    (\<forall>k \<in> set (notifications db).
       k \<in> set (notifications db') \<or> receipted (nt_event_id k) (nt_user_id k) db')"
proof (intro conjI ballI)
  show "length (online_desc u now db') \<le> 50"
    using materialize_new_cap [OF inv res] by (simp add: MAX_ONLINE_NOTIFICATIONS_def)
next
  fix k assume k: "k \<in> set (notifications db)"
  show "k \<in> set (notifications db') \<or> receipted (nt_event_id k) (nt_user_id k) db'"
    using res
  proof (rule materialize_new_cases)
    fix n
    let ?db1 = "snd (next_sequence u db)\<lparr>notifications := notifications db @ [n]\<rparr>"
    assume db': "db' = trim_over_cap cfg u now ?db1"
      and fresh: "notification_key n \<notin> notification_key ` set (notifications db)"
    have kd: "keyed notification_key (notifications ?db1)"
      using inv fresh by (auto simp: inbox_inv_def keyed_def)
    have "k \<in> set (notifications ?db1)" using k by simp
    then show ?thesis
      unfolding db' trim_over_cap_def Let_def using retire_all_receipts [OF kd] by blast
  qed
qed

definition ex_event2 :: event_row where
  "ex_event2 = ex_event\<lparr>ev_event_id := ''e2''\<rparr>"

definition ex_second :: "materialization \<times> outbox_db" where
  "ex_second = (case materialize_new ex_cfg ex_event2 ''u'' ''n2'' ''t'' ''T'' None None False 7
     (snd ex_materialized) of Inr r \<Rightarrow> r)"

lemma ex_materialized_inv: "inbox_inv (snd ex_materialized)"
proof -
  have "materialize ex_cfg ex_event ex_recipient ''n1'' ''t'' ''T'' None None False 5 ex_db
      = Inr (Some (fst ex_materialized), snd ex_materialized)"
    by code_simp
  then show ?thesis by (rule materialize_inv [OF ex_inbox_inv])
qed

lemma ex_second_step:
  "materialize_new ex_cfg ex_event2 ''u'' ''n2'' ''t'' ''T'' None None False 7 (snd ex_materialized)
     = Inr (fst ex_second, snd ex_second)"
  by code_simp

theorem materialize_capped_with_receipts_witness:
  "length (online_desc ''u'' 7 (snd ex_second)) \<le> 50 \<and> length (notifications (snd ex_second)) = 2"
proof -
  have "length (notifications (snd ex_second)) = 2" by code_simp
  then show ?thesis
    using materialize_capped_with_receipts [OF ex_materialized_inv ex_second_step] by blast
qed

section \<open>Sequence numbers\<close>

text \<open>Materialization keeps the inbox invariant (one notification per event and recipient,
  every sequence number unique and below the inbox counter), and a new notification gets a
  number above every one its recipient has.\<close>

theorem materialize_preserves_inbox:
  assumes inv: "inbox_inv db"
    and res: "materialize_new cfg event u nid ty title did vid red now db = Inr (m, db')"
  shows "inbox_inv db' \<and>
    (\<forall>k \<in> set (notifications db). nt_user_id k = u \<longrightarrow> nt_seq k < mz_seq m)"
  using materialize_new_inv [OF inv res] materialize_new_seq [OF inv _ _ res] by blast

theorem materialize_preserves_inbox_witness:
  "inbox_inv (snd ex_second) \<and> mz_seq (fst ex_second) = 2"
proof -
  have "mz_seq (fst ex_second) = 2" by code_simp
  then show ?thesis using materialize_preserves_inbox [OF ex_materialized_inv ex_second_step] by blast
qed

section \<open>Reading\<close>

lemma read_through_of:
  assumes "keyed inbox_key (inboxes db)" and "i \<in> set (inboxes db)"
  shows "read_through (ib_user_id i) db = Some (ib_read_through_seq i)"
  using inbox_by_user [OF assms] by (simp add: read_through_def)

lemma read_all_cases:
  assumes inv: "inbox_inv db" and res: "read_all u now db = Inr db'"
  shows "notifications db' = notifications db
    \<and> (\<exists>i \<in> set (inboxes db'). ib_user_id i = u
         \<and> (\<forall>n \<in> set (notifications db). nt_user_id n = u \<longrightarrow> nt_seq n \<le> ib_read_through_seq i))
    \<and> keyed inbox_key (inboxes db')"
proof (cases "sql_first (\<lambda>i. ib_user_id i = u) (inboxes db)")
  case None
  then have none: "\<forall>i \<in> set (inboxes db). ib_user_id i \<noteq> u" by (simp add: sql)
  then have "\<forall>n \<in> set (notifications db). nt_user_id n \<noteq> u"
    using inv unfolding inbox_inv_def by metis
  moreover have "db' = db\<lparr>inboxes := inboxes db' \<rparr>"
    using res None by (auto simp: read_all_def Let_def)
  ultimately show ?thesis
    using res None none inv
    by (auto simp: read_all_def Let_def inbox_inv_def keyed_def key_defs split: option.splits)
next
  case (Some i)
  then have i: "i \<in> set (inboxes db)" "ib_user_id i = u" by (auto dest: sql_first_Some)
  have below: "\<forall>n \<in> set (notifications db). nt_user_id n = u \<longrightarrow> nt_seq n \<le> ib_next_seq i - 1"
    using seq_below_counter [OF inv] Some by (fastforce simp: seq_counter_def)
  let ?m = "\<lambda>j. ib_user_id j = u \<and> ib_version j = ib_version i"
  let ?f = "\<lambda>j. j\<lparr>ib_read_through_seq := ib_next_seq i - 1, ib_read_all_at := Some now,
      ib_version := ib_version i + 1\<rparr>"
  show ?thesis
  proof (cases "ib_next_seq i - 1 \<le> ib_read_through_seq i")
    case True
    then have "db' = db" using res Some by (simp add: read_all_def)
    then show ?thesis using i below True inv by (fastforce simp: inbox_inv_def)
  next
    case False
    then have db': "db' = db\<lparr>inboxes := sql_update ?m ?f (inboxes db)\<rparr>"
      using res Some by (auto simp: read_all_def Let_def split: if_splits)
    have "?f i \<in> set (sql_update ?m ?f (inboxes db))" using i by (force simp: sql)
    moreover have "keyed inbox_key (sql_update ?m ?f (inboxes db))"
      using inbox_inv_keys(3) [OF inv] by (rule keyed_update) (simp add: key_defs)
    ultimately show ?thesis using db' below i by (auto intro!: bexI [of _ "?f i"])
  qed
qed

text \<open>After a successful read-all the unread counter of the user is 0 at every later time,
  and no notification has been touched.\<close>

theorem read_all_clears_unread:
  assumes inv: "inbox_inv db" and res: "read_all u now db = Inr db'"
  shows "unread_count u t db' = 0 \<and> notifications db' = notifications db"
proof -
  obtain i where i: "i \<in> set (inboxes db')" "ib_user_id i = u"
      "\<forall>n \<in> set (notifications db). nt_user_id n = u \<longrightarrow> nt_seq n \<le> ib_read_through_seq i"
    and n: "notifications db' = notifications db" and k: "keyed inbox_key (inboxes db')"
    using read_all_cases [OF inv res] by blast
  have "read_through u db' = Some (ib_read_through_seq i)"
    using read_through_of [OF k i(1)] i(2) by simp
  then show ?thesis using i(3) n by (fastforce simp: unread_count_def sql)
qed

definition ex_read :: outbox_db where
  "ex_read = (case read_all ''u'' 8 (snd ex_second) of Inr db \<Rightarrow> db)"

theorem read_all_clears_unread_witness:
  "unread_count ''u'' 9 (snd ex_second) = 2 \<and> unread_count ''u'' 9 ex_read = 0
     \<and> notifications ex_read = notifications (snd ex_second)"
proof -
  have inv: "inbox_inv (snd ex_second)"
    by (rule materialize_new_inv [OF ex_materialized_inv ex_second_step])
  have step: "read_all ''u'' 8 (snd ex_second) = Inr ex_read" by code_simp
  have "unread_count ''u'' 9 (snd ex_second) = 2" by code_simp
  then show ?thesis using read_all_clears_unread [OF inv step, of 9] by simp
qed

definition unread_items :: "string \<Rightarrow> time \<Rightarrow> outbox_db \<Rightarrow> notification_item list" where
  "unread_items u now db =
     filter (\<lambda>i. \<not> ni_read i) (list_notifications u (length (notifications db)) now db)"

text \<open>C6: with an inbox row the unread counter is the number of unread items of the full list;
  without one it is 0 even when the list shows unread items, because the outer join compares
  with NULL there while the list reads NULL as 0.\<close>

theorem unread_count_matches_list:
  "(read_through u db \<noteq> None \<longrightarrow> unread_count u now db = length (unread_items u now db)) \<and>
   (read_through u db = None \<longrightarrow> unread_count u now db = 0)"
proof (intro conjI impI)
  let ?on = "\<lambda>n. nt_user_id n = u \<and> nt_retire_after_at n > now"
  assume "read_through u db \<noteq> None"
  then obtain r where r: "read_through u db = Some r" by blast
  let ?new = "\<lambda>n. nt_read_at n = None \<and> nt_seq n > r"
  have len: "length (online_desc u now db) \<le> length (notifications db)"
    by (simp add: online_desc_def sql_where_def)
  have "length (unread_items u now db) = length (filter ?new (online_desc u now db))"
    using len by (simp add: unread_items_def list_notifications_def filter_map comp_def r
        notification_item_of_def Let_def not_le)
  also have "\<dots> = length (filter ?new (filter ?on (notifications db)))"
    by (simp add: online_desc_def sql_where_def rev_filter [symmetric] filter_sort)
  also have "\<dots> = unread_count u now db"
    by (simp add: unread_count_def sql_count_def r filter_filter conj_ac)
  finally show "unread_count u now db = length (unread_items u now db)" ..
next
  assume "read_through u db = None"
  then show "unread_count u now db = 0" by (simp add: unread_count_def sql)
qed

theorem unread_count_matches_list_witness:
  "unread_count ''u'' 9 (snd ex_second) = length (unread_items ''u'' 9 (snd ex_second))
   \<and> unread_count ''u'' 9 ((snd ex_second)\<lparr>inboxes := []\<rparr>) = 0
   \<and> length (unread_items ''u'' 9 ((snd ex_second)\<lparr>inboxes := []\<rparr>)) = 2"
proof -
  have "read_through ''u'' (snd ex_second) \<noteq> None" by code_simp
  moreover have "read_through ''u'' ((snd ex_second)\<lparr>inboxes := []\<rparr>) = None" by code_simp
  moreover have "length (unread_items ''u'' 9 ((snd ex_second)\<lparr>inboxes := []\<rparr>)) = 2" by code_simp
  ultimately show ?thesis
    using unread_count_matches_list [of "''u''" "snd ex_second" 9]
      unread_count_matches_list [of "''u''" "(snd ex_second)\<lparr>inboxes := []\<rparr>" 9] by blast
qed

section \<open>Acknowledgement\<close>

definition ack_time :: "string \<Rightarrow> string \<Rightarrow> outbox_db \<Rightarrow> time option" where
  "ack_time event_id user_id db =
     map_option ak_acked_at (sql_first (\<lambda>a. ak_event_id a = event_id \<and> ak_user_id a = user_id) (acks db))"

lemma materialize_new_read_at:
  "materialize_new cfg event u nid ty title did vid red now db = Inr (m, db') \<Longrightarrow>
   mz_read_at m = ack_time (ev_event_id event) u db"
  by (auto simp: materialize_new_def ack_time_def Let_def split: option.splits prod.splits)

lemma ack_event_time:
  assumes res: "ack_event u e ty t db = Inr db'"
    and fresh: "\<not> (\<exists>n \<in> set (notifications db). nt_event_id n = e \<and> nt_user_id n = u)"
    and rcpt: "has_receipt e u db \<noteq> Some ''materialized''"
  shows "ack_time e u db' = Some (case ack_time e u db of None \<Rightarrow> t | Some t0 \<Rightarrow> t0)"
proof -
  let ?p = "\<lambda>a. ak_event_id a = e \<and> ak_user_id a = u"
  have none: "sql_first (\<lambda>n. nt_event_id n = e \<and> nt_user_id n = u) (notifications db) = None"
    using fresh by (auto simp: sql)
  have db': "db' = write_ack e u t db"
    using res by (auto simp: ack_event_def Let_def split: option.splits if_splits)
  show ?thesis
  proof (cases "sql_first ?p (acks db)")
    case None
    then have "ack_key \<lparr>ak_event_id = e, ak_user_id = u, ak_acked_at = t\<rparr> \<notin> ack_key ` set (acks db)"
      by (auto simp: sql key_defs)
    then show ?thesis
      using None by (simp add: db' write_ack_def Let_def none rcpt sql_insert_def ack_time_def sql_first_append)
  next
    case (Some a)
    then have "a \<in> set (acks db)" "ak_event_id a = e" "ak_user_id a = u" by (auto dest: sql_first_Some)
    then have "ack_key \<lparr>ak_event_id = e, ak_user_id = u, ak_acked_at = t\<rparr> \<in> ack_key ` set (acks db)"
      by (force simp: key_defs)
    then show ?thesis
      using Some by (simp add: db' write_ack_def Let_def none rcpt sql_insert_def ack_time_def)
  qed
qed

text \<open>A user who acknowledges an event before it is materialized gets a notification that
  is born read, at the time of the first acknowledgement.\<close>

theorem acknowledged_before_materialization:
  assumes "ack_event u (ev_event_id event) ty t db = Inr db1"
    and "\<not> (\<exists>n \<in> set (notifications db). nt_event_id n = ev_event_id event \<and> nt_user_id n = u)"
    and "has_receipt (ev_event_id event) u db \<noteq> Some ''materialized''"
    and "materialize_new cfg event u nid nty title did vid red now db1 = Inr (m, db2)"
  shows "mz_read_at m = Some (case ack_time (ev_event_id event) u db of None \<Rightarrow> t | Some t0 \<Rightarrow> t0)"
  using ack_event_time [OF assms(1-3)] materialize_new_read_at [OF assms(4)] by simp

theorem acknowledged_before_materialization_witness:
  "\<exists>db1 m db2. ack_event ''u'' ''e'' None 3 ex_db = Inr db1
     \<and> materialize_new ex_cfg ex_event ''u'' ''n1'' ''t'' ''T'' None None False 5 db1 = Inr (m, db2)
     \<and> mz_read_at m = Some 3"
proof -
  define db1 where "db1 = (case ack_event ''u'' ''e'' None 3 ex_db of Inr db \<Rightarrow> db)"
  define r where "r = (case materialize_new ex_cfg ex_event ''u'' ''n1'' ''t'' ''T'' None None False 5 db1 of
     Inr r \<Rightarrow> r)"
  have id: "ev_event_id ex_event = ''e''" by (simp add: ex_defs)
  have a: "ack_event ''u'' (ev_event_id ex_event) None 3 ex_db = Inr db1"
    unfolding db1_def by code_simp
  have b: "materialize_new ex_cfg ex_event ''u'' ''n1'' ''t'' ''T'' None None False 5 db1 = Inr (fst r, snd r)"
    unfolding r_def db1_def by code_simp
  have "mz_read_at (fst r) = Some (case ack_time (ev_event_id ex_event) ''u'' ex_db of None \<Rightarrow> 3 | Some t0 \<Rightarrow> t0)"
    by (rule acknowledged_before_materialization [OF a _ _ b]) (simp_all add: ex_defs has_receipt_def)
  then have "mz_read_at (fst r) = Some 3" by (simp add: ack_time_def ex_defs)
  then show ?thesis using a b unfolding id by blast
qed

end
