(* ===== verification/Lease_Protocol.thy ===== *)
theory Lease_Protocol
  imports Prelude
begin

text \<open>
  The contract of a leased row: some transaction makes it active for a holder and moves its
  fence token up, and until it is released the token and the holder stay. Whoever relies on
  fencing (a runner that comes back after its lease was taken away) uses the lemmas of this
  locale; the component that owns the row interprets it on its own step relation.
\<close>

locale fenced_lease =
  fixes step :: "'s \<Rightarrow> 's \<Rightarrow> bool"
    and good :: "'s \<Rightarrow> bool"
    and row :: "'s \<Rightarrow> 'r option"
    and fence :: "'r \<Rightarrow> int"
    and active :: "'r \<Rightarrow> bool"
    and holder :: "'r \<Rightarrow> string option"
  assumes good_step: "good s \<Longrightarrow> step s t \<Longrightarrow> good t"
    and fence_le: "good s \<Longrightarrow> step s t \<Longrightarrow> row s = Some r \<Longrightarrow> row t = Some r' \<Longrightarrow> fence r \<le> fence r'"
    and acquire: "good s \<Longrightarrow> step s t \<Longrightarrow> row s = Some r \<Longrightarrow> row t = Some r' \<Longrightarrow>
        \<not> active r \<Longrightarrow> active r' \<Longrightarrow> fence r < fence r'"
    and hold: "good s \<Longrightarrow> step s t \<Longrightarrow> row s = Some r \<Longrightarrow> row t = Some r' \<Longrightarrow>
        active r \<Longrightarrow> active r' \<Longrightarrow> fence r' = fence r \<and> holder r' = holder r"
    and gone: "good s \<Longrightarrow> step s t \<Longrightarrow> row s = None \<Longrightarrow> row t = None"
begin

lemma good_steps: "step\<^sup>*\<^sup>* s t \<Longrightarrow> good s \<Longrightarrow> good t"
  by (induction rule: rtranclp_induct) (auto intro: good_step)

lemma gone_steps: "step\<^sup>*\<^sup>* s t \<Longrightarrow> good s \<Longrightarrow> row s = None \<Longrightarrow> row t = None"
proof (induction rule: rtranclp_induct)
  case (step t u)
  then show ?case using good_steps gone by blast
qed

lemma row_back: "step\<^sup>*\<^sup>* s t \<Longrightarrow> good s \<Longrightarrow> row t = Some r' \<Longrightarrow> \<exists>r. row s = Some r"
  using gone_steps by (cases "row s") auto

text \<open>The token never moves back.\<close>

lemma fence_mono:
  "step\<^sup>*\<^sup>* s t \<Longrightarrow> good s \<Longrightarrow> row s = Some r \<Longrightarrow> row t = Some r' \<Longrightarrow> fence r \<le> fence r'"
proof (induction arbitrary: r' rule: rtranclp_induct)
  case (step t u)
  have "good t" using step.hyps(1) step.prems(1) by (rule good_steps)
  obtain q where q: "row t = Some q"
    using gone [OF \<open>good t\<close> step.hyps(2)] step.prems(3) by (cases "row t") auto
  then have "fence r \<le> fence q" using step.IH step.prems by blast
  also have "fence q \<le> fence r'" using fence_le [OF \<open>good t\<close> step.hyps(2) q step.prems(3)] .
  finally show ?case .
qed simp

definition leased_under :: "int \<Rightarrow> 's \<Rightarrow> bool" where
  "leased_under f s = (\<exists>r. row s = Some r \<and> active r \<and> fence r = f)"

text \<open>
  A token that has been spent stays spent: once the row has reached token \<open>f\<close> and is not
  leased under it, it is never leased under it again.
\<close>

lemma spent_step:
  assumes "good s" and "step s t" and "row s = Some r" and "f \<le> fence r"
    and "\<not> leased_under f s"
  shows "\<not> leased_under f t"
proof
  assume "leased_under f t"
  then obtain r' where r': "row t = Some r'" "active r'" "fence r' = f"
    by (auto simp: leased_under_def)
  then have "fence r = f" using fence_le assms by fastforce
  then have "\<not> active r" using assms(3,5) by (auto simp: leased_under_def)
  then show False using acquire [OF assms(1,2,3) r'(1)] r' \<open>fence r = f\<close> by simp
qed

theorem spent_forever:
  assumes "step\<^sup>*\<^sup>* s t" and "good s" and "row s = Some r" and "f \<le> fence r"
    and "\<not> leased_under f s"
  shows "\<not> leased_under f t"
  using assms
proof (induction rule: rtranclp_induct)
  case (step t u)
  have gt: "good t" using step.hyps(1) step.prems(1) by (rule good_steps)
  have IH: "\<not> leased_under f t" using step by blast
  show ?case
  proof (cases "row t")
    case None
    then show ?thesis using gone [OF gt step.hyps(2)] by (simp add: leased_under_def)
  next
    case (Some q)
    then have "f \<le> fence q" using fence_mono [OF step.hyps(1)] step.prems by fastforce
    then show ?thesis using spent_step [OF gt step.hyps(2) Some _ IH] by blast
  qed
qed

text \<open>One token, one holder: as long as the row is leased under \<open>f\<close>, its holder is the same.\<close>

theorem one_holder:
  assumes "step\<^sup>*\<^sup>* s t" and "good s" and "row s = Some r" and "active r" and "fence r = f"
    and "row t = Some r'" and "active r'" and "fence r' = f"
  shows "holder r' = holder r"
  using assms(1,6,7,8)
proof (induction arbitrary: r' rule: rtranclp_induct)
  case base
  then show ?case using assms by simp
next
  case (step t u)
  have gt: "good t" using step.hyps(1) assms(2) by (rule good_steps)
  obtain q where q: "row t = Some q"
    using gone [OF gt step.hyps(2)] step.prems(1) by (cases "row t") auto
  have "f \<le> fence q" using fence_mono [OF step.hyps(1) assms(2,3) q] assms(5) by simp
  moreover have "fence q \<le> f" using fence_le [OF gt step.hyps(2) q step.prems(1)] step.prems(3) by simp
  ultimately have fq: "fence q = f" by simp
  then have aq: "active q"
    using acquire [OF gt step.hyps(2) q step.prems(1)] step.prems(2,3) by fastforce
  have "holder q = holder r" by (rule step.IH [OF q aq fq])
  then show ?case using hold [OF gt step.hyps(2) q step.prems(1) aq step.prems(2)] by simp
qed

end

end
