(* ===== verification/Outbox_Invariants.thy ===== *)
theory Outbox_Invariants
  imports Outbox_Delivery Lease_Protocol
begin

text \<open>
  The invariant of the delivery and attempt tables, and the rules that say how one delivery
  row may change: started under a new token, stopped, touched while it stays running, moved
  while idle, or deleted with its event. Each dispatcher operation is an instance of one of
  them.
\<close>

section \<open>The invariant\<close>

definition at_lease :: "attempt_row \<Rightarrow> string \<times> string \<times> int" where
  "at_lease a = (at_event_id a, at_consumer_name a, at_fence_token a)"

definition lease_of :: "delivery_row \<Rightarrow> string \<times> string \<times> int" where
  "lease_of d = (dl_event_id d, dl_consumer_name d, fence_or_zero d)"

text \<open>What holds of a delivery row by itself.\<close>

definition delivery_ok :: "delivery_row \<Rightarrow> bool" where
  "delivery_ok d \<longleftrightarrow>
     1 \<le> dl_version d \<and> 0 \<le> fence_or_zero d
     \<and> 0 \<le> dl_cycle_attempt_number d \<and> dl_cycle_attempt_number d \<le> MAX_CYCLE_ATTEMPTS
     \<and> (dl_status d = Running \<longrightarrow> dl_lease_owner d \<noteq> None \<and> dl_lease_expires_at d \<noteq> None
          \<and> dl_fence_token d \<noteq> None \<and> 1 \<le> dl_cycle_attempt_number d)
     \<and> (dl_status d \<noteq> Running \<longrightarrow> dl_lease_owner d = None \<and> dl_lease_expires_at d = None)
     \<and> (dl_status d = Retry_wait \<longrightarrow> 1 \<le> dl_cycle_attempt_number d
          \<and> dl_cycle_attempt_number d < MAX_CYCLE_ATTEMPTS \<and> dl_next_attempt_at d \<noteq> None)"

definition fences_bounded :: "delivery_row list \<Rightarrow> attempt_row list \<Rightarrow> bool" where
  "fences_bounded ds as \<longleftrightarrow> (\<forall>d \<in> set ds. \<forall>a \<in> set as.
     (at_event_id a, at_consumer_name a) = delivery_key d \<longrightarrow> at_fence_token a \<le> fence_or_zero d)"

definition running_have_attempt :: "delivery_row list \<Rightarrow> attempt_row list \<Rightarrow> bool" where
  "running_have_attempt ds as \<longleftrightarrow> (\<forall>d \<in> set ds. dl_status d = Running \<longrightarrow>
     (\<exists>a \<in> set as. at_status a = A_running \<and> at_lease a = lease_of d
        \<and> at_cycle_attempt_number a = dl_cycle_attempt_number d))"

definition attempts_have_running :: "delivery_row list \<Rightarrow> attempt_row list \<Rightarrow> bool" where
  "attempts_have_running ds as \<longleftrightarrow> (\<forall>a \<in> set as. at_status a = A_running \<longrightarrow>
     (\<exists>d \<in> set ds. dl_status d = Running \<and> lease_of d = at_lease a))"

definition delivery_inv :: "delivery_row list \<Rightarrow> attempt_row list \<Rightarrow> bool" where
  "delivery_inv ds as \<longleftrightarrow>
     keyed delivery_key ds \<and> keyed attempt_key as \<and> keyed at_lease as
     \<and> (\<forall>d \<in> set ds. delivery_ok d) \<and> fences_bounded ds as
     \<and> running_have_attempt ds as \<and> attempts_have_running ds as"

named_theorems inv_defs
declare fences_bounded_def [inv_defs] running_have_attempt_def [inv_defs]
  attempts_have_running_def [inv_defs] at_lease_def [inv_defs] lease_of_def [inv_defs]

lemma delivery_invD:
  assumes "delivery_inv ds as"
  shows "keyed delivery_key ds" "keyed attempt_key as" "keyed at_lease as"
    "\<And>d. d \<in> set ds \<Longrightarrow> delivery_ok d" "fences_bounded ds as"
    "running_have_attempt ds as" "attempts_have_running ds as"
  using assms by (auto simp: delivery_inv_def)

section \<open>Changing one row\<close>

text \<open>An UPDATE whose WHERE clause fixes the key changes exactly the row it matches.\<close>

lemma set_sql_update_one:
  assumes "keyed key t" and "d \<in> set t" and "m d" and "\<And>s. s \<in> set t \<Longrightarrow> m s \<Longrightarrow> key s = key d"
  shows "set (sql_update m f t) = insert (f d) (set t - {d})"
proof -
  have "m s \<longleftrightarrow> s = d" if "s \<in> set t" for s
    using assms that keyed_eq by metis
  then show ?thesis using assms(2) by (auto simp: sql_update_def)
qed

text \<open>
  The part of the invariant that is about rows, read on sets: row \<open>d\<close> of the table has
  become \<open>d'\<close>.
\<close>

lemma rows_stop:
  assumes inv: "delivery_inv ds as" and d: "d \<in> set ds"
    and ds': "set ds' = insert d' (set ds - {d})" and kd: "keyed delivery_key ds'"
    and same: "delivery_key d' = delivery_key d" "fence_or_zero d' = fence_or_zero d"
    and idle: "dl_status d' \<noteq> Running" and ok: "delivery_ok d'"
    and ka: "keyed attempt_key as'" "keyed at_lease as'"
    and as': "\<And>a'. a' \<in> set as' \<Longrightarrow> \<exists>a \<in> set as. at_lease a' = at_lease a
                \<and> (at_status a' = A_running \<longrightarrow> a' = a \<and> at_lease a \<noteq> lease_of d)"
    and keep: "\<And>a. a \<in> set as \<Longrightarrow> at_lease a \<noteq> lease_of d \<Longrightarrow> a \<in> set as'"
  shows "delivery_inv ds' as'"
proof -
  have bounded: "fences_bounded ds' as'"
    unfolding fences_bounded_def
  proof (intro ballI impI)
    fix e a' assume e: "e \<in> set ds'" and a': "a' \<in> set as'"
      and k: "(at_event_id a', at_consumer_name a') = delivery_key e"
    obtain a where a: "a \<in> set as" "at_lease a' = at_lease a" using as' [OF a'] by blast
    obtain e0 where e0: "e0 \<in> set ds" "delivery_key e0 = delivery_key e"
        "fence_or_zero e0 = fence_or_zero e"
      using e ds' d same by fastforce
    have "at_fence_token a \<le> fence_or_zero e0"
      using delivery_invD(5) [OF inv] a e0 k by (auto simp: fences_bounded_def at_lease_def)
    then show "at_fence_token a' \<le> fence_or_zero e" using a e0 by (simp add: at_lease_def)
  qed
  have ra: "running_have_attempt ds' as'"
    unfolding running_have_attempt_def
  proof (intro ballI impI)
    fix e assume e: "e \<in> set ds'" and r: "dl_status e = Running"
    then have e': "e \<in> set ds" "e \<noteq> d" using ds' idle by auto
    then obtain a where a: "a \<in> set as" "at_status a = A_running" "at_lease a = lease_of e"
        "at_cycle_attempt_number a = dl_cycle_attempt_number e"
      using delivery_invD(6) [OF inv] r unfolding running_have_attempt_def by blast
    have "delivery_key e \<noteq> delivery_key d"
      using keyed_eq [OF delivery_invD(1) [OF inv] e'(1) d] e'(2) by blast
    then have "at_lease a \<noteq> lease_of d" using a(3) by (auto simp: lease_of_def key_defs)
    then have "a \<in> set as'" using keep a(1) by blast
    then show "\<exists>a \<in> set as'. at_status a = A_running \<and> at_lease a = lease_of e
        \<and> at_cycle_attempt_number a = dl_cycle_attempt_number e" using a by blast
  qed
  have ar: "attempts_have_running ds' as'"
    unfolding attempts_have_running_def
  proof (intro ballI impI)
    fix a' assume a': "a' \<in> set as'" and r: "at_status a' = A_running"
    then have a: "a' \<in> set as" "at_lease a' \<noteq> lease_of d" using as' by blast+
    then obtain e where "e \<in> set ds" "dl_status e = Running" "lease_of e = at_lease a'"
      using delivery_invD(7) [OF inv] r unfolding attempts_have_running_def by blast
    then show "\<exists>e \<in> set ds'. dl_status e = Running \<and> lease_of e = at_lease a'"
      using a(2) ds' by fastforce
  qed
  show ?thesis
    using inv kd ka ds' ok bounded ra ar by (auto simp: delivery_inv_def)
qed

lemma rows_start:
  assumes inv: "delivery_inv ds as" and d: "d \<in> set ds" and nr: "dl_status d \<noteq> Running"
    and ds': "set ds' = insert d' (set ds - {d})" and kd: "keyed delivery_key ds'"
    and same: "delivery_key d' = delivery_key d" and f: "fence_or_zero d' = fence_or_zero d + 1"
    and run: "dl_status d' = Running" and ok: "delivery_ok d'"
    and ins: "sql_insert attempt_key a as = Some as'"
    and a: "at_lease a = lease_of d'" "at_status a = A_running"
      "at_cycle_attempt_number a = dl_cycle_attempt_number d'"
  shows "delivery_inv ds' as'"
proof -
  have as': "as' = as @ [a]" "keyed attempt_key as'"
    using ins keyed_insert [OF delivery_invD(2) [OF inv] ins] by (auto simp: sql)
  have old: "at_fence_token b \<le> fence_or_zero d"
    if "b \<in> set as" "(at_event_id b, at_consumer_name b) = delivery_key d" for b
    using delivery_invD(5) [OF inv] d that by (auto simp: fences_bounded_def)
  have fresh: "at_lease a \<notin> at_lease ` set as"
  proof
    assume "at_lease a \<in> at_lease ` set as"
    then obtain b where b: "b \<in> set as" "at_lease b = lease_of d'" using a by auto
    then have "at_fence_token b = fence_or_zero d + 1"
        "(at_event_id b, at_consumer_name b) = delivery_key d"
      using same f by (auto simp: at_lease_def lease_of_def key_defs)
    then show False using old b by fastforce
  qed
  then have kl: "keyed at_lease as'"
    using delivery_invD(3) [OF inv] as' by (auto simp: keyed_def)
  have other: "e \<in> set ds' \<Longrightarrow> e = d' \<or> e \<in> set ds \<and> delivery_key e \<noteq> delivery_key d" for e
    using ds' keyed_eq [OF delivery_invD(1) [OF inv]] d by auto
  have bounded: "fences_bounded ds' as'"
    unfolding fences_bounded_def
  proof (intro ballI impI)
    fix e b assume e: "e \<in> set ds'" and b: "b \<in> set as'"
      and k: "(at_event_id b, at_consumer_name b) = delivery_key e"
    show "at_fence_token b \<le> fence_or_zero e"
    proof (cases "b = a")
      case True
      then have "delivery_key e = delivery_key d"
        using k a(1) same by (auto simp: at_lease_def lease_of_def key_defs)
      then have "e = d'" using other e by blast
      then show ?thesis using True a(1) by (simp add: at_lease_def lease_of_def)
    next
      case False
      then have b': "b \<in> set as" using b as' by auto
      show ?thesis
      proof (cases "e = d'")
        case True
        then show ?thesis using old [OF b'] k same f by fastforce
      next
        case False
        then have "e \<in> set ds" using other e by blast
        then show ?thesis using delivery_invD(5) [OF inv] b' k by (auto simp: fences_bounded_def)
      qed
    qed
  qed
  have ra: "running_have_attempt ds' as'"
    using other delivery_invD(6) [OF inv] a as' unfolding running_have_attempt_def by fastforce
  have ar: "attempts_have_running ds' as'"
    unfolding attempts_have_running_def
  proof (intro ballI impI)
    fix b assume b: "b \<in> set as'" and r: "at_status b = A_running"
    show "\<exists>e \<in> set ds'. dl_status e = Running \<and> lease_of e = at_lease b"
    proof (cases "b = a")
      case True
      then show ?thesis using ds' run a(1) by auto
    next
      case False
      then obtain e where "e \<in> set ds" "dl_status e = Running" "lease_of e = at_lease b"
        using delivery_invD(7) [OF inv] r b as' unfolding attempts_have_running_def by auto
      then show ?thesis using ds' nr by auto
    qed
  qed
  show ?thesis
    using inv kd kl as' ds' ok bounded ra ar by (auto simp: delivery_inv_def)
qed

lemma rows_touch:
  assumes inv: "delivery_inv ds as" and d: "d \<in> set ds"
    and ds': "set ds' = insert d' (set ds - {d})" and kd: "keyed delivery_key ds'"
    and same: "delivery_key d' = delivery_key d" "fence_or_zero d' = fence_or_zero d"
    and st: "dl_status d' = Running \<longleftrightarrow> dl_status d = Running"
    and cyc: "dl_status d = Running \<Longrightarrow> dl_cycle_attempt_number d' = dl_cycle_attempt_number d"
    and ok: "delivery_ok d'"
  shows "delivery_inv ds' as"
proof -
  have l: "lease_of d' = lease_of d"
    using same by (auto simp: lease_of_def key_defs)
  have bounded: "fences_bounded ds' as"
    using delivery_invD(5) [OF inv] ds' same d unfolding fences_bounded_def by fastforce
  have ra: "running_have_attempt ds' as"
    unfolding running_have_attempt_def
  proof (intro ballI impI)
    fix e assume e: "e \<in> set ds'" "dl_status e = Running"
    obtain e0 where "e0 \<in> set ds" "dl_status e0 = Running" "lease_of e0 = lease_of e"
        "dl_cycle_attempt_number e0 = dl_cycle_attempt_number e"
      using e ds' d l st cyc by (cases "e = d'") auto
    then show "\<exists>a \<in> set as. at_status a = A_running \<and> at_lease a = lease_of e
        \<and> at_cycle_attempt_number a = dl_cycle_attempt_number e"
      using delivery_invD(6) [OF inv] unfolding running_have_attempt_def by metis
  qed
  have ar: "attempts_have_running ds' as"
    unfolding attempts_have_running_def
  proof (intro ballI impI)
    fix a assume "a \<in> set as" "at_status a = A_running"
    then obtain e where "e \<in> set ds" "dl_status e = Running" "lease_of e = at_lease a"
      using delivery_invD(7) [OF inv] unfolding attempts_have_running_def by blast
    then show "\<exists>d \<in> set ds'. dl_status d = Running \<and> lease_of d = at_lease a"
      using ds' l st by (cases "e = d") auto
  qed
  show ?thesis
    using inv kd ds' ok bounded ra ar by (auto simp: delivery_inv_def)
qed

lemma rows_delete:
  assumes inv: "delivery_inv ds as"
  shows "delivery_inv (sql_delete (\<lambda>d. dl_event_id d = e) ds) (sql_delete (\<lambda>a. at_event_id a = e) as)"
proof -
  have "running_have_attempt (sql_delete (\<lambda>d. dl_event_id d = e) ds)
          (sql_delete (\<lambda>a. at_event_id a = e) as)"
    using delivery_invD(6) [OF inv]
    by (fastforce simp: running_have_attempt_def at_lease_def lease_of_def)
  moreover have "attempts_have_running (sql_delete (\<lambda>d. dl_event_id d = e) ds)
          (sql_delete (\<lambda>a. at_event_id a = e) as)"
    using delivery_invD(7) [OF inv]
    by (fastforce simp: attempts_have_running_def at_lease_def lease_of_def)
  ultimately show ?thesis
    using inv by (auto simp: delivery_inv_def fences_bounded_def intro: keyed_delete)
qed

end
