(* ===== verification/Outbox_Steps.thy ===== *)
theory Outbox_Steps
  imports Outbox_Invariants
begin

text \<open>
  What each dispatcher operation does to the delivery and attempt tables, and that each one
  preserves the delivery invariant. A claim is \<open>genuine\<close> when it agrees with the row it
  fences: claims come from \<open>claim_one\<close> and stay genuine whatever happens afterwards.
\<close>

section \<open>Genuine claims\<close>

definition claim_lease :: "delivery_claim \<Rightarrow> string \<times> string \<times> int" where
  "claim_lease c = (cl_event_id c, cl_consumer_name c, cl_fence_token c)"

definition genuine :: "delivery_claim \<Rightarrow> string \<Rightarrow> outbox_db \<Rightarrow> bool" where
  "genuine c owner db \<longleftrightarrow>
     1 \<le> cl_cycle_attempt_number c \<and> cl_cycle_attempt_number c \<le> MAX_CYCLE_ATTEMPTS
     \<and> (\<forall>d \<in> set (deliveries db). delivery_key d = (cl_event_id c, cl_consumer_name c) \<longrightarrow>
          cl_fence_token c \<le> fence_or_zero d)
     \<and> (\<forall>d \<in> set (deliveries db). fence_matches c owner d \<longrightarrow>
          dl_version d = cl_version c \<and> dl_cycle_attempt_number d = cl_cycle_attempt_number c)
     \<and> (\<forall>a \<in> set (attempts db). at_attempt_id a = cl_attempt_id c \<longleftrightarrow> at_lease a = claim_lease c)"

lemma fence_matches_key: "fence_matches c owner d \<Longrightarrow> delivery_key d = (cl_event_id c, cl_consumer_name c)"
  by (simp add: fence_matches_def key_defs)

lemma fence_matches_lease: "fence_matches c owner d \<Longrightarrow> lease_of d = claim_lease c"
  by (simp add: fence_matches_def lease_of_def claim_lease_def fence_or_zero_def)

lemma live_fence: "live_fence_matches c owner now d \<Longrightarrow> fence_matches c owner d"
  by (simp add: live_fence_matches_def)

lemma live_fence_key:
  "live_fence_matches c owner now d \<Longrightarrow> delivery_key d = (cl_event_id c, cl_consumer_name c)"
  by (rule fence_matches_key [OF live_fence])

section \<open>Claiming\<close>

lemma claim_matches_key: "claim_matches row d \<Longrightarrow> delivery_key d = delivery_key row"
  by (simp add: claim_matches_def)

lemma claim_row_lost:
  "sql_count (claim_matches row) (deliveries db) \<noteq> 1 \<Longrightarrow>
   claim_row cfg owner now aid row db = Inr (None, db)"
  by (simp add: claim_row_def)

lemma claim_row_None:
  "claim_row cfg owner now aid row db = Inr (None, db') \<Longrightarrow> db' = db"
  by (auto simp: claim_row_def Let_def split: if_splits option.splits)

lemma claim_row_Some:
  assumes "claim_row cfg owner now aid row db = Inr (Some c, db')"
  shows "sql_count (claim_matches row) (deliveries db) = 1"
    and "deliveries db' = sql_update (claim_matches row) (claimed_row cfg owner now row) (deliveries db)"
    and "\<exists>a. sql_insert attempt_key a (attempts db) = Some (attempts db')
           \<and> at_attempt_id a = aid \<and> at_status a = A_running
           \<and> at_lease a = (dl_event_id row, dl_consumer_name row, fence_or_zero row + 1)
           \<and> at_cycle_attempt_number a = cycle_attempt_after row"
    and "cl_event_id c = dl_event_id row" "cl_consumer_name c = dl_consumer_name row"
      "cl_version c = dl_version row + 1" "cl_fence_token c = fence_or_zero row + 1"
      "cl_cycle_attempt_number c = cycle_attempt_after row" "cl_attempt_id c = aid"
      "cl_lease_expires_at c = now + seconds (cf_lease_seconds cfg)"
    and "events db' = events db" "notifications db' = notifications db" "inboxes db' = inboxes db"
      "receipts db' = receipts db" "suppressions db' = suppressions db" "acks db' = acks db"
      "recipients db' = recipients db" "replay_idem db' = replay_idem db"
  using assms
  by (auto simp: claim_row_def Let_def claimed_row_def at_lease_def split: if_splits option.splits)

lemma claim_candidates_in:
  assumes "row \<in> set (claim_candidates skip now limit db)"
  shows "row \<in> set (deliveries db)" "claimable now row" "delivery_key row \<notin> skip"
proof -
  have "row \<in> set (sql_where (\<lambda>d. claimable now d \<and> delivery_key d \<notin> skip) (deliveries db))"
    using assms unfolding claim_candidates_def by (rule in_set_takeD)
  then show "row \<in> set (deliveries db)" "claimable now row" "delivery_key row \<notin> skip"
    by simp_all
qed

lemma claim_one_row:
  assumes "claim_one cfg skip owner now limit aid db = Inr (Some c, db')"
  obtains row where "row \<in> set (deliveries db)" "claimable now row" "py_strip owner \<noteq> []"
    "claim_row cfg (py_strip owner) now aid row db = Inr (Some c, db')"
proof (cases "claim_candidates skip now limit db")
  case Nil
  then show ?thesis using assms by (simp add: claim_one_def Let_def split: if_splits)
next
  case (Cons row rs)
  then have "row \<in> set (claim_candidates skip now limit db)" by simp
  note this = claim_candidates_in(1,2) [OF this]
  with Cons show ?thesis
    using assms that [of row] by (auto simp: claim_one_def Let_def split: if_splits)
qed

lemma claimable_idle: "claimable now d \<Longrightarrow> dl_status d = Pending \<or> dl_status d = Retry_wait"
  by (auto simp: claimable_def)

lemma cycle_attempt_after_bounds:
  "delivery_ok d \<Longrightarrow> 1 \<le> cycle_attempt_after d \<and> cycle_attempt_after d \<le> MAX_CYCLE_ATTEMPTS"
  by (auto simp: delivery_ok_def cycle_attempt_after_def MAX_CYCLE_ATTEMPTS_def)

lemma claimed_row_ok:
  assumes "delivery_ok d"
  shows "delivery_ok (claimed_row cfg owner now d d)"
  using assms cycle_attempt_after_bounds [OF assms]
  by (auto simp: delivery_ok_def claimed_row_def fence_or_zero_def)

lemma claim_row_inv:
  assumes inv: "delivery_inv (deliveries db) (attempts db)"
    and row: "row \<in> set (deliveries db)" "claimable now row"
    and res: "claim_row cfg owner now aid row db = Inr (Some c, db')"
  shows "delivery_inv (deliveries db') (attempts db')"
proof -
  note eff = claim_row_Some [OF res]
  obtain a where a: "sql_insert attempt_key a (attempts db) = Some (attempts db')"
      "at_lease a = (dl_event_id row, dl_consumer_name row, fence_or_zero row + 1)"
      "at_status a = A_running" "at_cycle_attempt_number a = cycle_attempt_after row"
    using eff(3) by blast
  have m: "claim_matches row row"
    using claimable_idle [OF row(2)] by (auto simp: claim_matches_def)
  have set': "set (deliveries db') = insert (claimed_row cfg owner now row row) (set (deliveries db) - {row})"
    unfolding eff(2)
    by (rule set_sql_update_one [where m = "claim_matches row", OF delivery_invD(1) [OF inv] row(1) m])
      (rule claim_matches_key)
  have kd: "keyed delivery_key (deliveries db')"
    unfolding eff(2) using delivery_invD(1) [OF inv]
    by (rule keyed_update) (auto simp: claimed_row_def key_defs)
  show ?thesis
    by (rule rows_start [OF inv row(1) _ set' kd _ _ _ _ a(1)])
      (use claimable_idle [OF row(2)] claimed_row_ok [OF delivery_invD(4) [OF inv row(1)]] a in
        \<open>auto simp: claimed_row_def key_defs fence_or_zero_def lease_of_def\<close>)
qed

lemma claim_one_inv:
  assumes inv: "delivery_inv (deliveries db) (attempts db)"
    and res: "claim_one cfg skip owner now limit aid db = Inr (r, db')"
  shows "delivery_inv (deliveries db') (attempts db')"
proof (cases r)
  case None
  then have "db' = db"
    using res claim_row_None by (auto simp: claim_one_def Let_def split: if_splits list.splits)
  then show ?thesis using inv by simp
next
  case (Some c)
  with res have "claim_one cfg skip owner now limit aid db = Inr (Some c, db')" by simp
  then show ?thesis by (rule claim_one_row) (rule claim_row_inv [OF inv])
qed

section \<open>Releasing the row: failure and delivery\<close>

text \<open>
  The row a live fence matches, and the tables after it has been released with the attempt
  of the claim closed.
\<close>

lemma release_row:
  assumes inv: "delivery_inv (deliveries db) (attempts db)"
    and gen: "genuine c owner db"
    and cnt: "sql_count (live_fence_matches c owner now) (deliveries db) = 1"
    and f: "\<And>d. delivery_key (f d) = delivery_key d" "\<And>d. dl_fence_token (f d) = dl_fence_token d"
      "\<And>d. dl_status (f d) \<noteq> Running"
    and ok: "\<And>d. delivery_ok d \<Longrightarrow> fence_matches c owner d \<Longrightarrow>
        dl_version d = cl_version c \<Longrightarrow> dl_cycle_attempt_number d = cl_cycle_attempt_number c \<Longrightarrow>
        delivery_ok (f d)"
    and g: "\<And>a. attempt_key (g a) = attempt_key a" "\<And>a. at_lease (g a) = at_lease a"
      "\<And>a. at_status (g a) \<noteq> A_running"
    and am: "\<And>a. a \<in> set (attempts db) \<Longrightarrow> at_status a = A_running \<Longrightarrow> at_attempt_id a = cl_attempt_id c \<Longrightarrow>
        at_fence_token a = cl_fence_token c \<Longrightarrow> am a"
      "\<And>a. am a \<Longrightarrow> at_attempt_id a = cl_attempt_id c"
  shows "delivery_inv (sql_update (live_fence_matches c owner now) f (deliveries db))
           (sql_update am g (attempts db))"
proof -
  let ?m = "live_fence_matches c owner now"
  note kd = delivery_invD(1) [OF inv]
  obtain d where d: "d \<in> set (deliveries db)" "?m d"
    using sql_count_one_iff [OF kd, of ?m] cnt live_fence_key by blast
  have key_d: "\<And>s. s \<in> set (deliveries db) \<Longrightarrow> ?m s \<Longrightarrow> delivery_key s = delivery_key d"
    using live_fence_key d(2) by metis
  note set' = set_sql_update_one [where m = ?m and f = f, OF kd d(1) d(2) key_d]
  have l: "lease_of d = claim_lease c" using fence_matches_lease live_fence d(2) by blast
  have gen_d: "dl_version d = cl_version c" "dl_cycle_attempt_number d = cl_cycle_attempt_number c"
    using gen d live_fence by (auto simp: genuine_def)
  have att: "at_attempt_id a = cl_attempt_id c \<longleftrightarrow> at_lease a = lease_of d" if "a \<in> set (attempts db)" for a
    using gen that l by (simp add: genuine_def)
  show ?thesis
  proof (rule rows_stop [OF inv d(1) set'])
    show "keyed delivery_key (sql_update ?m f (deliveries db))"
      using kd by (rule keyed_update) (simp add: f)
    show "fence_or_zero (f d) = fence_or_zero d" using f(2) by (simp add: fence_or_zero_def)
    show "delivery_ok (f d)"
      using ok [OF delivery_invD(4) [OF inv d(1)] live_fence [OF d(2)] gen_d] .
    show "keyed attempt_key (sql_update am g (attempts db))"
      using delivery_invD(2) [OF inv] by (rule keyed_update) (simp add: g)
    show "keyed at_lease (sql_update am g (attempts db))"
      using delivery_invD(3) [OF inv] by (rule keyed_update) (simp add: g)
  next
    fix a' assume "a' \<in> set (sql_update am g (attempts db))"
    then obtain a where a: "a \<in> set (attempts db)" "a' = (if am a then g a else a)"
      by (auto simp: sql)
    have "at_lease a \<noteq> lease_of d" if "at_status a' = A_running"
    proof
      assume eq: "at_lease a = lease_of d"
      then have "at_attempt_id a = cl_attempt_id c" using att a(1) by blast
      moreover have "at_fence_token a = cl_fence_token c"
        using eq l by (auto simp: at_lease_def claim_lease_def)
      ultimately have "am a" using am(1) a that g(3) by (auto split: if_splits)
      then show False using a(2) that g(3) by simp
    qed
    then show "\<exists>a \<in> set (attempts db). at_lease a' = at_lease a
        \<and> (at_status a' = A_running \<longrightarrow> a' = a \<and> at_lease a \<noteq> lease_of d)"
      using a g by (auto intro!: bexI [of _ a])
  next
    fix a assume a: "a \<in> set (attempts db)" "at_lease a \<noteq> lease_of d"
    then have "\<not> am a" using att am(2) by blast
    then show "a \<in> set (sql_update am g (attempts db))" using a(1) by (force simp: sql)
  qed (simp_all add: f)
qed

end
