(* ===== verification/Outbox_Runs.thy ===== *)
theory Outbox_Runs
  imports Outbox_Steps Outbox_Inbox
begin

text \<open>
  The other dispatcher operations: failure, delivery, renewal, recycling, replay and
  compaction. For each one, what it does to the delivery and attempt tables, and that it
  preserves the delivery invariant.
\<close>

abbreviation tables_inv :: "outbox_db \<Rightarrow> bool" where
  "tables_inv db \<equiv> delivery_inv (deliveries db) (attempts db)"

section \<open>Failure\<close>

lemma alert_frame [simp, frame]:
  "deliveries (alert_dead_letter cfg e c code now db) = deliveries db"
  "attempts (alert_dead_letter cfg e c code now db) = attempts db"
  "events (alert_dead_letter cfg e c code now db) = events db"
  by (simp_all add: alert_dead_letter_def)

lemma fail_effect:
  assumes "fail_and_schedule cfg c owner cat code t0 now u db = Inr (oc, db')"
  shows "sql_count (live_fence_matches c owner now) (deliveries db) = 1"
    and "assert_fence c owner t0 db" and "cat \<in> {''retryable'', ''permanent'', ''lease_expired''}"
    and "deliveries db' = sql_update (live_fence_matches c owner now)
           (failed_row c code (failure_plan c cat now u)) (deliveries db)"
    and "attempts db' = sql_update (\<lambda>a. at_attempt_id a = cl_attempt_id c)
           (failed_attempt now (snd (snd (failure_plan c cat now u))) code) (attempts db)"
    and "events db' = events db"
    and "oc_status oc = (if fst (failure_plan c cat now u) = Dead_letter then O_dead_letter else O_failed)"
  using assms
  by (auto simp: fail_and_schedule_def Let_def split: prod.splits if_splits)

lemma failure_plan_cases:
  "failure_plan c cat now u = (st, nx, cat') \<Longrightarrow>
     st = Dead_letter \<and> nx = None
       \<and> (cat = ''permanent'' \<or> cl_cycle_attempt_number c \<ge> MAX_CYCLE_ATTEMPTS)
   \<or> st = Retry_wait \<and> cat \<noteq> ''permanent'' \<and> cl_cycle_attempt_number c < MAX_CYCLE_ATTEMPTS
       \<and> (\<exists>s. delay_for_cycle_attempt (cl_cycle_attempt_number c) = Some s
            \<and> nx = Some (now + jittered_delay s u))"
  by (auto simp: failure_plan_def Let_def delay_for_cycle_attempt_def split: option.splits if_splits)

lemma failed_row_simps [simp]:
  "delivery_key (failed_row c code plan d) = delivery_key d"
  "dl_fence_token (failed_row c code plan d) = dl_fence_token d"
  "dl_status (failed_row c code plan d) = fst plan"
  "dl_lease_owner (failed_row c code plan d) = None"
  "dl_lease_expires_at (failed_row c code plan d) = None"
  "dl_version (failed_row c code plan d) = cl_version c"
  "dl_cycle_attempt_number (failed_row c code plan d) = cl_cycle_attempt_number c"
  "dl_next_attempt_at (failed_row c code plan d) = fst (snd plan)"
  by (simp_all add: failed_row_def key_defs split: prod.splits)

lemma failed_attempt_simps [simp]:
  "attempt_key (failed_attempt now cat code a) = attempt_key a"
  "at_lease (failed_attempt now cat code a) = at_lease a"
  "at_status (failed_attempt now cat code a) = A_failed"
  "at_attempt_id (failed_attempt now cat code a) = at_attempt_id a"
  by (simp_all add: failed_attempt_def key_defs at_lease_def)

lemma failed_row_ok:
  assumes "delivery_ok d" "dl_version d = cl_version c"
    "dl_cycle_attempt_number d = cl_cycle_attempt_number c" "dl_status d = Running"
  shows "delivery_ok (failed_row c code (failure_plan c cat now u) d)"
proof -
  obtain st nx cat' where p: "failure_plan c cat now u = (st, nx, cat')" by (metis prod_cases3)
  show ?thesis
    using failure_plan_cases [OF p] assms by (auto simp: p delivery_ok_def fence_or_zero_def)
qed

lemma fail_inv:
  assumes inv: "tables_inv db" and gen: "genuine c owner db"
    and res: "fail_and_schedule cfg c owner cat code t0 now u db = Inr (oc, db')"
  shows "tables_inv db'"
proof -
  obtain st nx cat' where p: "failure_plan c cat now u = (st, nx, cat')" by (metis prod_cases3)
  have idle: "fst (failure_plan c cat now u) \<noteq> Running"
    using failure_plan_cases [OF p] by (auto simp: p)
  show ?thesis
    unfolding fail_effect(4,5) [OF res]
    by (rule release_row [OF inv gen fail_effect(1) [OF res]])
      (use idle in \<open>auto intro: failed_row_ok simp: fence_matches_def\<close>)
qed

section \<open>Delivery\<close>

lemma delivery_partD:
  assumes "delivery_part db' = delivery_part db"
  shows "events db' = events db" "deliveries db' = deliveries db" "attempts db' = attempts db"
    "recipients db' = recipients db" "replay_idem db' = replay_idem db"
  using assms by (simp_all add: delivery_part_def)

lemma delivery_part_metric [simp]:
  "delivery_part (record_metric cfg now n ev v db) = delivery_part db"
  by (simp add: delivery_part_def)

lemma materialize_all_delivery_part:
  "materialize_all cfg event c title red now ids rs k db = Inr db' \<Longrightarrow> delivery_part db' = delivery_part db"
proof (induction rs arbitrary: k db)
  case (Cons r rs)
  then show ?case
    by (auto split: sum.splits prod.splits dest!: materialize_delivery_part)
qed simp

lemma materialize_event_delivery_part:
  assumes "materialize_event cfg c now ids db = Inr db'"
  shows "delivery_part db' = delivery_part db"
  using assms
  by (auto simp: materialize_event_def Let_def split: if_splits option.splits
      dest!: materialize_all_delivery_part)

lemma freeze_frame [simp, frame]:
  "deliveries (maybe_freeze_compaction cfg e db) = deliveries db"
  "attempts (maybe_freeze_compaction cfg e db) = attempts db"
  by (auto simp: maybe_freeze_compaction_def split: option.splits)

text \<open>The attempt a delivery closes.\<close>

definition delivering_attempt :: "delivery_claim \<Rightarrow> attempt_row \<Rightarrow> bool" where
  "delivering_attempt c a = (at_attempt_id a = cl_attempt_id c \<and> at_status a = A_running
     \<and> at_fence_token a = cl_fence_token c)"

lemma finalize_effect:
  assumes "finalize_tx cfg c owner env db = Inr db'"
  shows "sql_count (live_fence_matches c owner (re_now env)) (deliveries db) = 1"
    and "assert_fence c owner (re_fence_now env) db" and "re_fault env = None"
    and "sql_count (delivering_attempt c) (attempts db) = 1"
    and "deliveries db' = sql_update (live_fence_matches c owner (re_now env))
           (delivered_row c (re_now env)) (deliveries db)"
    and "attempts db' = sql_update (delivering_attempt c)
           (\<lambda>a. a\<lparr>at_status := A_delivered, at_ended_at := Some (re_now env)\<rparr>) (attempts db)"
proof -
  obtain db1 where f: "materialize_event cfg c (re_now env) (re_ids env) db = Inr db1"
    using assms by (auto simp: finalize_tx_def Let_def split: if_splits option.splits sum.splits)
  note p = delivery_partD [OF materialize_event_delivery_part [OF f]]
  have m: "delivering_attempt c = (\<lambda>a. at_attempt_id a = cl_attempt_id c \<and> at_status a = A_running
      \<and> at_fence_token a = cl_fence_token c)"
    by (simp add: fun_eq_iff delivering_attempt_def)
  show "sql_count (live_fence_matches c owner (re_now env)) (deliveries db) = 1"
    "assert_fence c owner (re_fence_now env) db" "re_fault env = None"
    "sql_count (delivering_attempt c) (attempts db) = 1"
    "deliveries db' = sql_update (live_fence_matches c owner (re_now env))
       (delivered_row c (re_now env)) (deliveries db)"
    "attempts db' = sql_update (delivering_attempt c)
       (\<lambda>a. a\<lparr>at_status := A_delivered, at_ended_at := Some (re_now env)\<rparr>) (attempts db)"
    using assms f p
    by (auto simp: finalize_tx_def Let_def m split: if_splits option.splits)
qed

lemma finalize_inv:
  assumes inv: "tables_inv db" and gen: "genuine c owner db"
    and res: "finalize_tx cfg c owner env db = Inr db'"
  shows "tables_inv db'"
  unfolding finalize_effect(5,6) [OF res]
  by (rule release_row [OF inv gen finalize_effect(1) [OF res]])
    (auto simp: delivered_row_def key_defs at_lease_def delivering_attempt_def delivery_ok_def fence_or_zero_def)

text \<open>Every way the dispatcher's run can end: nothing, a delivery, or a recorded failure.\<close>

lemma run_cases:
  assumes "run_consumer_and_finalize cfg c owner env db = Inr (oc, db')"
  obtains (delivered) "finalize_tx cfg c owner env db = Inr db'" "oc_status oc = O_delivered"
      "cl_consumer_name c \<in> set (cf_consumers cfg)"
  | (failed) cat code where "fail_and_schedule cfg c owner cat code (re_fail_fence_now env)
        (re_fail_now env) (re_jitter env) db = Inr (oc, db')"
proof -
  have handle: "\<exists>cat code. handle_materialization_error cfg c owner e t0 now u db =
      fail_and_schedule cfg c owner cat code t0 now u db" for e t0 now u
    by (auto simp: handle_materialization_error_def)
  show ?thesis
    using assms that handle [of _ "re_fail_fence_now env" "re_fail_now env" "re_jitter env"]
    by (auto simp: run_consumer_and_finalize_def split: if_splits sum.splits) metis+
qed

lemma run_inv:
  assumes "tables_inv db" and "genuine c owner db"
    and "run_consumer_and_finalize cfg c owner env db = Inr (oc, db')"
  shows "tables_inv db'"
  by (rule run_cases [OF assms(3)]) (auto intro: finalize_inv fail_inv assms(1,2))

section \<open>Renewal\<close>

lemma renew_effect:
  assumes "renew_lease cfg c owner now db = (Some c', db')"
  shows "sql_count (live_fence_matches c owner now) (deliveries db) = 1"
    and "deliveries db' = sql_update (live_fence_matches c owner now)
           (\<lambda>d. d\<lparr>dl_lease_expires_at := Some (now + seconds (cf_lease_seconds cfg))\<rparr>) (deliveries db)"
    and "attempts db' = attempts db" and "events db' = events db"
    and "c' = c\<lparr>cl_lease_expires_at := now + seconds (cf_lease_seconds cfg)\<rparr>"
  using assms by (auto simp: renew_lease_def Let_def split: if_splits)

lemma renew_None: "renew_lease cfg c owner now db = (None, db') \<Longrightarrow> db' = db"
  by (auto simp: renew_lease_def Let_def split: if_splits)

lemma one_row:
  assumes "keyed delivery_key ds" and "sql_count m ds = 1"
    and "\<And>d. m d \<Longrightarrow> delivery_key d = k"
  obtains d where "d \<in> set ds" "m d" "set (sql_update m f ds) = insert (f d) (set ds - {d})"
proof -
  obtain d where d: "d \<in> set ds" "m d"
    using sql_count_one_iff [OF assms(1), of m k] assms(2,3) by blast
  then have "set (sql_update m f ds) = insert (f d) (set ds - {d})"
    using set_sql_update_one [OF assms(1)] assms(3) by metis
  with d show ?thesis by (rule that)
qed

lemma renew_inv:
  assumes inv: "tables_inv db" and res: "renew_lease cfg c owner now db = (r, db')"
  shows "tables_inv db'"
proof (cases r)
  case None
  then show ?thesis using res renew_None inv by fastforce
next
  case (Some c')
  note eff = renew_effect [OF res [unfolded Some]]
  let ?f = "\<lambda>d. d\<lparr>dl_lease_expires_at := Some (now + seconds (cf_lease_seconds cfg))\<rparr>"
  obtain d where d: "d \<in> set (deliveries db)" "live_fence_matches c owner now d"
      "set (deliveries db') = insert (?f d) (set (deliveries db) - {d})"
    unfolding eff(2) by (rule one_row [OF delivery_invD(1) [OF inv] eff(1) live_fence_key])
  have "dl_status d = Running" using d(2) by (simp add: live_fence_matches_def fence_matches_def)
  then show ?thesis
    unfolding eff(3)
    by (intro rows_touch [OF inv d(1,3)])
      (use delivery_invD(1,4) [OF inv] d in
        \<open>auto simp: eff(2) key_defs fence_or_zero_def delivery_ok_def intro!: keyed_update\<close>)
qed

section \<open>Recycling\<close>

lemma recycle_row_frame:
  "deliveries (snd (recycle_row cfg now u row (k, db))) =
     (if sql_count (same_lease row) (deliveries db) \<noteq> 1 then deliveries db
      else sql_update (same_lease row) (recycled_row row (recycle_plan now (u (delivery_key row)) row))
             (deliveries db))"
  "attempts (snd (recycle_row cfg now u row (k, db))) =
     (if sql_count (same_lease row) (deliveries db) \<noteq> 1 then attempts db
      else sql_update (lease_attempt row) (expired_attempt now) (attempts db))"
  "events (snd (recycle_row cfg now u row (k, db))) = events db"
  by (auto simp: recycle_row_def Let_def)

lemma recycle_plan_cases:
  "recycle_plan now u row = (Dead_letter, None) \<and> dl_cycle_attempt_number row \<ge> MAX_CYCLE_ATTEMPTS
   \<or> (\<exists>s. delay_for_cycle_attempt (dl_cycle_attempt_number row) = Some s
        \<and> recycle_plan now u row = (Retry_wait, Some (now + jittered_delay s u))
        \<and> dl_cycle_attempt_number row < MAX_CYCLE_ATTEMPTS)"
  by (auto simp: recycle_plan_def delay_for_cycle_attempt_def Let_def split: option.splits if_splits)

lemma recycled_row_ok:
  assumes "delivery_ok d" "delivery_ok row" "dl_status row = Running"
  shows "delivery_ok (recycled_row row (recycle_plan now u row) d)"
  using assms recycle_plan_cases [of now u row]
  by (auto simp: delivery_ok_def recycled_row_def fence_or_zero_def)

lemma recycled_row_simps [simp]:
  "delivery_key (recycled_row row plan d) = delivery_key d"
  "dl_fence_token (recycled_row row plan d) = dl_fence_token d"
  "dl_status (recycled_row row plan d) = fst plan"
  by (simp_all add: recycled_row_def key_defs)

lemma expired_attempt_simps [simp]:
  "attempt_key (expired_attempt now a) = attempt_key a"
  "at_lease (expired_attempt now a) = at_lease a"
  "at_status (expired_attempt now a) = A_expired"
  "at_attempt_id (expired_attempt now a) = at_attempt_id a"
  by (simp_all add: expired_attempt_def key_defs at_lease_def)

lemma recycle_plan_idle: "fst (recycle_plan now u row) \<noteq> Running"
  using recycle_plan_cases [of now u row] by auto

lemma lease_attempt_iff:
  assumes "same_lease row d" and "dl_fence_token row \<noteq> None"
  shows "lease_attempt row a \<longleftrightarrow> at_lease a = lease_of d \<and> at_status a = A_running"
  using assms
  by (auto simp: lease_attempt_def same_lease_def at_lease_def lease_of_def key_defs fence_or_zero_def)

lemma recycle_row_inv:
  assumes inv: "tables_inv db" and row: "delivery_ok row" "dl_status row = Running"
  shows "tables_inv (snd (recycle_row cfg now u row (k, db)))"
proof (cases "sql_count (same_lease row) (deliveries db) = 1")
  case False
  then show ?thesis using inv by (simp add: recycle_row_frame)
next
  case True
  let ?f = "recycled_row row (recycle_plan now (u (delivery_key row)) row)"
  obtain d where d: "d \<in> set (deliveries db)" "same_lease row d"
      "set (sql_update (same_lease row) ?f (deliveries db)) = insert (?f d) (set (deliveries db) - {d})"
    by (rule one_row [OF delivery_invD(1) [OF inv] True, of "delivery_key row"])
      (simp add: same_lease_def)
  have la: "lease_attempt row a \<longleftrightarrow> at_lease a = lease_of d \<and> at_status a = A_running" for a
    by (rule lease_attempt_iff [OF d(2)]) (use row in \<open>simp add: delivery_ok_def\<close>)
  have "delivery_inv (sql_update (same_lease row) ?f (deliveries db))
          (sql_update (lease_attempt row) (expired_attempt now) (attempts db))"
  proof (rule rows_stop [OF inv d(1,3)])
    show "keyed delivery_key (sql_update (same_lease row) ?f (deliveries db))"
      using delivery_invD(1) [OF inv] by (rule keyed_update) simp
    show "delivery_ok (?f d)"
      using recycled_row_ok [OF delivery_invD(4) [OF inv d(1)] row] .
    show "keyed attempt_key (sql_update (lease_attempt row) (expired_attempt now) (attempts db))"
      using delivery_invD(2) [OF inv] by (rule keyed_update) simp
    show "keyed at_lease (sql_update (lease_attempt row) (expired_attempt now) (attempts db))"
      using delivery_invD(3) [OF inv] by (rule keyed_update) simp
  qed (use la recycle_plan_idle in \<open>fastforce simp: sql fence_or_zero_def\<close>)+
  with True show ?thesis by (simp add: recycle_row_frame)
qed

lemma expired_candidates_in:
  "row \<in> set (expired_candidates now limit db) \<Longrightarrow> row \<in> set (deliveries db) \<and> lease_expired now row"
  unfolding expired_candidates_def by (auto dest: in_set_takeD)

lemma recycle_fold_inv:
  assumes "tables_inv db" and "\<And>row. row \<in> set rows \<Longrightarrow> delivery_ok row \<and> dl_status row = Running"
  shows "tables_inv (snd (fold (recycle_row cfg now u) rows (k, db)))"
  using assms
proof (induction rows arbitrary: k db)
  case (Cons row rows)
  obtain k' db' where r: "recycle_row cfg now u row (k, db) = (k', db')" by fastforce
  have "tables_inv db'" using recycle_row_inv [of db row cfg now u k] Cons.prems r by simp
  then show ?case using Cons r by simp
qed simp

lemma recycle_inv:
  assumes "tables_inv db"
  shows "tables_inv (snd (recycle_expired_running cfg now u limit db))"
  unfolding recycle_expired_running_def
  using assms
  by (rule recycle_fold_inv)
    (use expired_candidates_in delivery_invD(4) [OF assms] in \<open>fastforce simp: lease_expired_def\<close>)

section \<open>Replay\<close>

text \<open>
  A replay either finds its key used (and changes nothing), or resets the dead delivery.
\<close>

lemma replay_cases:
  assumes "replay cfg e cn v key hash now db = Inr (resp, db')"
  obtains (again) row where "row \<in> set (replay_idem db)" "replay_idem_key row = (e, cn, key)"
      "ri_request_hash row = hash" "ri_completed row" "ri_response row = Some resp" "db' = db"
  | (reset) d where "d \<in> set (deliveries db)" "delivery_key d = (e, cn)"
      "dl_status d = Dead_letter" "dl_version d = v"
      "sql_count (\<lambda>x. dl_event_id x = e \<and> dl_consumer_name x = cn \<and> dl_version x = v
         \<and> dl_status x = Dead_letter) (deliveries db) = 1"
      "deliveries db' = sql_update (\<lambda>x. dl_event_id x = e \<and> dl_consumer_name x = cn
         \<and> dl_version x = v \<and> dl_status x = Dead_letter) (replayed_row d now) (deliveries db)"
      "attempts db' = attempts db" "events db' = events db"
      "\<forall>r \<in> set (replay_idem db). replay_idem_key r \<noteq> (e, cn, key)"
proof -
  let ?p = "\<lambda>d. dl_event_id d = e \<and> dl_consumer_name d = cn"
  let ?q = "\<lambda>r. ri_event_id r = e \<and> ri_consumer_name r = cn \<and> ri_key r = key"
  let ?new = "\<lparr>ri_event_id = e, ri_consumer_name = cn, ri_key = key, ri_request_hash = hash,
     ri_completed = False, ri_response = None, ri_created_at = now\<rparr>"
  obtain d where d: "sql_first ?p (deliveries db) = Some d"
    using assms by (auto simp: replay_def split: option.splits if_splits)
  show thesis
  proof (cases "sql_insert replay_idem_key ?new (replay_idem db)")
    case None
    then obtain r0 where r0: "r0 \<in> set (replay_idem db)" "replay_idem_key r0 = replay_idem_key ?new"
      by (auto simp: sql)
    then have "sql_first ?q (replay_idem db) \<noteq> None" by (auto simp: sql key_defs)
    then obtain row where row: "sql_first ?q (replay_idem db) = Some row" by blast
    have "ri_request_hash row = hash \<and> ri_completed row \<and> ri_response row = Some resp \<and> db' = db"
      using assms d None row
      by (auto simp: replay_def Let_def split: option.splits if_splits bool.splits)
    then show thesis
      using again sql_first_Some [OF row] by (auto simp: key_defs)
  next
    case (Some t)
    have t: "\<forall>r \<in> set (replay_idem db). replay_idem_key r \<noteq> (e, cn, key)"
      using Some by (auto simp: sql key_defs)
    show thesis
      by (rule reset [of d])
        (use assms d Some sql_first_Some [OF d] t in
          \<open>auto simp: replay_def Let_def key_defs split: option.splits if_splits\<close>)
  qed
qed

lemma replay_inv:
  assumes inv: "tables_inv db" and res: "replay cfg e cn v key hash now db = Inr (resp, db')"
  shows "tables_inv db'"
  using res
proof (cases rule: replay_cases)
  case again
  then show ?thesis using inv by simp
next
  case (reset d)
  let ?m = "\<lambda>x. dl_event_id x = e \<and> dl_consumer_name x = cn \<and> dl_version x = v \<and> dl_status x = Dead_letter"
  have k: "\<And>x. ?m x \<Longrightarrow> delivery_key x = delivery_key d" using reset(2) by (simp add: key_defs)
  have s: "set (deliveries db') = insert (replayed_row d now d) (set (deliveries db) - {d})"
    unfolding reset(6)
    by (rule set_sql_update_one [where m = ?m, OF delivery_invD(1) [OF inv] reset(1)])
      (use reset k in \<open>auto simp: key_defs\<close>)
  have "keyed delivery_key (deliveries db')"
    unfolding reset(6) using delivery_invD(1) [OF inv]
    by (rule keyed_update) (simp add: replayed_row_def key_defs)
  then show ?thesis
    unfolding reset(7)
    by (intro rows_touch [OF inv reset(1) s])
      (use delivery_invD(4) [OF inv reset(1)] reset(3) in
        \<open>auto simp: replayed_row_def key_defs fence_or_zero_def delivery_ok_def MAX_CYCLE_ATTEMPTS_def\<close>)
qed

section \<open>Compaction\<close>

lemma write_suppression_frame [simp, frame]:
  "events (write_suppression_receipts cfg e now db) = events db"
  "deliveries (write_suppression_receipts cfg e now db) = deliveries db"
  "attempts (write_suppression_receipts cfg e now db) = attempts db"
  "recipients (write_suppression_receipts cfg e now db) = recipients db"
  "suppressions (write_suppression_receipts cfg e now db) = suppressions db"
  "notifications (write_suppression_receipts cfg e now db) = notifications db"
  "inboxes (write_suppression_receipts cfg e now db) = inboxes db"
  by (auto simp: write_suppression_receipts_def split: option.splits)

lemma compact_cases:
  assumes "compact_event cfg e now db = Inr (b, db')"
  obtains (kept) "\<not> b" "deliveries db' = deliveries db" "attempts db' = attempts db"
      "events db' = events db"
  | (compacted) "b" "deliveries db' = sql_delete (\<lambda>d. dl_event_id d = e) (deliveries db)"
      "attempts db' = sql_delete (\<lambda>a. at_event_id a = e) (attempts db)"
      "\<forall>d \<in> set (deliveries db). dl_event_id d = e \<longrightarrow> dl_status d = Delivered"
      "map ev_event_id (events db') = map ev_event_id (events db)"
proof (cases b)
  case False
  then show ?thesis
    using assms kept by (auto simp: compact_event_def Let_def split: if_splits option.splits)
next
  case True
  show ?thesis
  proof (rule compacted [OF True])
    show "deliveries db' = sql_delete (\<lambda>d. dl_event_id d = e) (deliveries db)"
      "attempts db' = sql_delete (\<lambda>a. at_event_id a = e) (attempts db)"
      using assms True by (auto simp: compact_event_def Let_def split: if_splits option.splits)
    show "\<forall>d \<in> set (deliveries db). dl_event_id d = e \<longrightarrow> dl_status d = Delivered"
      using assms True by (auto simp: compact_event_def Let_def sql_count_zero split: if_splits option.splits)
    show "map ev_event_id (events db') = map ev_event_id (events db)"
      using assms True
      by (auto simp: compact_event_def Let_def sql_update_def compacted_event_def split: if_splits option.splits)
  qed
qed

lemma compact_event_inv:
  assumes "tables_inv db" and "compact_event cfg e now db = Inr (b, db')"
  shows "tables_inv db'"
  using assms(2)
  by (cases rule: compact_cases) (use assms(1) in \<open>auto intro: rows_delete\<close>)

lemma compact_all_induct:
  assumes "compact_all cfg now es k db = Inr (k', db')" and "P db"
    and "\<And>e x b y. P x \<Longrightarrow> compact_event cfg e now x = Inr (b, y) \<Longrightarrow> P y"
  shows "P db'"
  using assms(1,2)
proof (induction es arbitrary: k db)
  case (Cons e es)
  then obtain b y where y: "compact_event cfg e now db = Inr (b, y)"
      "compact_all cfg now es (if b then Suc k else k) y = Inr (k', db')"
    by (auto split: sum.splits)
  then show ?case using Cons.IH [OF y(2)] assms(3) [OF Cons.prems(2) y(1)] by blast
qed simp

lemma compact_due_induct:
  assumes "compact_due_events cfg now db = Inr (k, db')"
    and "\<And>ms. P (db\<lparr>metrics := ms\<rparr>)"
    and "\<And>e x b y. P x \<Longrightarrow> compact_event cfg e now x = Inr (b, y) \<Longrightarrow> P y"
  shows "P db'"
proof -
  have "P db" using assms(2) [of "metrics db"] by simp
  then have "P (if cf_metrics cfg then prune_metrics_before (now - days (cf_retention_days cfg)) db else db)"
    using assms(2) by (simp add: prune_metrics_before_def)
  then show ?thesis
    using assms(1,3) by (auto simp: compact_due_events_def Let_def intro: compact_all_induct)
qed

lemma compact_due_inv:
  assumes "tables_inv db" and "compact_due_events cfg now db = Inr (k, db')"
  shows "tables_inv db'"
  using assms(2)
  by (rule compact_due_induct [where P = tables_inv]) (use assms(1) compact_event_inv in auto)

end
