(* ===== verification/Outbox_Publisher.thy ===== *)
theory Outbox_Publisher
  imports Outbox_Dispatcher
begin

text \<open>
  The transactional publisher (\<^verbatim>\<open>app/outbox/publisher.py\<close>): the payload schemas and
  their validation, the producer matrix, recipients, and the insertion of the event with its
  recipients and first delivery. Functions that raise return a sum; the caller's transaction
  rolls back on \<open>Inl\<close>.
\<close>

section \<open>Commands\<close>

record recipient_selection =
  rs_recipient_user_id :: string
  rs_recipient_kind :: string
  rs_required_role :: "string option"
  rs_selection_reason :: string

record publish_command =
  pc_event_id :: string
  pc_event_type :: string
  pc_schema_version :: int
  pc_aggregate_type :: string
  pc_aggregate_id :: string
  pc_transition_version :: int
  pc_occurred_at :: time
  pc_payload :: payload
  pc_recipients :: "recipient_selection list"
  pc_trace_id :: "string option"

record publish_receipt =
  pr_event_id :: string
  pr_fingerprint :: string
  pr_reused :: bool

section \<open>Event families\<close>

definition SUPPORTED_EVENT_SCHEMA_VERSION :: int where
  "SUPPORTED_EVENT_SCHEMA_VERSION = 1"

definition NOTIFICATION_EVENT_TYPES :: "string list" where
  "NOTIFICATION_EVENT_TYPES =
     [''ingestion_completed'', ''ingestion_failed'', ''ingestion_cancelled'',
      ''ocr_low_confidence'', ''submission_approved'', ''submission_rejected'',
      ''submission_invalidated'', ''quota_approved'', ''quota_rejected'',
      ''calibration_window_suggested'', ''graph_build_completed'',
      ''evaluation_judge_configuration_missing'', ''usage_ledger_invariant_conflict'']"

definition OUTBOX_ONLY_EVENT_TYPES :: "string list" where
  "OUTBOX_ONLY_EVENT_TYPES =
     [''public_graph_source_changed'', ''retrieval_context_hard_gate_exceeded'']"

definition ROLE_SNAPSHOT_EVENT_TYPES :: "string list" where
  "ROLE_SNAPSHOT_EVENT_TYPES =
     [''calibration_window_suggested'', ''evaluation_judge_configuration_missing'',
      ''usage_ledger_invariant_conflict'']"

definition SINGLE_RECIPIENT_EVENT_TYPES :: "string list" where
  "SINGLE_RECIPIENT_EVENT_TYPES = [''graph_build_completed'']"

text \<open>event type, allowed callers, required aggregate type\<close>

definition PRODUCER_MATRIX :: "(string \<times> string list \<times> string) list" where
  "PRODUCER_MATRIX =
     [(''ingestion_completed'', [''ingestion''], ''ingestion_job''),
      (''ingestion_failed'', [''ingestion''], ''ingestion_job''),
      (''ingestion_cancelled'', [''ingestion''], ''ingestion_job''),
      (''ocr_low_confidence'', [''ingestion''], ''ingestion_job''),
      (''submission_approved'', [''submissions''], ''knowledge_submission''),
      (''submission_rejected'', [''submissions''], ''knowledge_submission''),
      (''submission_invalidated'', [''submissions''], ''knowledge_submission''),
      (''quota_approved'', [''quota''], ''quota_request''),
      (''quota_rejected'', [''quota''], ''quota_request''),
      (''calibration_window_suggested'', [''calibration''], ''calibration_window_suggestion''),
      (''graph_build_completed'', [''knowledge_graph''], ''graph_build_run''),
      (''evaluation_judge_configuration_missing'', [''startup_configuration''],
         ''startup_invocation''),
      (''usage_ledger_invariant_conflict'', [''usage''], ''usage_ledger_row''),
      (''public_graph_source_changed'', [''documents''], ''public_graph_source''),
      (''retrieval_context_hard_gate_exceeded'', [''retrieval''], ''retrieval_context'')]"

section \<open>Payload schemas\<close>

datatype pytype = T_str | T_int | T_list | T_dict

text \<open>\<open>isinstance\<close>: a \<open>bool\<close> is an \<open>int\<close> in Python.\<close>

definition has_type :: "pytype \<Rightarrow> pval \<Rightarrow> bool" where
  "has_type t v = (case (t, v) of
       (T_str, PStr _) \<Rightarrow> True | (T_int, PInt _) \<Rightarrow> True | (T_int, PBool _) \<Rightarrow> True
     | (T_list, PList _) \<Rightarrow> True | (T_dict, PDict _) \<Rightarrow> True | _ \<Rightarrow> False)"

text \<open>A schema gives each field its type and whether it may be null.\<close>

type_synonym payload_schema = "(string \<times> pytype \<times> bool) list"

definition PAYLOAD_SCHEMAS :: "(string \<times> payload_schema) list" where
  "PAYLOAD_SCHEMAS =
     [(''ingestion_completed'', [(''job_id'', T_str, False), (''document_id'', T_str, False),
         (''document_version_id'', T_str, False), (''publication_id'', T_str, False)]),
      (''ingestion_failed'', [(''job_id'', T_str, False), (''document_id'', T_str, False),
         (''document_version_id'', T_str, False), (''publication_id'', T_str, True),
         (''reason'', T_str, False)]),
      (''ingestion_cancelled'', [(''job_id'', T_str, False), (''document_id'', T_str, False),
         (''document_version_id'', T_str, False), (''publication_id'', T_str, True)]),
      (''ocr_low_confidence'', [(''job_id'', T_str, False), (''document_id'', T_str, False),
         (''document_version_id'', T_str, False), (''publication_id'', T_str, False),
         (''reason'', T_str, False), (''status'', T_str, False),
         (''machine_low_confidence_fact'', T_dict, False)]),
      (''submission_approved'', [(''submission_id'', T_str, False),
         (''document_id'', T_str, False), (''job_id'', T_str, False)]),
      (''submission_rejected'', [(''submission_id'', T_str, False), (''reason'', T_str, True)]),
      (''submission_invalidated'', [(''submission_id'', T_str, False), (''reason'', T_str, False)]),
      (''quota_approved'', [(''request_id'', T_str, False)]),
      (''quota_rejected'', [(''request_id'', T_str, False)]),
      (''calibration_window_suggested'', [(''calibration_window_suggestion_id'', T_str, False)]),
      (''graph_build_completed'', [(''schema_version'', T_int, False), (''event_id'', T_str, False),
         (''event_type'', T_str, False), (''aggregate_type'', T_str, False),
         (''aggregate_id'', T_str, False), (''transition_version'', T_int, False),
         (''graph_build_id'', T_str, False), (''status'', T_str, False),
         (''source_revision'', T_int, False), (''graph_generation_id'', T_str, True),
         (''index_generation_id'', T_str, True), (''failure_class'', T_str, True),
         (''occurred_at'', T_str, False)]),
      (''evaluation_judge_configuration_missing'', [(''missing_variable_names'', T_list, False)]),
      (''usage_ledger_invariant_conflict'', [(''unique_key_fields'', T_list, False),
         (''provider_call_id'', T_str, True)]),
      (''public_graph_source_changed'', [(''source_revision'', T_int, False),
         (''source_manifest_id'', T_str, False), (''source_manifest_hash'', T_str, False),
         (''document_id'', T_str, False), (''change_type'', T_str, False)]),
      (''retrieval_context_hard_gate_exceeded'', [(''space_ids'', T_list, False),
         (''cap_tokens'', T_int, False), (''used_tokens'', T_int, False),
         (''excess_tokens'', T_int, False), (''dropped_hit_count'', T_int, False)])]"

definition SENSITIVE_KEYS :: "string list" where
  "SENSITIVE_KEYS =
     [''snippet'', ''filename'', ''file_name'', ''title'', ''display_name'', ''real_name'',
      ''username'', ''user_name'', ''body'', ''content'', ''text'', ''credentials'',
      ''password'', ''secret'', ''token'', ''api_key'']"

text \<open>\<open>_reject_sensitive_content\<close>: true when it raises.\<close>

fun sensitive_content :: "pval \<Rightarrow> bool" where
  "sensitive_content (PDict kvs) =
     (\<exists>kv \<in> set kvs. casefold (fst kv) \<in> set SENSITIVE_KEYS \<or> sensitive_content (snd kv))"
| "sensitive_content (PList vs) = (\<exists>v \<in> set vs. sensitive_content v)"
| "sensitive_content v = False"

definition invalid_payload :: exn where
  "invalid_payload = PlatformError ''invalid_event_payload'' 422"

text \<open>One round of the field loop of \<open>_validate_payload\<close>.\<close>

definition field_ok :: "payload \<Rightarrow> string \<times> pytype \<times> bool \<Rightarrow> bool" where
  "field_ok p fd = (let (field, expected, nullable) = fd; v = pget field p in
     if v = PNull then nullable else has_type expected v)"

text \<open>The machine fact of an OCR event.\<close>

definition is_numeric :: "pval \<Rightarrow> bool" where
  "is_numeric v = (case v of PInt _ \<Rightarrow> True | PFloat _ \<Rightarrow> True | _ \<Rightarrow> False)"

definition unit_interval :: "pval \<Rightarrow> bool" where
  "unit_interval v = (case v of PInt i \<Rightarrow> 0 \<le> i \<and> i \<le> 1
     | PFloat (Finite q) \<Rightarrow> 0 \<le> q \<and> q \<le> 1 | _ \<Rightarrow> False)"

definition is_int :: "pval \<Rightarrow> bool" where
  "is_int v = (case v of PInt _ \<Rightarrow> True | _ \<Rightarrow> False)"

definition ocr_fact_fields :: "string list" where
  "ocr_fact_fields = [''confidence'', ''page'', ''region'']"

definition ocr_fact_ok :: "pval \<Rightarrow> bool" where
  "ocr_fact_ok v = (case v of
     PDict kvs \<Rightarrow>
       \<not> sensitive_content (PDict kvs)
       \<and> set (map fst kvs) \<subseteq> set ocr_fact_fields
       \<and> (\<forall>f \<in> set ocr_fact_fields. pget f kvs \<noteq> PNull)
       \<and> is_numeric (pget ''confidence'' kvs) \<and> unit_interval (pget ''confidence'' kvs)
       \<and> is_int (pget ''page'' kvs)
       \<and> (case pget ''region'' kvs of PList vs \<Rightarrow> list_all is_int vs | _ \<Rightarrow> False)
   | _ \<Rightarrow> False)"

definition GRAPH_FAILURE_CLASSES :: "string list" where
  "GRAPH_FAILURE_CLASSES =
     [''staging_error'', ''index_error'', ''cancelled'', ''graph_source_changed'',
      ''graph_stage_grant_expired'', ''graph_component_stage_failed'', ''graph_release_failed'',
      ''graph_provider_failed'', ''graph_worker_unexpected'', ''cancel_requested'']"

definition graph_payload_ok :: "payload \<Rightarrow> bool" where
  "graph_payload_ok p =
     (let status = pget ''status'' p;
          succeeded = (status = PStr ''succeeded'');
          graph_generation = pget ''graph_generation_id'' p;
          index_generation = pget ''index_generation_id'' p;
          failure_class = pget ''failure_class'' p
      in status \<in> {PStr ''succeeded'', PStr ''failed'', PStr ''cancelled''}
         \<and> (succeeded \<longrightarrow> graph_generation \<noteq> PNull \<and> index_generation \<noteq> PNull)
         \<and> (\<not> succeeded \<longrightarrow> graph_generation = PNull \<and> index_generation = PNull)
         \<and> (succeeded \<longleftrightarrow> failure_class = PNull)
         \<and> (failure_class \<noteq> PNull \<longrightarrow> failure_class \<in> set (map PStr GRAPH_FAILURE_CLASSES)))"

definition JUDGE_VARIABLES :: "string list" where
  "JUDGE_VARIABLES = [''RAG_EVALUATION_JUDGE_BASE_URL'', ''RAG_EVALUATION_JUDGE_API_KEY'']"

definition judge_payload_ok :: "payload \<Rightarrow> bool" where
  "judge_payload_ok p = (case pget ''missing_variable_names'' p of
     PList vs \<Rightarrow> vs \<noteq> [] \<and> set vs \<subseteq> set (map PStr JUDGE_VARIABLES) \<and> distinct vs
   | _ \<Rightarrow> False)"

definition usage_payload_ok :: "payload \<Rightarrow> bool" where
  "usage_payload_ok p = (case pget ''unique_key_fields'' p of
     PList vs \<Rightarrow> vs \<noteq> [] \<and> list_all (\<lambda>v. has_type T_str v \<and> v \<noteq> PStr []) vs \<and> distinct vs
       \<and> (pget ''provider_call_id'' p = PNull \<or> has_type T_str (pget ''provider_call_id'' p))
   | _ \<Rightarrow> False)"

text \<open>\<open>_validate_payload\<close>.\<close>

definition validate_payload :: "string \<Rightarrow> int \<Rightarrow> payload \<Rightarrow> exn + unit" where
  "validate_payload event_type schema_version p =
     (if schema_version \<noteq> SUPPORTED_EVENT_SCHEMA_VERSION
      then Inl (PlatformError ''unsupported_schema_version'' 422)
      else case map_of PAYLOAD_SCHEMAS event_type of
        None \<Rightarrow> Inl (PlatformError ''unsupported_event_type'' 422)
      | Some schema \<Rightarrow>
          require (set (map fst p) \<subseteq> set (map fst schema)
              \<and> \<not> sensitive_content (PDict p)
              \<and> list_all (field_ok p) schema
              \<and> (event_type = ''ocr_low_confidence'' \<longrightarrow>
                   ocr_fact_ok (pget ''machine_low_confidence_fact'' p))
              \<and> (event_type = ''graph_build_completed'' \<longrightarrow> graph_payload_ok p)
              \<and> (event_type = ''evaluation_judge_configuration_missing'' \<longrightarrow> judge_payload_ok p)
              \<and> (event_type = ''usage_ledger_invariant_conflict'' \<longrightarrow> usage_payload_ok p))
            invalid_payload)"

text \<open>\<open>_canonical_graph_payload\<close>: \<open>==\<close> between a supplied value and a string or integer.\<close>

definition pval_number :: "pval \<Rightarrow> rat option" where
  "pval_number v = (case v of PBool b \<Rightarrow> Some (if b then 1 else 0) | PInt i \<Rightarrow> Some (of_int i)
     | PFloat (Finite q) \<Rightarrow> Some q | _ \<Rightarrow> None)"

definition equals_scalar :: "pval \<Rightarrow> pval \<Rightarrow> bool" where
  "equals_scalar v w = (case (pval_number v, pval_number w) of
     (Some x, Some y) \<Rightarrow> x = y | (None, None) \<Rightarrow> v = w | _ \<Rightarrow> False)"

definition graph_envelope :: "publish_command \<Rightarrow> payload" where
  "graph_envelope c =
     [(''schema_version'', PInt (pc_schema_version c)), (''event_id'', PStr (pc_event_id c)),
      (''event_type'', PStr (pc_event_type c)), (''aggregate_type'', PStr (pc_aggregate_type c)),
      (''aggregate_id'', PStr (pc_aggregate_id c)),
      (''transition_version'', PInt (pc_transition_version c)),
      (''occurred_at'', PStr (isoformat (pc_occurred_at c)))]"

definition canonical_graph_payload :: "publish_command \<Rightarrow> exn + payload" where
  "canonical_graph_payload c =
     (if list_all (\<lambda>(field, expected). pget field (pc_payload c) = PNull
            \<or> equals_scalar (pget field (pc_payload c)) expected) (graph_envelope c)
      then Inr (dict_merge (pc_payload c) (graph_envelope c))
      else Inl invalid_payload)"

definition fingerprint_event :: "outbox_cfg \<Rightarrow> string \<Rightarrow> int \<Rightarrow> payload \<Rightarrow> string" where
  "fingerprint_event cfg event_type schema_version p =
     cf_sha256 cfg (''outbox-event-v1'' @ [CHR 0x00] @ event_type @ [CHR 0x00] @
       string_of_int schema_version @ [CHR 0x00] @ json_dumps (cf_float_repr cfg) (PDict p))"

section \<open>Recipients\<close>

definition freeze_active_ops_recipients :: "publish_command \<Rightarrow> outbox_db \<Rightarrow> publish_command" where
  "freeze_active_ops_recipients c db =
     (if pc_event_type c \<notin> set ROLE_SNAPSHOT_EVENT_TYPES then c
      else c\<lparr>pc_recipients := map (\<lambda>u. \<lparr>rs_recipient_user_id = us_id u,
                rs_recipient_kind = ''role_snapshot'', rs_required_role = Some ''ops'',
                rs_selection_reason = ''active_ops_snapshot''\<rparr>)
             (sql_where (\<lambda>u. us_lifecycle_status u = ''active'' \<and> us_role u = ''ops'') (users db))\<rparr>)"

text \<open>\<open>_validate_recipients\<close>: true when it does not raise.\<close>

definition recipients_valid :: "publish_command \<Rightarrow> bool" where
  "recipients_valid c =
     (let t = pc_event_type c; rs = pc_recipients c in
      if t \<in> set OUTBOX_ONLY_EVENT_TYPES then rs = []
      else (rs \<noteq> [] \<or> t \<in> set ROLE_SNAPSHOT_EVENT_TYPES)
           \<and> (t \<in> set SINGLE_RECIPIENT_EVENT_TYPES \<longrightarrow> length rs = 1)
           \<and> list_all (\<lambda>r. if t \<in> set ROLE_SNAPSHOT_EVENT_TYPES
                then rs_recipient_kind r = ''role_snapshot'' \<and> rs_required_role r = Some ''ops''
                else rs_recipient_kind r = ''identity'') rs)"

definition recipient_record ::
    "publish_command \<Rightarrow> time \<Rightarrow> outbox_db \<Rightarrow> recipient_selection \<Rightarrow> exn + recipient_row" where
  "recipient_record c now db selection =
     (if rs_recipient_kind selection \<notin> {''identity'', ''role_snapshot''}
      then Inl (PlatformError ''invalid_recipient_kind'' 422)
      else case sql_first (\<lambda>u. us_id u = rs_recipient_user_id selection) (users db) of
        None \<Rightarrow> Inl (PlatformError ''recipient_account_inactive'' 422)
      | Some account \<Rightarrow>
          if rs_recipient_kind selection = ''role_snapshot'' \<and> rs_required_role selection \<noteq> None
             \<and> Some (us_role account) \<noteq> rs_required_role selection
          then Inl (PlatformError ''recipient_role_mismatch'' 422)
          else Inr \<lparr>rc_event_id = pc_event_id c, rc_user_id = rs_recipient_user_id selection,
                     rc_kind = rs_recipient_kind selection,
                     rc_required_role = rs_required_role selection,
                     rc_selection_reason = rs_selection_reason selection,
                     rc_role_snapshot = us_role account,
                     rc_lifecycle_snapshot = us_lifecycle_status account,
                     rc_selected_at = now\<rparr>)"

fun recipient_records ::
    "publish_command \<Rightarrow> time \<Rightarrow> outbox_db \<Rightarrow> recipient_selection list \<Rightarrow> exn + recipient_row list" where
  "recipient_records c now db [] = Inr []"
| "recipient_records c now db (r # rs) =
     bindE (recipient_record c now db r) (\<lambda>row.
     bindE (recipient_records c now db rs) (\<lambda>rows. Inr (row # rows)))"

section \<open>Publishing\<close>

text \<open>The unique key of an event.\<close>

definition transition_key :: "event_row \<Rightarrow> string \<times> string \<times> string \<times> int" where
  "transition_key e =
     (ev_event_type e, ev_aggregate_type e, ev_aggregate_id e, ev_transition_version e)"

definition command_key :: "publish_command \<Rightarrow> string \<times> string \<times> string \<times> int" where
  "command_key c =
     (pc_event_type c, pc_aggregate_type c, pc_aggregate_id c, pc_transition_version c)"

definition event_row_of ::
    "outbox_cfg \<Rightarrow> publish_command \<Rightarrow> string \<Rightarrow> time \<Rightarrow> event_row" where
  "event_row_of cfg c fingerprint created_at =
     \<lparr>ev_event_id = pc_event_id c, ev_event_type = pc_event_type c,
      ev_schema_version = Some (pc_schema_version c), ev_aggregate_type = pc_aggregate_type c,
      ev_aggregate_id = pc_aggregate_id c, ev_transition_version = pc_transition_version c,
      ev_occurred_at = pc_occurred_at c, ev_payload = Some (pc_payload c),
      ev_payload_fingerprint = fingerprint, ev_trace_id = pc_trace_id c,
      ev_created_at = created_at, ev_storage_state = Full,
      ev_compact_after_at = (if pc_event_type c \<in> set OUTBOX_ONLY_EVENT_TYPES
                             then Some (created_at + days (cf_retention_days cfg)) else None),
      ev_compacted_at = None, ev_compacted_summary = None\<rparr>"

definition first_delivery :: "string \<Rightarrow> time \<Rightarrow> delivery_row" where
  "first_delivery event_id now =
     \<lparr>dl_event_id = event_id, dl_consumer_name = V1_CONSUMER, dl_status = Pending,
      dl_version = 1, dl_replay_generation = 1, dl_attempt_number = 0,
      dl_cycle_attempt_number = 0, dl_error_category = None, dl_error_code = None,
      dl_next_attempt_at = Some now, dl_lease_owner = None, dl_lease_expires_at = None,
      dl_fence_token = None, dl_delivered_at = None\<rparr>"

text \<open>
  The lookup on the unique event key: a hit with the same fingerprint is reused, a hit with
  another one is the conflict.
\<close>

definition reuse_existing ::
    "publish_command \<Rightarrow> string \<Rightarrow> outbox_db \<Rightarrow> (exn + publish_receipt) option" where
  "reuse_existing c fingerprint db =
     (case sql_first (\<lambda>e. transition_key e = command_key c) (events db) of
        None \<Rightarrow> None
      | Some e \<Rightarrow> Some
          (if ev_payload_fingerprint e \<noteq> fingerprint
           then Inl (PlatformError ''outbox_fingerprint_conflict'' 409)
           else Inr \<lparr>pr_event_id = ev_event_id e, pr_fingerprint = fingerprint, pr_reused = True\<rparr>))"

fun insert_recipients :: "recipient_row list \<Rightarrow> recipient_row list \<Rightarrow> recipient_row list option" where
  "insert_recipients [] t = Some t"
| "insert_recipients (r # rs) t =
     (case sql_insert recipient_key r t of None \<Rightarrow> None | Some t' \<Rightarrow> insert_recipients rs t')"

text \<open>
  The inserts, on the database as it is then: a concurrent publisher may have committed the
  same event key after the reads, which the savepoint turns into a second lookup.
\<close>

definition publish_insert ::
    "outbox_cfg \<Rightarrow> publish_command \<Rightarrow> string \<Rightarrow> recipient_row list \<Rightarrow> time \<Rightarrow> outbox_db \<Rightarrow>
     exn + publish_receipt \<times> outbox_db" where
  "publish_insert cfg c fingerprint rows now db =
     (let row = event_row_of cfg c fingerprint now in
      case (if transition_key row \<in> transition_key ` set (events db) then None
            else sql_insert event_key row (events db)) of
        None \<Rightarrow> (case reuse_existing c fingerprint db of
            None \<Rightarrow> Inl IntegrityError
          | Some (Inl e) \<Rightarrow> Inl e
          | Some (Inr receipt) \<Rightarrow> Inr (receipt, db))
      | Some t \<Rightarrow>
          (case insert_recipients rows (recipients db) of
             None \<Rightarrow> Inl IntegrityError
           | Some rt \<Rightarrow>
               let db1 = db\<lparr>events := t, recipients := rt\<rparr>;
                   receipt = \<lparr>pr_event_id = pc_event_id c, pr_fingerprint = fingerprint,
                              pr_reused = False\<rparr>
               in if pc_event_type c \<in> set OUTBOX_ONLY_EVENT_TYPES then Inr (receipt, db1)
                  else (case sql_insert delivery_key (first_delivery (pc_event_id c) now)
                          (deliveries db1) of
                     None \<Rightarrow> Inl IntegrityError
                   | Some ds \<Rightarrow> Inr (receipt, db1\<lparr>deliveries := ds\<rparr>))))"

text \<open>
  The activated-receipt port of the graph component: \<open>None\<close> when it is not configured.
\<close>

type_synonym graph_port = "(string \<Rightarrow> string \<Rightarrow> bool) option"

definition assert_graph_activated_receipt ::
    "outbox_cfg \<Rightarrow> graph_port \<Rightarrow> publish_command \<Rightarrow> exn + unit" where
  "assert_graph_activated_receipt cfg port c =
     (case port of
        None \<Rightarrow> Inl (PlatformError ''graph_receipt_verification_unavailable'' 503)
      | Some verify \<Rightarrow>
          let v = pget ''graph_generation_id'' (pc_payload c);
              generation = (if pval_truthy v then pval_str (cf_float_repr cfg) v else [])
          in require (verify (pc_aggregate_id c) generation)
               (PlatformError ''graph_receipt_not_activated'' 409))"

text \<open>The checks of \<open>_publish_authorized\<close> before it reads the event tables.\<close>

definition publish_checks ::
    "outbox_cfg \<Rightarrow> graph_port \<Rightarrow> string \<Rightarrow> publish_command \<Rightarrow> outbox_db \<Rightarrow> exn + publish_command" where
  "publish_checks cfg port caller command db =
     bindE (if pc_event_type command = ''graph_build_completed''
            then bindE (canonical_graph_payload command) (\<lambda>p. Inr (command\<lparr>pc_payload := p\<rparr>))
            else Inr command) (\<lambda>c.
     bindE (validate_payload (pc_event_type c) (pc_schema_version c) (pc_payload c)) (\<lambda>_.
     bindE (require (pc_event_type c \<in> set NOTIFICATION_EVENT_TYPES \<union> set OUTBOX_ONLY_EVENT_TYPES)
              (PlatformError ''unsupported_event_type'' 422)) (\<lambda>_.
     case map_of PRODUCER_MATRIX (pc_event_type c) of
       None \<Rightarrow> Inl InternalError
     | Some (producers, required_aggregate) \<Rightarrow>
         bindE (require (caller \<in> set producers) (PlatformError ''producer_not_authorized'' 403)) (\<lambda>_.
         bindE (require (pc_aggregate_type c = required_aggregate)
                  (PlatformError ''invalid_aggregate_type'' 422)) (\<lambda>_.
         bindE (if pc_event_type c = ''graph_build_completed''
                   \<and> pget ''status'' (pc_payload c) = PStr ''succeeded''
                then assert_graph_activated_receipt cfg port c else Inr ()) (\<lambda>_.
         let c' = freeze_active_ops_recipients c db in
         bindE (require (recipients_valid c') (PlatformError ''invalid_recipients'' 422)) (\<lambda>_.
         Inr c')))))))"

definition command_fingerprint :: "outbox_cfg \<Rightarrow> publish_command \<Rightarrow> string" where
  "command_fingerprint cfg c =
     fingerprint_event cfg (pc_event_type c) (pc_schema_version c) (pc_payload c)"

text \<open>\<open>_publish_authorized\<close>, as one transaction.\<close>

definition publish_authorized ::
    "outbox_cfg \<Rightarrow> graph_port \<Rightarrow> string \<Rightarrow> time \<Rightarrow> publish_command \<Rightarrow> outbox_db \<Rightarrow>
     exn + publish_receipt \<times> outbox_db" where
  "publish_authorized cfg port caller now command db =
     bindE (publish_checks cfg port caller command db) (\<lambda>c.
       let fingerprint = command_fingerprint cfg c in
       case reuse_existing c fingerprint db of
         Some (Inl e) \<Rightarrow> Inl e
       | Some (Inr receipt) \<Rightarrow> Inr (receipt, db)
       | None \<Rightarrow>
           bindE (require (\<forall>e \<in> set (events db). ev_event_id e \<noteq> pc_event_id c)
                    (PlatformError ''event_id_conflict'' 409)) (\<lambda>_.
           bindE (recipient_records c now db (pc_recipients c)) (\<lambda>rows.
           publish_insert cfg c fingerprint rows now db)))"

end
