(* ===== verification/Outbox_Lifecycle.thy ===== *)
theory Outbox_Lifecycle
  imports Outbox_Delivery
begin

text \<open>
  The lifecycle commands of the outbox (\<^verbatim>\<open>app/outbox/lifecycle.py\<close>): redaction of a
  document's notifications, retirement of an account's notification state, and compaction of
  the events of a retired account. Each is idempotent by its operation id: the row of its
  command table is reserved before any side effect, in the caller's transaction.
\<close>

section \<open>Commands and receipts\<close>

record redaction_command =
  rd_operation_id :: string
  rd_caller_principal :: string
  rd_deletion_id :: string
  rd_document_id :: string
  rd_document_version_ids :: "string list"
  rd_reason :: string
  rd_transaction_id :: string
  rd_mode :: string

record redaction_receipt =
  rdr_operation_id :: string
  rdr_deletion_id :: string
  rdr_redacted_count :: nat
  rdr_already_redacted_count :: nat

record retirement_command =
  rm_operation_id :: string
  rm_caller_principal :: string
  rm_user_id :: string
  rm_deletion_id :: string
  rm_archive_ref :: string
  rm_archive_checksum :: string
  rm_transaction_id :: string
  rm_mode :: string

record retirement_receipt =
  rmr_operation_id :: string
  rmr_user_id :: string
  rmr_deletion_id :: string
  rmr_state :: command_state
  rmr_receipt_count :: nat
  rmr_notification_retired_count :: nat
  rmr_inbox_removed :: bool
  rmr_retryable :: bool

record compaction_command =
  cc_operation_id :: string
  cc_caller_principal :: string
  cc_user_id :: string
  cc_deletion_id :: string
  cc_retirement_receipt_id :: string
  cc_retirement_receipt_fingerprint :: string
  cc_transaction_id :: string

record compaction_receipt =
  ccr_operation_id :: string
  ccr_user_id :: string
  ccr_deletion_id :: string
  ccr_state :: command_state
  ccr_eligible_count :: nat
  ccr_compacted_count :: nat
  ccr_blocked_count :: nat
  ccr_retryable :: bool

definition DOCUMENTS_CALLER :: string where
  "DOCUMENTS_CALLER = ''documents''"

definition RETENTION_CALLER :: string where
  "RETENTION_CALLER = ''retention-ops''"

definition forbidden :: exn where
  "forbidden = PlatformError ''forbidden'' 403"

definition idempotency_conflict :: exn where
  "idempotency_conflict = PlatformError ''idempotency_key_conflict'' 409"

text \<open>\<open>_canonical_fingerprint\<close> and the input fingerprints of the three commands.\<close>

definition canonical_fingerprint :: "outbox_cfg \<Rightarrow> payload \<Rightarrow> string" where
  "canonical_fingerprint cfg parts =
     cf_sha256 cfg (''outbox-lifecycle-v1'' @ [CHR 0x00] @ json_dumps (cf_float_repr cfg) (PDict parts))"

definition redaction_fingerprint :: "outbox_cfg \<Rightarrow> redaction_command \<Rightarrow> string" where
  "redaction_fingerprint cfg c = canonical_fingerprint cfg
     [(''kind'', PStr ''redact''), (''deletion_id'', PStr (rd_deletion_id c)),
      (''document_id'', PStr (rd_document_id c)),
      (''document_version_ids'', PList (map PStr (rd_document_version_ids c))),
      (''reason'', PStr (rd_reason c)), (''transaction_id'', PStr (rd_transaction_id c)),
      (''mode'', PStr (rd_mode c))]"

definition retirement_fingerprint :: "outbox_cfg \<Rightarrow> retirement_command \<Rightarrow> string" where
  "retirement_fingerprint cfg c = canonical_fingerprint cfg
     [(''kind'', PStr ''retire''), (''user_id'', PStr (rm_user_id c)),
      (''deletion_id'', PStr (rm_deletion_id c)),
      (''verified_archive_ref'', PStr (rm_archive_ref c)),
      (''archive_checksum'', PStr (rm_archive_checksum c)),
      (''transaction_id'', PStr (rm_transaction_id c)), (''mode'', PStr (rm_mode c))]"

definition compaction_fingerprint :: "outbox_cfg \<Rightarrow> compaction_command \<Rightarrow> string" where
  "compaction_fingerprint cfg c = canonical_fingerprint cfg
     [(''kind'', PStr ''compact''), (''user_id'', PStr (cc_user_id c)),
      (''deletion_id'', PStr (cc_deletion_id c)),
      (''retirement_receipt_id'', PStr (cc_retirement_receipt_id c)),
      (''retirement_receipt_fingerprint'', PStr (cc_retirement_receipt_fingerprint c)),
      (''transaction_id'', PStr (cc_transaction_id c))]"

definition archive_fingerprint :: "outbox_cfg \<Rightarrow> string \<Rightarrow> string \<Rightarrow> string" where
  "archive_fingerprint cfg ref checksum =
     canonical_fingerprint cfg [(''archive_ref'', PStr ref), (''checksum'', PStr checksum)]"

section \<open>Redaction\<close>

definition redaction_receipt_from_row ::
    "outbox_cfg \<Rightarrow> redaction_command \<Rightarrow> redaction_row \<Rightarrow> exn + redaction_receipt" where
  "redaction_receipt_from_row cfg c row =
     (if rx_deletion_id row \<noteq> rd_deletion_id c \<or> rx_document_id row \<noteq> rd_document_id c
         \<or> rx_version_ids row \<noteq> rd_document_version_ids c
         \<or> rx_input_fingerprint row \<noteq> redaction_fingerprint cfg c
      then Inl idempotency_conflict
      else Inr \<lparr>rdr_operation_id = rd_operation_id c, rdr_deletion_id = rx_deletion_id row,
                 rdr_redacted_count = rx_redacted_count row,
                 rdr_already_redacted_count = rx_already_redacted_count row\<rparr>)"

definition redaction_scope :: "redaction_command \<Rightarrow> notification_row \<Rightarrow> bool" where
  "redaction_scope c n =
     (nt_document_id n = Some (rd_document_id c)
      \<and> (case nt_document_version_id n of None \<Rightarrow> False
         | Some v \<Rightarrow> v \<in> set (rd_document_version_ids c)))"

definition redacted_notification :: "notification_row \<Rightarrow> notification_row" where
  "redacted_notification n =
     n\<lparr>nt_title := DELETED_DOCUMENT_TITLE, nt_payload := [], nt_redacted := True\<rparr>"

text \<open>One tombstone per version; a version tombstoned before is an integrity error.\<close>

fun insert_tombstones ::
    "redaction_command \<Rightarrow> time \<Rightarrow> string list \<Rightarrow> doc_tombstone_row list \<Rightarrow> doc_tombstone_row list option" where
  "insert_tombstones c now [] t = Some t"
| "insert_tombstones c now (v # vs) t =
     (case sql_insert doc_tombstone_key
         \<lparr>dt_document_id = rd_document_id c, dt_document_version_id = v,
          dt_deletion_id = rd_deletion_id c, dt_created_at = now\<rparr> t of
        None \<Rightarrow> None
      | Some t' \<Rightarrow> insert_tombstones c now vs t')"

definition redaction_reservation ::
    "outbox_cfg \<Rightarrow> redaction_command \<Rightarrow> time \<Rightarrow> redaction_row" where
  "redaction_reservation cfg c now =
     \<lparr>rx_operation_id = rd_operation_id c, rx_deletion_id = rd_deletion_id c,
      rx_document_id = rd_document_id c, rx_version_ids = rd_document_version_ids c,
      rx_input_fingerprint = redaction_fingerprint cfg c, rx_state = C_pending,
      rx_redacted_count = 0, rx_already_redacted_count = 0, rx_created_at = now\<rparr>"

text \<open>The transaction from the reservation on.\<close>

definition redact_reserved ::
    "outbox_cfg \<Rightarrow> redaction_command \<Rightarrow> time \<Rightarrow> outbox_db \<Rightarrow> exn + redaction_receipt \<times> outbox_db" where
  "redact_reserved cfg c now db =
     (case sql_insert rx_operation_id (redaction_reservation cfg c now) (redactions db) of
        None \<Rightarrow>
          (case sql_first (\<lambda>r. rx_operation_id r = rd_operation_id c) (redactions db) of
             None \<Rightarrow> Inl (PlatformError ''operation_reservation_lost'' 409)
           | Some row \<Rightarrow> bindE (redaction_receipt_from_row cfg c row) (\<lambda>r. Inr (r, db)))
      | Some rs \<Rightarrow>
          let scope = redaction_scope c;
              redacted = sql_count (\<lambda>n. scope n \<and> \<not> nt_redacted n) (notifications db);
              already = sql_count (\<lambda>n. scope n \<and> nt_redacted n) (notifications db);
              db1 = db\<lparr>notifications := sql_update (\<lambda>n. scope n \<and> \<not> nt_redacted n)
                         redacted_notification (notifications db),
                       redactions := sql_update (\<lambda>r. rx_operation_id r = rd_operation_id c)
                         (\<lambda>r. r\<lparr>rx_state := C_completed, rx_redacted_count := redacted,
                                rx_already_redacted_count := already\<rparr>) rs\<rparr>
          in (case insert_tombstones c now (rd_document_version_ids c) (doc_tombstones db1) of
                None \<Rightarrow> Inl IntegrityError
              | Some t \<Rightarrow> Inr (\<lparr>rdr_operation_id = rd_operation_id c,
                   rdr_deletion_id = rd_deletion_id c, rdr_redacted_count = redacted,
                   rdr_already_redacted_count = already\<rparr>, db1\<lparr>doc_tombstones := t\<rparr>)))"

text \<open>\<open>_redact_document_notifications\<close>.\<close>

definition redact_document_notifications ::
    "outbox_cfg \<Rightarrow> redaction_command \<Rightarrow> time \<Rightarrow> outbox_db \<Rightarrow> exn + redaction_receipt \<times> outbox_db" where
  "redact_document_notifications cfg c now db =
     (if rd_mode c \<noteq> ''inline'' \<or> rd_reason c \<noteq> ''document_pending_delete''
      then Inl (PlatformError ''validation_error'' 422)
      else if py_strip (rd_deletion_id c) = [] \<or> py_strip (rd_document_id c) = []
      then Inl (PlatformError ''validation_error'' 422)
      else if rd_document_version_ids c = [] then Inl (PlatformError ''validation_error'' 422)
      else case sql_first (\<lambda>r. rx_operation_id r = rd_operation_id c) (redactions db) of
        Some row \<Rightarrow> bindE (redaction_receipt_from_row cfg c row) (\<lambda>r. Inr (r, db))
      | None \<Rightarrow> redact_reserved cfg c now db)"

text \<open>The public entry checks the caller; the internal one fixes it.\<close>

definition redact_checked ::
    "outbox_cfg \<Rightarrow> redaction_command \<Rightarrow> time \<Rightarrow> outbox_db \<Rightarrow> exn + redaction_receipt \<times> outbox_db" where
  "redact_checked cfg c now db =
     (if rd_caller_principal c \<noteq> DOCUMENTS_CALLER then Inl forbidden
      else redact_document_notifications cfg c now db)"

definition redact_for_documents ::
    "outbox_cfg \<Rightarrow> string \<Rightarrow> string \<Rightarrow> string \<Rightarrow> string list \<Rightarrow> string \<Rightarrow> time \<Rightarrow> outbox_db \<Rightarrow>
     exn + redaction_receipt \<times> outbox_db" where
  "redact_for_documents cfg operation_id deletion_id document_id version_ids transaction_id now db =
     redact_document_notifications cfg
       \<lparr>rd_operation_id = operation_id, rd_caller_principal = ''documents'',
        rd_deletion_id = deletion_id, rd_document_id = document_id,
        rd_document_version_ids = version_ids, rd_reason = ''document_pending_delete'',
        rd_transaction_id = transaction_id, rd_mode = ''inline''\<rparr> now db"

section \<open>Retirement of an account\<close>

definition retirement_receipt_from_row ::
    "outbox_cfg \<Rightarrow> retirement_command \<Rightarrow> retirement_row \<Rightarrow> exn + retirement_receipt" where
  "retirement_receipt_from_row cfg c row =
     (if rw_user_id row \<noteq> rm_user_id c \<or> rw_deletion_id row \<noteq> rm_deletion_id c
         \<or> rw_input_fingerprint row \<noteq> retirement_fingerprint cfg c
      then Inl idempotency_conflict
      else if rw_state row \<notin> {C_accepted, C_completed}
      then Inl (PlatformError ''retirement_unverified'' 503)
      else Inr \<lparr>rmr_operation_id = rm_operation_id c, rmr_user_id = rw_user_id row,
                 rmr_deletion_id = rw_deletion_id row, rmr_state = rw_state row,
                 rmr_receipt_count = rw_receipt_count row,
                 rmr_notification_retired_count = rw_notification_retired_count row,
                 rmr_inbox_removed = rw_inbox_removed row,
                 rmr_retryable = (rw_state row = C_accepted)\<rparr>)"

text \<open>The identity facts a retirement requires.\<close>

definition deletable_account :: "string \<Rightarrow> outbox_db \<Rightarrow> exn + unit" where
  "deletable_account user_id db =
     (case sql_first (\<lambda>u. us_id u = user_id) (users db) of
        None \<Rightarrow> Inl (PlatformError ''not_found'' 404)
      | Some account \<Rightarrow>
          if us_lifecycle_status account = ''deleted''
          then Inl (PlatformError ''account_already_deleted'' 409)
          else if us_lifecycle_status account \<noteq> ''pending_delete''
          then Inl (PlatformError ''account_not_deletable'' 422)
          else Inr ())"

text \<open>
  The archive verifier of the identity component: archive reference, checksum, user and
  deletion; \<open>None\<close> when it is not configured.
\<close>

type_synonym archive_port = "(string \<Rightarrow> string \<Rightarrow> string \<Rightarrow> string \<Rightarrow> bool) option"

definition verify_archive_proof :: "archive_port \<Rightarrow> retirement_command \<Rightarrow> exn + unit" where
  "verify_archive_proof port c =
     (case port of
        None \<Rightarrow> Inl (PlatformError ''archive_verifier_unavailable'' 503)
      | Some verify \<Rightarrow>
          require (verify (rm_archive_ref c) (rm_archive_checksum c) (rm_user_id c) (rm_deletion_id c))
            (PlatformError ''archive_proof_mismatch'' 422))"

text \<open>\<open>_write_permanent_receipts\<close>: first for the notifications, then for the suppressions.\<close>

fun write_notification_receipts ::
    "outbox_cfg \<Rightarrow> string \<Rightarrow> time \<Rightarrow> notification_row list \<Rightarrow> receipt_row list \<Rightarrow> receipt_row list" where
  "write_notification_receipts cfg user_id now [] rts = rts"
| "write_notification_receipts cfg user_id now (n # ns) rts =
     (let event_id = nt_event_id n in
      case sql_first (\<lambda>r. rt_event_id r = event_id \<and> rt_user_id r = user_id) rts of
        Some _ \<Rightarrow> write_notification_receipts cfg user_id now ns rts
      | None \<Rightarrow> write_notification_receipts cfg user_id now ns (rts @
          [\<lparr>rt_event_id = event_id, rt_user_id = user_id, rt_outcome = ''materialized'',
            rt_seq = Some (nt_seq n), rt_occurred_at = nt_event_occurred_at n,
            rt_materialized_at = Some (nt_materialized_at n), rt_retired_at = Some now,
            rt_fingerprint = canonical_receipt_fingerprint (cf_sha256 cfg) event_id user_id
                               ''materialized'' (Some (nt_seq n))\<rparr>]))"

fun write_suppressed_receipts ::
    "outbox_cfg \<Rightarrow> string \<Rightarrow> time \<Rightarrow> event_row list \<Rightarrow> suppression_row list \<Rightarrow> receipt_row list \<Rightarrow>
     exn + receipt_row list" where
  "write_suppressed_receipts cfg user_id now evs [] rts = Inr rts"
| "write_suppressed_receipts cfg user_id now evs (s # ss) rts =
     (let event_id = sp_event_id s; outcome = suppression_outcome s in
      case sql_first (\<lambda>e. ev_event_id e = event_id) evs of
        None \<Rightarrow> Inl (PlatformError ''retirement_event_missing'' 409)
      | Some event \<Rightarrow>
          (case sql_first (\<lambda>r. rt_event_id r = event_id \<and> rt_user_id r = user_id) rts of
             Some _ \<Rightarrow> write_suppressed_receipts cfg user_id now evs ss rts
           | None \<Rightarrow> write_suppressed_receipts cfg user_id now evs ss (rts @
               [\<lparr>rt_event_id = event_id, rt_user_id = user_id, rt_outcome = outcome, rt_seq = None,
                 rt_occurred_at = ev_occurred_at event, rt_materialized_at = None,
                 rt_retired_at = Some now,
                 rt_fingerprint = canonical_receipt_fingerprint (cf_sha256 cfg) event_id user_id
                                    outcome None\<rparr>])))"

definition write_permanent_receipts ::
    "outbox_cfg \<Rightarrow> string \<Rightarrow> time \<Rightarrow> outbox_db \<Rightarrow> exn + nat \<times> outbox_db" where
  "write_permanent_receipts cfg user_id now db =
     (let rows = sql_where (\<lambda>n. nt_user_id n = user_id) (notifications db);
          sups = sql_where (\<lambda>s. sp_user_id s = user_id) (suppressions db)
      in bindE (write_suppressed_receipts cfg user_id now (events db) sups
                  (write_notification_receipts cfg user_id now rows (receipts db)))
           (\<lambda>rts. Inr (length rows + length sups, db\<lparr>receipts := rts\<rparr>)))"

text \<open>
  \<open>_apply_retirement_work\<close>. The inbox row is marked retired and then deleted; the tombstone
  keeps its counters.
\<close>

definition apply_retirement_work ::
    "outbox_cfg \<Rightarrow> retirement_command \<Rightarrow> time \<Rightarrow> outbox_db \<Rightarrow> exn + retirement_receipt \<times> outbox_db" where
  "apply_retirement_work cfg c now db =
     (let user_id = rm_user_id c in
      bindE (write_permanent_receipts cfg user_id now db) (\<lambda>(receipt_count, db1).
        let retired = sql_count (\<lambda>n. nt_user_id n = user_id) (notifications db1);
            inbox = sql_first (\<lambda>i. ib_user_id i = user_id) (inboxes db1);
            removed = (inbox \<noteq> None \<and> sql_count (\<lambda>i. ib_user_id i = user_id) (inboxes db1) = 1);
            db2 = db1\<lparr>notifications := sql_delete (\<lambda>n. nt_user_id n = user_id) (notifications db1),
                      acks := sql_delete (\<lambda>a. ak_user_id a = user_id) (acks db1),
                      inboxes := sql_delete (\<lambda>i. ib_user_id i = user_id) (inboxes db1)\<rparr>
        in case sql_insert tb_user_id
              \<lparr>tb_user_id = user_id,
               tb_next_seq = (case inbox of None \<Rightarrow> 1 | Some i \<Rightarrow> ib_next_seq i),
               tb_read_through_seq = (case inbox of None \<Rightarrow> 0 | Some i \<Rightarrow> ib_read_through_seq i),
               tb_retired_at = now\<rparr> (retirement_tombstones db2) of
             None \<Rightarrow> Inl IntegrityError
           | Some t \<Rightarrow> Inr (\<lparr>rmr_operation_id = rm_operation_id c, rmr_user_id = user_id,
                rmr_deletion_id = rm_deletion_id c, rmr_state = C_completed,
                rmr_receipt_count = receipt_count, rmr_notification_retired_count = retired,
                rmr_inbox_removed = removed, rmr_retryable = False\<rparr>,
               db2\<lparr>retirement_tombstones := t\<rparr>)))"

definition retirement_reservation ::
    "outbox_cfg \<Rightarrow> retirement_command \<Rightarrow> bool \<Rightarrow> command_state \<Rightarrow> time \<Rightarrow> retirement_row" where
  "retirement_reservation cfg c durable st now =
     \<lparr>rw_operation_id = rm_operation_id c, rw_user_id = rm_user_id c,
      rw_deletion_id = rm_deletion_id c, rw_input_fingerprint = retirement_fingerprint cfg c,
      rw_archive_ref = rm_archive_ref c, rw_archive_checksum = rm_archive_checksum c,
      rw_archive_ref_fingerprint = archive_fingerprint cfg (rm_archive_ref c) (rm_archive_checksum c),
      rw_durable = durable, rw_state = st, rw_receipt_count = 0,
      rw_notification_retired_count = 0, rw_inbox_removed = False, rw_created_at = now,
      rw_completed_at = None\<rparr>"

text \<open>
  \<open>_reserve_retirement_command\<close>: the first component is the winner's receipt when the row
  was there, \<open>None\<close> when this caller has just reserved it.
\<close>

definition reserve_retirement ::
    "outbox_cfg \<Rightarrow> retirement_command \<Rightarrow> bool \<Rightarrow> command_state \<Rightarrow> time \<Rightarrow> outbox_db \<Rightarrow>
     exn + retirement_receipt option \<times> outbox_db" where
  "reserve_retirement cfg c durable st now db =
     (case sql_insert rw_operation_id (retirement_reservation cfg c durable st now) (retirements db) of
        Some t \<Rightarrow> Inr (None, db\<lparr>retirements := t\<rparr>)
      | None \<Rightarrow>
          (case sql_first (\<lambda>r. rw_operation_id r = rm_operation_id c) (retirements db) of
             None \<Rightarrow> Inl (PlatformError ''operation_reservation_lost'' 409)
           | Some row \<Rightarrow> bindE (retirement_receipt_from_row cfg c row) (\<lambda>r. Inr (Some r, db))))"

definition complete_retirement ::
    "retirement_receipt \<Rightarrow> time \<Rightarrow> retirement_row \<Rightarrow> retirement_row" where
  "complete_retirement receipt now r =
     r\<lparr>rw_state := C_completed, rw_receipt_count := rmr_receipt_count receipt,
       rw_notification_retired_count := rmr_notification_retired_count receipt,
       rw_inbox_removed := rmr_inbox_removed receipt, rw_completed_at := Some now\<rparr>"

text \<open>\<open>_retire_inline\<close>.\<close>

definition retire_inline ::
    "outbox_cfg \<Rightarrow> archive_port \<Rightarrow> retirement_command \<Rightarrow> time \<Rightarrow> outbox_db \<Rightarrow>
     exn + retirement_receipt \<times> outbox_db" where
  "retire_inline cfg port c now db =
     (case sql_first (\<lambda>r. rw_operation_id r = rm_operation_id c) (retirements db) of
        Some row \<Rightarrow> bindE (retirement_receipt_from_row cfg c row) (\<lambda>r. Inr (r, db))
      | None \<Rightarrow>
          bindE (deletable_account (rm_user_id c) db) (\<lambda>_.
          bindE (verify_archive_proof port c) (\<lambda>_.
          bindE (reserve_retirement cfg c False C_pending now db) (\<lambda>(winner, db1).
          case winner of Some r \<Rightarrow> Inr (r, db1)
          | None \<Rightarrow>
              bindE (apply_retirement_work cfg c now db1) (\<lambda>(receipt, db2).
                Inr (receipt, db2\<lparr>retirements :=
                  sql_update (\<lambda>r. rw_operation_id r = rm_operation_id c)
                    (complete_retirement receipt now) (retirements db2)\<rparr>))))))"

text \<open>\<open>retire_account_notification_state\<close>.\<close>

definition retire_account_notification_state ::
    "outbox_cfg \<Rightarrow> archive_port \<Rightarrow> retirement_command \<Rightarrow> time \<Rightarrow> outbox_db \<Rightarrow>
     exn + retirement_receipt \<times> outbox_db" where
  "retire_account_notification_state cfg port c now db =
     (if rm_caller_principal c \<noteq> RETENTION_CALLER then Inl forbidden
      else if rm_mode c \<notin> {''durable'', ''inline''} then Inl (PlatformError ''validation_error'' 422)
      else if rm_mode c = ''durable'' then
        (case sql_first (\<lambda>r. rw_operation_id r = rm_operation_id c) (retirements db) of
           Some row \<Rightarrow> bindE (retirement_receipt_from_row cfg c row) (\<lambda>r. Inr (r, db))
         | None \<Rightarrow>
             bindE (deletable_account (rm_user_id c) db) (\<lambda>_.
             bindE (verify_archive_proof port c) (\<lambda>_.
             bindE (reserve_retirement cfg c True C_accepted now db) (\<lambda>(winner, db1).
             case winner of Some r \<Rightarrow> Inr (r, db1)
             | None \<Rightarrow> Inr (\<lparr>rmr_operation_id = rm_operation_id c, rmr_user_id = rm_user_id c,
                   rmr_deletion_id = rm_deletion_id c, rmr_state = C_accepted,
                   rmr_receipt_count = 0, rmr_notification_retired_count = 0,
                   rmr_inbox_removed = False, rmr_retryable = True\<rparr>, db1)))))
      else retire_inline cfg port c now db)"

text \<open>\<open>retire_account_for_identity_deletion\<close>.\<close>

definition retire_for_identity_deletion ::
    "outbox_cfg \<Rightarrow> archive_port \<Rightarrow> string \<Rightarrow> string \<Rightarrow> string \<Rightarrow> string \<Rightarrow> string \<Rightarrow> string \<Rightarrow> time \<Rightarrow>
     outbox_db \<Rightarrow> exn + retirement_receipt \<times> outbox_db" where
  "retire_for_identity_deletion cfg port operation_id user_id deletion_id ref checksum
       transaction_id now db =
     retire_inline cfg port
       \<lparr>rm_operation_id = operation_id, rm_caller_principal = ''retention-ops'',
        rm_user_id = user_id, rm_deletion_id = deletion_id, rm_archive_ref = ref,
        rm_archive_checksum = checksum, rm_transaction_id = transaction_id,
        rm_mode = ''inline''\<rparr> now db"

text \<open>\<open>_apply_durable_work\<close>.\<close>

definition apply_durable_work ::
    "outbox_cfg \<Rightarrow> retirement_command \<Rightarrow> retirement_row \<Rightarrow> time \<Rightarrow> outbox_db \<Rightarrow>
     exn + retirement_receipt \<times> outbox_db" where
  "apply_durable_work cfg c stored now db =
     (if archive_fingerprint cfg (rm_archive_ref c) (rm_archive_checksum c)
         \<noteq> rw_archive_ref_fingerprint stored
      then Inl (PlatformError ''archive_proof_mismatch'' 422)
      else bindE (apply_retirement_work cfg c now db) (\<lambda>(receipt, db1).
        let m = (\<lambda>r. rw_operation_id r = rm_operation_id c \<and> rw_state r = C_accepted) in
        if sql_count m (retirements db1) \<noteq> 1 then Inl (PlatformError ''retirement_conflict'' 409)
        else Inr (receipt, db1\<lparr>retirements :=
               sql_update m (complete_retirement receipt now) (retirements db1)\<rparr>)))"

text \<open>\<open>apply_accepted_durable_retirement\<close>: every fact comes from the accepted row.\<close>

definition apply_accepted_durable_retirement ::
    "outbox_cfg \<Rightarrow> archive_port \<Rightarrow> string \<Rightarrow> time \<Rightarrow> outbox_db \<Rightarrow> exn + retirement_receipt \<times> outbox_db" where
  "apply_accepted_durable_retirement cfg port operation_id now db =
     (case sql_first (\<lambda>r. rw_operation_id r = operation_id) (retirements db) of
        None \<Rightarrow> Inl (PlatformError ''retirement_not_pending'' 409)
      | Some stored \<Rightarrow>
          if \<not> rw_durable stored \<or> rw_state stored \<noteq> C_accepted
          then Inl (PlatformError ''retirement_not_pending'' 409)
          else
            let c = \<lparr>rm_operation_id = operation_id, rm_caller_principal = ''retention-ops'',
                     rm_user_id = rw_user_id stored, rm_deletion_id = rw_deletion_id stored,
                     rm_archive_ref = rw_archive_ref stored,
                     rm_archive_checksum = rw_archive_checksum stored, rm_transaction_id = [],
                     rm_mode = ''durable''\<rparr>
            in bindE (deletable_account (rm_user_id c) db) (\<lambda>_.
               bindE (verify_archive_proof port c) (\<lambda>_.
               apply_durable_work cfg c stored now db)))"

text \<open>\<open>apply_durable_retirement\<close>: the same for a command the caller still holds.\<close>

definition apply_durable_retirement ::
    "outbox_cfg \<Rightarrow> archive_port \<Rightarrow> retirement_command \<Rightarrow> time \<Rightarrow> outbox_db \<Rightarrow>
     exn + retirement_receipt \<times> outbox_db" where
  "apply_durable_retirement cfg port c now db =
     (if rm_caller_principal c \<noteq> RETENTION_CALLER then Inl forbidden
      else case sql_first (\<lambda>r. rw_operation_id r = rm_operation_id c) (retirements db) of
        None \<Rightarrow> Inl (PlatformError ''retirement_not_pending'' 409)
      | Some stored \<Rightarrow>
          if \<not> rw_durable stored \<or> rw_state stored \<noteq> C_accepted
          then Inl (PlatformError ''retirement_not_pending'' 409)
          else if rw_user_id stored \<noteq> rm_user_id c then Inl idempotency_conflict
          else bindE (deletable_account (rm_user_id c) db) (\<lambda>_.
               bindE (verify_archive_proof port c) (\<lambda>_.
               apply_durable_work cfg c stored now db)))"

section \<open>Compaction of an account's events\<close>

definition compaction_receipt_from_row ::
    "outbox_cfg \<Rightarrow> compaction_command \<Rightarrow> compaction_row \<Rightarrow> exn + compaction_receipt" where
  "compaction_receipt_from_row cfg c row =
     (if cw_user_id row \<noteq> cc_user_id c \<or> cw_deletion_id row \<noteq> cc_deletion_id c
         \<or> cw_retirement_receipt_id row \<noteq> cc_retirement_receipt_id c
         \<or> cw_input_fingerprint row \<noteq> compaction_fingerprint cfg c
      then Inl idempotency_conflict
      else Inr \<lparr>ccr_operation_id = cc_operation_id c, ccr_user_id = cw_user_id row,
                 ccr_deletion_id = cw_deletion_id row, ccr_state = cw_state row,
                 ccr_eligible_count = cw_eligible_count row,
                 ccr_compacted_count = cw_compacted_count row,
                 ccr_blocked_count = cw_blocked_count row,
                 ccr_retryable = (cw_state row = C_accepted)\<rparr>)"

text \<open>
  The candidates of \<open>_compact_associated_events\<close> with their counts of undelivered
  deliveries, in the order of the recipients table.
\<close>

definition associated_events :: "string \<Rightarrow> outbox_db \<Rightarrow> (string \<times> nat) list" where
  "associated_events user_id db =
     map (\<lambda>e. (e, sql_count (\<lambda>d. dl_event_id d = e \<and> dl_status d \<noteq> Delivered) (deliveries db)))
       (filter (\<lambda>e. \<exists>ev \<in> set (events db). ev_event_id ev = e \<and> ev_storage_state ev = Full
                    \<and> ev_compacted_at ev = None)
         (remdups (map rc_event_id (sql_where (\<lambda>r. rc_user_id r = user_id) (recipients db)))))"

text \<open>The loop; the counts are eligible, compacted, blocked.\<close>

fun compact_candidates ::
    "outbox_cfg \<Rightarrow> time \<Rightarrow> (string \<times> nat) list \<Rightarrow> nat \<times> nat \<times> nat \<Rightarrow> outbox_db \<Rightarrow>
     exn + (nat \<times> nat \<times> nat) \<times> outbox_db" where
  "compact_candidates cfg now [] counts db = Inr (counts, db)"
| "compact_candidates cfg now ((e, non_delivered) # cands) (eligible, compacted, blocked) db =
     (if non_delivered \<noteq> 0
      then compact_candidates cfg now cands (eligible, compacted, Suc blocked) db
      else bindE (compact_event cfg e now db) (\<lambda>(done, db').
        compact_candidates cfg now cands
          (if done then (Suc eligible, Suc compacted, blocked) else (Suc eligible, compacted, Suc blocked))
          db'))"

definition compact_associated_events ::
    "outbox_cfg \<Rightarrow> string \<Rightarrow> time \<Rightarrow> outbox_db \<Rightarrow> exn + (nat \<times> nat \<times> nat) \<times> outbox_db" where
  "compact_associated_events cfg user_id now db =
     compact_candidates cfg now (associated_events user_id db) (0, 0, 0) db"

definition compaction_reservation ::
    "outbox_cfg \<Rightarrow> compaction_command \<Rightarrow> time \<Rightarrow> compaction_row" where
  "compaction_reservation cfg c now =
     \<lparr>cw_operation_id = cc_operation_id c, cw_user_id = cc_user_id c,
      cw_deletion_id = cc_deletion_id c, cw_retirement_receipt_id = cc_retirement_receipt_id c,
      cw_input_fingerprint = compaction_fingerprint cfg c, cw_state = C_pending,
      cw_eligible_count = 0, cw_compacted_count = 0, cw_blocked_count = 0,
      cw_created_at = now, cw_completed_at = None\<rparr>"

text \<open>\<open>_request_compaction\<close>.\<close>

definition request_compaction ::
    "outbox_cfg \<Rightarrow> compaction_command \<Rightarrow> time \<Rightarrow> outbox_db \<Rightarrow> exn + compaction_receipt \<times> outbox_db" where
  "request_compaction cfg c now db =
     (let again = (\<lambda>row. bindE (compaction_receipt_from_row cfg c row) (\<lambda>r. Inr (r, db)));
          stored = sql_first (\<lambda>r. cw_operation_id r = cc_operation_id c) (compactions db)
      in case stored of
        Some row \<Rightarrow> again row
      | None \<Rightarrow>
        if \<not> (\<exists>r. sql_first (\<lambda>r. rw_operation_id r = cc_retirement_receipt_id c) (retirements db) = Some r
               \<and> rw_user_id r = cc_user_id c \<and> rw_deletion_id r = cc_deletion_id c
               \<and> rw_state r = C_completed
               \<and> rw_input_fingerprint r = cc_retirement_receipt_fingerprint c)
        then Inl (PlatformError ''compaction_prerequisite_missing'' 409)
        else case sql_insert cw_operation_id (compaction_reservation cfg c now) (compactions db) of
          None \<Rightarrow> (case stored of
              None \<Rightarrow> Inl (PlatformError ''operation_reservation_lost'' 409)
            | Some row \<Rightarrow> again row)
        | Some t \<Rightarrow>
            bindE (compact_associated_events cfg (cc_user_id c) now (db\<lparr>compactions := t\<rparr>))
              (\<lambda>((eligible, compacted, blocked), db1).
                let st = (if blocked > 0 then C_accepted else C_completed) in
                Inr (\<lparr>ccr_operation_id = cc_operation_id c, ccr_user_id = cc_user_id c,
                       ccr_deletion_id = cc_deletion_id c, ccr_state = st,
                       ccr_eligible_count = eligible, ccr_compacted_count = compacted,
                       ccr_blocked_count = blocked, ccr_retryable = (blocked > 0)\<rparr>,
                     db1\<lparr>compactions := sql_update (\<lambda>r. cw_operation_id r = cc_operation_id c)
                       (\<lambda>r. r\<lparr>cw_state := st, cw_eligible_count := eligible,
                              cw_compacted_count := compacted, cw_blocked_count := blocked,
                              cw_completed_at := (if blocked = 0 then Some now else None)\<rparr>)
                       (compactions db1)\<rparr>)))"

definition request_eligible_account_event_compaction ::
    "outbox_cfg \<Rightarrow> compaction_command \<Rightarrow> time \<Rightarrow> outbox_db \<Rightarrow> exn + compaction_receipt \<times> outbox_db" where
  "request_eligible_account_event_compaction cfg c now db =
     (if cc_caller_principal c \<noteq> RETENTION_CALLER then Inl forbidden
      else request_compaction cfg c now db)"

text \<open>\<open>request_compaction_for_identity_deletion\<close>.\<close>

definition request_compaction_for_deletion ::
    "outbox_cfg \<Rightarrow> string \<Rightarrow> string \<Rightarrow> string \<Rightarrow> string \<Rightarrow> time \<Rightarrow> outbox_db \<Rightarrow>
     exn + compaction_receipt \<times> outbox_db" where
  "request_compaction_for_deletion cfg operation_id user_id deletion_id receipt_id now db =
     (case sql_first (\<lambda>r. rw_operation_id r = receipt_id) (retirements db) of
        None \<Rightarrow> Inl (PlatformError ''compaction_prerequisite_missing'' 409)
      | Some retirement \<Rightarrow>
          if rw_user_id retirement \<noteq> user_id \<or> rw_deletion_id retirement \<noteq> deletion_id
             \<or> rw_state retirement \<noteq> C_completed
          then Inl (PlatformError ''compaction_prerequisite_missing'' 409)
          else request_compaction cfg
            \<lparr>cc_operation_id = operation_id, cc_caller_principal = ''retention-ops'',
             cc_user_id = user_id, cc_deletion_id = deletion_id,
             cc_retirement_receipt_id = receipt_id,
             cc_retirement_receipt_fingerprint = rw_input_fingerprint retirement,
             cc_transaction_id = ''retention:'' @ operation_id\<rparr> now db)"

text \<open>\<open>apply_compaction_command\<close>: the result is the state and whether anything was done.\<close>

definition apply_compaction_command ::
    "outbox_cfg \<Rightarrow> string \<Rightarrow> time \<Rightarrow> outbox_db \<Rightarrow> exn + (command_state \<times> bool) \<times> outbox_db" where
  "apply_compaction_command cfg operation_id now db =
     (case sql_first (\<lambda>r. cw_operation_id r = operation_id) (compactions db) of
        None \<Rightarrow> Inl (PlatformError ''compaction_command_not_found'' 404)
      | Some stored \<Rightarrow>
        if cw_state stored = C_completed then Inr ((C_completed, False), db)
        else if cw_state stored \<noteq> C_accepted
        then Inl (PlatformError ''compaction_command_invalid'' 409)
        else
          bindE (compact_associated_events cfg (cw_user_id stored) now db)
            (\<lambda>((eligible, compacted, blocked), db1).
              let m = (\<lambda>r. cw_operation_id r = operation_id \<and> cw_state r = C_accepted);
                  st = (if blocked = 0 then C_completed else C_accepted)
              in if sql_count m (compactions db1) \<noteq> 1
                 then Inl (PlatformError ''compaction_command_conflict'' 409)
                 else Inr ((st, True), db1\<lparr>compactions := sql_update m
                   (\<lambda>r. r\<lparr>cw_state := st,
                          cw_eligible_count := cw_eligible_count stored + eligible,
                          cw_compacted_count := cw_compacted_count stored + compacted,
                          cw_blocked_count := blocked,
                          cw_completed_at := (if blocked = 0 then Some now
                                              else cw_completed_at stored)\<rparr>)
                   (compactions db1)\<rparr>)))"

section \<open>The commands as steps\<close>

text \<open>
  Every way a lifecycle command that succeeds may change the database: the public and the
  internal entries, and the workers that apply accepted commands.
\<close>

inductive lifecycle_step :: "outbox_cfg \<Rightarrow> outbox_db \<Rightarrow> outbox_db \<Rightarrow> bool" for cfg where
  redact: "redact_document_notifications cfg c now db = Inr (r, db') \<Longrightarrow> lifecycle_step cfg db db'"
| retire: "retire_account_notification_state cfg port rc now db = Inr (rr, db') \<Longrightarrow>
     lifecycle_step cfg db db'"
| retire_inline: "retire_inline cfg port rc now db = Inr (rr, db') \<Longrightarrow> lifecycle_step cfg db db'"
| apply_accepted: "apply_accepted_durable_retirement cfg port oid now db = Inr (rr, db') \<Longrightarrow>
     lifecycle_step cfg db db'"
| apply_durable: "apply_durable_retirement cfg port rc now db = Inr (rr, db') \<Longrightarrow>
     lifecycle_step cfg db db'"
| request_compaction: "request_compaction cfg cc now db = Inr (cr, db') \<Longrightarrow>
     lifecycle_step cfg db db'"
| apply_compaction: "apply_compaction_command cfg oid now db = Inr (st, db') \<Longrightarrow>
     lifecycle_step cfg db db'"

end
