(* ===== verification/Outbox_Lifecycle_Effects.thy ===== *)
theory Outbox_Lifecycle_Effects
  imports Outbox_Lifecycle Outbox_Inbox
begin

text \<open>
  What the lifecycle commands do to the tables: each command either finds its operation id
  used and changes nothing, or has the effect written out here. The permanent receipts of a
  retirement, and the induction over the events a compaction command compacts.
\<close>

section \<open>Redaction\<close>

definition tombstone_of :: "redaction_command \<Rightarrow> time \<Rightarrow> string \<Rightarrow> doc_tombstone_row" where
  "tombstone_of c now v =
     \<lparr>dt_document_id = rd_document_id c, dt_document_version_id = v,
      dt_deletion_id = rd_deletion_id c, dt_created_at = now\<rparr>"

lemma insert_tombstones_append:
  "insert_tombstones c now vs t = Some t' \<Longrightarrow> t' = t @ map (tombstone_of c now) vs"
proof (induction vs arbitrary: t)
  case (Cons v vs)
  then have "insert_tombstones c now vs (t @ [tombstone_of c now v]) = Some t'"
    by (auto simp: sql_insert_def tombstone_of_def split: if_splits option.splits)
  then show ?case using Cons.IH by fastforce
qed simp

lemma redaction_receipt_row:
  assumes "redaction_receipt_from_row cfg c row = Inr r"
  shows "rx_input_fingerprint row = redaction_fingerprint cfg c"
    "r = \<lparr>rdr_operation_id = rd_operation_id c, rdr_deletion_id = rx_deletion_id row,
          rdr_redacted_count = rx_redacted_count row,
          rdr_already_redacted_count = rx_already_redacted_count row\<rparr>"
  using assms by (auto simp: redaction_receipt_from_row_def split: if_splits)

lemma redact_cases:
  assumes "redact_document_notifications cfg c now db = Inr (r, db')"
  obtains (again) row where "db' = db" "sql_first (\<lambda>x. rx_operation_id x = rd_operation_id c) (redactions db) = Some row"
      "redaction_receipt_from_row cfg c row = Inr r"
  | (applied) rs where "\<forall>x \<in> set (redactions db). rx_operation_id x \<noteq> rd_operation_id c"
      "db' = db\<lparr>notifications := sql_update (\<lambda>n. redaction_scope c n \<and> \<not> nt_redacted n)
                 redacted_notification (notifications db),
               redactions := rs,
               doc_tombstones := doc_tombstones db @ map (tombstone_of c now) (rd_document_version_ids c)\<rparr>"
      "rs = redactions db @ [(redaction_reservation cfg c now)\<lparr>rx_state := C_completed,
               rx_redacted_count := rdr_redacted_count r,
               rx_already_redacted_count := rdr_already_redacted_count r\<rparr>]"
      "r = \<lparr>rdr_operation_id = rd_operation_id c, rdr_deletion_id = rd_deletion_id c,
            rdr_redacted_count = sql_count (\<lambda>n. redaction_scope c n \<and> \<not> nt_redacted n) (notifications db),
            rdr_already_redacted_count = sql_count (\<lambda>n. redaction_scope c n \<and> nt_redacted n) (notifications db)\<rparr>"
proof -
  let ?p = "\<lambda>x. rx_operation_id x = rd_operation_id c"
  show thesis
  proof (cases "sql_first ?p (redactions db)")
    case (Some row)
    then show thesis
      using assms again
      by (auto simp: redact_document_notifications_def bindE_def split: if_splits sum.splits)
  next
    case None
    then have none: "\<forall>x \<in> set (redactions db). \<not> ?p x" by (simp add: sql)
    then have ins: "sql_insert rx_operation_id (redaction_reservation cfg c now) (redactions db)
        = Some (redactions db @ [redaction_reservation cfg c now])"
      by (auto simp: sql_insert_def redaction_reservation_def)
    have "redact_reserved cfg c now db = Inr (r, db')"
      using assms None by (auto simp: redact_document_notifications_def split: if_splits)
    then obtain t where t: "insert_tombstones c now (rd_document_version_ids c) (doc_tombstones db) = Some t"
        and res: "redact_reserved cfg c now db = Inr (r, db')"
      by (auto simp: redact_reserved_def ins Let_def split: option.splits)
    let ?N = "sql_count (\<lambda>n. redaction_scope c n \<and> \<not> nt_redacted n) (notifications db)"
    let ?A = "sql_count (\<lambda>n. redaction_scope c n \<and> nt_redacted n) (notifications db)"
    let ?f = "\<lambda>x. x\<lparr>rx_state := C_completed, rx_redacted_count := ?N, rx_already_redacted_count := ?A\<rparr>"
    have upd: "sql_update ?p ?f (redactions db @ [redaction_reservation cfg c now])
        = redactions db @ [?f (redaction_reservation cfg c now)]"
      using none by (auto simp: sql_update_def redaction_reservation_def intro: map_idI)
    have "redact_reserved cfg c now db = Inr (\<lparr>rdr_operation_id = rd_operation_id c,
          rdr_deletion_id = rd_deletion_id c, rdr_redacted_count = ?N, rdr_already_redacted_count = ?A\<rparr>,
        db\<lparr>notifications := sql_update (\<lambda>n. redaction_scope c n \<and> \<not> nt_redacted n)
               redacted_notification (notifications db),
           redactions := redactions db @ [?f (redaction_reservation cfg c now)],
           doc_tombstones := t\<rparr>)"
      by (simp add: redact_reserved_def ins Let_def t upd)
    then show thesis
      using res insert_tombstones_append [OF t] by (intro applied [OF none]) auto
  qed
qed

section \<open>Retirement\<close>

abbreviation has_receipt_row :: "string \<Rightarrow> string \<Rightarrow> receipt_row list \<Rightarrow> bool" where
  "has_receipt_row e u rts \<equiv> \<exists>r \<in> set rts. rt_event_id r = e \<and> rt_user_id r = u"

lemma has_receipt_row_mono: "has_receipt_row e u rts \<Longrightarrow> set rts \<subseteq> set rts' \<Longrightarrow> has_receipt_row e u rts'"
  by blast

lemma sql_first_receipt:
  "sql_first (\<lambda>r. rt_event_id r = e \<and> rt_user_id r = u) rts = Some r \<Longrightarrow> has_receipt_row e u rts"
  by (auto dest: sql_first_Some)

lemma write_notification_receipts_Cons:
  obtains rts' where "write_notification_receipts cfg u now (n # ns) rts =
      write_notification_receipts cfg u now ns rts'"
    "set rts \<subseteq> set rts'" "has_receipt_row (nt_event_id n) u rts'"
proof (cases "sql_first (\<lambda>r. rt_event_id r = nt_event_id n \<and> rt_user_id r = u) rts")
  case None
  then show ?thesis by (intro that) (simp_all only: write_notification_receipts.simps Let_def option.case, auto)
next
  case (Some r)
  show ?thesis by (rule that [of rts]) (simp_all add: Some Let_def sql_first_receipt [OF Some])
qed

lemma write_notification_receipts_mono:
  "set rts \<subseteq> set (write_notification_receipts cfg u now ns rts)"
proof (induction ns arbitrary: rts)
  case (Cons n ns)
  obtain rts' where r: "write_notification_receipts cfg u now (n # ns) rts =
      write_notification_receipts cfg u now ns rts'" "set rts \<subseteq> set rts'"
    by (rule write_notification_receipts_Cons)
  show ?case unfolding r(1) using r(2) Cons.IH [of rts'] by (rule subset_trans)
qed simp

lemma write_notification_receipts_all:
  "n \<in> set ns \<Longrightarrow> has_receipt_row (nt_event_id n) u (write_notification_receipts cfg u now ns rts)"
proof (induction ns arbitrary: rts)
  case (Cons m ns)
  obtain rts' where r: "write_notification_receipts cfg u now (m # ns) rts =
      write_notification_receipts cfg u now ns rts'" "has_receipt_row (nt_event_id m) u rts'"
    by (rule write_notification_receipts_Cons)
  show ?case
  proof (cases "n = m")
    case True
    show ?thesis
      unfolding r(1) True by (rule has_receipt_row_mono [OF r(2) write_notification_receipts_mono])
  next
    case False
    then have "n \<in> set ns" using Cons.prems by simp
    then show ?thesis unfolding r(1) by (rule Cons.IH)
  qed
qed simp

lemma write_suppressed_receipts_Cons:
  assumes "write_suppressed_receipts cfg u now evs (s # ss) rts = Inr out"
  obtains rts' where "write_suppressed_receipts cfg u now evs ss rts' = Inr out"
    "set rts \<subseteq> set rts'" "has_receipt_row (sp_event_id s) u rts'"
proof (cases "sql_first (\<lambda>r. rt_event_id r = sp_event_id s \<and> rt_user_id r = u) rts")
  case None
  obtain x where x: "sql_first (\<lambda>e. ev_event_id e = sp_event_id s) evs = Some x"
    using assms by (auto simp: Let_def split: option.splits)
  have "write_suppressed_receipts cfg u now evs ss (rts @
     [\<lparr>rt_event_id = sp_event_id s, rt_user_id = u, rt_outcome = suppression_outcome s, rt_seq = None,
       rt_occurred_at = ev_occurred_at x, rt_materialized_at = None, rt_retired_at = Some now,
       rt_fingerprint = canonical_receipt_fingerprint (cf_sha256 cfg) (sp_event_id s) u
         (suppression_outcome s) None\<rparr>]) = Inr out"
    using assms by (simp add: Let_def None x)
  then show ?thesis by (rule that) auto
next
  case (Some r)
  show ?thesis
    using assms by (intro that [of rts]) (auto simp: Some Let_def sql_first_receipt [OF Some] split: option.splits)
qed

lemma write_suppressed_receipts_mono:
  "write_suppressed_receipts cfg u now evs ss rts = Inr out \<Longrightarrow> set rts \<subseteq> set out"
proof (induction ss arbitrary: rts)
  case (Cons s ss)
  obtain rts' where r: "write_suppressed_receipts cfg u now evs ss rts' = Inr out" "set rts \<subseteq> set rts'"
    by (rule write_suppressed_receipts_Cons [OF Cons.prems])
  show ?case by (rule subset_trans [OF r(2) Cons.IH [OF r(1)]])
qed simp

lemma write_suppressed_receipts_all:
  "write_suppressed_receipts cfg u now evs ss rts = Inr out \<Longrightarrow> s \<in> set ss \<Longrightarrow>
     has_receipt_row (sp_event_id s) u out"
proof (induction ss arbitrary: rts)
  case (Cons x ss)
  obtain rts' where r: "write_suppressed_receipts cfg u now evs ss rts' = Inr out"
      "has_receipt_row (sp_event_id x) u rts'"
    by (rule write_suppressed_receipts_Cons [OF Cons.prems(1)])
  show ?case
  proof (cases "s = x")
    case True
    show ?thesis unfolding True by (rule has_receipt_row_mono [OF r(2) write_suppressed_receipts_mono [OF r(1)]])
  next
    case False
    then show ?thesis using Cons.IH [OF r(1)] Cons.prems(2) by simp
  qed
qed simp

text \<open>The effect of a retirement: \<open>t\<close> is the tombstone, \<open>rts\<close> the receipts.\<close>

lemma retirement_work_cases:
  assumes "apply_retirement_work cfg c now db = Inr (r, db')"
  obtains rts t where
    "db' = db\<lparr>receipts := rts,
       notifications := sql_delete (\<lambda>n. nt_user_id n = rm_user_id c) (notifications db),
       acks := sql_delete (\<lambda>a. ak_user_id a = rm_user_id c) (acks db),
       inboxes := sql_delete (\<lambda>i. ib_user_id i = rm_user_id c) (inboxes db),
       retirement_tombstones := retirement_tombstones db @ [t]\<rparr>"
    "tb_user_id t = rm_user_id c" "rm_user_id c \<notin> tb_user_id ` set (retirement_tombstones db)"
    "set (receipts db) \<subseteq> set rts"
    "\<forall>n \<in> set (notifications db). nt_user_id n = rm_user_id c \<longrightarrow>
       has_receipt_row (nt_event_id n) (rm_user_id c) rts"
    "\<forall>s \<in> set (suppressions db). sp_user_id s = rm_user_id c \<longrightarrow>
       has_receipt_row (sp_event_id s) (rm_user_id c) rts"
    "rmr_state r = C_completed" "rmr_user_id r = rm_user_id c"
    "rmr_notification_retired_count r = sql_count (\<lambda>n. nt_user_id n = rm_user_id c) (notifications db)"
proof -
  let ?u = "rm_user_id c"
  let ?ns = "sql_where (\<lambda>n. nt_user_id n = ?u) (notifications db)"
  let ?ss = "sql_where (\<lambda>s. sp_user_id s = ?u) (suppressions db)"
  let ?w = "write_notification_receipts cfg ?u now ?ns (receipts db)"
  obtain rts where rts: "write_suppressed_receipts cfg ?u now (events db) ?ss ?w = Inr rts"
    using assms
    by (auto simp: apply_retirement_work_def write_permanent_receipts_def Let_def bindE_def split: sum.splits)
  let ?r1 = "\<forall>n \<in> set (notifications db). nt_user_id n = ?u \<longrightarrow> has_receipt_row (nt_event_id n) ?u rts"
  have "?r1"
    using write_notification_receipts_all [of _ ?ns] write_suppressed_receipts_mono [OF rts] by fastforce
  moreover have "\<forall>s \<in> set (suppressions db). sp_user_id s = ?u \<longrightarrow> has_receipt_row (sp_event_id s) ?u rts"
    using write_suppressed_receipts_all [OF rts] by simp
  moreover have "set (receipts db) \<subseteq> set rts"
    using write_notification_receipts_mono write_suppressed_receipts_mono [OF rts] by fast
  moreover define t where "t = \<lparr>tb_user_id = ?u,
      tb_next_seq = (case sql_first (\<lambda>i. ib_user_id i = ?u) (inboxes db) of None \<Rightarrow> 1 | Some i \<Rightarrow> ib_next_seq i),
      tb_read_through_seq = (case sql_first (\<lambda>i. ib_user_id i = ?u) (inboxes db) of
         None \<Rightarrow> 0 | Some i \<Rightarrow> ib_read_through_seq i), tb_retired_at = now\<rparr>"
  have t: "tb_user_id t = ?u" by (simp add: t_def)
  have res: "(case sql_insert tb_user_id t (retirement_tombstones db) of None \<Rightarrow> Inl IntegrityError
        | Some ts \<Rightarrow> Inr (\<lparr>rmr_operation_id = rm_operation_id c, rmr_user_id = ?u,
            rmr_deletion_id = rm_deletion_id c, rmr_state = C_completed,
            rmr_receipt_count = length ?ns + length ?ss,
            rmr_notification_retired_count = sql_count (\<lambda>n. nt_user_id n = ?u) (notifications db),
            rmr_inbox_removed = (sql_first (\<lambda>i. ib_user_id i = ?u) (inboxes db) \<noteq> None
               \<and> sql_count (\<lambda>i. ib_user_id i = ?u) (inboxes db) = 1), rmr_retryable = False\<rparr>,
          db\<lparr>receipts := rts,
             notifications := sql_delete (\<lambda>n. nt_user_id n = ?u) (notifications db),
             acks := sql_delete (\<lambda>a. ak_user_id a = ?u) (acks db),
             inboxes := sql_delete (\<lambda>i. ib_user_id i = ?u) (inboxes db),
             retirement_tombstones := ts\<rparr>)) = Inr (r, db')"
    using assms unfolding t_def
    by (simp add: apply_retirement_work_def write_permanent_receipts_def Let_def bindE_def rts cong: option.case_cong)
  obtain ts where ts: "sql_insert tb_user_id t (retirement_tombstones db) = Some ts"
    using res by (cases "sql_insert tb_user_id t (retirement_tombstones db)") auto
  then have "ts = retirement_tombstones db @ [t]" "?u \<notin> tb_user_id ` set (retirement_tombstones db)"
    using t by (auto simp: sql_insert_def split: if_splits)
  ultimately show thesis
    using res [unfolded ts] t by (intro that [of t rts]) auto
qed

text \<open>
  A retirement command that succeeds changes nothing, or only its own table, or does the work
  between its reservation and its completion.
\<close>

definition retired_by :: "outbox_cfg \<Rightarrow> retirement_command \<Rightarrow> time \<Rightarrow> outbox_db \<Rightarrow> retirement_receipt \<Rightarrow> outbox_db \<Rightarrow> bool" where
  "retired_by cfg c now db r db' \<longleftrightarrow>
     (\<exists>x y db1. apply_retirement_work cfg c now (db\<lparr>retirements := x\<rparr>) = Inr (r, db1)
        \<and> db' = db1\<lparr>retirements := y\<rparr>)"

lemma reserve_cases:
  assumes "reserve_retirement cfg c durable st now db = Inr (w, db')"
  obtains (won) "w = None" "db' = db\<lparr>retirements := retirements db @ [retirement_reservation cfg c durable st now]\<rparr>"
  | (lost) r where "w = Some r" "db' = db"
  using assms
  by (auto simp: reserve_retirement_def bindE_def sql_insert_def split: option.splits sum.splits if_splits)

lemma retire_inline_cases:
  assumes "retire_inline cfg port c now db = Inr (r, db')"
  obtains (again) "db' = db"
  | (work) "retired_by cfg c now db r db'" "deletable_account (rm_user_id c) db = Inr ()"
      "verify_archive_proof port c = Inr ()" "\<forall>x \<in> set (retirements db). rw_operation_id x \<noteq> rm_operation_id c"
proof (cases "sql_first (\<lambda>x. rw_operation_id x = rm_operation_id c) (retirements db)")
  case (Some row)
  then show ?thesis using assms again by (auto simp: retire_inline_def bindE_def split: sum.splits)
next
  case None
  then obtain w db1 where g: "deletable_account (rm_user_id c) db = Inr ()" "verify_archive_proof port c = Inr ()"
      and w: "reserve_retirement cfg c False C_pending now db = Inr (w, db1)"
    using assms by (auto simp: retire_inline_def bindE_def split: sum.splits)
  show ?thesis
    using w
  proof (cases rule: reserve_cases)
    case won
    then obtain db2 where "apply_retirement_work cfg c now db1 = Inr (r, db2)"
        "db' = db2\<lparr>retirements := sql_update (\<lambda>x. rw_operation_id x = rm_operation_id c)
           (complete_retirement r now) (retirements db2)\<rparr>"
      using assms None g w by (auto simp: retire_inline_def bindE_def split: sum.splits)
    then show ?thesis using won(2) g None by (intro work) (auto simp: retired_by_def sql)
  next
    case (lost x)
    then show ?thesis using assms None g w again by (auto simp: retire_inline_def bindE_def split: sum.splits)
  qed
qed

lemma retire_account_cases:
  assumes "retire_account_notification_state cfg port c now db = Inr (r, db')"
  obtains (again) "db' = db"
  | (accepted) "db' = db\<lparr>retirements := retirements db @ [retirement_reservation cfg c True C_accepted now]\<rparr>"
      "rmr_state r = C_accepted" "verify_archive_proof port c = Inr ()"
  | (work) "retired_by cfg c now db r db'" "verify_archive_proof port c = Inr ()"
      "deletable_account (rm_user_id c) db = Inr ()" "\<forall>x \<in> set (retirements db). rw_operation_id x \<noteq> rm_operation_id c"
proof (cases "rm_mode c = ''durable''")
  case False
  then have "retire_inline cfg port c now db = Inr (r, db')"
    using assms by (auto simp: retire_account_notification_state_def split: if_splits)
  then show ?thesis
  proof (cases rule: retire_inline_cases)
    case again
    then show ?thesis by (rule \<open>db' = db \<Longrightarrow> thesis\<close>)
  next
    case w: work
    show ?thesis by (rule work [OF w(1,3,2,4)])
  qed
next
  case True
  show ?thesis
  proof (cases "sql_first (\<lambda>x. rw_operation_id x = rm_operation_id c) (retirements db)")
    case (Some row)
    then show ?thesis
      using assms True again
      by (auto simp: retire_account_notification_state_def bindE_def split: sum.splits if_splits)
  next
    case None
    then obtain w db1 where g: "verify_archive_proof port c = Inr ()"
        and w: "reserve_retirement cfg c True C_accepted now db = Inr (w, db1)"
        and res: "(case w of Some x \<Rightarrow> Inr (x, db1) | None \<Rightarrow>
          Inr (\<lparr>rmr_operation_id = rm_operation_id c, rmr_user_id = rm_user_id c,
             rmr_deletion_id = rm_deletion_id c, rmr_state = C_accepted, rmr_receipt_count = 0,
             rmr_notification_retired_count = 0, rmr_inbox_removed = False, rmr_retryable = True\<rparr>, db1))
          = (Inr (r, db') :: exn + retirement_receipt \<times> outbox_db)"
      using assms True
      by (auto simp: retire_account_notification_state_def bindE_def split: sum.splits if_splits)
    show ?thesis
      using w by (cases rule: reserve_cases) (use res g again accepted in auto)
  qed
qed

lemma durable_work_cases:
  assumes "apply_durable_work cfg c stored now db = Inr (r, db')"
  shows "retired_by cfg c now db r db'"
    "archive_fingerprint cfg (rm_archive_ref c) (rm_archive_checksum c) = rw_archive_ref_fingerprint stored"
proof -
  obtain db1 y where "apply_retirement_work cfg c now db = Inr (r, db1)" "db' = db1\<lparr>retirements := y\<rparr>"
    using assms by (auto simp: apply_durable_work_def bindE_def Let_def split: if_splits sum.splits)
  moreover have "db = db\<lparr>retirements := retirements db\<rparr>" by simp
  ultimately show "retired_by cfg c now db r db'" unfolding retired_by_def by metis
  show "archive_fingerprint cfg (rm_archive_ref c) (rm_archive_checksum c) = rw_archive_ref_fingerprint stored"
    using assms by (auto simp: apply_durable_work_def split: if_splits)
qed

lemma apply_accepted_work:
  assumes "apply_accepted_durable_retirement cfg port oid now db = Inr (r, db')"
  obtains c where "retired_by cfg c now db r db'" "deletable_account (rm_user_id c) db = Inr ()"
  using assms durable_work_cases(1)
  by (fastforce simp: apply_accepted_durable_retirement_def bindE_def Let_def split: option.splits if_splits sum.splits)

lemma apply_durable_work_done:
  assumes "apply_durable_retirement cfg port c now db = Inr (r, db')"
  shows "retired_by cfg c now db r db'"
  using assms durable_work_cases(1)
  by (auto simp: apply_durable_retirement_def bindE_def split: option.splits if_splits sum.splits)

section \<open>Compaction\<close>

text \<open>Induction over what a compaction command does: its own table and whole events.\<close>

lemma compact_candidates_induct:
  assumes "compact_candidates cfg now cands counts db = Inr (counts', db')" and "P db"
    and "\<And>e x b y. P x \<Longrightarrow> compact_event cfg e now x = Inr (b, y) \<Longrightarrow> P y"
  shows "P db'"
  using assms(1,2)
proof (induction cands arbitrary: counts db)
  case (Cons x cands)
  obtain e k where x: "x = (e, k)" by fastforce
  obtain a b c where counts: "counts = (a, b, c)" by (metis prod_cases3)
  show ?case
  proof (cases "k = 0")
    case False
    then show ?thesis using Cons x counts by auto
  next
    case True
    then obtain d y where y: "compact_event cfg e now db = Inr (d, y)"
      using Cons.prems(1) x counts by (auto simp: bindE_def split: sum.splits)
    have "P y" by (rule assms(3) [OF Cons.prems(2) y])
    then show ?thesis using Cons.IH Cons.prems(1) True x counts y by (auto simp: bindE_def)
  qed
qed simp

lemma compaction_induct:
  assumes step: "request_compaction cfg c now db = Inr (r, db') \<or> apply_compaction_command cfg oid now db = Inr (st, db')"
    and "P db" and "\<And>x cs. P x \<Longrightarrow> P (x\<lparr>compactions := cs\<rparr>)"
    and ev: "\<And>e x b y. P x \<Longrightarrow> compact_event cfg e now x = Inr (b, y) \<Longrightarrow> P y"
  shows "P db'"
proof -
  have associated: "P y" if "compact_associated_events cfg u now x = Inr (k, y)" "P x" for u x k y
    by (rule compact_candidates_induct [where P = P, OF that(1) [unfolded compact_associated_events_def] that(2)])
      (rule ev)
  from step show ?thesis
  proof
    assume "request_compaction cfg c now db = Inr (r, db')"
    then show ?thesis
      using assms(2,3)
      by (auto simp: request_compaction_def bindE_def Let_def split: option.splits if_splits sum.splits
          dest!: associated)
  next
    assume "apply_compaction_command cfg oid now db = Inr (st, db')"
    then show ?thesis
      using assms(2,3)
      by (auto simp: apply_compaction_command_def bindE_def Let_def split: option.splits if_splits sum.splits
          dest!: associated)
  qed
qed

end
