(* ===== verification/Outbox_System.thy ===== *)
theory Outbox_System
  imports Outbox_Runs Outbox_Publisher Outbox_Lifecycle_Effects
begin

text \<open>
  The outbox as a transition system: the database and every claim ever handed to a runner.
  Any runner may act on any claim it holds, however old, with any clock reading; publishers,
  the maintenance and the users' inbox operations interleave. The invariant of the system,
  and the interpretation of the lease contract on its delivery rows.
\<close>

section \<open>States and steps\<close>

record outbox_system =
  sys_db :: outbox_db
  sys_claims :: "(string \<times> delivery_claim) list"

text \<open>
  The freshness of the attempt id in \<open>claim\<close> is the documented behaviour of the id
  generator (\<open>new_uuid\<close>); every other rule is one transaction of the code.
\<close>

inductive outbox_step :: "outbox_cfg \<Rightarrow> outbox_system \<Rightarrow> outbox_system \<Rightarrow> bool" for cfg where
  publish: "publish_authorized cfg port caller now cmd db = Inr (receipt, db') \<Longrightarrow>
     outbox_step cfg \<lparr>sys_db = db, sys_claims = cs\<rparr> \<lparr>sys_db = db', sys_claims = cs\<rparr>"
| claim: "claim_one cfg skip owner now limit aid db = Inr (Some c, db') \<Longrightarrow>
     aid \<notin> (\<lambda>oc. cl_attempt_id (snd oc)) ` set cs \<Longrightarrow>
     outbox_step cfg \<lparr>sys_db = db, sys_claims = cs\<rparr> \<lparr>sys_db = db', sys_claims = (owner, c) # cs\<rparr>"
| run: "(owner, c) \<in> set cs \<Longrightarrow>
     run_consumer_and_finalize cfg c owner env db = Inr (out, db') \<Longrightarrow>
     outbox_step cfg \<lparr>sys_db = db, sys_claims = cs\<rparr> \<lparr>sys_db = db', sys_claims = cs\<rparr>"
| fail: "(owner, c) \<in> set cs \<Longrightarrow>
     fail_and_schedule cfg c owner cat code t0 now u db = Inr (out, db') \<Longrightarrow>
     outbox_step cfg \<lparr>sys_db = db, sys_claims = cs\<rparr> \<lparr>sys_db = db', sys_claims = cs\<rparr>"
| renew: "(owner, c) \<in> set cs \<Longrightarrow> renew_lease cfg c owner now db = (Some c', db') \<Longrightarrow>
     outbox_step cfg \<lparr>sys_db = db, sys_claims = cs\<rparr> \<lparr>sys_db = db', sys_claims = (owner, c') # cs\<rparr>"
| recycle: "outbox_step cfg \<lparr>sys_db = db, sys_claims = cs\<rparr>
     \<lparr>sys_db = snd (recycle_expired_running cfg now draws limit db), sys_claims = cs\<rparr>"
| replay: "replay cfg e cn v key hash now db = Inr (resp, db') \<Longrightarrow>
     outbox_step cfg \<lparr>sys_db = db, sys_claims = cs\<rparr> \<lparr>sys_db = db', sys_claims = cs\<rparr>"
| compact: "compact_due_events cfg now db = Inr (k, db') \<Longrightarrow>
     outbox_step cfg \<lparr>sys_db = db, sys_claims = cs\<rparr> \<lparr>sys_db = db', sys_claims = cs\<rparr>"
| retention: "outbox_step cfg \<lparr>sys_db = db, sys_claims = cs\<rparr>
     \<lparr>sys_db = snd (retire_due cfg max_online now limit db), sys_claims = cs\<rparr>"
| mark_read: "mark_read u i now db = Inr (b, db') \<Longrightarrow>
     outbox_step cfg \<lparr>sys_db = db, sys_claims = cs\<rparr> \<lparr>sys_db = db', sys_claims = cs\<rparr>"
| read_all: "read_all u now db = Inr db' \<Longrightarrow>
     outbox_step cfg \<lparr>sys_db = db, sys_claims = cs\<rparr> \<lparr>sys_db = db', sys_claims = cs\<rparr>"
| ack: "ack_event u e ty now db = Inr db' \<Longrightarrow>
     outbox_step cfg \<lparr>sys_db = db, sys_claims = cs\<rparr> \<lparr>sys_db = db', sys_claims = cs\<rparr>"
| lifecycle: "lifecycle_step cfg db db' \<Longrightarrow>
     outbox_step cfg \<lparr>sys_db = db, sys_claims = cs\<rparr> \<lparr>sys_db = db', sys_claims = cs\<rparr>"
| accounts: "outbox_step cfg \<lparr>sys_db = db, sys_claims = cs\<rparr>
     \<lparr>sys_db = db\<lparr>users := us, documents := ds\<rparr>, sys_claims = cs\<rparr>"

section \<open>How rows may move\<close>

text \<open>
  Every operation but a claim is calm: a row that is running afterwards was running before,
  under the same lease.
\<close>

definition calm :: "delivery_row \<Rightarrow> delivery_row \<Rightarrow> bool" where
  "calm d d' \<longleftrightarrow> delivery_key d' = delivery_key d \<and> fence_or_zero d \<le> fence_or_zero d'
     \<and> (dl_status d' = Running \<longrightarrow> dl_status d = Running \<and> dl_fence_token d' = dl_fence_token d
          \<and> dl_lease_owner d' = dl_lease_owner d \<and> dl_version d' = dl_version d
          \<and> dl_cycle_attempt_number d' = dl_cycle_attempt_number d)"

definition same_attempt :: "attempt_row \<Rightarrow> attempt_row \<Rightarrow> bool" where
  "same_attempt a a' \<longleftrightarrow> at_attempt_id a' = at_attempt_id a \<and> at_lease a' = at_lease a"

definition tables_calm :: "outbox_db \<Rightarrow> outbox_db \<Rightarrow> bool" where
  "tables_calm db db' \<longleftrightarrow>
     (\<forall>d' \<in> set (deliveries db'). \<exists>d \<in> set (deliveries db). calm d d')
     \<and> (\<forall>a' \<in> set (attempts db'). \<exists>a \<in> set (attempts db). same_attempt a a')
     \<and> map ev_event_id (events db') = map ev_event_id (events db)"

lemma calm_refl [simp]: "calm d d"
  by (simp add: calm_def)

lemma calm_trans: "calm d d' \<Longrightarrow> calm d' d'' \<Longrightarrow> calm d d''"
  by (auto simp: calm_def)

lemma same_attempt_refl [simp]: "same_attempt a a"
  by (simp add: same_attempt_def)

lemma calm_self: "d \<in> set ds \<Longrightarrow> \<exists>x \<in> set ds. calm x d"
  by (rule bexI [of _ d]) simp_all

lemma same_attempt_self: "a \<in> set as \<Longrightarrow> \<exists>x \<in> set as. same_attempt x a"
  by (rule bexI [of _ a]) simp_all

lemma tables_calm_refl: "tables_calm db db"
  by (simp add: tables_calm_def calm_self same_attempt_self)

lemma same_attempt_trans: "same_attempt a b \<Longrightarrow> same_attempt b c \<Longrightarrow> same_attempt a c"
  by (simp add: same_attempt_def)

lemma tables_calm_trans:
  assumes "tables_calm a b" and "tables_calm b c"
  shows "tables_calm a c"
  unfolding tables_calm_def
proof (intro conjI ballI)
  fix d assume "d \<in> set (deliveries c)"
  then obtain d1 where d1: "d1 \<in> set (deliveries b)" "calm d1 d"
    using assms(2) by (auto simp: tables_calm_def)
  then obtain d0 where "d0 \<in> set (deliveries a)" "calm d0 d1"
    using assms(1) by (auto simp: tables_calm_def)
  then show "\<exists>d0 \<in> set (deliveries a). calm d0 d" using d1(2) calm_trans by blast
next
  fix x assume "x \<in> set (attempts c)"
  then obtain x1 where x1: "x1 \<in> set (attempts b)" "same_attempt x1 x"
    using assms(2) by (auto simp: tables_calm_def)
  then obtain x0 where "x0 \<in> set (attempts a)" "same_attempt x0 x1"
    using assms(1) by (auto simp: tables_calm_def)
  then show "\<exists>x0 \<in> set (attempts a). same_attempt x0 x" using x1(2) same_attempt_trans by blast
next
  show "map ev_event_id (events c) = map ev_event_id (events a)"
    using assms by (simp add: tables_calm_def)
qed

lemma tables_calm_update:
  assumes "deliveries db' = sql_update m f (deliveries db)" and "attempts db' = sql_update am g (attempts db)"
    and "map ev_event_id (events db') = map ev_event_id (events db)"
    and "\<And>d. d \<in> set (deliveries db) \<Longrightarrow> m d \<Longrightarrow> calm d (f d)" and "\<And>a. am a \<Longrightarrow> same_attempt a (g a)"
  shows "tables_calm db db'"
  unfolding tables_calm_def assms(1,2)
proof (intro conjI ballI)
  fix d' assume "d' \<in> set (sql_update m f (deliveries db))"
  then obtain d where "d \<in> set (deliveries db)" "d' = (if m d then f d else d)" by (auto simp: sql)
  then show "\<exists>d \<in> set (deliveries db). calm d d'" using assms(4) [of d] by (intro bexI [of _ d]) auto
next
  fix a' assume "a' \<in> set (sql_update am g (attempts db))"
  then obtain a where "a \<in> set (attempts db)" "a' = (if am a then g a else a)" by (auto simp: sql)
  then show "\<exists>a \<in> set (attempts db). same_attempt a a'" using assms(5) [of a] by (intro bexI [of _ a]) auto
qed (rule assms(3))

lemma tables_calm_part: "delivery_part db' = delivery_part db \<Longrightarrow> tables_calm db db'"
  using tables_calm_refl [of db] by (simp add: tables_calm_def delivery_part_def)

text \<open>Stopping a row under its own fence is calm.\<close>

lemma calm_stop:
  "delivery_key d' = delivery_key d \<Longrightarrow> dl_fence_token d' = dl_fence_token d \<Longrightarrow>
   dl_status d' \<noteq> Running \<Longrightarrow> calm d d'"
  by (simp add: calm_def fence_or_zero_def)

lemma fail_calm:
  assumes "fail_and_schedule cfg c owner cat code t0 now u db = Inr (oc, db')"
  shows "tables_calm db db'"
proof -
  obtain st nx cat' where p: "failure_plan c cat now u = (st, nx, cat')" by (metis prod_cases3)
  have idle: "fst (failure_plan c cat now u) \<noteq> Running" using failure_plan_cases [OF p] by (auto simp: p)
  show ?thesis
    by (rule tables_calm_update [OF fail_effect(4,5) [OF assms]])
      (use idle in \<open>auto simp: fail_effect(6) [OF assms] same_attempt_def intro: calm_stop\<close>)
qed

lemma finalize_calm:
  assumes "finalize_tx cfg c owner env db = Inr db'"
  shows "tables_calm db db'"
proof (rule tables_calm_update [OF finalize_effect(5,6) [OF assms]])
  show "map ev_event_id (events db') = map ev_event_id (events db)"
    using assms delivery_partD(1) [OF materialize_event_delivery_part]
    by (auto simp: finalize_tx_def Let_def maybe_freeze_compaction_def sql_update_def
        split: if_splits option.splits sum.splits)
qed (auto simp: delivered_row_def key_defs at_lease_def same_attempt_def intro!: calm_stop)

lemma run_calm:
  assumes "run_consumer_and_finalize cfg c owner env db = Inr (oc, db')"
  shows "tables_calm db db'"
  by (rule run_cases [OF assms]) (auto intro: finalize_calm fail_calm)

lemma renew_calm:
  assumes "renew_lease cfg c owner now db = (Some c', db')"
  shows "tables_calm db db'"
  by (rule tables_calm_update [OF renew_effect(2) [OF assms], where am = "\<lambda>_. False" and g = id])
    (use renew_effect(3,4) [OF assms] in
      \<open>auto simp: sql_update_def calm_def key_defs fence_or_zero_def\<close>)

lemma recycle_row_calm: "tables_calm db (snd (recycle_row cfg now u row (k, db)))"
proof (cases "sql_count (same_lease row) (deliveries db) = 1")
  case False
  then have "snd (recycle_row cfg now u row (k, db)) = db"
    by (simp add: recycle_row_def Let_def)
  then show ?thesis by (simp add: tables_calm_refl)
next
  case True
  show ?thesis
    by (rule tables_calm_update [where m = "same_lease row" and am = "lease_attempt row"
          and f = "recycled_row row (recycle_plan now (u (delivery_key row)) row)"
          and g = "expired_attempt now"])
      (use True recycle_plan_idle in
        \<open>auto simp: recycle_row_frame same_attempt_def intro: calm_stop\<close>)
qed

lemma recycle_calm: "tables_calm db (snd (recycle_expired_running cfg now u limit db))"
proof -
  have "tables_calm db (snd (fold (recycle_row cfg now u) rows (k, db)))" for rows k
  proof (induction rows arbitrary: k db)
    case Nil
    then show ?case by (simp add: tables_calm_refl)
  next
    case (Cons row rows)
    obtain k' x where r: "recycle_row cfg now u row (k, db) = (k', x)" by fastforce
    then have "tables_calm db x" using recycle_row_calm by (metis snd_conv)
    then have "tables_calm db (snd (fold (recycle_row cfg now u) rows (k', x)))"
      using Cons.IH by (rule tables_calm_trans)
    then show ?case by (simp add: r)
  qed
  then show ?thesis by (simp add: recycle_expired_running_def)
qed

lemma replay_calm:
  assumes "replay cfg e cn v key hash now db = Inr (resp, db')"
  shows "tables_calm db db'"
  using assms
proof (cases rule: replay_cases)
  case again
  then show ?thesis by (simp add: tables_calm_refl)
next
  case (reset d)
  show ?thesis
    by (rule tables_calm_update [OF reset(6), where am = "\<lambda>_. False" and g = id])
      (use reset(7,8) in \<open>auto simp: sql_update_def replayed_row_def key_defs intro!: calm_stop\<close>)
qed

lemma compact_calm:
  assumes "compact_due_events cfg now db = Inr (k, db')"
  shows "tables_calm db db'"
proof (rule compact_due_induct [OF assms, where P = "tables_calm db"])
  show "tables_calm db (db\<lparr>metrics := ms\<rparr>)" for ms
    by (rule tables_calm_part) (simp add: delivery_part_def)
next
  fix e x b y assume x: "tables_calm db x" and y: "compact_event cfg e now x = Inr (b, y)"
  have "tables_calm x y"
    using y by (cases rule: compact_cases) (auto simp: tables_calm_def intro: calm_self same_attempt_self)
  with x show "tables_calm db y" by (rule tables_calm_trans)
qed

lemma compact_event_calm:
  assumes "compact_event cfg e now x = Inr (b, y)"
  shows "tables_calm x y"
  using assms by (cases rule: compact_cases) (auto simp: tables_calm_def intro: calm_self same_attempt_self)

lemma compaction_quiet:
  assumes "request_compaction cfg c now db = Inr (r, db') \<or> apply_compaction_command cfg oid now db = Inr (st, db')"
  shows "tables_calm db db' \<and> (tables_inv db \<longrightarrow> tables_inv db')"
  using assms
proof (rule compaction_induct [where P = "\<lambda>x. tables_calm db x \<and> (tables_inv db \<longrightarrow> tables_inv x)"])
  show "tables_calm db db \<and> (tables_inv db \<longrightarrow> tables_inv db)" by (simp add: tables_calm_refl)
next
  fix x cs assume "tables_calm db x \<and> (tables_inv db \<longrightarrow> tables_inv x)"
  then show "tables_calm db (x\<lparr>compactions := cs\<rparr>) \<and> (tables_inv db \<longrightarrow> tables_inv (x\<lparr>compactions := cs\<rparr>))"
    by (simp add: tables_calm_def)
next
  fix e x b y
  assume "tables_calm db x \<and> (tables_inv db \<longrightarrow> tables_inv x)" and "compact_event cfg e now x = Inr (b, y)"
  then show "tables_calm db y \<and> (tables_inv db \<longrightarrow> tables_inv y)"
    using tables_calm_trans [OF _ compact_event_calm] compact_event_inv by blast
qed

lemma retired_by_part:
  assumes "retired_by cfg c now db r db'"
  shows "delivery_part db' = delivery_part db"
proof -
  obtain x y db1 where w: "apply_retirement_work cfg c now (db\<lparr>retirements := x\<rparr>) = Inr (r, db1)"
      "db' = db1\<lparr>retirements := y\<rparr>"
    using assms by (auto simp: retired_by_def)
  show ?thesis using w(1) by (rule retirement_work_cases) (use w(2) in \<open>simp add: delivery_part_def\<close>)
qed

text \<open>A lifecycle command moves the delivery tables calmly and keeps their invariant.\<close>

lemma lifecycle_quiet:
  assumes "lifecycle_step cfg db db'"
  shows "delivery_part db' = delivery_part db \<or> (tables_calm db db' \<and> (tables_inv db \<longrightarrow> tables_inv db'))"
  using assms
proof (cases rule: lifecycle_step.cases)
  case (redact c now r)
  from redact have "delivery_part db' = delivery_part db"
    by (cases rule: redact_cases) (simp_all add: delivery_part_def)
  then show ?thesis ..
next
  case (retire port rc now rr)
  from retire have "delivery_part db' = delivery_part db"
    by (cases rule: retire_account_cases) (simp_all add: delivery_part_def retired_by_part [unfolded delivery_part_def])
  then show ?thesis ..
next
  case (retire_inline port rc now rr)
  from retire_inline have "delivery_part db' = delivery_part db"
    by (cases rule: retire_inline_cases) (simp_all add: retired_by_part)
  then show ?thesis ..
next
  case (apply_accepted port oid now rr)
  from apply_accepted obtain c where "retired_by cfg c now db rr db'" by (rule apply_accepted_work)
  then show ?thesis using retired_by_part by blast
next
  case (apply_durable port rc now rr)
  then show ?thesis using retired_by_part apply_durable_work_done by blast
next
  case (request_compaction cc now cr)
  then show ?thesis using compaction_quiet by blast
next
  case (apply_compaction oid now st)
  then show ?thesis using compaction_quiet by blast
qed

lemma lifecycle_calm: "lifecycle_step cfg db db' \<Longrightarrow> tables_calm db db'"
  using lifecycle_quiet tables_calm_part by blast

lemma lifecycle_inv: "lifecycle_step cfg db db' \<Longrightarrow> tables_inv db \<Longrightarrow> tables_inv db'"
  using lifecycle_quiet delivery_partD(2,3) by metis

section \<open>The invariant of the system\<close>

definition published :: "string \<Rightarrow> outbox_db \<Rightarrow> bool" where
  "published e db \<longleftrightarrow> e \<in> ev_event_id ` set (events db)"

definition sys_inv :: "outbox_system \<Rightarrow> bool" where
  "sys_inv s \<longleftrightarrow> tables_inv (sys_db s)
     \<and> (\<forall>(owner, c) \<in> set (sys_claims s). genuine c owner (sys_db s) \<and> published (cl_event_id c) (sys_db s))
     \<and> (\<forall>d \<in> set (deliveries (sys_db s)). published (dl_event_id d) (sys_db s))
     \<and> (\<forall>a \<in> set (attempts (sys_db s)). published (at_event_id a) (sys_db s))"

lemma sys_invD:
  assumes "sys_inv s"
  shows "tables_inv (sys_db s)"
    "\<And>owner c. (owner, c) \<in> set (sys_claims s) \<Longrightarrow> genuine c owner (sys_db s)"
    "\<And>owner c. (owner, c) \<in> set (sys_claims s) \<Longrightarrow> published (cl_event_id c) (sys_db s)"
    "\<And>d. d \<in> set (deliveries (sys_db s)) \<Longrightarrow> published (dl_event_id d) (sys_db s)"
    "\<And>a. a \<in> set (attempts (sys_db s)) \<Longrightarrow> published (at_event_id a) (sys_db s)"
  using assms by (auto simp: sys_inv_def)

lemma published_calm: "tables_calm db db' \<Longrightarrow> published e db' \<longleftrightarrow> published e db"
proof -
  assume "tables_calm db db'"
  then have "set (map ev_event_id (events db')) = set (map ev_event_id (events db))"
    by (simp add: tables_calm_def)
  then show ?thesis by (simp add: published_def)
qed

text \<open>A claim that agrees with its row keeps doing so while the tables move calmly.\<close>

lemma fence_matches_calm:
  assumes "calm d d'" and "fence_matches c owner d'"
  shows "fence_matches c owner d" "dl_version d' = dl_version d"
    "dl_cycle_attempt_number d' = dl_cycle_attempt_number d"
  using assms by (auto simp: calm_def fence_matches_def key_defs)

lemma genuine_calm:
  assumes gen: "genuine c owner db" and t: "tables_calm db db'"
  shows "genuine c owner db'"
  unfolding genuine_def
proof (intro conjI ballI impI)
  show "1 \<le> cl_cycle_attempt_number c" "cl_cycle_attempt_number c \<le> MAX_CYCLE_ATTEMPTS"
    using gen by (simp_all add: genuine_def)
next
  fix d' assume d': "d' \<in> set (deliveries db')"
  obtain d where d: "d \<in> set (deliveries db)" "calm d d'" using t d' by (auto simp: tables_calm_def)
  { assume "delivery_key d' = (cl_event_id c, cl_consumer_name c)"
    then have "cl_fence_token c \<le> fence_or_zero d"
      using gen d by (simp add: genuine_def calm_def)
    then show "cl_fence_token c \<le> fence_or_zero d'" using d(2) by (simp add: calm_def) }
  { assume m: "fence_matches c owner d'"
    show "dl_version d' = cl_version c" "dl_cycle_attempt_number d' = cl_cycle_attempt_number c"
      using fence_matches_calm [OF d(2) m] gen d(1) by (simp_all add: genuine_def) }
next
  fix a' assume "a' \<in> set (attempts db')"
  then obtain a where "a \<in> set (attempts db)" "same_attempt a a'" using t by (auto simp: tables_calm_def)
  then show "(at_attempt_id a' = cl_attempt_id c) = (at_lease a' = claim_lease c)"
    using gen by (simp add: genuine_def same_attempt_def)
qed

lemma sys_inv_calm:
  assumes inv: "sys_inv \<lparr>sys_db = db, sys_claims = cs\<rparr>" and t: "tables_calm db db'"
    and ti: "tables_inv db'"
    and cs': "\<And>owner c. (owner, c) \<in> set cs' \<Longrightarrow> \<exists>c0. (owner, c0) \<in> set cs
        \<and> genuine c0 owner db' = genuine c owner db' \<and> cl_event_id c0 = cl_event_id c"
  shows "sys_inv \<lparr>sys_db = db', sys_claims = cs'\<rparr>"
proof -
  have "genuine c owner db' \<and> published (cl_event_id c) db'" if m: "(owner, c) \<in> set cs'" for owner c
  proof -
    obtain c0 where c0: "(owner, c0) \<in> set cs" "genuine c0 owner db' = genuine c owner db'"
        "cl_event_id c0 = cl_event_id c"
      using cs' [OF m] by blast
    have "genuine c0 owner db'"
      using genuine_calm [OF _ t] sys_invD(2) [OF inv] c0(1) by simp
    moreover have "published (cl_event_id c0) db'"
      using sys_invD(3) [OF inv] c0(1) published_calm [OF t] by simp
    ultimately show ?thesis using c0 by simp
  qed
  moreover have "published (dl_event_id d') db'" if d': "d' \<in> set (deliveries db')" for d'
  proof -
    obtain d where "d \<in> set (deliveries db)" "calm d d'" using t d' by (auto simp: tables_calm_def)
    then show ?thesis
      using sys_invD(4) [OF inv] published_calm [OF t] by (auto simp: calm_def key_defs)
  qed
  moreover have "published (at_event_id a') db'" if a': "a' \<in> set (attempts db')" for a'
  proof -
    obtain a where "a \<in> set (attempts db)" "same_attempt a a'" using t a' by (auto simp: tables_calm_def)
    then show ?thesis
      using sys_invD(5) [OF inv] published_calm [OF t] by (auto simp: same_attempt_def at_lease_def)
  qed
  ultimately show ?thesis using ti by (auto simp: sys_inv_def)
qed

text \<open>A claim: the new claim is genuine, and the row's new token is beyond every older claim.\<close>

lemma claim_events:
  assumes "claim_row cfg owner now aid row db = Inr (Some c, db')"
  shows "events db' = events db"
  by (rule claim_row_Some(11) [OF assms])

lemma claim_rows:
  assumes inv: "tables_inv db" and row: "row \<in> set (deliveries db)" "claimable now row"
    and res: "claim_row cfg owner now aid row db = Inr (Some c, db')"
  shows "set (deliveries db') = insert (claimed_row cfg owner now row row) (set (deliveries db) - {row})"
    and "\<exists>a. attempts db' = attempts db @ [a] \<and> at_attempt_id a = aid \<and> at_lease a = claim_lease c
          \<and> aid \<notin> at_attempt_id ` set (attempts db)"
    and "claim_lease c = (dl_event_id row, dl_consumer_name row, fence_or_zero row + 1)"
proof -
  have m: "claim_matches row row"
    using claimable_idle [OF row(2)] by (auto simp: claim_matches_def)
  show "set (deliveries db') = insert (claimed_row cfg owner now row row) (set (deliveries db) - {row})"
    unfolding claim_row_Some(2) [OF res]
    by (rule set_sql_update_one [where m = "claim_matches row", OF delivery_invD(1) [OF inv] row(1) m])
      (rule claim_matches_key)
  show l: "claim_lease c = (dl_event_id row, dl_consumer_name row, fence_or_zero row + 1)"
    using claim_row_Some [OF res] by (simp add: claim_lease_def)
  show "\<exists>a. attempts db' = attempts db @ [a] \<and> at_attempt_id a = aid \<and> at_lease a = claim_lease c
      \<and> aid \<notin> at_attempt_id ` set (attempts db)"
    using claim_row_Some(3) [OF res] l by (auto simp: sql key_defs)
qed

lemma claim_new_genuine:
  assumes inv: "tables_inv db" and row: "row \<in> set (deliveries db)" "claimable now row"
    and res: "claim_row cfg o' now aid row db = Inr (Some c, db')"
  shows "genuine c owner db'"
proof -
  note rows = claim_rows [OF inv row res]
  obtain a where a: "attempts db' = attempts db @ [a]" "at_attempt_id a = aid"
      "at_lease a = claim_lease c" "aid \<notin> at_attempt_id ` set (attempts db)"
    using rows(2) by blast
  note c = claim_row_Some(4-9) [OF res]
  have bounds: "1 \<le> cycle_attempt_after row \<and> cycle_attempt_after row \<le> MAX_CYCLE_ATTEMPTS"
    by (rule cycle_attempt_after_bounds [OF delivery_invD(4) [OF inv row(1)]])
  have only: "d = claimed_row cfg o' now row row"
    if "d \<in> set (deliveries db')" "delivery_key d = (cl_event_id c, cl_consumer_name c)" for d
  proof (rule ccontr)
    assume "d \<noteq> claimed_row cfg o' now row row"
    then have "d \<in> set (deliveries db)" "d \<noteq> row" using that rows(1) by auto
    moreover have "delivery_key d = delivery_key row" using that(2) c by (simp add: key_defs)
    ultimately show False using keyed_eq [OF delivery_invD(1) [OF inv]] row(1) by blast
  qed
  have old: "at_lease b \<noteq> claim_lease c" if "b \<in> set (attempts db)" for b
  proof
    assume "at_lease b = claim_lease c"
    then have "(at_event_id b, at_consumer_name b) = delivery_key row"
        "at_fence_token b = fence_or_zero row + 1"
      using rows(3) by (auto simp: at_lease_def key_defs)
    then show False
      using delivery_invD(5) [OF inv] row(1) that by (fastforce simp: fences_bounded_def)
  qed
  show ?thesis
    unfolding genuine_def
  proof (intro conjI ballI impI)
    show "1 \<le> cl_cycle_attempt_number c" "cl_cycle_attempt_number c \<le> MAX_CYCLE_ATTEMPTS"
      using bounds c by simp_all
  next
    fix d assume d: "d \<in> set (deliveries db')"
    { assume "delivery_key d = (cl_event_id c, cl_consumer_name c)"
      then have "d = claimed_row cfg o' now row row" using only d by blast
      then show "cl_fence_token c \<le> fence_or_zero d"
        using c by (simp add: claimed_row_def fence_or_zero_def) }
    { assume "fence_matches c owner d"
      then have "d = claimed_row cfg o' now row row" using only d fence_matches_key by blast
      then show "dl_version d = cl_version c" "dl_cycle_attempt_number d = cl_cycle_attempt_number c"
        using c by (simp_all add: claimed_row_def) }
  next
    fix b assume "b \<in> set (attempts db')"
    then show "(at_attempt_id b = cl_attempt_id c) = (at_lease b = claim_lease c)"
      using a c(6) old by (metis Un_iff imageI list.set(1,2) set_append singletonD insert_iff empty_iff)
  qed
qed

lemma claim_old_genuine:
  assumes inv: "tables_inv db" and row: "row \<in> set (deliveries db)" "claimable now row"
    and res: "claim_row cfg o' now aid row db = Inr (Some c, db')"
    and gen: "genuine c0 owner db" and fresh: "aid \<noteq> cl_attempt_id c0"
  shows "genuine c0 owner db'"
proof -
  note rows = claim_rows [OF inv row res]
  obtain a where a: "attempts db' = attempts db @ [a]" "at_attempt_id a = aid"
      "at_lease a = claim_lease c"
    using rows(2) by blast
  let ?d = "claimed_row cfg o' now row row"
  have f: "fence_or_zero ?d = fence_or_zero row + 1" "dl_fence_token ?d = Some (fence_or_zero row + 1)"
    "delivery_key ?d = delivery_key row"
    by (simp_all add: claimed_row_def fence_or_zero_def key_defs)
  have below: "cl_fence_token c0 \<le> fence_or_zero row"
    if "delivery_key row = (cl_event_id c0, cl_consumer_name c0)"
    using gen row(1) that by (simp add: genuine_def)
  show ?thesis
    unfolding genuine_def
  proof (intro conjI ballI impI)
    show "1 \<le> cl_cycle_attempt_number c0" "cl_cycle_attempt_number c0 \<le> MAX_CYCLE_ATTEMPTS"
      using gen by (simp_all add: genuine_def)
  next
    fix d assume "d \<in> set (deliveries db')"
    then have d: "d = ?d \<or> d \<in> set (deliveries db)" using rows(1) by auto
    { assume "delivery_key d = (cl_event_id c0, cl_consumer_name c0)"
      then show "cl_fence_token c0 \<le> fence_or_zero d"
        using d gen below f by (auto simp: genuine_def) }
    { assume m: "fence_matches c0 owner d"
      have "d \<noteq> ?d"
      proof
        assume "d = ?d"
        then have "cl_fence_token c0 = fence_or_zero row + 1"
            "delivery_key row = (cl_event_id c0, cl_consumer_name c0)"
          using m f fence_matches_key [OF m] by (auto simp: fence_matches_def)
        then show False using below by simp
      qed
      then show "dl_version d = cl_version c0" "dl_cycle_attempt_number d = cl_cycle_attempt_number c0"
        using d gen m by (auto simp: genuine_def) }
  next
    fix b assume b: "b \<in> set (attempts db')"
    show "(at_attempt_id b = cl_attempt_id c0) = (at_lease b = claim_lease c0)"
    proof (cases "b = a")
      case True
      have "claim_lease c \<noteq> claim_lease c0"
      proof
        assume "claim_lease c = claim_lease c0"
        then have "delivery_key row = (cl_event_id c0, cl_consumer_name c0)"
            "cl_fence_token c0 = fence_or_zero row + 1"
          using rows(3) by (auto simp: claim_lease_def key_defs)
        then show False using below by simp
      qed
      then show ?thesis using True a fresh by simp
    next
      case False
      then show ?thesis using a b gen by (simp add: genuine_def)
    qed
  qed
qed

lemma sys_inv_claim:
  assumes inv: "sys_inv \<lparr>sys_db = db, sys_claims = cs\<rparr>"
    and res: "claim_one cfg skip owner now limit aid db = Inr (Some c, db')"
    and fresh: "aid \<notin> (\<lambda>oc. cl_attempt_id (snd oc)) ` set cs"
  shows "sys_inv \<lparr>sys_db = db', sys_claims = (owner, c) # cs\<rparr>"
proof -
  have ti: "tables_inv db" using sys_invD(1) [OF inv] by simp
  obtain row where row: "row \<in> set (deliveries db)" "claimable now row"
      and r: "claim_row cfg (py_strip owner) now aid row db = Inr (Some c, db')"
    using claim_one_row [OF res] by metis
  note rows = claim_rows [OF ti row r]
  have ev: "published e db' \<longleftrightarrow> published e db" for e
    by (simp add: published_def claim_events [OF r])
  have pub: "published (dl_event_id row) db" using sys_invD(4) [OF inv] row(1) by simp
  have c: "cl_event_id c = dl_event_id row" by (rule claim_row_Some(4) [OF r])
  show ?thesis
    unfolding sys_inv_def
  proof (intro conjI ballI)
    show "tables_inv (sys_db \<lparr>sys_db = db', sys_claims = (owner, c) # cs\<rparr>)"
      using claim_one_inv [OF ti res] by simp
  next
    fix p assume p: "p \<in> set (sys_claims \<lparr>sys_db = db', sys_claims = (owner, c) # cs\<rparr>)"
    have "genuine c0 w db' \<and> published (cl_event_id c0) db'" if "(w, c0) \<in> set ((owner, c) # cs)" for w c0
    proof (cases "(w, c0) \<in> set cs")
      case True
      then have "aid \<noteq> cl_attempt_id c0" using fresh by force
      then show ?thesis
        using claim_old_genuine [OF ti row r] sys_invD(2,3) [OF inv] True ev by simp
    next
      case False
      then show ?thesis using that claim_new_genuine [OF ti row r] pub c ev by simp
    qed
    then show "case p of (w, c0) \<Rightarrow>
        genuine c0 w (sys_db \<lparr>sys_db = db', sys_claims = (owner, c) # cs\<rparr>) \<and>
        published (cl_event_id c0) (sys_db \<lparr>sys_db = db', sys_claims = (owner, c) # cs\<rparr>)"
      using p by auto
  next
    fix d assume "d \<in> set (deliveries (sys_db \<lparr>sys_db = db', sys_claims = (owner, c) # cs\<rparr>))"
    then show "published (dl_event_id d) (sys_db \<lparr>sys_db = db', sys_claims = (owner, c) # cs\<rparr>)"
      using rows(1) sys_invD(4) [OF inv] pub ev by (auto simp: claimed_row_def)
  next
    fix a assume "a \<in> set (attempts (sys_db \<lparr>sys_db = db', sys_claims = (owner, c) # cs\<rparr>))"
    moreover have "at_event_id x = dl_event_id row" if "at_lease x = claim_lease c" for x
      using that rows(3) by (simp add: at_lease_def)
    ultimately show "published (at_event_id a) (sys_db \<lparr>sys_db = db', sys_claims = (owner, c) # cs\<rparr>)"
      using rows(2) sys_invD(5) [OF inv] pub ev by auto
  qed
qed

text \<open>A new event brings at most one idle row under a key no row or attempt has.\<close>

lemma publish_cases:
  assumes "publish_authorized cfg port caller now cmd db = Inr (receipt, db')"
  obtains (reused) "db' = db" "pr_reused receipt"
  | (fresh) c rows where "publish_checks cfg port caller cmd db = Inr c"
      "pr_event_id receipt = pc_event_id c" "\<not> pr_reused receipt"
      "pr_fingerprint receipt = command_fingerprint cfg c"
      "recipient_records c now db (pc_recipients c) = Inr rows"
      "insert_recipients rows (recipients db) = Some (recipients db')"
      "pc_event_id c \<notin> ev_event_id ` set (events db)"
      "command_key c \<notin> transition_key ` set (events db)"
      "events db' = events db @ [event_row_of cfg c (command_fingerprint cfg c) now]"
      "deliveries db' = deliveries db @
         (if pc_event_type c \<in> set OUTBOX_ONLY_EVENT_TYPES then [] else [first_delivery (pc_event_id c) now])"
      "attempts db' = attempts db" "delivery_key (first_delivery (pc_event_id c) now) \<notin> delivery_key ` set (deliveries db)
         \<or> pc_event_type c \<in> set OUTBOX_ONLY_EVENT_TYPES"
proof -
  obtain c where c: "publish_checks cfg port caller cmd db = Inr c"
    using assms by (auto simp: publish_authorized_def)
  let ?f = "command_fingerprint cfg c"
  show thesis
  proof (cases "reuse_existing c ?f db")
    case (Some r)
    then have "db' = db \<and> pr_reused receipt"
      using assms c by (auto simp: publish_authorized_def Let_def reuse_existing_def
          split: option.splits if_splits sum.splits)
    then show thesis using reused by blast
  next
    case None
    then have k: "command_key c \<notin> transition_key ` set (events db)"
      by (auto simp: reuse_existing_def sql split: option.splits)
    obtain rows where id: "\<forall>e \<in> set (events db). ev_event_id e \<noteq> pc_event_id c"
        and rows: "recipient_records c now db (pc_recipients c) = Inr rows"
        and ins: "publish_insert cfg c ?f rows now db = Inr (receipt, db')"
      using assms c None by (auto simp: publish_authorized_def Let_def)
    have tk: "transition_key (event_row_of cfg c ?f now) = command_key c"
      by (simp add: transition_key_def command_key_def event_row_of_def)
    have ek: "event_key (event_row_of cfg c ?f now) = pc_event_id c"
      by (simp add: event_key_def event_row_of_def)
    show thesis
      by (rule fresh [OF c _ _ _ rows])
        (use ins k id tk ek None in \<open>auto simp: publish_insert_def Let_def sql key_defs
            split: option.splits if_splits\<close>)
  qed
qed

lemma tables_inv_new_delivery:
  assumes inv: "tables_inv db" and k: "delivery_key (first_delivery e now) \<notin> delivery_key ` set (deliveries db)"
    and a: "\<forall>a \<in> set (attempts db). at_event_id a \<noteq> e"
  shows "delivery_inv (deliveries db @ [first_delivery e now]) (attempts db)"
proof -
  have ok: "delivery_ok (first_delivery e now)" "dl_status (first_delivery e now) \<noteq> Running"
    "dl_event_id (first_delivery e now) = e"
    by (simp_all add: delivery_ok_def first_delivery_def fence_or_zero_def MAX_CYCLE_ATTEMPTS_def)
  have "keyed delivery_key (deliveries db @ [first_delivery e now])"
    using delivery_invD(1) [OF inv] k by (auto simp: keyed_def)
  moreover have "fences_bounded (deliveries db @ [first_delivery e now]) (attempts db)"
    using delivery_invD(5) [OF inv] a ok(3) by (auto simp: fences_bounded_def key_defs)
  moreover have "running_have_attempt (deliveries db @ [first_delivery e now]) (attempts db)"
    using delivery_invD(6) [OF inv] ok(2) by (auto simp: running_have_attempt_def)
  moreover have "attempts_have_running (deliveries db @ [first_delivery e now]) (attempts db)"
    using delivery_invD(7) [OF inv] by (force simp: attempts_have_running_def)
  ultimately show ?thesis using inv ok(1) by (auto simp: delivery_inv_def)
qed

lemma sys_inv_publish:
  assumes inv: "sys_inv \<lparr>sys_db = db, sys_claims = cs\<rparr>"
    and res: "publish_authorized cfg port caller now cmd db = Inr (receipt, db')"
  shows "sys_inv \<lparr>sys_db = db', sys_claims = cs\<rparr>"
  using res
proof (cases rule: publish_cases)
  case reused
  then show ?thesis using inv by simp
next
  case (fresh c rows)
  let ?e = "pc_event_id c"
  have new: "\<not> published ?e db" using fresh(7) by (simp add: published_def)
  have pub: "published x db' \<longleftrightarrow> x = ?e \<or> published x db" for x
    using fresh(9) by (auto simp: published_def event_row_of_def)
  have na: "\<forall>a \<in> set (attempts db). at_event_id a \<noteq> ?e"
    using sys_invD(5) [OF inv] new by fastforce
  have ti: "tables_inv db'"
    using tables_inv_new_delivery [OF _ _ na] fresh(10,11,12) sys_invD(1) [OF inv]
    by (auto split: if_splits)
  have ds: "d \<in> set (deliveries db') \<Longrightarrow> d \<in> set (deliveries db) \<or> d = first_delivery ?e now" for d
    using fresh(10) by (auto split: if_splits)
  have ev: "d \<in> set (deliveries db') \<Longrightarrow> d \<in> set (deliveries db) \<or> dl_event_id d = ?e" for d
    using ds [of d] by (auto simp: first_delivery_def)
  have gen: "genuine c0 w db'" if "(w, c0) \<in> set cs" for w c0
  proof -
    have old: "genuine c0 w db" "cl_event_id c0 \<noteq> ?e"
      using sys_invD(2,3) [OF inv] that new by (simp, metis outbox_system.select_convs that)
    then have "\<not> fence_matches c0 w (first_delivery ?e now)"
        "delivery_key (first_delivery ?e now) \<noteq> (cl_event_id c0, cl_consumer_name c0)"
      by (auto simp: fence_matches_def first_delivery_def key_defs)
    then show ?thesis using old(1) ds fresh(11) unfolding genuine_def by metis
  qed
  show ?thesis
    unfolding sys_inv_def
    using ti gen sys_invD(3,4,5) [OF inv] pub fresh(11) ev
    by (simp, blast)
qed

lemma delivery_part_retire_due:
  "delivery_part (snd (retire_due cfg k now limit db)) = delivery_part db"
proof -
  have t: "delivery_part (snd (trim_users cfg k now limit us (n, x))) = delivery_part x" for us n x
  proof (induction us arbitrary: n x)
    case (Cons u us)
    obtain n' y where y: "retire_all cfg now (map nt_id (drop k (online_desc u now x))) (n, x) = (n', y)"
      by fastforce
    then have "delivery_part y = delivery_part x" using retire_all_delivery_part by (metis snd_conv)
    then show ?case using Cons.IH [of n' y] y by simp
  qed simp
  obtain n y where y: "retire_all cfg now (expired_ids now limit db) (0, db) = (n, y)" by fastforce
  then have "delivery_part y = delivery_part db" using retire_all_delivery_part by (metis snd_conv)
  then show ?thesis using t by (simp add: retire_due_def y)
qed

lemma inbox_steps_part:
  "mark_read u i now db = Inr (b, db') \<Longrightarrow> delivery_part db' = delivery_part db"
  "read_all u now db = Inr db' \<Longrightarrow> delivery_part db' = delivery_part db"
  "ack_event u e ty now db = Inr db' \<Longrightarrow> delivery_part db' = delivery_part db"
  by (auto simp: mark_read_def read_all_def ack_event_def write_ack_def delivery_part_def Let_def
      split: option.splits if_splits)

lemma sys_inv_part:
  assumes "sys_inv \<lparr>sys_db = db, sys_claims = cs\<rparr>" and "delivery_part db' = delivery_part db"
  shows "sys_inv \<lparr>sys_db = db', sys_claims = cs\<rparr>"
  by (rule sys_inv_calm [OF assms(1) tables_calm_part [OF assms(2)]])
    (use sys_invD(1) [OF assms(1)] delivery_partD(2,3) [OF assms(2)] in auto)

lemma sys_inv_quiet:
  assumes "sys_inv \<lparr>sys_db = db, sys_claims = cs\<rparr>" and "tables_calm db db'" and "tables_inv db'"
  shows "sys_inv \<lparr>sys_db = db', sys_claims = cs\<rparr>"
  by (rule sys_inv_calm [OF assms]) blast

theorem sys_inv_step:
  assumes inv: "sys_inv s" and step: "outbox_step cfg s t"
  shows "sys_inv t"
  using step inv
proof (cases rule: outbox_step.cases)
  case (publish port caller now cmd db receipt db' cs)
  then show ?thesis using sys_inv_publish inv by blast
next
  case (claim skip owner now limit aid db c db' cs)
  then show ?thesis using sys_inv_claim inv by blast
next
  case (run owner c cs env db out db')
  have "tables_inv db'"
    by (rule run_inv [OF _ _ run(4)]) (use sys_invD(1,2) [OF inv] run in auto)
  then show ?thesis using sys_inv_quiet [OF _ run_calm [OF run(4)]] inv run(1,2) by simp
next
  case (fail owner c cs cat code t0 now u db out db')
  have "tables_inv db'"
    by (rule fail_inv [OF _ _ fail(4)]) (use sys_invD(1,2) [OF inv] fail in auto)
  then show ?thesis using sys_inv_quiet [OF _ fail_calm [OF fail(4)]] inv fail(1,2) by simp
next
  case (renew owner c cs now db c' db')
  have "tables_inv db'" by (rule renew_inv [OF _ renew(4)]) (use sys_invD(1) [OF inv] renew in simp)
  moreover have "genuine c owner db' = genuine c' owner db'" "cl_event_id c = cl_event_id c'"
    using renew_effect(5) [OF renew(4)]
    by (simp_all add: genuine_def claim_lease_def fence_matches_def)
  ultimately show ?thesis
    unfolding renew(2) using inv renew(1,3)
    by (intro sys_inv_calm [OF _ renew_calm [OF renew(4)]]) auto
next
  case (recycle db cs now draws limit)
  have "tables_inv (snd (recycle_expired_running cfg now draws limit db))"
    by (rule recycle_inv) (use sys_invD(1) [OF inv] recycle in simp)
  then show ?thesis using sys_inv_quiet [OF _ recycle_calm] inv recycle(1,2) by simp
next
  case (replay e cn v key hash now db resp db' cs)
  have "tables_inv db'" by (rule replay_inv [OF _ replay(3)]) (use sys_invD(1) [OF inv] replay in simp)
  then show ?thesis using sys_inv_quiet [OF _ replay_calm [OF replay(3)]] inv replay(1,2) by simp
next
  case (compact now db k db' cs)
  have "tables_inv db'" by (rule compact_due_inv [OF _ compact(3)]) (use sys_invD(1) [OF inv] compact in simp)
  then show ?thesis using sys_inv_quiet [OF _ compact_calm [OF compact(3)]] inv compact(1,2) by simp
next
  case (lifecycle db db' cs)
  have "tables_inv db'" by (rule lifecycle_inv [OF lifecycle(3)]) (use sys_invD(1) [OF inv] lifecycle in simp)
  then show ?thesis using sys_inv_quiet [OF _ lifecycle_calm [OF lifecycle(3)]] inv lifecycle(1,2) by simp
next
  case (accounts db cs ds us)
  then show ?thesis using sys_inv_part inv by (auto simp: delivery_part_def)
next
  case (retention db cs max_online now limit)
  then show ?thesis using sys_inv_part [OF _ delivery_part_retire_due] inv by simp
next
  case (mark_read u i now db b db' cs)
  then show ?thesis using sys_inv_part [OF _ inbox_steps_part(1) [OF mark_read(3)]] inv by simp
next
  case (read_all u now db db' cs)
  then show ?thesis using sys_inv_part [OF _ inbox_steps_part(2) [OF read_all(3)]] inv by simp
next
  case (ack u e ty now db db' cs)
  then show ?thesis using sys_inv_part [OF _ inbox_steps_part(3) [OF ack(3)]] inv by simp
qed

section \<open>The lease contract\<close>

text \<open>
  One step of the system, seen from one delivery row: it moves calmly, or it is claimed; a
  row that was not there belongs to an event published by the step.
\<close>

definition claimed_move :: "delivery_row \<Rightarrow> delivery_row \<Rightarrow> bool" where
  "claimed_move d d' \<longleftrightarrow> delivery_key d' = delivery_key d \<and> dl_status d \<noteq> Running
     \<and> fence_or_zero d' = fence_or_zero d + 1"

lemma step_rows:
  assumes inv: "sys_inv s" and step: "outbox_step cfg s t" and d': "d' \<in> set (deliveries (sys_db t))"
  shows "(\<exists>d \<in> set (deliveries (sys_db s)). calm d d' \<or> claimed_move d d')
    \<or> \<not> published (dl_event_id d') (sys_db s)"
proof -
  have calm: "\<exists>d \<in> set (deliveries db). calm d d'" if "tables_calm db (sys_db t)" for db
    using that d' by (auto simp: tables_calm_def)
  show ?thesis
    using step
  proof (cases rule: outbox_step.cases)
    case (publish port caller now cmd db receipt db' cs)
    from publish(3) show ?thesis
    proof (cases rule: publish_cases)
      case reused
      then show ?thesis using calm publish tables_calm_refl by fastforce
    next
      case (fresh c rows)
      then have "d' \<in> set (deliveries db) \<or> dl_event_id d' = pc_event_id c"
        using d' publish(2) by (auto simp: first_delivery_def split: if_splits)
      then show ?thesis
        using calm_self fresh(7) publish(1) by (auto simp: published_def)
    qed
  next
    case (claim skip owner now limit aid db c db' cs)
    have ti: "tables_inv db" using sys_invD(1) [OF inv] claim(1) by simp
    obtain row where row: "row \<in> set (deliveries db)" "claimable now row"
        and r: "claim_row cfg (py_strip owner) now aid row db = Inr (Some c, db')"
      using claim_one_row [OF claim(3)] by metis
    have "claimed_move row (claimed_row cfg (py_strip owner) now row row)"
      using claimable_idle [OF row(2)]
      by (auto simp: claimed_move_def claimed_row_def key_defs fence_or_zero_def)
    then show ?thesis
      using claim_rows(1) [OF ti row r] d' claim(1,2) row(1) calm_self by auto
  next
    case (lifecycle db db' cs)
    then show ?thesis using calm lifecycle_calm by fastforce
  next
    case (accounts db cs ds us)
    then show ?thesis using calm tables_calm_part by (fastforce simp: delivery_part_def)
  next
    case (run owner c cs env db out db')
    then show ?thesis using calm run_calm by fastforce
  next
    case (fail owner c cs cat code t0 now u db out db')
    then show ?thesis using calm fail_calm by fastforce
  next
    case (renew owner c cs now db c' db')
    then show ?thesis using calm renew_calm by fastforce
  next
    case (recycle db cs now draws limit)
    then show ?thesis using calm recycle_calm by fastforce
  next
    case (replay e cn v key hash now db resp db' cs)
    then show ?thesis using calm replay_calm by fastforce
  next
    case (compact now db k db' cs)
    then show ?thesis using calm compact_calm by fastforce
  next
    case (retention db cs max_online now limit)
    then show ?thesis using calm tables_calm_part [OF delivery_part_retire_due] by fastforce
  next
    case (mark_read u i now db b db' cs)
    then show ?thesis using calm tables_calm_part [OF inbox_steps_part(1)] by fastforce
  next
    case (read_all u now db db' cs)
    then show ?thesis using calm tables_calm_part [OF inbox_steps_part(2)] by fastforce
  next
    case (ack u e ty now db db' cs)
    then show ?thesis using calm tables_calm_part [OF inbox_steps_part(3)] by fastforce
  qed
qed

lemma published_mono:
  assumes "set (events (sys_db s)) \<subseteq> set (events (sys_db t)) \<or> tables_calm (sys_db s) (sys_db t)"
    and "published e (sys_db s)"
  shows "published e (sys_db t)"
  using assms published_calm by (auto simp: published_def)

lemma step_published:
  assumes "outbox_step cfg s t" and "published e (sys_db s)"
  shows "published e (sys_db t)"
proof (rule published_mono [OF _ assms(2)])
  show "set (events (sys_db s)) \<subseteq> set (events (sys_db t)) \<or> tables_calm (sys_db s) (sys_db t)"
    using assms(1)
  proof (cases rule: outbox_step.cases)
    case (publish port caller now cmd db receipt db' cs)
    from publish(3) show ?thesis
      by (cases rule: publish_cases) (use publish(1,2) in auto)
  next
    case (claim skip owner now limit aid db c db' cs)
    then obtain row where "claim_row cfg (py_strip owner) now aid row db = Inr (Some c, db')"
      using claim_one_row by metis
    then show ?thesis using claim_events claim(1,2) by simp
  qed (simp_all add: run_calm fail_calm renew_calm recycle_calm replay_calm compact_calm lifecycle_calm
      tables_calm_part [OF delivery_part_retire_due] tables_calm_part [OF inbox_steps_part(1)]
      tables_calm_part [OF inbox_steps_part(2)] tables_calm_part [OF inbox_steps_part(3)])
qed

definition delivery_at :: "string \<times> string \<Rightarrow> outbox_system \<Rightarrow> delivery_row option" where
  "delivery_at k s = sql_first (\<lambda>d. delivery_key d = k) (deliveries (sys_db s))"

definition running :: "delivery_row \<Rightarrow> bool" where
  "running d = (dl_status d = Running)"

definition leasable :: "string \<times> string \<Rightarrow> outbox_system \<Rightarrow> bool" where
  "leasable k s \<longleftrightarrow> sys_inv s \<and> published (fst k) (sys_db s)"

lemma delivery_at_row:
  assumes "sys_inv s"
  shows "delivery_at k s = Some d \<longleftrightarrow> d \<in> set (deliveries (sys_db s)) \<and> delivery_key d = k"
proof
  assume "delivery_at k s = Some d"
  then show "d \<in> set (deliveries (sys_db s)) \<and> delivery_key d = k"
    unfolding delivery_at_def by (rule sql_first_Some)
next
  assume d: "d \<in> set (deliveries (sys_db s)) \<and> delivery_key d = k"
  show "delivery_at k s = Some d"
    unfolding delivery_at_def
    by (rule sql_first_keyed [OF delivery_invD(1) [OF sys_invD(1) [OF assms]]]) (use d in auto)
qed

text \<open>What a step does to the row of a published event.\<close>

lemma step_row_at:
  assumes "leasable k s" and "outbox_step cfg s t" and "delivery_at k t = Some d'"
  obtains d where "delivery_at k s = Some d" "calm d d' \<or> claimed_move d d'"
proof -
  have inv: "sys_inv s" "sys_inv t"
    using assms(1) sys_inv_step [OF _ assms(2)] by (auto simp: leasable_def)
  have d': "d' \<in> set (deliveries (sys_db t))" "delivery_key d' = k"
    using assms(3) delivery_at_row [OF inv(2)] by auto
  then have "published (dl_event_id d') (sys_db s)"
    using assms(1) by (auto simp: leasable_def key_defs)
  then obtain d where "d \<in> set (deliveries (sys_db s))" "calm d d' \<or> claimed_move d d'"
    using step_rows [OF inv(1) assms(2) d'(1)] by blast
  moreover from this(2) have "delivery_key d = k"
    using d'(2) by (auto simp: calm_def claimed_move_def)
  ultimately show ?thesis using that delivery_at_row [OF inv(1)] by blast
qed

interpretation delivery_lease: fenced_lease "outbox_step cfg" "leasable k" "delivery_at k"
  fence_or_zero running dl_lease_owner for cfg k
proof (unfold_locales, goal_cases)
  case (1 s t)
  then show ?case using sys_inv_step step_published unfolding leasable_def by blast
next
  case (2 s t r r')
  then show ?case
    by - (rule step_row_at [OF 2(1,2,4)], auto simp: calm_def claimed_move_def)
next
  case (3 s t r r')
  then show ?case
    by - (rule step_row_at [OF 3(1,2,4)], auto simp: calm_def claimed_move_def running_def)
next
  case (4 s t r r')
  then show ?case
    by - (rule step_row_at [OF 4(1,2,4)],
      auto simp: calm_def claimed_move_def running_def fence_or_zero_def)
next
  case (5 s t)
  show ?case
  proof (cases "delivery_at k t")
    case (Some r')
    then obtain r where "delivery_at k s = Some r" by (rule step_row_at [OF 5(1,2)])
    then show ?thesis using 5(3) by simp
  qed
qed

end
