(* ===== verification/Lease_Properties.thy ===== *)
theory Lease_Properties
  imports Outbox_System Outbox_Examples
begin

text \<open>
  What the dispatcher promises about leases, over every interleaving of the outbox's
  transactions: the invariant of all reachable states, fencing of stale runners, at most one
  settlement per lease token, and the claim race.
\<close>

section \<open>Reachable states\<close>

definition empty_db :: outbox_db where
  "empty_db = \<lparr>events = [], recipients = [], deliveries = [], attempts = [], notifications = [],
     inboxes = [], suppressions = [], acks = [], receipts = [], replay_idem = [],
     retirement_tombstones = [], doc_tombstones = [], redactions = [],
     retirements = [], compactions = [], users = [], documents = [], metrics = [],
     audits = []\<rparr>"

definition initial_system :: outbox_system where
  "initial_system = \<lparr>sys_db = empty_db, sys_claims = []\<rparr>"

lemma initial_inv: "sys_inv initial_system"
  by (simp add: sys_inv_def initial_system_def empty_db_def delivery_inv_def inv_defs)

lemma reachable_inv: "(outbox_step cfg)\<^sup>*\<^sup>* s t \<Longrightarrow> sys_inv s \<Longrightarrow> sys_inv t"
  by (induction rule: rtranclp_induct) (auto intro: sys_inv_step)

text \<open>A reachable outbox with one published event, and then one claim.\<close>

definition ex_user_db :: outbox_db where
  "ex_user_db = empty_db\<lparr>users := [\<lparr>us_id = ''u'', us_role = ''user'', us_lifecycle_status = ''active''\<rparr>],
     documents := []\<rparr>"

definition ex_command :: publish_command where
  "ex_command = \<lparr>pc_event_id = ''e'', pc_event_type = ''ingestion_completed'', pc_schema_version = 1,
     pc_aggregate_type = ''ingestion_job'', pc_aggregate_id = ''j'', pc_transition_version = 1,
     pc_occurred_at = 0,
     pc_payload = [(''job_id'', PStr ''j''), (''document_id'', PStr ''d''),
       (''document_version_id'', PStr ''v''), (''publication_id'', PStr ''p'')],
     pc_recipients = [\<lparr>rs_recipient_user_id = ''u'', rs_recipient_kind = ''identity'',
       rs_required_role = None, rs_selection_reason = ''ingestion_job_creator''\<rparr>],
     pc_trace_id = None\<rparr>"

definition ex_published_db :: outbox_db where
  "ex_published_db = ex_user_db\<lparr>
     events := [event_row_of ex_cfg ex_command (command_fingerprint ex_cfg ex_command) 0],
     recipients := [\<lparr>rc_event_id = ''e'', rc_user_id = ''u'', rc_kind = ''identity'',
       rc_required_role = None, rc_selection_reason = ''ingestion_job_creator'',
       rc_role_snapshot = ''user'', rc_lifecycle_snapshot = ''active'', rc_selected_at = 0\<rparr>],
     deliveries := [first_delivery ''e'' 0]\<rparr>"

lemma ex_publish:
  "publish_authorized ex_cfg None ''ingestion'' 0 ex_command ex_user_db =
     Inr (\<lparr>pr_event_id = ''e'', pr_fingerprint = command_fingerprint ex_cfg ex_command,
            pr_reused = False\<rparr>, ex_published_db)"
  by code_simp

definition ex_lease :: delivery_claim where
  "ex_lease = ex_claim\<lparr>cl_replay_generation := 1,
     cl_payload := Some (pc_payload ex_command), cl_document_version_id := Some ''v''\<rparr>"

definition ex_leased_row :: delivery_row where
  "ex_leased_row = (first_delivery ''e'' 0)\<lparr>dl_status := Running, dl_version := 2,
     dl_attempt_number := 1, dl_cycle_attempt_number := 1, dl_next_attempt_at := None,
     dl_lease_owner := Some ''w'', dl_lease_expires_at := Some 60000000, dl_fence_token := Some 1\<rparr>"

definition ex_leased_db :: outbox_db where
  "ex_leased_db = ex_published_db\<lparr>deliveries := [ex_leased_row],
     attempts := [ex_attempt\<lparr>at_replay_generation := 1\<rparr>]\<rparr>"

lemmas ex_leased_defs = ex_leased_db_def ex_leased_row_def ex_published_db_def ex_user_db_def
  empty_db_def ex_lease_def ex_claim_def ex_attempt_def first_delivery_def

lemma ex_lease_claimed:
  "claim_one ex_cfg {} ''w'' 0 1 ''a'' ex_published_db = Inr (Some ex_lease, ex_leased_db)"
  by code_simp

definition ex_published_sys :: outbox_system where
  "ex_published_sys = \<lparr>sys_db = ex_published_db, sys_claims = []\<rparr>"

definition ex_leased_sys :: outbox_system where
  "ex_leased_sys = \<lparr>sys_db = ex_leased_db, sys_claims = [(''w'', ex_lease)]\<rparr>"

lemma ex_reach_published: "(outbox_step ex_cfg)\<^sup>*\<^sup>* initial_system ex_published_sys"
proof -
  have "outbox_step ex_cfg initial_system \<lparr>sys_db = ex_user_db, sys_claims = []\<rparr>"
    unfolding initial_system_def ex_user_db_def by (rule outbox_step.accounts)
  moreover have "outbox_step ex_cfg \<lparr>sys_db = ex_user_db, sys_claims = []\<rparr> ex_published_sys"
    unfolding ex_published_sys_def by (rule outbox_step.publish [OF ex_publish])
  ultimately show ?thesis by (meson converse_rtranclp_into_rtranclp rtranclp.rtrancl_refl)
qed

lemma ex_step_claim: "outbox_step ex_cfg ex_published_sys ex_leased_sys"
  unfolding ex_published_sys_def ex_leased_sys_def
  by (rule outbox_step.claim [OF ex_lease_claimed]) simp

lemma ex_reach_leased: "(outbox_step ex_cfg)\<^sup>*\<^sup>* initial_system ex_leased_sys"
  using ex_reach_published ex_step_claim by (rule rtranclp.rtrancl_into_rtrancl)

text \<open>C3: in every state the outbox can reach, delivery keys and attempt ids are unique, no
  cycle has more than eight attempts, a lease is held exactly by the running rows, every
  running row has exactly one running attempt under its token, and every outstanding claim
  agrees with the row it fences.\<close>

theorem reachable_outbox_invariant:
  assumes "(outbox_step cfg)\<^sup>*\<^sup>* initial_system s"
  shows "sys_inv s"
  using reachable_inv [OF assms initial_inv] .

theorem reachable_outbox_invariant_witness: "sys_inv ex_leased_sys \<and> sys_claims ex_leased_sys \<noteq> []"
  using reachable_outbox_invariant [OF ex_reach_leased] by (simp add: ex_leased_sys_def)

section \<open>Stale runners\<close>

definition claim_key :: "delivery_claim \<Rightarrow> string \<times> string" where
  "claim_key c = (cl_event_id c, cl_consumer_name c)"

text \<open>The row is running under the claim's token.\<close>

definition holds_lease :: "delivery_claim \<Rightarrow> outbox_system \<Rightarrow> bool" where
  "holds_lease c s \<longleftrightarrow> (\<exists>d \<in> set (deliveries (sys_db s)).
     delivery_key d = claim_key c \<and> dl_status d = Running \<and> fence_or_zero d = cl_fence_token c)"

lemma holds_lease_iff:
  assumes "sys_inv s"
  shows "holds_lease c s \<longleftrightarrow> delivery_lease.leased_under (claim_key c) (cl_fence_token c) s"
  by (auto simp: holds_lease_def delivery_lease.leased_under_def delivery_at_row [OF assms] running_def)

lemma fence_holds:
  assumes "d \<in> set (deliveries (sys_db s))" and "fence_matches c owner d"
  shows "holds_lease c s"
  using assms by (auto simp: holds_lease_def fence_matches_def claim_key_def key_defs fence_or_zero_def)

lemma run_without_lease:
  assumes "\<not> holds_lease c s"
  shows "run_consumer_and_finalize cfg c owner env (sys_db s) = Inl FenceViolation"
    and "renew_lease cfg c owner now (sys_db s) = (None, sys_db s)"
    and "cat \<in> {''retryable'', ''permanent'', ''lease_expired''} \<Longrightarrow>
       fail_and_schedule cfg c owner cat code t0 now u (sys_db s) = Inl FenceViolation"
proof -
  have none: "\<not> fence_matches c owner d" if "d \<in> set (deliveries (sys_db s))" for d
    using fence_holds [OF that] assms by blast
  then have af: "\<not> assert_fence c owner t (sys_db s)" for t by (auto simp: assert_fence_def)
  show "run_consumer_and_finalize cfg c owner env (sys_db s) = Inl FenceViolation"
    using af by (simp add: run_consumer_and_finalize_def fail_and_schedule_def finalize_tx_def Let_def)
  have "sql_count (live_fence_matches c owner now) (deliveries (sys_db s)) = 0"
    using none by (auto simp: sql_count_zero live_fence_matches_def)
  then show "renew_lease cfg c owner now (sys_db s) = (None, sys_db s)"
    by (simp add: renew_lease_def Let_def)
  show "cat \<in> {''retryable'', ''permanent'', ''lease_expired''} \<Longrightarrow>
       fail_and_schedule cfg c owner cat code t0 now u (sys_db s) = Inl FenceViolation"
    using af by (auto simp: fail_and_schedule_def)
qed

text \<open>A claim that has lost its lease never regains it.\<close>

lemma lost_forever:
  assumes inv: "sys_inv s" and claim: "(owner, c) \<in> set (sys_claims s)" and lost: "\<not> holds_lease c s"
    and steps: "(outbox_step cfg)\<^sup>*\<^sup>* s t"
  shows "\<not> holds_lease c t"
proof -
  have le: "leasable (claim_key c) s"
    using inv sys_invD(3) [OF inv claim] by (simp add: leasable_def claim_key_def)
  have tinv: "sys_inv t" using reachable_inv [OF steps inv] .
  show ?thesis
  proof (cases "delivery_at (claim_key c) s")
    case None
    then have "delivery_at (claim_key c) t = None"
      by (rule delivery_lease.gone_steps [OF steps le])
    then show ?thesis
      by (simp add: holds_lease_iff [OF tinv] delivery_lease.leased_under_def)
  next
    case (Some d)
    then have "d \<in> set (deliveries (sys_db s))" "delivery_key d = (cl_event_id c, cl_consumer_name c)"
      using delivery_at_row [OF inv] by (auto simp: claim_key_def)
    then have "cl_fence_token c \<le> fence_or_zero d"
      using sys_invD(2) [OF inv claim] by (simp add: genuine_def)
    then show ?thesis
      using delivery_lease.spent_forever [OF steps le Some] lost
      by (simp add: holds_lease_iff [OF tinv] holds_lease_iff [OF inv])
  qed
qed

text \<open>C1: a runner whose lease is gone (recycled, settled, or compacted away) is rejected for
  ever: whatever happens in between, and whichever owner name and clock it presents, running,
  failing or renewing its claim raises \<open>FenceViolation\<close> (renewal returns nothing) and leaves
  the database as it is.\<close>

theorem stale_runner_rejected:
  assumes "(outbox_step cfg)\<^sup>*\<^sup>* initial_system s" and "(holder, c) \<in> set (sys_claims s)"
    and "\<not> holds_lease c s" and "(outbox_step cfg)\<^sup>*\<^sup>* s t"
    and "cat \<in> {''retryable'', ''permanent'', ''lease_expired''}"
  shows "run_consumer_and_finalize cfg c owner env (sys_db t) = Inl FenceViolation
     \<and> fail_and_schedule cfg c owner cat code t0 now u (sys_db t) = Inl FenceViolation
     \<and> renew_lease cfg c owner now (sys_db t) = (None, sys_db t)"
  using run_without_lease [OF lost_forever [OF reachable_inv [OF assms(1) initial_inv] assms(2-4)]]
    assms(5) by blast

text \<open>The example: the lease expires, is recycled, and the delivery is claimed again.\<close>

definition ex_recycled_sys :: outbox_system where
  "ex_recycled_sys = \<lparr>sys_db = ex_leased_db\<lparr>
       deliveries := [ex_leased_row\<lparr>dl_status := Retry_wait, dl_error_category := Some ''lease_expired'',
         dl_error_code := Some ''lease_expired'', dl_next_attempt_at := Some 75000000,
         dl_lease_owner := None, dl_lease_expires_at := None\<rparr>],
       attempts := [ex_attempt\<lparr>at_replay_generation := 1, at_status := A_expired,
         at_ended_at := Some 70000000, at_error_category := Some ''lease_expired'',
         at_error_code := Some ''lease_expired''\<rparr>]\<rparr>,
     sys_claims = [(''w'', ex_lease)]\<rparr>"

lemma ex_recycled:
  "recycle_expired_running ex_cfg 70000000 (\<lambda>_. 0) 10 ex_leased_db = (1, sys_db ex_recycled_sys)"
  by code_simp

lemma ex_step_recycle: "outbox_step ex_cfg ex_leased_sys ex_recycled_sys"
  using outbox_step.recycle [of ex_cfg ex_leased_db "[(''w'', ex_lease)]" 70000000 "\<lambda>_. 0" 10]
  by (simp add: ex_recycled ex_leased_sys_def) (simp add: ex_recycled_sys_def)

lemma ex_reach_recycled: "(outbox_step ex_cfg)\<^sup>*\<^sup>* initial_system ex_recycled_sys"
  using ex_reach_leased ex_step_recycle by (rule rtranclp.rtrancl_into_rtrancl)

lemma ex_recycled_lost: "\<not> holds_lease ex_lease ex_recycled_sys"
  by (simp add: holds_lease_def ex_recycled_sys_def)

definition ex_reclaim :: "delivery_claim \<times> outbox_db" where
  "ex_reclaim =
     (ex_lease\<lparr>cl_version := 3, cl_attempt_number := 2, cl_cycle_attempt_number := 2,
        cl_fence_token := 2, cl_lease_expires_at := 140000000, cl_started_at := 80000000,
        cl_attempt_id := ''b''\<rparr>,
      (sys_db ex_recycled_sys)\<lparr>
        deliveries := [ex_leased_row\<lparr>dl_version := 3, dl_attempt_number := 2,
          dl_cycle_attempt_number := 2, dl_lease_owner := Some ''w2'',
          dl_lease_expires_at := Some 140000000, dl_fence_token := Some 2\<rparr>],
        attempts := attempts (sys_db ex_recycled_sys) @
          [ex_attempt\<lparr>at_attempt_id := ''b'', at_replay_generation := 1, at_attempt_number := 2,
             at_cycle_attempt_number := 2, at_fence_token := 2, at_started_at := 80000000\<rparr>]\<rparr>)"

definition ex_reclaimed_sys :: outbox_system where
  "ex_reclaimed_sys = \<lparr>sys_db = snd ex_reclaim,
     sys_claims = [(''w2'', fst ex_reclaim), (''w'', ex_lease)]\<rparr>"

lemma ex_reclaimed:
  "claim_one ex_cfg {} ''w2'' 80000000 1 ''b'' (sys_db ex_recycled_sys) =
     Inr (Some (fst ex_reclaim), snd ex_reclaim)"
  by code_simp

lemma ex_step_reclaim: "outbox_step ex_cfg ex_recycled_sys ex_reclaimed_sys"
proof -
  have eq: "ex_recycled_sys = \<lparr>sys_db = sys_db ex_recycled_sys, sys_claims = [(''w'', ex_lease)]\<rparr>"
    by (simp add: ex_recycled_sys_def)
  have "''b'' \<notin> (\<lambda>oc. cl_attempt_id (snd oc)) ` set [(''w'', ex_lease)]"
    by (simp add: ex_lease_def ex_claim_def)
  from outbox_step.claim [OF ex_reclaimed this] show ?thesis
    unfolding ex_reclaimed_sys_def by (subst eq)
qed

theorem stale_runner_rejected_witness:
  "holds_lease (fst ex_reclaim) ex_reclaimed_sys
   \<and> run_consumer_and_finalize ex_cfg ex_lease ''w''
       \<lparr>re_fence_now = 1, re_now = 1, re_ids = (\<lambda>_. ''n''), re_fault = None, re_fail_fence_now = 1,
        re_fail_now = 1, re_jitter = 0\<rparr> (sys_db ex_reclaimed_sys) = Inl FenceViolation"
proof -
  have "(''w'', ex_lease) \<in> set (sys_claims ex_recycled_sys)" by (simp add: ex_recycled_sys_def)
  moreover have "holds_lease (fst ex_reclaim) ex_reclaimed_sys"
    by (simp add: holds_lease_def ex_reclaim_def ex_reclaimed_sys_def ex_leased_defs claim_key_def
        key_defs fence_or_zero_def)
  ultimately show ?thesis
    using stale_runner_rejected [OF ex_reach_recycled _ ex_recycled_lost
        r_into_rtranclp [of "outbox_step ex_cfg", OF ex_step_reclaim], where holder = "''w''" and cat = "''retryable''"]
    by simp
qed

section \<open>At most one settlement per token\<close>

text \<open>A successful run or failure takes the row out of the running state.\<close>

lemma stopped_not_held:
  assumes kd: "keyed delivery_key (deliveries db)"
    and cnt: "sql_count (live_fence_matches c owner now) (deliveries db) = 1"
    and ds: "deliveries (sys_db t) = sql_update (live_fence_matches c owner now) f (deliveries db)"
    and f: "\<And>d. dl_status (f d) \<noteq> Running"
    and same: "claim_key c' = claim_key c"
  shows "\<not> holds_lease c' t"
proof -
  obtain d where d: "d \<in> set (deliveries db)" "live_fence_matches c owner now d"
      and set': "set (deliveries (sys_db t)) = insert (f d) (set (deliveries db) - {d})"
    unfolding ds by (rule one_row [OF kd cnt live_fence_key])
  have "dl_status e \<noteq> Running" if "e \<in> set (deliveries (sys_db t))" "delivery_key e = claim_key c'" for e
  proof (cases "e = f d")
    case True
    then show ?thesis using f by simp
  next
    case False
    then have e: "e \<in> set (deliveries db)" "e \<noteq> d" using that set' by auto
    moreover have "delivery_key e = delivery_key d"
      using that(2) same live_fence_key [OF d(2)] by (simp add: claim_key_def)
    ultimately show ?thesis using keyed_eq [OF kd _ d(1)] by blast
  qed
  then show ?thesis by (auto simp: holds_lease_def)
qed

lemma run_settles:
  assumes "tables_inv (sys_db s)" and "run_consumer_and_finalize cfg c owner env (sys_db s) = Inr (out, sys_db t)"
    and "claim_key c' = claim_key c"
  shows "\<not> holds_lease c' t"
  using assms(2)
proof (cases rule: run_cases)
  case delivered
  show ?thesis
    by (rule stopped_not_held [OF delivery_invD(1) [OF assms(1)] finalize_effect(1,5) [OF delivered(1)] _ assms(3)])
      (simp add: delivered_row_def)
next
  case (failed cat code)
  obtain st nx cat' where p: "failure_plan c cat (re_fail_now env) (re_jitter env) = (st, nx, cat')"
    by (metis prod_cases3)
  show ?thesis
    by (rule stopped_not_held [OF delivery_invD(1) [OF assms(1)] fail_effect(1,4) [OF failed] _ assms(3)])
      (use failure_plan_cases [OF p] in \<open>auto simp: p\<close>)
qed

text \<open>C2: a lease token settles at most once. After a run of a claim has been recorded, as
  delivered or as failed, every later run under the same token, by any runner holding the
  claim or a renewal of it, raises \<open>FenceViolation\<close>: no event is delivered twice under one
  claim.\<close>

theorem settled_at_most_once:
  assumes "(outbox_step cfg)\<^sup>*\<^sup>* initial_system s" and "(owner, c) \<in> set (sys_claims s)"
    and "run_consumer_and_finalize cfg c owner env (sys_db s) = Inr (out, db')"
    and "(outbox_step cfg)\<^sup>*\<^sup>* (s\<lparr>sys_db := db'\<rparr>) t"
    and "(owner', c') \<in> set (sys_claims s)" and "claim_lease c' = claim_lease c"
  shows "run_consumer_and_finalize cfg c' owner'' env' (sys_db t) = Inl FenceViolation"
proof -
  have inv: "sys_inv s" using reachable_inv [OF assms(1) initial_inv] .
  have step: "outbox_step cfg s (s\<lparr>sys_db := db'\<rparr>)"
    using outbox_step.run [OF assms(2,3)] by (cases s) simp
  have "claim_key c' = claim_key c" using assms(6) by (simp add: claim_lease_def claim_key_def)
  then have "\<not> holds_lease c' (s\<lparr>sys_db := db'\<rparr>)"
    using run_settles [OF sys_invD(1) [OF inv], of cfg c owner env out "s\<lparr>sys_db := db'\<rparr>"] assms(3)
    by simp
  then have "\<not> holds_lease c' t"
    using lost_forever [OF sys_inv_step [OF inv step] _ _ assms(4), where owner = owner'] assms(5) by simp
  then show ?thesis by (rule run_without_lease(1))
qed

definition ex_env :: run_env where
  "ex_env = \<lparr>re_fence_now = 1, re_now = 2, re_ids = (\<lambda>_. ''n''), re_fault = None,
     re_fail_fence_now = 3, re_fail_now = 4, re_jitter = 0\<rparr>"

definition ex_delivered_db :: outbox_db where
  "ex_delivered_db = ex_leased_db\<lparr>
     events := [(event_row_of ex_cfg ex_command (command_fingerprint ex_cfg ex_command) 0)
       \<lparr>ev_compact_after_at := Some (2 + days 30)\<rparr>],
     deliveries := [ex_leased_row\<lparr>dl_status := Delivered, dl_lease_owner := None,
       dl_lease_expires_at := None, dl_delivered_at := Some 2\<rparr>],
     attempts := [ex_attempt\<lparr>at_replay_generation := 1, at_status := A_delivered, at_ended_at := Some 2\<rparr>],
     notifications := [\<lparr>nt_id = ''n'', nt_event_id = ''e'', nt_user_id = ''u'',
       nt_type = ''ingestion_completed'', nt_title = ''Document ingestion completed'',
       nt_payload = pc_payload ex_command, nt_document_id = Some ''d'',
       nt_document_version_id = Some ''v'', nt_event_occurred_at = 0, nt_materialized_at = 2,
       nt_seq = 1, nt_read_at = None, nt_retire_after_at = 2 + days 90, nt_redacted = False\<rparr>],
     inboxes := [\<lparr>ib_user_id = ''u'', ib_next_seq = 2, ib_read_through_seq = 0,
       ib_read_all_at = None, ib_version = 1, ib_retired = False\<rparr>]\<rparr>"

lemma ex_delivered:
  "run_consumer_and_finalize ex_cfg ex_lease ''w'' ex_env ex_leased_db =
     Inr (\<lparr>oc_status = O_delivered, oc_error_category = None, oc_error_code = None,
           oc_retry_after_seconds = None\<rparr>, ex_delivered_db)"
  by code_simp

theorem settled_at_most_once_witness:
  "run_consumer_and_finalize ex_cfg ex_lease ''w'' ex_env ex_delivered_db = Inl FenceViolation"
proof -
  have m: "(''w'', ex_lease) \<in> set (sys_claims ex_leased_sys)" by (simp add: ex_leased_sys_def)
  have d: "sys_db ex_leased_sys = ex_leased_db" by (simp add: ex_leased_sys_def)
  have "run_consumer_and_finalize ex_cfg ex_lease ''w'' ex_env
      (sys_db (ex_leased_sys\<lparr>sys_db := ex_delivered_db\<rparr>)) = Inl FenceViolation"
    by (rule settled_at_most_once [OF ex_reach_leased m _ rtranclp.rtrancl_refl m refl])
      (unfold d, rule ex_delivered)
  then show ?thesis by simp
qed

section \<open>The claim race\<close>

text \<open>The claim is a compare-and-set on the row read. When two dispatchers have read the
  same row and one of them commits its claim, the other's write changes nothing and hands out
  no claim, and the row stays leased to the first.\<close>

theorem claim_race:
  assumes "tables_inv db" and "row \<in> set (deliveries db)" and "claimable now row"
    and "claim_row cfg owner now aid row db = Inr (Some c, db1)"
  shows "claim_row cfg owner' now' aid' row db1 = Inr (None, db1)
     \<and> (\<exists>d \<in> set (deliveries db1). fence_matches c owner d)"
proof -
  note rows = claim_rows(1) [OF assms]
  have "\<not> claim_matches row d" if "d \<in> set (deliveries db1)" for d
  proof (cases "d = claimed_row cfg owner now row row")
    case True
    then show ?thesis by (simp add: claim_matches_def claimed_row_def)
  next
    case False
    then have "d \<in> set (deliveries db)" "d \<noteq> row" using that rows by auto
    then show ?thesis
      using keyed_eq [OF delivery_invD(1) [OF assms(1)] _ assms(2)] by (auto simp: claim_matches_def)
  qed
  then have "sql_count (claim_matches row) (deliveries db1) = 0" by (simp add: sql_count_zero)
  moreover have "fence_matches c owner (claimed_row cfg owner now row row)"
    using claim_row_Some(4,5,7) [OF assms(4)] by (simp add: fence_matches_def claimed_row_def)
  ultimately show ?thesis using rows by (auto simp: claim_row_def)
qed

theorem claim_race_witness:
  "\<exists>c db1. claim_row ex_cfg ''w'' 0 ''a'' ex_delivery ex_db = Inr (Some c, db1)
     \<and> claim_row ex_cfg ''w2'' 0 ''b'' ex_delivery db1 = Inr (None, db1)"
proof -
  have r: "claim_row ex_cfg ''w'' 0 ''a'' ex_delivery ex_db = Inr (Some ex_claim, ex_running_db)"
    by code_simp
  have i: "tables_inv ex_db"
    by (simp add: ex_defs delivery_inv_def inv_defs delivery_ok_def fence_or_zero_def MAX_CYCLE_ATTEMPTS_def keyed_def)
  have "claim_row ex_cfg ''w2'' 0 ''b'' ex_delivery ex_running_db = Inr (None, ex_running_db)"
    using claim_race [OF i _ _ r, where owner' = "''w2''" and now' = 0 and aid' = "''b''"]
    by (simp add: ex_defs claimable_def)
  then show ?thesis using r by blast
qed

end
