(* ===== verification/Dispatcher_Properties.thy ===== *)
theory Dispatcher_Properties
  imports Lease_Properties
begin

text \<open>
  The functional behaviour of single dispatcher operations: retry and dead-lettering,
  recycling of expired leases, replay by an operator, and compaction.
\<close>

section \<open>Retries\<close>

lemma trunc_bounds: "0 \<le> x \<Longrightarrow> x - 1 < of_int (trunc x) \<and> of_int (trunc x) \<le> x"
  by (simp add: trunc_def) linarith

lemma jitter_bounds:
  assumes "0 \<le> s" and "- 1 / 5 \<le> u" and "u \<le> 1 / 5"
  shows "seconds 1 \<le> jittered_delay s u \<and> 5 * jittered_delay s u \<le> seconds (max 5 (6 * s))
     \<and> seconds (4 * s - 5) \<le> 5 * jittered_delay s u"
proof -
  let ?x = "of_int s * (1 + u) :: rat"
  have nn: "0 \<le> (of_int s :: rat)" using assms(1) by simp
  have lo: "of_int s * (4 / 5) \<le> ?x" by (rule mult_left_mono [OF _ nn]) (use assms in simp)
  have hi: "?x \<le> of_int s * (6 / 5)" by (rule mult_left_mono [OF _ nn]) (use assms in simp)
  have "0 \<le> ?x" using nn assms by simp
  note t = trunc_bounds [OF this]
  have "of_int (5 * trunc ?x) \<le> (of_int (6 * s) :: rat)" using t hi by simp
  then have a: "5 * trunc ?x \<le> 6 * s" by linarith
  have "(of_int (4 * s - 5) :: rat) < of_int (5 * trunc ?x)" using t lo by simp
  then have b: "4 * s - 5 < 5 * trunc ?x" by linarith
  show ?thesis using a b by (auto simp: jittered_delay_def seconds_def max_def)
qed

lemma delays_positive:
  assumes "1 \<le> n" and "delay_for_cycle_attempt n = Some s"
  shows "5 \<le> s \<and> s \<le> 21600"
proof -
  have "n < 8" using assms(2) by (simp add: delay_for_cycle_attempt_def MAX_CYCLE_ATTEMPTS_def split: if_splits)
  then have "n = 1 \<or> n = 2 \<or> n = 3 \<or> n = 4 \<or> n = 5 \<or> n = 6 \<or> n = 7" using assms(1) by linarith
  then show ?thesis
    using assms(2) by (elim disjE) (auto simp: delay_for_cycle_attempt_def MAX_CYCLE_ATTEMPTS_def
        RETRY_DELAYS_SECONDS_def Let_def)
qed

text \<open>The row of a claim after a recorded failure.\<close>

lemma failed_row_at:
  assumes inv: "sys_inv s" and claim: "(holder, c) \<in> set (sys_claims s)"
    and res: "fail_and_schedule cfg c owner cat code t0 now u (sys_db s) = Inr (out, db')"
  obtains d where "d \<in> set (deliveries (sys_db s))" "delivery_key d = claim_key c"
    "failed_row c code (failure_plan c cat now u) d \<in> set (deliveries db')"
proof -
  note eff = fail_effect [OF res]
  obtain d where d: "d \<in> set (deliveries (sys_db s))" "live_fence_matches c owner now d"
      "set (deliveries db') =
         insert (failed_row c code (failure_plan c cat now u) d) (set (deliveries (sys_db s)) - {d})"
    unfolding eff(4) by (rule one_row [OF delivery_invD(1) [OF sys_invD(1) [OF inv]] eff(1) live_fence_key])
  show ?thesis
    by (rule that [OF d(1)]) (use d live_fence_key [OF d(2)] in \<open>auto simp: claim_key_def\<close>)
qed

text \<open>A recorded retryable failure of the first seven attempts of a cycle puts the
  delivery into retry_wait with the lease cleared; its next attempt is at least one second
  away and within twenty percent of the delay of that attempt (5 s up to 6 h). The eighth
  failure, and every permanent one, dead-letters it with no next attempt and an audit
  record.\<close>

theorem retry_schedule:
  assumes "(outbox_step cfg)\<^sup>*\<^sup>* initial_system s" and "(holder, c) \<in> set (sys_claims s)"
    and "fail_and_schedule cfg c owner cat code t0 now u (sys_db s) = Inr (out, db')"
    and "- 1 / 5 \<le> u" and "u \<le> 1 / 5"
  shows "\<exists>d \<in> set (deliveries db'). delivery_key d = claim_key c
     \<and> dl_lease_owner d = None \<and> dl_lease_expires_at d = None
     \<and> dl_cycle_attempt_number d = cl_cycle_attempt_number c
     \<and> (if cat = ''permanent'' \<or> cl_cycle_attempt_number c = 8
        then dl_status d = Dead_letter \<and> dl_next_attempt_at d = None \<and> oc_status out = O_dead_letter
          \<and> length (audits db') = length (audits (sys_db s)) + 1
        else dl_status d = Retry_wait \<and> oc_status out = O_failed
          \<and> (\<exists>delay due. delay_for_cycle_attempt (cl_cycle_attempt_number c) = Some delay
               \<and> dl_next_attempt_at d = Some due \<and> now + seconds 1 \<le> due
               \<and> seconds (4 * delay - 5) \<le> 5 * (due - now) \<and> 5 * (due - now) \<le> seconds (6 * delay)))"
proof -
  have inv: "sys_inv s" using reachable_inv [OF assms(1) initial_inv] .
  have n: "1 \<le> cl_cycle_attempt_number c" "cl_cycle_attempt_number c \<le> 8"
    using sys_invD(2) [OF inv assms(2)] by (simp_all add: genuine_def MAX_CYCLE_ATTEMPTS_def)
  obtain d where d: "delivery_key d = claim_key c"
      "failed_row c code (failure_plan c cat now u) d \<in> set (deliveries db')"
    by (rule failed_row_at [OF inv assms(2,3)])
  obtain st nx cat' where p: "failure_plan c cat now u = (st, nx, cat')" by (metis prod_cases3)
  note cases = failure_plan_cases [OF p, unfolded MAX_CYCLE_ATTEMPTS_def]
  have audit: "length (audits db') = length (audits (sys_db s)) + 1" if "st = Dead_letter"
    using assms(3) that p
    by (auto simp: fail_and_schedule_def alert_dead_letter_def Let_def split: if_splits)
  show ?thesis
  proof (intro bexI [OF _ d(2)])
    show "delivery_key (failed_row c code (failure_plan c cat now u) d) = claim_key c \<and>
      dl_lease_owner (failed_row c code (failure_plan c cat now u) d) = None \<and>
      dl_lease_expires_at (failed_row c code (failure_plan c cat now u) d) = None \<and>
      dl_cycle_attempt_number (failed_row c code (failure_plan c cat now u) d) = cl_cycle_attempt_number c \<and>
      (if cat = ''permanent'' \<or> cl_cycle_attempt_number c = 8
       then dl_status (failed_row c code (failure_plan c cat now u) d) = Dead_letter \<and>
         dl_next_attempt_at (failed_row c code (failure_plan c cat now u) d) = None \<and>
         oc_status out = O_dead_letter \<and> length (audits db') = length (audits (sys_db s)) + 1
       else dl_status (failed_row c code (failure_plan c cat now u) d) = Retry_wait \<and>
         oc_status out = O_failed \<and>
         (\<exists>delay due. delay_for_cycle_attempt (cl_cycle_attempt_number c) = Some delay
               \<and> dl_next_attempt_at (failed_row c code (failure_plan c cat now u) d) = Some due
               \<and> now + seconds 1 \<le> due
               \<and> seconds (4 * delay - 5) \<le> 5 * (due - now) \<and> 5 * (due - now) \<le> seconds (6 * delay)))"
    proof (cases "st = Dead_letter")
      case True
      then have "cat = ''permanent'' \<or> cl_cycle_attempt_number c = 8" using cases n by auto
      then show ?thesis using True cases d(1) audit fail_effect(7) [OF assms(3)] p by auto
    next
      case False
      then obtain delay where delay: "delay_for_cycle_attempt (cl_cycle_attempt_number c) = Some delay"
          "nx = Some (now + jittered_delay delay u)" "st = Retry_wait" "cat \<noteq> ''permanent''"
          "cl_cycle_attempt_number c < 8"
        using cases by auto
      have "5 \<le> delay" using delays_positive [OF n(1) delay(1)] by simp
      then show ?thesis
        using jitter_bounds [OF _ assms(4,5), of delay] delay d(1) fail_effect(7) [OF assms(3)] p by simp
    qed
  qed
qed

definition ex_failed_db :: outbox_db where
  "ex_failed_db = ex_leased_db\<lparr>
     deliveries := [ex_leased_row\<lparr>dl_status := Retry_wait, dl_error_category := Some ''retryable'',
       dl_error_code := Some ''x'', dl_next_attempt_at := Some 5000002, dl_lease_owner := None,
       dl_lease_expires_at := None\<rparr>],
     attempts := [ex_attempt\<lparr>at_replay_generation := 1, at_status := A_failed,
       at_ended_at := Some 2, at_error_category := Some ''retryable'', at_error_code := Some ''x''\<rparr>]\<rparr>"

definition ex_failed_out :: delivery_outcome where
  "ex_failed_out = \<lparr>oc_status = O_failed, oc_error_category = Some ''retryable'',
     oc_error_code = Some ''x'', oc_retry_after_seconds = Some 5\<rparr>"

lemma ex_failed:
  "fail_and_schedule ex_cfg ex_lease ''w'' ''retryable'' ''x'' 1 2 0 ex_leased_db =
     Inr (ex_failed_out, ex_failed_db)"
  by code_simp

theorem retry_schedule_witness:
  "\<exists>d \<in> set (deliveries ex_failed_db). dl_status d = Retry_wait \<and> dl_next_attempt_at d \<noteq> None"
proof -
  have m: "(''w'', ex_lease) \<in> set (sys_claims ex_leased_sys)" by (simp add: ex_leased_sys_def)
  have f: "fail_and_schedule ex_cfg ex_lease ''w'' ''retryable'' ''x'' 1 2 0 (sys_db ex_leased_sys) =
      Inr (ex_failed_out, ex_failed_db)"
    using ex_failed by (simp add: ex_leased_sys_def)
  have "cl_cycle_attempt_number ex_lease = 1" by (simp add: ex_lease_def ex_claim_def)
  then show ?thesis using retry_schedule [OF ex_reach_leased m f] by auto
qed

section \<open>Classification of errors\<close>

text \<open>An exception of the materialization dead-letters the delivery at once exactly when
  it is a \<open>PlatformError\<close> with status 400, 403, 404, 409 or 422; any other exception is
  retried. A lost fence is never recorded: the exception escapes.\<close>

theorem error_classification:
  assumes "cl_consumer_name c \<in> set (cf_consumers cfg)" and "re_fault env = Some e"
    and "assert_fence c owner (re_fence_now env) db" and "e \<noteq> FenceViolation"
    and "assert_fence c owner (re_fail_fence_now env) db"
    and "sql_count (live_fence_matches c owner (re_fail_now env)) (deliveries db) = 1"
    and "cl_cycle_attempt_number c < 8"
  shows "\<exists>out db'. run_consumer_and_finalize cfg c owner env db = Inr (out, db')
     \<and> oc_status out = (if \<exists>code status. e = PlatformError code status \<and> status \<in> {400, 403, 404, 409, 422}
                        then O_dead_letter else O_failed)"
proof -
  have perm: "is_permanent_materialization_error e \<longleftrightarrow>
      (\<exists>code status. e = PlatformError code status \<and> status \<in> {400, 403, 404, 409, 422})"
    by (cases e) (auto simp: is_permanent_materialization_error_def)
  have run: "run_consumer_and_finalize cfg c owner env db =
      handle_materialization_error cfg c owner e (re_fail_fence_now env) (re_fail_now env) (re_jitter env) db"
    using assms(1-4) by (simp add: run_consumer_and_finalize_def finalize_tx_def Let_def)
  obtain s where s: "delay_for_cycle_attempt (cl_cycle_attempt_number c) = Some s"
    using assms(7) by (auto simp: delay_for_cycle_attempt_def MAX_CYCLE_ATTEMPTS_def Let_def)
  show ?thesis
    unfolding run perm [symmetric]
    using assms(5,6)
    by (simp add: handle_materialization_error_def fail_and_schedule_def failure_plan_def s Let_def)
qed

theorem error_classification_witness:
  "\<exists>out db'. run_consumer_and_finalize ex_cfg ex_lease ''w''
     (ex_env\<lparr>re_fault := Some (PlatformError ''not_found'' 404)\<rparr>) ex_leased_db = Inr (out, db')
     \<and> oc_status out = O_dead_letter"
proof -
  have "cl_consumer_name ex_lease \<in> set (cf_consumers ex_cfg)" by code_simp
  moreover have "assert_fence ex_lease ''w'' 1 ex_leased_db" "assert_fence ex_lease ''w'' 3 ex_leased_db"
    by (simp_all add: assert_fence_def fence_matches_def ex_leased_defs)
  moreover have "sql_count (live_fence_matches ex_lease ''w'' 4) (deliveries ex_leased_db) = 1"
    by (simp add: sql_count_def live_fence_matches_def fence_matches_def ex_leased_defs)
  moreover have "cl_cycle_attempt_number ex_lease = 1" by (simp add: ex_lease_def ex_claim_def)
  ultimately show ?thesis
    using error_classification [of ex_lease ex_cfg "ex_env\<lparr>re_fault := Some (PlatformError ''not_found'' 404)\<rparr>"
        "PlatformError ''not_found'' 404" "''w''" ex_leased_db]
    by (simp add: ex_env_def)
qed

section \<open>Recycling\<close>

text \<open>
  What the loop over the expired rows leaves: \<open>rows\<close> are the rows read at the start, all
  expired and, by their keys, distinct.
\<close>

lemma recycle_row_hit:
  assumes kd: "keyed delivery_key (deliveries db)" and row: "row \<in> set (deliveries db)" "dl_status row = Running"
  shows "fst (recycle_row cfg now u row (k, db)) = Suc k"
    and "set (deliveries (snd (recycle_row cfg now u row (k, db)))) =
      insert (recycled_row row (recycle_plan now (u (delivery_key row)) row) row) (set (deliveries db) - {row})"
proof -
  have m: "same_lease row row" using row(2) by (simp add: same_lease_def)
  then have c: "sql_count (same_lease row) (deliveries db) = 1"
    using sql_count_one_iff [OF kd, of "same_lease row" "delivery_key row"] row(1)
    by (auto simp: same_lease_def)
  then show "fst (recycle_row cfg now u row (k, db)) = Suc k"
    by (simp add: recycle_row_def Let_def)
  show "set (deliveries (snd (recycle_row cfg now u row (k, db)))) =
      insert (recycled_row row (recycle_plan now (u (delivery_key row)) row) row) (set (deliveries db) - {row})"
    using set_sql_update_one [where m = "same_lease row", OF kd row(1) m] c
    by (simp add: recycle_row_frame same_lease_def)
qed

lemma recycle_row_keyed:
  assumes "keyed delivery_key (deliveries db)"
  shows "keyed delivery_key (deliveries (snd (recycle_row cfg now u row (k, db))))"
  using assms by (simp add: recycle_row_frame keyed_update)

lemma recycle_loop:
  assumes "keyed delivery_key (deliveries db)" and "set rows \<subseteq> set (deliveries db)"
    and "keyed delivery_key rows" and "\<forall>r \<in> set rows. dl_status r = Running"
  shows "fst (fold (recycle_row cfg now u) rows (k, db)) = k + length rows
    \<and> set (deliveries (snd (fold (recycle_row cfg now u) rows (k, db)))) =
       (\<lambda>r. recycled_row r (recycle_plan now (u (delivery_key r)) r) r) ` set rows
         \<union> (set (deliveries db) - set rows)"
  using assms
proof (induction rows arbitrary: k db)
  case (Cons row rows)
  let ?f = "\<lambda>r. recycled_row r (recycle_plan now (u (delivery_key r)) r) r"
  obtain db1 where r: "recycle_row cfg now u row (k, db) = (Suc k, db1)"
    using recycle_row_hit(1) [OF Cons.prems(1)] Cons.prems(2,4) by (metis list.set_intros(1) prod.collapse subsetD)
  have ds: "set (deliveries db1) = insert (?f row) (set (deliveries db) - {row})"
    using recycle_row_hit(2) [OF Cons.prems(1), of row cfg now u k] Cons.prems(2,4) r by simp
  have kd: "keyed delivery_key (deliveries db1)"
    using recycle_row_keyed [OF Cons.prems(1), of cfg now u row k] r by simp
  have nin: "delivery_key row \<notin> delivery_key ` set rows" "keyed delivery_key rows"
    using Cons.prems(3) by (auto simp: keyed_def)
  then have sub: "set rows \<subseteq> set (deliveries db1)" using Cons.prems(2) ds by auto
  have notf: "?f row \<notin> set rows"
    using nin(1) recycled_row_simps(1) by (metis imageI)
  note IH = Cons.IH [OF kd sub nin(2), of "Suc k"]
  have "row \<notin> set rows" using nin(1) by blast
  then have "?f ` set rows \<union> (set (deliveries db1) - set rows) =
      ?f ` set (row # rows) \<union> (set (deliveries db) - set (row # rows))"
    using ds notf by auto
  then show ?case using IH Cons.prems(4) r by simp
qed simp

lemma lease_expired_recycled: "\<not> lease_expired now (recycled_row r (recycle_plan now v r) d)"
  using recycle_plan_idle [of now v r] by (simp add: lease_expired_def)

lemma set_expired_candidates:
  assumes "length (deliveries db) \<le> limit"
  shows "set (expired_candidates now limit db) = {d \<in> set (deliveries db). lease_expired now d}"
    and "length (expired_candidates now limit db) = sql_count (lease_expired now) (deliveries db)"
proof -
  let ?w = "sql_where (lease_expired now) (deliveries db)"
  have "length ?w \<le> limit"
    using le_trans [OF length_filter_le assms] by (simp add: sql_where_def)
  then have "expired_candidates now limit db = sort_key (\<lambda>d. fst (lease_order d)) (sort_key dl_event_id
       (sort_key dl_consumer_name ?w))"
    by (simp add: expired_candidates_def)
  then show "set (expired_candidates now limit db) = {d \<in> set (deliveries db). lease_expired now d}"
    "length (expired_candidates now limit db) = sql_count (lease_expired now) (deliveries db)"
    by (auto simp: sql_count_def sql_where_def)
qed

lemma keyed_expired_candidates:
  assumes "keyed delivery_key (deliveries db)"
  shows "keyed delivery_key (expired_candidates now limit db)"
proof -
  have "keyed delivery_key (sort_key f xs) \<longleftrightarrow> keyed delivery_key xs" for f :: "delivery_row \<Rightarrow> 'b::linorder" and xs
    by (simp add: keyed_def distinct_map)
  moreover have "keyed delivery_key (take limit xs)" if "keyed delivery_key xs" for xs
    using that by (simp add: keyed_def take_map [symmetric])
  moreover have "keyed delivery_key (sql_where (lease_expired now) (deliveries db))"
    using keyed_filter [OF assms] by (simp add: sql_where_def)
  ultimately show ?thesis unfolding expired_candidates_def by (simp add: keyed_def distinct_map)
qed

text \<open>Recycling takes away exactly the leases that have expired: afterwards no delivery
  runs under an expired lease, every expired one is waiting for a retry (or dead after its
  eighth attempt) with its token kept, all other deliveries are unchanged, and the count
  returned is the number of expired leases.\<close>

theorem recycle_frees_expired:
  assumes "tables_inv db" and "length (deliveries db) \<le> limit"
  shows "(\<forall>d \<in> set (deliveries (snd (recycle_expired_running cfg now u limit db))). \<not> lease_expired now d)
     \<and> (\<forall>d \<in> set (deliveries db). \<not> lease_expired now d \<longrightarrow>
          d \<in> set (deliveries (snd (recycle_expired_running cfg now u limit db))))
     \<and> (\<forall>d \<in> set (deliveries db). lease_expired now d \<longrightarrow>
          (\<exists>d' \<in> set (deliveries (snd (recycle_expired_running cfg now u limit db))).
             delivery_key d' = delivery_key d \<and> dl_fence_token d' = dl_fence_token d
             \<and> dl_status d' = (if dl_cycle_attempt_number d \<ge> 8 then Dead_letter else Retry_wait)))
     \<and> fst (recycle_expired_running cfg now u limit db) = sql_count (lease_expired now) (deliveries db)"
proof -
  note cand = set_expired_candidates [OF assms(2), of now]
  have run: "\<forall>r \<in> set (expired_candidates now limit db). dl_status r = Running"
    using cand(1) by (auto simp: lease_expired_def)
  note loop = recycle_loop [OF delivery_invD(1) [OF assms(1)] _ keyed_expired_candidates
      [OF delivery_invD(1) [OF assms(1)]] run, of cfg now u 0]
  have plan: "fst (recycle_plan now v d) = (if dl_cycle_attempt_number d \<ge> 8 then Dead_letter else Retry_wait)" for v d
    by (auto simp: recycle_plan_def delay_for_cycle_attempt_def MAX_CYCLE_ATTEMPTS_def Let_def)
  have ds: "set (deliveries (snd (recycle_expired_running cfg now u limit db))) =
       (\<lambda>r. recycled_row r (recycle_plan now (u (delivery_key r)) r) r) `
          {d \<in> set (deliveries db). lease_expired now d}
         \<union> {d \<in> set (deliveries db). \<not> lease_expired now d}"
    using loop cand(1) by (auto simp: recycle_expired_running_def)
  moreover have "fst (recycle_expired_running cfg now u limit db) = sql_count (lease_expired now) (deliveries db)"
    using loop cand by (auto simp: recycle_expired_running_def)
  moreover have "\<exists>d' \<in> set (deliveries (snd (recycle_expired_running cfg now u limit db))).
      delivery_key d' = delivery_key d \<and> dl_fence_token d' = dl_fence_token d
      \<and> dl_status d' = (if dl_cycle_attempt_number d \<ge> 8 then Dead_letter else Retry_wait)"
    if "d \<in> set (deliveries db)" "lease_expired now d" for d
    by (rule bexI [of _ "recycled_row d (recycle_plan now (u (delivery_key d)) d) d"])
      (use that ds plan in auto)
  ultimately show ?thesis using lease_expired_recycled by auto
qed

theorem recycle_frees_expired_witness:
  "fst (recycle_expired_running ex_cfg 70000000 (\<lambda>_. 0) 10 ex_leased_db) = 1
   \<and> sql_count (lease_expired 70000000)
         (deliveries (snd (recycle_expired_running ex_cfg 70000000 (\<lambda>_. 0) 10 ex_leased_db))) = 0"
proof -
  have i: "tables_inv ex_leased_db"
    using sys_invD(1) [OF reachable_inv [OF ex_reach_leased initial_inv]] by (simp add: ex_leased_sys_def)
  have n: "length (deliveries ex_leased_db) \<le> 10" by (simp add: ex_leased_db_def)
  have c: "sql_count (lease_expired 70000000) (deliveries ex_leased_db) = 1"
    by (simp add: sql_count_def lease_expired_def ex_leased_defs)
  show ?thesis using recycle_frees_expired [OF i n, where now = 70000000 and cfg = ex_cfg and u = "\<lambda>_. 0"] c
    by (simp add: sql_count_zero)
qed

section \<open>Replay\<close>

lemma in_sql_update: "d \<in> set t \<Longrightarrow> m d \<Longrightarrow> f d \<in> set (sql_update m f t)"
  by (auto simp: sql_update_def image_iff intro!: bexI [of _ d])

lemma replay_lookups:
  assumes "replay cfg e cn v key hash now db = Inr (resp, db')"
  shows "\<exists>event delivery. sql_first (\<lambda>x. ev_event_id x = e) (events db) = Some event
     \<and> ev_storage_state event = Full
     \<and> sql_first (\<lambda>d. dl_event_id d = e \<and> dl_consumer_name d = cn) (deliveries db) = Some delivery"
  using assms by (auto simp: replay_def split: option.splits if_splits)

text \<open>The key row a successful replay leaves behind.\<close>

lemma replay_records:
  assumes kd: "keyed replay_idem_key (replay_idem db)"
    and res: "replay cfg e cn v key hash now db = Inr (resp, db')"
  shows "\<exists>row. sql_first (\<lambda>r. ri_event_id r = e \<and> ri_consumer_name r = cn \<and> ri_key r = key) (replay_idem db') = Some row
     \<and> ri_request_hash row = hash \<and> ri_completed row \<and> ri_response row = Some resp"
  using res
proof (cases rule: replay_cases)
  case (again row)
  then have "sql_first (\<lambda>r. ri_event_id r = e \<and> ri_consumer_name r = cn \<and> ri_key r = key) (replay_idem db') = Some row"
    by (intro sql_first_keyed [where key = replay_idem_key]) (use kd again in \<open>auto simp: key_defs\<close>)
  then show ?thesis using again by blast
next
  case (reset d)
  have none: "sql_first (\<lambda>r. ri_event_id r = e \<and> ri_consumer_name r = cn \<and> ri_key r = key) (replay_idem db) = None"
    using reset(9) by (auto simp: sql key_defs)
  have id: "sql_update (\<lambda>r. ri_event_id r = e \<and> ri_consumer_name r = cn \<and> ri_key r = key
      \<and> ri_request_hash r = hash \<and> \<not> ri_completed r) f (replay_idem db) = replay_idem db" for f
    using reset(9) by (intro sql_update_idem) (auto simp: key_defs)
  have "replay_idem db' = replay_idem db @
      [\<lparr>ri_event_id = e, ri_consumer_name = cn, ri_key = key, ri_request_hash = hash,
        ri_completed = True, ri_response = Some resp, ri_created_at = now\<rparr>]"
    using res reset(9) replay_lookups [OF res] id
    by (auto simp: replay_def Let_def sql_insert_def key_defs sql_update_def
        split: option.splits if_splits)
  then show ?thesis using none by (simp add: sql_first_append)
qed

text \<open>An operator's replay with an idempotency key runs once. Repeating the request
  returns the recorded receipt and changes nothing, whatever version it names; reusing the
  key for another request is refused with a conflict.\<close>

theorem replay_idempotent:
  assumes "keyed replay_idem_key (replay_idem db)"
    and "replay cfg e cn v key hash now db = Inr (resp, db')"
  shows "replay cfg e cn v' key hash now' db' = Inr (resp, db')
     \<and> (hash' \<noteq> hash \<longrightarrow>
          replay cfg e cn v' key hash' now' db' = Inl (PlatformError ''idempotency_key_conflict'' 409))"
proof -
  obtain row where row: "sql_first (\<lambda>r. ri_event_id r = e \<and> ri_consumer_name r = cn \<and> ri_key r = key) (replay_idem db') = Some row"
      "ri_request_hash row = hash" "ri_completed row" "ri_response row = Some resp"
    using replay_records [OF assms] by blast
  have ins: "sql_insert replay_idem_key \<lparr>ri_event_id = e, ri_consumer_name = cn, ri_key = key,
      ri_request_hash = h, ri_completed = False, ri_response = None, ri_created_at = n\<rparr> (replay_idem db') = None" for h n
    using sql_first_Some [OF row(1)] by (force simp: sql key_defs)
  obtain event delivery where l: "sql_first (\<lambda>x. ev_event_id x = e) (events db) = Some event"
      "ev_storage_state event = Full"
      "sql_first (\<lambda>d. dl_event_id d = e \<and> dl_consumer_name d = cn) (deliveries db) = Some delivery"
    using replay_lookups [OF assms(2)] by blast
  have l': "events db' = events db"
      "\<exists>d. sql_first (\<lambda>d. dl_event_id d = e \<and> dl_consumer_name d = cn) (deliveries db') = Some d"
  proof -
    show "events db' = events db" using assms(2) by (cases rule: replay_cases) auto
    have "\<exists>d \<in> set (deliveries db'). dl_event_id d = e \<and> dl_consumer_name d = cn"
      using assms(2)
    proof (cases rule: replay_cases)
      case again
      then show ?thesis using sql_first_Some [OF l(3)] by blast
    next
      case (reset d)
      have "replayed_row d now d \<in> set (deliveries db')"
        unfolding reset(6) by (rule in_sql_update [OF reset(1)]) (use reset in \<open>auto simp: key_defs\<close>)
      then show ?thesis
        by (rule rev_bexI) (use reset(2) in \<open>simp add: replayed_row_def key_defs\<close>)
    qed
    then show "\<exists>d. sql_first (\<lambda>d. dl_event_id d = e \<and> dl_consumer_name d = cn) (deliveries db') = Some d"
      using sql_first_None [of "\<lambda>d. dl_event_id d = e \<and> dl_consumer_name d = cn" "deliveries db'"]
      by (cases "sql_first (\<lambda>d. dl_event_id d = e \<and> dl_consumer_name d = cn) (deliveries db')") auto
  qed
  show ?thesis using l l' row ins by (auto simp: replay_def Let_def)
qed

definition ex_dead_db :: outbox_db where
  "ex_dead_db = ex_leased_db\<lparr>
     deliveries := [ex_leased_row\<lparr>dl_status := Dead_letter, dl_error_category := Some ''permanent'',
       dl_error_code := Some ''x'', dl_lease_owner := None, dl_lease_expires_at := None\<rparr>],
     attempts := [ex_attempt\<lparr>at_replay_generation := 1, at_status := A_failed,
       at_ended_at := Some 2, at_error_category := Some ''permanent'', at_error_code := Some ''x''\<rparr>],
     audits := [\<lparr>au_actor_id = ''system:outbox'', au_resource_type = ''outbox_delivery'',
       au_resource_id = ''e'', au_request_id = ''req_outbox'', au_occurred_at = 2,
       au_result = ''dead_lettered'', au_consumer_name = V1_CONSUMER, au_error_code = ''x''\<rparr>]\<rparr>"

lemma ex_dead:
  "fail_and_schedule ex_cfg ex_lease ''w'' ''permanent'' ''x'' 1 2 0 ex_leased_db =
     Inr (\<lparr>oc_status = O_dead_letter, oc_error_category = Some ''permanent'',
            oc_error_code = Some ''x'', oc_retry_after_seconds = Some 5\<rparr>, ex_dead_db)"
  by code_simp

definition ex_replayed :: "replay_receipt \<times> outbox_db" where
  "ex_replayed = (case replay ex_cfg ''e'' V1_CONSUMER 2 ''k'' ''h'' 5 ex_dead_db of
     Inr r \<Rightarrow> r | Inl _ \<Rightarrow> (\<lparr>rr_event_id = [], rr_consumer_name = [], rr_status = Pending,
       rr_replay_generation = 0, rr_version = 0\<rparr>, ex_dead_db))"

lemma ex_replay:
  "replay ex_cfg ''e'' V1_CONSUMER 2 ''k'' ''h'' 5 ex_dead_db = Inr (fst ex_replayed, snd ex_replayed)"
  by code_simp

theorem replay_idempotent_witness:
  "replay ex_cfg ''e'' V1_CONSUMER 7 ''k'' ''h'' 9 (snd ex_replayed) = Inr (fst ex_replayed, snd ex_replayed)
   \<and> replay ex_cfg ''e'' V1_CONSUMER 7 ''k'' ''other'' 9 (snd ex_replayed) =
       Inl (PlatformError ''idempotency_key_conflict'' 409)"
proof -
  have "keyed replay_idem_key (replay_idem ex_dead_db)" by (simp add: ex_dead_db_def ex_leased_defs)
  then show ?thesis
    using replay_idempotent [OF _ ex_replay, of 7 9 "''other''"] by simp
qed

text \<open>The operator's view tells the truth about replay: it says replayable exactly when
  a replay of the version it shows, under an unused key, succeeds; and such a replay puts the
  delivery into a new cycle: pending, due now, no attempts counted, the next replay
  generation and version.\<close>

theorem ops_view_replayable:
  assumes "tables_inv db" and "ops_view e cn db = Some view"
    and "\<forall>r \<in> set (replay_idem db). replay_idem_key r \<noteq> (e, cn, key)"
  shows "(ov_replayable view \<longleftrightarrow> is_ok (replay cfg e cn (ov_version view) key hash now db))
     \<and> (ov_replayable view \<longrightarrow> (\<exists>resp db' d. replay cfg e cn (ov_version view) key hash now db = Inr (resp, db')
          \<and> d \<in> set (deliveries db') \<and> delivery_key d = (e, cn) \<and> claimable now d
          \<and> dl_status d = Pending \<and> dl_cycle_attempt_number d = 0
          \<and> dl_version d = ov_version view + 1 \<and> dl_replay_generation d = ov_replay_generation view + 1))"
proof -
  let ?p = "\<lambda>d. dl_event_id d = e \<and> dl_consumer_name d = cn"
  obtain row event where row: "sql_first ?p (deliveries db) = Some row"
      and event: "sql_first (\<lambda>x. ev_event_id x = e) (events db) = Some event"
      and view: "ov_version view = dl_version row" "ov_replay_generation view = dl_replay_generation row"
        "ov_replayable view \<longleftrightarrow> ev_storage_state event = Full \<and> dl_status row = Dead_letter"
    using assms(2) by (auto simp: ops_view_def split: option.splits)
  let ?m = "\<lambda>d. dl_event_id d = e \<and> dl_consumer_name d = cn \<and> dl_version d = dl_version row \<and> dl_status d = Dead_letter"
  have rw: "row \<in> set (deliveries db)" "?p row" using sql_first_Some [OF row] by auto
  have ins: "\<exists>t. sql_insert replay_idem_key \<lparr>ri_event_id = e, ri_consumer_name = cn, ri_key = key,
      ri_request_hash = hash, ri_completed = False, ri_response = None, ri_created_at = now\<rparr> (replay_idem db) = Some t"
    using assms(3) by (auto simp: sql_insert_def key_defs)
  have cnt: "sql_count ?m (deliveries db) = 1 \<longleftrightarrow> (\<exists>d \<in> set (deliveries db). ?m d)"
    by (rule sql_count_one_iff [OF delivery_invD(1) [OF assms(1)], of _ "(e, cn)"]) (auto simp: key_defs)
  have ok: "is_ok (replay cfg e cn (ov_version view) key hash now db) \<longleftrightarrow> ov_replayable view"
    using row event view ins cnt rw
    by (auto simp: replay_def Let_def is_ok_def split: option.splits)
  have "\<exists>resp db' d. replay cfg e cn (ov_version view) key hash now db = Inr (resp, db')
      \<and> d \<in> set (deliveries db') \<and> delivery_key d = (e, cn) \<and> claimable now d
      \<and> dl_status d = Pending \<and> dl_cycle_attempt_number d = 0
      \<and> dl_version d = ov_version view + 1 \<and> dl_replay_generation d = ov_replay_generation view + 1"
    if r: "ov_replayable view"
  proof -
    obtain resp db' where res: "replay cfg e cn (ov_version view) key hash now db = Inr (resp, db')"
      using ok r by (cases "replay cfg e cn (ov_version view) key hash now db") (auto simp: is_ok_def)
    from res show ?thesis
    proof (cases rule: replay_cases)
      case again
      then show ?thesis using assms(3) by blast
    next
      case (reset d)
      have "d = row"
        by (rule keyed_eq [OF delivery_invD(1) [OF assms(1)] reset(1) rw(1)])
          (use reset(2) rw(2) in \<open>simp add: key_defs\<close>)
      have "replayed_row row now row \<in> set (deliveries db')"
        unfolding reset(6) \<open>d = row\<close> by (rule in_sql_update [OF rw(1)]) (use reset rw \<open>d = row\<close> in auto)
      then show ?thesis
        using res view rw(2) by (intro exI [of _ resp] exI [of _ db'] exI [of _ "replayed_row row now row"])
          (auto simp: replayed_row_def key_defs claimable_def)
    qed
  qed
  then show ?thesis using ok by blast
qed

theorem ops_view_replayable_witness:
  "\<exists>view. ops_view ''e'' V1_CONSUMER ex_dead_db = Some view \<and> ov_replayable view
     \<and> is_ok (replay ex_cfg ''e'' V1_CONSUMER (ov_version view) ''k'' ''h'' 5 ex_dead_db)"
proof -
  define view where "view = the (ops_view ''e'' V1_CONSUMER ex_dead_db)"
  have v: "ops_view ''e'' V1_CONSUMER ex_dead_db = Some view" unfolding view_def by code_simp
  have r: "ov_replayable view" unfolding view_def by code_simp
  have i: "tables_inv ex_dead_db"
    by (rule fail_inv [OF _ _ ex_dead])
      (use sys_invD(1,2) [OF reachable_inv [OF ex_reach_leased initial_inv]] in
        \<open>simp_all add: ex_leased_sys_def\<close>)
  have "\<forall>r \<in> set (replay_idem ex_dead_db). replay_idem_key r \<noteq> (''e'', V1_CONSUMER, ''k'')"
    by (simp add: ex_dead_db_def ex_leased_defs)
  then show ?thesis using ops_view_replayable [OF i v] v r by blast
qed

section \<open>Compaction\<close>

lemma write_receipts_mono: "r \<in> set rts \<Longrightarrow> r \<in> set (write_receipts cfg e occ now rows rts)"
  by (induction rows arbitrary: rts) (auto simp: Let_def split: option.splits)

lemma write_receipts_all:
  "row \<in> set rows \<Longrightarrow> \<exists>r \<in> set (write_receipts cfg e occ now rows rts).
     rt_event_id r = e \<and> rt_user_id r = sp_user_id row"
proof (induction rows arbitrary: rts)
  case (Cons s rows)
  show ?case
  proof (cases "row = s")
    case False
    then show ?thesis using Cons by (auto simp: Let_def split: option.splits)
  next
    case True
    let ?p = "\<lambda>r. rt_event_id r = e \<and> rt_user_id r = sp_user_id s"
    show ?thesis
    proof (cases "sql_first ?p rts")
      case (Some r)
      then have "r \<in> set rts" "?p r" using sql_first_Some [OF Some] by auto
      then show ?thesis using True write_receipts_mono Some by (fastforce simp: Let_def)
    next
      case None
      let ?new = "\<lparr>rt_event_id = e, rt_user_id = sp_user_id s, rt_outcome = suppression_outcome s,
         rt_seq = None, rt_occurred_at = occ, rt_materialized_at = None, rt_retired_at = Some now,
         rt_fingerprint = canonical_receipt_fingerprint (cf_sha256 cfg) e (sp_user_id s)
                            (suppression_outcome s) None\<rparr>"
      have "?new \<in> set (write_receipts cfg e occ now rows (rts @ [?new]))"
        by (rule write_receipts_mono) simp
      then show ?thesis using True None by (auto simp: Let_def intro: rev_bexI)
    qed
  qed
qed simp

text \<open>Compaction of a delivered event keeps its facts and drops its content. The event
  stays, compacted, without payload, with a summary of every delivery; its deliveries,
  attempts, recipients and suppressions are gone; every suppressed recipient has a permanent
  receipt; other events and their deliveries are untouched; and a replay of any of its
  deliveries is refused from then on.\<close>

theorem compaction_is_final:
  assumes "keyed event_key (events db)" and "compact_event cfg e now db = Inr (True, db')"
  shows "(\<exists>ev \<in> set (events db'). ev_event_id ev = e \<and> ev_storage_state ev = Compacted
        \<and> ev_payload ev = None \<and> ev_compacted_at ev = Some now
        \<and> ev_compacted_summary ev = Some (map summary_of (sql_where (\<lambda>d. dl_event_id d = e) (deliveries db))))
     \<and> (\<forall>d \<in> set (deliveries db'). dl_event_id d \<noteq> e) \<and> (\<forall>a \<in> set (attempts db'). at_event_id a \<noteq> e)
     \<and> (\<forall>r \<in> set (recipients db'). rc_event_id r \<noteq> e) \<and> (\<forall>s \<in> set (suppressions db'). sp_event_id s \<noteq> e)
     \<and> (\<forall>s \<in> set (suppressions db). sp_event_id s = e \<longrightarrow>
          (\<exists>r \<in> set (receipts db'). rt_event_id r = e \<and> rt_user_id r = sp_user_id s))
     \<and> (\<forall>x. ev_event_id x \<noteq> e \<longrightarrow> (x \<in> set (events db') \<longleftrightarrow> x \<in> set (events db)))
     \<and> (\<forall>d. dl_event_id d \<noteq> e \<longrightarrow> (d \<in> set (deliveries db') \<longleftrightarrow> d \<in> set (deliveries db)))
     \<and> replay cfg' e cn v key hash now' db' = Inl (PlatformError ''outbox_delivery_not_replayable'' 409)"
proof -
  let ?m = "\<lambda>x. ev_event_id x = e \<and> ev_storage_state x = Full \<and> ev_compacted_at x = None"
  let ?summary = "map summary_of (sql_where (\<lambda>d. dl_event_id d = e) (deliveries db))"
  obtain event where event: "sql_first (\<lambda>x. ev_event_id x = e) (events db) = Some event"
      and cnt: "sql_count ?m (events db) = 1"
      and db': "db' = (write_suppression_receipts cfg e now db)\<lparr>
         events := sql_update ?m (compacted_event ?summary now) (events db),
         recipients := sql_delete (\<lambda>r. rc_event_id r = e) (recipients db),
         deliveries := sql_delete (\<lambda>d. dl_event_id d = e) (deliveries db),
         attempts := sql_delete (\<lambda>a. at_event_id a = e) (attempts db),
         suppressions := sql_delete (\<lambda>s. sp_event_id s = e) (suppressions db)\<rparr>"
    using assms(2) by (auto simp: compact_event_def Let_def split: option.splits if_splits)
  obtain ev where ev: "ev \<in> set (events db)" "?m ev"
    using sql_count_one_iff [OF assms(1), of ?m e] cnt by (auto simp: event_key_def)
  have only: "x = ev" if "x \<in> set (events db)" "ev_event_id x = e" for x
    using keyed_eq [OF assms(1) that(1) ev(1)] that(2) ev(2) by (simp add: event_key_def)
  have "event = ev" using only sql_first_Some [OF event] by blast
  let ?ev' = "compacted_event ?summary now ev"
  have in': "?ev' \<in> set (events db')" using in_sql_update [OF ev(1), of ?m] ev(2) by (simp add: db')
  have kd: "keyed event_key (events db')"
    using assms(1) by (auto simp: db' event_key_def compacted_event_def intro: keyed_update)
  have first: "sql_first (\<lambda>x. ev_event_id x = e) (events db') = Some ?ev'"
    by (rule sql_first_keyed [OF kd in']) (use ev(2) in \<open>auto simp: compacted_event_def event_key_def\<close>)
  have rec: "\<exists>r \<in> set (receipts db'). rt_event_id r = e \<and> rt_user_id r = sp_user_id s"
    if "s \<in> set (suppressions db)" "sp_event_id s = e" for s
    using that event write_receipts_all [of s "sql_where (\<lambda>s. sp_event_id s = e) (suppressions db)"]
    by (simp add: db' write_suppression_receipts_def)
  have "x \<in> set (events db') \<longleftrightarrow> x \<in> set (events db)" if "ev_event_id x \<noteq> e" for x
    using that by (auto simp: db' sql compacted_event_def)
  moreover have "d \<in> set (deliveries db') \<longleftrightarrow> d \<in> set (deliveries db)" if "dl_event_id d \<noteq> e" for d
    using that by (simp add: db')
  moreover have "\<exists>x \<in> set (events db'). ev_event_id x = e \<and> ev_storage_state x = Compacted
        \<and> ev_payload x = None \<and> ev_compacted_at x = Some now \<and> ev_compacted_summary x = Some ?summary"
    by (rule rev_bexI [OF in']) (use ev(2) in \<open>simp add: compacted_event_def\<close>)
  moreover have "replay cfg' e cn v key hash now' db' = Inl (PlatformError ''outbox_delivery_not_replayable'' 409)"
    using first by (simp add: replay_def compacted_event_def)
  moreover have "(\<forall>d \<in> set (deliveries db'). dl_event_id d \<noteq> e) \<and> (\<forall>a \<in> set (attempts db'). at_event_id a \<noteq> e)
     \<and> (\<forall>r \<in> set (recipients db'). rc_event_id r \<noteq> e) \<and> (\<forall>s \<in> set (suppressions db'). sp_event_id s \<noteq> e)"
    by (simp add: db')
  ultimately show ?thesis using rec by blast
qed

theorem compaction_is_final_witness:
  "\<exists>db'. compact_event ex_cfg ''e'' 99 ex_delivered_db = Inr (True, db')
     \<and> sql_count (\<lambda>d. dl_event_id d = ''e'') (deliveries db') = 0
     \<and> replay ex_cfg ''e'' V1_CONSUMER 2 ''k'' ''h'' 100 db' = Inl (PlatformError ''outbox_delivery_not_replayable'' 409)"
proof -
  define db' where "db' = (case compact_event ex_cfg ''e'' 99 ex_delivered_db of Inr (_, db) \<Rightarrow> db)"
  have k: "keyed event_key (events ex_delivered_db)" by (simp add: ex_delivered_db_def keyed_def)
  have c: "compact_event ex_cfg ''e'' 99 ex_delivered_db = Inr (True, db')" unfolding db'_def by code_simp
  show ?thesis using compaction_is_final [OF k c] c unfolding sql_count_zero by blast
qed

end
