(* ===== verification/Outbox_Adapters.thy ===== *)
theory Outbox_Adapters
  imports Outbox_Publisher
begin

text \<open>
  The domain facades over the publisher (\<^verbatim>\<open>app/outbox/publisher.py\<close>,
  \<^verbatim>\<open>app/graph/outbox.py\<close>, \<^verbatim>\<open>app/evaluation/outbox.py\<close>). Each fixes its
  caller principal, event family and recipient kind, derives the event id and calls the
  publisher in the caller's transaction. The ambient trace id and random invocation ids are
  arguments.
\<close>

section \<open>One command for one recipient\<close>

definition direct_command ::
    "string \<Rightarrow> string \<Rightarrow> string \<Rightarrow> string \<Rightarrow> int \<Rightarrow> time \<Rightarrow> payload \<Rightarrow> string \<Rightarrow> string \<Rightarrow> string option \<Rightarrow>
     publish_command" where
  "direct_command event_id event_type aggregate_type aggregate_id transition_version occurred_at p
       recipient_user_id reason trace =
     \<lparr>pc_event_id = event_id, pc_event_type = event_type,
      pc_schema_version = SUPPORTED_EVENT_SCHEMA_VERSION, pc_aggregate_type = aggregate_type,
      pc_aggregate_id = aggregate_id, pc_transition_version = transition_version,
      pc_occurred_at = occurred_at, pc_payload = p,
      pc_recipients = [\<lparr>rs_recipient_user_id = recipient_user_id, rs_recipient_kind = ''identity'',
        rs_required_role = None, rs_selection_reason = reason\<rparr>],
      pc_trace_id = trace\<rparr>"

definition ops_command ::
    "string \<Rightarrow> string \<Rightarrow> string \<Rightarrow> string \<Rightarrow> int \<Rightarrow> time \<Rightarrow> payload \<Rightarrow> string option \<Rightarrow> publish_command" where
  "ops_command event_id event_type aggregate_type aggregate_id transition_version occurred_at p trace =
     \<lparr>pc_event_id = event_id, pc_event_type = event_type,
      pc_schema_version = SUPPORTED_EVENT_SCHEMA_VERSION, pc_aggregate_type = aggregate_type,
      pc_aggregate_id = aggregate_id, pc_transition_version = transition_version,
      pc_occurred_at = occurred_at, pc_payload = p, pc_recipients = [], pc_trace_id = trace\<rparr>"

section \<open>Quota requests\<close>

definition quota_event_id :: "outbox_cfg \<Rightarrow> string \<Rightarrow> string \<Rightarrow> int \<Rightarrow> string \<Rightarrow> string" where
  "quota_event_id cfg event_type aggregate_id transition_version payload_fingerprint =
     ''evt_'' @ take 60 (cf_sha256 cfg (''quota-outbox-event-v1'' @ [CHR 0x00] @
       json_dumps (cf_float_repr cfg) (PDict
         [(''aggregate_id'', PStr aggregate_id), (''event_type'', PStr event_type),
          (''payload_fingerprint'', PStr payload_fingerprint),
          (''transition_version'', PInt transition_version)])))"

definition quota_enqueue ::
    "outbox_cfg \<Rightarrow> string option \<Rightarrow> time \<Rightarrow> string \<Rightarrow> string \<Rightarrow> string \<Rightarrow> int \<Rightarrow> string \<Rightarrow> time \<Rightarrow> string \<Rightarrow>
     payload \<Rightarrow> outbox_db \<Rightarrow> exn + outbox_db" where
  "quota_enqueue cfg trace now event_type aggregate_type aggregate_id transition_version
       recipient_user_id occurred_at payload_fingerprint p db =
     (if event_type \<notin> {''quota_approved'', ''quota_rejected''} \<or> aggregate_type \<noteq> ''quota_request''
      then Inl (PlatformError ''invalid_quota_outbox_event'' 422)
      else if payload_fingerprint = [] then Inl (PlatformError ''invalid_quota_outbox_event'' 422)
      else bindE (publish_authorized cfg None ''quota'' now
             (direct_command (quota_event_id cfg event_type aggregate_id transition_version
                                payload_fingerprint)
                event_type aggregate_type aggregate_id transition_version occurred_at p
                recipient_user_id ''quota_request_applicant'' trace) db)
           (\<lambda>(_, db'). Inr db'))"

section \<open>Submissions\<close>

definition submission_payload ::
    "string \<Rightarrow> string \<Rightarrow> string option \<Rightarrow> string option \<Rightarrow> string option \<Rightarrow> payload" where
  "submission_payload event_type submission_id document_id job_id reason =
     (let str = (\<lambda>s. PStr (case s of None \<Rightarrow> ''None'' | Some t \<Rightarrow> t)) in
      [(''submission_id'', PStr submission_id)] @
      (if event_type = ''submission_approved''
       then [(''document_id'', str document_id), (''job_id'', str job_id)]
       else case reason of None \<Rightarrow> [] | Some r \<Rightarrow> [(''reason'', PStr r)]))"

definition publish_submission_event ::
    "outbox_cfg \<Rightarrow> string option \<Rightarrow> time \<Rightarrow> string \<Rightarrow> string \<Rightarrow> int \<Rightarrow> string \<Rightarrow> time \<Rightarrow>
     string option \<Rightarrow> string option \<Rightarrow> string option \<Rightarrow> outbox_db \<Rightarrow> exn + string \<times> outbox_db" where
  "publish_submission_event cfg trace now event_type submission_id transition_version
       recipient_user_id occurred_at document_id job_id reason db =
     (if event_type \<notin> {''submission_approved'', ''submission_rejected'', ''submission_invalidated''}
      then Inl (PlatformError ''invalid_submission_outbox_event'' 422)
      else
        let event_id = ''evt_submission_'' @ event_type @ ''_'' @ submission_id @ ''_'' @
                         string_of_int transition_version
        in bindE (publish_authorized cfg None ''submissions'' now
             (direct_command event_id event_type ''knowledge_submission'' submission_id
                transition_version occurred_at
                (submission_payload event_type submission_id document_id job_id reason)
                recipient_user_id ''knowledge_submission_participant'' trace) db)
           (\<lambda>(_, db'). Inr (event_id, db')))"

section \<open>Operations alerts\<close>

definition publish_missing_judge_configuration ::
    "outbox_cfg \<Rightarrow> string option \<Rightarrow> time \<Rightarrow> string \<Rightarrow> string list \<Rightarrow> time \<Rightarrow> outbox_db \<Rightarrow>
     exn + string \<times> outbox_db" where
  "publish_missing_judge_configuration cfg trace now invocation_id names occurred_at db =
     (if names = [] \<or> \<not> distinct names \<or> \<not> set names \<subseteq> set JUDGE_VARIABLES
      then Inl (PlatformError ''invalid_startup_configuration_alert'' 422)
      else
        let event_id = ''evt_eval_judge_config_missing_'' @ invocation_id in
        bindE (publish_authorized cfg None ''startup_configuration'' now
             (ops_command event_id ''evaluation_judge_configuration_missing'' ''startup_invocation''
                (''startup_'' @ invocation_id) 1 occurred_at
                [(''missing_variable_names'', PList (map PStr names))] trace) db)
          (\<lambda>(_, db'). Inr (event_id, db')))"

definition publish_usage_ledger_invariant_conflict ::
    "outbox_cfg \<Rightarrow> string option \<Rightarrow> time \<Rightarrow> string \<Rightarrow> string list \<Rightarrow> string option \<Rightarrow> time \<Rightarrow>
     outbox_db \<Rightarrow> exn + string \<times> outbox_db" where
  "publish_usage_ledger_invariant_conflict cfg trace now invocation_id key_fields provider_call_id
       occurred_at db =
     (let aggregate_id = (case provider_call_id of
            None \<Rightarrow> ''usage_invariant_'' @ invocation_id
          | Some p \<Rightarrow> if p = [] then ''usage_invariant_'' @ invocation_id else p)
      in bindE (publish_authorized cfg None ''usage'' now
           (ops_command (''evt_usage_invariant_'' @ invocation_id)
              ''usage_ledger_invariant_conflict'' ''usage_ledger_row'' aggregate_id 1 occurred_at
              [(''unique_key_fields'', PList (map PStr (sort (remdups key_fields)))),
               (''provider_call_id'', case provider_call_id of None \<Rightarrow> PNull | Some p \<Rightarrow> PStr p)]
              trace) db)
         (\<lambda>(receipt, db'). Inr (pr_event_id receipt, db')))"

definition publish_calibration_suggested ::
    "outbox_cfg \<Rightarrow> string option \<Rightarrow> time \<Rightarrow> string \<Rightarrow> int \<Rightarrow> time \<Rightarrow> outbox_db \<Rightarrow> exn + string \<times> outbox_db" where
  "publish_calibration_suggested cfg trace now suggestion_id transition_version occurred_at db =
     (let event_id = ''evt_calibration_window_suggested_'' @ suggestion_id @ ''_'' @
                       string_of_int transition_version
      in bindE (publish_authorized cfg None ''calibration'' now
           (ops_command event_id ''calibration_window_suggested'' ''calibration_window_suggestion''
              suggestion_id transition_version occurred_at
              [(''calibration_window_suggestion_id'', PStr suggestion_id)] trace) db)
         (\<lambda>(_, db'). Inr (event_id, db')))"

section \<open>Events without recipients\<close>

definition publish_public_graph_source_change ::
    "outbox_cfg \<Rightarrow> string option \<Rightarrow> time \<Rightarrow> int \<Rightarrow> string \<Rightarrow> string \<Rightarrow> string \<Rightarrow> string \<Rightarrow> time \<Rightarrow>
     outbox_db \<Rightarrow> exn + string \<times> outbox_db" where
  "publish_public_graph_source_change cfg trace now source_revision manifest_id manifest_hash
       document_id change_type occurred_at db =
     (if source_revision < 1 then Inl (PlatformError ''validation_error'' 422)
      else
        let event_id = ''evt_public_graph_source_'' @ string_of_int source_revision in
        bindE (publish_authorized cfg None ''documents'' now
             (ops_command event_id ''public_graph_source_changed'' ''public_graph_source''
                ''public'' source_revision occurred_at
                [(''source_revision'', PInt source_revision),
                 (''source_manifest_id'', PStr manifest_id),
                 (''source_manifest_hash'', PStr manifest_hash),
                 (''document_id'', PStr document_id), (''change_type'', PStr change_type)] trace) db)
          (\<lambda>(_, db'). Inr (event_id, db')))"

definition publish_hard_gate_exceeded ::
    "outbox_cfg \<Rightarrow> string option \<Rightarrow> time \<Rightarrow> string \<Rightarrow> string list \<Rightarrow> int \<Rightarrow> int \<Rightarrow> int \<Rightarrow> int \<Rightarrow> time \<Rightarrow>
     outbox_db \<Rightarrow> exn + string \<times> outbox_db" where
  "publish_hard_gate_exceeded cfg trace now invocation_id space_ids cap used excess dropped
       occurred_at db =
     (let event_id = ''evt_retrieval_hard_gate_'' @ invocation_id in
      bindE (publish_authorized cfg None ''retrieval'' now
           (ops_command event_id ''retrieval_context_hard_gate_exceeded'' ''retrieval_context''
              (''hard_gate_'' @ invocation_id) 1 occurred_at
              [(''space_ids'', PList (map PStr (sort (remdups space_ids)))),
               (''cap_tokens'', PInt cap), (''used_tokens'', PInt used),
               (''excess_tokens'', PInt excess), (''dropped_hit_count'', PInt dropped)] trace) db)
        (\<lambda>(_, db'). Inr (event_id, db')))"

section \<open>Graph builds\<close>

definition optional_text :: "string option \<Rightarrow> pval" where
  "optional_text s = (case s of None \<Rightarrow> PNull | Some t \<Rightarrow> PStr t)"

definition publish_graph_completed ::
    "outbox_cfg \<Rightarrow> graph_port \<Rightarrow> string option \<Rightarrow> time \<Rightarrow> string \<Rightarrow> string \<Rightarrow> int \<Rightarrow> int \<Rightarrow> time \<Rightarrow> string \<Rightarrow>
     string option \<Rightarrow> string option \<Rightarrow> string option \<Rightarrow> outbox_db \<Rightarrow> exn + string \<times> outbox_db" where
  "publish_graph_completed cfg port trace now graph_build_id status source_revision
       transition_version occurred_at recipient_user_id graph_generation_id index_generation_id
       failure_class db =
     (let event_id = ''evt_graph_build_completed_'' @ graph_build_id @ ''_'' @
                       string_of_int transition_version
      in bindE (publish_authorized cfg port ''knowledge_graph'' now
           (direct_command event_id ''graph_build_completed'' ''graph_build_run'' graph_build_id
              transition_version occurred_at
              [(''graph_build_id'', PStr graph_build_id), (''status'', PStr status),
               (''source_revision'', PInt source_revision),
               (''graph_generation_id'', optional_text graph_generation_id),
               (''index_generation_id'', optional_text index_generation_id),
               (''failure_class'', optional_text failure_class)]
              recipient_user_id ''graph_build_run_initiator'' trace) db)
         (\<lambda>(_, db'). Inr (event_id, db')))"

section \<open>Ingestion\<close>

definition TERMINAL_TOLERATED_CONFLICTS :: "string list" where
  "TERMINAL_TOLERATED_CONFLICTS = [''outbox_fingerprint_conflict'', ''event_id_conflict'']"

definition ingestion_event_id :: "string \<Rightarrow> string \<Rightarrow> int \<Rightarrow> string" where
  "ingestion_event_id event_type job_id transition_version =
     ''evt_ingestion_'' @ event_type @ ''_'' @ job_id @ ''_'' @ string_of_int transition_version"

text \<open>
  \<open>_publish_ingestion_commands\<close>: an inactive recipient ends the loop without an error, a
  conflict of keys skips the event; \<open>ids\<close> collects the published ids.
\<close>

fun publish_ingestion_commands ::
    "outbox_cfg \<Rightarrow> string option \<Rightarrow> time \<Rightarrow> (string \<times> payload) list \<Rightarrow> string \<Rightarrow> int \<Rightarrow> string \<Rightarrow> time \<Rightarrow>
     string list \<Rightarrow> outbox_db \<Rightarrow> exn + string list \<times> outbox_db" where
  "publish_ingestion_commands cfg trace now [] job_id v recipient occurred_at ids db = Inr (ids, db)"
| "publish_ingestion_commands cfg trace now ((event_type, p) # evs) job_id v recipient occurred_at ids db =
     (let event_id = ingestion_event_id event_type job_id v in
      case publish_authorized cfg None ''ingestion'' now
             (direct_command event_id event_type ''ingestion_job'' job_id v occurred_at p recipient
                ''ingestion_job_creator'' trace) db of
        Inr (_, db') \<Rightarrow>
          publish_ingestion_commands cfg trace now evs job_id v recipient occurred_at
            (ids @ [event_id]) db'
      | Inl (PlatformError code status) \<Rightarrow>
          if code = ''recipient_account_inactive'' then Inr ([], db)
          else if code \<in> set TERMINAL_TOLERATED_CONFLICTS
          then publish_ingestion_commands cfg trace now evs job_id v recipient occurred_at ids db
          else Inl (PlatformError code status)
      | Inl e \<Rightarrow> Inl e)"

definition ingestion_payload :: "string \<Rightarrow> string \<Rightarrow> string \<Rightarrow> pval \<Rightarrow> payload" where
  "ingestion_payload job_id document_id document_version_id publication =
     [(''job_id'', PStr job_id), (''document_id'', PStr document_id),
      (''document_version_id'', PStr document_version_id), (''publication_id'', publication)]"

definition publish_ingestion_events ::
    "outbox_cfg \<Rightarrow> string option \<Rightarrow> time \<Rightarrow> string \<Rightarrow> string \<Rightarrow> string \<Rightarrow> string \<Rightarrow> int \<Rightarrow> string \<Rightarrow> time \<Rightarrow>
     bool \<Rightarrow> payload option \<Rightarrow> outbox_db \<Rightarrow> exn + string list \<times> outbox_db" where
  "publish_ingestion_events cfg trace now job_id document_id document_version_id publication_id v
       recipient occurred_at ocr_low_confidence ocr_fact db =
     (let base = ingestion_payload job_id document_id document_version_id (PStr publication_id);
          run = (\<lambda>evs. publish_ingestion_commands cfg trace now evs job_id v recipient occurred_at [] db)
      in if \<not> ocr_low_confidence then run [(''ingestion_completed'', base)]
         else case ocr_fact of
           None \<Rightarrow> Inl (PlatformError ''invalid_processing_receipt'' 422)
         | Some machine_fact \<Rightarrow>
             run [(''ingestion_completed'', base),
                  (''ocr_low_confidence'', base @
                     [(''reason'', PStr ''low_confidence''), (''status'', PStr ''degraded''),
                      (''machine_low_confidence_fact'', PDict machine_fact)])])"

definition publish_ingestion_terminal_event ::
    "outbox_cfg \<Rightarrow> string option \<Rightarrow> time \<Rightarrow> string \<Rightarrow> string \<Rightarrow> string \<Rightarrow> string \<Rightarrow> string option \<Rightarrow> int \<Rightarrow>
     string \<Rightarrow> time \<Rightarrow> string option \<Rightarrow> outbox_db \<Rightarrow> exn + string list \<times> outbox_db" where
  "publish_ingestion_terminal_event cfg trace now event_type job_id document_id document_version_id
       publication_id v recipient occurred_at reason db =
     (let base = ingestion_payload job_id document_id document_version_id (optional_text publication_id);
          why = (case reason of None \<Rightarrow> ''processing_failed''
                 | Some r \<Rightarrow> if r = [] then ''processing_failed'' else r);
          p = (if event_type = ''ingestion_failed'' then base @ [(''reason'', PStr why)] else base)
      in publish_ingestion_commands cfg trace now [(event_type, p)] job_id v recipient occurred_at [] db)"

end
