(* ===== verification/Publisher_Properties.thy ===== *)
theory Publisher_Properties
  imports Lease_Properties Outbox_Adapters
begin

text \<open>
  What the publisher promises (one event per transition, validated payloads, a first delivery
  and frozen recipients) and what a completed delivery promises its recipients.
\<close>

section \<open>One event per transition\<close>

lemma recipients_users: "publish_insert cfg c f rows now db = Inr (r, db') \<Longrightarrow> users db' = users db"
  by (auto simp: publish_insert_def Let_def split: option.splits if_splits sum.splits)

lemma publish_users:
  assumes "publish_authorized cfg port caller now cmd db = Inr (r, db')"
  shows "users db' = users db"
proof (cases "db' = db")
  case False
  obtain c where c: "publish_checks cfg port caller cmd db = Inr c"
    using assms by (auto simp: publish_authorized_def)
  have "reuse_existing c (command_fingerprint cfg c) db = None"
    using assms c False
    by (cases "reuse_existing c (command_fingerprint cfg c) db")
      (auto simp: publish_authorized_def Let_def split: sum.splits)
  then show ?thesis
    using assms c by (auto simp: publish_authorized_def Let_def dest: recipients_users)
qed simp

lemma publish_checks_users:
  assumes "users db' = users db"
  shows "publish_checks cfg port caller cmd db' = publish_checks cfg port caller cmd db"
proof -
  have f: "freeze_active_ops_recipients x db' = freeze_active_ops_recipients x db" for x
    using assms by (simp add: freeze_active_ops_recipients_def)
  show ?thesis by (simp only: publish_checks_def f)
qed

text \<open>After a publication, the lookup on the transition key finds its event.\<close>

lemma published_lookup:
  assumes res: "publish_authorized cfg port caller now cmd db = Inr (r, db')"
    and chk: "publish_checks cfg port caller cmd db = Inr c"
  shows "\<exists>ev. sql_first (\<lambda>e. transition_key e = command_key c) (events db') = Some ev
    \<and> ev_event_id ev = pr_event_id r \<and> ev_payload_fingerprint ev = command_fingerprint cfg c
    \<and> pr_fingerprint r = command_fingerprint cfg c"
  using res
proof (cases rule: publish_cases)
  case reused
  then show ?thesis
    using res chk
    by (auto simp: publish_authorized_def Let_def reuse_existing_def publish_insert_def
        split: option.splits if_splits sum.splits)
next
  case (fresh c' rows)
  then have c: "c' = c" using chk by simp
  have "sql_first (\<lambda>e. transition_key e = command_key c) (events db) = None"
    using fresh(8) c by (force simp: sql)
  then show ?thesis
    using fresh c by (auto simp: sql_first_append event_row_of_def transition_key_def command_key_def)
qed

text \<open>Publishing is idempotent on the event key. Once a transition has been published,
  publishing it again, at any time, returns the same event id marked as reused and changes
  nothing; a command for the same transition whose content has another fingerprint is refused
  with a conflict.\<close>

theorem publish_once:
  assumes "publish_authorized cfg port caller now cmd db = Inr (receipt, db')"
  shows "publish_authorized cfg port caller now' cmd db' = Inr (receipt\<lparr>pr_reused := True\<rparr>, db')
     \<and> (\<forall>caller2 cmd2 c2 c. publish_checks cfg port caller2 cmd2 db' = Inr c2
          \<and> publish_checks cfg port caller cmd db = Inr c
          \<and> command_key c2 = command_key c \<and> command_fingerprint cfg c2 \<noteq> command_fingerprint cfg c \<longrightarrow>
          publish_authorized cfg port caller2 now' cmd2 db' =
            Inl (PlatformError ''outbox_fingerprint_conflict'' 409))"
proof -
  obtain c where c: "publish_checks cfg port caller cmd db = Inr c"
    using assms by (auto simp: publish_authorized_def)
  obtain ev where ev: "sql_first (\<lambda>e. transition_key e = command_key c) (events db') = Some ev"
      "ev_event_id ev = pr_event_id receipt" "ev_payload_fingerprint ev = command_fingerprint cfg c"
      "pr_fingerprint receipt = command_fingerprint cfg c"
    using published_lookup [OF assms c] by blast
  have c': "publish_checks cfg port caller cmd db' = Inr c"
    using c publish_checks_users [OF publish_users [OF assms]] by simp
  have "publish_authorized cfg port caller now' cmd db' = Inr (receipt\<lparr>pr_reused := True\<rparr>, db')"
    using c' ev by (cases receipt) (simp add: publish_authorized_def reuse_existing_def Let_def)
  moreover have "publish_authorized cfg port caller2 now' cmd2 db' =
      Inl (PlatformError ''outbox_fingerprint_conflict'' 409)"
    if "publish_checks cfg port caller2 cmd2 db' = Inr c2" "command_key c2 = command_key c"
      "command_fingerprint cfg c2 \<noteq> command_fingerprint cfg c" for caller2 cmd2 c2
    using that ev by (auto simp: publish_authorized_def reuse_existing_def Let_def)
  ultimately show ?thesis using c by auto
qed

theorem publish_once_witness:
  "\<exists>receipt. publish_authorized ex_cfg None ''ingestion'' 77 ex_command ex_published_db =
     Inr (receipt, ex_published_db) \<and> pr_reused receipt"
  using publish_once [OF ex_publish, of 77] by simp

section \<open>What is published\<close>

text \<open>A key occurs in a value at some depth.\<close>

inductive has_key :: "string \<Rightarrow> pval \<Rightarrow> bool" where
  here: "(k, v) \<in> set kvs \<Longrightarrow> has_key k (PDict kvs)"
| inner: "(k', v) \<in> set kvs \<Longrightarrow> has_key k v \<Longrightarrow> has_key k (PDict kvs)"
| elem: "v \<in> set vs \<Longrightarrow> has_key k v \<Longrightarrow> has_key k (PList vs)"

lemma sensitive_iff: "sensitive_content v \<longleftrightarrow> (\<exists>k. has_key k v \<and> casefold k \<in> set SENSITIVE_KEYS)"
proof
  show "sensitive_content v \<Longrightarrow> \<exists>k. has_key k v \<and> casefold k \<in> set SENSITIVE_KEYS"
    by (induction v rule: sensitive_content.induct) (fastforce intro: has_key.intros)+
next
  assume "\<exists>k. has_key k v \<and> casefold k \<in> set SENSITIVE_KEYS"
  then obtain k where "has_key k v" "casefold k \<in> set SENSITIVE_KEYS" by blast
  then show "sensitive_content v"
    by (induction rule: has_key.induct) (auto intro: rev_bexI)
qed

lemma checks_validate:
  assumes "publish_checks cfg port caller cmd db = Inr c"
  shows "validate_payload (pc_event_type c) (pc_schema_version c) (pc_payload c) = Inr ()"
    and "\<exists>producers aggregate. map_of PRODUCER_MATRIX (pc_event_type c) = Some (producers, aggregate)
           \<and> caller \<in> set producers \<and> pc_aggregate_type c = aggregate"
    and "recipients_valid c"
    and "pc_event_type c \<in> set NOTIFICATION_EVENT_TYPES \<union> set OUTBOX_ONLY_EVENT_TYPES"
proof -
  have frz: "pc_event_type (freeze_active_ops_recipients x db) = pc_event_type x"
    "pc_schema_version (freeze_active_ops_recipients x db) = pc_schema_version x"
    "pc_payload (freeze_active_ops_recipients x db) = pc_payload x"
    "pc_aggregate_type (freeze_active_ops_recipients x db) = pc_aggregate_type x" for x
    by (simp_all add: freeze_active_ops_recipients_def)
  obtain x producers aggregate where
      v: "validate_payload (pc_event_type x) (pc_schema_version x) (pc_payload x) = Inr ()"
      and t: "pc_event_type x \<in> set NOTIFICATION_EVENT_TYPES \<union> set OUTBOX_ONLY_EVENT_TYPES"
      and m: "map_of PRODUCER_MATRIX (pc_event_type x) = Some (producers, aggregate)"
        "caller \<in> set producers" "pc_aggregate_type x = aggregate"
      and c: "c = freeze_active_ops_recipients x db" "recipients_valid c"
    using assms unfolding publish_checks_def Let_def bindE_Inr require_Inr
    by (fastforce split: option.splits prod.splits simp del: Un_iff)
  show "validate_payload (pc_event_type c) (pc_schema_version c) (pc_payload c) = Inr ()"
    "\<exists>producers aggregate. map_of PRODUCER_MATRIX (pc_event_type c) = Some (producers, aggregate)
       \<and> caller \<in> set producers \<and> pc_aggregate_type c = aggregate"
    "recipients_valid c"
    "pc_event_type c \<in> set NOTIFICATION_EVENT_TYPES \<union> set OUTBOX_ONLY_EVENT_TYPES"
    using v t m c by (simp_all add: frz)
qed

text \<open>C5: nothing sensitive gets into the outbox. Every newly published event was produced by
  a caller its family allows, its payload has only the fields of its schema with every required
  field present, and no object at any depth of the payload has a sensitive key, whatever its
  letter case.\<close>

theorem published_payload_validated:
  assumes "publish_authorized cfg port caller now cmd db = Inr (receipt, db')" and "\<not> pr_reused receipt"
  shows "\<exists>ev p schema producers aggregate. ev \<in> set (events db') \<and> ev_event_id ev = pr_event_id receipt
     \<and> ev_payload ev = Some p \<and> map_of PAYLOAD_SCHEMAS (ev_event_type ev) = Some schema
     \<and> set (map fst p) \<subseteq> set (map fst schema)
     \<and> (\<forall>(field, ty, nullable) \<in> set schema. if pget field p = PNull then nullable else has_type ty (pget field p))
     \<and> (\<forall>k. has_key k (PDict p) \<longrightarrow> casefold k \<notin> set SENSITIVE_KEYS)
     \<and> map_of PRODUCER_MATRIX (ev_event_type ev) = Some (producers, aggregate)
     \<and> caller \<in> set producers \<and> ev_aggregate_type ev = aggregate"
  using assms(1)
proof (cases rule: publish_cases)
  case reused
  then show ?thesis using assms(2) by simp
next
  case (fresh c rows)
  let ?ev = "event_row_of cfg c (command_fingerprint cfg c) now"
  note chk = checks_validate [OF fresh(1)]
  obtain schema where schema: "map_of PAYLOAD_SCHEMAS (pc_event_type c) = Some schema"
      "set (map fst (pc_payload c)) \<subseteq> set (map fst schema)" "\<not> sensitive_content (PDict (pc_payload c))"
      "list_all (field_ok (pc_payload c)) schema"
    using chk(1) by (auto simp: validate_payload_def split: option.splits if_splits)
  obtain producers aggregate where prod:
      "map_of PRODUCER_MATRIX (pc_event_type c) = Some (producers, aggregate)"
      "caller \<in> set producers" "pc_aggregate_type c = aggregate"
    using chk(2) by blast
  have "\<forall>(field, ty, nullable) \<in> set schema.
      if pget field (pc_payload c) = PNull then nullable else has_type ty (pget field (pc_payload c))"
    using schema(4) by (auto simp: list_all_iff field_ok_def Let_def)
  moreover have "?ev \<in> set (events db')" using fresh(9) by simp
  moreover have "\<forall>k. has_key k (PDict (pc_payload c)) \<longrightarrow> casefold k \<notin> set SENSITIVE_KEYS"
    using schema(3) sensitive_iff by blast
  ultimately show ?thesis
    using schema(1,2) prod fresh(2)
    by (intro exI [of _ ?ev] exI [of _ "pc_payload c"] exI [of _ schema] exI [of _ producers] exI [of _ aggregate])
      (simp add: event_row_of_def)
qed

theorem published_payload_validated_witness:
  "\<exists>ev p. ev \<in> set (events ex_published_db) \<and> ev_payload ev = Some p \<and> \<not> has_key ''Title'' (PDict p)"
proof -
  have "casefold ''Title'' \<in> set SENSITIVE_KEYS" by code_simp
  then show ?thesis using published_payload_validated [OF ex_publish] by fastforce
qed

lemma recipient_records_map:
  "recipient_records c now db rs = Inr rows \<Longrightarrow>
     map rc_user_id rows = map rs_recipient_user_id rs \<and> (\<forall>r \<in> set rows. rc_event_id r = pc_event_id c)"
proof (induction rs arbitrary: rows)
  case (Cons s rs)
  then obtain row rows' where r: "recipient_record c now db s = Inr row"
      "recipient_records c now db rs = Inr rows'" "rows = row # rows'"
    by auto
  have "rc_user_id row = rs_recipient_user_id s \<and> rc_event_id row = pc_event_id c"
    using r(1) by (auto simp: recipient_record_def split: if_splits option.splits)
  then show ?case using Cons.IH [OF r(2)] r(3) by simp
qed simp

lemma insert_recipients_append: "insert_recipients rows t = Some t' \<Longrightarrow> t' = t @ rows"
proof (induction rows arbitrary: t)
  case (Cons r rows)
  then have "insert_recipients rows (t @ [r]) = Some t'"
    by (auto simp: sql_insert_def split: if_splits)
  then show ?case using Cons.IH by fastforce
qed simp

text \<open>A new event appears in one transaction with its frozen recipients, one per
  selection, and with exactly one delivery, pending and due at once, unless its family is
  outbox-only, which has none and is scheduled for compaction instead. No other delivery,
  attempt or event changes.\<close>

theorem publish_effect:
  assumes "publish_authorized cfg port caller now cmd db = Inr (receipt, db')" and "\<not> pr_reused receipt"
    and "publish_checks cfg port caller cmd db = Inr c"
  shows "\<exists>ev rows. events db' = events db @ [ev] \<and> ev_event_id ev = pr_event_id receipt
     \<and> ev_storage_state ev = Full
     \<and> recipients db' = recipients db @ rows
     \<and> map rc_user_id rows = map rs_recipient_user_id (pc_recipients c)
     \<and> (\<forall>r \<in> set rows. rc_event_id r = pr_event_id receipt)
     \<and> attempts db' = attempts db
     \<and> (if pc_event_type c \<in> set OUTBOX_ONLY_EVENT_TYPES
        then deliveries db' = deliveries db \<and> ev_compact_after_at ev = Some (now + days (cf_retention_days cfg))
          \<and> rows = []
        else \<exists>d. deliveries db' = deliveries db @ [d] \<and> delivery_key d = (pr_event_id receipt, V1_CONSUMER)
          \<and> dl_status d = Pending \<and> claimable now d \<and> ev_compact_after_at ev = None)"
  using assms(1)
proof (cases rule: publish_cases)
  case reused
  then show ?thesis using assms(2) by simp
next
  case (fresh c' rows)
  then have c: "c' = c" using assms(3) by simp
  let ?ev = "event_row_of cfg c (command_fingerprint cfg c) now"
  have none: "rows = []" if "pc_event_type c \<in> set OUTBOX_ONLY_EVENT_TYPES"
  proof -
    have "pc_recipients c = []"
      using checks_validate(3) [OF assms(3)] that by (simp add: recipients_valid_def Let_def)
    then show ?thesis using fresh(5) c by simp
  qed
  show ?thesis
    using fresh c recipient_records_map [OF fresh(5)] insert_recipients_append [OF fresh(6)] none
    by (intro exI [of _ ?ev] exI [of _ rows])
      (auto simp: event_row_of_def first_delivery_def key_defs claimable_def)
qed

theorem publish_effect_witness:
  "length (recipients ex_published_db) = 1 \<and> length (deliveries ex_published_db) = 1"
proof -
  have c: "publish_checks ex_cfg None ''ingestion'' ex_command ex_user_db = Inr ex_command" by code_simp
  have t: "pc_event_type ex_command \<notin> set OUTBOX_ONLY_EVENT_TYPES"
    by (simp add: ex_command_def OUTBOX_ONLY_EVENT_TYPES_def)
  have r: "map rs_recipient_user_id (pc_recipients ex_command) = [''u'']" by (simp add: ex_command_def)
  have "recipients ex_user_db = []" "deliveries ex_user_db = []"
    by (simp_all add: ex_user_db_def empty_db_def)
  then show ?thesis using publish_effect [OF ex_publish _ c] t r by auto
qed

section \<open>What a delivery achieves\<close>

text \<open>
  Every outcome a recipient of an event can end with: a notification, a permanent receipt for
  one that was retired, or a recorded suppression.
\<close>

definition settled_for :: "string \<Rightarrow> string \<Rightarrow> outbox_db \<Rightarrow> bool" where
  "settled_for e u db \<longleftrightarrow>
     (\<exists>n \<in> set (notifications db). nt_event_id n = e \<and> nt_user_id n = u)
     \<or> receipted e u db \<or> (\<exists>s \<in> set (suppressions db). sp_event_id s = e \<and> sp_user_id s = u)"

lemma settled_trim:
  assumes "keyed notification_key (notifications db)" and "settled_for e u db"
  shows "settled_for e u (trim_over_cap cfg w now db)"
  using assms retire_all_receipts [OF assms(1)] receipted_retire_all
  unfolding settled_for_def trim_over_cap_def Let_def by (metis retire_all_suppressions)

lemma materialize_settles:
  assumes inv: "inbox_inv db" and res: "materialize cfg event r nid ty title did vid red now db = Inr (x, db')"
  shows "settled_for (ev_event_id event) (rc_user_id r) db'"
    and "settled_for e u db \<Longrightarrow> settled_for e u db'"
proof -
  show "settled_for (ev_event_id event) (rc_user_id r) db'"
    using res
  proof (cases rule: materialize_cases)
    case (suppressed reason)
    then show ?thesis using suppress_cases [OF suppressed(2)] by (auto simp: settled_for_def key_defs)
  next
    case (created m)
    then show ?thesis using materialize_new_present [OF inv created(2)] by (auto simp: settled_for_def)
  qed (auto simp: settled_for_def)
next
  assume s: "settled_for e u db"
  from res show "settled_for e u db'"
  proof (cases rule: materialize_cases)
    case (suppressed reason)
    then show ?thesis
      using suppress_cases [OF suppressed(2)] s by (auto simp: settled_for_def receipted_def)
  next
    case (known n)
    then show ?thesis using s by simp
  next
    case (created m)
    from created(2) show ?thesis
    proof (rule materialize_new_cases)
      fix n
      assume db': "db' = trim_over_cap cfg (rc_user_id r) now
          (snd (next_sequence (rc_user_id r) db)\<lparr>notifications := notifications db @ [n]\<rparr>)"
        and fresh: "notification_key n \<notin> notification_key ` set (notifications db)"
      have "keyed notification_key (notifications db @ [n])"
        using inv fresh by (auto simp: inbox_inv_def keyed_def)
      moreover have "settled_for e u (snd (next_sequence (rc_user_id r) db)\<lparr>notifications := notifications db @ [n]\<rparr>)"
        using s by (auto simp: settled_for_def receipted_def)
      ultimately show ?thesis unfolding db' by (intro settled_trim) simp_all
    qed
  qed
qed

lemma materialize_all_settles:
  assumes "inbox_inv db" and "materialize_all cfg event c title red now ids rs k db = Inr db'"
  shows "(\<forall>r \<in> set rs. settled_for (ev_event_id event) (rc_user_id r) db')
     \<and> (\<forall>e u. settled_for e u db \<longrightarrow> settled_for e u db')"
  using assms
proof (induction rs arbitrary: k db)
  case (Cons r rs)
  obtain x db1 where m: "materialize cfg event r (ids k)
        (case cl_notification_type c of Some t \<Rightarrow> if t = [] then ''unknown'' else t | None \<Rightarrow> ''unknown'')
        title (cl_document_id c) (cl_document_version_id c) red now db = Inr (x, db1)"
      and rest: "materialize_all cfg event c title red now ids rs (Suc k) db1 = Inr db'"
    using Cons.prems(2) by (auto split: sum.splits)
  show ?case
    using Cons.IH [OF materialize_inv [OF Cons.prems(1) m] rest] materialize_settles [OF Cons.prems(1) m]
    by simp
qed simp

text \<open>C4: a delivery that is recorded as delivered has served every recipient: each one has
  the notification, or a receipt of it, or a recorded suppression with its reason; the row is
  delivered with its lease released, and nothing else was claimed, stopped or lost.\<close>

theorem delivered_reaches_every_recipient:
  assumes "inbox_inv db" and "tables_inv db" and "run_consumer_and_finalize cfg c owner env db = Inr (out, db')"
    and "oc_status out = O_delivered" and "cl_consumer_name c = V1_CONSUMER"
  shows "(\<forall>r \<in> set (recipients db). rc_event_id r = cl_event_id c \<longrightarrow> settled_for (cl_event_id c) (rc_user_id r) db')
     \<and> (\<exists>d \<in> set (deliveries db'). delivery_key d = claim_key c \<and> dl_status d = Delivered \<and> dl_lease_owner d = None)
     \<and> (\<forall>d \<in> set (deliveries db). delivery_key d \<noteq> claim_key c \<longrightarrow> d \<in> set (deliveries db'))"
  using assms(3)
proof (cases rule: run_cases)
  case (failed cat code)
  then show ?thesis using fail_effect(7) [OF failed] assms(4) by (simp split: if_splits)
next
  case delivered
  obtain db1 where m: "materialize_event cfg c (re_now env) (re_ids env) db = Inr db1"
      and same: "notifications db' = notifications db1" "receipts db' = receipts db1" "suppressions db' = suppressions db1"
    using delivered(1)
    by (auto simp: finalize_tx_def Let_def maybe_freeze_compaction_def split: if_splits option.splits sum.splits)
  have settled: "settled_for (cl_event_id c) (rc_user_id r) db1"
    if "r \<in> set (recipients db)" "rc_event_id r = cl_event_id c" for r
  proof -
    let ?rs = "recipients_for (cl_event_id c) db"
    let ?db0 = "if ?rs = [] then record_metric cfg (re_now env) ''outbox.deliveries.zero_recipients''
                     (Some (cl_event_id c)) None db else db"
    have inv0: "inbox_inv ?db0" using assms(1) by (simp add: inbox_inv_def)
    obtain event title red where e: "ev_event_id event = cl_event_id c"
        "materialize_all cfg event c title red (re_now env) (re_ids env) ?rs 0 ?db0 = Inr db1"
      using m assms(5) by (auto simp: materialize_event_def Let_def dest: sql_first_Some split: option.splits)
    have "r \<in> set ?rs" using that by (simp add: recipients_for_def)
    then show ?thesis using materialize_all_settles [OF inv0 e(2)] e(1) by auto
  qed
  note eff = finalize_effect [OF delivered(1)]
  obtain d where d: "d \<in> set (deliveries db)" "live_fence_matches c owner (re_now env) d"
      and ds: "set (deliveries db') = insert (delivered_row c (re_now env) d) (set (deliveries db) - {d})"
    unfolding eff(5) by (rule one_row [OF delivery_invD(1) [OF assms(2)] eff(1) live_fence_key])
  have k: "delivery_key d = claim_key c" using live_fence_key [OF d(2)] by (simp add: claim_key_def)
  have "\<exists>d \<in> set (deliveries db'). delivery_key d = claim_key c \<and> dl_status d = Delivered \<and> dl_lease_owner d = None"
    by (rule bexI [of _ "delivered_row c (re_now env) d"]) (use k ds in \<open>auto simp: delivered_row_def key_defs\<close>)
  moreover have "\<forall>x \<in> set (deliveries db). delivery_key x \<noteq> claim_key c \<longrightarrow> x \<in> set (deliveries db')"
    using ds k by auto
  moreover have "settled_for (cl_event_id c) (rc_user_id r) db'"
    if "r \<in> set (recipients db)" "rc_event_id r = cl_event_id c" for r
    using settled [OF that] same by (simp add: settled_for_def receipted_def)
  ultimately show ?thesis by blast
qed

theorem delivered_reaches_every_recipient_witness:
  "settled_for ''e'' ''u'' ex_delivered_db \<and> length (notifications ex_delivered_db) = 1"
proof -
  have i: "inbox_inv ex_leased_db"
    by (simp add: inbox_inv_def ex_leased_db_def ex_published_db_def ex_user_db_def empty_db_def)
  have t: "tables_inv ex_leased_db"
    using sys_invD(1) [OF reachable_inv [OF ex_reach_leased initial_inv]] by (simp add: ex_leased_sys_def)
  have id: "cl_event_id ex_lease = ''e''" "cl_consumer_name ex_lease = V1_CONSUMER"
    by (simp_all add: ex_lease_def ex_claim_def)
  have "settled_for ''e'' ''u'' ex_delivered_db"
    using delivered_reaches_every_recipient [OF i t ex_delivered _ id(2)] id(1)
    by (simp add: ex_leased_db_def ex_published_db_def)
  moreover have "length (notifications ex_delivered_db) = 1" by (simp add: ex_delivered_db_def)
  ultimately show ?thesis by blast
qed

end
