(* ===== verification/Outbox_Read_Model.thy ===== *)
theory Outbox_Read_Model
  imports Outbox_System
begin

text \<open>
  The invariant of the notification read model over every reachable state of the outbox:
  unique notifications, sequence numbers below the inbox counter, redacted rows without
  content, no readable notification of a tombstoned document version, and none at all of a
  retired account. Every step of the system keeps it.
\<close>

section \<open>The invariant\<close>

definition named_by :: "notification_row \<Rightarrow> doc_tombstone_row \<Rightarrow> bool" where
  "named_by n t \<longleftrightarrow> nt_document_id n = Some (dt_document_id t)
     \<and> nt_document_version_id n = Some (dt_document_version_id t)"

definition note_ok :: "doc_tombstone_row list \<Rightarrow> retirement_tombstone_row list \<Rightarrow> notification_row \<Rightarrow> bool" where
  "note_ok dts rts n \<longleftrightarrow>
     (nt_redacted n \<longrightarrow> nt_title n = DELETED_DOCUMENT_TITLE \<and> nt_payload n = [])
     \<and> (\<forall>t \<in> set dts. named_by n t \<longrightarrow> nt_redacted n) \<and> nt_user_id n \<notin> tb_user_id ` set rts"

definition read_inv :: "outbox_db \<Rightarrow> bool" where
  "read_inv db \<longleftrightarrow> inbox_inv db
     \<and> (\<forall>n \<in> set (notifications db). note_ok (doc_tombstones db) (retirement_tombstones db) n)"

lemma read_invD:
  assumes "read_inv db"
  shows "inbox_inv db"
    "\<And>n. n \<in> set (notifications db) \<Longrightarrow> note_ok (doc_tombstones db) (retirement_tombstones db) n"
  using assms by (auto simp: read_inv_def)

text \<open>The tables the invariant reads.\<close>

definition read_part :: "outbox_db \<Rightarrow>
    notification_row list \<times> inbox_row list \<times> doc_tombstone_row list
      \<times> retirement_tombstone_row list \<times> redaction_row list" where
  "read_part db =
     (notifications db, inboxes db, doc_tombstones db, retirement_tombstones db, redactions db)"

lemma read_inv_cong: "read_part db' = read_part db \<Longrightarrow> read_inv db' = read_inv db"
  by (simp add: read_part_def read_inv_def inbox_inv_def)

lemma read_inv_metrics [simp]: "read_inv (record_metric cfg now n ev v db) = read_inv db"
  by (rule read_inv_cong) (simp add: read_part_def)

section \<open>Operations that leave the read model alone\<close>

lemma publish_insert_read_part:
  assumes "publish_insert cfg c f rows now db = Inr (receipt, db')"
  shows "read_part db' = read_part db"
proof -
  let ?row = "event_row_of cfg c f now"
  define t where "t = (if transition_key ?row \<in> transition_key ` set (events db) then None
    else sql_insert event_key ?row (events db))"
  note res = assms [unfolded publish_insert_def Let_def, folded t_def]
  show ?thesis
  proof (cases t)
    case None
    then show ?thesis using res by (auto split: option.splits sum.splits)
  next
    case (Some es)
    then obtain rt where "insert_recipients rows (recipients db) = Some rt"
      using res by (auto split: option.splits)
    then show ?thesis
      using res Some by (auto simp: read_part_def split: option.splits if_splits)
  qed
qed

lemma publish_read_part:
  assumes "publish_authorized cfg port caller now cmd db = Inr (receipt, db')"
  shows "read_part db' = read_part db"
  using assms publish_insert_read_part
  by (fastforce simp: publish_authorized_def Let_def bindE_def split: option.splits sum.splits)

lemma claim_read_part:
  assumes "claim_one cfg skip owner now limit aid db = Inr (Some c, db')"
  shows "read_part db' = read_part db" "cl_redacted_title c = DELETED_DOCUMENT_TITLE"
proof -
  obtain row where r: "claim_row cfg (py_strip owner) now aid row db = Inr (Some c, db')"
    using claim_one_row [OF assms] by metis
  show "read_part db' = read_part db" "cl_redacted_title c = DELETED_DOCUMENT_TITLE"
    using r by (auto simp: claim_row_def read_part_def Let_def split: option.splits if_splits)
qed

lemma fail_read_part:
  assumes "fail_and_schedule cfg c owner cat code t0 now u db = Inr (oc, db')"
  shows "read_part db' = read_part db"
  using assms
  by (auto simp: fail_and_schedule_def alert_dead_letter_def read_part_def Let_def
      split: prod.splits if_splits option.splits)

lemma renew_read_part:
  assumes "renew_lease cfg c owner now db = (r, db')"
  shows "read_part db' = read_part db"
  using assms by (auto simp: renew_lease_def read_part_def Let_def split: if_splits)

lemma recycle_read_part: "read_part (snd (recycle_expired_running cfg now u limit db)) = read_part db"
proof -
  have row: "read_part (snd (recycle_row cfg now u r (k, x))) = read_part x" for r k x
    by (simp add: recycle_row_def alert_dead_letter_def read_part_def Let_def)
  have "read_part (snd (fold (recycle_row cfg now u) rows (k, x))) = read_part x" for rows k x
  proof (induction rows arbitrary: k x)
    case (Cons r rows)
    obtain k' y where y: "recycle_row cfg now u r (k, x) = (k', y)" by fastforce
    then show ?case using Cons.IH [of k' y] row [of r k x] by simp
  qed simp
  then show ?thesis by (simp add: recycle_expired_running_def)
qed

lemma replay_read_part:
  assumes "replay cfg e cn v key hash now db = Inr (resp, db')"
  shows "read_part db' = read_part db"
  using assms
  by (auto simp: replay_def read_part_def Let_def split: option.splits if_splits bool.splits)

lemma compact_event_read_part:
  assumes "compact_event cfg e now db = Inr (b, db')"
  shows "read_part db' = read_part db"
  using assms
  by (auto simp: compact_event_def write_suppression_receipts_def read_part_def Let_def
      split: option.splits if_splits)

lemma compact_due_read_part:
  assumes "compact_due_events cfg now db = Inr (k, db')"
  shows "read_part db' = read_part db"
  by (rule compact_due_induct [OF assms, where P = "\<lambda>x. read_part x = read_part db"])
    (simp_all add: read_part_def compact_event_read_part [unfolded read_part_def])

lemma compaction_read_part:
  assumes "request_compaction cfg c now db = Inr (r, db') \<or> apply_compaction_command cfg oid now db = Inr (st, db')"
  shows "read_part db' = read_part db"
  by (rule compaction_induct [OF assms, where P = "\<lambda>x. read_part x = read_part db"])
    (simp_all add: read_part_def compact_event_read_part [unfolded read_part_def])

lemma freeze_read_part: "read_part (maybe_freeze_compaction cfg e db) = read_part db"
  by (auto simp: maybe_freeze_compaction_def read_part_def split: option.splits)

section \<open>Retirement of notifications\<close>

lemma read_inv_subset:
  assumes "read_inv db" and "inbox_inv db'" and "set (notifications db') \<subseteq> set (notifications db)"
    and "doc_tombstones db' = doc_tombstones db" "retirement_tombstones db' = retirement_tombstones db"
  shows "read_inv db'"
  using assms by (auto simp: read_inv_def)

lemma retire_all_read_inv:
  assumes "read_inv db"
  shows "read_inv (snd (retire_all cfg now is (k, db)))"
proof (rule read_inv_subset [OF assms])
  show "inbox_inv (snd (retire_all cfg now is (k, db)))"
    using read_invD(1) [OF assms] by (auto simp: inbox_inv_def intro: keyed_filter)
qed auto

lemma retire_due_read_inv:
  assumes "read_inv db"
  shows "read_inv (snd (retire_due cfg cap now limit db))"
proof -
  have t: "read_inv (snd (trim_users cfg cap now limit us (n, x)))" if "read_inv x" for us n x
    using that
  proof (induction us arbitrary: n x)
    case (Cons u us)
    let ?r = "retire_all cfg now (map nt_id (drop cap (online_desc u now x))) (n, x)"
    have "read_inv (snd (trim_users cfg cap now limit us (fst ?r, snd ?r)))"
      by (rule Cons.IH [OF retire_all_read_inv [OF Cons.prems]])
    then show ?case using Cons.prems by simp
  qed simp
  let ?e = "retire_all cfg now (expired_ids now limit db) (0, db)"
  obtain n y where y: "?e = (n, y)" by fastforce
  then have "read_inv y" using retire_all_read_inv [OF assms] by (metis snd_conv)
  then show ?thesis using t by (simp add: retire_due_def y)
qed

section \<open>Materialization\<close>

lemma materialize_new_read_inv:
  assumes inv: "read_inv db" and user: "u \<notin> tb_user_id ` set (retirement_tombstones db)"
    and title: "red \<longrightarrow> title = DELETED_DOCUMENT_TITLE"
    and named: "\<forall>t \<in> set (doc_tombstones db). did = Some (dt_document_id t)
       \<and> vid = Some (dt_document_version_id t) \<longrightarrow> red"
    and res: "materialize_new cfg event u nid ty title did vid red now db = Inr (m, db')"
  shows "read_inv db'" "doc_tombstones db' = doc_tombstones db"
    "retirement_tombstones db' = retirement_tombstones db"
proof -
  note i = materialize_new_inv [OF read_invD(1) [OF inv] res]
  from res have "read_inv db' \<and> doc_tombstones db' = doc_tombstones db
      \<and> retirement_tombstones db' = retirement_tombstones db"
  proof (rule materialize_new_cases, goal_cases)
    case (1 n)
    then have sub: "set (notifications db') \<subseteq> insert n (set (notifications db))"
      and same: "doc_tombstones db' = doc_tombstones db" "retirement_tombstones db' = retirement_tombstones db"
      by (auto simp: trim_notifications)
    have n: "note_ok (doc_tombstones db) (retirement_tombstones db) n"
      using 1 title named user by (auto simp: note_ok_def named_by_def)
    then show ?thesis
      using i inv sub same by (auto simp: read_inv_def)
  qed
  then show "read_inv db'" "doc_tombstones db' = doc_tombstones db"
    "retirement_tombstones db' = retirement_tombstones db" by simp_all
qed

lemma materialize_read_inv:
  assumes inv: "read_inv db"
    and title: "red \<longrightarrow> title = DELETED_DOCUMENT_TITLE"
    and named: "\<forall>t \<in> set (doc_tombstones db). did = Some (dt_document_id t)
       \<and> vid = Some (dt_document_version_id t) \<longrightarrow> red"
    and res: "materialize cfg event r nid ty title did vid red now db = Inr (x, db')"
  shows "read_inv db' \<and> doc_tombstones db' = doc_tombstones db
     \<and> retirement_tombstones db' = retirement_tombstones db"
  using res
proof (cases rule: materialize_cases)
  case (suppressed reason)
  then show ?thesis
    using suppress_cases [OF suppressed(2)] inv by (auto simp: read_inv_def)
next
  case (created m)
  show ?thesis using materialize_new_read_inv [OF inv created(3) title named created(2)] by blast
qed (use inv in simp)

lemma materialize_all_read_inv:
  assumes "materialize_all cfg event c title red now ids rs k db = Inr db'" and "read_inv db"
    and title: "red \<longrightarrow> title = DELETED_DOCUMENT_TITLE"
    and "\<forall>t \<in> set (doc_tombstones db). cl_document_id c = Some (dt_document_id t)
       \<and> cl_document_version_id c = Some (dt_document_version_id t) \<longrightarrow> red"
  shows "read_inv db'"
  using assms(1,2,4)
proof (induction rs arbitrary: k db)
  case (Cons r rs)
  let ?ty = "case cl_notification_type c of Some t \<Rightarrow> if t = [] then ''unknown'' else t | None \<Rightarrow> ''unknown''"
  obtain x db1 where m: "materialize cfg event r (ids k) ?ty title (cl_document_id c)
        (cl_document_version_id c) red now db = Inr (x, db1)"
      and rest: "materialize_all cfg event c title red now ids rs (Suc k) db1 = Inr db'"
    using Cons.prems(1) by (auto split: sum.splits)
  have "read_inv db1" "doc_tombstones db1 = doc_tombstones db"
    using materialize_read_inv [OF Cons.prems(2) title Cons.prems(3) m] by blast+
  then show ?case using Cons.IH [OF rest] Cons.prems(3) by simp
qed simp

lemma materialize_event_cases:
  assumes "materialize_event cfg c now ids db = Inr db'" and "cl_consumer_name c = V1_CONSUMER"
  obtains event db1 where
    "db1 = db \<or> db1 = record_metric cfg now ''outbox.deliveries.zero_recipients'' (Some (cl_event_id c)) None db"
    "materialize_all cfg event c (materialization_title c (event_redacted c db1) db1) (event_redacted c db1)
       now ids (recipients_for (cl_event_id c) db) 0 db1 = Inr db'"
proof -
  define db1 where "db1 = (if recipients_for (cl_event_id c) db = []
     then record_metric cfg now ''outbox.deliveries.zero_recipients'' (Some (cl_event_id c)) None db else db)"
  obtain event where "materialize_all cfg event c (materialization_title c (event_redacted c db1) db1)
      (event_redacted c db1) now ids (recipients_for (cl_event_id c) db) 0 db1 = Inr db'"
    using assms by (auto simp: materialize_event_def db1_def Let_def split: option.splits)
  then show thesis by (rule that [rotated]) (simp add: db1_def)
qed

lemma materialize_event_read_inv:
  assumes inv: "read_inv db" and title: "cl_redacted_title c = DELETED_DOCUMENT_TITLE"
    and res: "materialize_event cfg c now ids db = Inr db'"
  shows "read_inv db'"
proof (cases "cl_consumer_name c = V1_CONSUMER")
  case False
  then show ?thesis using res inv by (simp add: materialize_event_def)
next
  case True
  obtain event db1 where "db1 = db \<or> db1 = record_metric cfg now ''outbox.deliveries.zero_recipients'' (Some (cl_event_id c)) None db"
      and all: "materialize_all cfg event c (materialization_title c (event_redacted c db1) db1)
        (event_redacted c db1) now ids (recipients_for (cl_event_id c) db) 0 db1 = Inr db'"
    by (rule materialize_event_cases [OF res True])
  then have inv1: "read_inv db1" using inv by auto
  from all show ?thesis
    by (rule materialize_all_read_inv [OF _ inv1])
      (use title in \<open>auto simp: materialization_title_def event_redacted_def\<close>)
qed

lemma run_read_inv:
  assumes inv: "read_inv db" and title: "cl_redacted_title c = DELETED_DOCUMENT_TITLE"
    and res: "run_consumer_and_finalize cfg c owner env db = Inr (oc, db')"
  shows "read_inv db'"
  using res
proof (cases rule: run_cases)
  case (failed cat code)
  then show ?thesis using inv read_inv_cong [OF fail_read_part] by blast
next
  case delivered
  obtain db1 where m: "materialize_event cfg c (re_now env) (re_ids env) db = Inr db1"
      and same: "read_part db' = read_part db1"
    using delivered(1)
    by (auto simp: finalize_tx_def Let_def freeze_read_part split: if_splits option.splits sum.splits)
      (simp add: read_part_def)
  show ?thesis
    using materialize_event_read_inv [OF inv title m] read_inv_cong [OF same] by simp
qed

section \<open>Inbox operations\<close>

lemma sql_update_origin: "x \<in> set (sql_update m f t) \<Longrightarrow> \<exists>r \<in> set t. x = (if m r then f r else r)"
  by (auto simp: sql)

lemma sql_update_in: "r \<in> set t \<Longrightarrow> (if m r then f r else r) \<in> set (sql_update m f t)"
  by (simp add: sql_update_def)

lemma inbox_inv_update:
  assumes "inbox_inv db" and "notifications db' = sql_update m f (notifications db)" and "inboxes db' = inboxes db"
    and f: "\<And>n. nt_id (f n) = nt_id n" "\<And>n. nt_event_id (f n) = nt_event_id n"
      "\<And>n. nt_user_id (f n) = nt_user_id n" "\<And>n. nt_seq (f n) = nt_seq n"
  shows "inbox_inv db'"
proof -
  have "keyed key (notifications db')"
    if "keyed key (notifications db)" "\<And>n. key (f n) = key n" for key :: "notification_row \<Rightarrow> 'a"
    using that(1) unfolding assms(2) by (rule keyed_update) (rule that(2))
  note k = this
  have "\<exists>i \<in> set (inboxes db). ib_user_id i = nt_user_id n \<and> nt_seq n < ib_next_seq i"
    if n: "n \<in> set (notifications db')" for n
  proof -
    obtain n0 where n0: "n0 \<in> set (notifications db)" "n = (if m n0 then f n0 else n0)"
      using n unfolding assms(2) by (blast dest: sql_update_origin)
    then have "nt_user_id n = nt_user_id n0" "nt_seq n = nt_seq n0" using f by auto
    then show ?thesis using assms(1) n0(1) by (simp add: inbox_inv_def)
  qed
  then show ?thesis
    using assms(1,3) k [of notification_key] k [of notification_event_recipient] k [of notification_recipient_seq] f
    by (simp add: inbox_inv_def key_defs)
qed

lemma read_inv_update:
  assumes inv: "read_inv db" and upd: "notifications db' = sql_update m f (notifications db)"
    and "inboxes db' = inboxes db" "retirement_tombstones db' = retirement_tombstones db"
    and f: "\<And>n. nt_id (f n) = nt_id n" "\<And>n. nt_event_id (f n) = nt_event_id n"
      "\<And>n. nt_user_id (f n) = nt_user_id n" "\<And>n. nt_seq (f n) = nt_seq n"
    and ok: "\<And>n. n \<in> set (notifications db) \<Longrightarrow> note_ok (doc_tombstones db) (retirement_tombstones db) n \<Longrightarrow>
       note_ok (doc_tombstones db') (retirement_tombstones db) (if m n then f n else n)"
  shows "read_inv db'"
  unfolding read_inv_def
proof (intro conjI ballI)
  show "inbox_inv db'" using inbox_inv_update [OF read_invD(1) [OF inv] upd] assms(3) f by blast
next
  fix n assume "n \<in> set (notifications db')"
  then obtain n0 where "n0 \<in> set (notifications db)" "n = (if m n0 then f n0 else n0)"
    unfolding upd by (blast dest: sql_update_origin)
  then show "note_ok (doc_tombstones db') (retirement_tombstones db') n"
    using ok read_invD(2) [OF inv] assms(4) by metis
qed

lemma note_ok_read [simp]: "note_ok dts rts (n\<lparr>nt_read_at := x\<rparr>) = note_ok dts rts n"
  by (simp add: note_ok_def named_by_def)

lemma mark_read_inv:
  assumes "read_inv db" and "mark_read u i now db = Inr (b, db')"
  shows "read_inv db'"
proof -
  obtain m where "db' = db\<lparr>notifications := sql_update m (\<lambda>n. n\<lparr>nt_read_at := Some now\<rparr>) (notifications db)\<rparr>"
    using assms(2) by (auto simp: mark_read_def split: option.splits)
  then show ?thesis
    by (intro read_inv_update [OF assms(1), where m = m and f = "\<lambda>n. n\<lparr>nt_read_at := Some now\<rparr>"]) auto
qed

lemma ack_read_inv:
  assumes "read_inv db" and "ack_event u e ty now db = Inr db'"
  shows "read_inv db'"
proof -
  have "db' = write_ack e u now db"
    using assms(2) by (auto simp: ack_event_def Let_def split: option.splits if_splits)
  then consider "db' = db" | m where
      "notifications db' = sql_update m (\<lambda>n. n\<lparr>nt_read_at := Some now\<rparr>) (notifications db)"
      "inboxes db' = inboxes db" "doc_tombstones db' = doc_tombstones db"
      "retirement_tombstones db' = retirement_tombstones db"
    by (fastforce simp: write_ack_def Let_def split: if_splits option.splits)
  then show ?thesis
  proof cases
    case (2 m)
    then show ?thesis
      by (intro read_inv_update [OF assms(1), where m = m and f = "\<lambda>n. n\<lparr>nt_read_at := Some now\<rparr>"]) auto
  qed (use assms(1) in simp)
qed

text \<open>Reading all creates the inbox only for a user who has no notification.\<close>

lemma read_all_inboxes:
  assumes inv: "inbox_inv db" and res: "read_all u now db = Inr db'"
  shows "inbox_inv db'"
proof (cases "sql_first (\<lambda>i. ib_user_id i = u) (inboxes db)")
  case None
  then have none: "\<forall>i \<in> set (inboxes db). ib_user_id i \<noteq> u" by (simp add: sql)
  then have "sql_where (\<lambda>n. nt_user_id n = u) (notifications db) = []"
    using inv by (auto simp: inbox_inv_def sql_where_def filter_empty_conv)
  then have "db' = db\<lparr>inboxes := inboxes db @ [\<lparr>ib_user_id = u, ib_next_seq = 1, ib_read_through_seq = 0,
      ib_read_all_at = Some now, ib_version = 1, ib_retired = False\<rparr>]\<rparr>"
    using res None by (simp add: read_all_def sql_max_def)
  then show ?thesis
    using inv none by (auto simp: inbox_inv_def keyed_def key_defs inbox_ok_def)
next
  case (Some j)
  then have j: "j \<in> set (inboxes db)" "ib_user_id j = u" by (auto dest: sql_first_Some)
  let ?m = "\<lambda>i. ib_user_id i = u \<and> ib_version i = ib_version j"
  let ?f = "\<lambda>i. i\<lparr>ib_read_through_seq := ib_next_seq j - 1, ib_read_all_at := Some now,
     ib_version := ib_version j + 1\<rparr>"
  consider "db' = db" | "db' = db\<lparr>inboxes := sql_update ?m ?f (inboxes db)\<rparr>"
    using res Some by (auto simp: read_all_def Let_def split: if_splits)
  then show ?thesis
  proof cases
    case 2
    have same: "i = j" if "i \<in> set (inboxes db)" "ib_user_id i = u" for i
      using keyed_eq [OF inbox_inv_keys(3) [OF inv], of i j] that j by (simp add: key_defs)
    have "keyed inbox_key (sql_update ?m ?f (inboxes db))"
      using inbox_inv_keys(3) [OF inv] by (rule keyed_update) (simp add: key_defs)
    moreover have "inbox_ok i" if i: "i \<in> set (sql_update ?m ?f (inboxes db))" for i
    proof -
      obtain i0 where i0: "i0 \<in> set (inboxes db)" "i = (if ?m i0 then ?f i0 else i0)"
        using i by (blast dest: sql_update_origin)
      show ?thesis
      proof (cases "?m i0")
        case True
        have "inbox_ok j" using inv j(1) by (simp add: inbox_inv_def)
        moreover have "i0 = j" by (rule same [OF i0(1)]) (use True in simp)
        then have "i = ?f j" using i0(2) True by (simp only: if_P)
        ultimately show ?thesis by (simp add: inbox_ok_def)
      next
        case False
        then have "i = i0" using i0(2) by (simp only: if_False)
        then show ?thesis using inv i0(1) by (simp add: inbox_inv_def)
      qed
    qed
    moreover have keep: "\<exists>k \<in> set (sql_update ?m ?f (inboxes db)). ib_user_id k = ib_user_id i \<and> ib_next_seq k = ib_next_seq i"
      if "i \<in> set (inboxes db)" for i
      using sql_update_in [OF that, of ?m ?f] by (rule rev_bexI) simp
    moreover have "\<exists>k \<in> set (sql_update ?m ?f (inboxes db)). ib_user_id k = nt_user_id n \<and> nt_seq n < ib_next_seq k"
      if n: "n \<in> set (notifications db)" for n
    proof -
      obtain i where i: "i \<in> set (inboxes db)" "ib_user_id i = nt_user_id n" "nt_seq n < ib_next_seq i"
        using inv n by (auto simp: inbox_inv_def)
      from keep [OF i(1)] obtain k where "k \<in> set (sql_update ?m ?f (inboxes db))"
          "ib_user_id k = ib_user_id i" "ib_next_seq k = ib_next_seq i" by blast
      then show ?thesis using i(2,3) by (intro bexI [of _ k]) (simp_all only: simp_thms)
    qed
    ultimately show ?thesis
      using inv unfolding 2 inbox_inv_def by (simp del: set_map)
  qed (use inv in simp)
qed

lemma read_all_inv:
  assumes "read_inv db" and "read_all u now db = Inr db'"
  shows "read_inv db'"
proof -
  have "notifications db' = notifications db" "doc_tombstones db' = doc_tombstones db"
      "retirement_tombstones db' = retirement_tombstones db"
    using assms(2) by (auto simp: read_all_def Let_def split: option.splits if_splits)
  then show ?thesis
    using read_all_inboxes [OF read_invD(1) [OF assms(1)] assms(2)] read_invD(2) [OF assms(1)]
    by (simp add: read_inv_def)
qed

section \<open>Lifecycle commands\<close>

lemma redact_read_inv:
  assumes inv: "read_inv db" and res: "redact_document_notifications cfg c now db = Inr (r, db')"
  shows "read_inv db'"
  using res
proof (cases rule: redact_cases)
  case again
  then show ?thesis using inv by simp
next
  case (applied rs)
  let ?m = "\<lambda>n. redaction_scope c n \<and> \<not> nt_redacted n"
  show ?thesis
  proof (rule read_inv_update [OF inv, where m = ?m and f = redacted_notification])
    fix n assume ok: "note_ok (doc_tombstones db) (retirement_tombstones db) n"
    have scope: "redaction_scope c n" if "named_by n (tombstone_of c now v)" "v \<in> set (rd_document_version_ids c)" for v
      using that by (auto simp: named_by_def tombstone_of_def redaction_scope_def)
    show "note_ok (doc_tombstones db') (retirement_tombstones db) (if ?m n then redacted_notification n else n)"
    proof (cases "?m n")
      case True
      then show ?thesis using ok by (simp add: note_ok_def redacted_notification_def)
    next
      case False
      then show ?thesis using ok applied(2) scope by (fastforce simp: note_ok_def)
    qed
  qed (simp_all add: applied(2) redacted_notification_def)
qed

lemma inbox_inv_delete_user:
  assumes "inbox_inv db" and "notifications db' = sql_delete (\<lambda>n. nt_user_id n = u) (notifications db)"
    and "inboxes db' = sql_delete (\<lambda>i. ib_user_id i = u) (inboxes db)"
  shows "inbox_inv db'"
proof -
  have "\<exists>i \<in> set (inboxes db'). ib_user_id i = nt_user_id n \<and> nt_seq n < ib_next_seq i"
    if n: "n \<in> set (notifications db')" for n
  proof -
    have "n \<in> set (notifications db)" "nt_user_id n \<noteq> u" using n assms(2) by (simp_all add: sql_delete_def)
    moreover from this obtain i where "i \<in> set (inboxes db)" "ib_user_id i = nt_user_id n" "nt_seq n < ib_next_seq i"
      using assms(1) by (auto simp: inbox_inv_def)
    ultimately show ?thesis using assms(3) by (auto simp: sql_delete_def)
  qed
  then show ?thesis
    using assms by (auto simp: inbox_inv_def sql_delete_def keyed_filter)
qed

lemma retired_by_read_inv:
  assumes inv: "read_inv db" and res: "retired_by cfg c now db r db'"
  shows "read_inv db'"
proof -
  obtain x y db1 where w: "apply_retirement_work cfg c now (db\<lparr>retirements := x\<rparr>) = Inr (r, db1)"
      and db': "db' = db1\<lparr>retirements := y\<rparr>"
    using res by (auto simp: retired_by_def)
  from w show ?thesis
  proof (rule retirement_work_cases, goal_cases)
    case (1 rts t)
    then have tables: "notifications db' = sql_delete (\<lambda>n. nt_user_id n = rm_user_id c) (notifications db)"
        "inboxes db' = sql_delete (\<lambda>i. ib_user_id i = rm_user_id c) (inboxes db)"
        "doc_tombstones db' = doc_tombstones db" "retirement_tombstones db' = retirement_tombstones db @ [t]"
      by (simp_all add: db')
    have "note_ok (doc_tombstones db) (retirement_tombstones db @ [t]) n"
      if "n \<in> set (notifications db')" for n
      using that read_invD(2) [OF inv, of n] 1(2) tables(1) by (auto simp: note_ok_def sql_delete_def)
    then show ?case
      using inbox_inv_delete_user [OF read_invD(1) [OF inv] tables(1,2)] tables(3,4)
      by (simp add: read_inv_def)
  qed
qed

lemma read_inv_retirements: "read_inv (db\<lparr>retirements := x\<rparr>) = read_inv db"
  by (rule read_inv_cong) (simp add: read_part_def)

lemma lifecycle_read_inv:
  assumes inv: "read_inv db" and step: "lifecycle_step cfg db db'"
  shows "read_inv db'"
  using step
proof (cases rule: lifecycle_step.cases)
  case (redact c now r)
  then show ?thesis by (rule redact_read_inv [OF inv])
next
  case (retire port rc now rr)
  then show ?thesis
    by (cases rule: retire_account_cases) (simp_all add: inv read_inv_retirements retired_by_read_inv [OF inv])
next
  case (retire_inline port rc now rr)
  then show ?thesis by (cases rule: retire_inline_cases) (simp_all add: inv retired_by_read_inv [OF inv])
next
  case (apply_accepted port oid now rr)
  then obtain c where "retired_by cfg c now db rr db'" by (rule apply_accepted_work)
  then show ?thesis by (rule retired_by_read_inv [OF inv])
next
  case (apply_durable port rc now rr)
  then show ?thesis using retired_by_read_inv [OF inv] apply_durable_work_done by blast
next
  case (request_compaction cc now cr)
  then show ?thesis using read_inv_cong [OF compaction_read_part] inv by blast
next
  case (apply_compaction oid now st)
  then show ?thesis using read_inv_cong [OF compaction_read_part] inv by blast
qed

section \<open>Every step\<close>

definition read_sys_inv :: "outbox_system \<Rightarrow> bool" where
  "read_sys_inv s \<longleftrightarrow> read_inv (sys_db s)
     \<and> (\<forall>(owner, c) \<in> set (sys_claims s). cl_redacted_title c = DELETED_DOCUMENT_TITLE)"

theorem read_sys_inv_step:
  assumes inv: "read_sys_inv s" and step: "outbox_step cfg s t"
  shows "read_sys_inv t"
  using step inv
proof (cases rule: outbox_step.cases)
  case (publish port caller now cmd db receipt db' cs)
  then show ?thesis using inv read_inv_cong [OF publish_read_part] by (auto simp: read_sys_inv_def)
next
  case (claim skip owner now limit aid db c db' cs)
  then show ?thesis
    using inv read_inv_cong [OF claim_read_part(1)] claim_read_part(2) by (auto simp: read_sys_inv_def)
next
  case (run owner c cs env db out db')
  then have "cl_redacted_title c = DELETED_DOCUMENT_TITLE" "read_inv db"
    using inv by (auto simp: read_sys_inv_def)
  then have "read_inv db'" using run_read_inv run(4) by blast
  then show ?thesis using inv run(1,2) by (simp add: read_sys_inv_def)
next
  case (fail owner c cs cat code t0 now u db out db')
  then show ?thesis using inv read_inv_cong [OF fail_read_part] by (auto simp: read_sys_inv_def)
next
  case (renew owner c cs now db c' db')
  have "cl_redacted_title c' = cl_redacted_title c" using renew_effect(5) [OF renew(4)] by simp
  then show ?thesis
    using renew inv read_inv_cong [OF renew_read_part] by (auto simp: read_sys_inv_def)
next
  case (recycle db cs now draws limit)
  then show ?thesis using inv read_inv_cong [OF recycle_read_part] by (simp add: read_sys_inv_def)
next
  case (replay e cn v key hash now db resp db' cs)
  then show ?thesis using inv read_inv_cong [OF replay_read_part] by (auto simp: read_sys_inv_def)
next
  case (compact now db k db' cs)
  then show ?thesis using inv read_inv_cong [OF compact_due_read_part] by (auto simp: read_sys_inv_def)
next
  case (retention db cs max_online now limit)
  then show ?thesis using inv retire_due_read_inv by (simp add: read_sys_inv_def)
next
  case (mark_read u i now db b db' cs)
  then show ?thesis using inv mark_read_inv by (auto simp: read_sys_inv_def)
next
  case (read_all u now db db' cs)
  then show ?thesis using inv read_all_inv by (auto simp: read_sys_inv_def)
next
  case (ack u e ty now db db' cs)
  then show ?thesis using inv ack_read_inv by (auto simp: read_sys_inv_def)
next
  case (lifecycle db db' cs)
  then show ?thesis using inv lifecycle_read_inv by (auto simp: read_sys_inv_def)
next
  case (accounts db cs ds us)
  moreover have "read_inv (db\<lparr>users := us, documents := ds\<rparr>) = read_inv db"
    by (rule read_inv_cong) (simp add: read_part_def)
  ultimately show ?thesis using inv by (simp add: read_sys_inv_def)
qed

section \<open>Tombstones are permanent\<close>

definition tombs :: "outbox_db \<Rightarrow> doc_tombstone_row list \<times> retirement_tombstone_row list \<times> redaction_row list" where
  "tombs db = (doc_tombstones db, retirement_tombstones db, redactions db)"

text \<open>A recorded redaction has its tombstones.\<close>

definition redactions_inv :: "outbox_db \<Rightarrow> bool" where
  "redactions_inv db \<longleftrightarrow> (\<forall>row \<in> set (redactions db). \<forall>v \<in> set (rx_version_ids row).
     \<exists>t \<in> set (doc_tombstones db). dt_document_id t = rx_document_id row \<and> dt_document_version_id t = v)"

lemma tombs_metric [simp]: "tombs (record_metric cfg now n ev v db) = tombs db"
  by (simp add: tombs_def)

lemma read_part_tombs: "read_part db' = read_part db \<Longrightarrow> tombs db' = tombs db"
  by (simp add: read_part_def tombs_def)

lemma materialize_tombs:
  assumes "materialize cfg event r nid ty title did vid red now db = Inr (x, db')"
  shows "tombs db' = tombs db"
  using assms
proof (cases rule: materialize_cases)
  case (suppressed reason)
  then show ?thesis using suppress_cases [OF suppressed(2)] by (auto simp: tombs_def)
next
  case (created m)
  from created(2) show ?thesis by (rule materialize_new_cases) (simp add: tombs_def)
qed simp

lemma materialize_all_tombs:
  "materialize_all cfg event c title red now ids rs k db = Inr db' \<Longrightarrow> tombs db' = tombs db"
proof (induction rs arbitrary: k db)
  case (Cons r rs)
  then show ?case by (auto split: sum.splits prod.splits dest!: materialize_tombs)
qed simp

lemma run_tombs:
  assumes "run_consumer_and_finalize cfg c owner env db = Inr (oc, db')"
  shows "tombs db' = tombs db"
  using assms
proof (cases rule: run_cases)
  case (failed cat code)
  then show ?thesis using read_part_tombs [OF fail_read_part] by blast
next
  case delivered
  obtain db1 where m: "materialize_event cfg c (re_now env) (re_ids env) db = Inr db1"
      and "read_part db' = read_part db1"
    using delivered(1)
    by (auto simp: finalize_tx_def Let_def freeze_read_part split: if_splits option.splits sum.splits)
      (simp add: read_part_def)
  moreover have "tombs db1 = tombs db"
  proof (cases "cl_consumer_name c = V1_CONSUMER")
    case False
    then show ?thesis using m by (simp add: materialize_event_def)
  next
    case True
    obtain event db0 where db0: "db0 = db \<or> db0 = record_metric cfg (re_now env)
           ''outbox.deliveries.zero_recipients'' (Some (cl_event_id c)) None db"
        and all: "materialize_all cfg event c (materialization_title c (event_redacted c db0) db0) (event_redacted c db0)
           (re_now env) (re_ids env) (recipients_for (cl_event_id c) db) 0 db0 = Inr db1"
      by (rule materialize_event_cases [OF m True])
    show ?thesis using db0 materialize_all_tombs [OF all] by (elim disjE) simp_all
  qed
  ultimately show ?thesis using read_part_tombs by metis
qed

lemma retire_due_tombs: "tombs (snd (retire_due cfg cap now limit db)) = tombs db"
proof -
  have r: "tombs (snd (retire_all cfg now is (k, x))) = tombs x" for "is" k x by (simp add: tombs_def)
  have t: "tombs (snd (trim_users cfg cap now limit us (n, x))) = tombs x" for us n x
  proof (induction us arbitrary: n x)
    case (Cons u us)
    let ?r = "retire_all cfg now (map nt_id (drop cap (online_desc u now x))) (n, x)"
    have "tombs (snd (trim_users cfg cap now limit us (fst ?r, snd ?r))) = tombs x"
      using Cons.IH [of "fst ?r" "snd ?r"] r by simp
    then show ?case by simp
  qed simp
  obtain n y where y: "retire_all cfg now (expired_ids now limit db) (0, db) = (n, y)" by fastforce
  then have "tombs y = tombs db" using r by (metis snd_conv)
  then show ?thesis using t by (simp add: retire_due_def y)
qed

lemma inbox_steps_tombs:
  "mark_read u i now db = Inr (b, db') \<Longrightarrow> tombs db' = tombs db"
  "read_all u now db = Inr db' \<Longrightarrow> tombs db' = tombs db"
  "ack_event u e ty now db = Inr db' \<Longrightarrow> tombs db' = tombs db"
  by (auto simp: mark_read_def read_all_def ack_event_def write_ack_def tombs_def Let_def
      split: option.splits if_splits)

definition tombs_le :: "outbox_db \<Rightarrow> outbox_db \<Rightarrow> bool" where
  "tombs_le db db' \<longleftrightarrow> set (doc_tombstones db) \<subseteq> set (doc_tombstones db')
     \<and> set (retirement_tombstones db) \<subseteq> set (retirement_tombstones db')
     \<and> (redactions_inv db \<longrightarrow> redactions_inv db')"

lemma tombs_le_refl: "tombs db' = tombs db \<Longrightarrow> tombs_le db db'"
  by (simp add: tombs_def tombs_le_def redactions_inv_def)

lemma redact_tombs:
  assumes "redact_document_notifications cfg c now db = Inr (r, db')"
  shows "tombs_le db db'"
    and "redactions_inv db \<Longrightarrow> v \<in> set (rd_document_version_ids c) \<Longrightarrow>
      \<exists>t \<in> set (doc_tombstones db'). dt_document_id t = rd_document_id c \<and> dt_document_version_id t = v"
proof -
  have "tombs_le db db' \<and> (redactions_inv db \<longrightarrow> v \<in> set (rd_document_version_ids c) \<longrightarrow>
      (\<exists>t \<in> set (doc_tombstones db'). dt_document_id t = rd_document_id c \<and> dt_document_version_id t = v))"
    using assms
  proof (cases rule: redact_cases)
    case (again row)
    have "row \<in> set (redactions db)" "rx_document_id row = rd_document_id c"
        "rx_version_ids row = rd_document_version_ids c"
      using again(2,3) by (auto simp: redaction_receipt_from_row_def dest: sql_first_Some split: if_splits)
    then show ?thesis using again(1) by (auto simp: tombs_le_def redactions_inv_def)
  next
    case (applied rs)
    have new: "\<exists>t \<in> set (doc_tombstones db'). dt_document_id t = rd_document_id c \<and> dt_document_version_id t = w"
      if "w \<in> set (rd_document_version_ids c)" for w
      by (rule bexI [of _ "tombstone_of c now w"]) (use that in \<open>simp_all add: applied(2) tombstone_of_def\<close>)
    have sub: "set (doc_tombstones db) \<subseteq> set (doc_tombstones db')" by (simp add: applied(2))
    have "redactions_inv db'" if "redactions_inv db"
      unfolding redactions_inv_def
    proof (intro ballI)
      fix row w assume row: "row \<in> set (redactions db')" "w \<in> set (rx_version_ids row)"
      then consider "row \<in> set (redactions db)"
        | "rx_document_id row = rd_document_id c" "rx_version_ids row = rd_document_version_ids c"
        by (auto simp: applied(2,3) redaction_reservation_def)
      then show "\<exists>t \<in> set (doc_tombstones db'). dt_document_id t = rx_document_id row \<and> dt_document_version_id t = w"
      proof cases
        case 1
        then show ?thesis using that [unfolded redactions_inv_def] row(2) sub by blast
      next
        case 2
        then show ?thesis using new [of w] row(2) by simp
      qed
    qed
    then show ?thesis using new sub by (auto simp: tombs_le_def applied(2))
  qed
  then show "tombs_le db db'" and "redactions_inv db \<Longrightarrow> v \<in> set (rd_document_version_ids c) \<Longrightarrow>
      \<exists>t \<in> set (doc_tombstones db'). dt_document_id t = rd_document_id c \<and> dt_document_version_id t = v"
    by blast+
qed

lemma retired_by_tombs:
  assumes "retired_by cfg c now db r db'"
  shows "tombs_le db db'" "rm_user_id c \<in> tb_user_id ` set (retirement_tombstones db')"
proof -
  obtain x y db1 where w: "apply_retirement_work cfg c now (db\<lparr>retirements := x\<rparr>) = Inr (r, db1)"
      "db' = db1\<lparr>retirements := y\<rparr>"
    using assms by (auto simp: retired_by_def)
  show "tombs_le db db'" "rm_user_id c \<in> tb_user_id ` set (retirement_tombstones db')"
    using w(1) by (rule retirement_work_cases, auto simp: w(2) tombs_le_def redactions_inv_def)+
qed

lemma lifecycle_tombs:
  assumes "lifecycle_step cfg db db'"
  shows "tombs_le db db'"
  using assms
proof (cases rule: lifecycle_step.cases)
  case (redact c now r)
  then show ?thesis by (rule redact_tombs)
next
  case (retire port rc now rr)
  then show ?thesis
    by (cases rule: retire_account_cases) (auto simp: tombs_le_def [of db db] tombs_le_refl tombs_def intro: retired_by_tombs)
next
  case (retire_inline port rc now rr)
  then show ?thesis by (cases rule: retire_inline_cases) (auto simp: tombs_le_refl intro: retired_by_tombs)
next
  case (apply_accepted port oid now rr)
  then obtain c where "retired_by cfg c now db rr db'" by (rule apply_accepted_work)
  then show ?thesis by (rule retired_by_tombs)
next
  case (apply_durable port rc now rr)
  then show ?thesis using retired_by_tombs(1) apply_durable_work_done by blast
next
  case (request_compaction cc now cr)
  then show ?thesis using tombs_le_refl [OF read_part_tombs [OF compaction_read_part]] by blast
next
  case (apply_compaction oid now st)
  then show ?thesis using tombs_le_refl [OF read_part_tombs [OF compaction_read_part]] by blast
qed

lemma step_tombs:
  assumes "outbox_step cfg s t"
  shows "tombs_le (sys_db s) (sys_db t)"
  using assms
proof (cases rule: outbox_step.cases)
  case (lifecycle db db' cs)
  then show ?thesis by (simp add: lifecycle_tombs)
next
  case (accounts db cs ds us)
  then show ?thesis by (simp add: tombs_le_def redactions_inv_def)
qed (simp_all add: tombs_le_refl run_tombs retire_due_tombs inbox_steps_tombs
    read_part_tombs [OF publish_read_part] read_part_tombs [OF claim_read_part(1)]
    read_part_tombs [OF fail_read_part] read_part_tombs [OF renew_read_part]
    read_part_tombs [OF recycle_read_part] read_part_tombs [OF replay_read_part]
    read_part_tombs [OF compact_due_read_part])

lemma steps_tombs: "(outbox_step cfg)\<^sup>*\<^sup>* s t \<Longrightarrow> tombs_le (sys_db s) (sys_db t)"
proof (induction rule: rtranclp_induct)
  case (step t u)
  then show ?case using step_tombs [OF step.hyps(2)] unfolding tombs_le_def by blast
qed (simp add: tombs_le_def)

lemma steps_read_inv: "(outbox_step cfg)\<^sup>*\<^sup>* s t \<Longrightarrow> read_sys_inv s \<Longrightarrow> read_sys_inv t"
  by (induction rule: rtranclp_induct) (auto intro: read_sys_inv_step)

end
