(* ===== verification/Lifecycle_Properties.thy ===== *)
theory Lifecycle_Properties
  imports Outbox_Read_Model Lease_Properties
begin

text \<open>
  What the lifecycle commands promise, over every interleaving with the rest of the outbox:
  redaction and retirement are permanent, commands are idempotent by operation id, a durable
  retirement is applied once, and an account's compaction completes exactly when nothing of it
  is left.
\<close>

section \<open>Reachable states\<close>

lemma initial_read_inv: "read_sys_inv initial_system" "redactions_inv (sys_db initial_system)"
  by (simp_all add: read_sys_inv_def initial_system_def empty_db_def read_inv_def inbox_inv_def keyed_def redactions_inv_def)

lemma reachable_redactions: "(outbox_step cfg)\<^sup>*\<^sup>* initial_system s \<Longrightarrow> redactions_inv (sys_db s)"
  using steps_tombs initial_read_inv(2) unfolding tombs_le_def by blast

lemma reachable_read_inv: "(outbox_step cfg)\<^sup>*\<^sup>* initial_system s \<Longrightarrow> read_inv (sys_db s)"
  using steps_read_inv [OF _ initial_read_inv(1)] by (simp add: read_sys_inv_def)

lemma retired_user:
  assumes "read_inv db" and "n \<in> set (notifications db)"
  shows "nt_user_id n \<notin> tb_user_id ` set (retirement_tombstones db)"
  using read_invD(2) [OF assms] by (simp add: note_ok_def)

text \<open>The delivered example as a reachable state.\<close>

definition ex_delivered_sys :: outbox_system where
  "ex_delivered_sys = \<lparr>sys_db = ex_delivered_db, sys_claims = [(''w'', ex_lease)]\<rparr>"

lemma ex_reach_delivered: "(outbox_step ex_cfg)\<^sup>*\<^sup>* initial_system ex_delivered_sys"
proof -
  have "outbox_step ex_cfg ex_leased_sys ex_delivered_sys"
    unfolding ex_leased_sys_def ex_delivered_sys_def
    by (rule outbox_step.run [OF _ ex_delivered]) simp
  then show ?thesis using ex_reach_leased by (rule rtranclp.rtrancl_into_rtrancl [rotated])
qed

text \<open>In every reachable state notifications are unique per event and recipient with
  sequence numbers below their inbox counter, a redacted notification has the deleted title and
  no payload, no readable notification names a tombstoned document version, and a retired
  account has none.\<close>

theorem reachable_read_model:
  assumes "(outbox_step cfg)\<^sup>*\<^sup>* initial_system s"
  shows "read_inv (sys_db s)"
  using reachable_read_inv [OF assms] .

theorem reachable_read_model_witness:
  "read_inv ex_delivered_db \<and> length (notifications ex_delivered_db) = 1"
  using reachable_read_model [OF ex_reach_delivered] by (simp add: ex_delivered_sys_def ex_delivered_db_def)

section \<open>Redaction\<close>

text \<open>C7: redaction is permanent. Once a redaction command has succeeded, in no state reachable
  afterwards, whatever deliveries were claimed before it or run after it, does a notification of
  one of its document versions show its title or its payload.\<close>

theorem redaction_permanent:
  assumes "(outbox_step cfg)\<^sup>*\<^sup>* initial_system s"
    and "redact_document_notifications cfg c now (sys_db s) = Inr (r, db')"
    and "(outbox_step cfg)\<^sup>*\<^sup>* (s\<lparr>sys_db := db'\<rparr>) t"
    and "n \<in> set (notifications (sys_db t))" and "nt_document_id n = Some (rd_document_id c)"
    and "nt_document_version_id n = Some v" and "v \<in> set (rd_document_version_ids c)"
  shows "nt_redacted n \<and> nt_title n = DELETED_DOCUMENT_TITLE \<and> nt_payload n = []"
proof -
  have step: "outbox_step cfg s (s\<lparr>sys_db := db'\<rparr>)"
    using outbox_step.lifecycle [OF lifecycle_step.redact [OF assms(2)]] by (cases s) simp
  have reach: "(outbox_step cfg)\<^sup>*\<^sup>* initial_system t"
    using assms(1,3) step by (meson rtranclp.rtrancl_into_rtrancl rtranclp_trans)
  obtain tb where tb: "tb \<in> set (doc_tombstones db')" "dt_document_id tb = rd_document_id c"
      "dt_document_version_id tb = v"
    using redact_tombs(2) [OF assms(2) reachable_redactions [OF assms(1)] assms(7)] by blast
  have "read_sys_inv t" using steps_read_inv [OF reach initial_read_inv(1)] .
  then have ok: "note_ok (doc_tombstones (sys_db t)) (retirement_tombstones (sys_db t)) n"
    using read_invD(2) assms(4) by (simp add: read_sys_inv_def)
  have "tb \<in> set (doc_tombstones (sys_db t))"
    using steps_tombs [OF assms(3)] tb(1) by (auto simp: tombs_le_def)
  moreover have named: "named_by n tb" using tb(2,3) assms(5,6) by (simp add: named_by_def)
  ultimately have "nt_redacted n"
    using ok unfolding note_ok_def by blast
  then show ?thesis
    using ok by (simp add: note_ok_def)
qed

definition ex_redaction :: redaction_command where
  "ex_redaction = \<lparr>rd_operation_id = ''op'', rd_caller_principal = ''documents'', rd_deletion_id = ''del'',
     rd_document_id = ''d'', rd_document_version_ids = [''v''], rd_reason = ''document_pending_delete'',
     rd_transaction_id = ''tx'', rd_mode = ''inline''\<rparr>"

definition ex_redacted_note :: notification_row where
  "ex_redacted_note = \<lparr>nt_id = ''n'', nt_event_id = ''e'', nt_user_id = ''u'',
     nt_type = ''ingestion_completed'', nt_title = DELETED_DOCUMENT_TITLE, nt_payload = [],
     nt_document_id = Some ''d'', nt_document_version_id = Some ''v'', nt_event_occurred_at = 0,
     nt_materialized_at = 2, nt_seq = 1, nt_read_at = None, nt_retire_after_at = 2 + days 90,
     nt_redacted = True\<rparr>"

definition ex_redacted_db :: outbox_db where
  "ex_redacted_db = ex_delivered_db\<lparr>notifications := [ex_redacted_note],
     redactions := [\<lparr>rx_operation_id = ''op'', rx_deletion_id = ''del'', rx_document_id = ''d'',
       rx_version_ids = [''v''], rx_input_fingerprint = redaction_fingerprint ex_cfg ex_redaction,
       rx_state = C_completed, rx_redacted_count = 1, rx_already_redacted_count = 0, rx_created_at = 9\<rparr>],
     doc_tombstones := [\<lparr>dt_document_id = ''d'', dt_document_version_id = ''v'',
       dt_deletion_id = ''del'', dt_created_at = 9\<rparr>]\<rparr>"

definition ex_redaction_receipt :: redaction_receipt where
  "ex_redaction_receipt = \<lparr>rdr_operation_id = ''op'', rdr_deletion_id = ''del'',
     rdr_redacted_count = 1, rdr_already_redacted_count = 0\<rparr>"

lemma ex_redacted:
  "redact_document_notifications ex_cfg ex_redaction 9 ex_delivered_db = Inr (ex_redaction_receipt, ex_redacted_db)"
  by code_simp

theorem redaction_permanent_witness:
  "nt_title ex_redacted_note = DELETED_DOCUMENT_TITLE \<and> notifications ex_redacted_db = [ex_redacted_note]"
proof -
  have "redact_document_notifications ex_cfg ex_redaction 9 (sys_db ex_delivered_sys)
      = Inr (ex_redaction_receipt, ex_redacted_db)"
    using ex_redacted by (simp add: ex_delivered_sys_def)
  note r = redaction_permanent [OF ex_reach_delivered this rtranclp.rtrancl_refl,
      where n = ex_redacted_note and v = "''v''"]
  show ?thesis
    using r by (simp add: ex_redacted_db_def) (simp add: ex_redacted_note_def ex_redaction_def)
qed

text \<open>A redaction command is idempotent by its operation id. Sent again it returns the same
  receipt and changes nothing; the same operation id with any other input is a permanent
  conflict.\<close>

theorem redaction_idempotent:
  assumes "redact_document_notifications cfg c now db = Inr (r, db')"
    and "rd_operation_id c' = rd_operation_id c"
    and "rd_mode c' = ''inline''" and "rd_reason c' = ''document_pending_delete''"
    and "py_strip (rd_deletion_id c') \<noteq> []" and "py_strip (rd_document_id c') \<noteq> []"
    and "rd_document_version_ids c' \<noteq> []"
  shows "redact_document_notifications cfg c now' db' = Inr (r, db')
     \<and> (redaction_fingerprint cfg c' \<noteq> redaction_fingerprint cfg c \<longrightarrow>
          redact_document_notifications cfg c' now' db' = Inl idempotency_conflict)"
proof -
  have ok: "rd_mode c = ''inline''" "rd_reason c = ''document_pending_delete''"
      "py_strip (rd_deletion_id c) \<noteq> []" "py_strip (rd_document_id c) \<noteq> []" "rd_document_version_ids c \<noteq> []"
    using assms(1) by (auto simp: redact_document_notifications_def split: if_splits)
  obtain row where row: "sql_first (\<lambda>x. rx_operation_id x = rd_operation_id c) (redactions db') = Some row"
      "redaction_receipt_from_row cfg c row = Inr r"
    using assms(1)
  proof (cases rule: redact_cases)
    case (again row)
    then show ?thesis using that by simp
  next
    case (applied rs)
    let ?row = "(redaction_reservation cfg c now)\<lparr>rx_state := C_completed,
      rx_redacted_count := rdr_redacted_count r, rx_already_redacted_count := rdr_already_redacted_count r\<rparr>"
    have "sql_first (\<lambda>x. rx_operation_id x = rd_operation_id c) (redactions db') = Some ?row"
    proof -
      have "sql_first (\<lambda>x. rx_operation_id x = rd_operation_id c) (redactions db) = None"
        using applied(1) by (simp add: sql)
      then show ?thesis by (simp add: applied(2,3) sql_first_append redaction_reservation_def)
    qed
    moreover have "redaction_receipt_from_row cfg c ?row = Inr r"
      by (simp add: redaction_receipt_from_row_def redaction_reservation_def applied(4))
    ultimately show ?thesis by (rule that)
  qed
  have "redaction_receipt_from_row cfg c' row = Inl idempotency_conflict"
    if "redaction_fingerprint cfg c' \<noteq> redaction_fingerprint cfg c"
    using that redaction_receipt_row(1) [OF row(2)] by (simp add: redaction_receipt_from_row_def)
  then show ?thesis
    using row ok assms(2-) by (simp add: redact_document_notifications_def)
qed

theorem redaction_idempotent_witness:
  "redact_document_notifications ex_cfg ex_redaction 10 ex_redacted_db = Inr (ex_redaction_receipt, ex_redacted_db)"
proof -
  have "py_strip (rd_deletion_id ex_redaction) \<noteq> []" "py_strip (rd_document_id ex_redaction) \<noteq> []"
    by code_simp+
  then show ?thesis
    using redaction_idempotent [OF ex_redacted, where c' = ex_redaction and now' = 10]
    by (simp add: ex_redaction_def)
qed

lemma insert_tombstones_clash:
  "v \<in> set vs \<Longrightarrow> t \<in> set ts \<Longrightarrow> dt_document_id t = rd_document_id c \<Longrightarrow> dt_document_version_id t = v \<Longrightarrow>
     insert_tombstones c now vs ts = None"
proof (induction vs arbitrary: ts)
  case (Cons w vs)
  show ?case
  proof (cases "w = v")
    case True
    then have "(rd_document_id c, w) \<in> doc_tombstone_key ` set ts"
      using Cons.prems by (auto simp: key_defs intro!: image_eqI [of _ _ t])
    then show ?thesis by (simp add: sql_insert_def key_defs)
  next
    case False
    then show ?thesis using Cons.IH [of "ts @ _"] Cons.prems by (auto simp: sql_insert_def)
  qed
qed simp

text \<open>C9: the tombstone of a document version is inserted once. A second redaction command for a
  version that has been redacted before, under an operation id of its own, does not report the
  notification as already redacted: it fails with an integrity error.\<close>

theorem second_redaction_fails:
  assumes "redactions_inv db" and "redact_document_notifications cfg c now db = Inr (r, db')"
    and "rd_document_id c' = rd_document_id c"
    and "set (rd_document_version_ids c) \<inter> set (rd_document_version_ids c') \<noteq> {}"
    and "sql_first (\<lambda>x. rx_operation_id x = rd_operation_id c') (redactions db') = None"
    and "rd_mode c' = ''inline''" and "rd_reason c' = ''document_pending_delete''"
    and "py_strip (rd_deletion_id c') \<noteq> []" and "py_strip (rd_document_id c') \<noteq> []"
  shows "redact_document_notifications cfg c' now' db' = Inl IntegrityError"
proof -
  obtain v where v: "v \<in> set (rd_document_version_ids c)" "v \<in> set (rd_document_version_ids c')"
    using assms(4) by blast
  obtain t where t: "t \<in> set (doc_tombstones db')" "dt_document_id t = rd_document_id c" "dt_document_version_id t = v"
    using redact_tombs(2) [OF assms(2,1) v(1)] by blast
  have "rd_document_version_ids c' \<noteq> []" using v(2) by auto
  moreover have "insert_tombstones c' now' (rd_document_version_ids c') (doc_tombstones db') = None"
    using insert_tombstones_clash [OF v(2) t(1)] t assms(3) by simp
  moreover have "sql_insert rx_operation_id (redaction_reservation cfg c' now') (redactions db')
      = Some (redactions db' @ [redaction_reservation cfg c' now'])"
    using assms(5) by (auto simp: sql_insert_def sql redaction_reservation_def)
  ultimately show ?thesis
    using assms(5-) by (simp add: redact_document_notifications_def redact_reserved_def Let_def)
qed

theorem second_redaction_fails_witness:
  "redact_document_notifications ex_cfg (ex_redaction\<lparr>rd_operation_id := ''op2''\<rparr>) 10 ex_redacted_db = Inl IntegrityError"
proof -
  have i: "redactions_inv ex_delivered_db"
    using reachable_redactions [OF ex_reach_delivered] by (simp add: ex_delivered_sys_def)
  have "py_strip (rd_deletion_id ex_redaction) \<noteq> []" "py_strip (rd_document_id ex_redaction) \<noteq> []"
    by code_simp+
  then show ?thesis
    by (intro second_redaction_fails [OF i ex_redacted]) (simp_all add: ex_redaction_def ex_redacted_db_def)
qed

section \<open>Retirement\<close>

lemma sql_first_update:
  assumes "sql_first p t = Some r" and "q r" and "p (f r)"
  shows "sql_first p (sql_update (\<lambda>x. p x \<and> q x) f t) = Some (f r)"
  using assms by (induction t) (auto simp: sql_update_def split: if_splits)

text \<open>The two ways the work of a retirement is done.\<close>

lemma retirement_done:
  assumes "(\<forall>x \<in> set (retirements db). rw_operation_id x \<noteq> rm_operation_id c)
       \<and> retire_inline cfg port c now db = Inr (r, db')
     \<or> apply_accepted_durable_retirement cfg port oid now db = Inr (r, db')"
  obtains c' where "retired_by cfg c' now db r db'"
  using assms
proof
  assume a: "(\<forall>x \<in> set (retirements db). rw_operation_id x \<noteq> rm_operation_id c)
     \<and> retire_inline cfg port c now db = Inr (r, db')"
  have none: "sql_first (\<lambda>x. rw_operation_id x = rm_operation_id c) (retirements db) = None"
    using a by (simp add: sql)
  obtain w db1 where w: "reserve_retirement cfg c False C_pending now db = Inr (w, db1)"
    and rest: "(case w of Some r \<Rightarrow> Inr (r, db1) | None \<Rightarrow>
       bindE (apply_retirement_work cfg c now db1) (\<lambda>(receipt, db2).
         Inr (receipt, db2\<lparr>retirements := sql_update (\<lambda>r. rw_operation_id r = rm_operation_id c)
           (complete_retirement receipt now) (retirements db2)\<rparr>))) = Inr (r, db')"
    using a none by (auto simp: retire_inline_def bindE_def split: sum.splits)
  have "w = None \<and> db1 = db\<lparr>retirements := retirements db @ [retirement_reservation cfg c False C_pending now]\<rparr>"
    using w a by (auto simp: reserve_retirement_def sql_insert_def retirement_reservation_def split: if_splits)
  then have "retired_by cfg c now db r db'"
    using rest by (auto simp: retired_by_def bindE_def split: sum.splits)
  then show thesis by (rule that)
next
  assume "apply_accepted_durable_retirement cfg port oid now db = Inr (r, db')"
  then obtain c' where "retired_by cfg c' now db r db'" by (rule apply_accepted_work)
  then show thesis by (rule that)
qed

lemma retired_by_effect:
  assumes "retired_by cfg c now db r db'"
  shows "rmr_user_id r = rm_user_id c" and "rmr_state r = C_completed"
    and "notifications db' = sql_delete (\<lambda>n. nt_user_id n = rmr_user_id r) (notifications db)"
    and "acks db' = sql_delete (\<lambda>a. ak_user_id a = rmr_user_id r) (acks db)"
    and "inboxes db' = sql_delete (\<lambda>i. ib_user_id i = rmr_user_id r) (inboxes db)"
    and "n \<in> set (notifications db) \<Longrightarrow> nt_user_id n = rmr_user_id r \<Longrightarrow> receipted (nt_event_id n) (rmr_user_id r) db'"
    and "x \<in> set (suppressions db) \<Longrightarrow> sp_user_id x = rmr_user_id r \<Longrightarrow> receipted (sp_event_id x) (rmr_user_id r) db'"
    and "set (receipts db) \<subseteq> set (receipts db')"
proof -
  obtain xs ys db1 where w: "apply_retirement_work cfg c now (db\<lparr>retirements := xs\<rparr>) = Inr (r, db1)"
      and db': "db' = db1\<lparr>retirements := ys\<rparr>"
    using assms by (auto simp: retired_by_def)
  show "rmr_user_id r = rm_user_id c" "rmr_state r = C_completed"
    "notifications db' = sql_delete (\<lambda>n. nt_user_id n = rmr_user_id r) (notifications db)"
    "acks db' = sql_delete (\<lambda>a. ak_user_id a = rmr_user_id r) (acks db)"
    "inboxes db' = sql_delete (\<lambda>i. ib_user_id i = rmr_user_id r) (inboxes db)"
    "n \<in> set (notifications db) \<Longrightarrow> nt_user_id n = rmr_user_id r \<Longrightarrow> receipted (nt_event_id n) (rmr_user_id r) db'"
    "x \<in> set (suppressions db) \<Longrightarrow> sp_user_id x = rmr_user_id r \<Longrightarrow> receipted (sp_event_id x) (rmr_user_id r) db'"
    "set (receipts db) \<subseteq> set (receipts db')"
    using w by (rule retirement_work_cases, simp add: db' receipted_def)+
qed

text \<open>C8: retirement of an account, inline or by applying the accepted command, leaves a permanent
  receipt for every notification and every suppression of the user, removes exactly the user's
  notifications, acknowledgements and inbox, and is permanent: in no state reachable afterwards
  does the user have a notification again, whatever deliveries still name the user.\<close>

theorem retired_account_stays_empty:
  assumes "(outbox_step cfg)\<^sup>*\<^sup>* initial_system s"
    and "(\<forall>x \<in> set (retirements (sys_db s)). rw_operation_id x \<noteq> rm_operation_id c)
         \<and> retire_inline cfg port c now (sys_db s) = Inr (r, db')
       \<or> apply_accepted_durable_retirement cfg port oid now (sys_db s) = Inr (r, db')"
    and "(outbox_step cfg)\<^sup>*\<^sup>* (s\<lparr>sys_db := db'\<rparr>) t"
  shows "(\<forall>n \<in> set (notifications (sys_db t)). nt_user_id n \<noteq> rmr_user_id r)
     \<and> (\<forall>n \<in> set (notifications (sys_db s)). if nt_user_id n = rmr_user_id r
          then receipted (nt_event_id n) (rmr_user_id r) db' else n \<in> set (notifications db'))
     \<and> (\<forall>x \<in> set (suppressions (sys_db s)). sp_user_id x = rmr_user_id r \<longrightarrow>
          receipted (sp_event_id x) (rmr_user_id r) db')
     \<and> sql_count (\<lambda>i. ib_user_id i = rmr_user_id r) (inboxes db') = 0
     \<and> sql_count (\<lambda>a. ak_user_id a = rmr_user_id r) (acks db') = 0"
proof -
  obtain c' where work: "retired_by cfg c' now (sys_db s) r db'"
    by (rule retirement_done [OF assms(2)])
  note eff = retired_by_effect [OF work]
  have "lifecycle_step cfg (sys_db s) db'"
    using assms(2) lifecycle_step.retire_inline lifecycle_step.apply_accepted by blast
  then have "outbox_step cfg s (s\<lparr>sys_db := db'\<rparr>)"
    using outbox_step.lifecycle [of cfg "sys_db s" db' "sys_claims s"] by (cases s) simp
  then have reach: "(outbox_step cfg)\<^sup>*\<^sup>* initial_system t"
    using assms(1,3) by (meson rtranclp.rtrancl_into_rtrancl rtranclp_trans)
  have "rmr_user_id r \<in> tb_user_id ` set (retirement_tombstones (sys_db t))"
    using retired_by_tombs(2) [OF work] steps_tombs [OF assms(3)] eff(1) by (auto simp: tombs_le_def)
  then have "\<forall>n \<in> set (notifications (sys_db t)). nt_user_id n \<noteq> rmr_user_id r"
    using retired_user [OF reachable_read_inv [OF reach]] by metis
  then show ?thesis
    using eff(3-7) by (auto simp: sql_count_zero sql_delete_def)
qed

definition ex_retirement :: retirement_command where
  "ex_retirement = \<lparr>rm_operation_id = ''op'', rm_caller_principal = ''retention-ops'', rm_user_id = ''u'',
     rm_deletion_id = ''del'', rm_archive_ref = ''ref'', rm_archive_checksum = ''sum'',
     rm_transaction_id = ''tx'', rm_mode = ''durable''\<rparr>"

definition ex_archive :: archive_port where
  "ex_archive = Some (\<lambda>ref sum u d. ref = ''ref'' \<and> sum = ''sum'')"

text \<open>The account is marked for deletion first.\<close>

definition ex_leaving_sys :: outbox_system where
  "ex_leaving_sys = \<lparr>sys_db = ex_delivered_db\<lparr>users := [\<lparr>us_id = ''u'', us_role = ''user'',
     us_lifecycle_status = ''pending_delete''\<rparr>], documents := []\<rparr>, sys_claims = [(''w'', ex_lease)]\<rparr>"

lemma ex_reach_leaving: "(outbox_step ex_cfg)\<^sup>*\<^sup>* initial_system ex_leaving_sys"
proof -
  have "outbox_step ex_cfg ex_delivered_sys ex_leaving_sys"
    unfolding ex_delivered_sys_def ex_leaving_sys_def by (rule outbox_step.accounts)
  then show ?thesis using ex_reach_delivered by (rule rtranclp.rtrancl_into_rtrancl [rotated])
qed

definition ex_retired_row :: retirement_row where
  "ex_retired_row = (retirement_reservation ex_cfg ex_retirement False C_pending 9)
     \<lparr>rw_state := C_completed, rw_receipt_count := 1, rw_notification_retired_count := 1,
      rw_inbox_removed := True, rw_completed_at := Some 9\<rparr>"

definition ex_retired_db :: outbox_db where
  "ex_retired_db = (sys_db ex_leaving_sys)\<lparr>
     receipts := [\<lparr>rt_event_id = ''e'', rt_user_id = ''u'', rt_outcome = ''materialized'', rt_seq = Some 1,
       rt_occurred_at = 0, rt_materialized_at = Some 2, rt_retired_at = Some 9,
       rt_fingerprint = canonical_receipt_fingerprint (cf_sha256 ex_cfg) ''e'' ''u'' ''materialized'' (Some 1)\<rparr>],
     notifications := [], inboxes := [],
     retirement_tombstones := [\<lparr>tb_user_id = ''u'', tb_next_seq = 2, tb_read_through_seq = 0, tb_retired_at = 9\<rparr>],
     retirements := [ex_retired_row]\<rparr>"

definition ex_retirement_receipt :: retirement_receipt where
  "ex_retirement_receipt = \<lparr>rmr_operation_id = ''op'', rmr_user_id = ''u'', rmr_deletion_id = ''del'',
     rmr_state = C_completed, rmr_receipt_count = 1, rmr_notification_retired_count = 1,
     rmr_inbox_removed = True, rmr_retryable = False\<rparr>"

lemma ex_retired:
  "retire_inline ex_cfg ex_archive ex_retirement 9 (sys_db ex_leaving_sys) = Inr (ex_retirement_receipt, ex_retired_db)"
  by code_simp

theorem retired_account_stays_empty_witness:
  "length (notifications (sys_db ex_leaving_sys)) = 1 \<and> receipted ''e'' ''u'' ex_retired_db"
proof -
  have n: "retirements (sys_db ex_leaving_sys) = []"
    by (simp add: ex_leaving_sys_def ex_delivered_db_def ex_leased_defs)
  have "(\<forall>x \<in> set (retirements (sys_db ex_leaving_sys)). rw_operation_id x \<noteq> rm_operation_id ex_retirement)
      \<and> retire_inline ex_cfg ex_archive ex_retirement 9 (sys_db ex_leaving_sys) = Inr (ex_retirement_receipt, ex_retired_db)
    \<or> apply_accepted_durable_retirement ex_cfg ex_archive [] 9 (sys_db ex_leaving_sys) = Inr (ex_retirement_receipt, ex_retired_db)"
    using n ex_retired by simp
  from retired_account_stays_empty [OF ex_reach_leaving this rtranclp.rtrancl_refl]
  show ?thesis by (simp add: ex_leaving_sys_def ex_delivered_db_def ex_retirement_receipt_def)
qed

text \<open>A durable retirement is accepted first and applied once. Accepting it changes no
  notification, inbox or tombstone; applying the accepted command completes it, and from then on
  applying it again is refused with \<open>retirement_not_pending\<close>.\<close>

theorem durable_retirement_once:
  assumes "retire_account_notification_state cfg port c now db = Inr (r0, db0)" and "rm_mode c = ''durable''"
    and "apply_accepted_durable_retirement cfg port' oid now' db1 = Inr (r, db2)"
  shows "read_part db0 = read_part db \<and> rmr_state r = C_completed
     \<and> apply_accepted_durable_retirement cfg port'' oid now'' db2 = Inl (PlatformError ''retirement_not_pending'' 409)"
proof -
  have part: "read_part db0 = read_part db"
  proof (cases "sql_first (\<lambda>x. rw_operation_id x = rm_operation_id c) (retirements db)")
    case (Some row)
    then show ?thesis
      using assms(1,2)
      by (auto simp: retire_account_notification_state_def bindE_def split: if_splits sum.splits)
  next
    case None
    then obtain w where "reserve_retirement cfg c True C_accepted now db = Inr (w, db0)"
      using assms(1,2)
      by (auto simp: retire_account_notification_state_def bindE_def split: if_splits sum.splits option.splits)
    then show ?thesis by (cases rule: reserve_cases) (simp_all add: read_part_def)
  qed
  obtain stored c' where st: "sql_first (\<lambda>r. rw_operation_id r = oid) (retirements db1) = Some stored"
      "rw_state stored = C_accepted" "rm_operation_id c' = oid"
      and w: "apply_durable_work cfg c' stored now' db1 = Inr (r, db2)"
    using assms(3)
    by (force simp: apply_accepted_durable_retirement_def bindE_def Let_def split: option.splits if_splits sum.splits)
  obtain db' where work: "apply_retirement_work cfg c' now' db1 = Inr (r, db')"
      and db2: "db2 = db'\<lparr>retirements := sql_update (\<lambda>r. rw_operation_id r = oid \<and> rw_state r = C_accepted)
        (complete_retirement r now') (retirements db')\<rparr>"
    using w st(3) by (auto simp: apply_durable_work_def bindE_def Let_def split: if_splits sum.splits)
  have ret: "retirements db' = retirements db1" and finished: "rmr_state r = C_completed"
    using work by (rule retirement_work_cases, simp)+
  have "sql_first (\<lambda>r. rw_operation_id r = oid) (retirements db2) = Some (complete_retirement r now' stored)"
    using sql_first_update [OF st(1), where q = "\<lambda>r. rw_state r = C_accepted" and f = "complete_retirement r now'"]
      st(2) sql_first_Some [OF st(1)]
    by (simp add: db2 ret) (simp add: complete_retirement_def)
  then show ?thesis
    using part finished by (simp add: apply_accepted_durable_retirement_def complete_retirement_def)
qed

definition ex_accepted_row :: retirement_row where
  "ex_accepted_row = retirement_reservation ex_cfg ex_retirement True C_accepted 9"

definition ex_accepted_db :: outbox_db where
  "ex_accepted_db = (sys_db ex_leaving_sys)\<lparr>retirements := [ex_accepted_row]\<rparr>"

lemma ex_accepted:
  "retire_account_notification_state ex_cfg ex_archive ex_retirement 9 (sys_db ex_leaving_sys) =
     Inr (ex_retirement_receipt\<lparr>rmr_state := C_accepted, rmr_receipt_count := 0,
            rmr_notification_retired_count := 0, rmr_inbox_removed := False, rmr_retryable := True\<rparr>,
          ex_accepted_db)"
  by code_simp

lemma ex_applied:
  "apply_accepted_durable_retirement ex_cfg ex_archive ''op'' 9 ex_accepted_db =
     Inr (ex_retirement_receipt, ex_retired_db\<lparr>retirements := [ex_accepted_row\<lparr>rw_state := C_completed,
       rw_receipt_count := 1, rw_notification_retired_count := 1, rw_inbox_removed := True,
       rw_completed_at := Some 9\<rparr>]\<rparr>)"
  by code_simp

theorem durable_retirement_once_witness:
  "apply_accepted_durable_retirement ex_cfg ex_archive ''op'' 10
     (ex_retired_db\<lparr>retirements := [ex_accepted_row\<lparr>rw_state := C_completed,
       rw_receipt_count := 1, rw_notification_retired_count := 1, rw_inbox_removed := True,
       rw_completed_at := Some 9\<rparr>]\<rparr>) = Inl (PlatformError ''retirement_not_pending'' 409)"
  using durable_retirement_once [OF ex_accepted _ ex_applied, where port'' = ex_archive and now'' = 10]
  by (simp add: ex_retirement_def)

section \<open>Compaction of an account\<close>

lemma keyed_events_compact:
  assumes "keyed event_key (events db)" and "compact_event cfg e now db = Inr (b, db')"
  shows "keyed event_key (events db')"
proof -
  have "map ev_event_id (events db') = map ev_event_id (events db)"
    using compact_event_calm [OF assms(2)] by (simp add: tables_calm_def)
  moreover have "event_key = ev_event_id" by (simp add: fun_eq_iff event_key_def)
  ultimately show ?thesis using assms(1) by (simp add: keyed_def)
qed

text \<open>A full event whose deliveries have all been delivered is compacted.\<close>

lemma compact_event_full:
  assumes key: "keyed event_key (events db)" and ev: "ev \<in> set (events db)" "ev_event_id ev = e"
      "ev_storage_state ev = Full" "ev_compacted_at ev = None"
    and none: "sql_count (\<lambda>d. dl_event_id d = e \<and> dl_status d \<noteq> Delivered) (deliveries db) = 0"
    and res: "compact_event cfg e now db = Inr (b, db')"
  shows "b" "recipients db' = sql_delete (\<lambda>r. rc_event_id r = e) (recipients db)"
    "deliveries db' = sql_delete (\<lambda>d. dl_event_id d = e) (deliveries db)"
    "\<exists>f. events db' = sql_update (\<lambda>x. ev_event_id x = e \<and> ev_storage_state x = Full \<and> ev_compacted_at x = None)
       f (events db) \<and> (\<forall>x. ev_event_id (f x) = ev_event_id x)"
proof -
  let ?m = "\<lambda>x. ev_event_id x = e \<and> ev_storage_state x = Full \<and> ev_compacted_at x = None"
  have first: "sql_first (\<lambda>x. ev_event_id x = e) (events db) = Some ev"
    by (rule sql_first_keyed [OF key ev(1)]) (use ev(2) in \<open>simp_all add: event_key_def\<close>)
  have "sql_count ?m (events db) = 1"
    by (rule sql_count_one_iff [OF key, where k = e, THEN iffD2]) (use ev in \<open>auto simp: event_key_def\<close>)
  then have "b \<and> recipients db' = sql_delete (\<lambda>r. rc_event_id r = e) (recipients db)
      \<and> deliveries db' = sql_delete (\<lambda>d. dl_event_id d = e) (deliveries db)
      \<and> events db' = sql_update ?m (compacted_event (map summary_of (sql_where (\<lambda>d. dl_event_id d = e) (deliveries db))) now) (events db)"
    using res none first ev(4) by (auto simp: compact_event_def Let_def)
  then show "b" "recipients db' = sql_delete (\<lambda>r. rc_event_id r = e) (recipients db)"
    "deliveries db' = sql_delete (\<lambda>d. dl_event_id d = e) (deliveries db)"
    "\<exists>f. events db' = sql_update ?m f (events db) \<and> (\<forall>x. ev_event_id (f x) = ev_event_id x)"
    by (auto simp: compacted_event_def)
qed

abbreviation full_event :: "outbox_db \<Rightarrow> string \<Rightarrow> bool" where
  "full_event db e \<equiv> \<exists>ev \<in> set (events db). ev_event_id ev = e \<and> ev_storage_state ev = Full \<and> ev_compacted_at ev = None"

lemma associated_compacted:
  assumes "keyed event_key (events db)" and "full_event db e"
    and "sql_count (\<lambda>d. dl_event_id d = e \<and> dl_status d \<noteq> Delivered) (deliveries db) = 0"
    and res: "compact_event cfg e now db = Inr (b, db')"
  shows "associated_events u db' = filter (\<lambda>(x, k). x \<noteq> e) (associated_events u db)"
proof -
  obtain ev where ev: "ev \<in> set (events db)" "ev_event_id ev = e" "ev_storage_state ev = Full" "ev_compacted_at ev = None"
    using assms(2) by blast
  note eff = compact_event_full [OF assms(1) ev assms(3) res]
  obtain f where f: "events db' = sql_update (\<lambda>x. ev_event_id x = e \<and> ev_storage_state x = Full \<and> ev_compacted_at x = None)
       f (events db)" "\<forall>x. ev_event_id (f x) = ev_event_id x"
    using eff(4) by blast
  let ?R = "map rc_event_id (sql_where (\<lambda>r. rc_user_id r = u) (recipients db))"
  have r: "map rc_event_id (sql_where (\<lambda>r. rc_user_id r = u) (recipients db')) = filter (\<lambda>x. x \<noteq> e) ?R"
    by (simp add: eff(2) sql_where_def sql_delete_def filter_map comp_def conj_commute)
  have cnt: "sql_count (\<lambda>d. dl_event_id d = x \<and> dl_status d \<noteq> Delivered) (deliveries db')
      = sql_count (\<lambda>d. dl_event_id d = x \<and> dl_status d \<noteq> Delivered) (deliveries db)" if "x \<noteq> e" for x
    using that by (auto simp: eff(3) sql_count_def sql_delete_def intro: arg_cong [where f = length] filter_cong)
  have full: "full_event db' x = full_event db x" if "x \<noteq> e" for x
    using that f(2) by (force simp: f(1) sql_update_def)
  have "filter (full_event db') (remdups (filter (\<lambda>x. x \<noteq> e) ?R)) = filter (\<lambda>x. x \<noteq> e) (filter (full_event db) (remdups ?R))"
    unfolding remdups_filter [symmetric] filter_filter
    by (rule arg_cong [where f = remdups], rule filter_cong [OF refl]) (use full in auto)
  then show ?thesis
    using cnt by (simp add: associated_events_def r filter_map comp_def)
qed

lemma associated_in:
  assumes "(e, k) \<in> set (associated_events u db)"
  shows "full_event db e" "k = sql_count (\<lambda>d. dl_event_id d = e \<and> dl_status d \<noteq> Delivered) (deliveries db)"
  using assms by (auto simp: associated_events_def)

lemma compact_candidates_effect:
  assumes "keyed event_key (events db)" and "set cands \<subseteq> set (associated_events u db)" and "distinct (map fst cands)"
    and "compact_candidates cfg now cands (a, b, c) db = Inr ((a', b', c'), db')"
  shows "c' = c + length (filter (\<lambda>(e, k). k \<noteq> 0) cands)
     \<and> associated_events u db' = filter (\<lambda>(e, k). \<not> (e \<in> fst ` set cands \<and> k = 0)) (associated_events u db)"
  using assms
proof (induction cands arbitrary: a b c db)
  case (Cons x cands)
  obtain e k where x: "x = (e, k)" by fastforce
  note in' = associated_in [of e k u db]
  have mem: "(e, k) \<in> set (associated_events u db)" using Cons.prems(2) x by simp
  have uniq: "k' = k" if "(e, k') \<in> set (associated_events u db)" for k'
    using associated_in(2) [OF that] associated_in(2) [OF mem] by simp
  show ?case
  proof (cases "k = 0")
    case False
    have "c' = Suc c + length (filter (\<lambda>(e, k). k \<noteq> 0) cands)
      \<and> associated_events u db' = filter (\<lambda>(e, k). \<not> (e \<in> fst ` set cands \<and> k = 0)) (associated_events u db)"
      by (rule Cons.IH [where a = a and b = b]) (use Cons.prems False x in auto)
    moreover have "filter (\<lambda>(e, k). \<not> (e \<in> fst ` set cands \<and> k = 0)) (associated_events u db)
      = filter (\<lambda>(e, k). \<not> (e \<in> fst ` set (x # cands) \<and> k = 0)) (associated_events u db)"
      using uniq False x by (intro filter_cong) auto
    ultimately show ?thesis using False x by simp
  next
    case True
    then have zero: "sql_count (\<lambda>d. dl_event_id d = e \<and> dl_status d \<noteq> Delivered) (deliveries db) = 0"
      using in' mem by simp
    obtain d y where y: "compact_event cfg e now db = Inr (d, y)"
      using Cons.prems(4) x True by (auto simp: bindE_def split: sum.splits)
    obtain ev where ev: "ev \<in> set (events db)" "ev_event_id ev = e" "ev_storage_state ev = Full" "ev_compacted_at ev = None"
      using in'(1) [OF mem] by blast
    have d: d by (rule compact_event_full(1) [OF Cons.prems(1) ev zero y])
    have as: "associated_events u y = filter (\<lambda>(x, k). x \<noteq> e) (associated_events u db)"
      by (rule associated_compacted [OF Cons.prems(1) in'(1) [OF mem] zero y])
    have sub: "set cands \<subseteq> set (associated_events u y)"
      using Cons.prems(2,3) x unfolding as by force
    have "c' = c + length (filter (\<lambda>(e, k). k \<noteq> 0) cands)
      \<and> associated_events u db' = filter (\<lambda>(e, k). \<not> (e \<in> fst ` set cands \<and> k = 0)) (associated_events u y)"
      by (rule Cons.IH [OF keyed_events_compact [OF Cons.prems(1) y] sub, where a = "Suc a" and b = "Suc b"])
        (use Cons.prems(3,4) x True y d in \<open>auto simp: bindE_def\<close>)
    moreover have "filter (\<lambda>(e, k). \<not> (e \<in> fst ` set cands \<and> k = 0)) (associated_events u y)
      = filter (\<lambda>(e, k). \<not> (e \<in> fst ` set (x # cands) \<and> k = 0)) (associated_events u db)"
      unfolding as filter_filter by (rule filter_cong) (use uniq True x in auto)
    ultimately show ?thesis using True x by simp
  qed
qed (simp add: filter_True)

text \<open>Processing an accepted compaction command compacts exactly the events of the account
  whose deliveries have all been delivered, keeps the others waiting, and completes the command
  exactly when no full event of the account is left.\<close>

theorem compaction_command_completes:
  assumes "keyed event_key (events db)"
    and "sql_first (\<lambda>r. cw_operation_id r = oid) (compactions db) = Some stored"
    and "apply_compaction_command cfg oid now db = Inr ((st, True), db')"
  shows "associated_events (cw_user_id stored) db' =
           filter (\<lambda>(e, undelivered). undelivered \<noteq> 0) (associated_events (cw_user_id stored) db)
     \<and> (st = C_completed \<longleftrightarrow> associated_events (cw_user_id stored) db' = [])"
proof -
  let ?A = "associated_events (cw_user_id stored)"
  obtain a b c db1 y where r: "compact_candidates cfg now (?A db) (0, 0, 0) db = Inr ((a, b, c), db1)"
      and st: "st = (if c = 0 then C_completed else C_accepted)" and db': "db' = db1\<lparr>compactions := y\<rparr>"
    using assms(2,3)
    by (auto simp: apply_compaction_command_def compact_associated_events_def bindE_def Let_def
        split: if_splits sum.splits)
  have "distinct (map fst (?A db))" by (simp add: associated_events_def comp_def)
  then have eff: "c = length (filter (\<lambda>(e, k). k \<noteq> 0) (?A db))"
      "?A db1 = filter (\<lambda>(e, k). \<not> (e \<in> fst ` set (?A db) \<and> k = 0)) (?A db)"
    using compact_candidates_effect [OF assms(1) _ _ r, of "cw_user_id stored"] by simp_all
  have "?A db1 = filter (\<lambda>(e, k). k \<noteq> 0) (?A db)"
    unfolding eff(2) by (rule filter_cong) force+
  moreover have "?A db' = ?A db1" using db' by (auto simp: associated_events_def)
  ultimately show ?thesis using st eff(1) by simp
qed

text \<open>The account of the example: its one event is delivered, then compacted by the command.\<close>

definition ex_waiting_row :: compaction_row where
  "ex_waiting_row = \<lparr>cw_operation_id = ''cmp'', cw_user_id = ''u'', cw_deletion_id = ''del'',
     cw_retirement_receipt_id = ''op'', cw_input_fingerprint = ''f'', cw_state = C_accepted,
     cw_eligible_count = 0, cw_compacted_count = 0, cw_blocked_count = 1, cw_created_at = 3,
     cw_completed_at = None\<rparr>"

definition ex_waiting_db :: outbox_db where
  "ex_waiting_db = ex_delivered_db\<lparr>compactions := [ex_waiting_row]\<rparr>"

definition ex_compacted_db :: outbox_db where
  "ex_compacted_db = ex_waiting_db\<lparr>
     events := [compacted_event [summary_of (hd (deliveries ex_delivered_db))] 9 (hd (events ex_delivered_db))],
     recipients := [], deliveries := [], attempts := [],
     compactions := [ex_waiting_row\<lparr>cw_state := C_completed, cw_eligible_count := 1,
       cw_compacted_count := 1, cw_blocked_count := 0, cw_completed_at := Some 9\<rparr>]\<rparr>"

lemma ex_compacted:
  "apply_compaction_command ex_cfg ''cmp'' 9 ex_waiting_db = Inr ((C_completed, True), ex_compacted_db)"
  by code_simp

theorem compaction_command_completes_witness:
  "associated_events ''u'' ex_waiting_db \<noteq> [] \<and> associated_events ''u'' ex_compacted_db = []"
proof -
  have k: "keyed event_key (events ex_waiting_db)"
    by (simp add: ex_waiting_db_def ex_delivered_db_def keyed_def)
  have f: "sql_first (\<lambda>r. cw_operation_id r = ''cmp'') (compactions ex_waiting_db) = Some ex_waiting_row"
    by (simp add: ex_waiting_db_def ex_waiting_row_def)
  have "associated_events ''u'' ex_waiting_db \<noteq> []" by code_simp
  then show ?thesis
    using compaction_command_completes [OF k f ex_compacted, THEN conjunct2] by (simp add: ex_waiting_row_def)
qed

end
