(* ===== verification/Python_Values.thy ===== *)
theory Python_Values
  imports Json
begin

text \<open>
  The operations of Python on the values of a JSON-like mapping that the code applies to
  manifests and command inputs: equality (numbers compare across their types, dictionaries
  without regard to order), \<open>int(value)\<close>, \<open>dict(value)\<close>, \<open>list(value)\<close>, \<open>value.get\<close> and
  \<open>value[key]\<close>, with the exceptions they raise.
\<close>

section \<open>Equality\<close>

definition pnumber :: "pval \<Rightarrow> pfloat option" where
  "pnumber v = (case v of PBool b \<Rightarrow> Some (Finite (if b then 1 else 0)) | PInt i \<Rightarrow> Some (Finite (of_int i))
     | PFloat x \<Rightarrow> Some x | _ \<Rightarrow> None)"

text \<open>A NaN is equal to nothing; the identity shortcut of containers is not modelled.\<close>

definition pnumber_eq :: "pfloat option \<Rightarrow> pfloat option \<Rightarrow> bool" where
  "pnumber_eq x y \<longleftrightarrow> x \<noteq> None \<and> x = y \<and> x \<noteq> Some NotANumber"

lemma zip_size [termination_simp]:
  assumes "(a, b) \<in> set (zip us vs)"
  shows "size a < Suc (size_list size us)"
  using size_list_estimation' [OF set_zip_leftD [OF assms] order.refl, of size] by simp

lemma dict_entry_size [termination_simp]:
  assumes "(k, v) \<in> set p"
  shows "size v < Suc (size_list (\<lambda>x. Suc (size (snd x))) p)"
  using size_list_estimation' [of "(k, v)" p "size v" "\<lambda>x. Suc (size (snd x))"] assms by simp

fun py_eq :: "pval \<Rightarrow> pval \<Rightarrow> bool" where
  "py_eq (PList us) (PList vs) \<longleftrightarrow>
     length us = length vs \<and> list_all (\<lambda>(u, v). py_eq u v) (zip us vs)"
| "py_eq (PDict p) (PDict q) \<longleftrightarrow>
     length p = length q \<and>
     list_all (\<lambda>(k, u). case map_of q k of None \<Rightarrow> False | Some v \<Rightarrow> py_eq u v) p"
| "py_eq PNull PNull \<longleftrightarrow> True"
| "py_eq (PStr s) (PStr t) \<longleftrightarrow> s = t"
| "py_eq u v \<longleftrightarrow> pnumber_eq (pnumber u) (pnumber v)"

text \<open>A value is well formed when no dictionary in it has a key twice and no number is NaN.\<close>

fun pval_wf :: "pval \<Rightarrow> bool" where
  "pval_wf (PList vs) \<longleftrightarrow> list_all pval_wf vs"
| "pval_wf (PDict p) \<longleftrightarrow> distinct (map fst p) \<and> list_all (\<lambda>(k, v). pval_wf v) p"
| "pval_wf (PFloat x) \<longleftrightarrow> x \<noteq> NotANumber"
| "pval_wf _ \<longleftrightarrow> True"


lemma pnumber_eq_refl: "pnumber v \<noteq> None \<Longrightarrow> pnumber v \<noteq> Some NotANumber \<Longrightarrow> pnumber_eq (pnumber v) (pnumber v)"
  by (simp add: pnumber_eq_def)

lemma list_all_zip_same: "list_all (\<lambda>(u, v). P u v) (zip xs xs) \<longleftrightarrow> list_all (\<lambda>u. P u u) xs"
  by (induction xs) auto

lemma py_eq_refl: "pval_wf v \<Longrightarrow> py_eq v v"
proof (induction v rule: pval_wf.induct)
  case (1 vs)
  then have "list_all (\<lambda>u. py_eq u u) vs" by (auto simp: list_all_iff)
  then show ?case by (simp add: list_all_zip_same)
next
  case (2 p)
  then have "py_eq v v" if "(k, v) \<in> set p" for k v
    using that by (auto simp: list_all_iff)
  moreover have "map_of p k = Some v" if "(k, v) \<in> set p" for k v
    using that 2(2) by simp
  ultimately show ?case by (auto simp: list_all_iff)
qed (auto simp: pnumber_eq_def pnumber_def)

lemma py_eq_PStr [simp]:
  "py_eq (PStr s) v \<longleftrightarrow> v = PStr s" "py_eq v (PStr s) \<longleftrightarrow> v = PStr s"
  by (cases v; auto simp: pnumber_eq_def pnumber_def)+

lemma py_eq_PNull [simp]: "py_eq PNull v \<longleftrightarrow> v = PNull" "py_eq v PNull \<longleftrightarrow> v = PNull"
  by (cases v; auto simp: pnumber_eq_def pnumber_def)+

section \<open>Conversions\<close>

text \<open>
  \<open>int(text)\<close>: surrounding white space, an optional sign, and decimal digits with single
  underscores between them. The digits are those of ASCII.
\<close>

definition is_digit :: "char \<Rightarrow> bool" where
  "is_digit c \<longleftrightarrow> 48 \<le> (of_char c :: nat) \<and> (of_char c :: nat) \<le> 57"

fun parse_digits :: "nat \<Rightarrow> string \<Rightarrow> nat option" where
  "parse_digits n [] = Some n"
| "parse_digits n (c # cs) =
     (if is_digit c then parse_digits (10 * n + (of_char c - 48)) cs
      else if c = CHR ''_'' then
        (case cs of d # _ \<Rightarrow> if is_digit d then parse_digits n cs else None | [] \<Rightarrow> None)
      else None)"

definition parse_nat :: "string \<Rightarrow> nat option" where
  "parse_nat s = (case s of c # _ \<Rightarrow> if is_digit c then parse_digits 0 s else None | [] \<Rightarrow> None)"

definition parse_int :: "string \<Rightarrow> int option" where
  "parse_int s = (case py_strip s of
       [] \<Rightarrow> None
     | c # cs \<Rightarrow> if c = CHR ''-'' then map_option (\<lambda>n. - int n) (parse_nat cs)
         else if c = CHR ''+'' then map_option int (parse_nat cs)
         else map_option int (parse_nat (c # cs)))"

definition py_int :: "pval \<Rightarrow> exn + int" where
  "py_int v = (case v of
       PInt i \<Rightarrow> Inr i
     | PBool b \<Rightarrow> Inr (if b then 1 else 0)
     | PFloat (Finite q) \<Rightarrow> Inr (if 0 \<le> q then \<lfloor>q\<rfloor> else \<lceil>q\<rceil>)
     | PFloat (Infinite _) \<Rightarrow> Inl OverflowError
     | PFloat NotANumber \<Rightarrow> Inl ValueError
     | PStr s \<Rightarrow> (case parse_int s of None \<Rightarrow> Inl ValueError | Some i \<Rightarrow> Inr i)
     | _ \<Rightarrow> Inl TypeError)"

text \<open>
  \<open>list(value)\<close> and \<open>dict(value)\<close>. A sequence of pairs becomes a dictionary; a key that is
  no string does not occur in a JSON object and is rejected here as unhashable keys are.
\<close>

definition py_list :: "pval \<Rightarrow> exn + pval list" where
  "py_list v = (case v of
       PList vs \<Rightarrow> Inr vs
     | PStr s \<Rightarrow> Inr (map (\<lambda>c. PStr [c]) s)
     | PDict p \<Rightarrow> Inr (map (\<lambda>(k, _). PStr k) p)
     | _ \<Rightarrow> Inl TypeError)"

definition dict_pair :: "pval \<Rightarrow> exn + string \<times> pval" where
  "dict_pair v = (case py_list v of
       Inl e \<Rightarrow> Inl e
     | Inr [PStr k, w] \<Rightarrow> Inr (k, w)
     | Inr [_, _] \<Rightarrow> Inl TypeError
     | Inr _ \<Rightarrow> Inl ValueError)"

fun dict_of_pairs :: "payload \<Rightarrow> pval list \<Rightarrow> exn + payload" where
  "dict_of_pairs p [] = Inr p"
| "dict_of_pairs p (v # vs) = (case dict_pair v of
       Inl e \<Rightarrow> Inl e | Inr (k, w) \<Rightarrow> dict_of_pairs (dict_set k w p) vs)"

definition py_dict :: "pval \<Rightarrow> exn + payload" where
  "py_dict v = (case v of PDict p \<Rightarrow> Inr p
     | _ \<Rightarrow> (case py_list v of Inl e \<Rightarrow> Inl e | Inr vs \<Rightarrow> dict_of_pairs [] vs))"

text \<open>\<open>value.get(field)\<close> is an attribute error on anything but a dictionary.\<close>

definition py_get :: "pval \<Rightarrow> string \<Rightarrow> exn + pval" where
  "py_get v field = (case v of PDict p \<Rightarrow> Inr (pget field p) | _ \<Rightarrow> Inl AttributeError)"

text \<open>\<open>value[field]\<close> with a string key.\<close>

definition py_item :: "pval \<Rightarrow> string \<Rightarrow> exn + pval" where
  "py_item v field = (case v of
       PDict p \<Rightarrow> (case map_of p field of None \<Rightarrow> Inl KeyError | Some w \<Rightarrow> Inr w)
     | _ \<Rightarrow> Inl TypeError)"

text \<open>A list or dictionary is no element of a set: testing membership raises.\<close>

definition hashable :: "pval \<Rightarrow> bool" where
  "hashable v \<longleftrightarrow> (case v of PList _ \<Rightarrow> False | PDict _ \<Rightarrow> False | _ \<Rightarrow> True)"

text \<open>\<open>p.get(field, default)\<close> and \<open>p.pop(key, None)\<close>.\<close>

definition pget_or :: "string \<Rightarrow> pval \<Rightarrow> payload \<Rightarrow> pval" where
  "pget_or field d p = (case map_of p field of None \<Rightarrow> d | Some v \<Rightarrow> v)"

definition dict_pop :: "string \<Rightarrow> (string \<times> 'v) list \<Rightarrow> (string \<times> 'v) list" where
  "dict_pop k p = filter (\<lambda>(k', _). k' \<noteq> k) p"

lemma map_of_dict_pop [simp]: "map_of (dict_pop k p) = (map_of p)(k := None)"
  by (induction p) (auto simp: dict_pop_def fun_eq_iff)

lemma keys_dict_set: "fst ` set (dict_set k v p) = insert k (fst ` set p)"
  by (induction k v p rule: dict_set.induct) (simp_all add: insert_commute)

lemma distinct_dict_set [simp]: "distinct (map fst p) \<Longrightarrow> distinct (map fst (dict_set k v p))"
  by (induction k v p rule: dict_set.induct) (simp_all add: keys_dict_set)

lemma distinct_dict_pop [simp]: "distinct (map fst p) \<Longrightarrow> distinct (map fst (dict_pop k p))"
  by (simp add: dict_pop_def distinct_map_filter)

lemma dict_set_same [simp]: "dict_set k v (dict_set k w p) = dict_set k v p"
  by (induction p) auto

lemma dict_set_entry: "(k, v) \<in> set (dict_set k v p)"
  by (induction k v p rule: dict_set.induct) auto

text \<open>The keys of a dictionary are distinct; every operation keeps them so.\<close>

definition unique_keys :: "(string \<times> 'v) list \<Rightarrow> bool" where
  "unique_keys p \<longleftrightarrow> distinct (map fst p)"

lemma unique_keys_Nil [simp]: "unique_keys []"
  by (simp add: unique_keys_def)

lemma unique_keys_set [simp]: "unique_keys p \<Longrightarrow> unique_keys (dict_set k v p)"
  by (simp add: unique_keys_def)

lemma unique_keys_pop [simp]: "unique_keys p \<Longrightarrow> unique_keys (dict_pop k p)"
  by (simp add: unique_keys_def)

lemma map_of_entry: "unique_keys p \<Longrightarrow> (k, v) \<in> set p \<longleftrightarrow> map_of p k = Some v"
  by (simp add: unique_keys_def)

end
