(* ===== verification/Generation_Manager.thy ===== *)
theory Generation_Manager
  imports Python_Values
begin

text \<open>
  The in-memory index generation manager of \<^verbatim>\<open>app/indexing/generation.py\<close>: one record
  per object of the code, the manager's fields as a state record, and one definition per
  method. The re-entrant lock makes each method one atomic step. The clock readings, the fresh
  identifiers and the answers of the callbacks are arguments; a method that reads the clock
  twice has two of them.
\<close>

section \<open>State\<close>

datatype gen_status = Staging | Active | Retired | Failed | Purging | Purged

record generation =
  gn_id :: string
  gn_status :: gen_status
  gn_base_revision :: int
  gn_applied_revision :: int
  gn_manifest :: payload
  gn_created_at :: time
  gn_activated_at :: "time option"
  gn_retired_at :: "time option"
  gn_rollback_until :: "time option"
  gn_rollback_applied :: "int option"
  gn_graph_state :: string

record reference_lease =
  rl_lease_id :: string
  rl_generation_id :: string
  rl_expires_at :: time

record reader_lease =
  cl_lease_id :: string
  cl_generation_id :: string
  cl_component_kind :: string
  cl_manifest_hash :: string
  cl_source_head_fence :: int
  cl_expires_at :: time

datatype lease = ReferenceLease reference_lease | ReaderLease reader_lease

record lease_record =
  lr_lease :: lease
  lr_kind :: string

datatype gc_state = GcAccepted | GcBlocked | GcPurged

record gc_receipt =
  gr_operation_id :: string
  gr_candidate :: string
  gr_state :: gc_state
  gr_reasons :: "string list"
  gr_retryable :: bool

record gen_manager =
  gm_window :: time
  gm_generations :: "(string \<times> generation) list"
  gm_active :: string
  gm_revision :: int
  gm_candidate :: "string option"
  gm_leases :: "(string \<times> lease_record) list"
  gm_gc :: "(string \<times> string \<times> gc_receipt) list"

fun lease_generation :: "lease \<Rightarrow> string" where
  "lease_generation (ReferenceLease l) = rl_generation_id l"
| "lease_generation (ReaderLease l) = cl_generation_id l"

type_synonym 'a gm_result = "gen_manager \<times> (exn + 'a)"

section \<open>The manifest\<close>

definition component_defaults :: "string \<Rightarrow> (string \<times> payload) list" where
  "component_defaults gid =
    [(''dense'',
       [(''state'', PStr ''ready''),
        (''component_generation_id'', PStr (gid @ '':dense'')),
        (''component_manifest_revision'', PStr ''dense-v1''),
        (''reader_lease_binding'', PStr gid)]),
     (''sparse'',
       [(''state'', PStr ''ready''),
        (''component_generation_id'', PStr (gid @ '':sparse'')),
        (''component_manifest_revision'', PStr ''sparse-v1''),
        (''reader_lease_binding'', PStr gid)]),
     (''hierarchy'',
       [(''state'', PStr ''ready''),
        (''component_generation_id'', PStr (gid @ '':hierarchy'')),
        (''component_manifest_revision'', PStr ''hierarchy-v1''),
        (''reader_lease_binding'', PStr gid)]),
     (''public_graph'',
       [(''graph_generation_id'', PNull),
        (''state'', PStr ''disabled''),
        (''source_revision'', PNull),
        (''source_head_fence'', PNull),
        (''component_manifest_revision'', PStr ''public-graph-v1''),
        (''reader_lease_binding'', PStr gid)])]"

definition as_mapping :: "pval \<Rightarrow> payload" where
  "as_mapping v = (case v of PDict p \<Rightarrow> p | _ \<Rightarrow> [])"

definition fill_components :: "string \<Rightarrow> payload \<Rightarrow> payload" where
  "fill_components gid components =
     fold (\<lambda>(kind, facts) cs.
         dict_set kind (PDict (dict_merge facts (as_mapping (pget_or kind PNull cs)))) cs)
       (component_defaults gid) components"

definition generation_manifest ::
  "string \<Rightarrow> int \<Rightarrow> time \<Rightarrow> bool \<Rightarrow> payload option \<Rightarrow> payload" where
  "generation_manifest gid revision created_at active supplied =
     (let p = (case supplied of None \<Rightarrow> [] | Some s \<Rightarrow> s);
          components = fill_components gid (as_mapping (pget_or ''components'' (PDict []) p))
      in dict_merge p
       [(''generation_id'', PStr gid),
        (''provider'', pget_or ''provider'' (PStr ''memory'') p),
        (''engine_revision'', pget_or ''engine_revision'' (PStr ''v1'') p),
        (''analyzer_revision'', pget_or ''analyzer_revision'' (PStr ''v1'') p),
        (''tokenizer_revision'', pget_or ''tokenizer_revision'' (PStr ''v1'') p),
        (''sparse_schema_hash'', pget_or ''sparse_schema_hash'' (PStr ''memory-v1'') p),
        (''implementation_config_hash'',
          pget_or ''implementation_config_hash'' (PStr ''memory-v1'') p),
        (''dimension'', pget ''dimension'' p),
        (''metric'', pget ''metric'' p),
        (''model_revision'', pget ''model_revision'' p),
        (''base_revision'', PInt revision),
        (''applied_revision'', PInt revision),
        (''last_applied_index_change_id'', pget ''last_applied_index_change_id'' p),
        (''created_at'', PStr (isoformat created_at)),
        (''published_at'', if active then PStr (isoformat created_at) else PNull),
        (''rollback_candidate_until'', PNull),
        (''gc_state'', PStr (if active then ''active'' else ''staging'')),
        (''components'', PDict components)])"

section \<open>Construction and queries\<close>

definition initial_id :: string where
  "initial_id = ''generation_initial''"

definition new_manager :: "int \<Rightarrow> time \<Rightarrow> int \<Rightarrow> exn + gen_manager" where
  "new_manager revision now rollback_days =
     (if revision < 0 \<or> rollback_days < 1 then Inl ValueError
      else Inr \<lparr>gm_window = days rollback_days,
        gm_generations = [(initial_id,
          \<lparr>gn_id = initial_id, gn_status = Active, gn_base_revision = revision,
           gn_applied_revision = revision,
           gn_manifest = dict_set ''base_snapshot'' (PList [])
             (generation_manifest initial_id revision now True None),
           gn_created_at = now, gn_activated_at = Some now, gn_retired_at = None,
           gn_rollback_until = None, gn_rollback_applied = None, gn_graph_state = ''disabled''\<rparr>)],
        gm_active = initial_id, gm_revision = revision, gm_candidate = None,
        gm_leases = [], gm_gc = []\<rparr>)"

definition set_current_revision :: "int \<Rightarrow> gen_manager \<Rightarrow> unit gm_result" where
  "set_current_revision revision m =
     (if revision < 0 then (m, Inl (PlatformError ''validation_error'' 422))
      else if revision < gm_revision m then (m, Inl (PlatformError ''revision_conflict'' 409))
      else (m\<lparr>gm_revision := revision\<rparr>, Inr ()))"

definition get_generation :: "gen_manager \<Rightarrow> string \<Rightarrow> exn + generation" where
  "get_generation m gid = (case map_of (gm_generations m) gid of
       None \<Rightarrow> Inl (PlatformError ''generation_not_found'' 404) | Some g \<Rightarrow> Inr g)"

definition has_generation_lease :: "gen_manager \<Rightarrow> string \<Rightarrow> bool" where
  "has_generation_lease m gid =
     list_ex (\<lambda>(_, r). lease_generation (lr_lease r) = gid) (gm_leases m)"

definition list_generations :: "gen_manager \<Rightarrow> generation list" where
  "list_generations m = map snd (gm_generations m)"

definition put_generation :: "generation \<Rightarrow> gen_manager \<Rightarrow> gen_manager" where
  "put_generation g m = m\<lparr>gm_generations := dict_set (gn_id g) g (gm_generations m)\<rparr>"

section \<open>Staging and index changes\<close>

definition create_staging ::
  "payload list \<Rightarrow> int option \<Rightarrow> string option \<Rightarrow> string option \<Rightarrow> payload option \<Rightarrow>
     string \<Rightarrow> time \<Rightarrow> gen_manager \<Rightarrow> generation gm_result" where
  "create_staging snapshot base_revision expected generation_id manifest fresh now m =
     (if expected \<noteq> None \<and> expected \<noteq> Some (gm_active m)
      then (m, Inl (PlatformError ''generation_conflict'' 409))
      else
        let revision = (case base_revision of None \<Rightarrow> gm_revision m | Some r \<Rightarrow> r) in
        if revision < 0 \<or> gm_revision m < revision
        then (m, Inl (PlatformError ''revision_conflict'' 409))
        else
          let gid = (case generation_id of None \<Rightarrow> fresh | Some s \<Rightarrow> if s = [] then fresh else s) in
          case map_of (gm_generations m) gid of
            Some g \<Rightarrow> (m, Inr g)
          | None \<Rightarrow>
              let p = dict_set ''base_snapshot'' (PList (map PDict snapshot))
                    (generation_manifest gid revision now False manifest);
                  g = \<lparr>gn_id = gid, gn_status = Staging, gn_base_revision = revision,
                    gn_applied_revision = revision, gn_manifest = p, gn_created_at = now,
                    gn_activated_at = None, gn_retired_at = None, gn_rollback_until = None,
                    gn_rollback_applied = None, gn_graph_state = ''disabled''\<rparr>
              in (put_generation g m, Inr g))"

text \<open>
  \<open>next((item for item in changes if int(item["revision"]) == revision), None)\<close> reads the
  changes until the first match, and raises on a malformed one before it.
\<close>

fun known_change :: "int \<Rightarrow> pval list \<Rightarrow> exn + pval" where
  "known_change revision [] = Inr PNull"
| "known_change revision (item # items) =
     bindE (py_item item ''revision'') (\<lambda>v. bindE (py_int v) (\<lambda>r.
       if r = revision then Inr item else known_change revision items))"

definition normalized_change :: "int \<Rightarrow> payload \<Rightarrow> payload" where
  "normalized_change revision change = dict_set ''revision'' (PInt revision) change"

definition index_changes :: "generation \<Rightarrow> exn + pval list" where
  "index_changes g = py_list (pget_or ''index_changes'' (PList []) (gn_manifest g))"

definition changed_generation :: "generation \<Rightarrow> int \<Rightarrow> payload \<Rightarrow> pval list \<Rightarrow> generation" where
  "changed_generation g revision change changes =
     g\<lparr>gn_applied_revision := revision,
       gn_rollback_applied := (if gn_status g = Retired then Some revision else gn_rollback_applied g),
       gn_manifest := dict_set ''index_changes''
         (PList (changes @ [PDict (normalized_change revision change)])) (gn_manifest g)\<rparr>"

definition apply_change ::
  "string \<Rightarrow> int \<Rightarrow> payload \<Rightarrow> gen_manager \<Rightarrow> generation gm_result" where
  "apply_change gid revision change m =
     (if revision < 1 then (m, Inl (PlatformError ''validation_error'' 422))
      else case get_generation m gid of Inl e \<Rightarrow> (m, Inl e) | Inr g \<Rightarrow>
        if gn_status g \<noteq> Staging \<and> gn_status g \<noteq> Retired
        then (m, Inl (PlatformError ''generation_not_writable'' 409))
        else case index_changes g of Inl e \<Rightarrow> (m, Inl e) | Inr changes \<Rightarrow>
          if revision \<le> gn_applied_revision g
          then (case known_change revision changes of
                 Inl e \<Rightarrow> (m, Inl e)
               | Inr known \<Rightarrow>
                   if py_eq known (PDict (normalized_change revision change)) then (m, Inr g)
                   else (m, Inl (PlatformError ''revision_conflict'' 409)))
          else if revision \<noteq> gn_applied_revision g + 1
          then (m, Inl (PlatformError ''revision_gap'' 409))
          else let g' = changed_generation g revision change changes
               in (m\<lparr>gm_generations := dict_set gid g' (gm_generations m)\<rparr>, Inr g'))"

definition component_states :: "string list" where
  "component_states = [''staged'', ''ready'', ''disabled'', ''stale'', ''failed'']"

definition with_component ::
  "string \<Rightarrow> string \<Rightarrow> payload option \<Rightarrow> generation \<Rightarrow> exn + generation" where
  "with_component kind state manifest g =
     bindE (py_dict (pget_or ''components'' (PDict []) (gn_manifest g))) (\<lambda>components.
     bindE (py_dict (pget_or kind (PDict []) components)) (\<lambda>current.
       let stated = dict_set ''state'' (PStr state) current;
           merged = (case manifest of None \<Rightarrow> stated | Some p \<Rightarrow> dict_merge stated p);
           graph_state = (if kind = ''public_graph'' then state else gn_graph_state g)
       in Inr (g\<lparr>gn_manifest := dict_set ''components''
              (PDict (dict_set kind (PDict merged) components)) (gn_manifest g),
            gn_graph_state := graph_state\<rparr>)))"

definition set_component_state ::
  "string \<Rightarrow> string \<Rightarrow> string \<Rightarrow> payload option \<Rightarrow> gen_manager \<Rightarrow> generation gm_result" where
  "set_component_state gid kind state manifest m =
     (if state \<notin> set component_states then (m, Inl (PlatformError ''validation_error'' 422))
      else case get_generation m gid of Inl e \<Rightarrow> (m, Inl e) | Inr g \<Rightarrow>
        (case with_component kind state manifest g of Inl e \<Rightarrow> (m, Inl e)
         | Inr g' \<Rightarrow> (m\<lparr>gm_generations := dict_set gid g' (gm_generations m)\<rparr>, Inr g')))"

section \<open>Release and rollback\<close>

text \<open>
  The release checks every component in order; a component that is no mapping is an error of
  the code.
\<close>

fun components_healthy :: "pval list \<Rightarrow> exn + unit" where
  "components_healthy [] = Inr ()"
| "components_healthy (c # cs) =
     bindE (py_get c ''state'') (\<lambda>s.
       if \<not> hashable s then Inl TypeError
       else if s = PStr ''failed'' \<or> s = PStr ''stale''
       then Inl (PlatformError ''release_gate_failed'' 409)
       else components_healthy cs)"

definition manifest_components :: "generation \<Rightarrow> exn + payload" where
  "manifest_components g =
     (case pget_or ''components'' (PDict []) (gn_manifest g) of
        PDict cs \<Rightarrow> Inr cs | _ \<Rightarrow> Inl AttributeError)"

definition passes_gate :: "(generation \<Rightarrow> bool) option \<Rightarrow> generation \<Rightarrow> bool" where
  "passes_gate gate g = (case gate of None \<Rightarrow> True | Some f \<Rightarrow> f g)"

definition swap_active :: "generation \<Rightarrow> time \<Rightarrow> gen_manager \<Rightarrow> exn + gen_manager \<times> generation" where
  "swap_active g now m = (case map_of (gm_generations m) (gm_active m) of
       None \<Rightarrow> Inl KeyError
     | Some previous \<Rightarrow>
         let retired = previous\<lparr>gn_status := Retired, gn_retired_at := Some now,
               gn_rollback_until := Some (now + gm_window m)\<rparr>;
             activated = g\<lparr>gn_status := Active, gn_activated_at := Some now,
               gn_retired_at := None\<rparr>
         in Inr ((put_generation activated (put_generation retired m))
              \<lparr>gm_active := gn_id activated, gm_candidate := Some (gn_id retired)\<rparr>, activated))"

definition release_checks ::
  "string \<Rightarrow> string option \<Rightarrow> int option \<Rightarrow> (generation \<Rightarrow> bool) option \<Rightarrow> gen_manager \<Rightarrow>
     exn + generation" where
  "release_checks gid expected current_revision gate m =
     bindE (get_generation m gid) (\<lambda>g.
     bindE (require (expected = None \<or> expected = Some (gm_active m))
       (PlatformError ''generation_conflict'' 409)) (\<lambda>_.
     if gn_status g \<noteq> Staging
     then (if gn_status g = Active then Inr g
           else Inl (PlatformError ''index_release_blocked'' 409))
     else
       bindE (require
         (gn_applied_revision g = (case current_revision of None \<Rightarrow> gm_revision m | Some r \<Rightarrow> r))
         (PlatformError ''release_gate_failed'' 409)) (\<lambda>_.
       bindE (require (passes_gate gate g) (PlatformError ''release_gate_failed'' 409)) (\<lambda>_.
       bindE (manifest_components g) (\<lambda>cs.
       bindE (components_healthy (map snd cs)) (\<lambda>_. Inr g))))))"

definition release ::
  "string \<Rightarrow> string option \<Rightarrow> int option \<Rightarrow> (generation \<Rightarrow> bool) option \<Rightarrow> time \<Rightarrow> gen_manager \<Rightarrow>
     generation gm_result" where
  "release gid expected current_revision gate now m =
     (case release_checks gid expected current_revision gate m of
        Inl e \<Rightarrow> (m, Inl e)
      | Inr g \<Rightarrow>
          if gn_status g = Active then (m, Inr g)
          else (case swap_active g now m of
                  Inl e \<Rightarrow> (m, Inl e) | Inr (m', g') \<Rightarrow> (m', Inr g')))"

text \<open>The source receipt of a rollback: the conjunction of the code, left to right.\<close>

definition receipt_matches :: "string \<Rightarrow> int \<Rightarrow> payload \<Rightarrow> payload \<Rightarrow> exn + bool" where
  "receipt_matches gid revision receipt graph =
     (if pget ''state'' receipt = PStr ''held'' \<and> pget ''candidate_generation_id'' receipt = PStr gid
      then bindE (py_int (pget_or ''applied_revision'' (PInt (- 1)) receipt)) (\<lambda>r.
        Inr (r = revision \<and>
          (pget ''state'' graph = PStr ''ready'' \<longrightarrow>
            list_all (\<lambda>name. py_eq (pget name receipt) (pget name graph))
              [''source_revision'', ''source_manifest_hash'', ''source_head_fence''])))
      else Inr False)"

definition not_eligible :: exn where
  "not_eligible = PlatformError ''rollback_not_eligible'' 409"

definition disable_graph :: "payload \<Rightarrow> payload \<Rightarrow> generation \<Rightarrow> generation" where
  "disable_graph components graph g =
     (if pget ''state'' graph = PStr ''ready''
      then g\<lparr>gn_graph_state := ''disabled'',
             gn_manifest := dict_set ''components''
               (PDict (dict_set ''public_graph'' (PDict (dict_set ''state'' (PStr ''disabled'') graph))
                 components)) (gn_manifest g)\<rparr>
      else g)"

definition rollback_checks ::
  "string \<Rightarrow> int option \<Rightarrow> payload option \<Rightarrow> (generation \<Rightarrow> bool) option \<Rightarrow> time \<Rightarrow> gen_manager \<Rightarrow>
     exn + generation" where
  "rollback_checks gid current_revision source_receipt gate now m =
     (let revision = (case current_revision of None \<Rightarrow> gm_revision m | Some r \<Rightarrow> r) in
      bindE (get_generation m gid) (\<lambda>g.
      bindE (require (gn_status g = Retired \<and> gm_candidate m = Some gid) not_eligible) (\<lambda>_.
      bindE (require
        (now - (case gn_retired_at g of None \<Rightarrow> gn_created_at g | Some t \<Rightarrow> t) \<le> gm_window m)
        not_eligible) (\<lambda>_.
      bindE (require (gn_rollback_applied g = Some revision) not_eligible) (\<lambda>_.
      bindE (py_dict (pget_or ''components'' (PDict []) (gn_manifest g))) (\<lambda>components.
      bindE (py_dict (pget_or ''public_graph'' (PDict []) components)) (\<lambda>graph.
      bindE (receipt_matches gid revision
        (case source_receipt of None \<Rightarrow> [] | Some p \<Rightarrow> p) graph) (\<lambda>matches.
      bindE (require matches not_eligible) (\<lambda>_.
      bindE (require (passes_gate gate g) (PlatformError ''release_gate_failed'' 409)) (\<lambda>_.
        Inr (disable_graph components graph g)))))))))))"

definition rollback ::
  "string \<Rightarrow> int option \<Rightarrow> payload option \<Rightarrow> (generation \<Rightarrow> bool) option \<Rightarrow> time \<Rightarrow> time \<Rightarrow>
     gen_manager \<Rightarrow> generation gm_result" where
  "rollback gid current_revision source_receipt gate now1 now2 m =
     (case rollback_checks gid current_revision source_receipt gate now1 m of
        Inl e \<Rightarrow> (m, Inl e)
      | Inr g \<Rightarrow> (case swap_active g now2 m of
          Inl e \<Rightarrow> (m, Inl e) | Inr (m', g') \<Rightarrow> (m', Inr g')))"

section \<open>Leases\<close>

definition acquire_reference_lease ::
  "time \<Rightarrow> string \<Rightarrow> time \<Rightarrow> gen_manager \<Rightarrow> reference_lease gm_result" where
  "acquire_reference_lease ttl fresh now m =
     (if ttl \<le> 0 then (m, Inl ValueError)
      else let l = \<lparr>rl_lease_id = fresh, rl_generation_id = gm_active m, rl_expires_at = now + ttl\<rparr>
        in (m\<lparr>gm_leases := dict_set fresh \<lparr>lr_lease = ReferenceLease l, lr_kind = ''generation''\<rparr>
              (gm_leases m)\<rparr>, Inr l))"

definition release_reference_lease :: "string \<Rightarrow> gen_manager \<Rightarrow> gen_manager" where
  "release_reference_lease lease_id m = m\<lparr>gm_leases := dict_pop lease_id (gm_leases m)\<rparr>"

definition mark_graph_stale :: "string \<Rightarrow> gen_manager \<Rightarrow> 'a gm_result" where
  "mark_graph_stale gid m =
     (case set_component_state gid ''public_graph'' ''stale'' None m of
        (m', Inl e) \<Rightarrow> (m', Inl e)
      | (m', Inr _) \<Rightarrow> (m', Inl (PlatformError ''graph_source_changed'' 409)))"

definition graph_component :: "gen_manager \<Rightarrow> string \<Rightarrow> exn + generation \<times> pval" where
  "graph_component m gid =
     bindE (get_generation m gid) (\<lambda>g.
     bindE (manifest_components g) (\<lambda>cs.
     bindE (py_get (pget_or ''public_graph'' (PDict []) cs) ''state'') (\<lambda>s. Inr (g, s))))"

definition acquire_graph_reader_lease ::
  "string \<Rightarrow> int \<Rightarrow> string \<Rightarrow> bool \<Rightarrow> time \<Rightarrow> string \<Rightarrow> time \<Rightarrow> gen_manager \<Rightarrow> reader_lease gm_result"
where
  "acquire_graph_reader_lease gid fence manifest_hash head_valid ttl fresh now m =
     (if fence < 1 \<or> manifest_hash = [] then (m, Inl (PlatformError ''validation_error'' 422))
      else case graph_component m gid of Inl e \<Rightarrow> (m, Inl e) | Inr (g, state) \<Rightarrow>
        if state \<noteq> PStr ''ready'' then (m, Inl (PlatformError ''graph_unavailable'' 409))
        else if \<not> head_valid then mark_graph_stale (gn_id g) m
        else let l = \<lparr>cl_lease_id = fresh, cl_generation_id = gn_id g,
                 cl_component_kind = ''public_graph'', cl_manifest_hash = manifest_hash,
                 cl_source_head_fence = fence, cl_expires_at = now + ttl\<rparr>
          in (m\<lparr>gm_leases := dict_set fresh \<lparr>lr_lease = ReaderLease l, lr_kind = ''graph''\<rparr>
                (gm_leases m)\<rparr>, Inr l))"

definition get_graph_reader_lease :: "string \<Rightarrow> gen_manager \<Rightarrow> exn + reader_lease" where
  "get_graph_reader_lease lease_id m = (case map_of (gm_leases m) lease_id of
       None \<Rightarrow> Inl (PlatformError ''lease_not_found'' 404)
     | Some r \<Rightarrow>
         if lr_kind r \<noteq> ''graph'' then Inl (PlatformError ''lease_not_found'' 404)
         else (case lr_lease r of ReaderLease l \<Rightarrow> Inr l | ReferenceLease _ \<Rightarrow> Inl AssertionError))"

definition renew_graph_reader_lease ::
  "string \<Rightarrow> bool \<Rightarrow> time \<Rightarrow> time \<Rightarrow> time \<Rightarrow> gen_manager \<Rightarrow> reader_lease gm_result" where
  "renew_graph_reader_lease lease_id head_valid ttl now1 now2 m =
     (if ttl \<le> 0 then (m, Inl ValueError)
      else case get_graph_reader_lease lease_id m of Inl e \<Rightarrow> (m, Inl e) | Inr l \<Rightarrow>
        if cl_expires_at l \<le> now1 then (m, Inl (PlatformError ''lease_expired'' 409))
        else if \<not> head_valid
        then mark_graph_stale (cl_generation_id l) (release_reference_lease lease_id m)
        else let l' = l\<lparr>cl_expires_at := now2 + ttl\<rparr>
          in (m\<lparr>gm_leases := dict_set lease_id \<lparr>lr_lease = ReaderLease l', lr_kind = ''graph''\<rparr>
                (gm_leases m)\<rparr>, Inr l'))"

section \<open>Garbage collection\<close>

definition gc_reasons :: "gen_manager \<Rightarrow> generation \<Rightarrow> string \<Rightarrow> time \<Rightarrow> string list" where
  "gc_reasons m g gid now =
     (if gn_status g = Active then [''active_generation''] else []) @
     (if gm_candidate m = Some gid \<and>
         (case gn_rollback_until g of None \<Rightarrow> True | Some t \<Rightarrow> now \<le> t)
      then [''rollback_candidate''] else []) @
     (if has_generation_lease m gid then [''active_lease''] else []) @
     (if gn_status g \<noteq> Retired then [''generation_not_retired''] else [])"

definition record_gc :: "string \<Rightarrow> gc_receipt \<Rightarrow> gen_manager \<Rightarrow> gen_manager" where
  "record_gc run r m = m\<lparr>gm_gc := dict_set (gr_operation_id r) (run, r) (gm_gc m)\<rparr>"

definition request_index_generation_gc ::
  "string \<Rightarrow> string \<Rightarrow> string \<Rightarrow> time \<Rightarrow> gen_manager \<Rightarrow> gc_receipt gm_result" where
  "request_index_generation_gc gid run operation_id now m =
     (if py_strip run = [] \<or> py_strip operation_id = []
      then (m, Inl (PlatformError ''validation_error'' 422))
      else case map_of (gm_gc m) operation_id of
        Some (run', r) \<Rightarrow>
          if run' \<noteq> run \<or> gr_candidate r \<noteq> gid
          then (m, Inl (PlatformError ''idempotency_key_conflict'' 409)) else (m, Inr r)
      | None \<Rightarrow>
          (case get_generation m gid of Inl e \<Rightarrow> (m, Inl e) | Inr g \<Rightarrow>
            let receipt = (\<lambda>state reasons retryable.
                  \<lparr>gr_operation_id = operation_id, gr_candidate = gid, gr_state = state,
                   gr_reasons = reasons, gr_retryable = retryable\<rparr>);
                r = (if gn_status g = Purged then receipt GcPurged [] False
                     else let reasons = gc_reasons m g gid now in
                       if reasons \<noteq> [] then receipt GcBlocked (rev (remdups (rev reasons))) True
                       else receipt GcAccepted [] False)
            in (record_gc run r m, Inr r)))"

definition complete_generation_gc ::
  "string \<Rightarrow> string \<Rightarrow> gen_manager \<Rightarrow> gc_receipt gm_result" where
  "complete_generation_gc gid operation_id m =
     (case map_of (gm_gc m) operation_id of
        None \<Rightarrow> (m, Inl (PlatformError ''gc_operation_not_found'' 404))
      | Some (run, r) \<Rightarrow>
          if gr_candidate r \<noteq> gid then (m, Inl (PlatformError ''gc_operation_not_found'' 404))
          else if gr_state r \<noteq> GcAccepted then (m, Inr r)
          else (case get_generation m gid of Inl e \<Rightarrow> (m, Inl e) | Inr g \<Rightarrow>
            if gn_status g \<noteq> Retired then (m, Inl (PlatformError ''gc_blocked'' 409))
            else let r' = \<lparr>gr_operation_id = operation_id, gr_candidate = gid,
                   gr_state = GcPurged, gr_reasons = [], gr_retryable = False\<rparr>
              in (record_gc run r'
                    (m\<lparr>gm_generations := dict_set gid (g\<lparr>gn_status := Purged\<rparr>) (gm_generations m)\<rparr>),
                  Inr r')))"

end
