(* ===== verification/Generation_Invariants.thy ===== *)
theory Generation_Invariants
  imports Generation_Manager
begin

text \<open>
  The calls of the generation manager as a step relation over a clock that does not run
  backwards, and the invariant every reachable manager satisfies: one active generation, a
  rollback candidate that is out of service, in every generation the index changes of its own revisions
  without a gap, and accepted garbage collections that no rollback can overtake.
\<close>

section \<open>Steps\<close>

text \<open>
  Every call with any arguments. The one condition is that the clock does not run backwards from
  call to call: a call reads the time it is given, and no earlier than the last one.
\<close>

inductive gm_step :: "time \<Rightarrow> gen_manager \<Rightarrow> time \<Rightarrow> gen_manager \<Rightarrow> bool" where
  revision: "T \<le> T' \<Longrightarrow> gm_step T m T' (fst (set_current_revision r m))"
| staging: "T \<le> now \<Longrightarrow>
    gm_step T m now (fst (create_staging snapshot base expected gid manifest fresh now m))"
| change: "T \<le> T' \<Longrightarrow> gm_step T m T' (fst (apply_change gid r c m))"
| component: "T \<le> T' \<Longrightarrow> gm_step T m T' (fst (set_component_state gid kind state manifest m))"
| release: "T \<le> now \<Longrightarrow> gm_step T m now (fst (release gid expected current gate now m))"
| rollback: "T \<le> now1 \<Longrightarrow> now1 \<le> now2 \<Longrightarrow>
    gm_step T m now2 (fst (rollback gid current receipt gate now1 now2 m))"
| lease: "T \<le> now \<Longrightarrow>
    gm_step T m now (fst (acquire_reference_lease ttl fresh now m))"
| unlease: "T \<le> T' \<Longrightarrow> gm_step T m T' (release_reference_lease lease_id m)"
| reader: "T \<le> now \<Longrightarrow>
    gm_step T m now (fst (acquire_graph_reader_lease gid fence h valid ttl fresh now m))"
| renew: "T \<le> now1 \<Longrightarrow> now1 \<le> now2 \<Longrightarrow>
    gm_step T m now2 (fst (renew_graph_reader_lease lease_id valid ttl now1 now2 m))"
| request_gc: "T \<le> now \<Longrightarrow> gm_step T m now (fst (request_index_generation_gc gid run op now m))"
| complete_gc: "T \<le> T' \<Longrightarrow> gm_step T m T' (fst (complete_generation_gc gid op m))"

inductive gm_steps :: "time \<Rightarrow> gen_manager \<Rightarrow> time \<Rightarrow> gen_manager \<Rightarrow> bool" where
  refl: "gm_steps T m T m"
| step: "gm_steps T m T' m' \<Longrightarrow> gm_step T' m' T'' m'' \<Longrightarrow> gm_steps T m T'' m''"

section \<open>The invariant\<close>

abbreviation gen_at :: "gen_manager \<Rightarrow> string \<Rightarrow> generation option" where
  "gen_at m \<equiv> map_of (gm_generations m)"

text \<open>
  The changes of the revisions after one revision up to another, one each, in their order.
\<close>

definition numbered :: "payload list \<Rightarrow> int \<Rightarrow> int \<Rightarrow> bool" where
  "numbered cs r n \<longleftrightarrow> map (\<lambda>c. map_of c ''revision'') cs = map (\<lambda>r. Some (PInt r)) [r + 1..n]"

text \<open>
  The recorded changes end with those of the revisions after the base. Before them stands what
  the manifest of the staging call supplied under the same key; the code does not look at it.
\<close>

definition changes_ok :: "generation \<Rightarrow> bool" where
  "changes_ok g \<longleftrightarrow> (case index_changes g of
      Inl e \<Rightarrow> gn_applied_revision g = gn_base_revision g
    | Inr xs \<Rightarrow> \<exists>supplied cs. xs = supplied @ map PDict cs \<and>
        numbered cs (gn_base_revision g) (gn_applied_revision g))"

definition out_of_service :: "generation \<Rightarrow> bool" where
  "out_of_service g \<longleftrightarrow> gn_status g = Retired \<or> gn_status g = Purged"

definition gen_ok :: "gen_manager \<Rightarrow> string \<Rightarrow> generation \<Rightarrow> bool" where
  "gen_ok m k g \<longleftrightarrow> gn_id g = k \<and> (gn_status g = Active \<longleftrightarrow> k = gm_active m) \<and>
     (k = gm_active m \<or> gn_status g = Staging \<or> out_of_service g) \<and>
     0 \<le> gn_base_revision g \<and> gn_base_revision g \<le> gn_applied_revision g \<and>
     (out_of_service g \<longrightarrow>
       (\<exists>t. gn_retired_at g = Some t \<and> gn_rollback_until g = Some (t + gm_window m))) \<and>
     changes_ok g"

definition gens_ok :: "gen_manager \<Rightarrow> bool" where
  "gens_ok m \<longleftrightarrow> unique_keys (gm_generations m) \<and> (\<forall>k g. gen_at m k = Some g \<longrightarrow> gen_ok m k g)"

definition pointers_ok :: "gen_manager \<Rightarrow> bool" where
  "pointers_ok m \<longleftrightarrow> gen_at m (gm_active m) \<noteq> None \<and>
     (\<forall>c. gm_candidate m = Some c \<longrightarrow> (\<exists>g. gen_at m c = Some g \<and> out_of_service g))"

definition receipt_ok :: "time \<Rightarrow> gen_manager \<Rightarrow> gc_receipt \<Rightarrow> bool" where
  "receipt_ok T m r \<longleftrightarrow>
     (gr_state r = GcAccepted \<longrightarrow> (\<exists>g. gen_at m (gr_candidate r) = Some g \<and> out_of_service g \<and>
       (gm_candidate m = Some (gr_candidate r) \<longrightarrow> (\<exists>u. gn_rollback_until g = Some u \<and> u < T)))) \<and>
     (gr_state r = GcPurged \<longrightarrow> (\<exists>g. gen_at m (gr_candidate r) = Some g \<and> gn_status g = Purged))"

definition gc_ok :: "time \<Rightarrow> gen_manager \<Rightarrow> bool" where
  "gc_ok T m \<longleftrightarrow> (\<forall>op run r. map_of (gm_gc m) op = Some (run, r) \<longrightarrow>
     gr_operation_id r = op \<and> receipt_ok T m r)"

definition leases_ok :: "gen_manager \<Rightarrow> bool" where
  "leases_ok m \<longleftrightarrow> unique_keys (gm_leases m) \<and>
     (\<forall>l r. map_of (gm_leases m) l = Some r \<longrightarrow> gen_at m (lease_generation (lr_lease r)) \<noteq> None)"

definition gm_inv :: "time \<Rightarrow> gen_manager \<Rightarrow> bool" where
  "gm_inv T m \<longleftrightarrow> gens_ok m \<and> pointers_ok m \<and> gc_ok T m \<and> leases_ok m \<and> 0 \<le> gm_revision m"

named_theorems gm "definitions of the generation invariant"

lemmas [gm] = gens_ok_def pointers_ok_def gc_ok_def leases_ok_def receipt_ok_def

lemma gm_invI [intro?]:
  "gens_ok m \<Longrightarrow> pointers_ok m \<Longrightarrow> gc_ok T m \<Longrightarrow> leases_ok m \<Longrightarrow> 0 \<le> gm_revision m \<Longrightarrow> gm_inv T m"
  by (simp add: gm_inv_def)

lemma gm_inv_later: "gm_inv T m \<Longrightarrow> T \<le> T' \<Longrightarrow> gm_inv T' m"
  unfolding gm_inv_def gc_ok_def receipt_ok_def by (meson order.strict_trans2)

text \<open>A change of the leases or of the revision only.\<close>

lemma gens_same:
  assumes "gm_inv T m" and "gm_generations m' = gm_generations m" and "gm_active m' = gm_active m"
    and "gm_candidate m' = gm_candidate m" and "gm_window m' = gm_window m"
  shows "gens_ok m' \<and> pointers_ok m'"
  using assms by (simp add: gm_inv_def gens_ok_def pointers_ok_def gen_ok_def)

text \<open>An update of one generation that keeps its place in the life cycle, or purges it.\<close>

definition same_place :: "generation \<Rightarrow> generation \<Rightarrow> bool" where
  "same_place g g' \<longleftrightarrow> gn_id g' = gn_id g \<and>
     (gn_status g' = gn_status g \<or> gn_status g = Retired \<and> gn_status g' = Purged) \<and>
     gn_base_revision g' = gn_base_revision g \<and> gn_retired_at g' = gn_retired_at g \<and>
     gn_rollback_until g' = gn_rollback_until g"

lemma update_in_place:
  assumes inv: "gm_inv T m" and at: "gen_at m k = Some g" and "same_place g g'"
    and "gn_applied_revision g \<le> gn_applied_revision g'" and "changes_ok g'"
  shows "gm_inv T (m\<lparr>gm_generations := dict_set k g' (gm_generations m)\<rparr>)" (is "gm_inv T ?m")
proof
  have ok: "gen_ok m k g" using inv at by (simp add: gm_inv_def gens_ok_def)
  have "gen_ok ?m k g'"
    using ok assms(3-5) by (auto simp: gen_ok_def same_place_def out_of_service_def)
  moreover have "gen_ok ?m j h" if "gen_at m j = Some h" for j h
    using inv that by (simp add: gm_inv_def gens_ok_def gen_ok_def)
  ultimately show "gens_ok ?m" using inv by (simp add: gm_inv_def gens_ok_def)
  have os: "out_of_service g' = out_of_service g"
    using assms(3) by (auto simp: same_place_def out_of_service_def)
  show "pointers_ok ?m"
    using inv at os by (auto simp: gm_inv_def pointers_ok_def)
  show "gc_ok T ?m"
    using inv at os assms(3)
    by (fastforce simp: gm_inv_def gc_ok_def receipt_ok_def same_place_def)
  show "leases_ok ?m"
    using inv at by (auto simp: gm_inv_def leases_ok_def)
  show "0 \<le> gm_revision ?m" using inv by (simp add: gm_inv_def)
qed

section \<open>Index changes\<close>

lemma index_changes_manifest:
  "pget_or ''index_changes'' (PList []) (gn_manifest g') = pget_or ''index_changes'' (PList []) (gn_manifest g)
   \<Longrightarrow> index_changes g' = index_changes g"
  by (simp add: index_changes_def)

lemma changes_ok_cong:
  assumes "map_of (gn_manifest g') ''index_changes'' = map_of (gn_manifest g) ''index_changes''"
    and "gn_base_revision g' = gn_base_revision g" and "gn_applied_revision g' = gn_applied_revision g"
  shows "changes_ok g' = changes_ok g"
  using assms by (simp add: changes_ok_def index_changes_def pget_or_def split: sum.split)

lemma numbered_Nil [simp]: "numbered [] r r"
  by (simp add: numbered_def)

lemma numbered_length: "numbered cs r n \<Longrightarrow> length cs = nat (n - r)"
  by (auto simp: numbered_def dest: arg_cong [of _ _ length])

lemma numbered_append:
  assumes "numbered cs r n" and "numbered ds n k" and "r \<le> n" and "n \<le> k"
  shows "numbered (cs @ ds) r k"
proof -
  have "[r + 1..k] = [r + 1..n] @ [n + 1..k]"
    using assms(3,4) upto_split2 [of "r + 1" n k] by (cases "r = n") auto
  then show ?thesis using assms(1,2) by (simp add: numbered_def)
qed

lemma numbered_single: "map_of c ''revision'' = Some (PInt (n + 1)) \<Longrightarrow> numbered [c] n (n + 1)"
  by (simp add: numbered_def)

lemma only_supplied: "\<exists>supplied cs. xs = supplied @ map PDict cs \<and> numbered cs r r"
  by (intro exI [of _ xs] exI [of _ "[]"]) simp

lemma changes_ok_new: "gn_applied_revision g = gn_base_revision g \<Longrightarrow> changes_ok g"
  by (simp add: changes_ok_def only_supplied split: sum.split)

lemma index_changes_changed:
  "index_changes (changed_generation g r c changes) = Inr (changes @ [PDict (normalized_change r c)])"
  by (simp add: changed_generation_def index_changes_def pget_or_def py_list_def)

lemma changes_ok_changed:
  assumes "changes_ok g" and "index_changes g = Inr changes"
    and "r = gn_applied_revision g + 1" and "gn_base_revision g \<le> gn_applied_revision g"
  shows "changes_ok (changed_generation g r c changes)"
proof -
  obtain supplied cs where cs: "changes = supplied @ map PDict cs"
    "numbered cs (gn_base_revision g) (gn_applied_revision g)"
    using assms(1,2) by (auto simp: changes_ok_def)
  have "numbered (cs @ [normalized_change r c]) (gn_base_revision g) r"
    using cs(2) assms(3,4)
    by (auto intro!: numbered_append numbered_single simp: normalized_change_def)
  then show ?thesis
    using cs(1) unfolding changes_ok_def index_changes_changed
    by (auto simp: changed_generation_def intro!: exI [of _ supplied] exI [of _ "cs @ [normalized_change r c]"])
qed

text \<open>Reading a recorded change back.\<close>

lemma known_change_found:
  assumes "map (\<lambda>c. map_of c ''revision'') cs = map (\<lambda>r. Some (PInt r)) [b..n]"
    and "b \<le> r" and "r \<le> n"
  shows "known_change r (map PDict cs) = Inr (PDict (cs ! nat (r - b)))"
  using assms
proof (induction cs arbitrary: b)
  case Nil
  then have "[b..n] = []" by simp
  then show ?case using Nil(2,3) by simp
next
  case (Cons c cs)
  then have "[b..n] = b # [b + 1..n]" by (simp add: upto_rec1)
  with Cons.prems(1) have c: "map_of c ''revision'' = Some (PInt b)"
    and cs: "map (\<lambda>c. map_of c ''revision'') cs = map (\<lambda>r. Some (PInt r)) [b + 1..n]"
    by simp_all
  show ?case
  proof (cases "r = b")
    case True
    then show ?thesis using c by (simp add: py_item_def py_int_def)
  next
    case False
    then have "known_change r (map PDict cs) = Inr (PDict (cs ! nat (r - (b + 1))))"
      using Cons.IH [OF cs] Cons.prems by simp
    moreover have "nat (r - b) = Suc (nat (r - (b + 1)))" using False Cons.prems by simp
    ultimately show ?thesis using c False by (simp add: py_item_def py_int_def)
  qed
qed

section \<open>Preservation\<close>

lemma get_generation_Inr [simp]: "get_generation m gid = Inr g \<longleftrightarrow> gen_at m gid = Some g"
  by (simp add: get_generation_def split: option.split)

lemma inv_gen_ok: "gm_inv T m \<Longrightarrow> gen_at m k = Some g \<Longrightarrow> gen_ok m k g"
  by (simp add: gm_inv_def gens_ok_def)

lemma inv_revision:
  "gm_inv T m \<Longrightarrow> gm_inv T (fst (set_current_revision r m))"
  using gens_same [of T m "m\<lparr>gm_revision := r\<rparr>"]
  by (auto simp: set_current_revision_def gm_inv_def gc_ok_def receipt_ok_def leases_ok_def)

lemma inv_change:
  assumes inv: "gm_inv T m"
  shows "gm_inv T (fst (apply_change gid r c m))"
proof -
  have "gm_inv T (m\<lparr>gm_generations := dict_set gid (changed_generation g r c changes) (gm_generations m)\<rparr>)"
    if "gen_at m gid = Some g" "index_changes g = Inr changes" "r = gn_applied_revision g + 1" for g changes
  proof (rule update_in_place [OF inv that(1)])
    have g: "gen_ok m gid g" using inv that(1) by (rule inv_gen_ok)
    show "changes_ok (changed_generation g r c changes)"
      using g that by (intro changes_ok_changed) (auto simp: gen_ok_def)
  qed (use that in \<open>auto simp: changed_generation_def same_place_def\<close>)
  then show ?thesis
    using inv by (auto simp: apply_change_def Let_def split: sum.splits)
qed

lemma with_component_effect:
  assumes "with_component kind state manifest g = Inr g'"
  obtains v s where "g' = g\<lparr>gn_manifest := dict_set ''components'' v (gn_manifest g), gn_graph_state := s\<rparr>"
  using assms unfolding with_component_def bindE_Inr Let_def by blast

lemma inv_component:
  assumes inv: "gm_inv T m"
  shows "gm_inv T (fst (set_component_state gid kind state manifest m))"
proof -
  have "gm_inv T (m\<lparr>gm_generations := dict_set gid g' (gm_generations m)\<rparr>)"
    if at: "gen_at m gid = Some g" and g': "with_component kind state manifest g = Inr g'" for g g'
  proof -
    obtain v s where g': "g' = g\<lparr>gn_manifest := dict_set ''components'' v (gn_manifest g), gn_graph_state := s\<rparr>"
      using g' by (rule with_component_effect)
    have "changes_ok g" using inv_gen_ok [OF inv at] by (simp add: gen_ok_def)
    then have "changes_ok g'" using changes_ok_cong [of g' g] g' by simp
    with g' show ?thesis by (intro update_in_place [OF inv at]) (simp_all add: same_place_def)
  qed
  then show ?thesis
    using inv by (auto simp: set_component_state_def split: sum.splits)
qed

lemma inv_leases:
  assumes "gm_inv T m" and "unique_keys ls"
    and "\<And>l r. map_of ls l = Some r \<Longrightarrow> gen_at m (lease_generation (lr_lease r)) \<noteq> None"
  shows "gm_inv T (m\<lparr>gm_leases := ls\<rparr>)"
  using assms gens_same [of T m "m\<lparr>gm_leases := ls\<rparr>"]
  by (auto simp: gm_inv_def gc_ok_def receipt_ok_def leases_ok_def)

lemma inv_put_lease:
  assumes "gm_inv T m" and "gen_at m (lease_generation (lr_lease r)) \<noteq> None"
  shows "gm_inv T (m\<lparr>gm_leases := dict_set k r (gm_leases m)\<rparr>)"
  using assms by (intro inv_leases) (auto simp: gm_inv_def leases_ok_def split: if_splits)

lemma inv_release_lease: "gm_inv T m \<Longrightarrow> gm_inv T (release_reference_lease l m)"
  unfolding release_reference_lease_def
  by (rule inv_leases) (auto simp: gm_inv_def leases_ok_def split: if_splits)

lemma inv_mark_stale: "gm_inv T m \<Longrightarrow> gm_inv T (fst (mark_graph_stale gid m))"
  using inv_component [of T m gid "''public_graph''" "''stale''" None]
  by (auto simp: mark_graph_stale_def split: prod.splits sum.splits)

lemma inv_acquire: "gm_inv T m \<Longrightarrow> gm_inv T (fst (acquire_reference_lease ttl fresh now m))"
  using inv_put_lease [of T m] by (auto simp: acquire_reference_lease_def Let_def gm_inv_def pointers_ok_def)

lemma graph_component_at: "graph_component m gid = Inr (g, s) \<Longrightarrow> gen_at m gid = Some g"
  by (auto simp: graph_component_def)

lemma inv_reader:
  assumes inv: "gm_inv T m"
  shows "gm_inv T (fst (acquire_graph_reader_lease gid fence h valid ttl fresh now m))"
proof -
  have "gn_id g = gid" if "graph_component m gid = Inr (g, s)" for g s
    using inv_gen_ok [OF inv graph_component_at [OF that]] by (simp add: gen_ok_def)
  then show ?thesis
    using inv graph_component_at [of m gid]
    by (auto simp: acquire_graph_reader_lease_def Let_def inv_mark_stale intro!: inv_put_lease
        split: sum.splits)
qed

lemma get_reader_lease_at:
  "get_graph_reader_lease k m = Inr l \<Longrightarrow>
     \<exists>r. map_of (gm_leases m) k = Some r \<and> lr_lease r = ReaderLease l"
  by (auto simp: get_graph_reader_lease_def split: option.splits if_splits lease.splits)

lemma inv_renew:
  assumes inv: "gm_inv T m"
  shows "gm_inv T (fst (renew_graph_reader_lease k valid ttl now1 now2 m))"
proof -
  have "gen_at m (cl_generation_id l) \<noteq> None" if "get_graph_reader_lease k m = Inr l" for l
    using get_reader_lease_at [OF that] inv by (force simp: gm_inv_def leases_ok_def)
  then show ?thesis
    using inv inv_mark_stale [OF inv_release_lease [OF inv]]
    by (auto simp: renew_graph_reader_lease_def Let_def intro!: inv_put_lease split: sum.splits)
qed

lemma inv_record_gc:
  assumes "gm_inv T m" and "receipt_ok T m r"
  shows "gm_inv T (record_gc run r m)"
  using assms gens_same [of T m "record_gc run r m"]
  by (auto simp: record_gc_def gm_inv_def gc_ok_def receipt_ok_def leases_ok_def)


lemma gc_reasons_Nil:
  "gc_reasons m g gid now = [] \<longleftrightarrow> gn_status g = Retired \<and> \<not> has_generation_lease m gid \<and>
     (gm_candidate m = Some gid \<longrightarrow> (\<exists>u. gn_rollback_until g = Some u \<and> u < now))"
  by (auto simp: gc_reasons_def not_le split: option.splits if_splits)

lemma inv_request_gc:
  assumes inv: "gm_inv T m" and "T \<le> now"
  shows "gm_inv now (fst (request_index_generation_gc gid run op now m))"
proof -
  have inv': "gm_inv now m" using assms by (rule gm_inv_later)
  then show ?thesis
    by (auto simp: request_index_generation_gc_def Let_def receipt_ok_def gc_reasons_Nil
        out_of_service_def get_generation_def split: option.splits intro!: inv_record_gc)
qed

lemma inv_complete_gc:
  assumes inv: "gm_inv T m"
  shows "gm_inv T (fst (complete_generation_gc gid op m))"
proof -
  have "gm_inv T (record_gc run r
      (m\<lparr>gm_generations := dict_set gid (g\<lparr>gn_status := Purged\<rparr>) (gm_generations m)\<rparr>))"
    if at: "gen_at m gid = Some g" and "gn_status g = Retired"
      and "gr_state r = GcPurged" and "gr_candidate r = gid" for g run r
  proof (rule inv_record_gc)
    have "changes_ok g" using inv_gen_ok [OF inv at] by (simp add: gen_ok_def)
    then have "changes_ok (g\<lparr>gn_status := Purged\<rparr>)"
      using changes_ok_cong [of "g\<lparr>gn_status := Purged\<rparr>" g] by simp
    then show "gm_inv T (m\<lparr>gm_generations := dict_set gid (g\<lparr>gn_status := Purged\<rparr>) (gm_generations m)\<rparr>)"
      using that by (intro update_in_place [OF inv at]) (simp_all add: same_place_def)
  qed (use that in \<open>simp add: receipt_ok_def\<close>)
  then show ?thesis
    using inv by (auto simp: complete_generation_gc_def Let_def get_generation_def split: option.splits)
qed

lemma inv_new_generation:
  assumes inv: "gm_inv T m" and new: "gen_at m (gn_id g) = None"
    and g: "gn_status g = Staging" "0 \<le> gn_base_revision g" "gn_applied_revision g = gn_base_revision g"
      "changes_ok g"
  shows "gm_inv T (put_generation g m)" (is "gm_inv T ?m")
proof
  have a: "gn_id g \<noteq> gm_active m" using inv new by (auto simp: gm_inv_def pointers_ok_def)
  have "gen_ok ?m (gn_id g) g"
    using g a by (simp add: gen_ok_def put_generation_def out_of_service_def)
  moreover have "gen_ok ?m j h" if "gen_at m j = Some h" for j h
    using inv_gen_ok [OF inv that] by (simp add: gen_ok_def put_generation_def)
  ultimately show "gens_ok ?m" using inv by (simp add: gm_inv_def gens_ok_def put_generation_def)
  show "pointers_ok ?m"
    using inv new by (fastforce simp: gm_inv_def pointers_ok_def put_generation_def)
  show "gc_ok T ?m"
    using inv new by (fastforce simp: gm_inv_def gc_ok_def receipt_ok_def put_generation_def)
  show "leases_ok ?m" "0 \<le> gm_revision ?m"
    using inv by (auto simp: gm_inv_def leases_ok_def put_generation_def)
qed

lemma inv_staging:
  assumes inv: "gm_inv T m"
  shows "gm_inv T (fst (create_staging snapshot base expected gid manifest fresh now m))"
  using inv
  by (auto simp: create_staging_def Let_def split: option.split
      intro!: inv_new_generation changes_ok_new)

lemma inv_swap:
  assumes inv: "gm_inv T m" and swap: "swap_active g now m = Inr (m', g')"
    and at: "gen_at m (gn_id g) = Some g0" and place: "gn_status g0 \<noteq> Active"
    and same: "gn_base_revision g = gn_base_revision g0" "gn_applied_revision g = gn_applied_revision g0"
      "changes_ok g"
    and free: "\<And>op run r. map_of (gm_gc m) op = Some (run, r) \<Longrightarrow> gr_state r \<noteq> GcBlocked \<Longrightarrow>
      gr_candidate r \<noteq> gn_id g"
  shows "gm_inv T m'"
proof -
  obtain p where p: "gen_at m (gm_active m) = Some p"
    using inv by (auto simp: gm_inv_def pointers_ok_def)
  have pk: "gen_ok m (gm_active m) p" using inv p by (rule inv_gen_ok)
  have gk: "gen_ok m (gn_id g) g0" using inv at by (rule inv_gen_ok)
  have ne: "gn_id g \<noteq> gm_active m" using gk place by (auto simp: gen_ok_def)
  let ?r = "p\<lparr>gn_status := Retired, gn_retired_at := Some now, gn_rollback_until := Some (now + gm_window m)\<rparr>"
  let ?a = "g\<lparr>gn_status := Active, gn_activated_at := Some now, gn_retired_at := None\<rparr>"
  have pid: "gn_id p = gm_active m" using pk by (simp add: gen_ok_def)
  have m': "m' = (put_generation ?a (put_generation ?r m))
      \<lparr>gm_active := gn_id g, gm_candidate := Some (gm_active m)\<rparr>"
    using swap p pid by (auto simp: swap_active_def Let_def)
  have at': "gen_at m' = (gen_at m)(gm_active m \<mapsto> ?r, gn_id g \<mapsto> ?a)"
    using m' pid by (simp add: put_generation_def)
  have ptr: "gm_active m' = gn_id g" "gm_candidate m' = Some (gm_active m)" "gm_gc m' = gm_gc m"
    "gm_leases m' = gm_leases m" "gm_revision m' = gm_revision m" "gm_window m' = gm_window m"
    using m' by (simp_all add: put_generation_def)
  show ?thesis
  proof
    have "gen_ok m' (gn_id g) ?a"
      using gk same changes_ok_cong [of ?a g] by (simp add: gen_ok_def ptr out_of_service_def)
    moreover have "gen_ok m' (gm_active m) ?r"
      using pk ne changes_ok_cong [of ?r p] by (simp add: gen_ok_def ptr out_of_service_def)
    moreover have "gen_ok m' j h" if "gen_at m j = Some h" "j \<noteq> gm_active m" "j \<noteq> gn_id g" for j h
      using inv_gen_ok [OF inv that(1)] that(2,3) by (simp add: gen_ok_def ptr)
    moreover have "unique_keys (gm_generations m')"
      using inv m' by (simp add: gm_inv_def gens_ok_def put_generation_def)
    ultimately show "gens_ok m'" by (simp add: gens_ok_def at')
    show "pointers_ok m'"
      using ne by (simp add: pointers_ok_def ptr at' out_of_service_def)
    have "gr_candidate r \<noteq> gm_active m" if "map_of (gm_gc m) op = Some (run, r)" "gr_state r \<noteq> GcBlocked"
      for op run r
      using that inv p pk
      by (cases "gr_state r") (fastforce simp: gm_inv_def gc_ok_def receipt_ok_def out_of_service_def gen_ok_def)+
    then show "gc_ok T m'"
      using inv free unfolding gm_inv_def gc_ok_def receipt_ok_def
      by (fastforce simp: ptr at')
    show "leases_ok m'" using inv by (auto simp: gm_inv_def leases_ok_def ptr at')
    show "0 \<le> gm_revision m'" using inv by (simp add: gm_inv_def ptr)
  qed
qed

text \<open>Releasing a staged generation, and restoring the rollback candidate within its window.\<close>

lemma release_checks_Inr:
  assumes "release_checks gid expected current gate m = Inr g"
  shows "gen_at m gid = Some g" and "expected = None \<or> expected = Some (gm_active m)"
    and "gn_status g = Active \<or> gn_status g = Staging \<and>
      gn_applied_revision g = (case current of None \<Rightarrow> gm_revision m | Some r \<Rightarrow> r) \<and>
      passes_gate gate g \<and>
      (\<exists>cs. manifest_components g = Inr cs \<and> components_healthy (map snd cs) = Inr ())"
  using assms by (auto simp: release_checks_def split: if_splits)

lemma settled_out_of_service:
  assumes "gm_inv T m" and "map_of (gm_gc m) op = Some (run, r)" and "gr_state r \<noteq> GcBlocked"
  obtains g where "gen_at m (gr_candidate r) = Some g" and "out_of_service g"
  using assms
  by (cases "gr_state r") (fastforce simp: gm_inv_def gc_ok_def receipt_ok_def out_of_service_def)+

lemma inv_release:
  assumes inv: "gm_inv T m"
  shows "gm_inv T (fst (release gid expected current gate now m))"
proof -
  have "gm_inv T m'"
    if chk: "release_checks gid expected current gate m = Inr g" and "gn_status g \<noteq> Active"
      and swap: "swap_active g now m = Inr (m', g')" for g m' g'
  proof -
    have at: "gen_at m gid = Some g" and st: "gn_status g = Staging"
      using release_checks_Inr [OF chk] that(2) by auto
    have g: "gen_ok m gid g" using inv at by (rule inv_gen_ok)
    show ?thesis
    proof (rule inv_swap [OF inv swap, of g])
      show "gr_candidate r \<noteq> gn_id g"
        if "map_of (gm_gc m) op = Some (run, r)" "gr_state r \<noteq> GcBlocked" for op run r
        using settled_out_of_service [OF inv that] g at st
        by (metis gen_ok_def gen_status.distinct(3,9) option.sel out_of_service_def)
    qed (use g at st in \<open>auto simp: gen_ok_def\<close>)
  qed
  then show ?thesis
    using inv by (auto simp: release_def split: sum.splits)
qed

lemma disable_graph_same:
  "gn_id (disable_graph cs gr g) = gn_id g" "gn_status (disable_graph cs gr g) = gn_status g"
  "gn_base_revision (disable_graph cs gr g) = gn_base_revision g"
  "gn_applied_revision (disable_graph cs gr g) = gn_applied_revision g"
  "changes_ok (disable_graph cs gr g) = changes_ok g"
  using changes_ok_cong [of "disable_graph cs gr g" g] by (simp_all add: disable_graph_def)

lemma rollback_checks_Inr:
  assumes "rollback_checks gid current receipt gate now m = Inr g"
  obtains g0 cs gr where "gen_at m gid = Some g0" and "g = disable_graph cs gr g0"
    and "gn_status g0 = Retired" and "gm_candidate m = Some gid"
    and "now - (case gn_retired_at g0 of None \<Rightarrow> gn_created_at g0 | Some t \<Rightarrow> t) \<le> gm_window m"
    and "gn_rollback_applied g0 = Some (case current of None \<Rightarrow> gm_revision m | Some r \<Rightarrow> r)"
    and "passes_gate gate g0"
  using assms unfolding rollback_checks_def Let_def bindE_Inr require_Inr get_generation_Inr
  by blast

lemma inv_rollback:
  assumes inv: "gm_inv T m" and "T \<le> now1" and "now1 \<le> now2"
  shows "gm_inv now2 (fst (rollback gid current receipt gate now1 now2 m))"
proof -
  have "gm_inv T m'"
    if chk: "rollback_checks gid current receipt gate now1 m = Inr g"
      and swap: "swap_active g now2 m = Inr (m', g')" for g m' g'
  proof -
    obtain g0 cs gr where at: "gen_at m gid = Some g0" and g: "g = disable_graph cs gr g0"
      and st: "gn_status g0 = Retired" and cand: "gm_candidate m = Some gid"
      and win: "now1 - (case gn_retired_at g0 of None \<Rightarrow> gn_created_at g0 | Some t \<Rightarrow> t) \<le> gm_window m"
      using chk by (rule rollback_checks_Inr)
    have g0: "gen_ok m gid g0" using inv at by (rule inv_gen_ok)
    obtain t where t: "gn_retired_at g0 = Some t" "gn_rollback_until g0 = Some (t + gm_window m)"
      using g0 st by (auto simp: gen_ok_def out_of_service_def)
    have id: "gn_id g = gid" using g g0 by (simp add: disable_graph_same gen_ok_def)
    show ?thesis
    proof (rule inv_swap [OF inv swap, of g0])
      show "gr_candidate r \<noteq> gn_id g"
        if "map_of (gm_gc m) op = Some (run, r)" "gr_state r \<noteq> GcBlocked" for op run r
      proof (cases "gr_state r")
        case GcAccepted
        then show ?thesis
          using that(1) inv at cand win t id assms(2)
          by (fastforce simp: gm_inv_def gc_ok_def receipt_ok_def)
      next
        case GcPurged
        then show ?thesis
          using that(1) inv at st id by (fastforce simp: gm_inv_def gc_ok_def receipt_ok_def)
      qed (use that in simp)
    qed (use at st g g0 id in \<open>auto simp: disable_graph_same gen_ok_def\<close>)
  qed
  then have "gm_inv T (fst (rollback gid current receipt gate now1 now2 m))"
    using inv by (auto simp: rollback_def split: sum.splits)
  then show ?thesis using assms(2,3) by (rule gm_inv_later [OF _ order.trans])
qed

section \<open>Reachable managers\<close>

lemma gm_step_time: "gm_step T m T' m' \<Longrightarrow> T \<le> T'"
  by (induction rule: gm_step.induct) auto

lemma gm_steps_time: "gm_steps T m T' m' \<Longrightarrow> T \<le> T'"
  by (induction rule: gm_steps.induct) (auto dest: gm_step_time)

lemma gm_steps_trans: "gm_steps T m T' m' \<Longrightarrow> gm_steps T' m' T'' m'' \<Longrightarrow> gm_steps T m T'' m''"
  by (rotate_tac, induction rule: gm_steps.induct) (auto intro: gm_steps.step)

lemma gm_step_inv: "gm_step T m T' m' \<Longrightarrow> gm_inv T m \<Longrightarrow> gm_inv T' m'"
proof (induction rule: gm_step.induct)
  case (rollback T now1 now2 m gid current receipt gate)
  then show ?case by (intro inv_rollback)
next
  case (request_gc T now m gid run op)
  then show ?case by (intro inv_request_gc)
qed (auto intro: gm_inv_later inv_revision inv_staging inv_change inv_component inv_release inv_acquire
    inv_release_lease inv_reader inv_renew inv_complete_gc)

lemma gm_steps_inv: "gm_steps T m T' m' \<Longrightarrow> gm_inv T m \<Longrightarrow> gm_inv T' m'"
  by (induction rule: gm_steps.induct) (auto intro: gm_step_inv)

lemma new_manager_inv:
  assumes "new_manager r now rollback_days = Inr m"
  shows "gm_inv now m"
proof -
  have "changes_ok g" if "gen_at m k = Some g" for k g
    using assms that by (intro changes_ok_new) (auto simp: new_manager_def split: if_splits)
  then show ?thesis
    using assms
    by (auto simp: new_manager_def gm_inv_def gm gen_ok_def out_of_service_def unique_keys_def split: if_splits)
qed

lemma gm_reachable_inv:
  "new_manager r now rollback_days = Inr m \<Longrightarrow> gm_steps now m T m' \<Longrightarrow> gm_inv T m'"
  using new_manager_inv gm_steps_inv by blast

end
