(* ===== verification/Generation_History.thy ===== *)
theory Generation_History
  imports Generation_Invariants
begin

text \<open>
  What the calls of the generation manager leave behind: the effect of a swap of the active
  generation, recorded index changes that are never lost, and garbage collection receipts that
  are kept.
\<close>

section \<open>The swap of the active generation\<close>

lemma swap_effect:
  assumes "gm_inv T m" and "swap_active g now m = Inr (m', g')"
  obtains p where "gen_at m (gm_active m) = Some p"
    and "gen_at m' = (gen_at m)(gm_active m \<mapsto> p\<lparr>gn_status := Retired, gn_retired_at := Some now,
      gn_rollback_until := Some (now + gm_window m)\<rparr>, gn_id g \<mapsto> g')"
    and "g' = g\<lparr>gn_status := Active, gn_activated_at := Some now, gn_retired_at := None\<rparr>"
    and "gm_active m' = gn_id g" and "gm_candidate m' = Some (gm_active m)"
    and "gm_revision m' = gm_revision m" and "gm_leases m' = gm_leases m" and "gm_gc m' = gm_gc m"
proof -
  obtain p where p: "gen_at m (gm_active m) = Some p"
    using assms by (auto simp: gm_inv_def pointers_ok_def)
  have id: "gn_id p = gm_active m"
    using inv_gen_ok [OF assms(1) p] by (simp add: gen_ok_def)
  let ?r = "p\<lparr>gn_status := Retired, gn_retired_at := Some now, gn_rollback_until := Some (now + gm_window m)\<rparr>"
  let ?a = "g\<lparr>gn_status := Active, gn_activated_at := Some now, gn_retired_at := None\<rparr>"
  have "m' = (put_generation ?a (put_generation ?r m))\<lparr>gm_active := gn_id g, gm_candidate := Some (gm_active m)\<rparr>"
    and "g' = ?a"
    using assms(2) p id by (auto simp: swap_active_def Let_def)
  then show ?thesis
    using id by (intro that [OF p]) (simp_all add: put_generation_def)
qed

section \<open>Recorded changes\<close>

text \<open>
  No call takes a recorded change away from a generation or changes its base, and what is added
  to the recorded changes are those of the revisions the generation moves on to. While it applies
  none, it keeps its record of being caught up for a rollback.
\<close>

definition extends :: "generation \<Rightarrow> generation \<Rightarrow> bool" where
  "extends g g' \<longleftrightarrow> gn_base_revision g' = gn_base_revision g \<and>
     gn_applied_revision g \<le> gn_applied_revision g' \<and>
     (gn_applied_revision g' = gn_applied_revision g \<longrightarrow> gn_rollback_applied g' = gn_rollback_applied g) \<and>
     (case index_changes g of
        Inl e \<Rightarrow> index_changes g' = Inl e \<and> gn_applied_revision g' = gn_applied_revision g
      | Inr xs \<Rightarrow> \<exists>cs. index_changes g' = Inr (xs @ map PDict cs) \<and>
          numbered cs (gn_applied_revision g) (gn_applied_revision g'))"

definition grows :: "gen_manager \<Rightarrow> gen_manager \<Rightarrow> bool" where
  "grows m m' \<longleftrightarrow> (\<forall>k g. gen_at m k = Some g \<longrightarrow> (\<exists>g'. gen_at m' k = Some g' \<and> extends g g'))"

lemma extends_trans:
  assumes "extends g g'" and "extends g' g''"
  shows "extends g g''"
proof (cases "index_changes g")
  case (Inr xs)
  obtain cs where cs: "index_changes g' = Inr (xs @ map PDict cs)"
    "numbered cs (gn_applied_revision g) (gn_applied_revision g')"
    using assms(1) Inr by (auto simp: extends_def)
  obtain ds where ds: "index_changes g'' = Inr (xs @ map PDict (cs @ ds))"
    "numbered ds (gn_applied_revision g') (gn_applied_revision g'')"
    using assms(2) cs(1) by (auto simp: extends_def)
  have "numbered (cs @ ds) (gn_applied_revision g) (gn_applied_revision g'')"
    using assms by (intro numbered_append [OF cs(2) ds(2)]) (auto simp: extends_def)
  then show ?thesis
    using assms Inr ds(1) unfolding extends_def by (auto intro!: exI [of _ "cs @ ds"])
qed (use assms in \<open>auto simp: extends_def\<close>)

lemma grows_trans: "grows m m' \<Longrightarrow> grows m' m'' \<Longrightarrow> grows m m''"
  unfolding grows_def using extends_trans by meson

lemma extends_manifest:
  assumes "map_of (gn_manifest g') ''index_changes'' = map_of (gn_manifest g) ''index_changes''"
    and "gn_base_revision g' = gn_base_revision g" and "gn_applied_revision g' = gn_applied_revision g"
    and "gn_rollback_applied g' = gn_rollback_applied g"
  shows "extends g g'"
  using assms
  by (auto simp: extends_def index_changes_def pget_or_def split: sum.split intro: exI [of _ "[]"])

lemma extends_changed:
  "index_changes g = Inr xs \<Longrightarrow> r = gn_applied_revision g + 1 \<Longrightarrow> extends g (changed_generation g r c xs)"
  unfolding extends_def index_changes_changed
  by (auto simp: changed_generation_def normalized_change_def numbered_single
      intro!: exI [of _ "[normalized_change r c]"])

lemma extends_refl: "extends g g"
  by (simp add: extends_manifest)

lemma grows_same: "gm_generations m' = gm_generations m \<Longrightarrow> grows m m'"
  by (auto simp: grows_def intro: extends_refl)

lemma grows_put:
  assumes "gen_at m k = None \<or> (\<exists>g. gen_at m k = Some g \<and> extends g g')"
  shows "grows m (m\<lparr>gm_generations := dict_set k g' (gm_generations m)\<rparr>)"
  using assms by (auto simp: grows_def intro: extends_refl)

lemma grows_swap:
  assumes inv: "gm_inv T m" and swap: "swap_active g now m = Inr (m', g')"
    and "gen_at m (gn_id g) = Some g0"
    and "map_of (gn_manifest g) ''index_changes'' = map_of (gn_manifest g0) ''index_changes''"
    and "gn_base_revision g = gn_base_revision g0" and "gn_applied_revision g = gn_applied_revision g0"
    and "gn_rollback_applied g = gn_rollback_applied g0"
  shows "grows m m'"
  using swap
proof (rule swap_effect [OF inv])
  fix p
  assume p: "gen_at m (gm_active m) = Some p"
    and m': "gen_at m' = (gen_at m)(gm_active m \<mapsto> p\<lparr>gn_status := Retired, gn_retired_at := Some now,
      gn_rollback_until := Some (now + gm_window m)\<rparr>, gn_id g \<mapsto> g')"
    and g': "g' = g\<lparr>gn_status := Active, gn_activated_at := Some now, gn_retired_at := None\<rparr>"
  show ?thesis
    using assms(3-7) p by (auto simp: grows_def m' g' intro!: extends_manifest)
qed

lemma grows_component: "grows m (fst (set_component_state gid kind state manifest m))"
proof -
  have "extends g g'" if "with_component kind state manifest g = Inr g'" for g g'
    using that by (elim with_component_effect) (auto intro!: extends_manifest)
  then show ?thesis
    using grows_same grows_put [of m gid]
    by (auto simp: set_component_state_def split: sum.splits)
qed

lemma grows_stale: "grows m (fst (mark_graph_stale gid m))"
  using grows_component [of m gid "''public_graph''" "''stale''" None]
  by (auto simp: mark_graph_stale_def split: prod.splits sum.splits)

lemma grows_renew: "grows m (fst (renew_graph_reader_lease k valid ttl now1 now2 m))"
proof -
  have "grows m (release_reference_lease k m)"
    by (rule grows_same) (simp add: release_reference_lease_def)
  from grows_trans [OF this grows_stale] show ?thesis
    using grows_same
    by (auto simp: renew_graph_reader_lease_def Let_def split: sum.splits)
qed

lemma step_grows:
  assumes inv: "gm_inv T m" and step: "gm_step T m T' m'"
  shows "grows m m'"
  using step
proof cases
  case (change gid r c)
  then show ?thesis
    using grows_same grows_put [of m gid]
    by (auto simp: apply_change_def Let_def extends_changed split: sum.splits)
next
  case (staging manifest snapshot base expected gid fresh)
  then show ?thesis
    using grows_same grows_put
    by (auto simp: create_staging_def Let_def put_generation_def split: option.splits)
next
  case (release gid expected current gate)
  have "grows m m1" if "release_checks gid expected current gate m = Inr g" "swap_active g T' m = Inr (m1, g')" for g m1 g'
    using release_checks_Inr(1) [OF that(1)] inv_gen_ok [OF inv release_checks_Inr(1) [OF that(1)]]
    by (intro grows_swap [OF inv that(2)]) (auto simp: gen_ok_def)
  then show ?thesis
    using release(1) grows_same by (auto simp: release_def split: sum.splits)
next
  case (rollback now1 gid current receipt gate)
  have "grows m m1"
    if "rollback_checks gid current receipt gate now1 m = Inr g" and swap: "swap_active g T' m = Inr (m1, g')" for g m1 g'
    using that(1)
  proof (rule rollback_checks_Inr)
    fix g0 cs gr
    assume "gen_at m gid = Some g0" and "g = disable_graph cs gr g0"
    then show ?thesis
      using inv_gen_ok [OF inv] by (intro grows_swap [OF inv swap, of g0]) (auto simp: disable_graph_def gen_ok_def)
  qed
  then show ?thesis
    using rollback(1) grows_same by (auto simp: rollback_def split: sum.splits)
next
  case (complete_gc gid op)
  have "extends g (g\<lparr>gn_status := Purged\<rparr>)" for g
    by (rule extends_manifest) simp_all
  then show ?thesis
    using complete_gc(1) grows_same grows_put [of m gid]
    by (auto simp: complete_generation_gc_def Let_def get_generation_def record_gc_def grows_def split: option.splits)
next
  case (component gid kind state manifest)
  then show ?thesis using grows_component by simp
next
  case (reader fresh gid fence h valid ttl)
  then show ?thesis
    using grows_same grows_stale
    by (auto simp: acquire_graph_reader_lease_def Let_def split: sum.splits)
next
  case (renew now1 lease_id valid ttl)
  then show ?thesis using grows_renew by simp
qed (auto intro!: grows_same simp: set_current_revision_def acquire_reference_lease_def Let_def
    release_reference_lease_def request_index_generation_gc_def record_gc_def get_generation_def
    split: option.split)

lemma steps_grows: "gm_steps T m T' m' \<Longrightarrow> gm_inv T m \<Longrightarrow> grows m m'"
proof (induction rule: gm_steps.induct)
  case (refl T m)
  then show ?case by (intro grows_same) auto
next
  case (step T m T' m' T'' m'')
  then show ?case using gm_steps_inv step_grows grows_trans by blast
qed

section \<open>Receipts\<close>

definition gc_settled :: "gen_manager \<Rightarrow> string \<Rightarrow> string \<Rightarrow> string \<Rightarrow> bool" where
  "gc_settled m op run gid \<longleftrightarrow>
     (\<exists>r. map_of (gm_gc m) op = Some (run, r) \<and> gr_candidate r = gid \<and> gr_state r \<noteq> GcBlocked)"

lemma step_settled:
  assumes inv: "gm_inv T m" and step: "gm_step T m T' m'" and "gc_settled m op run gid"
  shows "gc_settled m' op run gid"
proof -
  have stale: "gm_gc (fst (mark_graph_stale g m)) = gm_gc m" for g m
    by (auto simp: mark_graph_stale_def set_component_state_def split: sum.splits)
  have ids: "gr_operation_id r = o'" if "map_of (gm_gc m) o' = Some (u, r)" for o' u r
    using inv that by (auto simp: gm_inv_def gc_ok_def)
  have kept: "gc_settled m1 op run gid" if "gm_gc m1 = gm_gc m" for m1
    using assms(3) that by (simp add: gc_settled_def)
  from step show ?thesis
  proof cases
    case (request_gc g run' op')
    then show ?thesis
      using assms(3)
      by (auto simp: request_index_generation_gc_def Let_def record_gc_def gc_settled_def
          split: option.split sum.split)
  next
    case (complete_gc g op')
    then show ?thesis
      using assms(3)
      by (auto simp: complete_generation_gc_def Let_def record_gc_def gc_settled_def
          split: option.split sum.split)
  qed (auto intro!: kept simp: set_current_revision_def create_staging_def put_generation_def Let_def
      apply_change_def set_component_state_def release_def rollback_def swap_active_def
      acquire_reference_lease_def release_reference_lease_def acquire_graph_reader_lease_def
      renew_graph_reader_lease_def stale split: sum.splits option.splits)
qed

lemma steps_settled:
  "gm_steps T m T' m' \<Longrightarrow> gm_inv T m \<Longrightarrow> gc_settled m op run gid \<Longrightarrow> gc_settled m' op run gid"
  by (induction rule: gm_steps.induct) (blast intro: step_settled gm_steps_inv)+

end
