(* ===== verification/Generation_Properties.thy ===== *)
theory Generation_Properties
  imports Generation_History
begin

text \<open>
  What the generation manager promises its callers: one active generation at any time, an
  abstract life cycle it refines, releases and rollbacks that swap the pointer atomically,
  idempotent index changes, and garbage collection that never takes a generation still needed.
\<close>

section \<open>A small history\<close>

text \<open>
  A manager at revision 0 with a window of seven days, a staged generation, and its release. The
  manifests stay folded: only their components are looked at.
\<close>

definition gx_gen :: "string \<Rightarrow> gen_status \<Rightarrow> generation" where
  "gx_gen gid st = \<lparr>gn_id = gid, gn_status = st, gn_base_revision = 0, gn_applied_revision = 0,
     gn_manifest = dict_set ''base_snapshot'' (PList []) (generation_manifest gid 0 0 (st = Active) None),
     gn_created_at = 0, gn_activated_at = (if st = Active then Some 0 else None), gn_retired_at = None,
     gn_rollback_until = None, gn_rollback_applied = None, gn_graph_state = ''disabled''\<rparr>"

definition gx_start :: gen_manager where
  "gx_start = \<lparr>gm_window = days 7, gm_generations = [(initial_id, gx_gen initial_id Active)],
     gm_active = initial_id, gm_revision = 0, gm_candidate = None, gm_leases = [], gm_gc = []\<rparr>"

definition gx_staged :: gen_manager where
  "gx_staged = gx_start\<lparr>gm_generations :=
     [(initial_id, gx_gen initial_id Active), (''g1'', gx_gen ''g1'' Staging)]\<rparr>"

definition gx_retired :: "time \<Rightarrow> generation \<Rightarrow> generation" where
  "gx_retired t g = g\<lparr>gn_status := Retired, gn_retired_at := Some t, gn_rollback_until := Some (t + days 7)\<rparr>"

definition gx_activated :: "time \<Rightarrow> generation \<Rightarrow> generation" where
  "gx_activated t g = g\<lparr>gn_status := Active, gn_activated_at := Some t, gn_retired_at := None\<rparr>"

definition gx_released :: gen_manager where
  "gx_released = gx_start\<lparr>gm_generations :=
      [(initial_id, gx_retired 1 (gx_gen initial_id Active)), (''g1'', gx_activated 1 (gx_gen ''g1'' Staging))],
     gm_active := ''g1'', gm_candidate := Some initial_id\<rparr>"

lemmas gx_defs = gx_start_def gx_staged_def gx_released_def gx_retired_def gx_activated_def gx_gen_def
  initial_id_def

lemma gx_new: "new_manager 0 0 7 = Inr gx_start"
  by (simp add: gx_defs new_manager_def)

lemma gx_create: "create_staging [] None None (Some ''g1'') None ''x'' 0 gx_start = (gx_staged, Inr (gx_gen ''g1'' Staging))"
  by (simp add: gx_defs create_staging_def put_generation_def Let_def)

lemma fresh_components:
  "manifest_components (g\<lparr>gn_manifest := dict_set ''base_snapshot'' b (generation_manifest gid r now active None)\<rparr>) =
   Inr (map (\<lambda>(k, p). (k, PDict p)) (component_defaults gid))"
  by (simp add: manifest_components_def generation_manifest_def Let_def pget_or_def map_of_dict_merge
      fill_components_def component_defaults_def as_mapping_def dict_merge_def)

lemma gx_components: "manifest_components (gx_gen gid st) = Inr (map (\<lambda>(k, p). (k, PDict p)) (component_defaults gid))"
  using fresh_components [where g = "gx_gen gid st" and b = "PList []" and r = 0 and now = 0 and active = "st = Active"]
  by (simp add: gx_gen_def)

lemma defaults_healthy: "components_healthy (map snd (map (\<lambda>(k, p). (k, PDict p)) (component_defaults gid))) = Inr ()"
  by (simp add: component_defaults_def py_get_def pget_def hashable_def)

lemma gx_checks: "release_checks ''g1'' None None None gx_staged = Inr (gx_gen ''g1'' Staging)"
proof -
  have "get_generation gx_staged ''g1'' = Inr (gx_gen ''g1'' Staging)"
    by (simp add: gx_staged_def initial_id_def)
  then show ?thesis
    using defaults_healthy [of "''g1''"]
    by (simp add: release_checks_def bindE_require gx_components passes_gate_def del: get_generation_Inr)
      (simp add: gx_gen_def gx_staged_def gx_start_def)
qed

lemma gx_release:
  "release ''g1'' None None None 1 gx_staged = (gx_released, Inr (gx_activated 1 (gx_gen ''g1'' Staging)))"
  unfolding release_def gx_checks
  by (simp add: swap_active_def Let_def put_generation_def gx_defs)

lemma gx_reach: "gm_steps 0 gx_start 0 gx_staged" "gm_steps 0 gx_start 1 gx_released"
proof -
  have "gm_step 0 gx_start 0 (fst (create_staging [] None None (Some ''g1'') None ''x'' 0 gx_start))"
    by (rule gm_step.staging) simp
  then show staged: "gm_steps 0 gx_start 0 gx_staged"
    unfolding gx_create fst_conv by (rule gm_steps.step [OF gm_steps.refl])
  have "gm_step 0 gx_staged 1 (fst (release ''g1'' None None None 1 gx_staged))"
    by (rule gm_step.release) simp
  then show "gm_steps 0 gx_start 1 gx_released"
    unfolding gx_release fst_conv by (rule gm_steps.step [OF staged])
qed

section \<open>The abstract life cycle\<close>

text \<open>
  A generation is unknown, staged, active, retired or purged; one is active and at most one is
  the candidate of a rollback.
\<close>

record life_cycle =
  lc_status :: "string \<Rightarrow> gen_status option"
  lc_active :: string
  lc_candidate :: "string option"

inductive life_step :: "life_cycle \<Rightarrow> life_cycle \<Rightarrow> bool" where
  idle: "life_step s s"
| stage: "lc_status s k = None \<Longrightarrow> life_step s (s\<lparr>lc_status := (lc_status s)(k \<mapsto> Staging)\<rparr>)"
| swap: "lc_status s k = Some Staging \<or> lc_status s k = Some Retired \<and> lc_candidate s = Some k \<Longrightarrow>
    life_step s \<lparr>lc_status = (lc_status s)(lc_active s \<mapsto> Retired, k \<mapsto> Active),
                 lc_active = k, lc_candidate = Some (lc_active s)\<rparr>"
| purge: "lc_status s k = Some Retired \<Longrightarrow> life_step s (s\<lparr>lc_status := (lc_status s)(k \<mapsto> Purged)\<rparr>)"

definition life_of :: "gen_manager \<Rightarrow> life_cycle" where
  "life_of m = \<lparr>lc_status = (\<lambda>k. map_option gn_status (gen_at m k)),
     lc_active = gm_active m, lc_candidate = gm_candidate m\<rparr>"

lemma life_of_same:
  assumes "gen_at m k = Some g" and "gn_status g' = gn_status g"
  shows "life_of (m\<lparr>gm_generations := dict_set k g' (gm_generations m)\<rparr>) = life_of m"
  using assms by (auto simp: life_of_def)

lemma life_of_simps [simp]:
  "life_of (m\<lparr>gm_leases := ls\<rparr>) = life_of m" "life_of (m\<lparr>gm_gc := gs\<rparr>) = life_of m"
  "life_of (m\<lparr>gm_revision := r\<rparr>) = life_of m" "life_of (record_gc run rc m) = life_of m"
  "life_of (release_reference_lease l m) = life_of m"
  by (simp_all add: life_of_def record_gc_def release_reference_lease_def)

lemma life_component: "life_of (fst (set_component_state gid kind state manifest m)) = life_of m"
proof -
  have "life_of (m\<lparr>gm_generations := dict_set gid g' (gm_generations m)\<rparr>) = life_of m"
    if "gen_at m gid = Some g" "with_component kind state manifest g = Inr g'" for g g'
    using that(2) by (elim with_component_effect) (simp add: life_of_same [OF that(1)])
  then show ?thesis by (auto simp: set_component_state_def split: sum.splits)
qed

lemma life_stale: "life_of (fst (mark_graph_stale gid m)) = life_of m"
  using life_component [of gid "''public_graph''" "''stale''" None m]
  by (auto simp: mark_graph_stale_def split: prod.splits sum.splits)

lemma life_change: "life_of (fst (apply_change gid r c m)) = life_of m"
  by (auto simp: apply_change_def Let_def changed_generation_def intro!: life_of_same split: sum.splits)

lemma life_staging:
  "life_step (life_of m) (life_of (fst (create_staging snapshot base expected gid manifest fresh now m)))"
proof -
  have "life_step (life_of m) (life_of (put_generation g m))"
    if "gen_at m (gn_id g) = None" "gn_status g = Staging" for g
  proof -
    have "life_of (put_generation g m) =
        life_of m\<lparr>lc_status := (lc_status (life_of m))(gn_id g \<mapsto> Staging)\<rparr>"
      using that by (simp add: life_of_def put_generation_def fun_eq_iff)
    moreover have "lc_status (life_of m) (gn_id g) = None"
      using that by (simp add: life_of_def)
    ultimately show ?thesis using life_step.stage by metis
  qed
  then show ?thesis
    by (auto simp: create_staging_def Let_def life_step.idle split: option.split)
qed

lemma life_swap:
  assumes inv: "gm_inv T m" and swap: "swap_active g now m = Inr (m', g')"
    and "gen_at m (gn_id g) = Some g0"
    and "gn_status g0 = Staging \<or> gn_status g0 = Retired \<and> gm_candidate m = Some (gn_id g)"
  shows "life_step (life_of m) (life_of m')"
proof -
  have "life_of m' = \<lparr>lc_status = (lc_status (life_of m))(lc_active (life_of m) \<mapsto> Retired, gn_id g \<mapsto> Active),
      lc_active = gn_id g, lc_candidate = Some (lc_active (life_of m))\<rparr>"
    using swap by (elim swap_effect [OF inv]) (auto simp: life_of_def)
  moreover have "lc_status (life_of m) (gn_id g) = Some Staging \<or>
      lc_status (life_of m) (gn_id g) = Some Retired \<and> lc_candidate (life_of m) = Some (gn_id g)"
    using assms(3,4) by (auto simp: life_of_def)
  ultimately show ?thesis using life_step.swap by metis
qed

lemma life_release:
  assumes inv: "gm_inv T m"
  shows "life_step (life_of m) (life_of (fst (release gid expected current gate now m)))"
proof -
  have "life_step (life_of m) (life_of m')"
    if chk: "release_checks gid expected current gate m = Inr g" and "gn_status g \<noteq> Active"
      and swap: "swap_active g now m = Inr (m', g')" for g m' g'
  proof (rule life_swap [OF inv swap])
    have at: "gen_at m gid = Some g" using release_checks_Inr [OF chk] by blast
    then show "gen_at m (gn_id g) = Some g"
      using inv_gen_ok [OF inv at] by (simp add: gen_ok_def)
    show "gn_status g = Staging \<or> gn_status g = Retired \<and> gm_candidate m = Some (gn_id g)"
      using release_checks_Inr [OF chk] that(2) by blast
  qed
  then show ?thesis by (auto simp: release_def life_step.idle split: sum.split)
qed

lemma life_rollback:
  assumes inv: "gm_inv T m"
  shows "life_step (life_of m) (life_of (fst (rollback gid current receipt gate now1 now2 m)))"
proof -
  have "life_step (life_of m) (life_of m')"
    if chk: "rollback_checks gid current receipt gate now1 m = Inr g"
      and swap: "swap_active g now2 m = Inr (m', g')" for g m' g'
  proof -
    obtain g0 cs gr where g: "gen_at m gid = Some g0" "g = disable_graph cs gr g0"
      "gn_status g0 = Retired" "gm_candidate m = Some gid"
      using chk by (rule rollback_checks_Inr)
    then have "gn_id g = gid"
      using inv_gen_ok [OF inv g(1)] by (simp add: disable_graph_same gen_ok_def)
    then show ?thesis using g by (intro life_swap [OF inv swap, of g0]) auto
  qed
  then show ?thesis by (auto simp: rollback_def life_step.idle split: sum.split)
qed

lemma life_complete:
  "life_step (life_of m) (life_of (fst (complete_generation_gc gid op m)))"
proof -
  have "life_step (life_of m) (life_of (m\<lparr>gm_generations := dict_set gid (g\<lparr>gn_status := Purged\<rparr>) (gm_generations m)\<rparr>))"
    if "gen_at m gid = Some g" "gn_status g = Retired" for g
  proof -
    have "life_of (m\<lparr>gm_generations := dict_set gid (g\<lparr>gn_status := Purged\<rparr>) (gm_generations m)\<rparr>) =
        life_of m\<lparr>lc_status := (lc_status (life_of m))(gid \<mapsto> Purged)\<rparr>"
      by (simp add: life_of_def fun_eq_iff)
    moreover have "lc_status (life_of m) gid = Some Retired" using that by (simp add: life_of_def)
    ultimately show ?thesis using life_step.purge by metis
  qed
  then show ?thesis
    by (auto simp: complete_generation_gc_def Let_def get_generation_def life_step.idle
        split: option.split)
qed

lemma life_readers:
  "life_of (fst (set_current_revision r m)) = life_of m"
  "life_of (fst (acquire_reference_lease ttl fresh now m)) = life_of m"
  "life_of (fst (acquire_graph_reader_lease gid fence h valid ttl fresh now m)) = life_of m"
  "life_of (fst (renew_graph_reader_lease k valid ttl now1 now2 m)) = life_of m"
  "life_of (fst (request_index_generation_gc gid run op now m)) = life_of m"
  by (auto simp: set_current_revision_def acquire_reference_lease_def acquire_graph_reader_lease_def
      renew_graph_reader_lease_def request_index_generation_gc_def Let_def life_stale
      split: sum.split option.split)

text \<open>C10: The manager refines the abstract life cycle: from every manager reached by calls whose
  clock does not run backwards, every call of an operation at a time no earlier than the last one -
  whatever its other arguments and whether it raises - is one abstract step: nothing, a new staged
  generation, a swap of the active pointer to a staged generation or to the rollback candidate, or
  the purge of a retired one.\<close>

theorem manager_refines_life_cycle:
  assumes "new_manager r0 t0 rollback_days = Inr m0" and "gm_steps t0 m0 T m"
    and "gm_step T m T' m'"
  shows "life_step (life_of m) (life_of m')"
proof -
  have inv: "gm_inv T m" using assms(1,2) by (rule gm_reachable_inv)
  from assms(3) show ?thesis
    using life_component life_change life_readers life_staging life_release [OF inv]
      life_rollback [OF inv] life_complete
    by cases (simp_all add: life_step.idle)
qed

theorem manager_refines_life_cycle_witness:
  "life_step (life_of gx_staged) (life_of (fst (release ''g1'' None None None 1 gx_staged)))"
  by (rule manager_refines_life_cycle [OF gx_new gx_reach(1) gm_step.release]) simp

section \<open>One active generation\<close>

text \<open>C11: In every manager reached by calls whose clock does not run backwards, exactly one
  generation has the status active, the one the active pointer names; the rollback candidate is
  another generation, retired or purged; every reader lease names a known generation. The recorded
  index changes of a generation end with those of the revisions after its base up to its applied
  revision, one each and in order; before them stands only what the manifest of its staging call
  supplied, which the code does not check, and a generation whose record is no list has applied
  none. At every later time the generation is still there with the same base and its record, to
  which the changes of the revisions applied in between have been added, one each and in order.\<close>

theorem reachable_generation_invariant:
  assumes "new_manager r0 t0 rollback_days = Inr m0" and "gm_steps t0 m0 T m"
    and later: "gm_steps T m T2 m2"
  shows "(\<exists>!k. \<exists>g. gen_at m k = Some g \<and> gn_status g = Active) \<and>
    (\<exists>g. gen_at m (gm_active m) = Some g \<and> gn_status g = Active) \<and>
    (\<forall>c. gm_candidate m = Some c \<longrightarrow> c \<noteq> gm_active m \<and> (\<exists>g. gen_at m c = Some g \<and> out_of_service g)) \<and>
    (\<forall>l r. map_of (gm_leases m) l = Some r \<longrightarrow> gen_at m (lease_generation (lr_lease r)) \<noteq> None) \<and>
    (\<forall>k g. gen_at m k = Some g \<longrightarrow> gn_id g = k \<and> 0 \<le> gn_base_revision g \<and>
      gn_base_revision g \<le> gn_applied_revision g \<and> changes_ok g \<and>
      (\<exists>g'. gen_at m2 k = Some g' \<and> extends g g'))"
proof (intro conjI)
  have inv: "gm_inv T m" using assms(1,2) by (rule gm_reachable_inv)
  then obtain p where p: "gen_at m (gm_active m) = Some p"
    by (auto simp: gm_inv_def pointers_ok_def)
  have active: "gn_status g = Active \<longleftrightarrow> k = gm_active m" if "gen_at m k = Some g" for k g
    using inv_gen_ok [OF inv that] by (simp add: gen_ok_def)
  show "\<exists>!k. \<exists>g. gen_at m k = Some g \<and> gn_status g = Active"
    using p active by metis
  show "\<exists>g. gen_at m (gm_active m) = Some g \<and> gn_status g = Active"
    using p active by blast
  show "\<forall>c. gm_candidate m = Some c \<longrightarrow> c \<noteq> gm_active m \<and> (\<exists>g. gen_at m c = Some g \<and> out_of_service g)"
    using inv active by (fastforce simp: gm_inv_def pointers_ok_def out_of_service_def)
  show "\<forall>l r. map_of (gm_leases m) l = Some r \<longrightarrow> gen_at m (lease_generation (lr_lease r)) \<noteq> None"
    using inv by (simp add: gm_inv_def leases_ok_def)
  show "\<forall>k g. gen_at m k = Some g \<longrightarrow> gn_id g = k \<and> 0 \<le> gn_base_revision g \<and>
      gn_base_revision g \<le> gn_applied_revision g \<and> changes_ok g \<and>
      (\<exists>g'. gen_at m2 k = Some g' \<and> extends g g')"
    using inv_gen_ok [OF inv] steps_grows [OF later inv] by (simp add: gen_ok_def grows_def)
qed

section \<open>Release and rollback\<close>

text \<open>
  The swap a release and a rollback have in common: the named generation becomes active, the
  previous one the rollback candidate until the end of the window, and nothing else changes.
\<close>

definition swapped :: "gen_manager \<Rightarrow> string \<Rightarrow> time \<Rightarrow> gen_manager \<Rightarrow> bool" where
  "swapped m gid now m' \<longleftrightarrow> gid \<noteq> gm_active m \<and> gm_active m' = gid \<and>
     gm_candidate m' = Some (gm_active m) \<and>
     gen_at m' (gm_active m) = map_option (\<lambda>p. p\<lparr>gn_status := Retired, gn_retired_at := Some now,
       gn_rollback_until := Some (now + gm_window m)\<rparr>) (gen_at m (gm_active m)) \<and>
     (\<forall>k. k \<noteq> gid \<longrightarrow> k \<noteq> gm_active m \<longrightarrow> gen_at m' k = gen_at m k) \<and>
     gm_revision m' = gm_revision m \<and> gm_leases m' = gm_leases m \<and> gm_gc m' = gm_gc m"

lemma swap_swapped:
  assumes "gm_inv T m" and "swap_active g now m = Inr (m', g')" and "gn_id g = gid"
    and "gid \<noteq> gm_active m"
  shows "swapped m gid now m'" and "gen_at m' gid = Some g'"
    and "g' = g\<lparr>gn_status := Active, gn_activated_at := Some now, gn_retired_at := None\<rparr>"
  using assms(3,4) by (auto simp: swapped_def intro: swap_effect [OF assms(1,2)])

definition releasable :: "gen_manager \<Rightarrow> int option \<Rightarrow> (generation \<Rightarrow> bool) option \<Rightarrow> generation \<Rightarrow> bool" where
  "releasable m current gate g \<longleftrightarrow> gn_status g = Staging \<and>
     gn_applied_revision g = (case current of None \<Rightarrow> gm_revision m | Some n \<Rightarrow> n) \<and>
     passes_gate gate g \<and>
     (\<exists>cs. manifest_components g = Inr cs \<and>
       (\<forall>c \<in> set (map snd cs). py_get c ''state'' \<noteq> Inr (PStr ''failed'') \<and> py_get c ''state'' \<noteq> Inr (PStr ''stale'')))"

lemma components_healthy_Inr:
  "components_healthy cs = Inr u \<Longrightarrow>
     \<forall>c \<in> set cs. py_get c ''state'' \<noteq> Inr (PStr ''failed'') \<and> py_get c ''state'' \<noteq> Inr (PStr ''stale'')"
  by (induction cs) (auto split: if_splits)

lemma release_effect:
  assumes inv: "gm_inv T m" and result: "release gid expected current gate now m = (m', r)"
  shows "case r of Inl e \<Rightarrow> m' = m
    | Inr g' \<Rightarrow> m' = m \<and> gid = gm_active m \<and> gen_at m gid = Some g' \<or>
        (\<exists>g. gen_at m gid = Some g \<and> releasable m current gate g \<and> swapped m gid now m' \<and>
          g' = g\<lparr>gn_status := Active, gn_activated_at := Some now, gn_retired_at := None\<rparr> \<and>
          gen_at m' gid = Some g')"
proof (cases "release_checks gid expected current gate m")
  case (Inl e)
  then have "m' = m \<and> r = Inl e" using result by (auto simp: release_def)
  then show ?thesis by simp
next
  case (Inr g)
  note chk = release_checks_Inr [OF Inr]
  have ok: "gen_ok m gid g" using inv_gen_ok [OF inv chk(1)] .
  show ?thesis
  proof (cases "gn_status g = Active")
    case True
    then have "m' = m \<and> r = Inr g" using result Inr by (auto simp: release_def)
    then show ?thesis using chk(1) ok True by (auto simp: gen_ok_def)
  next
    case False
    then have ne: "gid \<noteq> gm_active m" and id: "gn_id g = gid" using ok by (auto simp: gen_ok_def)
    have able: "releasable m current gate g"
      using chk(3) False components_healthy_Inr by (fastforce simp: releasable_def)
    consider (err) e where "m' = m" "r = Inl e"
      | (swap) g' where "swap_active g now m = Inr (m', g')" "r = Inr g'"
      using result Inr False by (auto simp: release_def split: sum.splits)
    then show ?thesis
    proof cases
      case swap
      then show ?thesis using swap_swapped [OF inv swap(1) id ne] able chk(1) by auto
    qed simp
  qed
qed

text \<open>A release that succeeds on a staged generation swaps it with the active one, which becomes
  the rollback candidate until the end of the window; the generation had applied exactly the
  current revision, passed the gate and has no failed or stale component. Releasing the active
  generation again, and every failed release, leaves the manager as it was.\<close>

theorem release_swaps_active:
  assumes "new_manager r0 t0 rollback_days = Inr m0" and "gm_steps t0 m0 T m"
    and "release gid expected current gate now m = (m', r)"
  shows "case r of Inl e \<Rightarrow> m' = m
    | Inr g' \<Rightarrow> m' = m \<and> gid = gm_active m \<and> gen_at m gid = Some g' \<or>
        (\<exists>g. gen_at m gid = Some g \<and> releasable m current gate g \<and> swapped m gid now m' \<and>
          g' = g\<lparr>gn_status := Active, gn_activated_at := Some now, gn_retired_at := None\<rparr> \<and>
          gen_at m' gid = Some g')"
  using release_effect [OF gm_reachable_inv [OF assms(1,2)] assms(3)] .

theorem release_swaps_active_witness:
  "swapped gx_staged ''g1'' 1 gx_released \<and> gm_candidate gx_released = Some initial_id"
proof -
  have "gm_active gx_staged \<noteq> ''g1''" "gm_candidate gx_released = Some initial_id"
    by (simp_all add: gx_defs)
  then show ?thesis
    using release_swaps_active [OF gx_new gx_reach(1) gx_release] by auto
qed

text \<open>A rollback that succeeds was asked for the retired rollback candidate, within the window
  since its retirement, after it has consumed every index change up to the current revision. It
  swaps the candidate with the active generation, which becomes the next candidate, and leaves its
  public graph not ready. A failed rollback leaves the manager as it was.\<close>

theorem rollback_restores_candidate:
  assumes "new_manager r0 t0 rollback_days = Inr m0" and "gm_steps t0 m0 T m"
    and "rollback gid current receipt gate now1 now2 m = (m', r)"
  shows "case r of Inl e \<Rightarrow> m' = m
    | Inr g' \<Rightarrow> swapped m gid now2 m' \<and> gen_at m' gid = Some g' \<and> gn_status g' = Active \<and>
        gm_candidate m = Some gid \<and>
        (\<exists>g t. gen_at m gid = Some g \<and> gn_status g = Retired \<and> gn_retired_at g = Some t \<and>
          now1 \<le> t + gm_window m \<and> passes_gate gate g \<and>
          gn_rollback_applied g = Some (case current of None \<Rightarrow> gm_revision m | Some n \<Rightarrow> n) \<and>
          gn_applied_revision g' = gn_applied_revision g)"
proof (cases "rollback_checks gid current receipt gate now1 m")
  case (Inl e)
  then have "m' = m \<and> r = Inl e" using assms(3) by (auto simp: rollback_def)
  then show ?thesis by simp
next
  case (Inr g)
  have inv: "gm_inv T m" using assms(1,2) by (rule gm_reachable_inv)
  obtain g0 cs gr where at: "gen_at m gid = Some g0" and g: "g = disable_graph cs gr g0"
    and st: "gn_status g0 = Retired" and rest: "gm_candidate m = Some gid"
      "now1 - (case gn_retired_at g0 of None \<Rightarrow> gn_created_at g0 | Some t \<Rightarrow> t) \<le> gm_window m"
      "gn_rollback_applied g0 = Some (case current of None \<Rightarrow> gm_revision m | Some r \<Rightarrow> r)"
      "passes_gate gate g0"
    using Inr by (rule rollback_checks_Inr)
  have ok: "gen_ok m gid g0" using inv at by (rule inv_gen_ok)
  have id: "gn_id g = gid" and ne: "gid \<noteq> gm_active m"
    using ok st g by (auto simp: gen_ok_def disable_graph_same)
  obtain t where t: "gn_retired_at g0 = Some t"
    using ok st by (auto simp: gen_ok_def out_of_service_def)
  consider (err) e where "m' = m" "r = Inl e"
    | (swap) g' where "swap_active g now2 m = Inr (m', g')" "r = Inr g'"
    using assms(3) Inr by (auto simp: rollback_def split: sum.splits)
  then show ?thesis
  proof cases
    case swap
    then show ?thesis
      using swap_swapped [OF inv swap(1) id ne] at st rest t g by (auto simp: disable_graph_same)
  qed simp
qed

text \<open>The released example consumes one change, and the initial generation comes back.\<close>

definition gx_change :: payload where
  "gx_change = [(''document_id'', PStr ''d'')]"

definition gx_changed :: "generation \<Rightarrow> generation" where
  "gx_changed g = changed_generation g 1 gx_change []"

definition gx_caught_up :: gen_manager where
  "gx_caught_up = gx_released\<lparr>gm_revision := 1, gm_generations :=
     [(initial_id, gx_changed (gx_retired 1 (gx_gen initial_id Active))),
      (''g1'', gx_activated 1 (gx_gen ''g1'' Staging))]\<rparr>"

lemma index_changes_ex: "index_changes (gx_retired t (gx_gen gid st)) = Inr []" "index_changes (gx_gen gid st) = Inr []"
  by (simp_all add: index_changes_def pget_or_def gx_defs py_list_def generation_manifest_def Let_def
      map_of_dict_merge)

lemma gx_apply:
  "apply_change initial_id 1 gx_change (gx_released\<lparr>gm_revision := 1\<rparr>) =
     (gx_caught_up, Inr (gx_changed (gx_retired 1 (gx_gen initial_id Active))))"
proof -
  have "get_generation (gx_released\<lparr>gm_revision := 1\<rparr>) initial_id = Inr (gx_retired 1 (gx_gen initial_id Active))"
    by (simp add: gx_released_def)
  moreover have "gn_status (gx_retired 1 (gx_gen initial_id Active)) = Retired"
    "gn_applied_revision (gx_retired 1 (gx_gen initial_id Active)) = 0"
    by (simp_all add: gx_retired_def gx_gen_def)
  moreover have "dict_set initial_id g (gm_generations gx_released) =
      [(initial_id, g), (''g1'', gx_activated 1 (gx_gen ''g1'' Staging))]" for g
    by (simp add: gx_released_def)
  ultimately show ?thesis
    by (simp add: apply_change_def index_changes_ex gx_changed_def gx_caught_up_def Let_def
        del: get_generation_Inr)
qed

lemma gx_later: "gm_steps 1 gx_released 2 gx_caught_up"
proof -
  have "gm_step 1 gx_released 2 (fst (set_current_revision 1 gx_released))"
    by (rule gm_step.revision) simp
  then have "gm_steps 1 gx_released 2 (gx_released\<lparr>gm_revision := 1\<rparr>)"
    by (intro gm_steps.step [OF gm_steps.refl])
      (simp add: set_current_revision_def gx_released_def gx_start_def)
  moreover have "gm_step 2 (gx_released\<lparr>gm_revision := 1\<rparr>) 2
      (fst (apply_change initial_id 1 gx_change (gx_released\<lparr>gm_revision := 1\<rparr>)))"
    by (rule gm_step.change) simp
  ultimately show ?thesis unfolding gx_apply fst_conv by (rule gm_steps.step)
qed

lemma gx_reach_caught_up: "gm_steps 0 gx_start 2 gx_caught_up"
  using gm_steps_trans [OF gx_reach(2) gx_later] .

theorem reachable_generation_invariant_witness:
  "gm_active gx_released = ''g1'' \<and>
   (\<exists>!k. \<exists>g. gen_at gx_released k = Some g \<and> gn_status g = Active) \<and>
   extends (gx_retired 1 (gx_gen initial_id Active)) (gx_changed (gx_retired 1 (gx_gen initial_id Active)))"
proof -
  have at: "gen_at gx_released initial_id = Some (gx_retired 1 (gx_gen initial_id Active))"
    "gen_at gx_caught_up initial_id = Some (gx_changed (gx_retired 1 (gx_gen initial_id Active)))"
    "gm_active gx_released = ''g1''"
    by (simp_all add: gx_released_def gx_caught_up_def)
  then show ?thesis
    using reachable_generation_invariant [OF gx_new gx_reach(2) gx_later] by (metis option.inject)
qed

definition gx_receipt :: payload where
  "gx_receipt = [(''state'', PStr ''held''), (''candidate_generation_id'', PStr initial_id),
     (''applied_revision'', PInt 1)]"

lemma gx_rollback_checks:
  "\<exists>g. rollback_checks initial_id None (Some gx_receipt) None 3 gx_caught_up = Inr g"
proof -
  let ?g = "gx_changed (gx_retired 1 (gx_gen initial_id Active))"
  let ?graph = "the (map_of (component_defaults initial_id) ''public_graph'')"
  have g: "get_generation gx_caught_up initial_id = Inr ?g"
    by (simp add: gx_caught_up_def)
  have facts: "gn_status ?g = Retired" "gm_candidate gx_caught_up = Some initial_id"
    "gn_retired_at ?g = Some 1" "gm_window gx_caught_up = days 7" "gm_revision gx_caught_up = 1"
    "gn_rollback_applied ?g = Some 1"
    by (simp_all add: gx_changed_def changed_generation_def gx_retired_def gx_gen_def gx_caught_up_def
        gx_released_def gx_start_def)
  have cs: "py_dict (pget_or ''components'' (PDict []) (gn_manifest ?g)) =
      Inr (map (\<lambda>(k, p). (k, PDict p)) (component_defaults initial_id))"
    using gx_components [of initial_id Active]
    by (auto simp: manifest_components_def gx_changed_def changed_generation_def gx_retired_def pget_or_def
        py_dict_def split: pval.splits option.splits)
  have gr: "py_dict (pget_or ''public_graph'' (PDict []) (map (\<lambda>(k, p). (k, PDict p)) (component_defaults initial_id))) =
      Inr ?graph"
    by (simp add: component_defaults_def pget_or_def py_dict_def)
  have rc: "receipt_matches initial_id 1 gx_receipt ?graph = Inr True"
    by (simp add: receipt_matches_def gx_receipt_def pget_def pget_or_def component_defaults_def py_int_def)
  have w: "days 7 = 604800000000" by (simp add: days_def)
  show ?thesis
    unfolding rollback_checks_def Let_def g cs gr
    by (simp add: facts w bindE_require cs gr rc passes_gate_def del: get_generation_Inr)
qed

theorem rollback_restores_candidate_witness:
  "gm_active (fst (rollback initial_id None (Some gx_receipt) None 3 3 gx_caught_up)) = initial_id \<and>
   gm_candidate (fst (rollback initial_id None (Some gx_receipt) None 3 3 gx_caught_up)) = Some ''g1''"
proof -
  obtain m' r where r: "rollback initial_id None (Some gx_receipt) None 3 3 gx_caught_up = (m', r)"
    by (metis prod.collapse)
  have "gm_active gx_caught_up = ''g1''" "gen_at gx_caught_up ''g1'' \<noteq> None"
    by (simp_all add: gx_caught_up_def gx_released_def initial_id_def)
  moreover from this have "\<exists>g. r = Inr g"
    using r gx_rollback_checks
    by (auto simp: rollback_def swap_active_def Let_def split: sum.splits option.splits)
  ultimately show ?thesis
    using rollback_restores_candidate [OF gx_new gx_reach_caught_up r] r by (auto simp: swapped_def)
qed

text \<open>C13: A generation released over a generation that never recorded a rollback revision cannot be
  rolled back as long as no index change is applied to the retired one: it is the rollback
  candidate, but at every later time, after any further calls, at which it has applied the same
  revision as when it was retired, the rollback to it is refused, however complete the source
  receipt is. The release does not record that the retired generation is caught up, and the check
  of the rollback needs a record.\<close>

theorem rollback_right_after_release_refused:
  assumes "new_manager r0 t0 rollback_days = Inr m0" and "gm_steps t0 m0 T m" and "T \<le> now"
    and "release gid expected current gate now m = (m1, Inr g)" and "m1 \<noteq> m"
    and "gen_at m (gm_active m) = Some p" and "gn_rollback_applied p = None"
    and "gm_steps now m1 T2 m2"
    and "gen_at m2 (gm_active m) = Some q" and "gn_applied_revision q = gn_applied_revision p"
  shows "gm_candidate m1 = Some (gm_active m) \<and>
    rollback (gm_active m) revision receipt gate' now1 now2 m2 = (m2, Inl not_eligible)"
proof -
  have inv: "gm_inv T m" using assms(1,2) by (rule gm_reachable_inv)
  have swap: "swapped m gid now m1"
    using release_effect [OF inv assms(4)] assms(5) by auto
  then obtain p1 where p1: "gen_at m1 (gm_active m) = Some p1" "gn_rollback_applied p1 = None"
    "gn_applied_revision p1 = gn_applied_revision p"
    using assms(6,7) by (auto simp: swapped_def)
  have "gm_inv now m1"
    using inv_release [OF inv, of gid expected current gate now] assms(3,4) gm_inv_later by auto
  then have "extends p1 q"
    using steps_grows [OF assms(8)] p1(1) assms(9) by (fastforce simp: grows_def)
  then have "gn_rollback_applied q = None" "get_generation m2 (gm_active m) = Inr q"
    using p1 assms(9,10) by (auto simp: extends_def)
  then show ?thesis
    using swap
    by (auto simp del: get_generation_Inr
        simp: swapped_def rollback_def rollback_checks_def Let_def bindE_require not_eligible_def)
qed

theorem rollback_right_after_release_refused_witness:
  "rollback initial_id None (Some gx_receipt) None 2 2 (gx_released\<lparr>gm_revision := 1\<rparr>) =
     (gx_released\<lparr>gm_revision := 1\<rparr>, Inl not_eligible)"
proof -
  have p: "gm_active gx_staged = initial_id" "gx_released \<noteq> gx_staged"
    "gen_at gx_staged (gm_active gx_staged) = Some (gx_gen initial_id Active)"
    "gn_rollback_applied (gx_gen initial_id Active) = None"
    by (simp_all add: gx_defs)
  have "gm_step 1 gx_released 2 (fst (set_current_revision 1 gx_released))"
    by (rule gm_step.revision) simp
  then have later: "gm_steps 1 gx_released 2 (gx_released\<lparr>gm_revision := 1\<rparr>)"
    by (intro gm_steps.step [OF gm_steps.refl])
      (simp add: set_current_revision_def gx_released_def gx_start_def)
  have q: "gen_at (gx_released\<lparr>gm_revision := 1\<rparr>) initial_id = Some (gx_retired 1 (gx_gen initial_id Active))"
    "gn_applied_revision (gx_retired 1 (gx_gen initial_id Active)) = gn_applied_revision (gx_gen initial_id Active)"
    by (simp_all add: gx_released_def gx_retired_def)
  show ?thesis
    using rollback_right_after_release_refused
      [OF gx_new gx_reach(1) _ gx_release p(2-4) later _ q(2)] p(1) q(1) by simp
qed

section \<open>Index changes\<close>

text \<open>An index change applied once to a generation staged without changes of its own manifest stays
  applied: at any later time at which the generation still
  takes changes, applying the same change again changes nothing and returns the generation, and any
  other content under that revision is a revision conflict. A change that skips a revision is a
  gap.\<close>

theorem change_replay_idempotent:
  assumes reach: "new_manager r0 t0 rollback_days = Inr m0" "gm_steps t0 m0 T m"
    and at: "gen_at m gid = Some g" and new: "gn_applied_revision g < r"
    and own: "length (projr (index_changes g)) = nat (gn_applied_revision g - gn_base_revision g)"
    and applied: "apply_change gid r c m = (m1, Inr g1)"
    and later: "gm_steps T m1 T2 m2" and at2: "gen_at m2 gid = Some g2"
    and open2: "gn_status g2 = Staging \<or> gn_status g2 = Retired"
    and wf: "pval_wf (PDict (normalized_change r c))"
  shows "r = gn_applied_revision g + 1 \<and>
    apply_change gid r c m2 = (m2, Inr g2) \<and>
    (\<forall>c'. \<not> py_eq (PDict (normalized_change r c)) (PDict (normalized_change r c')) \<longrightarrow>
      apply_change gid r c' m2 = (m2, Inl (PlatformError ''revision_conflict'' 409))) \<and>
    (\<forall>n c'. gn_applied_revision g2 + 1 < n \<longrightarrow>
      apply_change gid n c' m2 = (m2, Inl (PlatformError ''revision_gap'' 409)))"
proof (intro conjI allI impI)
  have inv: "gm_inv T m" using reach by (rule gm_reachable_inv)
  have get: "get_generation m gid = Inr g" using at by simp
  obtain cs where cs: "index_changes g = Inr cs" and r: "r = gn_applied_revision g + 1" and "1 \<le> r"
    and m1: "m1 = m\<lparr>gm_generations := dict_set gid (changed_generation g r c cs) (gm_generations m)\<rparr>"
    using applied new unfolding apply_change_def get
    by (auto simp: Let_def split: if_splits sum.splits)
  show "r = gn_applied_revision g + 1" by (rule r)
  let ?g1 = "changed_generation g r c cs"
  have inv1: "gm_inv T m1" using inv_change [OF inv, of gid r c] applied by simp
  have inv2: "gm_inv T2 m2" using gm_steps_inv [OF later inv1] .
  have ok: "gen_ok m gid g" and ok2: "gen_ok m2 gid g2"
    using inv_gen_ok [OF inv at] inv_gen_ok [OF inv2 at2] .
  have cs1: "index_changes ?g1 = Inr (cs @ [PDict (normalized_change r c)])"
    by (simp add: changed_generation_def index_changes_def pget_or_def py_list_def)
  have "gen_at m1 gid = Some ?g1" by (simp add: m1)
  then have ext: "extends ?g1 g2"
    using steps_grows [OF later inv1] at2 by (fastforce simp: grows_def)
  then obtain cs' where base: "gn_base_revision g2 = gn_base_revision g"
    and cs2: "index_changes g2 = Inr (cs @ PDict (normalized_change r c) # map PDict cs')"
    and cs': "numbered cs' r (gn_applied_revision g2)" and r2: "r \<le> gn_applied_revision g2"
    using cs1 by (auto simp: extends_def changed_generation_def)
  obtain supplied ds where ds: "cs @ PDict (normalized_change r c) # map PDict cs' = supplied @ map PDict ds"
    "numbered ds (gn_base_revision g) (gn_applied_revision g2)"
    using ok2 cs2 base by (auto simp: gen_ok_def changes_ok_def)
  have len: "length cs = nat (gn_applied_revision g - gn_base_revision g)"
    using own cs by simp
  moreover have "length cs + 1 + length cs' = length supplied + length ds"
    using arg_cong [OF ds(1), of length] by simp
  moreover have "gn_base_revision g \<le> gn_applied_revision g" using ok by (simp add: gen_ok_def)
  ultimately have "length supplied = 0"
    using numbered_length [OF cs'] numbered_length [OF ds(2)] r r2 by arith
  then have "supplied = []" by simp
  then have ds: "cs @ PDict (normalized_change r c) # map PDict cs' = map PDict ds"
    "map (\<lambda>c. map_of c ''revision'') ds = map (\<lambda>r. Some (PInt r)) [gn_base_revision g + 1..gn_applied_revision g2]"
    using ds by (simp_all add: numbered_def)
  have "length cs < length ds" using arg_cong [OF ds(1), of length] by simp
  have "known_change r (map PDict ds) = Inr (PDict (ds ! nat (r - (gn_base_revision g + 1))))"
    using ds(2) r r2 ok by (intro known_change_found) (auto simp: gen_ok_def)
  also have "nat (r - (gn_base_revision g + 1)) = length cs" using len r by simp
  also have "PDict (ds ! length cs) = PDict (normalized_change r c)"
    using ds(1) \<open>length cs < length ds\<close> by (metis nth_append_length nth_map)
  finally have known: "known_change r (cs @ PDict (normalized_change r c) # map PDict cs') = Inr (PDict (normalized_change r c))"
    using ds(1) by simp
  have get2: "get_generation m2 gid = Inr g2" using at2 by simp
  have step: "apply_change gid r d m2 =
      (if py_eq (PDict (normalized_change r c)) (PDict (normalized_change r d)) then (m2, Inr g2)
       else (m2, Inl (PlatformError ''revision_conflict'' 409)))" for d
    using \<open>1 \<le> r\<close> open2 r2 unfolding apply_change_def get2 by (auto simp: cs2 known)
  show "apply_change gid r c m2 = (m2, Inr g2)"
    using step py_eq_refl [OF wf] by simp
  show "apply_change gid r c' m2 = (m2, Inl (PlatformError ''revision_conflict'' 409))"
    if "\<not> py_eq (PDict (normalized_change r c)) (PDict (normalized_change r c'))" for c'
    using step that by simp
  show "apply_change gid n c' m2 = (m2, Inl (PlatformError ''revision_gap'' 409))"
    if "gn_applied_revision g2 + 1 < n" for n c'
    using that ok2 open2 unfolding apply_change_def get2 by (auto simp: cs2 gen_ok_def)
qed

theorem change_replay_idempotent_witness:
  "apply_change initial_id 1 gx_change gx_caught_up =
     (gx_caught_up, Inr (gx_changed (gx_retired 1 (gx_gen initial_id Active))))"
proof -
  let ?m = "gx_released\<lparr>gm_revision := 1\<rparr>"
  have "gm_step 1 gx_released 2 (fst (set_current_revision 1 gx_released))"
    by (rule gm_step.revision) simp
  then have reach: "gm_steps 0 gx_start 2 ?m"
    by (intro gm_steps.step [OF gx_reach(2)]) (simp add: set_current_revision_def gx_released_def gx_start_def)
  have a: "gen_at ?m initial_id = Some (gx_retired 1 (gx_gen initial_id Active))"
    "gn_applied_revision (gx_retired 1 (gx_gen initial_id Active)) < 1"
    by (simp_all add: gx_defs)
  have own: "length (projr (index_changes (gx_retired 1 (gx_gen initial_id Active)))) =
      nat (gn_applied_revision (gx_retired 1 (gx_gen initial_id Active)) -
        gn_base_revision (gx_retired 1 (gx_gen initial_id Active)))"
    by (simp add: index_changes_ex) (simp add: gx_retired_def gx_gen_def)
  have b: "gen_at gx_caught_up initial_id = Some (gx_changed (gx_retired 1 (gx_gen initial_id Active)))"
    "gn_status (gx_changed (gx_retired 1 (gx_gen initial_id Active))) = Staging \<or>
     gn_status (gx_changed (gx_retired 1 (gx_gen initial_id Active))) = Retired"
    by (simp_all add: gx_caught_up_def gx_changed_def changed_generation_def gx_retired_def)
  have "pval_wf (PDict (normalized_change 1 gx_change))"
    by (simp add: normalized_change_def gx_change_def)
  from change_replay_idempotent [OF gx_new reach a own gx_apply gm_steps.refl b this]
  show ?thesis by blast
qed

section \<open>Garbage collection\<close>

text \<open>A collection requested under a new operation id is accepted exactly for a retired
  generation that no lease names and that is not the rollback candidate within its window; it is
  reported as already purged for a purged one and blocked otherwise. Only the receipt is stored; a
  repetition returns it, and another run or generation under the same operation id conflicts.\<close>

theorem gc_accepts_exactly:
  assumes reach: "new_manager r0 t0 rollback_days = Inr m0" "gm_steps t0 m0 T m" "T \<le> now"
    and ids: "py_strip run \<noteq> []" "py_strip op \<noteq> []"
    and fresh: "map_of (gm_gc m) op = None" and at: "gen_at m gid = Some g"
    and result: "request_index_generation_gc gid run op now m = (m', r)"
  shows "\<exists>rc. r = Inr rc \<and>
      (gr_state rc = GcPurged \<longleftrightarrow> gn_status g = Purged) \<and>
      (gr_state rc = GcAccepted \<longleftrightarrow> gn_status g = Retired \<and> \<not> has_generation_lease m gid \<and>
        (gm_candidate m = Some gid \<longrightarrow> (\<exists>t. gn_retired_at g = Some t \<and> t + gm_window m < now))) \<and>
      gm_generations m' = gm_generations m \<and> life_of m' = life_of m \<and>
      (\<forall>now'. request_index_generation_gc gid run op now' m' = (m', Inr rc)) \<and>
      (\<forall>now' gid' run'. gid' \<noteq> gid \<or> run' \<noteq> run \<longrightarrow> py_strip run' \<noteq> [] \<longrightarrow>
        request_index_generation_gc gid' run' op now' m' =
          (m', Inl (PlatformError ''idempotency_key_conflict'' 409)))"
proof -
  have inv: "gm_inv T m" using reach(1,2) by (rule gm_reachable_inv)
  have ok: "gen_ok m gid g" using inv at by (rule inv_gen_ok)
  have get: "get_generation m gid = Inr g" using at by simp
  define rc where "rc = (if gn_status g = Purged then \<lparr>gr_operation_id = op, gr_candidate = gid,
        gr_state = GcPurged, gr_reasons = [], gr_retryable = False\<rparr>
      else if gc_reasons m g gid now \<noteq> [] then \<lparr>gr_operation_id = op, gr_candidate = gid,
        gr_state = GcBlocked, gr_reasons = rev (remdups (rev (gc_reasons m g gid now))), gr_retryable = True\<rparr>
      else \<lparr>gr_operation_id = op, gr_candidate = gid, gr_state = GcAccepted, gr_reasons = [],
        gr_retryable = False\<rparr>)"
  have m': "m' = record_gc run rc m" and r: "r = Inr rc"
    using result ids fresh unfolding request_index_generation_gc_def get by (auto simp: rc_def Let_def)
  have stored: "map_of (gm_gc m') op = Some (run, rc)" and cand: "gr_candidate rc = gid"
    by (auto simp: m' record_gc_def rc_def)
  have window: "gn_status g = Retired \<Longrightarrow> (\<exists>u. gn_rollback_until g = Some u \<and> u < now) \<longleftrightarrow>
      (\<exists>t. gn_retired_at g = Some t \<and> t + gm_window m < now)"
    using ok by (auto simp: gen_ok_def out_of_service_def)
  have "gr_state rc = GcPurged \<longleftrightarrow> gn_status g = Purged" by (simp add: rc_def)
  moreover have "gr_state rc = GcAccepted \<longleftrightarrow> gn_status g = Retired \<and> \<not> has_generation_lease m gid \<and>
      (gm_candidate m = Some gid \<longrightarrow> (\<exists>t. gn_retired_at g = Some t \<and> t + gm_window m < now))"
    using window by (auto simp: rc_def gc_reasons_Nil)
  moreover have "gm_generations m' = gm_generations m" "life_of m' = life_of m"
    by (simp_all add: m' record_gc_def)
  moreover have "request_index_generation_gc gid run op now' m' = (m', Inr rc)" for now'
    using ids by (simp add: request_index_generation_gc_def stored cand)
  moreover have "request_index_generation_gc gid' run' op now' m' =
      (m', Inl (PlatformError ''idempotency_key_conflict'' 409))"
    if "gid' \<noteq> gid \<or> run' \<noteq> run" "py_strip run' \<noteq> []" for now' gid' run'
    using ids that by (auto simp: request_index_generation_gc_def stored cand)
  ultimately show ?thesis using r by blast
qed

lemma gx_lease_free: "\<not> has_generation_lease gx_released gid"
  by (simp add: has_generation_lease_def gx_released_def gx_start_def)

lemma gx_initial: "gen_at gx_released initial_id = Some (gx_retired 1 (gx_gen initial_id Active))"
  "gn_status (gx_retired 1 (gx_gen initial_id Active)) = Retired"
  "gn_retired_at (gx_retired 1 (gx_gen initial_id Active)) = Some 1"
  "gm_window gx_released = days 7" "map_of (gm_gc gx_released) op = None"
  by (simp_all add: gx_released_def gx_start_def gx_retired_def)

theorem gc_accepts_exactly_witness:
  "gr_state (projr (snd (request_index_generation_gc initial_id ''run'' ''op'' (days 8) gx_released))) = GcAccepted \<and>
   gr_state (projr (snd (request_index_generation_gc initial_id ''run'' ''op'' (days 7) gx_released))) = GcBlocked"
proof -
  have ids: "py_strip ''run'' \<noteq> []" "py_strip ''op'' \<noteq> []" by code_simp+
  have d: "1 \<le> days 7" "1 \<le> days 8" "1 + days 7 < days 8" "\<not> 1 + days 7 < days 7"
    by (simp_all add: days_def)
  obtain m' r where 8: "request_index_generation_gc initial_id ''run'' ''op'' (days 8) gx_released = (m', r)"
    by (metis prod.collapse)
  obtain m'' r' where 7: "request_index_generation_gc initial_id ''run'' ''op'' (days 7) gx_released = (m'', r')"
    by (metis prod.collapse)
  have c: "gm_candidate gx_released = Some initial_id" by (simp add: gx_released_def)
  have "gr_state (projr r) = GcAccepted"
    using gc_accepts_exactly [OF gx_new gx_reach(2) d(2) ids gx_initial(5) gx_initial(1) 8] d
    by (auto simp: gx_initial gx_lease_free)
  moreover have "gr_state (projr r') \<noteq> GcAccepted \<and> gr_state (projr r') \<noteq> GcPurged"
    using gc_accepts_exactly [OF gx_new gx_reach(2) d(1) ids gx_initial(5) gx_initial(1) 7] d
    by (auto simp: gx_initial gx_lease_free c)
  ultimately show ?thesis using 7 8 by (metis gc_state.exhaust snd_conv)
qed

text \<open>C12: Once a collection has been accepted for a generation, the generation never serves again:
  at every later time it is neither active nor staged, no rollback can have brought it back, and
  completing the operation leaves it purged.\<close>

theorem accepted_gc_final:
  assumes reach: "new_manager r0 t0 rollback_days = Inr m0" "gm_steps t0 m0 T m" "T \<le> now"
    and fresh: "map_of (gm_gc m) op = None"
    and accepted: "request_index_generation_gc gid run op now m = (m1, Inr rc)" "gr_state rc = GcAccepted"
    and later: "gm_steps now m1 T2 m2"
  shows "gid \<noteq> gm_active m2 \<and> (\<exists>g. gen_at m2 gid = Some g \<and> out_of_service g) \<and>
    (\<exists>g. gen_at (fst (complete_generation_gc gid op m2)) gid = Some g \<and> gn_status g = Purged)"
proof -
  have inv: "gm_inv T m" using reach(1,2) by (rule gm_reachable_inv)
  have inv1: "gm_inv now m1" using inv_request_gc [OF inv reach(3), of gid run op] accepted(1) by simp
  have inv2: "gm_inv T2 m2" using gm_steps_inv [OF later inv1] .
  have "gc_settled m1 op run gid"
    using accepted fresh
    by (auto simp: request_index_generation_gc_def Let_def gc_settled_def record_gc_def get_generation_def
        split: if_splits option.splits)
  then have "gc_settled m2 op run gid" by (rule steps_settled [OF later inv1])
  then obtain r where r: "map_of (gm_gc m2) op = Some (run, r)" "gr_candidate r = gid" "gr_state r \<noteq> GcBlocked"
    by (auto simp: gc_settled_def)
  obtain g where g: "gen_at m2 gid = Some g" "out_of_service g"
    using settled_out_of_service [OF inv2 r(1,3)] r(2) by auto
  then have get: "get_generation m2 gid = Inr g" and "gid \<noteq> gm_active m2"
    using inv_gen_ok [OF inv2 g(1)] by (auto simp: gen_ok_def out_of_service_def)
  moreover have "gr_state r = GcPurged \<Longrightarrow> gn_status g = Purged"
    using inv2 r g by (fastforce simp: gm_inv_def gc_ok_def receipt_ok_def)
  then have "\<exists>g. gen_at (fst (complete_generation_gc gid op m2)) gid = Some g \<and> gn_status g = Purged"
    using r g by (cases "gr_state r")
      (auto simp: complete_generation_gc_def get Let_def record_gc_def out_of_service_def)
  ultimately show ?thesis using g by blast
qed

definition gx_accepted :: gen_manager where
  "gx_accepted = record_gc ''run'' \<lparr>gr_operation_id = ''op'', gr_candidate = initial_id,
     gr_state = GcAccepted, gr_reasons = [], gr_retryable = False\<rparr> gx_released"

lemma gx_accept:
  "request_index_generation_gc initial_id ''run'' ''op'' (days 8) gx_released =
    (gx_accepted, Inr \<lparr>gr_operation_id = ''op'', gr_candidate = initial_id,
     gr_state = GcAccepted, gr_reasons = [], gr_retryable = False\<rparr>)"
proof -
  have ids: "py_strip ''run'' \<noteq> []" "py_strip ''op'' \<noteq> []" by code_simp+
  have get: "get_generation gx_released initial_id = Inr (gx_retired 1 (gx_gen initial_id Active))"
    using gx_initial by simp
  have "gc_reasons gx_released (gx_retired 1 (gx_gen initial_id Active)) initial_id (days 8) = []"
    by (simp add: gc_reasons_Nil gx_lease_free) (simp add: gx_retired_def days_def)
  then show ?thesis
    using ids unfolding request_index_generation_gc_def get
    by (simp add: gx_initial gx_accepted_def Let_def)
qed

theorem accepted_gc_final_witness:
  "\<exists>g. gen_at (fst (complete_generation_gc initial_id ''op'' gx_accepted)) initial_id = Some g \<and>
     gn_status g = Purged"
proof -
  have d: "1 \<le> days 8" by (simp add: days_def)
  show ?thesis
    using accepted_gc_final [OF gx_new gx_reach(2) d gx_initial(5) gx_accept _ gm_steps.refl] by simp
qed

text \<open>C14: The completion of an accepted collection does not look at the leases again: a reader lease
  of the public graph granted after the acceptance - the code grants it on a retired generation
  too - survives the purge of the generation it reads.\<close>

theorem gc_purges_leased_generation:
  assumes "map_of (gm_gc m) op = Some (run, rc)" and "gr_candidate rc = gid" and "gr_state rc = GcAccepted"
    and "gen_at m gid = Some g" and "gn_status g = Retired" and "gn_id g = gid"
    and "acquire_graph_reader_lease gid fence h True ttl fresh now m = (m1, Inr l)"
    and "complete_generation_gc gid op m1 = (m2, r)"
  shows "has_generation_lease m2 gid \<and> (\<exists>g'. gen_at m2 gid = Some g' \<and> gn_status g' = Purged) \<and>
    (\<exists>rc'. r = Inr rc' \<and> gr_state rc' = GcPurged)"
proof -
  have m1: "m1 = m\<lparr>gm_leases := dict_set fresh \<lparr>lr_lease = ReaderLease l, lr_kind = ''graph''\<rparr> (gm_leases m)\<rparr>"
    and l: "cl_generation_id l = gid"
    using assms(4,6,7) graph_component_at [of m gid]
    by (auto simp: acquire_graph_reader_lease_def Let_def split: if_splits sum.splits)
  have "has_generation_lease m1 gid"
    using dict_set_entry [of fresh "\<lparr>lr_lease = ReaderLease l, lr_kind = ''graph''\<rparr>" "gm_leases m"] l
    by (force simp: has_generation_lease_def m1 list_ex_iff)
  moreover have get: "get_generation m1 gid = Inr g" and "gm_gc m1 = gm_gc m" using assms(4) m1 by simp_all
  ultimately show ?thesis
    using assms(1-3,5,8) unfolding complete_generation_gc_def get
    by (auto simp: Let_def record_gc_def has_generation_lease_def)
qed

definition gx_leased :: gen_manager where
  "gx_leased = gx_accepted\<lparr>gm_generations := [(initial_id, (gx_retired 1 (gx_gen initial_id Active))
     \<lparr>gn_manifest := [(''components'', PDict [(''public_graph'', PDict [(''state'', PStr ''ready'')])])]\<rparr>)]\<rparr>"

theorem gc_purges_leased_generation_witness:
  "has_generation_lease (fst (complete_generation_gc initial_id ''op''
     (fst (acquire_graph_reader_lease initial_id 1 ''h'' True 60 ''l1'' (days 8) gx_leased)))) initial_id"
proof -
  let ?rc = "\<lparr>gr_operation_id = ''op'', gr_candidate = initial_id,
     gr_state = GcAccepted, gr_reasons = [], gr_retryable = False\<rparr>"
  let ?g = "(gx_retired 1 (gx_gen initial_id Active))
     \<lparr>gn_manifest := [(''components'', PDict [(''public_graph'', PDict [(''state'', PStr ''ready'')])])]\<rparr>"
  have gc: "map_of (gm_gc gx_leased) ''op'' = Some (''run'', ?rc)"
    by (simp add: gx_leased_def gx_accepted_def record_gc_def)
  have g: "gen_at gx_leased initial_id = Some ?g" "gn_status ?g = Retired" "gn_id ?g = initial_id"
    by (simp_all add: gx_leased_def gx_retired_def gx_gen_def)
  have get: "get_generation gx_leased initial_id = Inr ?g" using g(1) by simp
  have gc_component: "graph_component gx_leased initial_id = Inr (?g, PStr ''ready'')"
    unfolding graph_component_def get
    by (simp add: manifest_components_def pget_or_def pget_def py_get_def)
  obtain m1 l where acq: "acquire_graph_reader_lease initial_id 1 ''h'' True 60 ''l1'' (days 8) gx_leased = (m1, Inr l)"
    unfolding acquire_graph_reader_lease_def gc_component by (simp add: Let_def)
  obtain m2 r where com: "complete_generation_gc initial_id ''op'' m1 = (m2, r)"
    by (metis prod.collapse)
  show ?thesis
    using gc_purges_leased_generation [OF gc _ _ g acq com] acq com by simp
qed

end
