(* ===== verification/Provider_Circuit.thy ===== *)
theory Provider_Circuit
  imports Python_Values
begin

text \<open>
  The circuit breakers of \<^verbatim>\<open>app/platform/provider.py\<close>. A registry holds one circuit per
  provider and operation; its lock makes each method one atomic step. The token a call passes
  through the thread-local \<open>_probe_context\<close> is an argument: \<open>None\<close> for a caller without one, a
  number for the fresh object of an invocation.
\<close>

section \<open>State\<close>

type_synonym token = "nat option"
type_synonym circuit_key = "string \<times> string"

record circuit =
  ci_failures :: int
  ci_opened_at :: "time option"
  ci_probe :: bool
  ci_owner :: token

record registry =
  rg_threshold :: int
  rg_open_seconds :: int
  rg_circuits :: "circuit_key \<Rightarrow> circuit option"

definition closed_circuit :: circuit where
  "closed_circuit = \<lparr>ci_failures = 0, ci_opened_at = None, ci_probe = False, ci_owner = None\<rparr>"

definition new_registry :: "int \<Rightarrow> int \<Rightarrow> registry" where
  "new_registry threshold open_seconds =
     \<lparr>rg_threshold = threshold, rg_open_seconds = open_seconds, rg_circuits = (\<lambda>_. None)\<rparr>"

definition circuit_at :: "registry \<Rightarrow> circuit_key \<Rightarrow> circuit" where
  "circuit_at reg k = (case rg_circuits reg k of None \<Rightarrow> closed_circuit | Some c \<Rightarrow> c)"

definition put_circuit :: "circuit_key \<Rightarrow> circuit \<Rightarrow> registry \<Rightarrow> registry" where
  "put_circuit k c reg = reg\<lparr>rg_circuits := (rg_circuits reg)(k \<mapsto> c)\<rparr>"

section \<open>Operations\<close>

text \<open>\<open>setdefault\<close> stores a closed circuit even when the call goes on to raise.\<close>

definition allow :: "circuit_key \<Rightarrow> time \<Rightarrow> token \<Rightarrow> registry \<Rightarrow> registry \<times> (exn + bool)" where
  "allow k now token reg =
     (let c = circuit_at reg k; reg = put_circuit k c reg in
      case ci_opened_at c of
        None \<Rightarrow> (reg, Inr False)
      | Some opened \<Rightarrow>
          if now - opened < seconds (rg_open_seconds reg) then (reg, Inl CircuitOpen)
          else if ci_probe c then (reg, Inl CircuitOpen)
          else (put_circuit k (c\<lparr>ci_probe := True, ci_owner := token\<rparr>) reg, Inr True))"

definition success :: "circuit_key \<Rightarrow> token \<Rightarrow> registry \<Rightarrow> registry" where
  "success k token reg =
     (case rg_circuits reg k of
        None \<Rightarrow> put_circuit k closed_circuit reg
      | Some c \<Rightarrow>
          if ci_probe c \<and> ci_owner c \<noteq> token then reg else put_circuit k closed_circuit reg)"

definition failure :: "circuit_key \<Rightarrow> time \<Rightarrow> token \<Rightarrow> registry \<Rightarrow> registry" where
  "failure k now token reg =
     (let c = circuit_at reg k in
      if ci_probe c \<and> ci_owner c \<noteq> token then put_circuit k c reg
      else
        let n = ci_failures c + 1 in
        put_circuit k \<lparr>ci_failures = n,
          ci_opened_at = (if rg_threshold reg \<le> n then Some now else ci_opened_at c),
          ci_probe = False, ci_owner = None\<rparr> reg)"

definition release_probe :: "circuit_key \<Rightarrow> token \<Rightarrow> registry \<Rightarrow> registry" where
  "release_probe k token reg =
     (case rg_circuits reg k of
        None \<Rightarrow> reg
      | Some c \<Rightarrow>
          if \<not> ci_probe c \<or> ci_owner c \<noteq> token then reg
          else put_circuit k (c\<lparr>ci_probe := False, ci_owner := None\<rparr>) reg)"

text \<open>\<open>abort_probe_with_token\<close>: the hook and the repair after it release the same token.\<close>

definition abort_probe :: "circuit_key \<Rightarrow> token \<Rightarrow> registry \<Rightarrow> registry" where
  "abort_probe k token reg = release_probe k token reg"

definition abort_probe_with_token :: "circuit_key \<Rightarrow> token \<Rightarrow> registry \<Rightarrow> registry" where
  "abort_probe_with_token k token reg = release_probe k token (abort_probe k token reg)"

definition recovery_after_seconds :: "circuit_key \<Rightarrow> time \<Rightarrow> registry \<Rightarrow> int option" where
  "recovery_after_seconds k now reg =
     (case rg_circuits reg k of
        None \<Rightarrow> None
      | Some c \<Rightarrow> (case ci_opened_at c of
          None \<Rightarrow> None
        | Some opened \<Rightarrow> Some (max 0 ((seconds (rg_open_seconds reg) - (now - opened)) div 1000000))))"

section \<open>Ownership of a half-open probe\<close>

definition probe_held :: "registry \<Rightarrow> circuit_key \<Rightarrow> token \<Rightarrow> bool" where
  "probe_held reg k token \<longleftrightarrow> (\<exists>c. rg_circuits reg k = Some c \<and> ci_probe c \<and> ci_owner c = token)"

named_theorems circuit "definitions of the circuit operations"

lemmas [circuit] = allow_def success_def failure_def release_probe_def abort_probe_def
  abort_probe_with_token_def put_circuit_def circuit_at_def probe_held_def Let_def

lemma circuit_fixed [simp]:
  "rg_threshold (fst (allow k now t reg)) = rg_threshold reg" "rg_threshold (success k t reg) = rg_threshold reg"
  "rg_threshold (failure k now t reg) = rg_threshold reg" "rg_threshold (release_probe k t reg) = rg_threshold reg"
  "rg_open_seconds (fst (allow k now t reg)) = rg_open_seconds reg"
  "rg_open_seconds (success k t reg) = rg_open_seconds reg"
  "rg_open_seconds (failure k now t reg) = rg_open_seconds reg"
  "rg_open_seconds (release_probe k t reg) = rg_open_seconds reg"
  by (auto simp: circuit split: option.splits)

lemma other_key [simp]:
  assumes "k' \<noteq> k"
  shows "rg_circuits (fst (allow k now t reg)) k' = rg_circuits reg k'"
    and "rg_circuits (success k t reg) k' = rg_circuits reg k'"
    and "rg_circuits (failure k now t reg) k' = rg_circuits reg k'"
    and "rg_circuits (release_probe k t reg) k' = rg_circuits reg k'"
  using assms by (auto simp: circuit split: option.splits)

lemma abort_is_release [simp]: "abort_probe_with_token k t reg = release_probe k t reg"
  by (auto simp: circuit split: option.splits)

text \<open>A probe held by another token stays as it is, and keeps every other caller out.\<close>

lemma foreign_probe:
  assumes "probe_held reg k t" and "t' \<noteq> t"
  shows "rg_circuits (success k t' reg) k = rg_circuits reg k"
    and "rg_circuits (failure k now t' reg) k = rg_circuits reg k"
    and "rg_circuits (release_probe k t' reg) k = rg_circuits reg k"
  using assms by (auto simp: circuit split: option.splits)

lemma held_allow:
  assumes "probe_held reg k t"
  shows "rg_circuits (fst (allow k now t' reg)) k = rg_circuits reg k"
    and "snd (allow k now t' reg) \<noteq> Inr True"
    and "ci_opened_at (circuit_at reg k) \<noteq> None \<Longrightarrow> snd (allow k now t' reg) = Inl CircuitOpen"
  using assms by (auto simp: circuit split: option.splits)

lemma allow_True:
  assumes "allow k now t reg = (reg', Inr True)"
  shows "probe_held reg' k t" and "ci_failures (circuit_at reg' k) = ci_failures (circuit_at reg k)"
  using assms by (auto simp: circuit split: option.splits if_splits)

lemma not_held_after:
  shows "\<not> probe_held (release_probe k t reg) k t"
    and "\<not> probe_held (failure k now t reg) k t"
    and "\<not> probe_held (success k t reg) k t"
  by (auto simp: circuit closed_circuit_def split: option.splits if_splits)

text \<open>The failures an operation leaves counted.\<close>

lemma counted_failures:
  "ci_failures (circuit_at (failure k now t reg) k) \<in> {ci_failures (circuit_at reg k), ci_failures (circuit_at reg k) + 1}"
  "ci_failures (circuit_at (success k t reg) k) \<in> {ci_failures (circuit_at reg k), 0}"
  "ci_failures (circuit_at (release_probe k t reg) k) = ci_failures (circuit_at reg k)"
  "ci_failures (circuit_at (fst (allow k now t reg)) k) = ci_failures (circuit_at reg k)"
  by (auto simp: circuit closed_circuit_def split: option.splits)

end
