(* ===== verification/Provider_Policy.thy ===== *)
theory Provider_Policy
  imports Provider_Circuit
begin

text \<open>
  \<open>call_with_policy\<close> of \<^verbatim>\<open>app/platform/provider.py\<close>: the retry loop around one provider
  operation, with its circuit accounting and its clean-up. Everything the call meets outside -
  the readings of the clock, the outcome of each physical attempt, the jitter, the sleep, the
  telemetry sink, the hash and the float arithmetic of milliseconds - is the environment record.
  The loop variables of the code are a state record; a callback that raises is an \<open>Inl\<close>.
  Seconds given as floats are rationals. The registry is the class of the code itself, whose
  methods raise nothing but \<open>CircuitOpen\<close>; exceptions outside \<open>Exception\<close> and
  \<open>asyncio.CancelledError\<close> are not modelled.
\<close>

section \<open>Values\<close>

record prov_failure =
  pf_class :: string
  pf_status :: "int option"
  pf_retryable :: "bool option"
  pf_sent :: bool

datatype prov_state = NotSent | Unknown | Succeeded | FailedState

record 'v prov_result =
  pr_state :: prov_state
  pr_value :: "'v option"
  pr_error :: "string option"
  pr_elapsed_ms :: int
  pr_attempts :: nat
  pr_retryable :: bool

record call_context =
  cc_provider :: string
  cc_operation :: string
  cc_call_id :: string
  cc_attempt_id :: string
  cc_deadline :: time
  cc_resource_id :: "string option"

record observation =
  ob_provider :: string
  ob_operation :: string
  ob_state :: prov_state
  ob_error :: "string option"
  ob_attempts :: nat
  ob_retry_count :: nat
  ob_elapsed_ms :: int
  ob_recovery :: "int option"

record retry_policy =
  rp_sync_attempts :: int
  rp_async_attempts :: int
  rp_delays :: "rat list"
  rp_max_delay :: rat

definition default_policy :: retry_policy where
  "default_policy = \<lparr>rp_sync_attempts = 3, rp_async_attempts = 5,
     rp_delays = [1/4, 1, 4, 16], rp_max_delay = 30\<rparr>"

definition policy_max_attempts :: "retry_policy \<Rightarrow> bool \<Rightarrow> int" where
  "policy_max_attempts p asynchronous = (if asynchronous then rp_async_attempts p else rp_sync_attempts p)"

text \<open>\<open>delays[min(n - 1, len - 1)]\<close>; an empty tuple has no element to index.\<close>

definition policy_delay :: "retry_policy \<Rightarrow> nat \<Rightarrow> exn + rat" where
  "policy_delay p attempt_number =
     (if rp_delays p = [] then Inl IndexError
      else Inr (min (rp_delays p ! min (attempt_number - 1) (length (rp_delays p) - 1)) (rp_max_delay p)))"

definition is_retryable :: "prov_failure \<Rightarrow> bool" where
  "is_retryable f = (case pf_status f of
       Some n \<Rightarrow> n \<in> {429, 502, 503, 504}
     | None \<Rightarrow> pf_class f \<in> {''timeout'', ''connection_lost'', ''network_error''})"

text \<open>
  The outcome of one physical attempt: a value, a \<open>ProviderResult\<close> (a contract error), or one of
  the exceptions the loop tells apart; \<open>OpError\<close> is every other \<open>Exception\<close>.
\<close>

datatype 'v op_outcome =
    OpValue 'v
  | OpResult
  | OpFailure prov_failure
  | OpAccountingAbort prov_failure bool
  | OpCancelled
  | OpPreSendDeadline
  | OpPolicyAbort
  | OpError

datatype call_exn =
    Raised exn
  | CallbackFailed exn
  | AccountingAbort
  | Cancelled
  | PolicyAbort

text \<open>What a call does to the outside, in order: physical attempts and sleeps.\<close>

datatype event = Sent call_context | Slept rat

record 'v prov_env =
  pe_now :: "nat \<Rightarrow> exn + time"
  pe_op :: "call_context \<Rightarrow> 'v op_outcome"
  pe_jitter :: "rat \<Rightarrow> exn + rat option"
  pe_sleep :: "rat \<Rightarrow> exn option"
  pe_telemetry :: "observation \<Rightarrow> exn option"
  pe_millis :: "time \<Rightarrow> int"
  pe_sha256 :: "string \<Rightarrow> string"

section \<open>Call identifiers\<close>

text \<open>\<open>json.dumps\<close> with \<open>ensure_ascii=False\<close> of one string: only control characters are escaped.\<close>

definition json_plain_string :: "string \<Rightarrow> string" where
  "json_plain_string s = CHR 0x22 # concat (map (\<lambda>c.
     if (of_char c :: nat) < 32 \<or> c = CHR 0x22 \<or> c = CHR 0x5C then json_escape_char c else [c]) s) @ [CHR 0x22]"

definition canonical_sha256 :: "(string \<Rightarrow> string) \<Rightarrow> string \<Rightarrow> string \<Rightarrow> string" where
  "canonical_sha256 sha domain canonical = sha (domain @ [CHR 0x00] @ canonical)"

definition physical_call_id :: "(string \<Rightarrow> string) \<Rightarrow> string \<Rightarrow> nat \<Rightarrow> string" where
  "physical_call_id sha call_id attempt_number =
     ''pc_'' @ take 61 (canonical_sha256 sha ''ragqs-provider-call-v1''
       (''{'' @ json_plain_string ''attempt_number'' @ '':'' @ string_of_nat attempt_number @ '','' @
        json_plain_string ''provider_call_id'' @ '':'' @ json_plain_string call_id @ ''}''))"

definition idempotency_key :: "(string \<Rightarrow> string) \<Rightarrow> call_context \<Rightarrow> string" where
  "idempotency_key sha c =
     canonical_sha256 sha ''ragqs-provider-idempotency-v1''
       (''{'' @ json_plain_string ''attempt_id'' @ '':'' @ json_plain_string (cc_attempt_id c) @ '','' @
        json_plain_string ''operation'' @ '':'' @ json_plain_string (cc_operation c) @ '','' @
        json_plain_string ''resource_id'' @ '':'' @
        (case cc_resource_id c of None \<Rightarrow> ''null'' | Some r \<Rightarrow> json_plain_string r) @ ''}'')"

section \<open>The state of a call\<close>

text \<open>What is fixed during a call, and the variables its loop and its closures assign.\<close>

record call_frame =
  cf_context :: call_context
  cf_policy :: retry_policy
  cf_started :: time
  cf_max_attempts :: nat
  cf_half_open :: bool
  cf_token :: token

record 'v call_state =
  cs_registry :: registry
  cs_samples :: nat
  cs_last_now :: time
  cs_unconfirmed :: bool
  cs_attempts :: nat
  cs_failure :: "prov_failure option"
  cs_result :: "'v prov_result option"
  cs_probe_completed :: bool
  cs_trace :: "event list"

datatype 'v verdict = Again | Return "'v prov_result" | Raise call_exn

definition cf_key :: "call_frame \<Rightarrow> circuit_key" where
  "cf_key f = (cc_provider (cf_context f), cc_operation (cf_context f))"

definition sample_now :: "'v prov_env \<Rightarrow> 'v call_state \<Rightarrow> 'v call_state \<times> (exn + time)" where
  "sample_now env s = (case pe_now env (cs_samples s) of
       Inl e \<Rightarrow> (s\<lparr>cs_samples := cs_samples s + 1\<rparr>, Inl e)
     | Inr t \<Rightarrow> (s\<lparr>cs_samples := cs_samples s + 1, cs_last_now := t\<rparr>, Inr t))"

definition elapsed_ms :: "'v prov_env \<Rightarrow> call_frame \<Rightarrow> time \<Rightarrow> int" where
  "elapsed_ms env f finished = pe_millis env (finished - cf_started f)"

definition deadline_result ::
  "'v prov_env \<Rightarrow> call_frame \<Rightarrow> 'v call_state \<Rightarrow> time \<Rightarrow> bool \<Rightarrow> 'v prov_result" where
  "deadline_result env f s timestamp sent_on_deadline =
     \<lparr>pr_state = (if cs_unconfirmed s \<or> sent_on_deadline then Unknown
        else if cs_attempts s \<noteq> 0 then FailedState else NotSent),
      pr_value = None, pr_error = Some ''deadline_exceeded'',
      pr_elapsed_ms = elapsed_ms env f timestamp, pr_attempts = cs_attempts s, pr_retryable = True\<rparr>"

definition failure_result ::
  "'v prov_env \<Rightarrow> call_frame \<Rightarrow> 'v call_state \<Rightarrow> string \<Rightarrow> time \<Rightarrow> nat \<Rightarrow> bool \<Rightarrow> 'v prov_result" where
  "failure_result env f s error timestamp attempt_count retryable =
     \<lparr>pr_state = (if cs_unconfirmed s then Unknown else FailedState), pr_value = None,
      pr_error = Some error, pr_elapsed_ms = elapsed_ms env f timestamp,
      pr_attempts = attempt_count, pr_retryable = retryable\<rparr>"

definition success_result ::
  "'v prov_env \<Rightarrow> call_frame \<Rightarrow> 'v call_state \<Rightarrow> 'v \<Rightarrow> time \<Rightarrow> 'v prov_result" where
  "success_result env f s v timestamp =
     \<lparr>pr_state = Succeeded, pr_value = Some v, pr_error = None,
      pr_elapsed_ms = elapsed_ms env f timestamp, pr_attempts = cs_attempts s, pr_retryable = False\<rparr>"

definition complete :: "'v prov_result \<Rightarrow> 'v call_state \<Rightarrow> 'v call_state" where
  "complete r s = s\<lparr>cs_result := Some r\<rparr>"

definition record_success :: "call_frame \<Rightarrow> 'v call_state \<Rightarrow> 'v call_state" where
  "record_success f s = s\<lparr>cs_registry := success (cf_key f) (cf_token f) (cs_registry s),
     cs_probe_completed := cs_probe_completed s \<or> cf_half_open f\<rparr>"

definition record_failure :: "call_frame \<Rightarrow> time \<Rightarrow> 'v call_state \<Rightarrow> 'v call_state" where
  "record_failure f timestamp s = s\<lparr>cs_registry := failure (cf_key f) timestamp (cf_token f) (cs_registry s),
     cs_probe_completed := cs_probe_completed s \<or> cf_half_open f\<rparr>"

definition complete_with_failure ::
  "call_frame \<Rightarrow> 'v prov_result \<Rightarrow> time \<Rightarrow> bool \<Rightarrow> 'v call_state \<Rightarrow> 'v call_state \<times> 'v verdict" where
  "complete_with_failure f r timestamp mutate s =
     ((if mutate then record_failure f timestamp (complete r s) else complete r s), Return r)"

definition account_interrupted ::
  "'v prov_env \<Rightarrow> call_frame \<Rightarrow> prov_failure \<Rightarrow> time \<Rightarrow> nat \<Rightarrow> bool \<Rightarrow> 'v call_state \<Rightarrow> 'v call_state" where
  "account_interrupted env f fl timestamp attempt_count force s =
     (let retryable = is_retryable fl;
          s' = complete (failure_result env f s (pf_class fl) timestamp attempt_count retryable) s
      in if force \<or> retryable \<or> cf_half_open f then record_failure f timestamp s' else s')"

text \<open>\<open>if attempts > 0 and last_failure is not None: account_interrupted_failure(...)\<close>\<close>

definition account_prior ::
  "'v prov_env \<Rightarrow> call_frame \<Rightarrow> nat \<Rightarrow> 'v call_state \<Rightarrow> 'v call_state" where
  "account_prior env f count s = (case cs_failure s of
       Some fl \<Rightarrow>
         if 0 < count then account_interrupted env f fl (cs_last_now s) count False s else s
     | None \<Rightarrow> s)"

section \<open>One attempt\<close>

text \<open>\<open>checked_retry_number\<close> of what a callback returns.\<close>

definition checked_number :: "exn + rat option \<Rightarrow> exn + rat" where
  "checked_number r = (case r of
       Inl e \<Rightarrow> Inl e
     | Inr None \<Rightarrow> Inl TypeError
     | Inr (Some x) \<Rightarrow> if x < 0 then Inl TypeError else Inr x)"

definition sleep_seconds :: "'v prov_env \<Rightarrow> call_frame \<Rightarrow> nat \<Rightarrow> exn + rat" where
  "sleep_seconds env f attempts =
     bindE (checked_number (map_sum id Some (policy_delay (cf_policy f) attempts))) (\<lambda>delay.
     bindE (checked_number (pe_jitter env delay)) (\<lambda>jitter.
       Inr (min (rp_max_delay (cf_policy f)) (delay + jitter))))"

definition note_failure :: "prov_failure \<Rightarrow> 'v call_state \<Rightarrow> 'v call_state" where
  "note_failure fl s = s\<lparr>cs_failure := Some fl,
     cs_unconfirmed := cs_unconfirmed s \<or> (pf_sent fl \<and> pf_status fl = None)\<rparr>"

text \<open>The handler of \<open>ProviderFailure\<close>.\<close>

definition handle_failure ::
  "'v prov_env \<Rightarrow> call_frame \<Rightarrow> time \<Rightarrow> prov_failure \<Rightarrow> 'v call_state \<Rightarrow> 'v call_state \<times> 'v verdict" where
  "handle_failure env f attempt_deadline fl s0 =
     (let s1 = note_failure fl s0 in
      case sample_now env s1 of
        (s, Inl e) \<Rightarrow>
          (account_interrupted env f fl (cs_last_now s) (cs_attempts s) False s, Raise (CallbackFailed e))
      | (s, Inr finished) \<Rightarrow>
          if attempt_deadline \<le> finished
          then complete_with_failure f (deadline_result env f s finished False) finished True s
          else if \<not> is_retryable fl
          then complete_with_failure f
            (failure_result env f s (pf_class fl) finished (cs_attempts s) False) finished (cf_half_open f) s
          else if cf_max_attempts f \<le> cs_attempts s
          then complete_with_failure f
            (failure_result env f s (pf_class fl) finished (cs_attempts s) True) finished True s
          else (case sleep_seconds env f (cs_attempts s) of
            Inl e \<Rightarrow>
              (account_interrupted env f fl finished (cs_attempts s) False s, Raise (CallbackFailed e))
          | Inr secs \<Rightarrow>
              if of_int (cc_deadline (cf_context f) - finished) / 1000000 \<le> secs
              then complete_with_failure f (deadline_result env f s finished False) finished True s
              else (case pe_sleep env secs of
                Some e \<Rightarrow> (account_interrupted env f fl finished (cs_attempts s) False s,
                  Raise (CallbackFailed e))
              | None \<Rightarrow> (s\<lparr>cs_trace := cs_trace s @ [Slept secs]\<rparr>, Again))))"

text \<open>The handler of every other exception of the operation.\<close>

definition handle_error ::
  "'v prov_env \<Rightarrow> call_frame \<Rightarrow> time \<Rightarrow> 'v call_state \<Rightarrow> 'v call_state \<times> 'v verdict" where
  "handle_error env f attempt_deadline s0 =
     (case sample_now env s0 of
        (s, Inl e) \<Rightarrow>
          (record_failure f (cs_last_now s)
            (complete (failure_result env f s ''provider_error'' (cs_last_now s) (cs_attempts s) False) s),
           Raise (CallbackFailed e))
      | (s, Inr finished) \<Rightarrow>
          if attempt_deadline \<le> finished
          then complete_with_failure f (deadline_result env f s finished False) finished True s
          else complete_with_failure f
            (failure_result env f s ''provider_error'' finished (cs_attempts s) False) finished True s)"

text \<open>A value returned by the transport.\<close>

definition handle_value ::
  "'v prov_env \<Rightarrow> call_frame \<Rightarrow> time \<Rightarrow> 'v \<Rightarrow> 'v call_state \<Rightarrow> 'v call_state \<times> 'v verdict" where
  "handle_value env f attempt_deadline v s0 =
     (case sample_now env s0 of
        (s, Inl e) \<Rightarrow>
          (record_success f (complete (success_result env f s v (cs_last_now s)) s), Raise (CallbackFailed e))
      | (s, Inr finished) \<Rightarrow>
          if attempt_deadline \<le> finished
          then complete_with_failure f (deadline_result env f s finished True) finished True s
          else let r = success_result env f s v finished
            in (record_success f (complete r s), Return r))"

text \<open>The handler of \<open>ProviderPreSendDeadlineExceeded\<close>: the attempt was not sent and is not counted.\<close>

definition handle_pre_send ::
  "'v prov_env \<Rightarrow> call_frame \<Rightarrow> 'v call_state \<Rightarrow> 'v call_state \<times> 'v verdict" where
  "handle_pre_send env f s0 =
     (case sample_now env (s0\<lparr>cs_attempts := cs_attempts s0 - 1\<rparr>) of
        (s, Inl e) \<Rightarrow> (account_prior env f (cs_attempts s) s, Raise (CallbackFailed e))
      | (s, Inr t) \<Rightarrow>
          let r = deadline_result env f s t False in
          if 0 < cs_attempts s \<and> cs_failure s \<noteq> None then complete_with_failure f r t True s
          else (complete r s, Return r))"

definition handle_accounting_abort ::
  "'v prov_env \<Rightarrow> call_frame \<Rightarrow> prov_failure \<Rightarrow> bool \<Rightarrow> 'v call_state \<Rightarrow> 'v call_state \<times> 'v verdict" where
  "handle_accounting_abort env f fl force s0 =
     (let s1 = note_failure fl s0;
          (s, sampled) = sample_now env s1;
          failure_time = (case sampled of Inl _ \<Rightarrow> cs_last_now s1 | Inr t \<Rightarrow> t)
      in (account_interrupted env f fl failure_time (cs_attempts s) force s, Raise AccountingAbort))"

text \<open>One pass of the loop after the deadline check: the physical attempt and its handler.\<close>

definition attempt_context :: "'v prov_env \<Rightarrow> call_frame \<Rightarrow> time \<Rightarrow> nat \<Rightarrow> call_context" where
  "attempt_context env f current attempts =
     (cf_context f)\<lparr>cc_call_id := physical_call_id (pe_sha256 env) (cc_call_id (cf_context f)) attempts,
       cc_deadline := min (cc_deadline (cf_context f)) (current + seconds 30)\<rparr>"

definition run_attempt ::
  "'v prov_env \<Rightarrow> call_frame \<Rightarrow> time \<Rightarrow> 'v call_state \<Rightarrow> 'v call_state \<times> 'v verdict" where
  "run_attempt env f current s0 =
     (let n = cs_attempts s0 + 1;
          ctx = attempt_context env f current n;
          s = s0\<lparr>cs_attempts := n, cs_trace := cs_trace s0 @ [Sent ctx]\<rparr>
      in case pe_op env ctx of
           OpAccountingAbort fl force \<Rightarrow> handle_accounting_abort env f fl force s
         | OpCancelled \<Rightarrow> (account_prior env f (n - 1) s, Raise Cancelled)
         | OpPreSendDeadline \<Rightarrow> handle_pre_send env f s
         | OpPolicyAbort \<Rightarrow> (account_prior env f (n - 1) s, Raise PolicyAbort)
         | OpFailure fl \<Rightarrow> handle_failure env f (cc_deadline ctx) fl s
         | OpError \<Rightarrow> handle_error env f (cc_deadline ctx) s
         | OpResult \<Rightarrow> (account_prior env f (n - 1) s, Raise (Raised TypeError))
         | OpValue v \<Rightarrow> handle_value env f (cc_deadline ctx) v s)"

section \<open>The loop\<close>

text \<open>
  \<open>while attempts < max_attempts\<close>: only a pass that counted its attempt comes back, so the number
  of attempts left is the argument of the recursion.
\<close>

fun policy_loop ::
  "nat \<Rightarrow> 'v prov_env \<Rightarrow> call_frame \<Rightarrow> 'v call_state \<Rightarrow> 'v call_state \<times> 'v verdict" where
  "policy_loop 0 env f s =
     (let r = deadline_result env f s (cs_last_now s) False in (complete r s, Return r))"
| "policy_loop (Suc left) env f s0 =
     (case sample_now env s0 of
        (s, Inl e) \<Rightarrow> (account_prior env f (cs_attempts s) s, Raise (CallbackFailed e))
      | (s, Inr current) \<Rightarrow>
          if cc_deadline (cf_context f) \<le> current
          then let r = deadline_result env f s current False in
            if 0 < cs_attempts s \<and> cs_failure s \<noteq> None
            then complete_with_failure f r current True s
            else (complete r s, Return r)
          else (case run_attempt env f current s of
            (s', Again) \<Rightarrow> policy_loop left env f s'
          | (s', v) \<Rightarrow> (s', v)))"

section \<open>The whole call\<close>

definition observe :: "call_frame \<Rightarrow> registry \<Rightarrow> time \<Rightarrow> 'v prov_result \<Rightarrow> observation" where
  "observe f reg last_now r =
     \<lparr>ob_provider = cc_provider (cf_context f), ob_operation = cc_operation (cf_context f),
      ob_state = pr_state r, ob_error = pr_error r, ob_attempts = pr_attempts r,
      ob_retry_count = pr_attempts r - 1, ob_elapsed_ms = pr_elapsed_ms r,
      ob_recovery = recovery_after_seconds (cf_key f) last_now reg\<rparr>"

text \<open>
  The \<open>finally\<close> of the call: a probe that no outcome settled is released, the aggregate result
  is reported once, and an error of the report is raised only when nothing else is.
\<close>

type_synonym 'v call_outcome = "registry \<times> observation list \<times> event list \<times> (call_exn + 'v prov_result)"

definition finish ::
  "'v prov_env \<Rightarrow> call_frame \<Rightarrow> 'v call_state \<Rightarrow> 'v verdict \<Rightarrow> 'v call_outcome" where
  "finish env f s v =
     (let reg = (if cf_half_open f \<and> \<not> cs_probe_completed s
            then abort_probe_with_token (cf_key f) (cf_token f) (cs_registry s) else cs_registry s);
          obs = (case cs_result s of None \<Rightarrow> [] | Some r \<Rightarrow> [observe f reg (cs_last_now s) r])
      in (reg, obs, cs_trace s, case v of
           Raise e \<Rightarrow> Inl e
         | Return r \<Rightarrow> (case List.map_filter (pe_telemetry env) obs of
               [] \<Rightarrow> Inr r | e # _ \<Rightarrow> Inl (CallbackFailed e))
         | Again \<Rightarrow> Inl (Raised InternalError)))"

definition hard_attempt_limit :: "bool \<Rightarrow> nat" where
  "hard_attempt_limit asynchronous = (if asynchronous then 5 else 3)"

definition frame_of ::
  "call_context \<Rightarrow> retry_policy \<Rightarrow> bool \<Rightarrow> nat \<Rightarrow> time \<Rightarrow> bool \<Rightarrow> call_frame" where
  "frame_of ctx p asynchronous token started half_open =
     \<lparr>cf_context = ctx, cf_policy = p, cf_started = started,
      cf_max_attempts = min (nat (policy_max_attempts p asynchronous)) (hard_attempt_limit asynchronous),
      cf_half_open = half_open, cf_token = Some token\<rparr>"

definition start_state :: "registry \<Rightarrow> time \<Rightarrow> 'v call_state" where
  "start_state reg started =
     \<lparr>cs_registry = reg, cs_samples = 1, cs_last_now = started, cs_unconfirmed = False, cs_attempts = 0,
      cs_failure = None, cs_result = None, cs_probe_completed = False, cs_trace = []\<rparr>"

definition circuit_open_observation :: "'v prov_env \<Rightarrow> call_frame \<Rightarrow> registry \<Rightarrow> observation" where
  "circuit_open_observation env f reg =
     \<lparr>ob_provider = cc_provider (cf_context f), ob_operation = cc_operation (cf_context f),
      ob_state = FailedState, ob_error = Some ''circuit_open'', ob_attempts = 0, ob_retry_count = 0,
      ob_elapsed_ms = elapsed_ms env f (cf_started f),
      ob_recovery = recovery_after_seconds (cf_key f) (cf_started f) reg\<rparr>"

definition call_with_policy ::
  "'v prov_env \<Rightarrow> call_context \<Rightarrow> retry_policy \<Rightarrow> bool \<Rightarrow> nat \<Rightarrow> registry \<Rightarrow>
     'v call_outcome" where
  "call_with_policy env ctx p asynchronous token reg =
     (case pe_now env 0 of
        Inl e \<Rightarrow> (reg, [], [], Inl (CallbackFailed e))
      | Inr started \<Rightarrow>
          if policy_max_attempts p asynchronous \<le> 0 then (reg, [], [], Inl (Raised TypeError))
          else
            let f = frame_of ctx p asynchronous token started False in
            (case allow (cf_key f) started (cf_token f) reg of
               (reg1, Inl e) \<Rightarrow>
                 let reg2 = abort_probe_with_token (cf_key f) (cf_token f) reg1
                 in (reg2, [circuit_open_observation env f reg2], [], Inl (Raised e))
             | (reg1, Inr half_open) \<Rightarrow>
                 let f = frame_of ctx p asynchronous token started half_open;
                     (s, v) = policy_loop (cf_max_attempts f) env f (start_state reg1 started)
                 in finish env f s v))"

end
