(* ===== verification/Provider_Effects.thy ===== *)
theory Provider_Effects
  imports Provider_Policy
begin

text \<open>
  What one pass of the retry loop and the whole loop leave behind: how the circuit was touched,
  which result was recorded, which attempts and sleeps happened.
\<close>

section \<open>Touching the circuit at most once\<close>

text \<open>
  \<open>settled\<close>: the registry is as before and the probe as open as before, or exactly one success
  or failure was recorded under the call's own token.
\<close>

definition settled :: "call_frame \<Rightarrow> 'v call_state \<Rightarrow> 'v call_state \<Rightarrow> bool" where
  "settled f s s' \<longleftrightarrow>
     cs_registry s' = cs_registry s \<and> cs_probe_completed s' = cs_probe_completed s \<or>
     (\<exists>t. cs_registry s' = failure (cf_key f) t (cf_token f) (cs_registry s)) \<and>
       cs_probe_completed s' = (cs_probe_completed s \<or> cf_half_open f) \<or>
     cs_registry s' = success (cf_key f) (cf_token f) (cs_registry s) \<and>
       cs_probe_completed s' = (cs_probe_completed s \<or> cf_half_open f)"

named_theorems call "definitions of the retry loop"

lemmas [call] = Let_def record_success_def record_failure_def complete_def complete_with_failure_def
  account_interrupted_def note_failure_def

lemma sample_now_effect [simp]:
  assumes "sample_now env s = (s', r)"
  shows "cs_registry s' = cs_registry s" "cs_probe_completed s' = cs_probe_completed s"
    "cs_attempts s' = cs_attempts s" "cs_failure s' = cs_failure s" "cs_unconfirmed s' = cs_unconfirmed s"
    "cs_result s' = cs_result s" "cs_trace s' = cs_trace s"
  using assms by (auto simp: sample_now_def split: sum.splits)

lemma settled_accounts:
  "settled f s s" "settled f s (record_success f (complete r s))" "settled f s (complete r s)"
  "settled f s (record_failure f t (complete r s))" "settled f s (account_interrupted env f fl t n force s)"
  "settled f s (account_prior env f n s)"
  by (auto simp: settled_def account_prior_def call split: option.split)

lemma settled_cong:
  "settled f s s' \<Longrightarrow> cs_registry s0 = cs_registry s \<Longrightarrow> cs_probe_completed s0 = cs_probe_completed s \<Longrightarrow>
     settled f s0 s'"
  by (simp add: settled_def)

text \<open>The trace is not touched by the accounting.\<close>

lemma trace_accounts [simp]:
  "cs_trace (record_success f s) = cs_trace s" "cs_trace (record_failure f t s) = cs_trace s"
  "cs_trace (complete r s) = cs_trace s" "cs_trace (account_interrupted env f fl t n force s) = cs_trace s"
  "cs_trace (account_prior env f n s) = cs_trace s" "cs_trace (note_failure fl s) = cs_trace s"
  by (auto simp: account_prior_def call split: option.split)

lemma result_accounts [simp]:
  "cs_result (record_success f s) = cs_result s" "cs_result (record_failure f t s) = cs_result s"
  "cs_result (complete r s) = Some r" "cs_result (note_failure fl s) = cs_result s"
  by (auto simp: call)

section \<open>One pass\<close>

text \<open>
  \<open>ends\<close>: the pass ends the call; a returned result is the recorded one.
\<close>

definition ends :: "call_frame \<Rightarrow> 'v call_state \<Rightarrow> 'v call_state \<Rightarrow> 'v verdict \<Rightarrow> bool" where
  "ends f s s' v \<longleftrightarrow> settled f s s' \<and> v \<noteq> Again \<and> (\<forall>r. v = Return r \<longrightarrow> cs_result s' = Some r)"

text \<open>\<open>goes_on\<close>: a retryable failure was seen, and the code slept before the next attempt.\<close>

definition goes_on ::
  "'v prov_env \<Rightarrow> call_frame \<Rightarrow> 'v call_state \<Rightarrow> 'v call_state \<Rightarrow> prov_failure \<Rightarrow> rat \<Rightarrow> bool" where
  "goes_on env f s s' fl secs \<longleftrightarrow>
     cs_registry s' = cs_registry s \<and> cs_probe_completed s' = cs_probe_completed s \<and>
     cs_result s' = cs_result s \<and> cs_attempts s' = cs_attempts s \<and> cs_attempts s < cf_max_attempts f \<and>
     cs_failure s' = Some fl \<and> is_retryable fl \<and>
     sleep_seconds env f (cs_attempts s) = Inr secs \<and> pe_sleep env secs = None \<and>
     (\<exists>t. secs < of_int (cc_deadline (cf_context f) - t) / 1000000) \<and>
     cs_trace s' = cs_trace s @ [Slept secs]"

lemma ends_cong:
  "cs_registry s0 = cs_registry s \<Longrightarrow> cs_probe_completed s0 = cs_probe_completed s \<Longrightarrow>
     ends f s s' v \<Longrightarrow> ends f s0 s' v"
  unfolding ends_def using settled_cong by blast

lemma complete_with_failure_ends:
  assumes "complete_with_failure f r t mutate s = (s', v)"
  shows "ends f s s' v" and "cs_trace s' = cs_trace s" and "v \<noteq> Again"
proof -
  have "v = Return r" "s' = (if mutate then record_failure f t (complete r s) else complete r s)"
    using assms by (auto simp: complete_with_failure_def)
  then show "ends f s s' v" "cs_trace s' = cs_trace s" "v \<noteq> Again"
    using settled_accounts by (auto simp: ends_def)
qed

lemma raise_ends:
  "ends f s (account_interrupted env f fl t n force s) (Raise e)"
  "ends f s (account_prior env f n s) (Raise e)"
  "ends f s (record_failure f t (complete r s)) (Raise e)"
  "ends f s (record_success f (complete r s)) (Raise e)"
  "ends f s (record_success f (complete r s)) (Return r)"
  "ends f s (complete r s) (Return r)"
  using settled_accounts by (auto simp: ends_def)

lemma handle_failure_effect:
  assumes "handle_failure env f d fl s = (s', v)"
  shows "ends f s s' v \<and> cs_trace s' = cs_trace s \<or>
    v = Again \<and> (\<exists>secs. goes_on env f s s' fl secs)"
proof -
  obtain s1 q where q: "sample_now env (note_failure fl s) = (s1, q)"
    by (metis prod.collapse)
  note same = sample_now_effect [OF q]
  have s1: "cs_registry s = cs_registry s1" "cs_probe_completed s = cs_probe_completed s1"
    "cs_attempts s1 = cs_attempts s" "cs_result s1 = cs_result s" "cs_failure s1 = Some fl" "cs_trace s1 = cs_trace s"
    using same by (simp_all add: note_failure_def)
  have "ends f s1 s' v \<and> cs_trace s' = cs_trace s1 \<or> v = Again \<and> (\<exists>secs. goes_on env f s s' fl secs)"
  proof (cases q)
    case (Inl e)
    then show ?thesis using assms q raise_ends by (auto simp: handle_failure_def Let_def)
  next
    case (Inr t)
    then show ?thesis
      using assms q s1
      by (auto simp: handle_failure_def Let_def goes_on_def not_le raise_ends split: if_splits sum.splits option.splits
          dest: complete_with_failure_ends)
  qed
  then show ?thesis using ends_cong [OF s1(1,2)] s1(6) by auto
qed

lemma sampled_ends:
  assumes "sample_now env s = (s1, q)" and "ends f s1 s' v" and "cs_trace s' = cs_trace s1"
  shows "ends f s s' v \<and> cs_trace s' = cs_trace s"
  using assms ends_cong [of s s1] sample_now_effect [OF assms(1)] by auto

lemma handle_error_effect:
  assumes "handle_error env f d s = (s', v)"
  shows "ends f s s' v \<and> cs_trace s' = cs_trace s"
proof -
  obtain s1 q where q: "sample_now env s = (s1, q)" by (metis prod.collapse)
  have "ends f s1 s' v \<and> cs_trace s' = cs_trace s1"
    using assms q by (cases q)
      (auto simp: handle_error_def raise_ends split: if_splits dest: complete_with_failure_ends)
  then show ?thesis using sampled_ends [OF q] by blast
qed

lemma handle_value_effect:
  assumes "handle_value env f d x s = (s', v)"
  shows "ends f s s' v \<and> cs_trace s' = cs_trace s"
proof -
  obtain s1 q where q: "sample_now env s = (s1, q)" by (metis prod.collapse)
  have "ends f s1 s' v \<and> cs_trace s' = cs_trace s1"
    using assms q by (cases q)
      (auto simp: handle_value_def Let_def raise_ends split: if_splits dest: complete_with_failure_ends)
  then show ?thesis using sampled_ends [OF q] by blast
qed

lemma handle_pre_send_effect:
  assumes "handle_pre_send env f s = (s', v)"
  shows "ends f s s' v \<and> cs_trace s' = cs_trace s"
proof -
  let ?s = "s\<lparr>cs_attempts := cs_attempts s - 1\<rparr>"
  obtain s1 q where q: "sample_now env ?s = (s1, q)" by (metis prod.collapse)
  have "ends f s1 s' v \<and> cs_trace s' = cs_trace s1"
    using assms q by (cases q)
      (auto simp: handle_pre_send_def Let_def raise_ends split: if_splits dest: complete_with_failure_ends)
  then show ?thesis using sampled_ends [OF q] ends_cong [of s ?s] by auto
qed

lemma handle_accounting_abort_effect:
  assumes "handle_accounting_abort env f fl force s = (s', v)"
  shows "ends f s s' v \<and> cs_trace s' = cs_trace s"
proof -
  obtain s1 q where q: "sample_now env (note_failure fl s) = (s1, q)" by (metis prod.collapse)
  have "ends f s1 s' v \<and> cs_trace s' = cs_trace s1"
    using assms q by (auto simp: handle_accounting_abort_def Let_def raise_ends)
  then show ?thesis
    using sampled_ends [OF q] ends_cong [of s "note_failure fl s"] by (auto simp: note_failure_def)
qed

text \<open>A pass sends exactly one attempt; it ends the call or leaves a retryable failure behind.\<close>

lemma run_attempt_effect:
  assumes "run_attempt env f now s = (s', v)"
  defines "ctx \<equiv> attempt_context env f now (cs_attempts s + 1)"
  shows "ends f s s' v \<and> cs_trace s' = cs_trace s @ [Sent ctx] \<or>
    v = Again \<and> (\<exists>fl secs. pe_op env ctx = OpFailure fl \<and>
      goes_on env f (s\<lparr>cs_attempts := cs_attempts s + 1, cs_trace := cs_trace s @ [Sent ctx]\<rparr>) s' fl secs)"
proof -
  let ?s = "s\<lparr>cs_attempts := cs_attempts s + 1, cs_trace := cs_trace s @ [Sent ctx]\<rparr>"
  have "ends f ?s s' v \<and> cs_trace s' = cs_trace ?s \<or>
      v = Again \<and> (\<exists>fl secs. pe_op env ctx = OpFailure fl \<and> goes_on env f ?s s' fl secs)"
    using assms(1) unfolding run_attempt_def Let_def ctx_def [symmetric]
    by (cases "pe_op env ctx")
      (auto simp: raise_ends dest: handle_failure_effect handle_error_effect handle_value_effect
        handle_pre_send_effect handle_accounting_abort_effect)
  then show ?thesis using ends_cong [of s ?s] by auto
qed

section \<open>The loop\<close>

lemma policy_loop_ends:
  "policy_loop n env f s = (s', v) \<Longrightarrow> ends f s s' v"
proof (induction n arbitrary: s)
  case 0
  then show ?case using raise_ends by (auto simp: Let_def)
next
  case (Suc n)
  obtain s1 q where q: "sample_now env s = (s1, q)" by (metis prod.collapse)
  have "ends f s1 s' v"
  proof (cases q)
    case (Inl e)
    then show ?thesis using Suc.prems q raise_ends by auto
  next
    case (Inr now)
    obtain s2 w where r: "run_attempt env f now s1 = (s2, w)" by (metis prod.collapse)
    show ?thesis
    proof (cases "cc_deadline (cf_context f) \<le> now")
      case True
      then show ?thesis
        using Suc.prems q Inr raise_ends complete_with_failure_ends(1)
        by (auto simp: Let_def split: if_splits)
    next
      case False
      then have go: "(case (s2, w) of (s', Again) \<Rightarrow> policy_loop n env f s' | (s', v) \<Rightarrow> (s', v)) = (s', v)"
        using Suc.prems q Inr r by simp
      show ?thesis
      proof (cases "w = Again")
        case True
        then have "ends f s2 s' v" using go Suc.IH by simp
        moreover have "cs_registry s1 = cs_registry s2" "cs_probe_completed s1 = cs_probe_completed s2"
          using run_attempt_effect [OF r] True by (auto simp: goes_on_def ends_def)
        ultimately show ?thesis using ends_cong by blast
      next
        case False
        then show ?thesis using go run_attempt_effect [OF r] by (auto split: verdict.splits)
      qed
    qed
  qed
  then show ?case using ends_cong [of s s1] sample_now_effect [OF q] by auto
qed

text \<open>The attempts sent and the sleeps between them.\<close>

definition sends :: "event list \<Rightarrow> call_context list" where
  "sends tr = concat (map (\<lambda>e. case e of Sent c \<Rightarrow> [c] | Slept _ \<Rightarrow> []) tr)"

definition sleeps :: "event list \<Rightarrow> rat list" where
  "sleeps tr = concat (map (\<lambda>e. case e of Sent _ \<Rightarrow> [] | Slept x \<Rightarrow> [x]) tr)"

lemma sends_simps [simp]: "sends [] = []" "sends (Sent c # tr) = c # sends tr" "sends (Slept x # tr) = sends tr"
  "sends (tr @ tr') = sends tr @ sends tr'"
  by (simp_all add: sends_def)

lemma sleeps_simps [simp]: "sleeps [] = []" "sleeps (Sent c # tr) = sleeps tr" "sleeps (Slept x # tr) = x # sleeps tr"
  "sleeps (tr @ tr') = sleeps tr @ sleeps tr'"
  by (simp_all add: sleeps_def)

lemma sleep_seconds_bounds:
  assumes "sleep_seconds env f n = Inr x"
  shows "0 \<le> x" and "x \<le> rp_max_delay (cf_policy f)"
proof -
  obtain d j where dj: "checked_number (map_sum id Some (policy_delay (cf_policy f) n)) = Inr d"
    "checked_number (pe_jitter env d) = Inr j" "x = min (rp_max_delay (cf_policy f)) (d + j)"
    using assms by (auto simp: sleep_seconds_def)
  have "0 \<le> d" "0 \<le> j"
    using dj(1,2) by (auto simp: checked_number_def split: sum.splits option.splits if_splits)
  moreover have "d \<le> rp_max_delay (cf_policy f)"
    using dj(1) by (auto simp: checked_number_def policy_delay_def split: if_splits)
  ultimately show "0 \<le> x" "x \<le> rp_max_delay (cf_policy f)" using dj(3) by auto
qed

definition retried :: "'v prov_env \<Rightarrow> call_context \<Rightarrow> bool" where
  "retried env c \<longleftrightarrow> (\<exists>fl. pe_op env c = OpFailure fl \<and> is_retryable fl)"

text \<open>
  \<open>log_ok env f a n tr\<close>: after \<open>a\<close> attempts, the events \<open>tr\<close> are at most \<open>n\<close> attempts, numbered on
  from \<open>a + 1\<close>, each but the last a retryable failure, with a bounded sleep after each retried one.
\<close>

definition log_ok :: "'v prov_env \<Rightarrow> call_frame \<Rightarrow> nat \<Rightarrow> nat \<Rightarrow> event list \<Rightarrow> bool" where
  "log_ok env f a n tr \<longleftrightarrow>
     length (sends tr) \<le> n \<and>
     map cc_call_id (sends tr) =
       map (physical_call_id (pe_sha256 env) (cc_call_id (cf_context f))) [a + 1..<a + 1 + length (sends tr)] \<and>
     (\<forall>c \<in> set (sends tr). cc_deadline c \<le> cc_deadline (cf_context f)) \<and>
     (\<forall>c \<in> set (butlast (sends tr)). retried env c) \<and>
     length (sleeps tr) \<le> length (sends tr) \<and> length (sends tr) \<le> length (sleeps tr) + 1 \<and>
     (\<forall>x \<in> set (sleeps tr). 0 \<le> x \<and> x \<le> rp_max_delay (cf_policy f))"

lemma log_ok_Nil [simp]: "log_ok env f a n []"
  by (simp add: log_ok_def)

lemma log_ok_one:
  "log_ok env f a (Suc n) [Sent (attempt_context env f now (Suc a))]"
  by (simp add: log_ok_def attempt_context_def)

lemma log_ok_more:
  assumes "log_ok env f (Suc a) n tr" and "retried env (attempt_context env f now (Suc a))"
    and "0 \<le> x" and "x \<le> rp_max_delay (cf_policy f)"
  shows "log_ok env f a (Suc n) (Sent (attempt_context env f now (Suc a)) # Slept x # tr)"
proof -
  let ?c = "attempt_context env f now (Suc a)"
  let ?cs = "sends tr"
  have upt: "[a + 1..<a + 1 + Suc m] = (a + 1) # [Suc a + 1..<Suc a + 1 + m]" for m
    by (simp add: upt_conv_Cons)
  have c: "cc_call_id ?c = physical_call_id (pe_sha256 env) (cc_call_id (cf_context f)) (a + 1)"
    "cc_deadline ?c \<le> cc_deadline (cf_context f)"
    by (simp_all add: attempt_context_def)
  have "map cc_call_id (?c # ?cs) = map (physical_call_id (pe_sha256 env) (cc_call_id (cf_context f)))
      [a + 1..<a + 1 + Suc (length ?cs)]"
    unfolding upt using assms(1) c(1) by (simp add: log_ok_def)
  moreover have "set (butlast (?c # ?cs)) \<subseteq> insert ?c (set (butlast ?cs))" by auto
  ultimately show ?thesis
    using assms c(2) unfolding log_ok_def by (simp del: upt_Suc)
qed

lemma policy_loop_log:
  "policy_loop n env f s = (s', v) \<Longrightarrow> cs_attempts s + n = cf_max_attempts f \<Longrightarrow>
     \<exists>tr. cs_trace s' = cs_trace s @ tr \<and> log_ok env f (cs_attempts s) n tr"
proof (induction n arbitrary: s)
  case 0
  then show ?case by (intro exI [of _ "[]"]) (auto simp: Let_def)
next
  case (Suc n)
  obtain s1 q where q: "sample_now env s = (s1, q)" by (metis prod.collapse)
  note same = sample_now_effect [OF q]
  show ?case
  proof (cases "\<exists>now. q = Inr now \<and> \<not> cc_deadline (cf_context f) \<le> now")
    case False
    then have "cs_trace s' = cs_trace s"
      using Suc.prems q same
      by (auto simp: Let_def split: sum.splits if_splits dest!: complete_with_failure_ends(2))
    then show ?thesis by (intro exI [of _ "[]"]) simp
  next
    case True
    then obtain now where now: "q = Inr now" "\<not> cc_deadline (cf_context f) \<le> now" by blast
    obtain s2 w where r: "run_attempt env f now s1 = (s2, w)" by (metis prod.collapse)
    then have go: "(case (s2, w) of (s', Again) \<Rightarrow> policy_loop n env f s' | (s', v) \<Rightarrow> (s', v)) = (s', v)"
      using Suc.prems q now by simp
    let ?c = "attempt_context env f now (cs_attempts s + 1)"
    show ?thesis
    proof (cases "w = Again")
      case True
      then obtain fl secs where again: "pe_op env ?c = OpFailure fl"
        "goes_on env f (s1\<lparr>cs_attempts := cs_attempts s1 + 1, cs_trace := cs_trace s1 @ [Sent ?c]\<rparr>) s2 fl secs"
        using run_attempt_effect [OF r] same by (auto simp: ends_def)
      then have s2: "cs_attempts s2 = Suc (cs_attempts s)" "cs_trace s2 = cs_trace s @ [Sent ?c, Slept secs]"
        "is_retryable fl" "sleep_seconds env f (Suc (cs_attempts s)) = Inr secs"
        using same by (auto simp: goes_on_def)
      obtain tr where tr: "cs_trace s' = cs_trace s2 @ tr" "log_ok env f (Suc (cs_attempts s)) n tr"
        using Suc.IH [of s2] go True s2(1) Suc.prems(2) by auto
      have "log_ok env f (cs_attempts s) (Suc n) (Sent ?c # Slept secs # tr)"
        using log_ok_more [OF tr(2)] again(1) s2(3) sleep_seconds_bounds [OF s2(4)]
        by (simp add: retried_def)
      then show ?thesis using tr(1) s2(2) by (intro exI [of _ "Sent ?c # Slept secs # tr"]) simp
    next
      case False
      then have "cs_trace s' = cs_trace s @ [Sent ?c]"
        using go run_attempt_effect [OF r] same by (auto split: verdict.splits)
      then show ?thesis using log_ok_one [of env f "cs_attempts s" n now] by auto
    qed
  qed
qed

text \<open>More attempts than are left would change nothing: the last one never comes back.\<close>

lemma policy_loop_more:
  "cs_attempts s + n = cf_max_attempts f \<Longrightarrow> 0 < n \<Longrightarrow>
     policy_loop (n + k) env f s = policy_loop n env f s"
proof (induction n arbitrary: s)
  case 0
  then show ?case by blast
next
  case (Suc n)
  obtain s1 q where q: "sample_now env s = (s1, q)" by (metis prod.collapse)
  have same: "cs_attempts s1 = cs_attempts s" using sample_now_effect [OF q] by blast
  have pass: "(case run_attempt env f now s1 of (s', Again) \<Rightarrow> policy_loop (n + k) env f s' | (s', v) \<Rightarrow> (s', v)) =
      (case run_attempt env f now s1 of (s', Again) \<Rightarrow> policy_loop n env f s' | (s', v) \<Rightarrow> (s', v))" for now
  proof (cases "run_attempt env f now s1")
    case (Pair s2 w)
    have "policy_loop (n + k) env f s2 = policy_loop n env f s2" if "w = Again"
    proof -
      have "cs_attempts s2 = cs_attempts s + 1" "cs_attempts s + 1 < cf_max_attempts f"
        using run_attempt_effect [OF Pair] same that by (auto simp: ends_def goes_on_def)
      then show ?thesis using Suc.IH [of s2] Suc.prems(1) by linarith
    qed
    then show ?thesis using Pair by (cases w) simp_all
  qed
  show ?case by (simp add: q pass cong: sum.case_cong if_cong)
qed

section \<open>Successful and exhausted calls\<close>

text \<open>A succeeded result comes from a value of the last attempt, recorded on the circuit.\<close>

lemma complete_with_failure_state:
  "complete_with_failure f r t mutate s = (s', Return r') \<Longrightarrow> r' = r"
  by (simp add: complete_with_failure_def)

lemma not_succeeded [simp]:
  "pr_state (deadline_result env f s t b) \<noteq> Succeeded" "pr_state (failure_result env f s e t n b) \<noteq> Succeeded"
  by (simp_all add: deadline_result_def failure_result_def)

lemma run_attempt_succeeded:
  assumes "run_attempt env f now s = (s', Return r)" and "pr_state r = Succeeded"
  defines "ctx \<equiv> attempt_context env f now (cs_attempts s + 1)"
  shows "\<exists>x. pe_op env ctx = OpValue x \<and> pr_value r = Some x \<and> pr_attempts r = cs_attempts s + 1 \<and>
    cs_registry s' = success (cf_key f) (cf_token f) (cs_registry s) \<and> cs_trace s' = cs_trace s @ [Sent ctx]"
proof -
  let ?s = "s\<lparr>cs_attempts := cs_attempts s + 1, cs_trace := cs_trace s @ [Sent ctx]\<rparr>"
  note run = assms(1)[unfolded run_attempt_def Let_def, folded ctx_def]
  show ?thesis
  proof (cases "pe_op env ctx")
    case (OpValue x)
    obtain s1 q where q: "sample_now env ?s = (s1, q)" by (metis prod.collapse)
    note same = sample_now_effect [OF q]
    from OpValue run have "handle_value env f (cc_deadline ctx) x ?s = (s', Return r)" by simp
    then show ?thesis
      using q same OpValue assms(2)
      by (auto simp: handle_value_def Let_def success_result_def record_success_def complete_def
          split: sum.splits if_splits dest: complete_with_failure_state)
  next
    case (OpFailure fl)
    with run have "handle_failure env f (cc_deadline ctx) fl ?s = (s', Return r)" by simp
    then show ?thesis using assms(2)
      by (auto simp: handle_failure_def Let_def split: sum.splits if_splits prod.splits option.splits
          dest: complete_with_failure_state)
  next
    case OpError
    with run have "handle_error env f (cc_deadline ctx) ?s = (s', Return r)" by simp
    then show ?thesis using assms(2)
      by (auto simp: handle_error_def split: sum.splits if_splits prod.splits dest: complete_with_failure_state)
  next
    case OpPreSendDeadline
    with run have "handle_pre_send env f ?s = (s', Return r)" by simp
    then show ?thesis using assms(2)
      by (auto simp: handle_pre_send_def Let_def split: sum.splits if_splits prod.splits
          dest: complete_with_failure_state)
  qed (use run in \<open>auto simp: handle_accounting_abort_def Let_def split: prod.splits\<close>)
qed

lemma policy_loop_succeeded:
  "policy_loop n env f s = (s', Return r) \<Longrightarrow> pr_state r = Succeeded \<Longrightarrow>
     \<exists>c x tr. cs_trace s' = cs_trace s @ tr @ [Sent c] \<and> pe_op env c = OpValue x \<and> pr_value r = Some x \<and>
       pr_attempts r = cs_attempts s + length (sends tr) + 1 \<and>
       cs_registry s' = success (cf_key f) (cf_token f) (cs_registry s)"
proof (induction n arbitrary: s)
  case 0
  then show ?case by (auto simp: Let_def)
next
  case (Suc n)
  obtain s1 q where q: "sample_now env s = (s1, q)" by (metis prod.collapse)
  note same = sample_now_effect [OF q]
  obtain now where now: "q = Inr now" "\<not> cc_deadline (cf_context f) \<le> now"
    using Suc.prems q
    by (auto simp: Let_def split: sum.splits if_splits dest: complete_with_failure_state)
  obtain s2 w where r: "run_attempt env f now s1 = (s2, w)" by (metis prod.collapse)
  then have go: "(case (s2, w) of (s', Again) \<Rightarrow> policy_loop n env f s' | (s', v) \<Rightarrow> (s', v)) = (s', Return r)"
    using Suc.prems q now by simp
  show ?case
  proof (cases "w = Again")
    case True
    then obtain c secs where again: "cs_attempts s2 = cs_attempts s + 1" "cs_registry s2 = cs_registry s"
      "cs_trace s2 = cs_trace s @ [Sent c, Slept secs]"
      using run_attempt_effect [OF r] same by (auto simp: ends_def goes_on_def)
    obtain c' x tr where IH: "cs_trace s' = cs_trace s2 @ tr @ [Sent c']" "pe_op env c' = OpValue x" "pr_value r = Some x"
      "pr_attempts r = cs_attempts s2 + length (sends tr) + 1"
      "cs_registry s' = success (cf_key f) (cf_token f) (cs_registry s2)"
      using Suc.IH [of s2] go True Suc.prems(2) by auto
    then show ?thesis using again
      by (intro exI [of _ c'] exI [of _ x] exI [of _ "Sent c # Slept secs # tr"]) simp
  next
    case False
    then have "w = Return r" "s' = s2" using go by (auto split: verdict.splits)
    then show ?thesis
      using run_attempt_succeeded [of env f now s1 s2 r] r Suc.prems(2) same
      by (intro exI [of _ "attempt_context env f now (cs_attempts s + 1)"] exI [of _ "the (pr_value r)"] exI [of _ "[]"]) auto
  qed
qed

end
