(* ===== verification/Permit_Protocol.thy ===== *)
theory Permit_Protocol
  imports Prelude
begin

text \<open>
  The contract of an exclusive permit that many callers ask for by atomic operations: it is
  granted only when it is free, nobody but its holder can take it away, and it never passes to
  another caller without having been free. Whoever hands out such a permit interprets the locale
  on its own operations.
\<close>

locale exclusive_permit =
  fixes perform :: "'a \<Rightarrow> 's \<Rightarrow> 's \<times> bool"
    and actor :: "'a \<Rightarrow> 't"
    and holder :: "'s \<Rightarrow> 't option"
  assumes granted: "perform a s = (s', True) \<Longrightarrow> holder s = None \<and> holder s' = Some (actor a)"
    and refused: "perform a s = (s', False) \<Longrightarrow> holder s' = None \<or> holder s' = holder s"
    and foreign: "perform a s = (s', g) \<Longrightarrow> holder s = Some t \<Longrightarrow> actor a \<noteq> t \<Longrightarrow> holder s' = Some t"
begin

text \<open>The operations of all callers in the order the lock gives them, with the grants.\<close>

fun run :: "'a list \<Rightarrow> 's \<Rightarrow> 's \<times> ('a \<times> bool) list" where
  "run [] s = (s, [])"
| "run (a # as) s =
     (fst (run as (fst (perform a s))), (a, snd (perform a s)) # snd (run as (fst (perform a s))))"

lemma run_append:
  "fst (run (as @ bs) s) = fst (run bs (fst (run as s)))"
  "snd (run (as @ bs) s) = snd (run as s) @ snd (run bs (fst (run as s)))"
  by (induction as arbitrary: s) auto

lemma run_log: "map fst (snd (run as s)) = as"
  by (induction as arbitrary: s) auto

lemma run_length: "length (snd (run as s)) = length as"
  by (induction as arbitrary: s) auto

lemma grant_holds: "snd (perform a s) \<Longrightarrow> holder s = None \<and> holder (fst (perform a s)) = Some (actor a)"
  using granted [of a s "fst (perform a s)"] by (metis prod.collapse)

text \<open>As long as the holder does nothing, it keeps the permit.\<close>

lemma kept:
  "holder s = Some t \<Longrightarrow> \<forall>a \<in> set as. actor a \<noteq> t \<Longrightarrow> holder (fst (run as s)) = Some t"
proof (induction as arbitrary: s)
  case (Cons a as)
  have "holder (fst (perform a s)) = Some t"
    using foreign [of a s "fst (perform a s)" "snd (perform a s)"] Cons.prems by simp
  then show ?case using Cons by simp
qed simp

text \<open>
  Between two grants the first holder has acted: if an operation and a later one were both granted
  the permit, some operation after the first, the second at the latest, was the first holder's.
\<close>

lemma holder_acts_between:
  assumes "snd (run as s) = l1 @ (a, True) # l2 @ (b, True) # l3"
  shows "\<exists>c \<in> set (map fst l2) \<union> {b}. actor c = actor a"
proof (rule ccontr)
  assume no: "\<not> ?thesis"
  let ?as1 = "map fst l1" and ?as2 = "map fst l2"
  define s1 where "s1 = fst (run ?as1 s)"
  define s2 where "s2 = fst (perform a s1)"
  define s3 where "s3 = fst (run ?as2 s2)"
  have as: "as = ?as1 @ a # ?as2 @ b # map fst l3"
    using run_log [of as s] assms by simp
  have "snd (run as s) = snd (run ?as1 s) @ (a, snd (perform a s1)) # snd (run ?as2 s2) @
      (b, snd (perform b s3)) # snd (run (map fst l3) (fst (perform b s3)))"
    unfolding as by (simp add: run_append s1_def s2_def s3_def)
  then have "snd (perform a s1)" "snd (perform b s3)"
    using assms run_length [of ?as1 s] run_length [of ?as2 s2] by simp_all
  then have "holder s2 = Some (actor a)" "holder s3 = None"
    using grant_holds by (auto simp: s2_def)
  moreover have "holder s3 = Some (actor a)"
    unfolding s3_def using kept [OF \<open>holder s2 = Some (actor a)\<close>] no by auto
  ultimately show False by simp
qed

end

end
