(* ===== verification/Provider_Properties.thy ===== *)
theory Provider_Properties
  imports Provider_Effects Permit_Protocol
begin

text \<open>
  What the provider policy promises: at most one half-open probe at a time and none left behind,
  a bounded number of attempts and sleeps, one circuit outcome per call however often it retries,
  and a result that says what happened.
\<close>

section \<open>One probe at a time\<close>

text \<open>The operations of concurrent calls on one circuit, each under the token of its call.\<close>

datatype circuit_op = Allow nat time | Succeed nat | Fail nat time | Abort nat

fun op_token :: "circuit_op \<Rightarrow> nat" where
  "op_token (Allow t now) = t"
| "op_token (Succeed t) = t"
| "op_token (Fail t now) = t"
| "op_token (Abort t) = t"

fun circuit_perform :: "circuit_key \<Rightarrow> circuit_op \<Rightarrow> registry \<Rightarrow> registry \<times> bool" where
  "circuit_perform k (Allow t now) reg = (case allow k now (Some t) reg of (reg', r) \<Rightarrow> (reg', r = Inr True))"
| "circuit_perform k (Succeed t) reg = (success k (Some t) reg, False)"
| "circuit_perform k (Fail t now) reg = (failure k now (Some t) reg, False)"
| "circuit_perform k (Abort t) reg = (abort_probe_with_token k (Some t) reg, False)"

definition probe_holder :: "circuit_key \<Rightarrow> registry \<Rightarrow> token option" where
  "probe_holder k reg = (if ci_probe (circuit_at reg k) then Some (ci_owner (circuit_at reg k)) else None)"

interpretation probe: exclusive_permit "circuit_perform k" "\<lambda>a. Some (op_token a)" "probe_holder k" for k
proof (unfold_locales, goal_cases)
  case (1 a s s')
  then show ?case
    by (cases a) (auto simp: probe_holder_def closed_circuit_def circuit split: prod.splits option.splits if_splits)
next
  case (2 a s s')
  then show ?case
    by (cases a) (auto simp: probe_holder_def closed_circuit_def circuit split: prod.splits option.splits if_splits)
next
  case (3 a s s' g t)
  then show ?case
    by (cases a) (auto simp: probe_holder_def closed_circuit_def circuit split: prod.splits option.splits if_splits)
qed

text \<open>C15: However the operations of concurrent calls on a circuit interleave, a second half-open
  probe is admitted only after the call that got the first one has itself recorded a success or a
  failure, aborted, or asked again: no other call can end its probe.\<close>

theorem one_half_open_probe:
  assumes "snd (probe.run k ops reg) = l1 @ (Allow t now, True) # l2 @ (Allow t' now', True) # l3"
  shows "(\<exists>c \<in> set (map fst l2). op_token c = t) \<or> t' = t"
  using probe.holder_acts_between [OF assms] by auto

definition broken_registry :: registry where
  "broken_registry = put_circuit (''p'', ''op'')
     \<lparr>ci_failures = 5, ci_opened_at = Some 0, ci_probe = False, ci_owner = None\<rparr> (new_registry 5 60)"

theorem one_half_open_probe_witness:
  "\<exists>c \<in> set (map fst [(Allow 2 (seconds 61), False), (Fail 1 (seconds 62), False)]). op_token c = 1"
proof -
  have "snd (probe.run (''p'', ''op'')
      [Allow 1 (seconds 60), Allow 2 (seconds 61), Fail 1 (seconds 62), Allow 3 (seconds 122)] broken_registry) =
    [] @ (Allow 1 (seconds 60), True) # [(Allow 2 (seconds 61), False), (Fail 1 (seconds 62), False)] @
      (Allow 3 (seconds 122), True) # []"
    by (simp add: broken_registry_def new_registry_def circuit seconds_def)
  from one_half_open_probe [OF this] show ?thesis by simp
qed

section \<open>The life of a circuit\<close>

text \<open>The circuit opens at the failure that reaches the threshold and then lets nobody through
  for the open period; the first caller after it is the only probe, and every further one is turned
  away until that probe settles. A success of the probe closes the circuit for everybody; its
  failure opens it for another period.\<close>

theorem circuit_life_cycle:
  fixes t0 :: time and a :: nat
  assumes "0 < rg_open_seconds reg" and "\<not> ci_probe (circuit_at reg k)"
    and "rg_threshold reg \<le> ci_failures (circuit_at reg k) + 1"
  defines "opened \<equiv> failure k t0 (Some a) reg"
  defines "probing now b \<equiv> fst (allow k now (Some b) opened)"
  shows "(\<forall>now b. now - t0 < seconds (rg_open_seconds reg) \<longrightarrow> snd (allow k now (Some b) opened) = Inl CircuitOpen) \<and>
    (\<forall>now b. seconds (rg_open_seconds reg) \<le> now - t0 \<longrightarrow>
      snd (allow k now (Some b) opened) = Inr True \<and>
      (\<forall>now' c. snd (allow k now' (Some c) (probing now b)) = Inl CircuitOpen) \<and>
      (\<forall>now' c. snd (allow k now' (Some c) (success k (Some b) (probing now b))) = Inr False) \<and>
      (\<forall>t1 now' c. now' - t1 < seconds (rg_open_seconds reg) \<longrightarrow>
        snd (allow k now' (Some c) (failure k t1 (Some b) (probing now b))) = Inl CircuitOpen))"
  using assms(1-3) unfolding opened_def probing_def
  by (auto simp: circuit closed_circuit_def split: option.splits)

theorem circuit_life_cycle_witness:
  "snd (allow (''p'', ''op'') (seconds 59) (Some 2) (failure (''p'', ''op'') 0 (Some 1) (new_registry 1 60))) =
     Inl CircuitOpen"
  using circuit_life_cycle [of "new_registry 1 60" "(''p'', ''op'')" 0 1]
  by (auto simp: new_registry_def circuit closed_circuit_def seconds_def)


section \<open>An example\<close>

text \<open>The first attempt times out, the second returns 7; the hash is the identity.\<close>

definition px_context :: call_context where
  "px_context = \<lparr>cc_provider = ''p'', cc_operation = ''op'', cc_call_id = ''c'', cc_attempt_id = ''a'',
     cc_deadline = seconds 100, cc_resource_id = None\<rparr>"

definition px_timeout :: prov_failure where
  "px_timeout = \<lparr>pf_class = ''timeout'', pf_status = None, pf_retryable = None, pf_sent = True\<rparr>"

definition px_env :: "nat prov_env" where
  "px_env = \<lparr>pe_now = (\<lambda>n. Inr (int (min n 100))),
     pe_op = (\<lambda>c. if cc_call_id c = physical_call_id id ''c'' 1 then OpFailure px_timeout else OpValue 7),
     pe_jitter = (\<lambda>d. Inr (Some 0)), pe_sleep = (\<lambda>x. None), pe_telemetry = (\<lambda>ob. None),
     pe_millis = (\<lambda>t. t div 1000), pe_sha256 = id\<rparr>"

lemma px_ids: "physical_call_id id ''c'' 2 \<noteq> physical_call_id id ''c'' 1"
  by code_simp

abbreviation px_call :: "nat call_outcome" where
  "px_call \<equiv> call_with_policy px_env px_context default_policy False 1 (new_registry 5 60)"

section \<open>One call\<close>

lemma min_limit: "cf_max_attempts (frame_of ctx p asynchronous token started h) \<le> hard_attempt_limit asynchronous"
  by (simp add: frame_of_def)

lemma frame_key [simp]: "cf_key (frame_of ctx p b t st h) = (cc_provider ctx, cc_operation ctx)"
  "cf_token (frame_of ctx p b t st h) = Some t" "cf_half_open (frame_of ctx p b t st h) = h"
  "cf_context (frame_of ctx p b t st h) = ctx" "cf_policy (frame_of ctx p b t st h) = p"
  by (simp_all add: frame_of_def cf_key_def)

text \<open>The call splits into the refusals before the loop and a run of the loop.\<close>

lemma call_cases:
  assumes "call_with_policy env ctx p asynchronous token reg = (reg', obs, tr, r)"
  obtains (none) e where "reg' = reg" "obs = []" "tr = []" "r = Inl e"
  | (refused) started e reg1 where "allow (cc_provider ctx, cc_operation ctx) started (Some token) reg = (reg1, Inl e)"
      "reg' = release_probe (cc_provider ctx, cc_operation ctx) (Some token) reg1" "tr = []" "r = Inl (Raised e)"
      "length obs = 1"
  | (ran) started reg1 h f s v where
      "allow (cc_provider ctx, cc_operation ctx) started (Some token) reg = (reg1, Inr h)"
      "f = frame_of ctx p asynchronous token started h" "0 < cf_max_attempts f"
      "policy_loop (cf_max_attempts f) env f (start_state reg1 started) = (s, v)"
      "finish env f s v = (reg', obs, tr, r)"
proof (cases "pe_now env 0")
  case (Inl e)
  then show ?thesis using assms none by (auto simp: call_with_policy_def)
next
  case (Inr started)
  show ?thesis
  proof (cases "policy_max_attempts p asynchronous \<le> 0")
    case True
    then show ?thesis using assms Inr none by (auto simp: call_with_policy_def)
  next
    case False
    show ?thesis
    proof (cases "allow (cc_provider ctx, cc_operation ctx) started (Some token) reg")
      case (Pair reg1 q)
      show ?thesis
      proof (cases q)
        case (Inl e)
        then show ?thesis
          using assms \<open>pe_now env 0 = Inr started\<close> False Pair refused [of started reg1 e]
          by (auto simp: call_with_policy_def Let_def)
      next
        case (Inr h)
        let ?f = "frame_of ctx p asynchronous token started h"
        have "0 < cf_max_attempts ?f" using False by (simp add: frame_of_def hard_attempt_limit_def)
        moreover obtain s v where "policy_loop (cf_max_attempts ?f) env ?f (start_state reg1 started) = (s, v)"
          by (metis prod.collapse)
        ultimately show ?thesis
          using assms \<open>pe_now env 0 = Inr started\<close> False Pair Inr ran [of started reg1 h ?f s v]
          by (auto simp: call_with_policy_def Let_def)
      qed
    qed
  qed
qed

text \<open>C16: A call leaves no half-open probe of its own behind, whatever its attempts, its clock, its
  sleeps, its jitter and its telemetry do, whether it returns or raises: every probe it was granted
  is settled by a success or failure or released.\<close>

theorem no_probe_left_behind:
  assumes "call_with_policy env ctx p asynchronous token reg = (reg', obs, tr, r)"
    and "\<not> probe_held reg (cc_provider ctx, cc_operation ctx) (Some token)"
  shows "\<not> probe_held reg' (cc_provider ctx, cc_operation ctx) (Some token)"
  using assms(1)
proof (cases rule: call_cases)
  case none
  then show ?thesis using assms(2) by simp
next
  case refused
  then show ?thesis using not_held_after by blast
next
  case (ran started reg1 h f s v)
  have settled: "settled f (start_state reg1 started) s"
    using policy_loop_ends [OF ran(4)] by (simp add: ends_def)
  have reg': "reg' = (if h \<and> \<not> cs_probe_completed s then release_probe (cf_key f) (cf_token f) (cs_registry s)
      else cs_registry s)"
    using ran(2,5) by (auto simp: finish_def Let_def)
  have "\<not> probe_held reg1 (cc_provider ctx, cc_operation ctx) (Some token)" if "\<not> h"
    using ran(1) assms(2) that by (auto simp: circuit closed_circuit_def split: option.splits if_splits)
  then show ?thesis
    using settled not_held_after ran(2) unfolding reg' settled_def
    by (auto simp: start_state_def)
qed

theorem no_probe_left_behind_witness:
  "\<not> probe_held (fst px_call) (''p'', ''op'') (Some 1)"
proof -
  obtain reg' obs tr r where c: "px_call = (reg', obs, tr, r)" by (metis prod.collapse)
  have "\<not> probe_held (new_registry 5 60) (cc_provider px_context, cc_operation px_context) (Some 1)"
    by (simp add: probe_held_def new_registry_def)
  from no_probe_left_behind [OF c this] show ?thesis unfolding c by (simp add: px_context_def)
qed

text \<open>The accounting of a call is one outcome, however often it retried: its circuit is the one
  before the call with at most one failure counted, or closed by a success; the circuits of other
  providers and operations are untouched; and at most one observation is reported, the one of the
  returned result.\<close>

theorem one_outcome_per_call:
  assumes "call_with_policy env ctx p asynchronous token reg = (reg', obs, tr, r)"
  shows "ci_failures (circuit_at reg' (cc_provider ctx, cc_operation ctx)) \<le>
      max 0 (ci_failures (circuit_at reg (cc_provider ctx, cc_operation ctx)) + 1) \<and>
    (\<forall>k. k \<noteq> (cc_provider ctx, cc_operation ctx) \<longrightarrow> rg_circuits reg' k = rg_circuits reg k) \<and>
    length obs \<le> 1 \<and>
    (\<forall>x. r = Inr x \<longrightarrow> (\<exists>ob. obs = [ob] \<and> ob_state ob = pr_state x \<and> ob_attempts ob = pr_attempts x \<and>
      ob_error ob = pr_error x))"
  using assms
proof (cases rule: call_cases)
  case none
  then show ?thesis by simp
next
  case (refused started e reg1)
  have "rg_circuits reg1 k = rg_circuits reg k" if "k \<noteq> (cc_provider ctx, cc_operation ctx)" for k
    using other_key(1) [OF that] refused(1) by (metis fst_conv)
  moreover have "ci_failures (circuit_at reg1 (cc_provider ctx, cc_operation ctx)) =
      ci_failures (circuit_at reg (cc_provider ctx, cc_operation ctx))"
    using counted_failures(4) refused(1) by (metis fst_conv)
  ultimately show ?thesis using refused counted_failures(3) by auto
next
  case (ran started reg1 h f s v)
  let ?k = "(cc_provider ctx, cc_operation ctx)"
  have e: "ends f (start_state reg1 started) s v" using policy_loop_ends [OF ran(4)] .
  have reg': "reg' = (if h \<and> \<not> cs_probe_completed s then release_probe ?k (Some token) (cs_registry s)
      else cs_registry s)"
    and obs: "obs = (case cs_result s of None \<Rightarrow> [] | Some r \<Rightarrow> [observe f reg' (cs_last_now s) r])"
    and r: "\<And>x. r = Inr x \<Longrightarrow> v = Return x"
    using ran(2,5) by (auto simp: finish_def Let_def split: verdict.splits list.splits)
  have other: "rg_circuits reg1 k = rg_circuits reg k" if "k \<noteq> ?k" for k
    using other_key(1) [OF that] ran(1) by (metis fst_conv)
  have same: "ci_failures (circuit_at reg1 ?k) = ci_failures (circuit_at reg ?k)"
    using counted_failures(4) ran(1) by (metis fst_conv)
  consider "cs_registry s = reg1" | t where "cs_registry s = failure ?k t (Some token) reg1"
    | "cs_registry s = success ?k (Some token) reg1"
    using e ran(2) unfolding ends_def settled_def by (auto simp: start_state_def)
  then have "ci_failures (circuit_at (cs_registry s) ?k) \<le> max 0 (ci_failures (circuit_at reg ?k) + 1) \<and>
      (\<forall>k. k \<noteq> ?k \<longrightarrow> rg_circuits (cs_registry s) k = rg_circuits reg k)"
  proof cases
    case 1
    then show ?thesis using same other by simp
  next
    case (2 t)
    have "ci_failures (circuit_at (cs_registry s) ?k) \<le> max 0 (ci_failures (circuit_at reg ?k) + 1)"
      unfolding 2 using counted_failures(1) [of ?k t "Some token" reg1] same by auto
    then show ?thesis unfolding 2 by (simp add: other)
  next
    case 3
    have "ci_failures (circuit_at (cs_registry s) ?k) \<le> max 0 (ci_failures (circuit_at reg ?k) + 1)"
      unfolding 3 using counted_failures(2) [of ?k "Some token" reg1] same by auto
    then show ?thesis unfolding 3 by (simp add: other)
  qed
  moreover note counted_failures(3)
  ultimately have "ci_failures (circuit_at reg' ?k) \<le> max 0 (ci_failures (circuit_at reg ?k) + 1) \<and>
      (\<forall>k. k \<noteq> ?k \<longrightarrow> rg_circuits reg' k = rg_circuits reg k)"
    unfolding reg' by simp
  moreover have "length obs \<le> 1" by (simp add: obs split: option.split)
  moreover have "\<exists>ob. obs = [ob] \<and> ob_state ob = pr_state x \<and> ob_attempts ob = pr_attempts x \<and> ob_error ob = pr_error x"
    if "r = Inr x" for x
    using e r [OF that] by (auto simp: ends_def obs observe_def)
  ultimately show ?thesis by blast
qed

theorem one_outcome_per_call_witness:
  "length (fst (snd px_call)) \<le> 1"
proof -
  obtain reg' obs tr r where c: "px_call = (reg', obs, tr, r)" by (metis prod.collapse)
  from one_outcome_per_call [OF c] show ?thesis unfolding c by simp
qed

text \<open>C17: A call sends at most as many attempts as its policy and the hard limit of three (five when
  asynchronous) allow. They are numbered from one in their call ids, run under a deadline not after
  the caller's, and every one but the last was a retryable failure; the sleeps in between are at most
  one per attempt and stay within the maximal delay.\<close>

theorem attempts_bounded:
  assumes "call_with_policy env ctx p asynchronous token reg = (reg', obs, tr, r)"
  defines "limit \<equiv> min (nat (policy_max_attempts p asynchronous)) (if asynchronous then 5 else 3)"
  shows "length (sends tr) \<le> limit \<and>
    map cc_call_id (sends tr) =
      map (physical_call_id (pe_sha256 env) (cc_call_id ctx)) [1..<1 + length (sends tr)] \<and>
    (\<forall>c \<in> set (sends tr). cc_deadline c \<le> cc_deadline ctx) \<and>
    (\<forall>c \<in> set (butlast (sends tr)). retried env c) \<and>
    length (sleeps tr) \<le> length (sends tr) \<and>
    (\<forall>x \<in> set (sleeps tr). 0 \<le> x \<and> x \<le> rp_max_delay p)"
  using assms(1)
proof (cases rule: call_cases)
  case (ran started reg1 h f s v)
  have max: "cf_max_attempts f = limit"
    by (simp add: ran(2) frame_of_def limit_def hard_attempt_limit_def)
  obtain tr' where "cs_trace s = tr'" "log_ok env f 0 limit tr'"
    using policy_loop_log [OF ran(4)] max by (auto simp: start_state_def)
  moreover have "tr = cs_trace s" using ran(5) by (simp add: finish_def Let_def)
  ultimately show ?thesis by (simp add: log_ok_def ran(2))
qed simp_all

theorem attempts_bounded_witness:
  "length (sends (fst (snd (snd px_call)))) \<le> 3"
proof -
  obtain reg' obs tr r where c: "px_call = (reg', obs, tr, r)" by (metis prod.collapse)
  from attempts_bounded [OF c] show ?thesis unfolding c by (simp add: default_policy_def policy_max_attempts_def)
qed

text \<open>C18: The retry loop ends by itself: entered with the attempts that are left, it never comes
  to need another one, since the last attempt always ends the call.\<close>

theorem retry_loop_ends:
  assumes "cs_attempts s + left = cf_max_attempts f" and "0 < left"
  shows "policy_loop (left + k) env f s = policy_loop left env f s \<and> snd (policy_loop left env f s) \<noteq> Again"
proof -
  obtain s' v where "policy_loop left env f s = (s', v)" by (metis prod.collapse)
  then show ?thesis
    using policy_loop_more [OF assms] policy_loop_ends by (force simp: ends_def)
qed

theorem retry_loop_ends_witness:
  "policy_loop (3 + 4) px_env (frame_of px_context default_policy False 1 0 False) (start_state (new_registry 5 60) 0) =
   policy_loop 3 px_env (frame_of px_context default_policy False 1 0 False) (start_state (new_registry 5 60) 0)"
proof -
  let ?f = "frame_of px_context default_policy False 1 0 False"
  have "cs_attempts (start_state (new_registry 5 60) 0 :: nat call_state) + 3 = cf_max_attempts ?f" "(0::nat) < 3"
    by (simp_all add: start_state_def frame_of_def default_policy_def policy_max_attempts_def hard_attempt_limit_def)
  from retry_loop_ends [OF this] show ?thesis by blast
qed

text \<open>A succeeded result carries the value of the attempt that was sent last, counts every
  attempt that was sent, and closes the circuit unless another call holds its probe.\<close>

theorem success_is_last_attempt:
  assumes "call_with_policy env ctx p asynchronous token reg = (reg', obs, tr, Inr x)"
    and "pr_state x = Succeeded"
  shows "\<exists>c v. last (sends tr) = c \<and> sends tr \<noteq> [] \<and> pe_op env c = OpValue v \<and> pr_value x = Some v \<and>
    pr_attempts x = length (sends tr) \<and>
    (circuit_at reg' (cc_provider ctx, cc_operation ctx) = closed_circuit \<or>
     (\<exists>t. t \<noteq> Some token \<and> probe_held reg (cc_provider ctx, cc_operation ctx) t))"
  using assms(1)
proof (cases rule: call_cases)
  case (ran started reg1 h f s v)
  let ?k = "(cc_provider ctx, cc_operation ctx)"
  have tr: "tr = cs_trace s" and v: "v = Return x"
    and reg': "reg' = (if h \<and> \<not> cs_probe_completed s then release_probe ?k (Some token) (cs_registry s)
      else cs_registry s)"
    using ran(2,5) by (auto simp: finish_def Let_def split: verdict.splits list.splits)
  obtain c y tr' where l: "cs_trace s = tr' @ [Sent c]"
    "pe_op env c = OpValue y" "pr_value x = Some y" "pr_attempts x = length (sends tr') + 1"
    and "cs_registry s = success ?k (Some token) reg1"
    using policy_loop_succeeded [OF ran(4)[unfolded v] assms(2)] ran(2) by (auto simp: start_state_def)
  note this(5)
  moreover have "probe_held reg ?k t" if "probe_held reg1 ?k t" "t \<noteq> Some token" for t
    using that ran(1) by (auto simp: circuit closed_circuit_def split: option.splits if_splits)
  ultimately have "circuit_at reg' ?k = closed_circuit \<or> (\<exists>t. t \<noteq> Some token \<and> probe_held reg ?k t)"
    unfolding reg' by (auto simp: circuit closed_circuit_def split: option.splits if_splits)
  then show ?thesis using l tr by auto
qed simp_all

lemma px_result: "case px_call of (_, _, _, r) \<Rightarrow> (case r of Inr x \<Rightarrow> pr_state x = Succeeded | Inl _ \<Rightarrow> False)"
  by code_simp

theorem success_is_last_attempt_witness:
  "\<exists>c v. last (sends (fst (snd (snd px_call)))) = c \<and> pe_op px_env c = OpValue v"
proof -
  obtain reg' obs tr x where c: "px_call = (reg', obs, tr, Inr x)" "pr_state x = Succeeded"
    using px_result by (auto split: prod.splits sum.splits)
  from success_is_last_attempt [OF c] show ?thesis unfolding c(1) by auto
qed

section \<open>Transient failures\<close>

text \<open>
  A calm environment: clock readings within a span shorter than an attempt may last and before
  the deadline by more than the longest sleep, a jitter that is a number, sleeps and telemetry
  that do not fail.
\<close>

definition calm_env :: "'v prov_env \<Rightarrow> call_context \<Rightarrow> time \<Rightarrow> time \<Rightarrow> bool" where
  "calm_env env ctx t0 t1 \<longleftrightarrow> (\<forall>n. \<exists>t. pe_now env n = Inr t \<and> t0 \<le> t \<and> t \<le> t1) \<and>
     t1 < t0 + seconds 30 \<and> t1 + seconds 30 < cc_deadline ctx \<and>
     (\<forall>d. \<exists>j. pe_jitter env d = Inr (Some j) \<and> 0 \<le> j) \<and> (\<forall>x. pe_sleep env x = None) \<and>
     (\<forall>ob. pe_telemetry env ob = None)"

lemma calm_sample:
  assumes "calm_env env ctx t0 t1"
  obtains s' t where "sample_now env s = (s', Inr t)" "t0 \<le> t" "t \<le> t1"
    and "cs_registry s' = cs_registry s" "cs_attempts s' = cs_attempts s"
proof -
  obtain t where "pe_now env (cs_samples s) = Inr t" "t0 \<le> t" "t \<le> t1"
    using assms unfolding calm_env_def by blast
  then have "sample_now env s = (s\<lparr>cs_samples := cs_samples s + 1, cs_last_now := t\<rparr>, Inr t)"
    by (simp add: sample_now_def)
  then show ?thesis using \<open>t0 \<le> t\<close> \<open>t \<le> t1\<close> by (rule that) simp_all
qed

lemma default_delay: "\<exists>d. policy_delay default_policy n = Inr d \<and> 0 \<le> d"
proof -
  have "min (n - 1) 3 \<in> {0, 1, 2, 3}" by auto
  then show ?thesis
    by (auto simp: policy_delay_def default_policy_def eval_nat_numeral)
qed

lemma calm_sleep:
  assumes "calm_env env ctx t0 t1" and "cf_policy f = default_policy"
  obtains x where "sleep_seconds env f n = Inr x" and "x \<le> 30"
proof -
  obtain d where d: "policy_delay default_policy n = Inr d" "0 \<le> d"
    using default_delay by blast
  obtain j where j: "pe_jitter env d = Inr (Some j)" "0 \<le> j"
    using assms(1) unfolding calm_env_def by blast
  have "sleep_seconds env f n = Inr (min 30 (d + j))"
    using d j assms(2) by (simp add: sleep_seconds_def checked_number_def default_policy_def)
  then show ?thesis by (intro that) auto
qed

lemma calm_retry:
  assumes calm: "calm_env env (cf_context f) t0 t1" and "cf_policy f = default_policy"
    and "cs_attempts s + 1 < cf_max_attempts f" and "t0 \<le> now"
    and "retried env (attempt_context env f now (cs_attempts s + 1))"
  obtains s' where "run_attempt env f now s = (s', Again)" and "cs_attempts s' = cs_attempts s + 1"
    and "cs_registry s' = cs_registry s"
proof -
  let ?c = "attempt_context env f now (cs_attempts s + 1)"
  let ?s = "s\<lparr>cs_attempts := cs_attempts s + 1, cs_trace := cs_trace s @ [Sent ?c]\<rparr>"
  obtain fl where fl: "pe_op env ?c = OpFailure fl" "is_retryable fl"
    using assms(5) by (auto simp: retried_def)
  obtain s1 t where s1: "sample_now env (note_failure fl ?s) = (s1, Inr t)" "t0 \<le> t" "t \<le> t1"
    "cs_registry s1 = cs_registry s" "cs_attempts s1 = cs_attempts s + 1"
    by (rule calm_sample [OF calm, of "note_failure fl ?s"]) (auto simp: note_failure_def)
  obtain x where x: "sleep_seconds env f (cs_attempts s1) = Inr x" "x \<le> 30"
    using calm_sleep [OF calm assms(2)] .
  have early: "\<not> cc_deadline ?c \<le> t"
    using s1(2,3) calm assms(4) by (auto simp: attempt_context_def calm_env_def seconds_def)
  have "30000000 < cc_deadline (cf_context f) - t"
    using s1(3) calm by (simp add: calm_env_def seconds_def)
  then have "(30000000::rat) < of_int (cc_deadline (cf_context f) - t)" by (metis of_int_less_iff of_int_numeral)
  then have room: "\<not> of_int (cc_deadline (cf_context f) - t) / 1000000 \<le> x" using x(2) by simp
  have "pe_sleep env x = None" using calm by (simp add: calm_env_def)
  then have "handle_failure env f (cc_deadline ?c) fl ?s = (s1\<lparr>cs_trace := cs_trace s1 @ [Slept x]\<rparr>, Again)"
    using s1(1,5) fl(2) assms(3) x(1) early room by (simp add: handle_failure_def Let_def)
  then have "run_attempt env f now s = (s1\<lparr>cs_trace := cs_trace s1 @ [Slept x]\<rparr>, Again)"
    unfolding run_attempt_def Let_def fl(1) by simp
  then show ?thesis by (rule that) (simp_all add: s1(4,5))
qed

lemma calm_value:
  assumes calm: "calm_env env (cf_context f) t0 t1" and "t0 \<le> now"
    and "pe_op env (attempt_context env f now (cs_attempts s + 1)) = OpValue x"
  obtains s' r where "run_attempt env f now s = (s', Return r)" and "pr_state r = Succeeded"
    and "pr_value r = Some x" and "pr_attempts r = cs_attempts s + 1"
proof -
  let ?c = "attempt_context env f now (cs_attempts s + 1)"
  let ?s = "s\<lparr>cs_attempts := cs_attempts s + 1, cs_trace := cs_trace s @ [Sent ?c]\<rparr>"
  obtain s1 t where s1: "sample_now env ?s = (s1, Inr t)" "t0 \<le> t" "t \<le> t1" "cs_attempts s1 = cs_attempts s + 1"
    by (rule calm_sample [OF calm, of ?s]) auto
  have early: "\<not> cc_deadline ?c \<le> t"
    using s1(2,3) calm assms(2) by (auto simp: attempt_context_def calm_env_def seconds_def)
  then have "run_attempt env f now s =
      (record_success f (complete (success_result env f s1 x t) s1), Return (success_result env f s1 x t))"
    unfolding run_attempt_def Let_def assms(3) using s1(1) by (simp add: handle_value_def Let_def)
  then show ?thesis by (rule that) (simp_all add: success_result_def s1(4))
qed

lemma calm_loop:
  assumes calm: "calm_env env (cf_context f) t0 t1" and policy: "cf_policy f = default_policy"
    and retry: "\<And>j now. j < k \<Longrightarrow> 0 < j \<Longrightarrow> retried env (attempt_context env f now j)"
    and val: "\<And>now. pe_op env (attempt_context env f now k) = OpValue x"
  shows "cs_attempts s + n = cf_max_attempts f \<Longrightarrow> cs_attempts s < k \<Longrightarrow> k \<le> cf_max_attempts f \<Longrightarrow>
    \<exists>s' r. policy_loop n env f s = (s', Return r) \<and> pr_state r = Succeeded \<and> pr_value r = Some x \<and> pr_attempts r = k"
proof (induction n arbitrary: s)
  case (Suc n)
  obtain s1 now where s1: "sample_now env s = (s1, Inr now)" "t0 \<le> now" "now \<le> t1"
    "cs_attempts s1 = cs_attempts s"
    by (rule calm_sample [OF calm])
  have early: "\<not> cc_deadline (cf_context f) \<le> now"
    using s1(3) calm by (simp add: calm_env_def seconds_def)
  show ?case
  proof (cases "cs_attempts s + 1 = k")
    case True
    then obtain s' r where "run_attempt env f now s1 = (s', Return r)" "pr_state r = Succeeded" "pr_value r = Some x"
      "pr_attempts r = cs_attempts s1 + 1"
      using calm_value [OF calm s1(2), of s1 x] val s1(4) by auto
    then show ?thesis using s1(1,4) early True by auto
  next
    case False
    then have "retried env (attempt_context env f now (cs_attempts s1 + 1))"
      using retry Suc.prems s1(4) by simp
    then obtain s2 where s2: "run_attempt env f now s1 = (s2, Again)" "cs_attempts s2 = cs_attempts s + 1"
      using calm_retry [OF calm policy _ s1(2), of s1] Suc.prems False s1(4) by auto
    then show ?thesis using Suc.IH [of s2] Suc.prems False s1(1) early by auto
  qed
qed simp

text \<open>C19: Take the default policy, a circuit that is closed with no probe in flight, and a calm
  environment: all readings of the clock lie within a span of less than thirty seconds that ends
  more than thirty seconds before the deadline of the call, the jitter callback always returns a
  number that is not negative, and neither the sleep nor the telemetry callback raises. Then a call
  whose first attempts fail with retryable errors and whose next attempt, still within the limit of
  attempts, returns a value comes back as succeeded with that value and the number of attempts it
  took; the circuit stays closed and its count of failures is back at zero.\<close>

theorem transient_failures_recovered:
  assumes calm: "calm_env env ctx t0 t1"
    and closed: "ci_opened_at (circuit_at reg (cc_provider ctx, cc_operation ctx)) = None"
      "\<not> ci_probe (circuit_at reg (cc_provider ctx, cc_operation ctx))"
    and limit: "0 < k" "k \<le> hard_attempt_limit asynchronous"
    and retry: "\<And>j c. cc_call_id c = physical_call_id (pe_sha256 env) (cc_call_id ctx) j \<Longrightarrow> 0 < j \<Longrightarrow> j < k \<Longrightarrow>
      retried env c"
    and val: "\<And>c. cc_call_id c = physical_call_id (pe_sha256 env) (cc_call_id ctx) k \<Longrightarrow> pe_op env c = OpValue x"
  shows "\<exists>reg' obs tr r. call_with_policy env ctx default_policy asynchronous token reg = (reg', obs, tr, Inr r) \<and>
    pr_state r = Succeeded \<and> pr_value r = Some x \<and> pr_attempts r = k \<and>
    circuit_at reg' (cc_provider ctx, cc_operation ctx) = closed_circuit"
proof -
  let ?k = "(cc_provider ctx, cc_operation ctx)"
  obtain started where started: "pe_now env 0 = Inr started" using calm unfolding calm_env_def by blast
  have allow: "allow ?k started (Some token) reg = (put_circuit ?k (circuit_at reg ?k) reg, Inr False)"
    using closed(1) by (simp add: allow_def Let_def)
  let ?reg = "put_circuit ?k (circuit_at reg ?k) reg"
  let ?f = "frame_of ctx default_policy asynchronous token started False"
  have max: "cf_max_attempts ?f = hard_attempt_limit asynchronous"
    by (simp add: frame_of_def default_policy_def policy_max_attempts_def hard_attempt_limit_def)
  have "\<exists>s' r. policy_loop (cf_max_attempts ?f) env ?f (start_state ?reg started) = (s', Return r) \<and>
      pr_state r = Succeeded \<and> pr_value r = Some x \<and> pr_attempts r = k"
  proof (rule calm_loop)
    show "calm_env env (cf_context ?f) t0 t1" using calm by simp
    show "retried env (attempt_context env ?f now j)" if "j < k" "0 < j" for j now
      using retry that by (simp add: attempt_context_def)
    show "pe_op env (attempt_context env ?f now k) = OpValue x" for now
      using val by (simp add: attempt_context_def)
  qed (use limit max in \<open>simp_all add: start_state_def\<close>)
  then obtain s' r where loop: "policy_loop (cf_max_attempts ?f) env ?f (start_state ?reg started) = (s', Return r)"
    "pr_state r = Succeeded" "pr_value r = Some x" "pr_attempts r = k" by blast
  have "cs_registry s' = success ?k (Some token) ?reg"
    using policy_loop_succeeded [OF loop(1,2)] by (auto simp: start_state_def)
  moreover have "circuit_at (success ?k (Some token) ?reg) ?k = closed_circuit"
    using closed(2) by (simp add: success_def put_circuit_def circuit_at_def)
  moreover have "List.map_filter (pe_telemetry env) obs = []" for obs
    using calm by (induction obs) (auto simp: calm_env_def List.map_filter_def)
  ultimately show ?thesis
    using started allow loop
    by (auto simp: call_with_policy_def Let_def default_policy_def policy_max_attempts_def finish_def)
qed

lemma px_calm: "calm_env px_env px_context 0 100"
  by (simp add: calm_env_def px_env_def px_context_def seconds_def)

theorem transient_failures_recovered_witness:
  "\<exists>reg' obs tr r. px_call = (reg', obs, tr, Inr r) \<and> pr_state r = Succeeded \<and> pr_value r = Some 7 \<and>
     pr_attempts r = 2"
proof -
  have "ci_opened_at (circuit_at (new_registry 5 60) (cc_provider px_context, cc_operation px_context)) = None"
    "\<not> ci_probe (circuit_at (new_registry 5 60) (cc_provider px_context, cc_operation px_context))"
    "(0::nat) < 2" "2 \<le> hard_attempt_limit False"
    by (simp_all add: new_registry_def circuit_at_def closed_circuit_def hard_attempt_limit_def)
  moreover have "retried px_env c"
    if "cc_call_id c = physical_call_id (pe_sha256 px_env) (cc_call_id px_context) j" "0 < j" "j < 2" for j c
  proof -
    have "j = 1" using that by simp
    then show ?thesis
      using that(1) by (simp add: retried_def px_env_def px_context_def px_timeout_def is_retryable_def)
  qed
  moreover have "pe_op px_env c = OpValue 7"
    if "cc_call_id c = physical_call_id (pe_sha256 px_env) (cc_call_id px_context) 2" for c
    using that px_ids by (simp add: px_env_def px_context_def)
  ultimately show ?thesis
    using transient_failures_recovered [OF px_calm] by blast
qed

end
