(* ===== verification/Usage_Budget.thy ===== *)
theory Usage_Budget
  imports Prelude
begin

text \<open>
  The persistent resource budget of a chat generation, \<^verbatim>\<open>app/usage/budget.py\<close>: the effort
  policy, the meter and reservation tables of \<^verbatim>\<open>app/usage/schema.py\<close>, and every operation of
  \<open>BudgetMeterService\<close>. A \<open>Decimal\<close> is a rational (or not finite); the money columns are
  \<open>Numeric(30, 10)\<close>, so what is stored is rounded to ten places. An operation maps a state to
  its result and the next state; \<open>transaction\<close> is \<open>engine.begin()\<close>: an exception discards
  the changes to the database, and nothing else. The row lock on the meter makes a transaction
  one step; what a concurrent transaction on another meter can still commit between a read and
  the insert that follows it is the argument \<open>race\<close>.
\<close>

section \<open>Policy\<close>

datatype decimal = Finite rat | NotFinite

record effort_policy =
  ef_max_rag_calls :: int
  ef_max_wall_seconds :: int
  ef_max_total_tokens :: int
  ef_max_cost :: rat
  ef_candidate_documents :: int

record meter_policy =
  mp_efforts :: "string \<Rightarrow> effort_policy option"
  mp_price_version_id :: string
  mp_currency_code :: string
  mp_cost_estimator :: "(string \<Rightarrow> int \<Rightarrow> decimal) option"
  mp_version :: string

definition BUDGET_POLICY_VERSION :: string where
  "BUDGET_POLICY_VERSION = ''chat-rag-budget-v3''"

definition EFFORTS :: "string list" where
  "EFFORTS = [''quick'', ''think'', ''deep'']"

definition UPGRADES :: "string \<Rightarrow> string option" where
  "UPGRADES = [''quick'' \<mapsto> ''think'', ''think'' \<mapsto> ''deep'']"

definition DEFAULT_EFFORT_LIMITS :: "string \<Rightarrow> (int \<times> int \<times> int \<times> int) option" where
  "DEFAULT_EFFORT_LIMITS =
     [''quick'' \<mapsto> (1, 20, 80000, 5), ''think'' \<mapsto> (8, 60, 160000, 7), ''deep'' \<mapsto> (10, 180, 320000, 9)]"

definition policy_invalid :: exn where
  "policy_invalid = PlatformError ''budget_policy_invalid'' 422"

definition effort_ok :: "effort_policy \<Rightarrow> bool" where
  "effort_ok e \<longleftrightarrow>
     0 < min (ef_max_rag_calls e) (min (ef_max_wall_seconds e)
           (min (ef_max_total_tokens e) (ef_candidate_documents e)))
     \<and> 0 < ef_max_cost e"

definition validate_policy :: "bool \<Rightarrow> meter_policy \<Rightarrow> exn + unit" where
  "validate_policy production p =
     (if mp_price_version_id p = [] \<or> mp_currency_code p = [] then Inl policy_invalid
      else if \<exists>e \<in> set EFFORTS. case mp_efforts p e of None \<Rightarrow> True | Some item \<Rightarrow> \<not> effort_ok item
        then Inl policy_invalid
      else if production \<and> mp_cost_estimator p = None then Inl policy_invalid
      else Inr ())"

definition production_policy ::
  "(string \<Rightarrow> effort_policy option) \<Rightarrow> string \<Rightarrow> string \<Rightarrow> (string \<Rightarrow> int \<Rightarrow> decimal) option
   \<Rightarrow> exn + meter_policy" where
  "production_policy efforts price currency estimator =
     (let p = \<lparr>mp_efforts = efforts, mp_price_version_id = price, mp_currency_code = currency,
               mp_cost_estimator = estimator, mp_version = BUDGET_POLICY_VERSION\<rparr>
      in bindE (validate_policy True p) (\<lambda>_. Inr p))"

text \<open>\<open>configured\<close> builds the efforts from the defaults; a missing cost limit is a \<open>KeyError\<close>.\<close>

definition configured_effort ::
  "(string \<Rightarrow> rat option) \<Rightarrow> (string \<Rightarrow> int option) \<Rightarrow> string \<Rightarrow> effort_policy option" where
  "configured_effort costs overrides effort =
     (case (DEFAULT_EFFORT_LIMITS effort, costs effort) of
        (Some (rag, wall, tokens, documents), Some cost) \<Rightarrow>
          Some \<lparr>ef_max_rag_calls = (case overrides effort of None \<Rightarrow> rag | Some n \<Rightarrow> n),
                ef_max_wall_seconds = wall, ef_max_total_tokens = tokens, ef_max_cost = cost,
                ef_candidate_documents = documents\<rparr>
      | _ \<Rightarrow> None)"

definition configured_policy ::
  "string \<Rightarrow> string \<Rightarrow> (string \<Rightarrow> rat option) \<Rightarrow> (string \<Rightarrow> int \<Rightarrow> decimal)
   \<Rightarrow> (string \<Rightarrow> int option) \<Rightarrow> exn + meter_policy" where
  "configured_policy price currency costs estimator overrides =
     (if \<exists>e \<in> set EFFORTS. costs e = None then Inl KeyError
      else production_policy (configured_effort costs overrides) price currency (Some estimator))"

section \<open>Tables\<close>

datatype meter_status = MeterActive | MeterExhausted

datatype reservation_status = Reserved | Settled | Released

record meter_row =
  bm_id :: string
  bm_generation_id :: string
  bm_policy_version :: string
  bm_requested_effort :: string
  bm_effort :: string
  bm_price_version_id :: string
  bm_currency_code :: string
  bm_deadline :: time
  bm_max_rag_calls :: int
  bm_max_wall_seconds :: int
  bm_max_total_tokens :: int
  bm_max_cost :: rat
  bm_candidate_documents :: int
  bm_rag_calls_used :: int
  bm_tokens_used :: int
  bm_reserved_tokens :: int
  bm_settled_cost :: rat
  bm_reserved_cost :: rat
  bm_upgrade_count :: int
  bm_status :: meter_status
  bm_exhausted_reason :: "string option"
  bm_created_at :: time
  bm_updated_at :: time

record reservation_row =
  br_id :: string
  br_generation_id :: string
  br_operation_kind :: string
  br_fingerprint :: string
  br_tokens :: int
  br_cost :: rat
  br_is_rag :: int
  br_status :: reservation_status
  br_actual_tokens :: "int option"
  br_actual_cost :: "rat option"
  br_created_at :: time
  br_settled_at :: "time option"

record budget_db =
  bd_meters :: "meter_row list"
  bd_reservations :: "reservation_row list"

record budget_state =
  bs_db :: budget_db
  bs_metrics :: "(string \<times> string) list"

text \<open>A stored amount is the closest multiple of \<open>10\<^sup>-\<^sup>1\<^sup>0\<close>, ties away from zero.\<close>

definition numeric10 :: "rat \<Rightarrow> rat" where
  "numeric10 x = (if x < 0 then - of_int (round (- x * 10000000000)) else of_int (round (x * 10000000000)))
     / 10000000000"

definition store_meter :: "meter_row \<Rightarrow> meter_row" where
  "store_meter m = m\<lparr>bm_max_cost := numeric10 (bm_max_cost m),
     bm_settled_cost := numeric10 (bm_settled_cost m),
     bm_reserved_cost := numeric10 (bm_reserved_cost m)\<rparr>"

definition store_reservation :: "reservation_row \<Rightarrow> reservation_row" where
  "store_reservation r = r\<lparr>br_cost := numeric10 (br_cost r),
     br_actual_cost := map_option numeric10 (br_actual_cost r)\<rparr>"

definition transaction ::
  "(budget_state \<Rightarrow> (exn + 'a) \<times> budget_state) \<Rightarrow> budget_state \<Rightarrow> (exn + 'a) \<times> budget_state" where
  "transaction body s =
     (case body s of
        (Inl e, s') \<Rightarrow> (Inl e, s'\<lparr>bs_db := bs_db s\<rparr>)
      | (Inr x, s') \<Rightarrow> (Inr x, s'))"

definition increment :: "string \<Rightarrow> string \<Rightarrow> budget_state \<Rightarrow> budget_state" where
  "increment metric outcome s = s\<lparr>bs_metrics := bs_metrics s @ [(metric, outcome)]\<rparr>"

definition locked_meter :: "string \<Rightarrow> budget_state \<Rightarrow> meter_row option" where
  "locked_meter generation s = sql_first (\<lambda>m. bm_generation_id m = generation) (bd_meters (bs_db s))"

definition reservation_of :: "string \<Rightarrow> budget_state \<Rightarrow> reservation_row option" where
  "reservation_of rid s = sql_first (\<lambda>r. br_id r = rid) (bd_reservations (bs_db s))"

definition update_meters :: "(meter_row \<Rightarrow> bool) \<Rightarrow> (meter_row \<Rightarrow> meter_row) \<Rightarrow> budget_state \<Rightarrow> budget_state" where
  "update_meters p f s = s\<lparr>bs_db := (bs_db s)
     \<lparr>bd_meters := sql_update p (\<lambda>m. store_meter (f m)) (bd_meters (bs_db s))\<rparr>\<rparr>"

definition update_reservations ::
  "string \<Rightarrow> (reservation_row \<Rightarrow> reservation_row) \<Rightarrow> budget_state \<Rightarrow> budget_state" where
  "update_reservations rid f s = s\<lparr>bs_db := (bs_db s)
     \<lparr>bd_reservations := sql_update (\<lambda>r. br_id r = rid) (\<lambda>r. store_reservation (f r))
        (bd_reservations (bs_db s))\<rparr>\<rparr>"

section \<open>Snapshots and argument checks\<close>

record meter_snapshot =
  sn_generation_id :: string
  sn_effort :: string
  sn_status :: meter_status
  sn_deadline :: time
  sn_max_rag_calls :: int
  sn_max_total_tokens :: int
  sn_max_cost :: rat
  sn_candidate_documents :: int
  sn_rag_calls_used :: int
  sn_tokens_used :: int
  sn_reserved_tokens :: int
  sn_settled_cost :: rat
  sn_reserved_cost :: rat

record budget_reservation =
  bz_id :: string
  bz_generation_id :: string
  bz_operation_kind :: string
  bz_tokens :: int
  bz_cost :: rat
  bz_is_rag :: bool
  bz_status :: reservation_status

definition snapshot :: "meter_row \<Rightarrow> meter_snapshot" where
  "snapshot m = \<lparr>sn_generation_id = bm_generation_id m, sn_effort = bm_effort m,
     sn_status = bm_status m, sn_deadline = bm_deadline m, sn_max_rag_calls = bm_max_rag_calls m,
     sn_max_total_tokens = bm_max_total_tokens m, sn_max_cost = bm_max_cost m,
     sn_candidate_documents = bm_candidate_documents m, sn_rag_calls_used = bm_rag_calls_used m,
     sn_tokens_used = bm_tokens_used m, sn_reserved_tokens = bm_reserved_tokens m,
     sn_settled_cost = bm_settled_cost m, sn_reserved_cost = bm_reserved_cost m\<rparr>"

definition reservation :: "reservation_row \<Rightarrow> budget_reservation" where
  "reservation r = \<lparr>bz_id = br_id r, bz_generation_id = br_generation_id r,
     bz_operation_kind = br_operation_kind r, bz_tokens = br_tokens r, bz_cost = br_cost r,
     bz_is_rag = (br_is_rag r \<noteq> 0), bz_status = br_status r\<rparr>"

definition positive_int :: "int \<Rightarrow> exn + int" where
  "positive_int n = (if n < 0 then Inl (PlatformError ''validation_error'' 422) else Inr n)"

definition money :: "decimal \<Rightarrow> exn + rat" where
  "money d = (case d of
      NotFinite \<Rightarrow> Inl (PlatformError ''validation_error'' 422)
    | Finite x \<Rightarrow> if x < 0 then Inl (PlatformError ''validation_error'' 422) else Inr x)"

section \<open>Meters\<close>

definition new_meter ::
  "meter_policy \<Rightarrow> time \<Rightarrow> string \<Rightarrow> string \<Rightarrow> string \<Rightarrow> effort_policy \<Rightarrow> time \<Rightarrow> meter_row" where
  "new_meter policy now fresh generation level effort deadline =
     \<lparr>bm_id = ''gbm_'' @ fresh, bm_generation_id = generation,
      bm_policy_version = mp_version policy, bm_requested_effort = level, bm_effort = level,
      bm_price_version_id = mp_price_version_id policy, bm_currency_code = mp_currency_code policy,
      bm_deadline = min deadline (now + seconds (ef_max_wall_seconds effort)),
      bm_max_rag_calls = ef_max_rag_calls effort, bm_max_wall_seconds = ef_max_wall_seconds effort,
      bm_max_total_tokens = ef_max_total_tokens effort, bm_max_cost = ef_max_cost effort,
      bm_candidate_documents = ef_candidate_documents effort, bm_rag_calls_used = 0,
      bm_tokens_used = 0, bm_reserved_tokens = 0, bm_settled_cost = 0, bm_reserved_cost = 0,
      bm_upgrade_count = 0, bm_status = MeterActive, bm_exhausted_reason = None,
      bm_created_at = now, bm_updated_at = now\<rparr>"

text \<open>
  INSERT ... ON CONFLICT DO NOTHING after a concurrent transaction may have committed a row of
  its own: the table, and whether the row was inserted.
\<close>

definition insert_do_nothing :: "('r \<Rightarrow> 'k) \<Rightarrow> 'r option \<Rightarrow> 'r \<Rightarrow> 'r list \<Rightarrow> 'r list \<times> bool" where
  "insert_do_nothing key race r t =
     (let t1 = (case race of None \<Rightarrow> t
                | Some c \<Rightarrow> (case sql_insert key c t of None \<Rightarrow> t | Some t' \<Rightarrow> t'))
      in (case sql_insert key r t1 of None \<Rightarrow> (t1, False) | Some t2 \<Rightarrow> (t2, True)))"

definition ensure_meter_in_transaction ::
  "meter_policy \<Rightarrow> meter_row option \<Rightarrow> time \<Rightarrow> string \<Rightarrow> string \<Rightarrow> string \<Rightarrow> time \<Rightarrow> budget_state
   \<Rightarrow> (exn + meter_snapshot) \<times> budget_state" where
  "ensure_meter_in_transaction policy race now fresh generation level deadline s =
     (if level \<notin> set EFFORTS then (Inl (PlatformError ''validation_error'' 422), s)
      else case mp_efforts policy level of None \<Rightarrow> (Inl KeyError, s)
      | Some effort \<Rightarrow>
        (case locked_meter generation s of
           Some m \<Rightarrow> (Inr (snapshot m), s)
         | None \<Rightarrow>
           (let values = new_meter policy now fresh generation level effort deadline;
                (t, inserted) = insert_do_nothing bm_generation_id race (store_meter values)
                  (bd_meters (bs_db s));
                s1 = s\<lparr>bs_db := (bs_db s)\<lparr>bd_meters := t\<rparr>\<rparr>
            in if \<not> inserted then
                 (case locked_meter generation s1 of
                    None \<Rightarrow> (Inl (PlatformError ''budget_invariant'' 500), s1)
                  | Some m \<Rightarrow> (Inr (snapshot m), s1))
               else (Inr (snapshot values),
                     increment ''generation_budget_meter_created'' ''completed'' s1))))"

definition ensure_meter ::
  "meter_policy \<Rightarrow> meter_row option \<Rightarrow> time \<Rightarrow> string \<Rightarrow> string \<Rightarrow> string \<Rightarrow> time \<Rightarrow> budget_state
   \<Rightarrow> (exn + meter_snapshot) \<times> budget_state" where
  "ensure_meter policy race now fresh generation level deadline =
     transaction (ensure_meter_in_transaction policy race now fresh generation level deadline)"

definition meter :: "string \<Rightarrow> budget_state \<Rightarrow> exn + meter_snapshot" where
  "meter generation s = (case locked_meter generation s of
      None \<Rightarrow> Inl (PlatformError ''budget_meter_not_found'' 404)
    | Some m \<Rightarrow> Inr (snapshot m))"

definition estimate_cost :: "meter_policy \<Rightarrow> string \<Rightarrow> int \<Rightarrow> exn + rat" where
  "estimate_cost policy kind tokens = (case mp_cost_estimator policy of
      None \<Rightarrow> Inl (PlatformError ''cost_unavailable'' 422)
    | Some estimator \<Rightarrow> bindE (positive_int tokens) (\<lambda>n. money (estimator kind n)))"

section \<open>Reservations\<close>

definition mark_unknown_body ::
  "time \<Rightarrow> string \<Rightarrow> string \<Rightarrow> budget_state \<Rightarrow> (exn + unit) \<times> budget_state" where
  "mark_unknown_body now generation rid s =
     (case (locked_meter generation s, reservation_of rid s) of
        (Some m, Some r) \<Rightarrow>
          if br_status r = Reserved then
            (Inr (), increment ''generation_budget_gate'' ''provider_result_unknown''
              (update_meters (\<lambda>x. bm_generation_id x = generation)
                (\<lambda>x. x\<lparr>bm_reserved_tokens := bm_reserved_tokens m - br_tokens r,
                      bm_reserved_cost := bm_reserved_cost m - br_cost r,
                      bm_status := MeterExhausted,
                      bm_exhausted_reason := Some ''provider_result_unknown'',
                      bm_updated_at := now\<rparr>)
                (update_reservations rid
                  (\<lambda>x. x\<lparr>br_status := Released, br_settled_at := Some now\<rparr>) s)))
          else (Inr (), s)
      | _ \<Rightarrow> (Inl (PlatformError ''budget_reservation_not_found'' 404), s))"

definition mark_unknown :: "time \<Rightarrow> string \<Rightarrow> string \<Rightarrow> budget_state \<Rightarrow> (exn + unit) \<times> budget_state" where
  "mark_unknown now generation rid = transaction (mark_unknown_body now generation rid)"

record reserve_request =
  rr_generation_id :: string
  rr_id :: string
  rr_operation_kind :: string
  rr_tokens :: int
  rr_cost :: "decimal option"
  rr_is_rag :: bool
  rr_fingerprint :: string

definition mark_exhausted :: "time \<Rightarrow> meter_row \<Rightarrow> string \<Rightarrow> budget_state \<Rightarrow> budget_state" where
  "mark_exhausted now m reason s =
     increment ''generation_budget_gate'' reason
       (update_meters (\<lambda>x. bm_id x = bm_id m)
         (\<lambda>x. x\<lparr>bm_status := MeterExhausted, bm_exhausted_reason := Some reason,
               bm_updated_at := now\<rparr>) s)"

definition reject :: "budget_state \<Rightarrow> (exn + 'a) \<times> budget_state" where
  "reject s = (Inl (PlatformError ''budget_exhausted'' 429), s)"

definition same_request :: "reserve_request \<Rightarrow> int \<Rightarrow> rat \<Rightarrow> reservation_row \<Rightarrow> bool" where
  "same_request q tokens cost r \<longleftrightarrow>
     br_id r = rr_id q \<and> br_fingerprint r = rr_fingerprint q \<and>
     br_operation_kind r = rr_operation_kind q \<and> br_tokens r = tokens \<and>
     br_cost r = cost \<and> (br_is_rag r \<noteq> 0) = rr_is_rag q"

text \<open>The gate of a new reservation: the reason it is refused for, if any.\<close>

definition gate :: "time \<Rightarrow> meter_row \<Rightarrow> reserve_request \<Rightarrow> int \<Rightarrow> rat \<Rightarrow> string option" where
  "gate now m q tokens cost =
     (if bm_deadline m \<le> now then Some ''wall_clock''
      else if rr_is_rag q \<and> bm_max_rag_calls m \<le> bm_rag_calls_used m then Some ''rag_calls''
      else if bm_max_total_tokens m - bm_tokens_used m - bm_reserved_tokens m < tokens
        then Some ''total_tokens''
      else if bm_max_cost m - bm_settled_cost m - bm_reserved_cost m < cost then Some ''cost''
      else None)"

definition new_reservation :: "time \<Rightarrow> reserve_request \<Rightarrow> int \<Rightarrow> rat \<Rightarrow> reservation_row" where
  "new_reservation now q tokens cost =
     \<lparr>br_id = rr_id q, br_generation_id = rr_generation_id q,
      br_operation_kind = rr_operation_kind q, br_fingerprint = rr_fingerprint q,
      br_tokens = tokens, br_cost = cost, br_is_rag = of_bool (rr_is_rag q), br_status = Reserved,
      br_actual_tokens = None, br_actual_cost = None, br_created_at = now, br_settled_at = None\<rparr>"

definition charge_reservation ::
  "time \<Rightarrow> meter_row \<Rightarrow> reserve_request \<Rightarrow> int \<Rightarrow> rat \<Rightarrow> budget_state \<Rightarrow> budget_state" where
  "charge_reservation now m q tokens cost =
     update_meters (\<lambda>x. bm_generation_id x = rr_generation_id q)
       (\<lambda>x. x\<lparr>bm_rag_calls_used := bm_rag_calls_used m + of_bool (rr_is_rag q),
             bm_reserved_tokens := bm_reserved_tokens m + tokens,
             bm_reserved_cost := bm_reserved_cost m + cost, bm_updated_at := now\<rparr>)"

definition insert_reservation ::
  "reservation_row option \<Rightarrow> time \<Rightarrow> meter_row \<Rightarrow> reserve_request \<Rightarrow> int \<Rightarrow> rat \<Rightarrow> budget_state
   \<Rightarrow> (exn + budget_reservation) \<times> budget_state" where
  "insert_reservation race now m q tokens cost s =
     (let values = new_reservation now q tokens cost;
          (t, inserted) = insert_do_nothing br_id race (store_reservation values)
            (bd_reservations (bs_db s));
          s1 = s\<lparr>bs_db := (bs_db s)\<lparr>bd_reservations := t\<rparr>\<rparr>
      in if \<not> inserted then
           (case reservation_of (rr_id q) s1 of
              None \<Rightarrow> (Inl (PlatformError ''budget_invariant'' 500), s1)
            | Some r \<Rightarrow> (Inr (reservation r), s1))
         else (Inr (reservation values),
               increment ''generation_budget_reservation'' ''created''
                 (charge_reservation now m q tokens cost s1)))"

definition replay_candidate :: "reserve_request \<Rightarrow> budget_state \<Rightarrow> reservation_row option" where
  "replay_candidate q s =
     (case reservation_of (rr_id q) s of
        Some r \<Rightarrow> Some r
      | None \<Rightarrow> sql_first (\<lambda>r. br_generation_id r = rr_generation_id q \<and> br_fingerprint r = rr_fingerprint q)
          (bd_reservations (bs_db s)))"

definition reserve_body ::
  "reservation_row option \<Rightarrow> time \<Rightarrow> reserve_request \<Rightarrow> int \<Rightarrow> rat \<Rightarrow> budget_state
   \<Rightarrow> (exn + budget_reservation) \<times> budget_state" where
  "reserve_body race now q tokens cost s =
     (case locked_meter (rr_generation_id q) s of
        None \<Rightarrow> (Inl (PlatformError ''budget_meter_not_found'' 404), s)
      | Some m \<Rightarrow>
        (case replay_candidate q s of
           Some r \<Rightarrow>
             if same_request q tokens cost r then (Inr (reservation r), s)
             else (Inl (PlatformError ''budget_reservation_conflict'' 409), s)
         | None \<Rightarrow>
             if bm_status m \<noteq> MeterActive then reject s
             else (case gate now m q tokens cost of
                Some reason \<Rightarrow> reject (mark_exhausted now m reason s)
              | None \<Rightarrow> insert_reservation race now m q tokens cost s)))"

definition reserve ::
  "reservation_row option \<Rightarrow> time \<Rightarrow> reserve_request \<Rightarrow> budget_state
   \<Rightarrow> (exn + budget_reservation) \<times> budget_state" where
  "reserve race now q s =
     (if rr_id q = [] \<or> rr_operation_kind q = [] \<or> rr_fingerprint q = []
        then (Inl (PlatformError ''validation_error'' 422), s)
      else case positive_int (rr_tokens q) of Inl e \<Rightarrow> (Inl e, s)
      | Inr tokens \<Rightarrow>
        (case rr_cost q of
           None \<Rightarrow> (Inl (PlatformError ''cost_unavailable'' 422), s)
         | Some d \<Rightarrow> (case money d of Inl e \<Rightarrow> (Inl e, s)
            | Inr cost \<Rightarrow> transaction (reserve_body race now q tokens cost) s)))"

text \<open>A settlement exhausts the meter when what was used passes a limit or the estimated cost.\<close>

definition settlement_exhausts :: "meter_row \<Rightarrow> reservation_row \<Rightarrow> int \<Rightarrow> rat \<Rightarrow> bool" where
  "settlement_exhausts m r tokens cost \<longleftrightarrow>
     bm_max_total_tokens m < bm_tokens_used m + tokens \<or>
     bm_max_cost m < bm_settled_cost m + cost \<or> br_cost r < cost"

definition settle_body ::
  "time \<Rightarrow> string \<Rightarrow> string \<Rightarrow> int \<Rightarrow> rat \<Rightarrow> budget_state \<Rightarrow> (exn + meter_snapshot) \<times> budget_state" where
  "settle_body now generation rid tokens cost s =
     (case (locked_meter generation s, reservation_of rid s) of
        (Some m, Some r) \<Rightarrow>
          if br_status r = Settled then (Inr (snapshot m), s)
          else if br_status r \<noteq> Reserved
            then (Inl (PlatformError ''budget_reservation_terminal'' 409), s)
          else
            (let exhausted = settlement_exhausts m r tokens cost;
                 s1 = update_reservations rid
                   (\<lambda>x. x\<lparr>br_status := Settled, br_actual_tokens := Some tokens,
                         br_actual_cost := Some cost, br_settled_at := Some now\<rparr>) s;
                 s2 = update_meters (\<lambda>x. bm_generation_id x = generation)
                   (\<lambda>x. x\<lparr>bm_tokens_used := bm_tokens_used m + tokens,
                         bm_settled_cost := bm_settled_cost m + cost,
                         bm_reserved_tokens := bm_reserved_tokens m - br_tokens r,
                         bm_reserved_cost := bm_reserved_cost m - br_cost r,
                         bm_status := (if exhausted then MeterExhausted else bm_status m),
                         bm_exhausted_reason := (if exhausted then Some ''actual_over_reservation''
                           else bm_exhausted_reason m),
                         bm_updated_at := now\<rparr>) s1
             in (case locked_meter generation s2 of
                   None \<Rightarrow> (Inl AssertionError, s2)
                 | Some u \<Rightarrow> (Inr (snapshot u),
                     increment ''generation_budget_reservation''
                       (if exhausted then ''actual_over_reservation'' else ''settled'') s2)))
      | _ \<Rightarrow> (Inl (PlatformError ''budget_reservation_not_found'' 404), s))"

definition settle ::
  "time \<Rightarrow> string \<Rightarrow> string \<Rightarrow> int \<Rightarrow> decimal \<Rightarrow> budget_state \<Rightarrow> (exn + meter_snapshot) \<times> budget_state" where
  "settle now generation rid actual_tokens actual_cost s =
     (case bindE (positive_int actual_tokens)
             (\<lambda>tokens. bindE (money actual_cost) (\<lambda>cost. Inr (tokens, cost))) of
        Inl e \<Rightarrow> (Inl e, s)
      | Inr (tokens, cost) \<Rightarrow> transaction (settle_body now generation rid tokens cost) s)"

definition release_body ::
  "time \<Rightarrow> string \<Rightarrow> string \<Rightarrow> budget_state \<Rightarrow> (exn + unit) \<times> budget_state" where
  "release_body now generation rid s =
     (case (locked_meter generation s, reservation_of rid s) of
        (Some m, Some r) \<Rightarrow>
          if br_status r \<noteq> Reserved then (Inr (), s)
          else (Inr (),
            update_meters (\<lambda>x. bm_generation_id x = generation)
              (\<lambda>x. x\<lparr>bm_rag_calls_used := bm_rag_calls_used m - br_is_rag r,
                    bm_reserved_tokens := bm_reserved_tokens m - br_tokens r,
                    bm_reserved_cost := bm_reserved_cost m - br_cost r, bm_updated_at := now\<rparr>)
              (update_reservations rid
                (\<lambda>x. x\<lparr>br_status := Released, br_settled_at := Some now\<rparr>) s))
      | _ \<Rightarrow> (Inl (PlatformError ''budget_reservation_not_found'' 404), s))"

definition release_reservation :: "time \<Rightarrow> string \<Rightarrow> string \<Rightarrow> budget_state \<Rightarrow> (exn + unit) \<times> budget_state" where
  "release_reservation now generation rid = transaction (release_body now generation rid)"

section \<open>Upgrades\<close>

definition upgrade_fits ::
  "time \<Rightarrow> meter_row \<Rightarrow> effort_policy \<Rightarrow> int \<Rightarrow> rat \<Rightarrow> bool \<Rightarrow> bool" where
  "upgrade_fits now m effort tokens cost is_rag \<longleftrightarrow>
     (is_rag \<longrightarrow> bm_rag_calls_used m < ef_max_rag_calls effort) \<and>
     bm_tokens_used m + bm_reserved_tokens m + tokens \<le> ef_max_total_tokens effort \<and>
     bm_settled_cost m + bm_reserved_cost m + cost \<le> ef_max_cost effort \<and>
     now < bm_deadline m"

definition upgraded_meter :: "time \<Rightarrow> string \<Rightarrow> effort_policy \<Rightarrow> meter_row \<Rightarrow> meter_row" where
  "upgraded_meter now target effort x =
     x\<lparr>bm_effort := target, bm_max_rag_calls := ef_max_rag_calls effort,
      bm_max_wall_seconds := ef_max_wall_seconds effort,
      bm_max_total_tokens := ef_max_total_tokens effort, bm_max_cost := ef_max_cost effort,
      bm_candidate_documents := ef_candidate_documents effort, bm_upgrade_count := 1,
      bm_updated_at := now\<rparr>"

definition upgrade_body ::
  "meter_policy \<Rightarrow> time \<Rightarrow> string \<Rightarrow> int \<Rightarrow> decimal \<Rightarrow> bool \<Rightarrow> budget_state
   \<Rightarrow> (exn + string option) \<times> budget_state" where
  "upgrade_body policy now generation next_tokens next_cost is_rag s =
     (case locked_meter generation s of
        None \<Rightarrow> (Inl (PlatformError ''budget_meter_not_found'' 404), s)
      | Some m \<Rightarrow>
        if 1 \<le> bm_upgrade_count m \<or> bm_status m \<noteq> MeterActive then (Inr None, s)
        else (case UPGRADES (bm_effort m) of None \<Rightarrow> (Inr None, s)
          | Some target \<Rightarrow>
            (case mp_efforts policy target of None \<Rightarrow> (Inl KeyError, s)
             | Some effort \<Rightarrow>
               (case bindE (positive_int next_tokens)
                       (\<lambda>tokens. bindE (money next_cost) (\<lambda>cost. Inr (tokens, cost))) of
                  Inl e \<Rightarrow> (Inl e, s)
                | Inr (tokens, cost) \<Rightarrow>
                  if \<not> upgrade_fits now m effort tokens cost is_rag then (Inr None, s)
                  else (Inr (Some target), increment ''generation_budget_upgrade'' ''completed''
                    (update_meters (\<lambda>x. bm_generation_id x = generation)
                      (upgraded_meter now target effort) s))))))"

definition upgrade ::
  "meter_policy \<Rightarrow> time \<Rightarrow> string \<Rightarrow> int \<Rightarrow> decimal \<Rightarrow> bool \<Rightarrow> budget_state
   \<Rightarrow> (exn + string option) \<times> budget_state" where
  "upgrade policy now generation next_tokens next_cost is_rag =
     transaction (upgrade_body policy now generation next_tokens next_cost is_rag)"

end
