(* ===== verification/Budget_Accounting.thy ===== *)
theory Budget_Accounting
  imports Usage_Budget
begin

text \<open>
  The accounting of the resource budget: what rounding to the money columns does, the sums of a
  table of reservations and how each write changes them, the invariant that ties every meter to
  its reservations, and its preservation by every operation of \<open>BudgetMeterService\<close>.
\<close>

section \<open>Amounts with ten decimal places\<close>

definition on_grid :: "rat \<Rightarrow> bool" where
  "on_grid x \<longleftrightarrow> numeric10 x = x"

lemma numeric10_of_int [simp]: "numeric10 (of_int k / 10000000000) = of_int k / 10000000000"
proof -
  have "round (- (of_int k :: rat)) = - k"
    using round_of_int[where 'a = rat, of "- k"] by simp
  then show ?thesis by (simp add: numeric10_def)
qed

lemma numeric10_int: obtains k where "numeric10 x = of_int k / 10000000000"
proof (cases "x < 0")
  case True
  have "numeric10 x = of_int (- round (- x * 10000000000)) / 10000000000"
    using True by (simp add: numeric10_def)
  then show ?thesis by (rule that)
next
  case False
  have "numeric10 x = of_int (round (x * 10000000000)) / 10000000000"
    using False by (simp add: numeric10_def)
  then show ?thesis by (rule that)
qed

lemma on_grid_iff: "on_grid x \<longleftrightarrow> (\<exists>k. x = of_int k / 10000000000)"
  by (metis numeric10_int numeric10_of_int on_grid_def)

lemma on_grid_numeric10 [simp, intro]: "on_grid (numeric10 x)"
  by (metis numeric10_int on_grid_iff)

lemma numeric10_idem [simp]: "on_grid x \<Longrightarrow> numeric10 x = x"
  by (simp add: on_grid_def)

lemma on_grid_zero [simp]: "on_grid 0"
  using on_grid_iff[of 0] by (metis div_0 of_int_0)

lemma on_grid_add [intro]: assumes "on_grid x" "on_grid y" shows "on_grid (x + y)"
proof -
  obtain j k where "x = of_int j / 10000000000" "y = of_int k / 10000000000"
    using assms by (auto simp: on_grid_iff)
  then have "x + y = of_int (j + k) / 10000000000" by (simp add: add_divide_distrib)
  then show ?thesis unfolding on_grid_iff by blast
qed

lemma on_grid_diff [intro]: assumes "on_grid x" "on_grid y" shows "on_grid (x - y)"
proof -
  obtain j k where "x = of_int j / 10000000000" "y = of_int k / 10000000000"
    using assms by (auto simp: on_grid_iff)
  then have "x - y = of_int (j - k) / 10000000000" by (simp add: diff_divide_distrib)
  then show ?thesis unfolding on_grid_iff by blast
qed

lemma numeric10_nonneg [simp]: "0 \<le> x \<Longrightarrow> 0 \<le> numeric10 x"
  using round_mono[of 0 "x * 10000000000"] by (simp add: numeric10_def)

lemma numeric10_add:
  assumes "on_grid x" "0 \<le> x" "0 \<le> y"
  shows "numeric10 (x + y) = x + numeric10 y"
proof -
  obtain k where k: "x = of_int k / 10000000000" using assms(1) by (auto simp: on_grid_iff)
  have "(x + y) * 10000000000 = y * 10000000000 + of_int k" by (simp add: k algebra_simps)
  then have "round ((x + y) * 10000000000) = round (y * 10000000000) + k"
    by (simp only: round_def add.commute[of _ "of_int k"] add.assoc floor_add_int[symmetric])
       (simp add: add.commute)
  then show ?thesis using assms by (simp add: numeric10_def k add_divide_distrib)
qed

lemma numeric10_le_grid:
  assumes "0 \<le> x" "x \<le> y" "on_grid y"
  shows "numeric10 x \<le> y"
proof -
  have "round (x * 10000000000) \<le> round (y * 10000000000)"
    using assms(2) by (intro round_mono) simp
  then have "numeric10 x \<le> numeric10 y" using assms by (simp add: numeric10_def divide_right_mono)
  then show ?thesis using assms(3) by simp
qed

lemma grid_le_numeric10:
  assumes "0 \<le> x" "x \<le> y" "on_grid x"
  shows "x \<le> numeric10 y"
proof -
  have "round (x * 10000000000) \<le> round (y * 10000000000)"
    using assms(2) by (intro round_mono) simp
  then have "numeric10 x \<le> numeric10 y" using assms by (simp add: numeric10_def divide_right_mono)
  then show ?thesis using assms(3) by simp
qed

section \<open>Sums over a table\<close>

definition tally :: "('r \<Rightarrow> bool) \<Rightarrow> ('r \<Rightarrow> 'n::comm_monoid_add) \<Rightarrow> 'r list \<Rightarrow> 'n" where
  "tally p f t = sum_list (map f (filter p t))"

lemma tally_simps [simp]:
  "tally p f [] = 0"
  "tally p f (r # t) = (if p r then f r else 0) + tally p f t"
  by (simp_all add: tally_def)

lemma tally_append [simp]: "tally p f (t @ u) = tally p f t + tally p f u"
  by (simp add: tally_def)

lemma tally_nonneg:
  fixes f :: "'r \<Rightarrow> 'n::ordered_comm_monoid_add"
  shows "(\<And>r. r \<in> set t \<Longrightarrow> 0 \<le> f r) \<Longrightarrow> 0 \<le> tally p f t"
  by (induction t) auto

lemma tally_member_le:
  fixes f :: "'r \<Rightarrow> 'n::ordered_comm_monoid_add"
  assumes "r \<in> set t" "p r" "\<And>r. r \<in> set t \<Longrightarrow> 0 \<le> f r"
  shows "f r \<le> tally p f t"
  using assms
proof (induction t)
  case (Cons x t)
  show ?case
  proof (cases "x = r")
    case True
    have "0 \<le> tally p f t" by (rule tally_nonneg) (use Cons.prems in simp)
    with True Cons.prems show ?thesis using add_left_mono by fastforce
  next
    case False
    then have "f r \<le> tally p f t" using Cons by simp
    moreover have "0 \<le> (if p x then f x else 0)" using Cons.prems by simp
    ultimately show ?thesis using add_mono by fastforce
  qed
qed simp

lemma tally_zero: "(\<And>r. r \<in> set t \<Longrightarrow> \<not> p r) \<Longrightarrow> tally p f t = 0"
  by (induction t) auto

lemma sql_update_other: "(\<And>r. r \<in> set t \<Longrightarrow> \<not> p r) \<Longrightarrow> sql_update p h t = t"
  by (simp add: sql_update_def map_idI)

lemma tally_update:
  fixes f :: "'r \<Rightarrow> 'n::ab_group_add"
  assumes "keyed key t" "r \<in> set t"
  shows "tally p f (sql_update (\<lambda>x. key x = key r) h t) =
    tally p f t - (if p r then f r else 0) + (if p (h r) then f (h r) else 0)"
  using assms
proof (induction t)
  case (Cons x t)
  note IH = Cons.IH
  show ?case
  proof (cases "x = r")
    case True
    have "sql_update (\<lambda>y. key y = key r) h t = t"
      by (rule sql_update_other) (use Cons.prems True in \<open>auto simp: keyed_def image_iff\<close>)
    then show ?thesis using True by (simp add: sql_update_def)
  next
    case False
    with Cons.prems have "r \<in> set t" "key x \<noteq> key r" "keyed key t"
      by (auto simp: keyed_def)
    then show ?thesis using IH by (simp add: sql_update_def algebra_simps)
  qed
qed simp

lemma tally_update_same:
  fixes f :: "'r \<Rightarrow> 'n::ab_group_add"
  assumes "keyed key t" "r \<in> set t" "p (h r) = p r" "p r \<Longrightarrow> f (h r) = f r"
  shows "tally p f (sql_update (\<lambda>x. key x = key r) h t) = tally p f t"
  using assms by (simp add: tally_update)

section \<open>The accounting invariant\<close>

definition held :: "string \<Rightarrow> reservation_row \<Rightarrow> bool" where
  "held g r \<longleftrightarrow> br_generation_id r = g \<and> br_status r = Reserved"

definition spent :: "string \<Rightarrow> reservation_row \<Rightarrow> bool" where
  "spent g r \<longleftrightarrow> br_generation_id r = g \<and> br_status r = Settled"

definition in_force :: "string \<Rightarrow> reservation_row \<Rightarrow> bool" where
  "in_force g r \<longleftrightarrow> br_generation_id r = g \<and> br_status r \<noteq> Released"

definition actual_tokens :: "reservation_row \<Rightarrow> int" where
  "actual_tokens r = (case br_actual_tokens r of None \<Rightarrow> 0 | Some n \<Rightarrow> n)"

definition actual_cost :: "reservation_row \<Rightarrow> rat" where
  "actual_cost r = (case br_actual_cost r of None \<Rightarrow> 0 | Some c \<Rightarrow> c)"

definition balanced :: "reservation_row list \<Rightarrow> meter_row \<Rightarrow> bool" where
  "balanced rows m \<longleftrightarrow>
     bm_reserved_tokens m = tally (held (bm_generation_id m)) br_tokens rows \<and>
     bm_reserved_cost m = tally (held (bm_generation_id m)) br_cost rows \<and>
     bm_tokens_used m = tally (spent (bm_generation_id m)) actual_tokens rows \<and>
     bm_settled_cost m = tally (spent (bm_generation_id m)) actual_cost rows \<and>
     tally (in_force (bm_generation_id m)) br_is_rag rows \<le> bm_rag_calls_used m"

definition reservation_ok :: "reservation_row \<Rightarrow> bool" where
  "reservation_ok r \<longleftrightarrow>
     0 \<le> br_tokens r \<and> 0 \<le> br_cost r \<and> on_grid (br_cost r) \<and> br_is_rag r \<in> {0, 1} \<and>
     0 \<le> actual_tokens r \<and> 0 \<le> actual_cost r \<and> on_grid (actual_cost r)"

definition budget_inv :: "budget_db \<Rightarrow> bool" where
  "budget_inv db \<longleftrightarrow>
     keyed bm_generation_id (bd_meters db) \<and>
     keyed br_id (bd_reservations db) \<and>
     keyed (\<lambda>r. (br_generation_id r, br_fingerprint r)) (bd_reservations db) \<and>
     (\<forall>m \<in> set (bd_meters db). balanced (bd_reservations db) m \<and> on_grid (bm_max_cost m)) \<and>
     (\<forall>r \<in> set (bd_reservations db).
        reservation_ok r \<and> br_generation_id r \<in> bm_generation_id ` set (bd_meters db))"

lemmas account_defs = held_def spent_def in_force_def actual_tokens_def actual_cost_def

lemma on_grid_tally: "(\<And>r. r \<in> set t \<Longrightarrow> on_grid (f r)) \<Longrightarrow> on_grid (tally p f t)"
  by (induction t) auto

lemma budget_invD:
  assumes "budget_inv db"
  shows "keyed bm_generation_id (bd_meters db)" "keyed br_id (bd_reservations db)"
    "keyed (\<lambda>r. (br_generation_id r, br_fingerprint r)) (bd_reservations db)"
    "m \<in> set (bd_meters db) \<Longrightarrow> balanced (bd_reservations db) m"
    "m \<in> set (bd_meters db) \<Longrightarrow> on_grid (bm_max_cost m)"
    "r \<in> set (bd_reservations db) \<Longrightarrow> reservation_ok r"
    "r \<in> set (bd_reservations db) \<Longrightarrow> br_generation_id r \<in> bm_generation_id ` set (bd_meters db)"
  using assms by (auto simp: budget_inv_def)

lemma reservation_ok_rag: "reservation_ok r \<Longrightarrow> 0 \<le> br_is_rag r"
  by (auto simp: reservation_ok_def)

lemma meter_amounts:
  assumes "budget_inv db" "m \<in> set (bd_meters db)"
  shows "0 \<le> bm_reserved_tokens m" "0 \<le> bm_reserved_cost m" "on_grid (bm_reserved_cost m)"
    "0 \<le> bm_tokens_used m" "0 \<le> bm_settled_cost m" "on_grid (bm_settled_cost m)"
    "0 \<le> bm_rag_calls_used m"
proof -
  note ok = budget_invD(6)[OF assms(1)] and bal = budget_invD(4)[OF assms]
  show "0 \<le> bm_reserved_tokens m" "0 \<le> bm_reserved_cost m" "0 \<le> bm_tokens_used m" "0 \<le> bm_settled_cost m"
    using bal ok by (auto simp: balanced_def reservation_ok_def intro!: tally_nonneg)
  show "on_grid (bm_reserved_cost m)" "on_grid (bm_settled_cost m)"
    using bal ok by (auto simp: balanced_def reservation_ok_def intro!: on_grid_tally)
  have "0 \<le> tally (in_force (bm_generation_id m)) br_is_rag (bd_reservations db)"
    by (intro tally_nonneg reservation_ok_rag ok)
  then show "0 \<le> bm_rag_calls_used m" using bal by (simp add: balanced_def)
qed

lemma store_meter_simps [simp]:
  "bm_id (store_meter m) = bm_id m"
  "bm_generation_id (store_meter m) = bm_generation_id m"
  "bm_requested_effort (store_meter m) = bm_requested_effort m"
  "bm_effort (store_meter m) = bm_effort m"
  "bm_deadline (store_meter m) = bm_deadline m"
  "bm_max_rag_calls (store_meter m) = bm_max_rag_calls m"
  "bm_max_total_tokens (store_meter m) = bm_max_total_tokens m"
  "bm_rag_calls_used (store_meter m) = bm_rag_calls_used m"
  "bm_tokens_used (store_meter m) = bm_tokens_used m"
  "bm_reserved_tokens (store_meter m) = bm_reserved_tokens m"
  "bm_upgrade_count (store_meter m) = bm_upgrade_count m"
  "bm_status (store_meter m) = bm_status m"
  "bm_exhausted_reason (store_meter m) = bm_exhausted_reason m"
  "bm_max_cost (store_meter m) = numeric10 (bm_max_cost m)"
  "bm_settled_cost (store_meter m) = numeric10 (bm_settled_cost m)"
  "bm_reserved_cost (store_meter m) = numeric10 (bm_reserved_cost m)"
  by (simp_all add: store_meter_def)

lemma store_reservation_simps [simp]:
  "br_id (store_reservation r) = br_id r"
  "br_generation_id (store_reservation r) = br_generation_id r"
  "br_operation_kind (store_reservation r) = br_operation_kind r"
  "br_fingerprint (store_reservation r) = br_fingerprint r"
  "br_tokens (store_reservation r) = br_tokens r"
  "br_is_rag (store_reservation r) = br_is_rag r"
  "br_status (store_reservation r) = br_status r"
  "br_actual_tokens (store_reservation r) = br_actual_tokens r"
  "br_cost (store_reservation r) = numeric10 (br_cost r)"
  "br_actual_cost (store_reservation r) = map_option numeric10 (br_actual_cost r)"
  by (simp_all add: store_reservation_def)

lemma locked_meter_Some:
  assumes "keyed bm_generation_id (bd_meters (bs_db s))"
  shows "locked_meter g s = Some m \<longleftrightarrow> m \<in> set (bd_meters (bs_db s)) \<and> bm_generation_id m = g"
  using assms sql_first_Some[of "\<lambda>m. bm_generation_id m = g" "bd_meters (bs_db s)" m]
  by (auto simp: locked_meter_def intro: sql_first_keyed)

lemma reservation_of_Some:
  assumes "keyed br_id (bd_reservations (bs_db s))"
  shows "reservation_of i s = Some r \<longleftrightarrow> r \<in> set (bd_reservations (bs_db s)) \<and> br_id r = i"
  using assms sql_first_Some[of "\<lambda>r. br_id r = i" "bd_reservations (bs_db s)" r]
  by (auto simp: reservation_of_def intro: sql_first_keyed)

end
