(* ===== verification/Budget_Invariant.thy ===== *)
theory Budget_Invariant
  imports Budget_Accounting
begin

text \<open>
  Every operation of the budget service preserves the accounting invariant, provided a
  reservation is settled, released or given up through the meter of its own generation (which
  the code does not check).
\<close>

section \<open>A write to one reservation and its meter\<close>

lemma balanced_other:
  assumes "keyed br_id rows" "r \<in> set rows" "balanced rows m"
    "br_generation_id r \<noteq> bm_generation_id m" "br_generation_id (h r) = br_generation_id r"
  shows "balanced (sql_update (\<lambda>x. br_id x = br_id r) h rows) m"
  using assms(3-) by (simp add: balanced_def tally_update[OF assms(1,2)] account_defs)

lemma balanced_same:
  assumes "keyed br_id rows" "r \<in> set rows" "balanced rows m"
    "br_generation_id r = bm_generation_id m" "br_generation_id (h r) = br_generation_id r"
    "bm_generation_id m' = bm_generation_id m"
    "bm_reserved_tokens m' = bm_reserved_tokens m - (if br_status r = Reserved then br_tokens r else 0)
       + (if br_status (h r) = Reserved then br_tokens (h r) else 0)"
    "bm_reserved_cost m' = bm_reserved_cost m - (if br_status r = Reserved then br_cost r else 0)
       + (if br_status (h r) = Reserved then br_cost (h r) else 0)"
    "bm_tokens_used m' = bm_tokens_used m - (if br_status r = Settled then actual_tokens r else 0)
       + (if br_status (h r) = Settled then actual_tokens (h r) else 0)"
    "bm_settled_cost m' = bm_settled_cost m - (if br_status r = Settled then actual_cost r else 0)
       + (if br_status (h r) = Settled then actual_cost (h r) else 0)"
    "bm_rag_calls_used m - (if br_status r \<noteq> Released then br_is_rag r else 0)
       + (if br_status (h r) \<noteq> Released then br_is_rag (h r) else 0) \<le> bm_rag_calls_used m'"
  shows "balanced (sql_update (\<lambda>x. br_id x = br_id r) h rows) m'"
  using assms(3-) unfolding balanced_def
  by (simp add: tally_update[OF assms(1,2)] held_def spent_def in_force_def)

lemma keyed_update_key:
  assumes "keyed ukey t" "keyed key t" "r \<in> set t" "ukey (h r) = ukey r"
  shows "keyed ukey (sql_update (\<lambda>x. key x = key r) h t)"
  using assms by (auto intro!: keyed_update dest: keyed_eq)

lemma set_sql_update_key:
  assumes "keyed key t" "r \<in> set t"
  shows "x \<in> set (sql_update (\<lambda>y. key y = key r) h t) \<longleftrightarrow> x = h r \<or> (x \<in> set t \<and> key x \<noteq> key r)"
  using assms by (auto simp: set_sql_update dest: keyed_eq split: if_splits)

lemma inv_update_pair:
  assumes inv: "budget_inv db" and m: "m \<in> set (bd_meters db)" and r: "r \<in> set (bd_reservations db)"
    and g: "br_generation_id r = bm_generation_id m"
    and h: "br_id (h r) = br_id r" "br_generation_id (h r) = br_generation_id r"
      "br_fingerprint (h r) = br_fingerprint r" "reservation_ok (h r)"
    and f: "bm_generation_id (f m) = bm_generation_id m" "on_grid (bm_max_cost (f m))"
    and bal: "balanced (sql_update (\<lambda>x. br_id x = br_id r) h (bd_reservations db)) (f m)"
  shows "budget_inv (db\<lparr>bd_reservations := sql_update (\<lambda>x. br_id x = br_id r) h (bd_reservations db),
    bd_meters := sql_update (\<lambda>x. bm_generation_id x = bm_generation_id m) f (bd_meters db)\<rparr>)"
proof -
  note D = budget_invD[OF inv]
  let ?ms = "sql_update (\<lambda>x. bm_generation_id x = bm_generation_id m) f (bd_meters db)"
  let ?rs = "sql_update (\<lambda>x. br_id x = br_id r) h (bd_reservations db)"
  note ms = set_sql_update_key[OF D(1) m, of _ f] and rs = set_sql_update_key[OF D(2) r, of _ h]
  have gids: "bm_generation_id ` set ?ms = bm_generation_id ` set (bd_meters db)"
  proof -
    have "map bm_generation_id ?ms = map bm_generation_id (bd_meters db)"
      using f(1) m D(1) by (auto simp: sql_update_def dest: keyed_eq)
    then show ?thesis by (metis list.set_map)
  qed
  have "balanced ?rs x \<and> on_grid (bm_max_cost x)" if "x \<in> set ?ms" for x
    using that bal f(2) balanced_other[of _ r x h, OF D(2) r] D(4,5) g h(2)
    by (auto simp: ms)
  moreover have "reservation_ok x \<and> br_generation_id x \<in> bm_generation_id ` set ?ms"
    if "x \<in> set ?rs" for x
    using that h D(6,7) r by (auto simp: rs gids)
  moreover have "keyed bm_generation_id ?ms" using f(1) by (intro keyed_update_key[OF D(1) D(1) m])
  moreover have "keyed br_id ?rs" using h(1) by (intro keyed_update_key[OF D(2) D(2) r])
  moreover have "keyed (\<lambda>r. (br_generation_id r, br_fingerprint r)) ?rs"
    by (rule keyed_update_key[OF D(3) D(2) r]) (simp add: h)
  ultimately show ?thesis by (simp add: budget_inv_def)
qed

text \<open>The three ways a reserved reservation ends, as one fact about the state they leave.\<close>

definition closing :: "budget_state \<Rightarrow> (meter_row \<Rightarrow> meter_row) \<Rightarrow> (reservation_row \<Rightarrow> reservation_row)
    \<Rightarrow> meter_row \<Rightarrow> reservation_row \<Rightarrow> budget_state" where
  "closing s f h m r = update_meters (\<lambda>x. bm_generation_id x = bm_generation_id m) f
     (update_reservations (br_id r) h s)"

lemma closing_inv:
  assumes inv: "budget_inv (bs_db s)" and m: "m \<in> set (bd_meters (bs_db s))"
    and r: "r \<in> set (bd_reservations (bs_db s))" "br_status r = Reserved"
    and g: "br_generation_id r = bm_generation_id m"
    and h: "br_id (h r) = br_id r" "br_generation_id (h r) = br_generation_id r"
      "br_fingerprint (h r) = br_fingerprint r" "br_status (h r) \<noteq> Reserved"
      "reservation_ok (store_reservation (h r))"
    and f: "bm_generation_id (f m) = bm_generation_id m" "bm_max_cost (f m) = bm_max_cost m"
      "bm_reserved_tokens (f m) = bm_reserved_tokens m - br_tokens r"
      "bm_reserved_cost (f m) = bm_reserved_cost m - br_cost r"
      "bm_tokens_used (f m) = bm_tokens_used m + (if br_status (h r) = Settled then actual_tokens (h r) else 0)"
      "numeric10 (bm_settled_cost (f m)) = bm_settled_cost m
         + (if br_status (h r) = Settled then actual_cost (store_reservation (h r)) else 0)"
      "bm_rag_calls_used m - br_is_rag r + (if br_status (h r) = Settled then br_is_rag (h r) else 0)
         \<le> bm_rag_calls_used (f m)"
  shows "budget_inv (bs_db (closing s f h m r))"
proof -
  note D = budget_invD[OF inv]
  have grid: "on_grid (bm_reserved_cost m - br_cost r)"
    using meter_amounts(3)[OF inv m] D(6)[OF r(1)] by (auto simp: reservation_ok_def)
  have "br_status (h r) = Settled \<or> br_status (h r) = Released" using h(4) by (cases "br_status (h r)") auto
  then have bal: "balanced (sql_update (\<lambda>x. br_id x = br_id r) (\<lambda>x. store_reservation (h x))
      (bd_reservations (bs_db s))) (store_meter (f m))"
    using f h g r grid by (intro balanced_same[OF D(2) r(1) D(4)[OF m]])
      (auto simp: actual_tokens_def)
  show ?thesis
    using inv_update_pair[OF inv m r(1) g, of "\<lambda>x. store_reservation (h x)" "\<lambda>x. store_meter (f x)"]
      bal h f(1,2) D(5)[OF m]
    by (simp add: closing_def update_meters_def update_reservations_def)
qed

section \<open>The operations\<close>

lemma increment_db [simp]: "bs_db (increment a b s) = bs_db s"
  by (simp add: increment_def)

lemma transaction_db:
  "bs_db (snd (transaction body s)) =
    (case fst (body s) of Inl _ \<Rightarrow> bs_db s | Inr _ \<Rightarrow> bs_db (snd (body s)))"
  by (simp add: transaction_def split: prod.split sum.split)

lemma transaction_inv:
  assumes "budget_inv (bs_db s)" "\<And>x. fst (body s) = Inr x \<Longrightarrow> budget_inv (bs_db (snd (body s)))"
  shows "budget_inv (bs_db (snd (transaction body s)))"
  using assms by (simp add: transaction_db split: sum.split)

lemma locked_meterD:
  "locked_meter g s = Some m \<Longrightarrow> m \<in> set (bd_meters (bs_db s)) \<and> bm_generation_id m = g"
  unfolding locked_meter_def by (rule sql_first_Some)

lemma reservation_ofD:
  "reservation_of i s = Some r \<Longrightarrow> r \<in> set (bd_reservations (bs_db s)) \<and> br_id r = i"
  unfolding reservation_of_def by (rule sql_first_Some)

definition unknown_meter :: "time \<Rightarrow> meter_row \<Rightarrow> reservation_row \<Rightarrow> meter_row \<Rightarrow> meter_row" where
  "unknown_meter now m r x =
     x\<lparr>bm_reserved_tokens := bm_reserved_tokens m - br_tokens r,
      bm_reserved_cost := bm_reserved_cost m - br_cost r, bm_status := MeterExhausted,
      bm_exhausted_reason := Some ''provider_result_unknown'', bm_updated_at := now\<rparr>"

definition released_meter :: "time \<Rightarrow> meter_row \<Rightarrow> reservation_row \<Rightarrow> meter_row \<Rightarrow> meter_row" where
  "released_meter now m r x =
     x\<lparr>bm_rag_calls_used := bm_rag_calls_used m - br_is_rag r,
      bm_reserved_tokens := bm_reserved_tokens m - br_tokens r,
      bm_reserved_cost := bm_reserved_cost m - br_cost r, bm_updated_at := now\<rparr>"

definition settled_meter ::
  "time \<Rightarrow> meter_row \<Rightarrow> reservation_row \<Rightarrow> int \<Rightarrow> rat \<Rightarrow> meter_row \<Rightarrow> meter_row" where
  "settled_meter now m r tokens cost x =
     x\<lparr>bm_tokens_used := bm_tokens_used m + tokens,
      bm_settled_cost := bm_settled_cost m + cost,
      bm_reserved_tokens := bm_reserved_tokens m - br_tokens r,
      bm_reserved_cost := bm_reserved_cost m - br_cost r,
      bm_status := (if settlement_exhausts m r tokens cost then MeterExhausted else bm_status m),
      bm_exhausted_reason := (if settlement_exhausts m r tokens cost
        then Some ''actual_over_reservation'' else bm_exhausted_reason m),
      bm_updated_at := now\<rparr>"

definition released_row :: "time \<Rightarrow> reservation_row \<Rightarrow> reservation_row" where
  "released_row now x = x\<lparr>br_status := Released, br_settled_at := Some now\<rparr>"

definition settled_row :: "time \<Rightarrow> int \<Rightarrow> rat \<Rightarrow> reservation_row \<Rightarrow> reservation_row" where
  "settled_row now tokens cost x = x\<lparr>br_status := Settled, br_actual_tokens := Some tokens,
     br_actual_cost := Some cost, br_settled_at := Some now\<rparr>"

lemmas closed_rows = unknown_meter_def released_meter_def settled_meter_def released_row_def settled_row_def

lemma unknown_closing:
  assumes "locked_meter g s = Some m" "reservation_of i s = Some r" "br_status r = Reserved"
  shows "mark_unknown_body now g i s = (Inr (),
    increment ''generation_budget_gate'' ''provider_result_unknown''
      (closing s (unknown_meter now m r) (released_row now) m r))"
  using assms locked_meterD[OF assms(1)] reservation_ofD[OF assms(2)]
  by (simp add: mark_unknown_body_def closing_def closed_rows[abs_def])

lemma release_closing:
  assumes "locked_meter g s = Some m" "reservation_of i s = Some r" "br_status r = Reserved"
  shows "release_body now g i s = (Inr (), closing s (released_meter now m r) (released_row now) m r)"
  using assms locked_meterD[OF assms(1)] reservation_ofD[OF assms(2)]
  by (simp add: release_body_def closing_def closed_rows[abs_def])

lemma locked_meter_update:
  assumes "locked_meter g s = Some m" "\<And>x. bm_generation_id (f x) = bm_generation_id x"
  shows "locked_meter g (update_meters (\<lambda>x. bm_generation_id x = g) f (update_reservations i h s))
    = Some (store_meter (f m))"
proof -
  have "sql_first (\<lambda>m. bm_generation_id m = g)
      (sql_update (\<lambda>x. bm_generation_id x = g) (\<lambda>x. store_meter (f x)) t) =
    map_option (\<lambda>x. store_meter (f x)) (sql_first (\<lambda>m. bm_generation_id m = g) t)" for t
    by (induction t) (auto simp: sql_update_def assms(2))
  then show ?thesis using assms(1) by (simp add: locked_meter_def update_meters_def update_reservations_def)
qed

lemma settle_closing:
  assumes "locked_meter g s = Some m" "reservation_of i s = Some r" "br_status r = Reserved"
  shows "settle_body now g i tokens cost s =
    (Inr (snapshot (store_meter (settled_meter now m r tokens cost m))),
     increment ''generation_budget_reservation''
       (if settlement_exhausts m r tokens cost then ''actual_over_reservation'' else ''settled'')
       (closing s (settled_meter now m r tokens cost) (settled_row now tokens cost) m r))"
proof -
  note gi = locked_meterD[OF assms(1)] reservation_ofD[OF assms(2)]
  have "locked_meter g (closing s (settled_meter now m r tokens cost) (settled_row now tokens cost) m r)
      = Some (store_meter (settled_meter now m r tokens cost m))"
    unfolding closing_def using gi
    by (simp add: locked_meter_update[OF assms(1)] settled_meter_def)
  then show ?thesis using assms gi
    by (simp add: settle_body_def Let_def closing_def closed_rows[abs_def] cong: if_cong)
qed

lemma released_row_ok:
  "reservation_ok r \<Longrightarrow> reservation_ok (store_reservation (released_row now r))"
  by (auto simp: reservation_ok_def released_row_def actual_tokens_def actual_cost_def split: option.splits)

lemma settled_row_ok:
  "reservation_ok r \<Longrightarrow> 0 \<le> tokens \<Longrightarrow> 0 \<le> cost \<Longrightarrow>
   reservation_ok (store_reservation (settled_row now tokens cost r))"
  by (simp add: reservation_ok_def settled_row_def actual_tokens_def actual_cost_def)

lemma unknown_closing_inv:
  assumes "budget_inv (bs_db s)" "m \<in> set (bd_meters (bs_db s))" "r \<in> set (bd_reservations (bs_db s))"
    "br_status r = Reserved" "br_generation_id r = bm_generation_id m"
  shows "budget_inv (bs_db (closing s (unknown_meter now m r) (released_row now) m r))"
  using assms budget_invD(6)[OF assms(1,3)] meter_amounts(6)[OF assms(1,2)]
  by (intro closing_inv) (auto simp: closed_rows released_row_ok[unfolded released_row_def]
      dest: reservation_ok_rag)

lemma release_closing_inv:
  assumes "budget_inv (bs_db s)" "m \<in> set (bd_meters (bs_db s))" "r \<in> set (bd_reservations (bs_db s))"
    "br_status r = Reserved" "br_generation_id r = bm_generation_id m"
  shows "budget_inv (bs_db (closing s (released_meter now m r) (released_row now) m r))"
  using assms budget_invD(6)[OF assms(1,3)] meter_amounts(6)[OF assms(1,2)]
  by (intro closing_inv) (auto simp: closed_rows released_row_ok[unfolded released_row_def])

lemma settle_closing_inv:
  assumes "budget_inv (bs_db s)" "m \<in> set (bd_meters (bs_db s))" "r \<in> set (bd_reservations (bs_db s))"
    "br_status r = Reserved" "br_generation_id r = bm_generation_id m" "0 \<le> tokens" "0 \<le> cost"
  shows "budget_inv (bs_db (closing s (settled_meter now m r tokens cost) (settled_row now tokens cost) m r))"
  using assms budget_invD(6)[OF assms(1,3)] meter_amounts(5,6)[OF assms(1,2)]
  by (intro closing_inv)
    (auto simp: closed_rows settled_row_ok[unfolded settled_row_def] numeric10_add actual_tokens_def actual_cost_def)

text \<open>The reservation ids settled, released or given up are owned by the generation named.\<close>

definition owned :: "string \<Rightarrow> string \<Rightarrow> budget_state \<Rightarrow> bool" where
  "owned g i s \<longleftrightarrow> (\<forall>r \<in> set (bd_reservations (bs_db s)). br_id r = i \<longrightarrow> br_generation_id r = g)"

lemma ownedD: "owned g i s \<Longrightarrow> reservation_of i s = Some r \<Longrightarrow> br_generation_id r = g"
  by (auto simp: owned_def dest: reservation_ofD)

lemma mark_unknown_inv:
  assumes "budget_inv (bs_db s)" "owned g i s"
  shows "budget_inv (bs_db (snd (mark_unknown now g i s)))"
  unfolding mark_unknown_def
proof (rule transaction_inv[OF assms(1)])
  fix x
  assume ok: "fst (mark_unknown_body now g i s) = Inr x"
  then obtain m r where m: "locked_meter g s = Some m" and r: "reservation_of i s = Some r"
    by (auto simp: mark_unknown_body_def split: option.splits)
  show "budget_inv (bs_db (snd (mark_unknown_body now g i s)))"
  proof (cases "br_status r = Reserved")
    case True
    then show ?thesis
      using unknown_closing_inv[OF assms(1)] locked_meterD[OF m] reservation_ofD[OF r] ownedD[OF assms(2) r]
      by (simp add: unknown_closing[OF m r])
  next
    case False
    then show ?thesis using assms(1) m r by (simp add: mark_unknown_body_def)
  qed
qed

lemma release_inv:
  assumes "budget_inv (bs_db s)" "owned g i s"
  shows "budget_inv (bs_db (snd (release_reservation now g i s)))"
  unfolding release_reservation_def
proof (rule transaction_inv[OF assms(1)])
  fix x
  assume ok: "fst (release_body now g i s) = Inr x"
  then obtain m r where m: "locked_meter g s = Some m" and r: "reservation_of i s = Some r"
    by (auto simp: release_body_def split: option.splits)
  show "budget_inv (bs_db (snd (release_body now g i s)))"
  proof (cases "br_status r = Reserved")
    case True
    then show ?thesis
      using release_closing_inv[OF assms(1)] locked_meterD[OF m] reservation_ofD[OF r] ownedD[OF assms(2) r]
      by (simp add: release_closing[OF m r])
  next
    case False
    then show ?thesis using assms(1) m r by (simp add: release_body_def)
  qed
qed

lemma settle_body_inv:
  assumes "budget_inv (bs_db s)" "owned g i s" "0 \<le> tokens" "0 \<le> cost"
    "fst (settle_body now g i tokens cost s) = Inr x"
  shows "budget_inv (bs_db (snd (settle_body now g i tokens cost s)))"
proof -
  obtain m r where m: "locked_meter g s = Some m" and r: "reservation_of i s = Some r"
    using assms(5) by (auto simp: settle_body_def split: option.splits)
  show ?thesis
  proof (cases "br_status r = Reserved")
    case True
    then show ?thesis
      using settle_closing_inv[OF assms(1)] locked_meterD[OF m] reservation_ofD[OF r]
        ownedD[OF assms(2) r] assms(3,4)
      by (simp add: settle_closing[OF m r])
  next
    case False
    then show ?thesis using assms(1,5) m r by (simp add: settle_body_def)
  qed
qed

lemma amounts_Inr:
  "bindE (positive_int n) (\<lambda>tokens. bindE (money d) (\<lambda>cost. Inr (tokens, cost))) = Inr (tokens, cost)
   \<longleftrightarrow> n = tokens \<and> d = Finite cost \<and> 0 \<le> tokens \<and> 0 \<le> cost"
  by (auto simp: positive_int_def money_def split: decimal.splits if_splits)

lemma settle_inv:
  assumes "budget_inv (bs_db s)" "owned g i s"
  shows "budget_inv (bs_db (snd (settle now g i n d s)))"
proof (cases "bindE (positive_int n) (\<lambda>tokens. bindE (money d) (\<lambda>cost. Inr (tokens, cost)))")
  case (Inr tc)
  then obtain tokens cost where tc: "tc = (tokens, cost)" "0 \<le> tokens" "0 \<le> cost"
    by (cases tc) (auto simp: amounts_Inr simp del: bindE_Inr)
  have "budget_inv (bs_db (snd (transaction (settle_body now g i tokens cost) s)))"
    by (rule transaction_inv[OF assms(1)], rule settle_body_inv[OF assms tc(2,3)])
  then show ?thesis unfolding settle_def Inr tc(1) by simp
qed (use assms in \<open>simp add: settle_def\<close>)

text \<open>A new reservation.\<close>

lemma balanced_append:
  "balanced (t @ [r]) m \<longleftrightarrow>
     bm_reserved_tokens m = tally (held (bm_generation_id m)) br_tokens t
       + (if held (bm_generation_id m) r then br_tokens r else 0) \<and>
     bm_reserved_cost m = tally (held (bm_generation_id m)) br_cost t
       + (if held (bm_generation_id m) r then br_cost r else 0) \<and>
     bm_tokens_used m = tally (spent (bm_generation_id m)) actual_tokens t
       + (if spent (bm_generation_id m) r then actual_tokens r else 0) \<and>
     bm_settled_cost m = tally (spent (bm_generation_id m)) actual_cost t
       + (if spent (bm_generation_id m) r then actual_cost r else 0) \<and>
     tally (in_force (bm_generation_id m)) br_is_rag t
       + (if in_force (bm_generation_id m) r then br_is_rag r else 0) \<le> bm_rag_calls_used m"
  by (simp add: balanced_def)

lemma inv_insert:
  assumes inv: "budget_inv db" and m: "m \<in> set (bd_meters db)"
    and r: "br_id r \<notin> br_id ` set (bd_reservations db)"
      "\<And>x. x \<in> set (bd_reservations db) \<Longrightarrow> br_generation_id x = br_generation_id r
        \<Longrightarrow> br_fingerprint x \<noteq> br_fingerprint r"
      "br_generation_id r = bm_generation_id m" "reservation_ok r"
    and f: "bm_generation_id (f m) = bm_generation_id m" "on_grid (bm_max_cost (f m))"
    and bal: "balanced (bd_reservations db @ [r]) (f m)"
  shows "budget_inv (db\<lparr>bd_reservations := bd_reservations db @ [r],
    bd_meters := sql_update (\<lambda>x. bm_generation_id x = bm_generation_id m) f (bd_meters db)\<rparr>)"
proof -
  note D = budget_invD[OF inv]
  let ?ms = "sql_update (\<lambda>x. bm_generation_id x = bm_generation_id m) f (bd_meters db)"
  let ?rs = "bd_reservations db @ [r]"
  note ms = set_sql_update_key[OF D(1) m, of _ f]
  have "map bm_generation_id ?ms = map bm_generation_id (bd_meters db)"
    using f(1) m D(1) by (auto simp: sql_update_def dest: keyed_eq)
  then have gids: "bm_generation_id ` set ?ms = bm_generation_id ` set (bd_meters db)"
    by (metis list.set_map)
  have "balanced ?rs x" if "x \<in> set (bd_meters db)" "bm_generation_id x \<noteq> bm_generation_id m" for x
    using D(4)[OF that(1)] that r(3)
    by (simp add: balanced_append) (simp add: balanced_def account_defs)
  then have "balanced ?rs x \<and> on_grid (bm_max_cost x)" if "x \<in> set ?ms" for x
    using that bal f(2) D(5) by (auto simp: ms)
  moreover have "keyed bm_generation_id ?ms" using f(1) by (intro keyed_update_key[OF D(1) D(1) m])
  moreover have "keyed br_id ?rs" using D(2) r(1) by (auto simp: keyed_def)
  moreover have "keyed (\<lambda>r. (br_generation_id r, br_fingerprint r)) ?rs"
  proof -
    have "(br_generation_id r, br_fingerprint r)
        \<notin> (\<lambda>r. (br_generation_id r, br_fingerprint r)) ` set (bd_reservations db)"
      using r(2) by (metis (no_types, lifting) imageE prod.inject)
    then show ?thesis using D(3) by (simp add: keyed_def)
  qed
  moreover have "reservation_ok x \<and> br_generation_id x \<in> bm_generation_id ` set ?ms"
    if "x \<in> set ?rs" for x
    using that r(3,4) D(6,7) m by (auto simp: gids)
  ultimately show ?thesis by (simp add: budget_inv_def)
qed

text \<open>What a new reservation leaves.\<close>

definition charged_meter :: "time \<Rightarrow> meter_row \<Rightarrow> reserve_request \<Rightarrow> int \<Rightarrow> rat \<Rightarrow> meter_row \<Rightarrow> meter_row" where
  "charged_meter now m q tokens cost x =
     x\<lparr>bm_rag_calls_used := bm_rag_calls_used m + of_bool (rr_is_rag q),
      bm_reserved_tokens := bm_reserved_tokens m + tokens,
      bm_reserved_cost := bm_reserved_cost m + cost, bm_updated_at := now\<rparr>"

definition opened :: "time \<Rightarrow> budget_state \<Rightarrow> meter_row \<Rightarrow> reserve_request \<Rightarrow> int \<Rightarrow> rat \<Rightarrow> budget_state" where
  "opened now s m q tokens cost = s\<lparr>bs_db := (bs_db s)
     \<lparr>bd_reservations := bd_reservations (bs_db s) @ [store_reservation (new_reservation now q tokens cost)],
      bd_meters := sql_update (\<lambda>x. bm_generation_id x = bm_generation_id m)
        (\<lambda>x. store_meter (charged_meter now m q tokens cost x)) (bd_meters (bs_db s))\<rparr>\<rparr>"

lemma replay_candidate_None:
  "replay_candidate q s = None \<longleftrightarrow>
    rr_id q \<notin> br_id ` set (bd_reservations (bs_db s)) \<and>
    (\<forall>r \<in> set (bd_reservations (bs_db s)). br_generation_id r = rr_generation_id q
       \<longrightarrow> br_fingerprint r \<noteq> rr_fingerprint q)"
  by (force simp: replay_candidate_def reservation_of_def sql_first_None
      dest: sql_first_Some split: option.splits)

lemma insert_reservation_opened:
  assumes "locked_meter (rr_generation_id q) s = Some m" "replay_candidate q s = None"
  shows "insert_reservation None now m q tokens cost s =
    (Inr (reservation (new_reservation now q tokens cost)),
     increment ''generation_budget_reservation'' ''created'' (opened now s m q tokens cost))"
proof -
  have "br_id (new_reservation now q tokens cost) \<notin> br_id ` set (bd_reservations (bs_db s))"
    using assms(2) by (simp add: replay_candidate_None new_reservation_def)
  then show ?thesis using locked_meterD[OF assms(1)]
    by (simp add: insert_reservation_def insert_do_nothing_def sql_insert_def opened_def
        charge_reservation_def update_meters_def charged_meter_def[abs_def] Let_def)
qed

lemma opened_inv:
  assumes "budget_inv (bs_db s)" "locked_meter (rr_generation_id q) s = Some m"
    "replay_candidate q s = None" "0 \<le> tokens" "0 \<le> cost"
  shows "budget_inv (bs_db (opened now s m q tokens cost))"
proof -
  note gm = locked_meterD[OF assms(2)]
  let ?r = "store_reservation (new_reservation now q tokens cost)"
  note D = budget_invD(4,5)[OF assms(1)] and A = meter_amounts[OF assms(1)]
  have grid: "numeric10 (bm_settled_cost m) = bm_settled_cost m"
    "numeric10 (bm_reserved_cost m + cost) = bm_reserved_cost m + numeric10 cost"
    using A(2,3,6)[of m] gm assms(5) by (auto simp: numeric10_add)
  have bal: "balanced (bd_reservations (bs_db s) @ [?r]) (store_meter (charged_meter now m q tokens cost m))"
    using D(1)[of m] gm unfolding balanced_append
    by (simp add: charged_meter_def grid new_reservation_def held_def spent_def in_force_def)
      (simp add: balanced_def)
  have ok: "reservation_ok ?r"
    using assms(4,5) by (simp add: reservation_ok_def new_reservation_def actual_tokens_def actual_cost_def)
  have eq: "bs_db (opened now s m q tokens cost) = (bs_db s)
     \<lparr>bd_reservations := bd_reservations (bs_db s) @ [?r],
      bd_meters := sql_update (\<lambda>x. bm_generation_id x = bm_generation_id m)
        (\<lambda>x. store_meter (charged_meter now m q tokens cost x)) (bd_meters (bs_db s))\<rparr>"
    by (simp add: opened_def)
  show ?thesis unfolding eq
    by (rule inv_insert[OF assms(1)])
      (use bal ok gm assms(3) D(2)[of m] in
        \<open>auto simp: replay_candidate_None charged_meter_def new_reservation_def\<close>)
qed

lemma reserve_body_inv:
  assumes "budget_inv (bs_db s)" "0 \<le> tokens" "0 \<le> cost"
    "fst (reserve_body None now q tokens cost s) = Inr x"
  shows "budget_inv (bs_db (snd (reserve_body None now q tokens cost s)))"
proof -
  obtain m where m: "locked_meter (rr_generation_id q) s = Some m"
    using assms(4) by (auto simp: reserve_body_def split: option.splits)
  show ?thesis
  proof (cases "replay_candidate q s")
    case None
    then have "bm_status m = MeterActive" "gate now m q tokens cost = None"
      using assms(4) m by (auto simp: reserve_body_def reject_def split: if_splits option.splits)
    then show ?thesis using opened_inv[OF assms(1) m None assms(2,3)] m None
      by (simp add: reserve_body_def insert_reservation_opened)
  next
    case (Some r)
    then show ?thesis using assms(1) m by (simp add: reserve_body_def)
  qed
qed

lemma reserve_Inr:
  "fst (reserve race now q s) = Inr x \<longleftrightarrow>
    rr_id q \<noteq> [] \<and> rr_operation_kind q \<noteq> [] \<and> rr_fingerprint q \<noteq> [] \<and> 0 \<le> rr_tokens q \<and>
    (\<exists>cost. rr_cost q = Some (Finite cost) \<and> 0 \<le> cost \<and>
      fst (reserve_body race now q (rr_tokens q) cost s) = Inr x)"
  by (auto simp: reserve_def positive_int_def money_def transaction_def
      split: sum.splits option.splits decimal.splits prod.splits)

lemma reserve_snd:
  "snd (reserve race now q s) = s \<or>
    (\<exists>cost. 0 \<le> cost \<and> 0 \<le> rr_tokens q \<and> rr_cost q = Some (Finite cost) \<and>
      reserve race now q s = transaction (reserve_body race now q (rr_tokens q) cost) s)"
  by (auto simp: reserve_def positive_int_def money_def split: option.splits decimal.splits)

lemma reserve_inv:
  assumes "budget_inv (bs_db s)"
  shows "budget_inv (bs_db (snd (reserve None now q s)))"
  using reserve_snd[of None now q s]
proof (elim disjE exE conjE)
  fix cost
  assume "0 \<le> cost" "0 \<le> rr_tokens q"
    and eq: "reserve None now q s = transaction (reserve_body None now q (rr_tokens q) cost) s"
  then show ?thesis unfolding eq
    by (intro transaction_inv[OF assms] reserve_body_inv[OF assms])
qed (use assms in simp)

text \<open>Meters come and are upgraded.\<close>

lemma tally_no_generation:
  assumes "budget_inv db" "g \<notin> bm_generation_id ` set (bd_meters db)"
  shows "tally (held g) f (bd_reservations db) = (0::'a::comm_monoid_add)"
    "tally (spent g) f (bd_reservations db) = 0" "tally (in_force g) f (bd_reservations db) = 0"
  using budget_invD(7)[OF assms(1)] assms(2) by (auto intro!: tally_zero simp: account_defs)

lemma new_meter_inv:
  assumes inv: "budget_inv db" and new: "g \<notin> bm_generation_id ` set (bd_meters db)"
  shows "budget_inv (db\<lparr>bd_meters := bd_meters db @
    [store_meter (new_meter policy now fresh g level effort deadline)]\<rparr>)"
proof -
  let ?m = "store_meter (new_meter policy now fresh g level effort deadline)"
  have "balanced (bd_reservations db) ?m"
    by (simp add: balanced_def new_meter_def tally_no_generation[OF inv new])
  then show ?thesis using inv new
    by (auto simp: budget_inv_def keyed_def new_meter_def)
qed

lemma ensure_meter_inv:
  assumes "budget_inv (bs_db s)"
  shows "budget_inv (bs_db (snd (ensure_meter policy None now fresh g level deadline s)))"
  unfolding ensure_meter_def
proof (rule transaction_inv[OF assms])
  show "budget_inv (bs_db (snd (ensure_meter_in_transaction policy None now fresh g level deadline s)))"
  proof (cases "locked_meter g s")
    case None
    then have "g \<notin> bm_generation_id ` set (bd_meters (bs_db s))"
      by (auto simp: locked_meter_def sql_first_None)
    then show ?thesis using assms new_meter_inv[OF assms]
      by (auto simp: ensure_meter_in_transaction_def insert_do_nothing_def sql_insert_def
          locked_meter_def new_meter_def Let_def split: option.splits)
  qed (use assms in \<open>auto simp: ensure_meter_in_transaction_def split: option.splits\<close>)
qed

lemma upgraded_balanced:
  assumes "on_grid (bm_reserved_cost m)" "on_grid (bm_settled_cost m)"
  shows "balanced rows (store_meter (upgraded_meter now target effort m)) = balanced rows m"
    "on_grid (bm_max_cost (store_meter (upgraded_meter now target effort m)))"
  using assms by (simp_all add: balanced_def upgraded_meter_def)

lemma upgrade_inv:
  assumes "budget_inv (bs_db s)"
  shows "budget_inv (bs_db (snd (upgrade policy now g n d is_rag s)))"
  unfolding upgrade_def
proof (rule transaction_inv[OF assms])
  have "budget_inv (bs_db (update_meters (\<lambda>x. bm_generation_id x = g) (upgraded_meter now target effort) s))"
    for target effort
  proof -
    let ?up = "\<lambda>x. store_meter (upgraded_meter now target effort x)"
    let ?ms = "sql_update (\<lambda>x. bm_generation_id x = g) ?up (bd_meters (bs_db s))"
    have ids: "map bm_generation_id ?ms = map bm_generation_id (bd_meters (bs_db s))"
      by (simp add: sql_update_def upgraded_meter_def)
    then have "keyed bm_generation_id ?ms = keyed bm_generation_id (bd_meters (bs_db s))"
      by (simp add: keyed_def)
    moreover have "bm_generation_id ` set ?ms = bm_generation_id ` set (bd_meters (bs_db s))"
      using ids by (metis list.set_map)
    moreover have "balanced (bd_reservations (bs_db s)) x \<and> on_grid (bm_max_cost x)"
      if x: "x \<in> set ?ms" for x
    proof -
      obtain y where y: "y \<in> set (bd_meters (bs_db s))" and
        "x = y \<or> x = store_meter (upgraded_meter now target effort y)"
        using x by (auto simp: set_sql_update split: if_splits)
      then show ?thesis using budget_invD(4,5)[OF assms y] meter_amounts(3,6)[OF assms y]
        by (auto simp: upgraded_balanced)
    qed
    ultimately show ?thesis using assms
      by (simp add: budget_inv_def update_meters_def)
  qed
  then show "budget_inv (bs_db (snd (upgrade_body policy now g n d is_rag s)))"
    using assms by (auto simp: upgrade_body_def split: option.split sum.split prod.split)
qed

end
