(* ===== verification/Budget_System.thy ===== *)
theory Budget_System
  imports Budget_Invariant
begin

text \<open>
  The budget service as a system: the calls its clients make, the states they reach, and what
  holds in all of them; then what single operations promise.
\<close>

section \<open>Runs of the service\<close>

datatype budget_call =
    EnsureMeter time string string string time
  | Reserve time reserve_request
  | Settle time string string int decimal
  | Release time string string
  | MarkUnknown time string string
  | Upgrade time string int decimal bool

fun run_call :: "meter_policy \<Rightarrow> budget_call \<Rightarrow> budget_state \<Rightarrow> budget_state" where
  "run_call policy (EnsureMeter now fresh g level deadline) s =
     snd (ensure_meter policy None now fresh g level deadline s)"
| "run_call policy (Reserve now q) s = snd (reserve None now q s)"
| "run_call policy (Settle now g i tokens cost) s = snd (settle now g i tokens cost s)"
| "run_call policy (Release now g i) s = snd (release_reservation now g i s)"
| "run_call policy (MarkUnknown now g i) s = snd (mark_unknown now g i s)"
| "run_call policy (Upgrade now g tokens cost is_rag) s =
     snd (upgrade policy now g tokens cost is_rag s)"

text \<open>
  What the code leaves to its callers: a reservation is closed through its own generation.
  A disciplined caller also settles no more than it reserved and upgrades for a RAG step.
\<close>

fun call_owned :: "budget_call \<Rightarrow> budget_state \<Rightarrow> bool" where
  "call_owned (Settle now g i tokens cost) s = owned g i s"
| "call_owned (Release now g i) s = owned g i s"
| "call_owned (MarkUnknown now g i) s = owned g i s"
| "call_owned c s = True"

fun disciplined :: "budget_call \<Rightarrow> budget_state \<Rightarrow> bool" where
  "disciplined (Settle now g i tokens cost) s =
     (\<forall>r \<in> set (bd_reservations (bs_db s)). br_id r = i \<longrightarrow>
        tokens \<le> br_tokens r \<and> (case cost of NotFinite \<Rightarrow> True | Finite c \<Rightarrow> c \<le> br_cost r))"
| "disciplined (Upgrade now g tokens cost is_rag) s = is_rag"
| "disciplined c s = True"

inductive budget_run :: "meter_policy \<Rightarrow> bool \<Rightarrow> budget_state \<Rightarrow> bool" for policy strict where
  empty: "bs_db s = \<lparr>bd_meters = [], bd_reservations = []\<rparr> \<Longrightarrow> budget_run policy strict s"
| call: "budget_run policy strict s \<Longrightarrow> call_owned c s \<Longrightarrow> (strict \<longrightarrow> disciplined c s) \<Longrightarrow>
    budget_run policy strict (run_call policy c s)"

lemma run_call_inv: "budget_inv (bs_db s) \<Longrightarrow> call_owned c s \<Longrightarrow> budget_inv (bs_db (run_call policy c s))"
  by (cases c) (simp_all add: ensure_meter_inv reserve_inv settle_inv release_inv mark_unknown_inv upgrade_inv)

lemma budget_run_inv: "budget_run policy strict s \<Longrightarrow> budget_inv (bs_db s)"
proof (induction rule: budget_run.induct)
  case (empty s)
  then show ?case by (simp add: budget_inv_def keyed_def)
qed (rule run_call_inv)

section \<open>What a call can do to a meter\<close>

inductive meter_change :: "bool \<Rightarrow> meter_row \<Rightarrow> meter_row \<Rightarrow> bool" for strict where
  charged: "gate now m q tokens cost = None \<Longrightarrow> 0 \<le> tokens \<Longrightarrow> 0 \<le> cost \<Longrightarrow> bm_status m = MeterActive \<Longrightarrow>
    meter_change strict m (store_meter (charged_meter now m q tokens cost m))"
| unknown: "reservation_ok r \<Longrightarrow> meter_change strict m (store_meter (unknown_meter now m r m))"
| released: "reservation_ok r \<Longrightarrow> meter_change strict m (store_meter (released_meter now m r m))"
| settled: "reservation_ok r \<Longrightarrow> 0 \<le> tokens \<Longrightarrow> 0 \<le> cost \<Longrightarrow>
    (strict \<longrightarrow> tokens \<le> br_tokens r \<and> cost \<le> br_cost r) \<Longrightarrow>
    meter_change strict m (store_meter (settled_meter now m r tokens cost m))"
| upgraded: "upgrade_fits now m effort tokens cost is_rag \<Longrightarrow> 0 \<le> tokens \<Longrightarrow> 0 \<le> cost \<Longrightarrow>
    (strict \<longrightarrow> is_rag) \<Longrightarrow> UPGRADES (bm_effort m) = Some target \<Longrightarrow>
    meter_change strict m (store_meter (upgraded_meter now target effort m))"

definition within_limits :: "bool \<Rightarrow> meter_row \<Rightarrow> bool" where
  "within_limits strict m \<longleftrightarrow>
     (bm_status m = MeterActive \<longrightarrow>
        bm_settled_cost m + bm_reserved_cost m \<le> bm_max_cost m \<and>
        bm_tokens_used m \<le> bm_max_total_tokens m) \<and>
     (strict \<longrightarrow>
        bm_settled_cost m + bm_reserved_cost m \<le> bm_max_cost m \<and>
        bm_tokens_used m + bm_reserved_tokens m \<le> bm_max_total_tokens m \<and>
        bm_rag_calls_used m \<le> bm_max_rag_calls m)"

lemma meter_change_within:
  assumes "meter_change strict m m'" "within_limits strict m"
    and grid: "on_grid (bm_settled_cost m)" "on_grid (bm_reserved_cost m)" "on_grid (bm_max_cost m)"
    and pos: "0 \<le> bm_settled_cost m" "0 \<le> bm_reserved_cost m" "0 \<le> bm_reserved_tokens m"
  shows "within_limits strict m'"
  using assms(1)
proof cases
  case (charged now q tokens cost)
  have "numeric10 cost \<le> bm_max_cost m - bm_settled_cost m - bm_reserved_cost m"
    using charged grid by (intro numeric10_le_grid on_grid_diff) (auto simp: gate_def split: if_splits)
  then show ?thesis using charged assms(2) grid pos
    by (auto simp: within_limits_def charged_meter_def gate_def numeric10_add split: if_splits)
next
  case (unknown r now)
  have "on_grid (bm_reserved_cost m - br_cost r)" using unknown grid by (auto simp: reservation_ok_def)
  then show ?thesis using unknown assms(2) grid
    by (auto simp: within_limits_def unknown_meter_def reservation_ok_def)
next
  case (released r now)
  have "on_grid (bm_reserved_cost m - br_cost r)" using released grid by (auto simp: reservation_ok_def)
  then show ?thesis using released assms(2) grid
    by (auto simp: within_limits_def released_meter_def reservation_ok_def)
next
  case (settled r tokens cost now)
  have "on_grid (bm_reserved_cost m - br_cost r)" using settled grid by (auto simp: reservation_ok_def)
  moreover have "cost \<le> br_cost r \<Longrightarrow> numeric10 cost \<le> br_cost r"
    using settled by (intro numeric10_le_grid) (auto simp: reservation_ok_def)
  ultimately show ?thesis using settled assms(2) grid pos
    by (auto simp: within_limits_def settled_meter_def numeric10_add settlement_exhausts_def split: if_splits)
next
  case (upgraded now effort tokens cost is_rag target)
  have "bm_settled_cost m + bm_reserved_cost m \<le> numeric10 (ef_max_cost effort)"
    using upgraded grid pos by (intro grid_le_numeric10) (auto simp: upgrade_fits_def)
  then show ?thesis using upgraded grid pos
    by (auto simp: within_limits_def upgraded_meter_def upgrade_fits_def)
qed

lemma sql_update_meter:
  assumes "keyed bm_generation_id t" "m \<in> set t"
    "m' \<in> set (sql_update (\<lambda>x. bm_generation_id x = bm_generation_id m) f t)"
  shows "m' \<in> set t \<or> m' = f m"
  using assms by (auto simp: set_sql_update_key)

definition meter_source :: "meter_policy \<Rightarrow> bool \<Rightarrow> budget_state \<Rightarrow> meter_row \<Rightarrow> bool" where
  "meter_source policy strict s m' \<longleftrightarrow>
     m' \<in> set (bd_meters (bs_db s)) \<or>
     (\<exists>m \<in> set (bd_meters (bs_db s)). meter_change strict m m') \<or>
     (\<exists>now fresh g level effort deadline. level \<in> set EFFORTS \<and> mp_efforts policy level = Some effort \<and>
        m' = store_meter (new_meter policy now fresh g level effort deadline))"

lemma meter_source_old: "m' \<in> set (bd_meters (bs_db s)) \<Longrightarrow> meter_source policy strict s m'"
  by (simp add: meter_source_def)

lemma changed_source:
  "m \<in> set (bd_meters (bs_db s)) \<Longrightarrow> meter_change strict m m' \<Longrightarrow> meter_source policy strict s m'"
  by (auto simp: meter_source_def)

lemma new_source:
  "level \<in> set EFFORTS \<Longrightarrow> mp_efforts policy level = Some effort \<Longrightarrow>
   meter_source policy strict s (store_meter (new_meter policy now fresh g level effort deadline))"
  unfolding meter_source_def by blast

lemma closing_source:
  assumes "budget_inv (bs_db s)" "m \<in> set (bd_meters (bs_db s))"
    "meter_change strict m (store_meter (f m))" "m' \<in> set (bd_meters (bs_db (closing s f h m r)))"
  shows "meter_source policy strict s m'"
  using sql_update_meter[OF budget_invD(1)[OF assms(1)] assms(2), of m' "\<lambda>x. store_meter (f x)"] assms
  by (auto simp: closing_def update_meters_def update_reservations_def meter_source_def)

lemma transaction_source:
  assumes "m' \<in> set (bd_meters (bs_db (snd (transaction body s))))"
    "\<And>x. fst (body s) = Inr x \<Longrightarrow> m' \<in> set (bd_meters (bs_db (snd (body s)))) \<Longrightarrow> meter_source policy strict s m'"
  shows "meter_source policy strict s m'"
  using assms by (auto simp: transaction_db meter_source_old split: sum.splits)

lemma closing_call_source:
  assumes inv: "budget_inv (bs_db s)"
    and m': "m' \<in> set (bd_meters (bs_db (snd (transaction body s))))"
    and body: "body = mark_unknown_body now g i \<or> body = release_body now g i"
  shows "meter_source policy strict s m'"
proof (rule transaction_source[OF m'])
  fix x
  assume ok: "fst (body s) = Inr x" and m': "m' \<in> set (bd_meters (bs_db (snd (body s))))"
  obtain m r where m: "locked_meter g s = Some m" and r: "reservation_of i s = Some r"
    using ok body by (auto simp: mark_unknown_body_def release_body_def split: option.splits)
  note mr = locked_meterD[OF m] reservation_ofD[OF r] budget_invD(6)[OF inv]
  show "meter_source policy strict s m'"
  proof (cases "br_status r = Reserved")
    case True
    from body show ?thesis
    proof
      assume b: "body = mark_unknown_body now g i"
      show ?thesis using m' mr unfolding b unknown_closing[OF m r True]
        by (intro closing_source[OF inv, where m = m and r = r and h = "released_row now"
              and f = "unknown_meter now m r"]) (auto intro: meter_change.unknown)
    next
      assume b: "body = release_body now g i"
      show ?thesis using m' mr unfolding b release_closing[OF m r True]
        by (intro closing_source[OF inv, where m = m and r = r and h = "released_row now"
              and f = "released_meter now m r"]) (auto intro: meter_change.released)
    qed
  next
    case False
    then show ?thesis using body m' m r
      by (auto simp: mark_unknown_body_def release_body_def meter_source_old)
  qed
qed

lemma settle_source:
  assumes inv: "budget_inv (bs_db s)"
    and strict: "strict \<longrightarrow> disciplined (Settle now g i n d) s"
    and m': "m' \<in> set (bd_meters (bs_db (snd (settle now g i n d s))))"
  shows "meter_source policy strict s m'"
proof (cases "bindE (positive_int n) (\<lambda>tokens. bindE (money d) (\<lambda>cost. Inr (tokens, cost)))")
  case (Inr tc)
  then obtain tokens cost where tc: "tc = (tokens, cost)" and
    nd: "n = tokens" "d = Finite cost" "0 \<le> tokens" "0 \<le> cost"
    by (cases tc) (auto simp: amounts_Inr simp del: bindE_Inr)
  have m': "m' \<in> set (bd_meters (bs_db (snd (transaction (settle_body now g i tokens cost) s))))"
    using m' unfolding settle_def Inr tc by simp
  show ?thesis
  proof (rule transaction_source[OF m'])
    fix x
    assume ok: "fst (settle_body now g i tokens cost s) = Inr x"
      and m': "m' \<in> set (bd_meters (bs_db (snd (settle_body now g i tokens cost s))))"
    obtain m r where m: "locked_meter g s = Some m" and r: "reservation_of i s = Some r"
      using ok by (auto simp: settle_body_def split: option.splits)
    note mr = locked_meterD[OF m] reservation_ofD[OF r] budget_invD(6)[OF inv]
    show "meter_source policy strict s m'"
    proof (cases "br_status r = Reserved")
      case True
      have "strict \<longrightarrow> tokens \<le> br_tokens r \<and> cost \<le> br_cost r" using strict mr nd by auto
      then show ?thesis using m' mr nd unfolding settle_closing[OF m r True]
        by (intro closing_source[OF inv, where m = m and r = r and h = "settled_row now tokens cost"
              and f = "settled_meter now m r tokens cost"]) (auto intro: meter_change.settled)
    next
      case False
      then show ?thesis using ok m' m r
        by (auto simp: settle_body_def meter_source_old split: if_splits)
    qed
  qed
next
  case (Inl e)
  then show ?thesis using m' unfolding settle_def Inl by (simp add: meter_source_old)
qed

lemma reserve_source:
  assumes inv: "budget_inv (bs_db s)"
    and m': "m' \<in> set (bd_meters (bs_db (snd (reserve None now q s))))"
  shows "meter_source policy strict s m'"
  using reserve_snd[of None now q s]
proof (elim disjE exE conjE)
  fix cost
  assume pos: "0 \<le> cost" "0 \<le> rr_tokens q"
    and eq: "reserve None now q s = transaction (reserve_body None now q (rr_tokens q) cost) s"
  show ?thesis
  proof (rule transaction_source[OF m'[unfolded eq]])
    fix x
    assume ok: "fst (reserve_body None now q (rr_tokens q) cost s) = Inr x"
      and m': "m' \<in> set (bd_meters (bs_db (snd (reserve_body None now q (rr_tokens q) cost s))))"
    obtain m where m: "locked_meter (rr_generation_id q) s = Some m"
      using ok by (auto simp: reserve_body_def split: option.splits)
    note gm = locked_meterD[OF m]
    show "meter_source policy strict s m'"
    proof (cases "replay_candidate q s")
      case None
      then have act: "bm_status m = MeterActive" "gate now m q (rr_tokens q) cost = None"
        using ok m by (auto simp: reserve_body_def reject_def split: if_splits option.splits)
      have "m' \<in> set (sql_update (\<lambda>x. bm_generation_id x = bm_generation_id m)
          (\<lambda>x. store_meter (charged_meter now m q (rr_tokens q) cost x)) (bd_meters (bs_db s)))"
        using m' m act None
        by (simp add: reserve_body_def insert_reservation_opened opened_def)
      then have "m' \<in> set (bd_meters (bs_db s)) \<or>
          m' = store_meter (charged_meter now m q (rr_tokens q) cost m)"
        by (rule sql_update_meter[OF budget_invD(1)[OF inv] conjunct1[OF gm]])
      then show ?thesis
        using gm act pos by (auto intro: meter_source_old changed_source meter_change.charged)
    qed (use m' m in \<open>auto simp: reserve_body_def meter_source_old split: if_splits\<close>)
  qed
qed (use m' in \<open>simp add: meter_source_old\<close>)

lemma ensure_source:
  assumes m': "m' \<in> set (bd_meters (bs_db (snd (ensure_meter policy None now fresh g level deadline s))))"
  shows "meter_source policy strict s m'"
  unfolding ensure_meter_def
proof (rule transaction_source[OF m'[unfolded ensure_meter_def]])
  assume "m' \<in> set (bd_meters (bs_db (snd
    (ensure_meter_in_transaction policy None now fresh g level deadline s))))"
  then show "meter_source policy strict s m'"
    by (auto simp: ensure_meter_in_transaction_def insert_do_nothing_def sql_insert_def Let_def
        meter_source_old new_source split: option.splits if_splits)
qed

lemma upgrade_source:
  assumes inv: "budget_inv (bs_db s)" and strict: "strict \<longrightarrow> is_rag"
    and m': "m' \<in> set (bd_meters (bs_db (snd (upgrade policy now g n d is_rag s))))"
  shows "meter_source policy strict s m'"
proof (rule transaction_source[OF m'[unfolded upgrade_def]])
  assume m': "m' \<in> set (bd_meters (bs_db (snd (upgrade_body policy now g n d is_rag s))))"
  show "meter_source policy strict s m'"
  proof (cases "locked_meter g s")
    case (Some m)
    note gm = locked_meterD[OF Some]
    consider "snd (upgrade_body policy now g n d is_rag s) = s"
      | target effort tokens cost where "upgrade_fits now m effort tokens cost is_rag" "0 \<le> tokens" "0 \<le> cost"
        "UPGRADES (bm_effort m) = Some target" "bs_db (snd (upgrade_body policy now g n d is_rag s)) =
          bs_db (update_meters (\<lambda>x. bm_generation_id x = g) (upgraded_meter now target effort) s)"
      using Some unfolding upgrade_body_def
      by (fastforce simp: amounts_Inr simp del: bindE_Inr split: option.splits sum.splits prod.splits if_splits)
    then show ?thesis
    proof cases
      case 1
      then show ?thesis using m' by (simp add: meter_source_old)
    next
      case 2
      have "m' \<in> set (sql_update (\<lambda>x. bm_generation_id x = bm_generation_id m)
          (\<lambda>x. store_meter (upgraded_meter now target effort x)) (bd_meters (bs_db s)))"
        using m' 2(5) gm by (simp add: update_meters_def)
      then have "m' \<in> set (bd_meters (bs_db s)) \<or> m' = store_meter (upgraded_meter now target effort m)"
        by (rule sql_update_meter[OF budget_invD(1)[OF inv] conjunct1[OF gm]])
      then show ?thesis using gm 2(1-4) strict
        by (auto intro: meter_source_old changed_source meter_change.upgraded)
    qed
  qed (use m' in \<open>simp add: upgrade_body_def meter_source_old\<close>)
qed

lemma run_call_source:
  assumes "budget_inv (bs_db s)" "strict \<longrightarrow> disciplined c s"
    "m' \<in> set (bd_meters (bs_db (run_call policy c s)))"
  shows "meter_source policy strict s m'"
proof (cases c)
  case (EnsureMeter now fresh g level deadline)
  then show ?thesis using assms by (auto intro: ensure_source)
next
  case (Reserve now q)
  then show ?thesis using assms by (auto intro: reserve_source)
next
  case (Settle now g i n d)
  then show ?thesis using assms by (auto intro: settle_source)
next
  case (Release now g i)
  then show ?thesis using assms(3)
    by (intro closing_call_source[OF assms(1), of _ "release_body now g i"]) (auto simp: release_reservation_def)
next
  case (MarkUnknown now g i)
  then show ?thesis using assms(3)
    by (intro closing_call_source[OF assms(1), of _ "mark_unknown_body now g i"]) (auto simp: mark_unknown_def)
next
  case (Upgrade now g n d is_rag)
  then show ?thesis using assms by (auto intro: upgrade_source)
qed

lemma validate_effort:
  assumes "validate_policy production policy = Inr u" "level \<in> set EFFORTS" "mp_efforts policy level = Some effort"
  shows "effort_ok effort"
  using assms by (auto simp: validate_policy_def split: if_splits option.splits)

lemma run_call_within:
  assumes "validate_policy False policy = Inr ()" "budget_inv (bs_db s)" "strict \<longrightarrow> disciplined c s"
    "\<forall>m \<in> set (bd_meters (bs_db s)). within_limits strict m"
    "m' \<in> set (bd_meters (bs_db (run_call policy c s)))"
  shows "within_limits strict m'"
  using run_call_source[OF assms(2,3,5)] unfolding meter_source_def
proof (elim disjE bexE exE conjE)
  fix m
  assume m: "m \<in> set (bd_meters (bs_db s))" "meter_change strict m m'"
  show ?thesis
    using meter_change_within[OF m(2)] m(1) assms(4) meter_amounts[OF assms(2) m(1)]
      budget_invD(5)[OF assms(2) m(1)] by blast
next
  fix now fresh g level effort deadline
  assume new: "level \<in> set EFFORTS" "mp_efforts policy level = Some effort"
    "m' = store_meter (new_meter policy now fresh g level effort deadline)"
  have "effort_ok effort" using validate_effort[OF assms(1) new(1,2)] .
  then show ?thesis using new(3)
    by (auto simp: within_limits_def new_meter_def effort_ok_def intro: numeric10_nonneg[OF less_imp_le])
qed (use assms(4) in simp)

text \<open>The CHECK constraints of the two tables.\<close>

definition meter_checks :: "meter_row \<Rightarrow> bool" where
  "meter_checks m \<longleftrightarrow> bm_requested_effort m \<in> set EFFORTS \<and> bm_effort m \<in> set EFFORTS \<and>
     (bm_status m = MeterActive \<or> bm_exhausted_reason m \<noteq> None)"

lemma UPGRADES_effort: "UPGRADES e = Some target \<Longrightarrow> target \<in> set EFFORTS"
  by (auto simp: UPGRADES_def EFFORTS_def split: if_splits)

lemma run_call_checks:
  assumes "budget_inv (bs_db s)" "\<forall>m \<in> set (bd_meters (bs_db s)). meter_checks m"
    "m' \<in> set (bd_meters (bs_db (run_call policy c s)))"
  shows "meter_checks m'"
  using run_call_source[OF assms(1) _ assms(3), of False, simplified] unfolding meter_source_def
proof (elim disjE bexE exE conjE)
  fix m
  assume m: "m \<in> set (bd_meters (bs_db s))" and "meter_change False m m'"
  from this(2) show ?thesis using assms(2) m
    by cases (auto simp: meter_checks_def store_meter_def charged_meter_def closed_rows upgraded_meter_def
        dest: UPGRADES_effort)
qed (use assms(2) in \<open>auto simp: meter_checks_def store_meter_def new_meter_def\<close>)

lemma budget_run_checks:
  "budget_run policy strict s \<Longrightarrow> m \<in> set (bd_meters (bs_db s)) \<Longrightarrow> meter_checks m"
proof (induction arbitrary: m rule: budget_run.induct)
  case (call s c)
  show ?case using run_call_checks[OF budget_run_inv[OF call.hyps(1)]] call.IH call.prems by blast
qed simp

lemma budget_run_within:
  assumes "validate_policy False policy = Inr ()"
  shows "budget_run policy strict s \<Longrightarrow> m \<in> set (bd_meters (bs_db s)) \<Longrightarrow> within_limits strict m"
proof (induction arbitrary: m rule: budget_run.induct)
  case (call s c)
  show ?case using run_call_within[OF assms budget_run_inv[OF call.hyps(1)] call.hyps(3)] call.IH call.prems
    by blast
qed simp

section \<open>What later calls keep\<close>

definition identity :: "reservation_row \<Rightarrow> string \<times> string \<times> string \<times> string \<times> int \<times> rat \<times> int" where
  "identity r = (br_id r, br_generation_id r, br_operation_kind r, br_fingerprint r, br_tokens r,
     br_cost r, br_is_rag r)"

definition row_evolves :: "reservation_row \<Rightarrow> reservation_row \<Rightarrow> bool" where
  "row_evolves r r' \<longleftrightarrow> identity r' = identity r \<and> (br_status r \<noteq> Reserved \<longrightarrow> r' = r)"

definition rows_evolve :: "budget_state \<Rightarrow> budget_state \<Rightarrow> bool" where
  "rows_evolve s s' \<longleftrightarrow>
     (\<exists>u v. bd_reservations (bs_db s') = u @ v \<and> list_all2 row_evolves (bd_reservations (bs_db s)) u)"

definition meters_stay :: "budget_state \<Rightarrow> budget_state \<Rightarrow> bool" where
  "meters_stay s s' \<longleftrightarrow>
     bm_generation_id ` set (bd_meters (bs_db s)) \<subseteq> bm_generation_id ` set (bd_meters (bs_db s'))"

lemma row_evolves_refl [simp]: "row_evolves r r"
  by (simp add: row_evolves_def)

lemma rows_evolve_same: "bd_reservations (bs_db s') = bd_reservations (bs_db s) \<Longrightarrow> rows_evolve s s'"
  unfolding rows_evolve_def
  by (intro exI[of _ "bd_reservations (bs_db s)"] exI[of _ "[]"]) (simp add: list_all2_same)

lemma rows_evolve_trans:
  assumes "rows_evolve s s'" "rows_evolve s' s''"
  shows "rows_evolve s s''"
proof -
  obtain u v where u: "bd_reservations (bs_db s') = u @ v" "list_all2 row_evolves (bd_reservations (bs_db s)) u"
    using assms(1) by (auto simp: rows_evolve_def)
  obtain a b where a: "bd_reservations (bs_db s'') = a @ b" "list_all2 row_evolves (u @ v) a"
    using assms(2) u(1) by (auto simp: rows_evolve_def)
  obtain a1 a2 where a12: "a = a1 @ a2" "list_all2 row_evolves u a1"
    using a(2) by (auto simp: list_all2_append1)
  have "list_all2 row_evolves (bd_reservations (bs_db s)) a1"
    by (rule list_all2_trans[OF _ u(2) a12(2)]) (auto simp: row_evolves_def identity_def)
  then show ?thesis using a(1) a12(1) by (auto simp: rows_evolve_def)
qed

lemma rows_evolve_first:
  assumes "rows_evolve s s'" "reservation_of i s = Some r"
  obtains r' where "reservation_of i s' = Some r'" "row_evolves r r'"
proof -
  have *: "list_all2 row_evolves t u \<Longrightarrow> sql_first (\<lambda>r. br_id r = i) t = Some r \<Longrightarrow>
    \<exists>r'. sql_first (\<lambda>r. br_id r = i) (u @ v) = Some r' \<and> row_evolves r r'" for t u v
    by (induction rule: list_all2_induct) (auto simp: row_evolves_def identity_def split: if_splits)
  obtain u v where "bd_reservations (bs_db s') = u @ v"
    "list_all2 row_evolves (bd_reservations (bs_db s)) u"
    using assms(1) by (auto simp: rows_evolve_def)
  then show ?thesis using *[of _ u v] assms(2) that unfolding reservation_of_def by metis
qed

lemma closing_evolves:
  assumes "br_status r = Reserved" "br_id (h r) = br_id r"
    "\<And>x. identity (h x) = identity x"
    "\<forall>x \<in> set (bd_reservations (bs_db s)). br_id x = br_id r \<longrightarrow> x = r \<and> on_grid (br_cost x)"
  shows "rows_evolve s (closing s f h m r)"
proof -
  have "row_evolves x (if br_id x = br_id r then store_reservation (h x) else x)"
    if "x \<in> set (bd_reservations (bs_db s))" for x
    using assms that by (auto simp: row_evolves_def identity_def)
  then have "list_all2 row_evolves (bd_reservations (bs_db s))
      (sql_update (\<lambda>x. br_id x = br_id r) (\<lambda>x. store_reservation (h x)) (bd_reservations (bs_db s)))"
    by (simp add: sql_update_def list_all2_map2 list_all2_same)
  then show ?thesis
    by (auto simp: rows_evolve_def closing_def update_meters_def update_reservations_def)
qed

definition keeps :: "budget_state \<Rightarrow> budget_state \<Rightarrow> bool" where
  "keeps s s' \<longleftrightarrow> rows_evolve s s' \<and> meters_stay s s'"

lemma keeps_same: "bs_db s' = bs_db s \<Longrightarrow> keeps s s'"
  by (simp add: keeps_def meters_stay_def rows_evolve_same)

lemma keeps_trans: "keeps s s' \<Longrightarrow> keeps s' s'' \<Longrightarrow> keeps s s''"
  by (auto simp: keeps_def meters_stay_def intro: rows_evolve_trans)

lemma keeps_increment [simp]: "keeps s (increment a b s') = keeps s s'"
  by (simp add: keeps_def rows_evolve_def meters_stay_def)

lemma keeps_transaction:
  assumes "\<And>x. fst (body s) = Inr x \<Longrightarrow> keeps s (snd (body s))"
  shows "keeps s (snd (transaction body s))"
proof (cases "fst (body s)")
  case (Inl e)
  then show ?thesis by (intro keeps_same) (simp add: transaction_db)
next
  case (Inr x)
  then have "snd (transaction body s) = snd (body s)" by (cases "body s") (simp add: transaction_def)
  then show ?thesis using assms[OF Inr] by simp
qed

lemma meters_stay_update:
  "(\<And>x. bm_generation_id (f x) = bm_generation_id x) \<Longrightarrow>
   bm_generation_id ` set (sql_update p (\<lambda>x. store_meter (f x)) t) = bm_generation_id ` set t"
  by (induction t) (auto simp: sql_update_def)

lemma closing_keeps:
  assumes "budget_inv (bs_db s)" "r \<in> set (bd_reservations (bs_db s))" "br_status r = Reserved"
    "\<And>x. identity (h x) = identity x" "\<And>x. bm_generation_id (f x) = bm_generation_id x"
  shows "keeps s (closing s f h m r)"
proof -
  have "\<forall>x \<in> set (bd_reservations (bs_db s)). br_id x = br_id r \<longrightarrow> x = r \<and> on_grid (br_cost x)"
    using budget_invD(2,6)[OF assms(1)] assms(2) by (auto simp: reservation_ok_def dest: keyed_eq)
  moreover have "br_id (h r) = br_id r" using assms(4)[of r] by (simp add: identity_def)
  ultimately have "rows_evolve s (closing s f h m r)" using assms(3,4) by (intro closing_evolves) auto
  moreover have "meters_stay s (closing s f h m r)"
    by (simp add: meters_stay_def closing_def update_meters_def update_reservations_def
        meters_stay_update[OF assms(5)])
  ultimately show ?thesis by (simp add: keeps_def)
qed

lemma closings_keep:
  assumes "budget_inv (bs_db s)" "reservation_of i s = Some r" "br_status r = Reserved"
  shows "keeps s (closing s (unknown_meter now m r) (released_row now) m r)"
    "keeps s (closing s (released_meter now m r) (released_row now) m r)"
    "keeps s (closing s (settled_meter now m r tokens cost) (settled_row now tokens cost) m r)"
  by (rule closing_keeps[OF assms(1)],
    use assms(3) reservation_ofD[OF assms(2)] in \<open>simp_all add: closed_rows identity_def\<close>)+

lemma mark_unknown_body_keeps:
  assumes "budget_inv (bs_db s)"
  shows "keeps s (snd (mark_unknown_body now g i s))"
proof (cases "\<exists>m r. locked_meter g s = Some m \<and> reservation_of i s = Some r \<and> br_status r = Reserved")
  case True
  then show ?thesis using closings_keep[OF assms] by (auto simp: unknown_closing)
next
  case False
  then have "snd (mark_unknown_body now g i s) = s"
    by (auto simp: mark_unknown_body_def split: option.split)
  then show ?thesis by (simp add: keeps_same)
qed

lemma release_body_keeps:
  assumes "budget_inv (bs_db s)"
  shows "keeps s (snd (release_body now g i s))"
proof (cases "\<exists>m r. locked_meter g s = Some m \<and> reservation_of i s = Some r \<and> br_status r = Reserved")
  case True
  then show ?thesis using closings_keep[OF assms] by (auto simp: release_closing)
next
  case False
  then have "snd (release_body now g i s) = s"
    by (auto simp: release_body_def split: option.split)
  then show ?thesis by (simp add: keeps_same)
qed

lemma settle_body_keeps:
  assumes "budget_inv (bs_db s)"
  shows "keeps s (snd (settle_body now g i tokens cost s))"
proof (cases "\<exists>m r. locked_meter g s = Some m \<and> reservation_of i s = Some r \<and> br_status r = Reserved")
  case True
  then show ?thesis using closings_keep[OF assms] by (auto simp: settle_closing)
next
  case False
  then have "snd (settle_body now g i tokens cost s) = s"
    by (auto simp: settle_body_def split: option.split)
  then show ?thesis by (simp add: keeps_same)
qed

lemma settle_keeps:
  assumes "budget_inv (bs_db s)"
  shows "keeps s (snd (settle now g i n d s))"
proof (cases "bindE (positive_int n) (\<lambda>tokens. bindE (money d) (\<lambda>cost. Inr (tokens, cost)))")
  case (Inr tc)
  obtain tokens cost where tc: "tc = (tokens, cost)" by (cases tc)
  have "keeps s (snd (transaction (settle_body now g i tokens cost) s))"
    by (rule keeps_transaction, rule settle_body_keeps[OF assms])
  then show ?thesis unfolding settle_def Inr tc by simp
next
  case (Inl e)
  then show ?thesis unfolding settle_def Inl by (simp add: keeps_same)
qed

lemma reserve_keeps:
  assumes "budget_inv (bs_db s)"
  shows "keeps s (snd (reserve None now q s))"
  using reserve_snd[of None now q s]
proof (elim disjE exE conjE)
  fix cost
  assume eq: "reserve None now q s = transaction (reserve_body None now q (rr_tokens q) cost) s"
  show ?thesis unfolding eq
  proof (rule keeps_transaction)
    fix x
    assume ok: "fst (reserve_body None now q (rr_tokens q) cost s) = Inr x"
    obtain m where m: "locked_meter (rr_generation_id q) s = Some m"
      using ok by (auto simp: reserve_body_def split: option.splits)
    show "keeps s (snd (reserve_body None now q (rr_tokens q) cost s))"
    proof (cases "replay_candidate q s")
      case None
      then have act: "bm_status m = MeterActive" "gate now m q (rr_tokens q) cost = None"
        using ok m by (auto simp: reserve_body_def reject_def split: if_splits option.splits)
      have "rows_evolve s (opened now s m q (rr_tokens q) cost)"
        by (auto simp: rows_evolve_def opened_def list_all2_same)
      moreover have "meters_stay s (opened now s m q (rr_tokens q) cost)"
        by (simp add: meters_stay_def opened_def meters_stay_update charged_meter_def)
      ultimately show ?thesis using m act None
        by (simp add: reserve_body_def insert_reservation_opened keeps_def rows_evolve_def meters_stay_def)
    next
      case (Some r)
      then show ?thesis using m by (simp add: reserve_body_def keeps_same)
    qed
  qed
qed (simp add: keeps_same)

lemma ensure_keeps: "keeps s (snd (ensure_meter policy None now fresh g level deadline s))"
  unfolding ensure_meter_def
proof (rule keeps_transaction)
  have "keeps s (s\<lparr>bs_db := (bs_db s)\<lparr>bd_meters := bd_meters (bs_db s) @ u\<rparr>\<rparr>)" for u
    by (auto simp: keeps_def meters_stay_def intro: rows_evolve_same)
  then show "keeps s (snd (ensure_meter_in_transaction policy None now fresh g level deadline s))"
    by (auto simp: ensure_meter_in_transaction_def insert_do_nothing_def sql_insert_def Let_def
        keeps_same split: option.split)
qed

lemma upgrade_keeps: "keeps s (snd (upgrade policy now g n d is_rag s))"
  unfolding upgrade_def
proof (rule keeps_transaction)
  have "keeps s (update_meters (\<lambda>x. bm_generation_id x = g) (upgraded_meter now target effort) s)"
    for target effort
    by (simp add: keeps_def meters_stay_def update_meters_def meters_stay_update upgraded_meter_def
        rows_evolve_same)
  then show "keeps s (snd (upgrade_body policy now g n d is_rag s))"
    by (auto simp: upgrade_body_def keeps_same split: option.split sum.split prod.split)
qed

lemma run_call_keeps:
  assumes "budget_inv (bs_db s)"
  shows "keeps s (run_call policy c s)"
proof (cases c)
  case (Release now g i)
  have "keeps s (snd (transaction (release_body now g i) s))"
    by (rule keeps_transaction, rule release_body_keeps[OF assms])
  then show ?thesis using Release by (simp add: release_reservation_def)
next
  case (MarkUnknown now g i)
  have "keeps s (snd (transaction (mark_unknown_body now g i) s))"
    by (rule keeps_transaction, rule mark_unknown_body_keeps[OF assms])
  then show ?thesis using MarkUnknown by (simp add: mark_unknown_def)
qed (use assms in \<open>simp_all add: settle_keeps reserve_keeps ensure_keeps upgrade_keeps\<close>)

text \<open>The states some calls later.\<close>

inductive budget_later :: "meter_policy \<Rightarrow> budget_state \<Rightarrow> budget_state \<Rightarrow> bool" for policy s where
  now: "budget_later policy s s"
| call: "budget_later policy s s' \<Longrightarrow> call_owned c s' \<Longrightarrow> budget_later policy s (run_call policy c s')"

lemma budget_later_keeps:
  "budget_later policy s s' \<Longrightarrow> budget_inv (bs_db s) \<Longrightarrow> budget_inv (bs_db s') \<and> keeps s s'"
proof (induction rule: budget_later.induct)
  case now
  then show ?case by (simp add: keeps_same)
next
  case (call s' c)
  then show ?case using run_call_inv[of s' c policy] run_call_keeps[of s' policy c] by (blast intro: keeps_trans)
qed

end
