(* ===== verification/Budget_Traces.thy ===== *)
theory Budget_Traces
  imports Budget_System
begin

text \<open>
  The RAG calls a meter has counted. A reservation given up as unknown keeps its RAG call and a
  released one returns it, though both rows end as released: which of them were given up is part
  of the history, so the runs are followed together with the ids given up. The counter of a meter
  is exactly the number of RAG reservations of its generation that are not released or were
  given up.
\<close>

section \<open>Histories\<close>

fun given_up :: "budget_call \<Rightarrow> budget_state \<Rightarrow> string set" where
  "given_up (MarkUnknown now g i) s =
     (case (locked_meter g s, reservation_of i s) of
        (Some m, Some r) \<Rightarrow> if br_status r = Reserved then {i} else {}
      | _ \<Rightarrow> {})"
| "given_up c s = {}"

inductive budget_trace :: "meter_policy \<Rightarrow> bool \<Rightarrow> string set \<Rightarrow> budget_state \<Rightarrow> bool"
  for policy strict where
  empty: "bs_db s = \<lparr>bd_meters = [], bd_reservations = []\<rparr> \<Longrightarrow> budget_trace policy strict {} s"
| call: "budget_trace policy strict lost s \<Longrightarrow> call_owned c s \<Longrightarrow> (strict \<longrightarrow> disciplined c s) \<Longrightarrow>
    budget_trace policy strict (lost \<union> given_up c s) (run_call policy c s)"

lemma budget_trace_call:
  assumes "budget_trace policy strict lost s" "call_owned c s" "strict \<longrightarrow> disciplined c s"
    "lost' = lost \<union> given_up c s"
  shows "budget_trace policy strict lost' (run_call policy c s)"
  unfolding assms(4) using assms(1-3) by (rule budget_trace.call)

lemma budget_trace_run: "budget_trace policy strict lost s \<Longrightarrow> budget_run policy strict s"
  by (induction rule: budget_trace.induct) (auto intro: budget_run.intros)

lemma budget_run_trace: "budget_run policy strict s \<Longrightarrow> \<exists>lost. budget_trace policy strict lost s"
  by (induction rule: budget_run.induct) (auto intro: budget_trace.intros)

section \<open>Counted RAG calls\<close>

definition counted :: "string set \<Rightarrow> string \<Rightarrow> reservation_row \<Rightarrow> bool" where
  "counted lost g r \<longleftrightarrow> br_generation_id r = g \<and> (br_status r \<noteq> Released \<or> br_id r \<in> lost)"

definition rag_exact :: "string set \<Rightarrow> budget_db \<Rightarrow> bool" where
  "rag_exact lost db \<longleftrightarrow>
     (\<forall>m \<in> set (bd_meters db).
        bm_rag_calls_used m = tally (counted lost (bm_generation_id m)) br_is_rag (bd_reservations db)) \<and>
     (\<forall>i \<in> lost. \<exists>r \<in> set (bd_reservations db). br_id r = i \<and> br_status r = Released)"

lemma tally_cong: "(\<And>r. r \<in> set t \<Longrightarrow> p r = q r) \<Longrightarrow> tally p f t = tally q f t"
  by (induction t) auto

lemma counted_insert:
  assumes "keyed br_id rows" "r \<in> set rows" "br_status r \<noteq> Released"
  shows "tally (counted (insert (br_id r) lost) g) f rows = tally (counted lost g) f rows"
  by (rule tally_cong) (use assms in \<open>auto simp: counted_def dest: keyed_eq\<close>)

lemma closing_rag:
  assumes inv: "budget_inv (bs_db s)" and rag: "rag_exact lost (bs_db s)"
    and m: "m \<in> set (bd_meters (bs_db s))"
    and r: "r \<in> set (bd_reservations (bs_db s))" "br_status r = Reserved"
      "br_generation_id r = bm_generation_id m"
    and h: "br_id (h r) = br_id r" "br_generation_id (h r) = br_generation_id r" "br_is_rag (h r) = br_is_rag r"
    and lost: "lost' = lost \<or> lost' = insert (br_id r) lost \<and> br_status (h r) = Released"
    and f: "bm_generation_id (f m) = bm_generation_id m"
      "bm_rag_calls_used (f m) =
         bm_rag_calls_used m - (if counted lost' (bm_generation_id m) (h r) then 0 else br_is_rag r)"
  shows "rag_exact lost' (bs_db (closing s f h m r))"
proof -
  note D = budget_invD[OF inv]
  let ?rows = "bd_reservations (bs_db s)"
  let ?rs = "sql_update (\<lambda>x. br_id x = br_id r) (\<lambda>x. store_reservation (h x)) ?rows"
  have same: "tally (counted lost' g) br_is_rag ?rows = tally (counted lost g) br_is_rag ?rows" for g
    using lost counted_insert[OF D(2) r(1)] r(2) by auto
  have sum: "tally (counted lost' g) br_is_rag ?rs = tally (counted lost g) br_is_rag ?rows
      - (if g = bm_generation_id m \<and> \<not> counted lost' g (h r) then br_is_rag r else 0)" for g
    unfolding tally_update[OF D(2) r(1)] same
    using r(2,3) h by (auto simp: counted_def)
  have "bm_rag_calls_used x = tally (counted lost' (bm_generation_id x)) br_is_rag ?rs"
    if "x \<in> set (sql_update (\<lambda>x. bm_generation_id x = bm_generation_id m) (\<lambda>x. store_meter (f x)) (bd_meters (bs_db s)))"
    for x
    using that rag m f unfolding set_sql_update_key[OF D(1) m] sum rag_exact_def by auto
  moreover have "\<exists>x \<in> set ?rs. br_id x = i \<and> br_status x = Released" if "i \<in> lost'" for i
  proof (cases "i = br_id r \<and> br_status (h r) = Released")
    case True
    then show ?thesis using h(1) by (intro bexI[of _ "store_reservation (h r)"])
        (auto simp: set_sql_update_key[OF D(2) r(1)])
  next
    case False
    then have "i \<in> lost" using that lost by auto
    then obtain x where x: "x \<in> set ?rows" "br_id x = i" "br_status x = Released"
      using rag unfolding rag_exact_def by blast
    then have "br_id x \<noteq> br_id r" using keyed_eq[OF D(2) x(1) r(1)] r(2) by auto
    then show ?thesis using x by (auto simp: set_sql_update_key[OF D(2) r(1)])
  qed
  ultimately show ?thesis
    by (simp add: rag_exact_def closing_def update_meters_def update_reservations_def)
qed

lemma rag_lost_Released:
  "budget_inv db \<Longrightarrow> rag_exact lost db \<Longrightarrow> r \<in> set (bd_reservations db) \<Longrightarrow> br_status r \<noteq> Released \<Longrightarrow>
   br_id r \<notin> lost"
  by (auto simp: rag_exact_def dest: keyed_eq[OF budget_invD(2)])

lemma unknown_rag:
  assumes "budget_inv (bs_db s)" "rag_exact lost (bs_db s)" "m \<in> set (bd_meters (bs_db s))"
    "r \<in> set (bd_reservations (bs_db s))" "br_status r = Reserved" "br_generation_id r = bm_generation_id m"
  shows "rag_exact (insert (br_id r) lost) (bs_db (closing s (unknown_meter now m r) (released_row now) m r))"
  using assms by (intro closing_rag[OF assms(1,2)]) (auto simp: closed_rows counted_def)

lemma release_rag:
  assumes "budget_inv (bs_db s)" "rag_exact lost (bs_db s)" "m \<in> set (bd_meters (bs_db s))"
    "r \<in> set (bd_reservations (bs_db s))" "br_status r = Reserved" "br_generation_id r = bm_generation_id m"
  shows "rag_exact lost (bs_db (closing s (released_meter now m r) (released_row now) m r))"
  using assms rag_lost_Released[OF assms(1,2,4)]
  by (intro closing_rag[OF assms(1,2)]) (auto simp: closed_rows counted_def)

lemma settle_rag:
  assumes "budget_inv (bs_db s)" "rag_exact lost (bs_db s)" "m \<in> set (bd_meters (bs_db s))"
    "r \<in> set (bd_reservations (bs_db s))" "br_status r = Reserved" "br_generation_id r = bm_generation_id m"
  shows "rag_exact lost
    (bs_db (closing s (settled_meter now m r tokens cost) (settled_row now tokens cost) m r))"
  using assms by (intro closing_rag[OF assms(1,2)]) (auto simp: closed_rows counted_def)

lemma opened_rag:
  assumes inv: "budget_inv (bs_db s)" and rag: "rag_exact lost (bs_db s)"
    and m: "locked_meter (rr_generation_id q) s = Some m" and new: "replay_candidate q s = None"
  shows "rag_exact lost (bs_db (opened now s m q tokens cost))"
proof -
  note gm = locked_meterD[OF m]
  let ?r = "store_reservation (new_reservation now q tokens cost)"
  have cnt: "counted lost g ?r \<longleftrightarrow> g = bm_generation_id m" for g
    using gm by (auto simp: counted_def new_reservation_def)
  have "bm_rag_calls_used x =
      tally (counted lost (bm_generation_id x)) br_is_rag (bd_reservations (bs_db s) @ [?r])"
    if "x \<in> set (sql_update (\<lambda>x. bm_generation_id x = bm_generation_id m)
      (\<lambda>x. store_meter (charged_meter now m q tokens cost x)) (bd_meters (bs_db s)))" for x
    using that rag gm unfolding set_sql_update_key[OF budget_invD(1)[OF inv] conjunct1[OF gm]] rag_exact_def
    by (elim disjE) (simp_all add: cnt charged_meter_def, simp add: new_reservation_def)
  then show ?thesis
    using rag unfolding rag_exact_def by (fastforce simp: opened_def)
qed

section \<open>Preservation\<close>

lemma transaction_rag:
  assumes "rag_exact lost (bs_db s)" "\<And>x. fst (body s) = Inr x \<Longrightarrow> rag_exact lost (bs_db (snd (body s)))"
  shows "rag_exact lost (bs_db (snd (transaction body s)))"
  using assms by (simp add: transaction_db split: sum.split)

lemma mark_unknown_rag:
  assumes "budget_inv (bs_db s)" "rag_exact lost (bs_db s)" "owned g i s"
  shows "rag_exact (lost \<union> given_up (MarkUnknown now g i) s) (bs_db (snd (mark_unknown now g i s)))"
proof (cases "\<exists>m r. locked_meter g s = Some m \<and> reservation_of i s = Some r \<and> br_status r = Reserved")
  case True
  then obtain m r where m: "locked_meter g s = Some m" and r: "reservation_of i s = Some r"
    and st: "br_status r = Reserved" by blast
  show ?thesis
    using unknown_rag[OF assms(1,2), of m r now] locked_meterD[OF m] reservation_ofD[OF r] st
      ownedD[OF assms(3) r]
    by (simp add: mark_unknown_def transaction_db unknown_closing[OF m r st] m r)
next
  case False
  then have "bs_db (snd (mark_unknown now g i s)) = bs_db s" "given_up (MarkUnknown now g i) s = {}"
    by (auto simp: mark_unknown_def transaction_db mark_unknown_body_def split: option.split)
  then show ?thesis using assms(2) by simp
qed

lemma release_reservation_rag:
  assumes "budget_inv (bs_db s)" "rag_exact lost (bs_db s)" "owned g i s"
  shows "rag_exact lost (bs_db (snd (release_reservation now g i s)))"
proof (cases "\<exists>m r. locked_meter g s = Some m \<and> reservation_of i s = Some r \<and> br_status r = Reserved")
  case True
  then obtain m r where m: "locked_meter g s = Some m" and r: "reservation_of i s = Some r"
    and st: "br_status r = Reserved" by blast
  show ?thesis
    using release_rag[OF assms(1,2), of m r now] locked_meterD[OF m] reservation_ofD[OF r] st
      ownedD[OF assms(3) r]
    by (simp add: release_reservation_def transaction_db release_closing[OF m r st])
next
  case False
  then have "bs_db (snd (release_reservation now g i s)) = bs_db s"
    by (auto simp: release_reservation_def transaction_db release_body_def split: option.split)
  then show ?thesis using assms(2) by simp
qed

lemma settle_call_rag:
  assumes "budget_inv (bs_db s)" "rag_exact lost (bs_db s)" "owned g i s"
  shows "rag_exact lost (bs_db (snd (settle now g i n d s)))"
proof (cases "bindE (positive_int n) (\<lambda>tokens. bindE (money d) (\<lambda>cost. Inr (tokens, cost)))")
  case (Inl e)
  then show ?thesis using assms(2) by (simp add: settle_def)
next
  case (Inr tc)
  obtain tokens cost where tc: "tc = (tokens, cost)" by (cases tc)
  have "rag_exact lost (bs_db (snd (settle_body now g i tokens cost s)))"
  proof (cases "\<exists>m r. locked_meter g s = Some m \<and> reservation_of i s = Some r \<and> br_status r = Reserved")
    case True
    then obtain m r where m: "locked_meter g s = Some m" and r: "reservation_of i s = Some r"
      and st: "br_status r = Reserved" by blast
    show ?thesis
      using settle_rag[OF assms(1,2), of m r now tokens cost] locked_meterD[OF m] reservation_ofD[OF r] st
        ownedD[OF assms(3) r]
      by (simp add: settle_closing[OF m r st])
  next
    case False
    then have "snd (settle_body now g i tokens cost s) = s"
      by (auto simp: settle_body_def split: option.split)
    then show ?thesis using assms(2) by simp
  qed
  then have "rag_exact lost (bs_db (snd (transaction (settle_body now g i tokens cost) s)))"
    by (rule transaction_rag[OF assms(2)])
  then show ?thesis unfolding settle_def Inr tc by simp
qed

lemma reserve_rag:
  assumes "budget_inv (bs_db s)" "rag_exact lost (bs_db s)"
  shows "rag_exact lost (bs_db (snd (reserve None now q s)))"
  using reserve_snd[of None now q s]
proof (elim disjE exE conjE)
  fix cost
  assume eq: "reserve None now q s = transaction (reserve_body None now q (rr_tokens q) cost) s"
  show ?thesis unfolding eq
  proof (rule transaction_rag[OF assms(2)])
    fix x
    assume ok: "fst (reserve_body None now q (rr_tokens q) cost s) = Inr x"
    obtain m where m: "locked_meter (rr_generation_id q) s = Some m"
      using ok by (auto simp: reserve_body_def split: option.splits)
    show "rag_exact lost (bs_db (snd (reserve_body None now q (rr_tokens q) cost s)))"
    proof (cases "replay_candidate q s")
      case None
      then have "bm_status m = MeterActive" "gate now m q (rr_tokens q) cost = None"
        using ok m by (auto simp: reserve_body_def reject_def split: if_splits option.splits)
      then show ?thesis using opened_rag[OF assms m None] m None
        by (simp add: reserve_body_def insert_reservation_opened)
    next
      case (Some r)
      then show ?thesis using assms(2) m by (simp add: reserve_body_def)
    qed
  qed
qed (use assms in simp)

lemma ensure_rag:
  assumes inv: "budget_inv (bs_db s)" and rag: "rag_exact lost (bs_db s)"
  shows "rag_exact lost (bs_db (snd (ensure_meter policy None now fresh g level deadline s)))"
  unfolding ensure_meter_def
proof (rule transaction_rag[OF rag])
  show "rag_exact lost (bs_db (snd (ensure_meter_in_transaction policy None now fresh g level deadline s)))"
  proof (cases "locked_meter g s")
    case None
    then have "g \<notin> bm_generation_id ` set (bd_meters (bs_db s))"
      by (auto simp: locked_meter_def sql_first_None)
    then have "tally (counted lost g) br_is_rag (bd_reservations (bs_db s)) = 0"
      using budget_invD(7)[OF inv] by (auto intro!: tally_zero simp: counted_def)
    then show ?thesis using rag None
      by (auto simp: ensure_meter_in_transaction_def insert_do_nothing_def sql_insert_def
          locked_meter_def new_meter_def rag_exact_def Let_def split: option.splits)
  qed (use rag in \<open>auto simp: ensure_meter_in_transaction_def split: option.splits\<close>)
qed

lemma upgrade_rag:
  assumes rag: "rag_exact lost (bs_db s)"
  shows "rag_exact lost (bs_db (snd (upgrade policy now g n d is_rag s)))"
  unfolding upgrade_def
proof (rule transaction_rag[OF rag])
  have "rag_exact lost (bs_db (update_meters (\<lambda>x. bm_generation_id x = g) (upgraded_meter now target effort) s))"
    for target effort
    using rag by (auto simp: rag_exact_def update_meters_def set_sql_update upgraded_meter_def split: if_splits)
  then show "rag_exact lost (bs_db (snd (upgrade_body policy now g n d is_rag s)))"
    using rag by (auto simp: upgrade_body_def split: option.split sum.split prod.split)
qed

lemma run_call_rag:
  assumes "budget_inv (bs_db s)" "rag_exact lost (bs_db s)" "call_owned c s"
  shows "rag_exact (lost \<union> given_up c s) (bs_db (run_call policy c s))"
  using assms mark_unknown_rag[OF assms(1,2)]
  by (cases c) (simp_all add: ensure_rag reserve_rag settle_call_rag release_reservation_rag upgrade_rag
      del: given_up.simps(1))

lemma budget_trace_rag: "budget_trace policy strict lost s \<Longrightarrow> rag_exact lost (bs_db s)"
proof (induction rule: budget_trace.induct)
  case (call lost s c)
  then show ?case using budget_run_inv[OF budget_trace_run[OF call.hyps(1)]] by (intro run_call_rag)
qed (simp add: rag_exact_def)

end
