(* ===== verification/Budget_Properties.thy ===== *)
theory Budget_Properties
  imports Budget_Traces
begin

text \<open>
  What the resource budget promises to the chat worker: the accounting and the limits in every
  reachable state, what a replayed, a refused and a closed reservation do, and the two places
  where the code does not do what it means to.
\<close>

section \<open>A concrete run\<close>

definition demo_policy :: meter_policy where
  "demo_policy =
     \<lparr>mp_efforts = [''quick'' \<mapsto> \<lparr>ef_max_rag_calls = 1, ef_max_wall_seconds = 20, ef_max_total_tokens = 100,
          ef_max_cost = 1, ef_candidate_documents = 5\<rparr>,
        ''think'' \<mapsto> \<lparr>ef_max_rag_calls = 8, ef_max_wall_seconds = 60, ef_max_total_tokens = 200,
          ef_max_cost = 2, ef_candidate_documents = 7\<rparr>,
        ''deep'' \<mapsto> \<lparr>ef_max_rag_calls = 10, ef_max_wall_seconds = 180, ef_max_total_tokens = 400,
          ef_max_cost = 4, ef_candidate_documents = 9\<rparr>],
      mp_price_version_id = ''p1'', mp_currency_code = ''EUR'', mp_cost_estimator = None,
      mp_version = BUDGET_POLICY_VERSION\<rparr>"

definition demo_request :: "string \<Rightarrow> string \<Rightarrow> int \<Rightarrow> reserve_request" where
  "demo_request g i n = \<lparr>rr_generation_id = g, rr_id = i, rr_operation_kind = ''chat'', rr_tokens = n,
     rr_cost = Some (Finite (1 / 10)), rr_is_rag = False, rr_fingerprint = i\<rparr>"

definition demo_start :: budget_state where
  "demo_start = \<lparr>bs_db = \<lparr>bd_meters = [], bd_reservations = []\<rparr>, bs_metrics = []\<rparr>"

definition demo_two :: budget_state where
  "demo_two = run_call demo_policy (EnsureMeter 0 ''b'' ''g2'' ''quick'' 900000000)
     (run_call demo_policy (EnsureMeter 0 ''a'' ''g1'' ''quick'' 900000000) demo_start)"

definition demo_reserved :: budget_state where
  "demo_reserved = run_call demo_policy (Reserve 1 (demo_request ''g1'' ''r1'' 40)) demo_two"

lemma demo_valid: "validate_policy False demo_policy = Inr ()"
  by code_simp

lemma demo_run: "budget_run demo_policy strict demo_two" "budget_run demo_policy strict demo_reserved"
proof -
  have "budget_run demo_policy strict demo_start" by (rule budget_run.empty) (simp add: demo_start_def)
  then show two: "budget_run demo_policy strict demo_two" unfolding demo_two_def
    by (intro budget_run.call) simp_all
  then show "budget_run demo_policy strict demo_reserved" unfolding demo_reserved_def
    by (intro budget_run.call) simp_all
qed

section \<open>Reachable states\<close>

definition demo_rag :: budget_state where
  "demo_rag = run_call demo_policy (Reserve 1 ((demo_request ''g1'' ''r2'' 10)\<lparr>rr_is_rag := True\<rparr>)) demo_reserved"

definition demo_given_up :: budget_state where
  "demo_given_up = run_call demo_policy (MarkUnknown 2 ''g1'' ''r2'') demo_rag"

lemma demo_trace: "budget_trace demo_policy strict {''r2''} demo_given_up"
proof -
  have "budget_trace demo_policy strict {} demo_start"
    by (rule budget_trace.empty) (simp add: demo_start_def)
  then have "budget_trace demo_policy strict {}
      (run_call demo_policy (EnsureMeter 0 ''a'' ''g1'' ''quick'' 900000000) demo_start)"
    by (rule budget_trace_call) simp_all
  then have "budget_trace demo_policy strict {} demo_two"
    unfolding demo_two_def by (rule budget_trace_call) simp_all
  then have "budget_trace demo_policy strict {} demo_reserved"
    unfolding demo_reserved_def by (rule budget_trace_call) simp_all
  then have "budget_trace demo_policy strict {} demo_rag"
    unfolding demo_rag_def by (rule budget_trace_call) simp_all
  moreover have "owned ''g1'' ''r2'' demo_rag" "given_up (MarkUnknown 2 ''g1'' ''r2'') demo_rag = {''r2''}"
    by code_simp+
  ultimately show ?thesis
    unfolding demo_given_up_def by (intro budget_trace_call[of _ _ "{}"]) simp_all
qed

text \<open>C20: In every state reached by calls that settle, release or give up a reservation only
  through the generation it belongs to - the service itself does not check that - the reserved
  tokens and the reserved cost of each meter are exactly the sums over the open reservations of its
  generation, the used tokens and the settled cost the sums of what its settled reservations
  actually took, and its RAG counter is exactly the number of its RAG reservations that are open,
  settled, or were given up as unknown (such a one keeps its RAG call; a released one returns it).
  Ids and fingerprints are unique, and every reservation has a meter.
\<close>

theorem budget_accounting:
  assumes "budget_trace policy strict lost s"
  shows "budget_inv (bs_db s) \<and>
    (\<forall>m \<in> set (bd_meters (bs_db s)). bm_rag_calls_used m =
       tally (counted lost (bm_generation_id m)) br_is_rag (bd_reservations (bs_db s)))"
  using budget_run_inv[OF budget_trace_run[OF assms]] budget_trace_rag[OF assms]
  by (simp add: rag_exact_def)

theorem budget_accounting_witness:
  "budget_inv (bs_db demo_given_up) \<and>
   map bm_rag_calls_used (bd_meters (bs_db demo_given_up)) = [1, 0] \<and>
   tally (in_force ''g1'') br_is_rag (bd_reservations (bs_db demo_given_up)) = 0 \<and>
   map (\<lambda>m. tally (counted {''r2''} (bm_generation_id m)) br_is_rag (bd_reservations (bs_db demo_given_up)))
     (bd_meters (bs_db demo_given_up)) = [1, 0]"
proof (intro conjI)
  show used: "map bm_rag_calls_used (bd_meters (bs_db demo_given_up)) = [1, 0]" by code_simp
  have "map (\<lambda>m. tally (counted {''r2''} (bm_generation_id m)) br_is_rag (bd_reservations (bs_db demo_given_up)))
     (bd_meters (bs_db demo_given_up)) = map bm_rag_calls_used (bd_meters (bs_db demo_given_up))"
    using budget_accounting[OF demo_trace] by (intro map_cong) auto
  then show "map (\<lambda>m. tally (counted {''r2''} (bm_generation_id m)) br_is_rag (bd_reservations (bs_db demo_given_up)))
     (bd_meters (bs_db demo_given_up)) = [1, 0]" using used by simp
qed (use budget_accounting[OF demo_trace] in blast, code_simp)

text \<open>C21: Under a valid effort policy, and when the callers settle, release and give up a
  reservation only through the generation it belongs to, no counter of a reachable meter is
  negative: reserved tokens, reserved cost, used tokens, settled cost and RAG calls are at least
  zero. While a meter is active, its settled plus reserved cost is at most its cost limit and its
  used tokens are at most its token limit (its reserved tokens and its RAG calls may go beyond
  when a settlement took more than was reserved or an upgrade went to a lower RAG limit). When the
  callers also settle no more than they reserved and upgrade only for RAG steps, then in every
  state, active or exhausted, settled plus reserved cost, used plus reserved tokens and RAG calls
  are within their limits.
\<close>

theorem budget_bounds:
  assumes "validate_policy False policy = Inr ()" "budget_run policy strict s"
    "m \<in> set (bd_meters (bs_db s))"
  shows "0 \<le> bm_reserved_tokens m \<and> 0 \<le> bm_reserved_cost m \<and> 0 \<le> bm_tokens_used m \<and>
    0 \<le> bm_settled_cost m \<and> 0 \<le> bm_rag_calls_used m \<and>
    (bm_status m = MeterActive \<longrightarrow>
       bm_settled_cost m + bm_reserved_cost m \<le> bm_max_cost m \<and> bm_tokens_used m \<le> bm_max_total_tokens m) \<and>
    (strict \<longrightarrow>
       bm_settled_cost m + bm_reserved_cost m \<le> bm_max_cost m \<and>
       bm_tokens_used m + bm_reserved_tokens m \<le> bm_max_total_tokens m \<and>
       bm_rag_calls_used m \<le> bm_max_rag_calls m)"
  using budget_run_within[OF assms] meter_amounts[OF budget_run_inv[OF assms(2)] assms(3)]
  by (simp add: within_limits_def)

theorem budget_bounds_witness:
  "bm_tokens_used (hd (bd_meters (bs_db demo_reserved))) + bm_reserved_tokens (hd (bd_meters (bs_db demo_reserved))) \<le> 100"
proof -
  have "hd (bd_meters (bs_db demo_reserved)) \<in> set (bd_meters (bs_db demo_reserved))"
    "bm_max_total_tokens (hd (bd_meters (bs_db demo_reserved))) = 100"
    by code_simp+
  then show ?thesis using budget_bounds[OF demo_valid demo_run(2)[of True]] by metis
qed

text \<open>C22: Every row of a reachable state satisfies the CHECK constraints of its table (effort levels,
  a reason for an exhausted meter, the RAG flag), so no statement of the service can fail on them.
\<close>

theorem budget_rows_checked:
  assumes "budget_run policy strict s"
  shows "(\<forall>m \<in> set (bd_meters (bs_db s)). meter_checks m) \<and>
    (\<forall>r \<in> set (bd_reservations (bs_db s)). br_is_rag r \<in> {0, 1})"
  using budget_run_checks[OF assms] budget_invD(6)[OF budget_run_inv[OF assms]]
  by (auto simp: reservation_ok_def)

theorem budget_rows_checked_witness: "list_all meter_checks (bd_meters (bs_db demo_reserved))"
  using budget_rows_checked[OF demo_run(2)] by (simp add: list_all_iff)

section \<open>Replays\<close>

lemma locked_meter_in: "locked_meter g s = Some m \<Longrightarrow> g \<in> bm_generation_id ` set (bd_meters (bs_db s))"
  using locked_meterD[of g s m] by blast

lemma reserve_new:
  assumes "fst (reserve None now q s) = Inr x" "replay_candidate q s = None"
  obtains m c where "locked_meter (rr_generation_id q) s = Some m" "rr_cost q = Some (Finite c)"
    "0 \<le> c" "0 \<le> rr_tokens q" "bm_status m = MeterActive" "gate now m q (rr_tokens q) c = None"
    "reserve None now q s = (Inr (reservation (new_reservation now q (rr_tokens q) c)),
       increment ''generation_budget_reservation'' ''created'' (opened now s m q (rr_tokens q) c))"
proof -
  obtain c where c: "rr_cost q = Some (Finite c)" "0 \<le> c" "0 \<le> rr_tokens q"
    and v: "rr_id q \<noteq> []" "rr_operation_kind q \<noteq> []" "rr_fingerprint q \<noteq> []"
    and body: "fst (reserve_body None now q (rr_tokens q) c s) = Inr x"
    using assms(1) by (auto simp: reserve_Inr)
  obtain m where m: "locked_meter (rr_generation_id q) s = Some m"
    using body by (auto simp: reserve_body_def split: option.splits)
  have act: "bm_status m = MeterActive" "gate now m q (rr_tokens q) c = None"
    using body m assms(2) by (auto simp: reserve_body_def reject_def split: if_splits option.splits)
  then have "reserve None now q s = (Inr (reservation (new_reservation now q (rr_tokens q) c)),
       increment ''generation_budget_reservation'' ''created'' (opened now s m q (rr_tokens q) c))"
    using c v m assms(2) by (simp add: reserve_def positive_int_def money_def transaction_def
        reserve_body_def insert_reservation_opened)
  with m c act show ?thesis by (rule that)
qed

lemma replay_candidate_row:
  assumes "replay_candidate q s = Some r"
  shows "r \<in> set (bd_reservations (bs_db s))"
  using assms
  by (auto simp: replay_candidate_def reservation_of_def split: option.splits dest: sql_first_Some)

lemma reserve_replays:
  assumes "fst (reserve None now q s) = Inr x" "replay_candidate q s = Some r"
  shows "reserve None now q s = (Inr (reservation r), s) \<and>
    (\<exists>c. rr_cost q = Some (Finite c) \<and> same_request q (rr_tokens q) c r) \<and>
    rr_generation_id q \<in> bm_generation_id ` set (bd_meters (bs_db s))"
proof -
  obtain c where c: "rr_cost q = Some (Finite c)" "0 \<le> c" "0 \<le> rr_tokens q"
    and v: "rr_id q \<noteq> []" "rr_operation_kind q \<noteq> []" "rr_fingerprint q \<noteq> []"
    and body: "fst (reserve_body None now q (rr_tokens q) c s) = Inr x"
    using assms(1) by (auto simp: reserve_Inr)
  obtain m where m: "locked_meter (rr_generation_id q) s = Some m"
    using body by (auto simp: reserve_body_def split: option.splits)
  have same: "same_request q (rr_tokens q) c r"
    using body m assms(2) by (auto simp: reserve_body_def split: if_splits)
  then show ?thesis using c v m assms(2) locked_meter_in[OF m]
    by (simp add: reserve_def positive_int_def money_def transaction_def reserve_body_def)
qed

lemma opened_rows:
  assumes "replay_candidate q s = None"
  shows "reservation_of (rr_id q) (increment a b (opened now s m q tokens c)) =
    Some (store_reservation (new_reservation now q tokens c))"
proof -
  have "rr_id q \<notin> br_id ` set (bd_reservations (bs_db s))"
    using assms by (simp add: replay_candidate_None)
  then have "sql_first (\<lambda>r. br_id r = rr_id q) (bd_reservations (bs_db s)) = None"
    by (auto simp: sql_first_None image_iff)
  then show ?thesis
    by (simp add: reservation_of_def increment_def opened_def sql_first_append)
      (simp add: new_reservation_def)
qed

lemma reserve_row:
  assumes inv: "budget_inv (bs_db s)" and ok: "fst (reserve None now q s) = Inr x"
    and cost: "rr_cost q = Some (Finite c)" "on_grid c"
  obtains r where "reservation_of (rr_id q) (snd (reserve None now q s)) = Some r"
    "same_request q (rr_tokens q) c r" "x = reservation r"
    "rr_generation_id q \<in> bm_generation_id ` set (bd_meters (bs_db (snd (reserve None now q s))))"
proof (cases "replay_candidate q s")
  case None
  obtain m d where m: "locked_meter (rr_generation_id q) s = Some m" and "rr_cost q = Some (Finite d)"
    and "reserve None now q s = (Inr (reservation (new_reservation now q (rr_tokens q) d)),
       increment ''generation_budget_reservation'' ''created'' (opened now s m q (rr_tokens q) d))"
    by (rule reserve_new[OF ok None])
  then have res: "reserve None now q s = (Inr (reservation (new_reservation now q (rr_tokens q) c)),
       increment ''generation_budget_reservation'' ''created'' (opened now s m q (rr_tokens q) c))"
    using cost(1) by simp
  have r: "store_reservation (new_reservation now q (rr_tokens q) c) = new_reservation now q (rr_tokens q) c"
    using cost(2) by (simp add: store_reservation_def new_reservation_def)
  show ?thesis
  proof (rule that)
    show "reservation_of (rr_id q) (snd (reserve None now q s)) = Some (new_reservation now q (rr_tokens q) c)"
      using opened_rows[OF None] by (simp add: res r)
    show "same_request q (rr_tokens q) c (new_reservation now q (rr_tokens q) c)"
      by (simp add: same_request_def new_reservation_def)
    show "x = reservation (new_reservation now q (rr_tokens q) c)" using ok by (simp add: res)
    show "rr_generation_id q \<in> bm_generation_id ` set (bd_meters (bs_db (snd (reserve None now q s))))"
      using locked_meter_in[OF m]
      by (simp add: res increment_def opened_def meters_stay_update charged_meter_def)
  qed
next
  case (Some r)
  note re = reserve_replays[OF ok Some]
  have "reservation_of (rr_id q) s = Some r"
    using re replay_candidate_row[OF Some] budget_invD(2)[OF inv]
    by (auto simp: reservation_of_Some same_request_def)
  then show ?thesis using that[of r] re ok cost(1) by auto
qed

lemma reserve_found:
  assumes "reservation_of (rr_id q) s = Some r" "locked_meter (rr_generation_id q) s = Some m"
    "rr_id q \<noteq> []" "rr_operation_kind q \<noteq> []" "rr_fingerprint q \<noteq> []" "0 \<le> rr_tokens q"
    "rr_cost q = Some (Finite c)" "0 \<le> c"
  shows "reserve race now q s =
    (if same_request q (rr_tokens q) c r then Inr (reservation r)
     else Inl (PlatformError ''budget_reservation_conflict'' 409), s)"
  using assms by (simp add: reserve_def positive_int_def money_def transaction_def reserve_body_def
      replay_candidate_def)

lemma same_request_evolves:
  "row_evolves r r' \<Longrightarrow> same_request q tokens c r' = same_request q tokens c r"
  by (simp add: row_evolves_def identity_def same_request_def)

lemma row_evolves_reservation:
  "row_evolves r r' \<Longrightarrow> reservation r' = (reservation r)\<lparr>bz_status := br_status r'\<rparr>"
  by (simp add: row_evolves_def identity_def reservation_def)

text \<open>A reservation is granted once: after a granted request, at any later time and whatever
  calls came in between, the same request is answered with the same reservation (at its current
  status) without any further charge, and another request under the same reservation id with a
  different operation, fingerprint, amount or kind is refused as a conflict and changes nothing.
  (Costs are taken with at most ten decimal places, the precision of the column.)
\<close>

theorem reserve_granted_once:
  assumes "budget_run policy strict s"
    and "fst (reserve None now q s) = Inr x" "rr_cost q = Some (Finite c)" "on_grid c"
    and "budget_later policy (snd (reserve None now q s)) s'"
  shows "(\<exists>st. reserve race now' q s' = (Inr (x\<lparr>bz_status := st\<rparr>), s')) \<and>
    (\<forall>q' c'. rr_id q' = rr_id q \<and> rr_generation_id q' = rr_generation_id q \<and>
       rr_operation_kind q' \<noteq> [] \<and> rr_fingerprint q' \<noteq> [] \<and> 0 \<le> rr_tokens q' \<and>
       rr_cost q' = Some (Finite c') \<and> 0 \<le> c' \<and> q' \<noteq> q \<longrightarrow>
       reserve race now' q' s' = (Inl (PlatformError ''budget_reservation_conflict'' 409), s'))"
proof -
  have inv: "budget_inv (bs_db s)" by (rule budget_run_inv[OF assms(1)])
  obtain r where r: "reservation_of (rr_id q) (snd (reserve None now q s)) = Some r"
    and same: "same_request q (rr_tokens q) c r" and x: "x = reservation r"
    and g: "rr_generation_id q \<in> bm_generation_id ` set (bd_meters (bs_db (snd (reserve None now q s))))"
    by (rule reserve_row[OF inv assms(2-4)])
  have later: "budget_inv (bs_db s')" "keeps (snd (reserve None now q s)) s'"
    using budget_later_keeps[OF assms(5) reserve_inv[OF inv]] by simp_all
  obtain r' where r': "reservation_of (rr_id q) s' = Some r'" "row_evolves r r'"
    using rows_evolve_first[OF _ r, of s'] later(2) by (auto simp: keeps_def)
  obtain m where m: "locked_meter (rr_generation_id q) s' = Some m"
    using g later by (auto simp: keeps_def meters_stay_def locked_meter_Some[OF budget_invD(1)[OF later(1)]])
  have v: "rr_id q \<noteq> []" "rr_operation_kind q \<noteq> []" "rr_fingerprint q \<noteq> []" "0 \<le> rr_tokens q" "0 \<le> c"
    using assms(2,3) by (auto simp: reserve_Inr)
  have same': "same_request q (rr_tokens q) c r'" using same same_request_evolves[OF r'(2)] by simp
  have "reservation r' = x\<lparr>bz_status := br_status r'\<rparr>"
    using x row_evolves_reservation[OF r'(2)] by (auto simp: reservation_def)
  then have 1: "reserve race now' q s' = (Inr (x\<lparr>bz_status := br_status r'\<rparr>), s')"
    using same' by (simp add: reserve_found[OF r'(1) m v(1-4) assms(3) v(5)])
  have 2: "reserve race now' q' s' = (Inl (PlatformError ''budget_reservation_conflict'' 409), s')"
    if q': "rr_id q' = rr_id q" "rr_generation_id q' = rr_generation_id q" "rr_operation_kind q' \<noteq> []"
      "rr_fingerprint q' \<noteq> []" "0 \<le> rr_tokens q'" "rr_cost q' = Some (Finite c')" "0 \<le> c'" "q' \<noteq> q"
    for q' c'
  proof -
    have "\<not> same_request q' (rr_tokens q') c' r'"
    proof
      assume "same_request q' (rr_tokens q') c' r'"
      then have "q' = q" using same' q' assms(3)
        by (intro reserve_request.equality) (auto simp: same_request_def)
      with q'(8) show False ..
    qed
    moreover have "rr_id q' \<noteq> []" using v(1) q'(1) by simp
    moreover have "reservation_of (rr_id q') s' = Some r'" "locked_meter (rr_generation_id q') s' = Some m"
      using r'(1) m q'(1,2) by simp_all
    ultimately show ?thesis using q'(3-7) by (simp add: reserve_found)
  qed
  from 1 2 show ?thesis by blast
qed

theorem reserve_granted_once_witness:
  "\<exists>st x. reserve None 9 (demo_request ''g1'' ''r1'' 40) (snd (release_reservation 2 ''g1'' ''r1'' demo_reserved))
    = (Inr (x\<lparr>bz_status := st\<rparr>), snd (release_reservation 2 ''g1'' ''r1'' demo_reserved))"
proof -
  let ?q = "demo_request ''g1'' ''r1'' 40"
  have eq: "snd (reserve None 1 ?q demo_two) = demo_reserved" by (simp add: demo_reserved_def)
  have "is_ok (fst (reserve None 1 ?q demo_two))" by code_simp
  then obtain x where x: "fst (reserve None 1 ?q demo_two) = Inr x"
    by (cases "fst (reserve None 1 ?q demo_two)") simp_all
  have "call_owned (Release 2 ''g1'' ''r1'') demo_reserved" by code_simp
  then have "budget_later demo_policy demo_reserved (run_call demo_policy (Release 2 ''g1'' ''r1'') demo_reserved)"
    by (intro budget_later.call budget_later.now)
  then have later: "budget_later demo_policy (snd (reserve None 1 ?q demo_two))
      (snd (release_reservation 2 ''g1'' ''r1'' demo_reserved))"
    by (simp add: eq)
  have "on_grid (1 / 10)" by code_simp
  then show ?thesis
    using reserve_granted_once[OF demo_run(1) x _ _ later, of "1 / 10" None 9]
    by (auto simp: demo_request_def)
qed

section \<open>Closing a reservation\<close>

text \<open>C23: Reserving and releasing are inverse on the meter: releasing a reservation just granted
  gives back exactly what it had taken, so the meter shows the snapshot it showed before.
\<close>

theorem reserve_release_roundtrip:
  assumes "budget_run policy strict s" "meter (rr_generation_id q) s = Inr before"
    "rr_id q \<notin> br_id ` set (bd_reservations (bs_db s))"
    "fst (reserve None now q s) = Inr x"
  shows "meter (rr_generation_id q)
    (snd (release_reservation now' (rr_generation_id q) (rr_id q) (snd (reserve None now q s)))) = Inr before"
proof -
  note inv = budget_run_inv[OF assms(1)]
  have None: "replay_candidate q s = None"
  proof (rule ccontr)
    assume "replay_candidate q s \<noteq> None"
    then obtain r where r: "replay_candidate q s = Some r" by blast
    show False using reserve_replays[OF assms(4) r] replay_candidate_row[OF r] assms(3)
      by (auto simp: same_request_def image_iff)
  qed
  obtain m c where m: "locked_meter (rr_generation_id q) s = Some m"
    and c: "rr_cost q = Some (Finite c)" "0 \<le> c" "0 \<le> rr_tokens q"
    and res: "reserve None now q s = (Inr (reservation (new_reservation now q (rr_tokens q) c)),
       increment ''generation_budget_reservation'' ''created'' (opened now s m q (rr_tokens q) c))"
    by (rule reserve_new[OF assms(4) None])
  have before: "before = snapshot m" using assms(2) m by (simp add: meter_def)
  note gm = locked_meterD[OF m]
  let ?r = "store_reservation (new_reservation now q (rr_tokens q) c)"
  let ?m = "store_meter (charged_meter now m q (rr_tokens q) c m)"
  have s1: "snd (reserve None now q s) = increment ''generation_budget_reservation'' ''created''
      (opened now s m q (rr_tokens q) c)" (is "_ = ?s1") by (simp add: res)
  have inv1: "budget_inv (bs_db ?s1)" using opened_inv[OF inv m None c(3,2)] by simp
  note r1 = opened_rows[OF None, of "''generation_budget_reservation''" "''created''" now m "rr_tokens q" c]
  have m1: "locked_meter (rr_generation_id q) ?s1 = Some ?m"
    using gm set_sql_update_key[OF budget_invD(1)[OF inv], of m ?m "\<lambda>x. store_meter (charged_meter now m q (rr_tokens q) c x)"]
      budget_invD(1)[OF inv1]
    by (simp add: locked_meter_Some) (simp add: opened_def charged_meter_def)
  have grid: "numeric10 (bm_reserved_cost m + c) = bm_reserved_cost m + numeric10 c"
    "on_grid (bm_reserved_cost m)" "on_grid (bm_settled_cost m)" "on_grid (bm_max_cost m)"
    using meter_amounts[OF inv, of m] gm c(2) budget_invD(5)[OF inv, of m] by (simp_all add: numeric10_add)
  have rel: "snd (release_reservation now' (rr_generation_id q) (rr_id q) ?s1) =
      closing ?s1 (released_meter now' ?m ?r) (released_row now') ?m ?r"
    using release_closing[OF m1 r1, of now'] by (simp add: release_reservation_def transaction_def new_reservation_def)
  have "locked_meter (rr_generation_id q) (closing ?s1 (released_meter now' ?m ?r) (released_row now') ?m ?r)
      = Some (store_meter (released_meter now' ?m ?r ?m))"
    using locked_meter_update[OF m1, of "released_meter now' ?m ?r" "br_id ?r" "released_row now'"] gm
    by (simp add: closing_def released_meter_def charged_meter_def)
  moreover have "snapshot (store_meter (released_meter now' ?m ?r ?m)) = snapshot m"
    using grid by (simp add: snapshot_def released_meter_def charged_meter_def new_reservation_def store_meter_def)
  ultimately show ?thesis unfolding s1 rel by (simp add: meter_def before)
qed

theorem reserve_release_roundtrip_witness:
  "\<exists>before. meter ''g1'' demo_two = Inr before \<and>
    meter ''g1'' (snd (release_reservation 5 ''g1'' ''r1'' demo_reserved)) = Inr before"
proof -
  let ?q = "demo_request ''g1'' ''r1'' 40"
  have g: "rr_generation_id ?q = ''g1''" "rr_id ?q = ''r1''" by (simp_all add: demo_request_def)
  have eq: "snd (reserve None 1 ?q demo_two) = demo_reserved" by (simp add: demo_reserved_def)
  have "is_ok (meter ''g1'' demo_two)" "is_ok (fst (reserve None 1 ?q demo_two))"
    "rr_id ?q \<notin> br_id ` set (bd_reservations (bs_db demo_two))"
    by code_simp+
  then obtain before x where "meter ''g1'' demo_two = Inr before" "fst (reserve None 1 ?q demo_two) = Inr x"
    "rr_id ?q \<notin> br_id ` set (bd_reservations (bs_db demo_two))"
    by (cases "meter ''g1'' demo_two"; cases "fst (reserve None 1 ?q demo_two)") simp_all
  then show ?thesis
    using reserve_release_roundtrip[OF demo_run(1), of ?q before 1 x 5] unfolding eq g by blast
qed

lemma transaction_same: "snd (body s) = s \<Longrightarrow> snd (transaction body s) = s"
  by (cases "body s") (auto simp: transaction_def split: sum.split)

lemma settled_settles:
  assumes "fst (settle now g i n d s) = Inr x"
  obtains r where "reservation_of i (snd (settle now g i n d s)) = Some r" "br_status r = Settled"
    "g \<in> bm_generation_id ` set (bd_meters (bs_db (snd (settle now g i n d s))))"
proof (cases "bindE (positive_int n) (\<lambda>tokens. bindE (money d) (\<lambda>cost. Inr (tokens, cost)))")
  case (Inl e)
  then show ?thesis using assms unfolding settle_def Inl by simp
next
  case (Inr tc)
  obtain tokens cost where tc: "tc = (tokens, cost)" by (cases tc)
  have eq: "settle now g i n d s = transaction (settle_body now g i tokens cost) s"
    unfolding settle_def Inr tc by simp
  have ok: "fst (settle_body now g i tokens cost s) = Inr x"
    using assms unfolding eq
    by (cases "settle_body now g i tokens cost s") (auto simp: transaction_def split: sum.splits)
  have snd: "snd (settle now g i n d s) = snd (settle_body now g i tokens cost s)"
    using ok unfolding eq by (cases "settle_body now g i tokens cost s") (simp add: transaction_def)
  obtain m r where m: "locked_meter g s = Some m" and r: "reservation_of i s = Some r"
    using ok by (auto simp: settle_body_def split: option.splits)
  show ?thesis
  proof (cases "br_status r = Reserved")
    case True
    have upd: "sql_first (\<lambda>r. br_id r = i) (sql_update (\<lambda>x. br_id x = i)
        (\<lambda>x. store_reservation (settled_row now tokens cost x)) t) =
      map_option (\<lambda>x. store_reservation (settled_row now tokens cost x)) (sql_first (\<lambda>r. br_id r = i) t)" for t
      by (induction t) (auto simp: sql_update_def settled_row_def)
    show ?thesis
    proof (rule that)
      show "reservation_of i (snd (settle now g i n d s)) =
          Some (store_reservation (settled_row now tokens cost r))"
        using r reservation_ofD[OF r] unfolding snd settle_closing[OF m r True]
        by (simp add: reservation_of_def closing_def update_meters_def update_reservations_def upd)
      show "br_status (store_reservation (settled_row now tokens cost r)) = Settled"
        by (simp add: settled_row_def)
      show "g \<in> bm_generation_id ` set (bd_meters (bs_db (snd (settle now g i n d s))))"
        using locked_meter_in[OF m] unfolding snd settle_closing[OF m r True]
        by (simp add: closing_def update_meters_def update_reservations_def meters_stay_update settled_meter_def)
    qed
  next
    case False
    then have "snd (settle_body now g i tokens cost s) = s" "br_status r = Settled"
      using ok m r by (auto simp: settle_body_def split: if_splits)
    then show ?thesis using that r locked_meter_in[OF m] unfolding snd by simp
  qed
qed

text \<open>A settlement is final: at any later time and whatever calls came in between, settling the
  same reservation again (with any amounts), releasing it or declaring it unknown changes
  nothing, so a reservation is charged at most once.
\<close>

theorem settlement_final:
  assumes "budget_run policy strict s" "owned g i s"
    and "fst (settle now g i n d s) = Inr x"
    and "budget_later policy (snd (settle now g i n d s)) s'"
  shows "run_call policy (Settle now' g' i n' d') s' = s' \<and> run_call policy (Release now' g' i) s' = s' \<and>
    run_call policy (MarkUnknown now' g' i) s' = s'"
proof -
  note inv = settle_inv[OF budget_run_inv[OF assms(1)] assms(2)]
  obtain r where r: "reservation_of i (snd (settle now g i n d s)) = Some r" "br_status r = Settled"
    by (rule settled_settles[OF assms(3)])
  have "rows_evolve (snd (settle now g i n d s)) s'"
    using budget_later_keeps[OF assms(4) inv] by (simp add: keeps_def)
  then obtain r' where r': "reservation_of i s' = Some r'" "row_evolves r r'"
    by (rule rows_evolve_first[OF _ r(1)])
  then have "br_status r' = Settled" using r(2) by (simp add: row_evolves_def)
  then have "snd (settle_body now' g' i tokens cost s') = s'"
    "snd (release_body now' g' i s') = s'" "snd (mark_unknown_body now' g' i s') = s'" for tokens cost
    using r'(1) by (auto simp: settle_body_def release_body_def mark_unknown_body_def split: option.split)
  then show ?thesis
    by (auto simp: settle_def release_reservation_def mark_unknown_def transaction_same split: sum.split prod.split)
qed

theorem settlement_final_witness:
  "run_call demo_policy (Settle 7 ''g1'' ''r1'' 90 (Finite 1)) (snd (settle 3 ''g1'' ''r1'' 30 (Finite (1 / 20)) demo_reserved))
    = snd (settle 3 ''g1'' ''r1'' 30 (Finite (1 / 20)) demo_reserved)"
proof -
  have "owned ''g1'' ''r1'' demo_reserved" by code_simp
  moreover have "is_ok (fst (settle 3 ''g1'' ''r1'' 30 (Finite (1 / 20)) demo_reserved))" by code_simp
  ultimately show ?thesis
    using settlement_final[OF demo_run(2) _ _ budget_later.now, where g = "''g1''" and i = "''r1''"
        and now = 3 and n = 30 and d = "Finite (1 / 20)" and now' = 7 and g' = "''g1''" and n' = 90
        and d' = "Finite 1"]
    by (cases "fst (settle 3 ''g1'' ''r1'' 30 (Finite (1 / 20)) demo_reserved)") simp_all
qed

section \<open>Refusals\<close>

text \<open>C24: A new reservation that does not fit is refused with \<open>budget_exhausted\<close>, and the only
  trace it leaves is a metric: the code marks the meter as exhausted first, but in the
  transaction that the refusal rolls back, so the meter stays active and no row changes.
\<close>

theorem refused_reservation_leaves_meter_active:
  assumes "locked_meter (rr_generation_id q) s = Some m" "bm_status m = MeterActive"
    and "rr_id q \<noteq> []" "rr_operation_kind q \<noteq> []" "rr_fingerprint q \<noteq> []" "0 \<le> rr_tokens q"
    and "rr_cost q = Some (Finite c)" "0 \<le> c" "replay_candidate q s = None"
    and "gate now m q (rr_tokens q) c = Some reason"
  shows "reserve race now q s = (Inl (PlatformError ''budget_exhausted'' 429),
    s\<lparr>bs_metrics := bs_metrics s @ [(''generation_budget_gate'', reason)]\<rparr>)"
  using assms
  by (simp add: reserve_def positive_int_def money_def transaction_def reserve_body_def reject_def
      mark_exhausted_def increment_def update_meters_def)

theorem refused_reservation_leaves_meter_active_witness:
  "reserve None 2 (demo_request ''g1'' ''r2'' 61) demo_reserved =
    (Inl (PlatformError ''budget_exhausted'' 429), demo_reserved
      \<lparr>bs_metrics := bs_metrics demo_reserved @ [(''generation_budget_gate'', ''total_tokens'')]\<rparr>) \<and>
   is_ok (fst (reserve None 3 (demo_request ''g1'' ''r3'' 60) demo_reserved))"
proof
  let ?q = "demo_request ''g1'' ''r2'' 61"
  have g: "rr_generation_id ?q = ''g1''" "rr_id ?q = ''r2''" "rr_operation_kind ?q = ''chat''"
    "rr_fingerprint ?q = ''r2''" "rr_tokens ?q = 61" "rr_cost ?q = Some (Finite (1 / 10))"
    by (simp_all add: demo_request_def)
  have ex: "(case locked_meter ''g1'' demo_reserved of None \<Rightarrow> False | Some m \<Rightarrow>
      bm_status m = MeterActive \<and> gate 2 m ?q 61 (1 / 10) = Some ''total_tokens'')"
    and "replay_candidate ?q demo_reserved = None"
    by code_simp+
  then obtain m where "locked_meter ''g1'' demo_reserved = Some m" "bm_status m = MeterActive"
    "gate 2 m ?q 61 (1 / 10) = Some ''total_tokens''"
    by (auto split: option.splits)
  then show "reserve None 2 ?q demo_reserved =
    (Inl (PlatformError ''budget_exhausted'' 429), demo_reserved
      \<lparr>bs_metrics := bs_metrics demo_reserved @ [(''generation_budget_gate'', ''total_tokens'')]\<rparr>)"
    using refused_reservation_leaves_meter_active[of ?q demo_reserved m "1 / 10" 2 "''total_tokens''" None]
      \<open>replay_candidate ?q demo_reserved = None\<close> by (simp add: g)
  show "is_ok (fst (reserve None 3 (demo_request ''g1'' ''r3'' 60) demo_reserved))" by code_simp
qed

section \<open>Closing through another generation\<close>

text \<open>C25: Closing a reservation through the meter of another generation is accepted and breaks the
  accounting: the meter named gives back tokens it never reserved, while the meter of the
  reservation keeps them for ever.
\<close>

theorem foreign_settlement_unbalances:
  assumes "budget_inv (bs_db s)" "reservation_of i s = Some r" "br_status r = Reserved"
    and "br_generation_id r \<noteq> g" "locked_meter g s = Some m" "0 < br_tokens r"
    and "0 \<le> tokens" "0 \<le> cost"
  shows "is_ok (fst (settle now g i tokens (Finite cost) s)) \<and>
    \<not> budget_inv (bs_db (snd (settle now g i tokens (Finite cost) s)))"
proof -
  let ?m = "store_meter (settled_meter now m r tokens cost m)"
  let ?s = "closing s (settled_meter now m r tokens cost) (settled_row now tokens cost) m r"
  note gm = locked_meterD[OF assms(5)] and ir = reservation_ofD[OF assms(2)]
  have eq: "settle now g i tokens (Finite cost) s = transaction (settle_body now g i tokens cost) s"
    using assms(7,8) by (simp add: settle_def positive_int_def money_def)
  have res: "settle now g i tokens (Finite cost) s = (Inr (snapshot ?m),
     increment ''generation_budget_reservation''
       (if settlement_exhausts m r tokens cost then ''actual_over_reservation'' else ''settled'') ?s)"
    unfolding eq transaction_def settle_closing[OF assms(5,2,3)] by simp
  have "?m \<in> set (bd_meters (bs_db ?s))"
    using gm set_sql_update_key[OF budget_invD(1)[OF assms(1)], of m ?m "\<lambda>x. store_meter (settled_meter now m r tokens cost x)"]
    by (simp add: closing_def update_meters_def update_reservations_def)
  moreover have "\<not> balanced (bd_reservations (bs_db ?s)) ?m"
  proof -
    have "bd_reservations (bs_db ?s) = sql_update (\<lambda>x. br_id x = br_id r)
        (\<lambda>x. store_reservation (settled_row now tokens cost x)) (bd_reservations (bs_db s))"
      by (simp add: closing_def update_meters_def update_reservations_def)
    then have "balanced (bd_reservations (bs_db ?s)) m"
      using balanced_other[OF budget_invD(2)[OF assms(1)], of r m "\<lambda>x. store_reservation (settled_row now tokens cost x)"]
        budget_invD(4)[OF assms(1), of m] gm ir assms(4) by (simp add: settled_row_def)
    then show ?thesis using assms(6) by (simp add: balanced_def settled_meter_def)
  qed
  ultimately have "\<not> budget_inv (bs_db ?s)" using budget_invD(4) by blast
  then show ?thesis by (simp add: res)
qed

theorem foreign_settlement_unbalances_witness:
  "\<not> budget_inv (bs_db (snd (settle 3 ''g2'' ''r1'' 30 (Finite (1 / 20)) demo_reserved))) \<and>
   meter ''g2'' (snd (settle 3 ''g2'' ''r1'' 30 (Finite (1 / 20)) demo_reserved))
     = map_sum id (\<lambda>n. n\<lparr>sn_tokens_used := 30, sn_reserved_tokens := - 40, sn_settled_cost := 1 / 20,
         sn_reserved_cost := - (1 / 10)\<rparr>) (meter ''g2'' demo_reserved)"
proof
  have "(case (reservation_of ''r1'' demo_reserved, locked_meter ''g2'' demo_reserved) of
      (Some r, Some m) \<Rightarrow> br_status r = Reserved \<and> br_generation_id r \<noteq> ''g2'' \<and> 0 < br_tokens r | _ \<Rightarrow> False)"
    by code_simp
  then show "\<not> budget_inv (bs_db (snd (settle 3 ''g2'' ''r1'' 30 (Finite (1 / 20)) demo_reserved)))"
    using foreign_settlement_unbalances[of demo_reserved "''r1''" _ "''g2''" _ 30 "1 / 20" 3]
      budget_run_inv[OF demo_run(2)] by (auto split: option.splits)
  show "meter ''g2'' (snd (settle 3 ''g2'' ''r1'' 30 (Finite (1 / 20)) demo_reserved))
     = map_sum id (\<lambda>n. n\<lparr>sn_tokens_used := 30, sn_reserved_tokens := - 40, sn_settled_cost := 1 / 20,
         sn_reserved_cost := - (1 / 10)\<rparr>) (meter ''g2'' demo_reserved)"
    by code_simp
qed

section \<open>Creation and upgrade\<close>

text \<open>
  Losing the race to create a meter is the same as having come second: the snapshot is that of
  the meter the other transaction committed, and it is left alone.
\<close>

theorem ensure_meter_race:
  assumes "locked_meter g s = None" "bm_generation_id other = g" "level \<in> set EFFORTS"
    "mp_efforts policy level = Some effort"
  shows "ensure_meter policy (Some other) now fresh g level deadline s =
    ensure_meter policy None now fresh g level deadline
      (s\<lparr>bs_db := (bs_db s)\<lparr>bd_meters := bd_meters (bs_db s) @ [other]\<rparr>\<rparr>)"
proof -
  have "g \<notin> bm_generation_id ` set (bd_meters (bs_db s))"
    using assms(1) by (auto simp: locked_meter_def sql_first_None image_iff)
  moreover have "locked_meter g (s\<lparr>bs_db := (bs_db s)\<lparr>bd_meters := bd_meters (bs_db s) @ [other]\<rparr>\<rparr>) = Some other"
    using assms(1,2) by (simp add: locked_meter_def sql_first_append)
  ultimately show ?thesis using assms
    by (simp add: ensure_meter_def transaction_def ensure_meter_in_transaction_def
        insert_do_nothing_def sql_insert_def new_meter_def)
qed

text \<open>A meter is upgraded at most once, by one level, only while it is active, before its
  deadline and when the next step fits the new limits; the limits become those of the new level,
  the counters and the deadline stay, and a second upgrade does nothing.
\<close>

theorem upgrade_once:
  assumes "locked_meter g s = Some m" "upgrade policy now g n (Finite c) is_rag s = (Inr (Some target), s')"
  shows "UPGRADES (bm_effort m) = Some target \<and> bm_status m = MeterActive \<and> now < bm_deadline m \<and>
    (\<exists>effort. mp_efforts policy target = Some effort \<and>
       bm_tokens_used m + bm_reserved_tokens m + n \<le> ef_max_total_tokens effort \<and>
       bm_settled_cost m + bm_reserved_cost m + c \<le> ef_max_cost effort \<and>
       locked_meter g s' = Some (store_meter (upgraded_meter now target effort m))) \<and>
    upgrade policy now' g n' d' is_rag' s' = (Inr None, s')"
proof -
  obtain effort where e: "UPGRADES (bm_effort m) = Some target" "bm_status m = MeterActive"
    "mp_efforts policy target = Some effort" "upgrade_fits now m effort n c is_rag"
    and s': "s' = increment ''generation_budget_upgrade'' ''completed''
      (update_meters (\<lambda>x. bm_generation_id x = g) (upgraded_meter now target effort) s)"
    using assms by (auto simp: upgrade_def transaction_def upgrade_body_def amounts_Inr
        simp del: bindE_Inr split: if_splits option.splits sum.splits prod.splits)
  have "locked_meter g s' = Some (store_meter (upgraded_meter now target effort m))"
    using locked_meter_update[OF assms(1), of "upgraded_meter now target effort" undefined "\<lambda>x. x"]
    unfolding s' by (simp add: locked_meter_def increment_def update_meters_def update_reservations_def upgraded_meter_def)
  moreover from this have "upgrade policy now' g n' d' is_rag' s' = (Inr None, s')"
    by (simp add: upgrade_def transaction_def upgrade_body_def upgraded_meter_def)
  ultimately show ?thesis using e by (auto simp: upgrade_fits_def)
qed

theorem upgrade_once_witness:
  "UPGRADES ''quick'' = Some ''think'' \<and>
   upgrade demo_policy 9 ''g1'' 1 (Finite 0) True (snd (upgrade demo_policy 2 ''g1'' 50 (Finite 1) True demo_reserved))
     = (Inr None, snd (upgrade demo_policy 2 ''g1'' 50 (Finite 1) True demo_reserved))"
proof
  have "fst (upgrade demo_policy 2 ''g1'' 50 (Finite 1) True demo_reserved) = Inr (Some ''think'')"
    "is_ok (case locked_meter ''g1'' demo_reserved of None \<Rightarrow> Inl () | Some m \<Rightarrow> Inr m)"
    by code_simp+
  then show "upgrade demo_policy 9 ''g1'' 1 (Finite 0) True
      (snd (upgrade demo_policy 2 ''g1'' 50 (Finite 1) True demo_reserved))
     = (Inr None, snd (upgrade demo_policy 2 ''g1'' 50 (Finite 1) True demo_reserved))"
    using upgrade_once[of "''g1''" demo_reserved _ demo_policy 2 50 1 True "''think''" _ 9 1 "Finite 0" True]
    by (cases "upgrade demo_policy 2 ''g1'' 50 (Finite 1) True demo_reserved")
      (auto split: option.splits)
qed (simp add: UPGRADES_def)

end
