(* ===== verification/Ingestion_Model.thy ===== *)
theory Ingestion_Model
  imports Json
begin

text \<open>
  Data of document ingestion: the rows of \<^verbatim>\<open>app/documents/schema.py\<close> that the job operations
  read and write, the staging request and processing receipt of \<^verbatim>\<open>app/documents/indexing.py\<close>,
  the states of \<^verbatim>\<open>app/documents/domain.py\<close>, and the environment of the service. A JSON column
  holds the typed value the code stores in it; the configuration snapshot and what a receipt only
  carries along are strings. The ports the service calls inside its transaction (index handoff,
  notifications, quota, public graph source) take part in it, so their calls are a column of the
  database, rolled back with it; their answers are the environment.
\<close>

section \<open>States\<close>

datatype doc_lifecycle = DocActive | DocPendingDelete | DocDeleted

datatype version_state = VPending | VActive | VSuperseded | VFailed | VCancelled | VPurging | VPurged

datatype publication_state = PubStaged | PubActive | PubSuperseded | PubDiscarded

datatype job_state =
  JobPending | JobRunning | JobRetryWait | JobSucceeded | JobFailed | JobCancelled | JobDeadLetter

datatype attempt_state = AttRunning | AttSucceeded | AttFailed | AttExpired | AttCancelled

datatype operation = OpInitial | OpReplace | OpReindex

definition operation_name :: "operation \<Rightarrow> string" where
  "operation_name op = (case op of OpInitial \<Rightarrow> ''initial'' | OpReplace \<Rightarrow> ''replace'' | OpReindex \<Rightarrow> ''reindex'')"

definition job_live :: "job_state \<Rightarrow> bool" where
  "job_live st \<longleftrightarrow> st \<in> {JobPending, JobRunning, JobRetryWait}"

definition job_runnable :: "job_state \<Rightarrow> bool" where
  "job_runnable st \<longleftrightarrow> st \<in> {JobPending, JobRetryWait}"

definition job_replayable :: "job_state \<Rightarrow> bool" where
  "job_replayable st \<longleftrightarrow> st \<in> {JobFailed, JobDeadLetter, JobCancelled}"

section \<open>Staging request and receipt\<close>

datatype auth_fence = DirectIngest string | SubmissionGrant string string

record usage_ownership =
  uo_actor :: string
  uo_role :: string
  uo_department :: "string option"
  uo_cost_center :: string
  uo_space_kind :: "string option"
  uo_space_owner :: "string option"

record staging_request =
  rq_job_id :: string
  rq_attempt_id :: string
  rq_fence :: int
  rq_publication_id :: string
  rq_document_id :: string
  rq_version_id :: string
  rq_space_id :: string
  rq_operation :: string
  rq_base_active_version :: "string option"
  rq_generation :: string
  rq_index_revision :: int
  rq_object_ref :: string
  rq_config :: "(string \<times> string) list"
  rq_auth :: auth_fence
  rq_input_hash :: string
  rq_profile :: string
  rq_ownership :: usage_ownership
  rq_deadline :: time
  rq_replay_generation :: int

record stage_resource =
  sr_backend :: string
  sr_resource_id :: string
  sr_attempt_id :: string
  sr_publication_id :: string
  sr_fence :: int
  sr_document_id :: string
  sr_version_id :: string
  sr_generation :: string

text \<open>The class of metering of a receipt's summary, with the facts \<open>_metered_pages\<close> reads.\<close>

record metering =
  me_class :: string
  me_tokens :: int
  me_image_provider :: "string option"
  me_embedded_provider :: "string option"

record receipt =
  rc_job_id :: string
  rc_attempt_id :: string
  rc_fence :: int
  rc_publication_id :: string
  rc_document_id :: string
  rc_version_id :: string
  rc_input_content_hash :: string
  rc_resources :: "stage_resource list"
  rc_resource_ids :: "string list"
  rc_generation :: string
  rc_auth :: auth_fence
  rc_chunk_count :: int
  rc_page_count :: int
  rc_image_count :: int
  rc_metering :: "metering option"
  rc_processing_list :: "string option"
  rc_input_hash :: string
  rc_profile :: string
  rc_space_id :: string
  rc_operation :: string
  rc_base_active_version :: "string option"
  rc_index_revision :: int
  rc_object_ref :: string
  rc_config :: "(string \<times> string) list"
  rc_degradations :: "payload list"
  rc_ocr_low :: bool
  rc_details :: string

text \<open>What the publication of a job cost.\<close>

record publication_usage =
  pu_pages :: int
  pu_images :: int
  pu_list_id :: string
  pu_debit_id :: "string option"
  pu_status :: string
  pu_reason :: "string option"

section \<open>Rows\<close>

record doc_row =
  dc_id :: string
  dc_space_id :: string
  dc_lifecycle :: doc_lifecycle
  dc_active_version :: "string option"
  dc_pending_version :: "string option"
  dc_active_job :: "string option"
  dc_deletion_id :: "string option"
  dc_version :: int
  dc_name :: "string option"
  dc_normalized_name :: "string option"
  dc_media_kind :: "string option"
  dc_uploaded_at :: time
  dc_created_by :: "string option"
  dc_created_at :: time
  dc_updated_at :: time

record version_row =
  vr_id :: string
  vr_document_id :: string
  vr_number :: int
  vr_status :: version_state
  vr_content_hash :: "string option"
  vr_manifest_key :: "string option"
  vr_object_key :: "string option"
  vr_file_name :: "string option"
  vr_media_kind :: "string option"
  vr_size :: int
  vr_created_by :: "string option"
  vr_activated_at :: "time option"
  vr_terminal_at :: "time option"
  vr_superseded_at :: "time option"
  vr_purge_after_at :: "time option"
  vr_purged_at :: "time option"
  vr_restored_from :: "string option"
  vr_created_at :: time
  vr_updated_at :: time

record job_row =
  jb_id :: string
  jb_document_id :: string
  jb_version_id :: "string option"
  jb_operation :: operation
  jb_state :: job_state
  jb_stage :: "string option"
  jb_base_active_version :: "string option"
  jb_batch :: "string option"
  jb_active_attempt :: "string option"
  jb_active_publication :: "string option"
  jb_version :: int
  jb_replay_generation :: int
  jb_next_attempt_at :: "time option"
  jb_failure_reason :: "string option"
  jb_cancelled_by :: "string option"
  jb_cancelled_at :: "time option"
  jb_replayed_by :: "string option"
  jb_degradations :: "payload list"
  jb_summary :: "receipt option"
  jb_replay_config :: "(string \<times> string) list option"
  jb_usage :: "publication_usage option"
  jb_ocr_low :: bool
  jb_notification_ids :: "string list"
  jb_created_by :: string
  jb_quota_role :: string
  jb_quota_department :: "string option"
  jb_quota_exempt :: "string option"
  jb_charge_status :: string
  jb_charge_reason :: "string option"
  jb_created_at :: time
  jb_updated_at :: time

record job_attempt_row =
  ia_id :: string
  ia_job_id :: string
  ia_number :: int
  ia_cycle_number :: int
  ia_replay_generation :: int
  ia_state :: attempt_state
  ia_owner :: "string option"
  ia_lease_expires_at :: "time option"
  ia_fence :: int
  ia_publication_id :: "string option"
  ia_request :: "staging_request option"
  ia_receipt :: "receipt option"
  ia_failure_class :: "string option"
  ia_failure_reason :: "string option"
  ia_created_at :: time
  ia_updated_at :: time

record publication_row =
  pb_id :: string
  pb_document_id :: string
  pb_version_id :: "string option"
  pb_job_id :: string
  pb_attempt_id :: string
  pb_generation :: string
  pb_status :: publication_state
  pb_manifest :: "receipt option"
  pb_charge_status :: string
  pb_charge_reason :: "string option"
  pb_created_at :: time
  pb_activated_at :: "time option"
  pb_superseded_at :: "time option"
  pb_discarded_at :: "time option"

record batch_row =
  bt_id :: string
  bt_actor :: string
  bt_space_id :: string
  bt_state :: string
  bt_created_at :: time
  bt_updated_at :: time

record batch_item_row =
  bi_id :: string
  bi_batch :: string
  bi_document_id :: "string option"
  bi_file_name :: string
  bi_hash :: string
  bi_state :: string
  bi_deduplicated :: bool
  bi_job_id :: "string option"
  bi_rejection :: "string option"
  bi_created_at :: time
  bi_updated_at :: time

record dedup_row =
  dd_space_id :: string
  dd_name :: string
  dd_hash :: string
  dd_document_id :: string
  dd_version_id :: "string option"
  dd_created_at :: time

record grant_row =
  gr_id :: string
  gr_submission_id :: string
  gr_document_id :: string
  gr_version_id :: string
  gr_job_id :: string
  gr_space_id :: string

record hold_row =
  ho_id :: string
  ho_version_id :: string
  ho_job_id :: string
  ho_created_at :: time

record index_change_row =
  ch_revision_id :: string
  ch_revision :: int
  ch_generation :: string
  ch_id :: string
  ch_document_id :: string
  ch_version_id :: "string option"
  ch_publication_id :: string
  ch_type :: string
  ch_space_id :: string
  ch_created_at :: time

text \<open>A call of a port that takes part in the transaction.\<close>

datatype port_call =
    Discard staging_request
  | Publish staging_request receipt
  | ChargeQuota string string int
  | NotifyPublished string string
  | NotifyTerminal string string "string option"
  | GraphSourceChange string string
  | InvariantAlert exn

section \<open>The environment of the service\<close>

text \<open>
  An uploaded file and what its validation extracts from it; the upload checks
  (\<^verbatim>\<open>upload_security.py\<close>) are an answer of the environment too.
\<close>

text \<open>
  Answers of the clock, of \<open>secrets\<close>, of the index and of the ports; the identity service says
  whether a user may manage a space. The clock is read once per transaction.
\<close>

text \<open>What the object store answers to a copy followed by a read of the target.\<close>

datatype copy_outcome = CopyMissing | CopyFailed exn | Copied string

record upload_file =
  uf_filename :: string
  uf_content :: string
  uf_media_kind :: string

record file_info =
  fi_filename :: string
  fi_normalized :: string
  fi_media_kind :: string
  fi_size :: int
  fi_hash :: string
  fi_risk :: "payload option"

record ingest_env =
  ie_now :: time
  ie_token :: "string \<Rightarrow> nat \<Rightarrow> string"
  ie_jitter :: "string \<Rightarrow> int"
  ie_generation :: string
  ie_has_handoff :: bool
  ie_publish :: "staging_request \<Rightarrow> receipt \<Rightarrow> exn + string"
  ie_authorize :: "string \<Rightarrow> string \<Rightarrow> exn + unit"
  ie_worker_authorize :: "string \<Rightarrow> string \<Rightarrow> exn + unit"
  ie_check_quota :: "string \<Rightarrow> exn + unit"
  ie_has_quota :: bool
  ie_debit :: "string \<Rightarrow> string \<Rightarrow> int \<Rightarrow> exn + string option"
  ie_notify_published :: "string \<Rightarrow> exn + string list"
  ie_notify_terminal :: "string \<Rightarrow> string \<Rightarrow> exn + string list"
  ie_graph_source :: "exn + unit"
  ie_retention_days :: int
  ie_file_info :: "upload_file \<Rightarrow> exn + file_info"
  ie_replay_config :: "string \<Rightarrow> (string \<times> string) list"
  ie_copy :: "string \<Rightarrow> string \<Rightarrow> copy_outcome"
  ie_sha :: "string \<Rightarrow> string"
  ie_float_repr :: "rat \<Rightarrow> string"

text \<open>
  \<open>_new_id\<close>: a prefix and a token of \<open>secrets\<close>; the number tells the calls of one transaction
  with the same prefix apart.
\<close>

definition new_id :: "ingest_env \<Rightarrow> string \<Rightarrow> nat \<Rightarrow> string" where
  "new_id env prefix n = prefix @ ''_'' @ ie_token env prefix n"

lemma new_id_nonempty [simp]: "new_id env prefix n \<noteq> []"
  by (simp add: new_id_def)

record principal =
  pr_user_id :: string
  pr_role :: string
  pr_department :: "string option"

text \<open>The response of a command, which its idempotency record keeps.\<close>

datatype upload_item =
    ItemRejected string exn
  | ItemDeduplicated string string string "string option"
  | ItemAccepted string string string string string string

datatype command_response =
    VersionAccepted string string string string int
  | VersionUnchanged string string int
  | RestoreAccepted string string string string string int
  | JobReplayed string int string
  | UploadAccepted string "upload_item list"

record docs_audit_row =
  au_actor :: string
  au_resource_type :: string
  au_resource_id :: string
  au_result :: string

record idempotency_row =
  ik_actor :: string
  ik_endpoint :: string
  ik_target :: string
  ik_key_hash :: string
  ik_fingerprint :: string
  ik_response :: command_response

record docs_db =
  documents :: "doc_row list"
  versions :: "version_row list"
  jobs :: "job_row list"
  attempts :: "job_attempt_row list"
  publications :: "publication_row list"
  batches :: "batch_row list"
  batch_items :: "batch_item_row list"
  dedup_claims :: "dedup_row list"
  grants :: "grant_row list"
  holds :: "hold_row list"
  index_changes :: "index_change_row list"
  index_counter :: "int option"
  idempotency :: "idempotency_row list"
  audits :: "docs_audit_row list"
  port_calls :: "port_call list"

end
