(* ===== verification/Ingestion_Jobs.thy ===== *)
theory Ingestion_Jobs
  imports Ingestion_Model
begin

text \<open>
  The execution side of ingestion: claiming a job (\<^verbatim>\<open>DocumentsJobCoordinator\<close> of
  \<^verbatim>\<open>app/documents/jobs.py\<close>, with the reclaim of expired attempts), renewing its lease, marking
  its stage and failing it (\<open>DocumentsService\<close> of \<^verbatim>\<open>app/documents/service.py\<close>). An operation is one
  transaction: it returns an exception, and then nothing is written, or its result and the next
  database. The unique constraints of the publications are checked by every write.
\<close>

section \<open>Reads and writes\<close>

definition find_document :: "string \<Rightarrow> docs_db \<Rightarrow> doc_row option" where
  "find_document i db = sql_first (\<lambda>d. dc_id d = i) (documents db)"

definition find_version :: "string option \<Rightarrow> docs_db \<Rightarrow> version_row option" where
  "find_version i db = (case i of None \<Rightarrow> None | Some v \<Rightarrow> sql_first (\<lambda>r. vr_id r = v) (versions db))"

definition find_job :: "string \<Rightarrow> docs_db \<Rightarrow> job_row option" where
  "find_job i db = sql_first (\<lambda>j. jb_id j = i) (jobs db)"

definition find_attempt :: "string \<Rightarrow> docs_db \<Rightarrow> job_attempt_row option" where
  "find_attempt i db = sql_first (\<lambda>a. ia_id a = i) (attempts db)"

definition find_publication :: "string option \<Rightarrow> docs_db \<Rightarrow> publication_row option" where
  "find_publication i db = (case i of None \<Rightarrow> None | Some p \<Rightarrow> sql_first (\<lambda>r. pb_id r = p) (publications db))"

definition upd_documents :: "(doc_row \<Rightarrow> bool) \<Rightarrow> (doc_row \<Rightarrow> doc_row) \<Rightarrow> docs_db \<Rightarrow> docs_db" where
  "upd_documents p f db = db\<lparr>documents := sql_update p f (documents db)\<rparr>"

definition upd_versions :: "(version_row \<Rightarrow> bool) \<Rightarrow> (version_row \<Rightarrow> version_row) \<Rightarrow> docs_db \<Rightarrow> docs_db" where
  "upd_versions p f db = db\<lparr>versions := sql_update p f (versions db)\<rparr>"

definition upd_jobs :: "(job_row \<Rightarrow> bool) \<Rightarrow> (job_row \<Rightarrow> job_row) \<Rightarrow> docs_db \<Rightarrow> docs_db" where
  "upd_jobs p f db = db\<lparr>jobs := sql_update p f (jobs db)\<rparr>"

definition upd_attempts :: "(job_attempt_row \<Rightarrow> bool) \<Rightarrow> (job_attempt_row \<Rightarrow> job_attempt_row) \<Rightarrow> docs_db \<Rightarrow> docs_db" where
  "upd_attempts p f db = db\<lparr>attempts := sql_update p f (attempts db)\<rparr>"

definition del_publications :: "(publication_row \<Rightarrow> bool) \<Rightarrow> docs_db \<Rightarrow> docs_db" where
  "del_publications p db = db\<lparr>publications := sql_delete p (publications db)\<rparr>"

definition del_claims :: "(dedup_row \<Rightarrow> bool) \<Rightarrow> docs_db \<Rightarrow> docs_db" where
  "del_claims p db = db\<lparr>dedup_claims := sql_delete p (dedup_claims db)\<rparr>"

text \<open>\<open>uq_publications_version_generation_status\<close>.\<close>

definition publication_key :: "publication_row \<Rightarrow> string option \<times> string \<times> publication_state" where
  "publication_key p = (pb_version_id p, pb_generation p, pb_status p)"

definition set_publications :: "publication_row list \<Rightarrow> docs_db \<Rightarrow> exn + docs_db" where
  "set_publications ps db =
     (if keyed pb_id ps \<and> keyed publication_key ps \<and> (\<forall>p \<in> set ps. pb_version_id p \<noteq> None)
      then Inr (db\<lparr>publications := ps\<rparr>) else Inl IntegrityError)"

definition insert_publication :: "publication_row \<Rightarrow> docs_db \<Rightarrow> exn + docs_db" where
  "insert_publication p db = set_publications (publications db @ [p]) db"

definition update_publications ::
  "(publication_row \<Rightarrow> bool) \<Rightarrow> (publication_row \<Rightarrow> publication_row) \<Rightarrow> docs_db \<Rightarrow> exn + docs_db" where
  "update_publications p f db = set_publications (sql_update p f (publications db)) db"

definition staged_publication ::
  "ingest_env \<Rightarrow> string \<Rightarrow> job_row \<Rightarrow> publication_row" where
  "staged_publication env publication_id job =
     \<lparr>pb_id = publication_id, pb_document_id = jb_document_id job, pb_version_id = jb_version_id job,
      pb_job_id = jb_id job, pb_attempt_id = ''pending'', pb_generation = ie_generation env,
      pb_status = PubStaged, pb_manifest = None, pb_charge_status = ''pending'',
      pb_charge_reason = None, pb_created_at = ie_now env, pb_activated_at = None,
      pb_superseded_at = None, pb_discarded_at = None\<rparr>"

section \<open>Upload batches\<close>

definition batch_state_of :: "string list \<Rightarrow> string" where
  "batch_state_of states =
     (if states = [] then ''pending''
      else if \<exists>s \<in> set states. s \<in> {''running'', ''retry_wait''} then ''running''
      else if ''pending'' \<in> set states then ''pending''
      else if \<forall>s \<in> set states. s \<in> {''succeeded'', ''deduplicated''} then ''succeeded''
      else if \<exists>s \<in> set states. s \<in> {''succeeded'', ''deduplicated''} then ''partial''
      else ''failed'')"

definition refresh_upload_batch :: "time \<Rightarrow> string option \<Rightarrow> docs_db \<Rightarrow> docs_db" where
  "refresh_upload_batch now batch db =
     (case batch of None \<Rightarrow> db | Some b \<Rightarrow>
        if b = [] then db
        else db\<lparr>batches := sql_update (\<lambda>r. bt_id r = b)
          (\<lambda>r. r\<lparr>bt_state := batch_state_of (map bi_state (sql_where (\<lambda>i. bi_batch i = b) (batch_items db))),
                bt_updated_at := now\<rparr>) (batches db)\<rparr>)"

definition set_batch_item :: "time \<Rightarrow> job_row \<Rightarrow> string \<Rightarrow> docs_db \<Rightarrow> docs_db" where
  "set_batch_item now job st db =
     (if jb_batch job = None \<or> jb_batch job = Some [] then db
      else refresh_upload_batch now (jb_batch job)
        (db\<lparr>batch_items := sql_update (\<lambda>i. bi_job_id i = Some (jb_id job))
          (\<lambda>i. i\<lparr>bi_state := st, bi_updated_at := now\<rparr>) (batch_items db)\<rparr>))"

section \<open>Execution identity\<close>

definition nonempty :: "string option \<Rightarrow> bool" where
  "nonempty x = (case x of None \<Rightarrow> False | Some s \<Rightarrow> s \<noteq> [])"

definition job_execution_actor :: "job_row \<Rightarrow> string" where
  "job_execution_actor job =
     (if 0 < jb_replay_generation job \<and> nonempty (jb_replayed_by job)
      then the (jb_replayed_by job) else jb_created_by job)"

definition SHARED_SUBMISSION :: string where
  "SHARED_SUBMISSION = ''shared_library_submission''"

definition worker_authorization_fence :: "job_row \<Rightarrow> doc_row \<Rightarrow> docs_db \<Rightarrow> exn + auth_fence" where
  "worker_authorization_fence job document db =
     (if jb_quota_exempt job \<noteq> Some SHARED_SUBMISSION then Inr (DirectIngest (job_execution_actor job))
      else (case sql_first (\<lambda>g. gr_job_id g = jb_id job) (grants db) of
          None \<Rightarrow> Inl (PlatformError ''submission_grant_invalid'' 409)
        | Some g \<Rightarrow>
            if gr_document_id g \<noteq> jb_document_id job \<or> Some (gr_version_id g) \<noteq> jb_version_id job \<or>
               gr_space_id g \<noteq> dc_space_id document
            then Inl (PlatformError ''submission_grant_invalid'' 409)
            else Inr (SubmissionGrant (gr_id g) (gr_submission_id g))))"

definition starts_with :: "string \<Rightarrow> string \<Rightarrow> bool" where
  "starts_with prefix s \<longleftrightarrow> take (length prefix) s = prefix"

definition publication_space_ownership :: "string \<Rightarrow> string \<Rightarrow> string \<times> string option \<times> string option" where
  "publication_space_ownership space subject =
     (if space = ''public'' then (''public'', Some ''public'', None)
      else if starts_with ''department:'' space then (space, Some ''department'', None)
      else if starts_with ''personal:'' space then (''user:'' @ subject, Some ''personal'', Some subject)
      else (''user:'' @ subject, None, None))"

section \<open>Requests\<close>

definition blank :: "string \<Rightarrow> bool" where
  "blank s \<longleftrightarrow> py_strip s = []"

text \<open>\<open>IndexStagingRequest.__post_init__\<close>, on a stored request.\<close>

definition request_valid :: "staging_request \<Rightarrow> bool" where
  "request_valid r \<longleftrightarrow> 1 \<le> rq_fence r \<and> 0 \<le> rq_index_revision r \<and>
     list_all (\<lambda>s. \<not> blank s) [rq_job_id r, rq_attempt_id r, rq_publication_id r, rq_document_id r,
       rq_version_id r, rq_space_id r, rq_operation r, rq_generation r, rq_object_ref r] \<and>
     \<not> blank (rq_input_hash r) \<and> \<not> blank (rq_profile r) \<and> 0 \<le> rq_replay_generation r"

definition index_request_from_attempt :: "job_attempt_row \<Rightarrow> exn + staging_request option" where
  "index_request_from_attempt a = (case ia_request a of
      None \<Rightarrow> Inr None
    | Some r \<Rightarrow> if request_valid r then Inr (Some r)
        else Inl (PlatformError ''processing_receipt_conflict'' 409))"

definition call_port :: "port_call \<Rightarrow> docs_db \<Rightarrow> docs_db" where
  "call_port c db = db\<lparr>port_calls := port_calls db @ [c]\<rparr>"

definition discard_indexing_attempt :: "ingest_env \<Rightarrow> string option \<Rightarrow> docs_db \<Rightarrow> exn + docs_db" where
  "discard_indexing_attempt env attempt_id db =
     (if \<not> ie_has_handoff env \<or> \<not> nonempty attempt_id then Inr db
      else (case find_attempt (the attempt_id) db of
          None \<Rightarrow> Inr db
        | Some a \<Rightarrow> bindE (index_request_from_attempt a) (\<lambda>r. case r of
              None \<Rightarrow> Inr db | Some request \<Rightarrow> Inr (call_port (Discard request) db))))"

section \<open>Retries\<close>

definition MAX_ATTEMPTS :: int where
  "MAX_ATTEMPTS = 4"

definition cycle_attempts :: "job_row \<Rightarrow> docs_db \<Rightarrow> int" where
  "cycle_attempts job db = int (sql_count
     (\<lambda>a. ia_job_id a = jb_id job \<and> ia_replay_generation a = jb_replay_generation job) (attempts db))"

text \<open>\<open>(1, 5, 30)[count - 1]\<close> minutes, times \<open>(80 + randbelow(41)) / 100\<close>, in microseconds.\<close>

definition retry_minutes :: "int \<Rightarrow> int" where
  "retry_minutes n = (if n = 1 then 1 else if n = 2 then 5 else 30)"

definition retry_delay :: "int \<Rightarrow> int \<Rightarrow> time" where
  "retry_delay jitter count = retry_minutes count * 60 * (80 + jitter) * 10000"

section \<open>Reclaiming expired attempts\<close>

definition expired_job_attempt :: "job_attempt_row \<Rightarrow> time \<Rightarrow> job_attempt_row" where
  "expired_job_attempt a now = a\<lparr>ia_state := AttExpired, ia_lease_expires_at := None,
     ia_publication_id := None, ia_failure_class := Some ''lease_expired'',
     ia_failure_reason := Some ''lease_expired'', ia_updated_at := now\<rparr>"

definition drop_staged :: "string \<Rightarrow> docs_db \<Rightarrow> docs_db" where
  "drop_staged job_id = del_publications (\<lambda>p. pb_job_id p = job_id \<and> pb_status p = PubStaged)"

definition fail_version :: "ingest_env \<Rightarrow> version_state \<Rightarrow> string option \<Rightarrow> docs_db \<Rightarrow> docs_db" where
  "fail_version env st v = upd_versions (\<lambda>r. Some (vr_id r) = v)
     (\<lambda>r. r\<lparr>vr_status := st, vr_terminal_at := Some (ie_now env),
           vr_purge_after_at := Some (ie_now env + days (ie_retention_days env)),
           vr_updated_at := ie_now env\<rparr>)"

definition has_new_version :: "job_row \<Rightarrow> bool" where
  "has_new_version job \<longleftrightarrow> jb_operation job \<in> {OpInitial, OpReplace} \<and> nonempty (jb_version_id job)"

definition reclaimed :: "ingest_env \<Rightarrow> doc_row \<Rightarrow> job_row \<Rightarrow> job_attempt_row \<Rightarrow> docs_db \<Rightarrow> docs_db" where
  "reclaimed env document job attempt db0 =
     (let now = ie_now env; count = cycle_attempts job db0; will_retry = count < MAX_ATTEMPTS;
          next = (if will_retry then JobRetryWait else JobDeadLetter);
          db1 = upd_attempts (\<lambda>a. ia_id a = ia_id attempt \<and> ia_state a = AttRunning \<and> ia_fence a = ia_fence attempt)
            (\<lambda>a. expired_job_attempt a now) db0;
          db2 = drop_staged (jb_id job) db1;
          db3 = upd_jobs (\<lambda>j. jb_id j = jb_id job \<and> jb_state j = JobRunning \<and> jb_active_attempt j = Some (ia_id attempt))
            (\<lambda>j. j\<lparr>jb_state := next, jb_stage := None, jb_active_attempt := None,
                  jb_failure_reason := Some ''lease_expired'',
                  jb_next_attempt_at := (if will_retry then Some (now + retry_delay (ie_jitter env (jb_id job)) count) else None),
                  jb_updated_at := now\<rparr>) db2;
          owns = (\<lambda>d. dc_id d = jb_document_id job \<and> dc_active_job d = Some (jb_id job));
          db4 = (if will_retry then db3
                 else if has_new_version job then
                   upd_documents owns
                     (\<lambda>d. d\<lparr>dc_pending_version := None, dc_active_job := None,
                           dc_version := dc_version document + 1, dc_updated_at := now\<rparr>)
                     (fail_version env VFailed (jb_version_id job) db3)
                 else upd_documents owns
                   (\<lambda>d. d\<lparr>dc_active_job := None, dc_version := dc_version document + 1,
                         dc_updated_at := now\<rparr>) db3)
      in set_batch_item now job (if will_retry then ''retry_wait'' else ''dead_letter'') db4)"

definition reclaim_one :: "ingest_env \<Rightarrow> string \<times> string \<Rightarrow> docs_db \<Rightarrow> exn + docs_db" where
  "reclaim_one env expired db = (case expired of (job_id, document_id) \<Rightarrow>
     (case (find_document document_id db, find_job job_id db) of
        (None, _) \<Rightarrow> Inr db
      | (Some document, None) \<Rightarrow> Inl NoResultFound
      | (Some document, Some job) \<Rightarrow>
          if jb_state job \<noteq> JobRunning then Inr db
          else (case jb_active_attempt job of None \<Rightarrow> Inr db
            | Some attempt_id \<Rightarrow>
              (case find_attempt attempt_id db of None \<Rightarrow> Inr db
               | Some attempt \<Rightarrow>
                 if ia_state attempt \<noteq> AttRunning \<or>
                    (case ia_lease_expires_at attempt of None \<Rightarrow> True | Some t \<Rightarrow> ie_now env < t)
                 then Inr db
                 else bindE (discard_indexing_attempt env (Some (ia_id attempt)) db)
                   (\<lambda>db1. Inr (reclaimed env document job attempt db1))))))"

fun reclaim_each :: "ingest_env \<Rightarrow> (string \<times> string) list \<Rightarrow> docs_db \<Rightarrow> exn + docs_db" where
  "reclaim_each env [] db = Inr db"
| "reclaim_each env (e # es) db = bindE (reclaim_one env e db) (reclaim_each env es)"

definition reclaim_expired_attempts :: "ingest_env \<Rightarrow> docs_db \<Rightarrow> exn + docs_db" where
  "reclaim_expired_attempts env db = reclaim_each env
     (map (\<lambda>j. (jb_id j, jb_document_id j)) (sql_where (\<lambda>j. jb_state j = JobRunning) (jobs db))) db"

section \<open>Claiming\<close>

record job_lease =
  jl_job_id :: string
  jl_attempt_id :: string
  jl_attempt_number :: int
  jl_fence :: int
  jl_owner :: string
  jl_expires_at :: time
  jl_publication_id :: string
  jl_generation :: string
  jl_auth :: auth_fence

definition job_claimable :: "time \<Rightarrow> string option \<Rightarrow> job_row \<Rightarrow> bool" where
  "job_claimable now only job \<longleftrightarrow> job_runnable (jb_state job) \<and>
     (case jb_next_attempt_at job of None \<Rightarrow> True | Some t \<Rightarrow> t \<le> now) \<and>
     (case only of None \<Rightarrow> True | Some i \<Rightarrow> jb_id job = i)"

definition claim_candidate :: "time \<Rightarrow> string option \<Rightarrow> docs_db \<Rightarrow> job_row option" where
  "claim_candidate now only db =
     (case sort_key jb_created_at (sql_where (job_claimable now only) (jobs db)) of [] \<Rightarrow> None | j # _ \<Rightarrow> Some j)"

definition max_or_zero :: "int list \<Rightarrow> int" where
  "max_or_zero xs = (case xs of [] \<Rightarrow> 0 | x # rest \<Rightarrow> foldl max x rest)"

definition job_attempts :: "string \<Rightarrow> docs_db \<Rightarrow> job_attempt_row list" where
  "job_attempts job_id db = sql_where (\<lambda>a. ia_job_id a = job_id) (attempts db)"

text \<open>The staged publication of the attempt: the job's own if it is still staged, else a new one.\<close>

definition ensure_staged :: "ingest_env \<Rightarrow> job_row \<Rightarrow> docs_db \<Rightarrow> exn + (string \<times> docs_db)" where
  "ensure_staged env job db =
     (case find_publication (jb_active_publication job) db of
        Some p \<Rightarrow> if pb_status p = PubStaged then Inr (pb_id p, db)
          else (let i = new_id env ''publication'' 0 in
            bindE (insert_publication (staged_publication env i job) db)
              (\<lambda>db1. Inr (i, upd_jobs (\<lambda>j. jb_id j = jb_id job) (\<lambda>j. j\<lparr>jb_active_publication := Some i\<rparr>) db1)))
      | None \<Rightarrow> (let i = new_id env ''publication'' 0 in
            bindE (insert_publication (staged_publication env i job) db)
              (\<lambda>db1. Inr (i, upd_jobs (\<lambda>j. jb_id j = jb_id job) (\<lambda>j. j\<lparr>jb_active_publication := Some i\<rparr>) db1))))"

text \<open>The staged publication is moved to the generation that is active now.\<close>

definition align_generation :: "ingest_env \<Rightarrow> string \<Rightarrow> docs_db \<Rightarrow> exn + docs_db" where
  "align_generation env publication_id db =
     (case find_publication (Some publication_id) db of None \<Rightarrow> Inl NoResultFound
      | Some p \<Rightarrow> if pb_generation p = ie_generation env then Inr db
          else update_publications (\<lambda>q. pb_id q = publication_id)
            (\<lambda>q. q\<lparr>pb_generation := ie_generation env\<rparr>) db)"

definition replay_snapshot :: "job_row \<Rightarrow> (string \<times> string) list" where
  "replay_snapshot job = (if 0 < jb_replay_generation job
     then (case jb_replay_config job of None \<Rightarrow> [] | Some c \<Rightarrow> c) else [])"

definition profile_version :: "(string \<times> string) list \<Rightarrow> string" where
  "profile_version snapshot = (case map_of snapshot ''config_version'' of
      None \<Rightarrow> ''default'' | Some v \<Rightarrow> if blank v then ''default'' else v)"

definition staging_request_of ::
  "ingest_env \<Rightarrow> job_row \<Rightarrow> doc_row \<Rightarrow> version_row option \<Rightarrow> string \<Rightarrow> string \<Rightarrow> int \<Rightarrow> int
   \<Rightarrow> auth_fence \<Rightarrow> time \<Rightarrow> staging_request" where
  "staging_request_of env job document version attempt_id publication_id fence revision auth expires =
     (let subject = job_execution_actor job;
          (cost_center, kind, owner) = publication_space_ownership (dc_space_id document) subject
      in \<lparr>rq_job_id = jb_id job, rq_attempt_id = attempt_id, rq_fence = fence,
          rq_publication_id = publication_id, rq_document_id = jb_document_id job,
          rq_version_id = (case jb_version_id job of None \<Rightarrow> [] | Some v \<Rightarrow> v),
          rq_space_id = dc_space_id document, rq_operation = operation_name (jb_operation job),
          rq_base_active_version = jb_base_active_version job, rq_generation = ie_generation env,
          rq_index_revision = revision,
          rq_object_ref = (case version of None \<Rightarrow> [] | Some v \<Rightarrow>
             (case vr_manifest_key v of None \<Rightarrow> [] | Some k \<Rightarrow> k)),
          rq_config = replay_snapshot job, rq_auth = auth,
          rq_input_hash = (case version of None \<Rightarrow> ''None'' | Some v \<Rightarrow>
             (case vr_content_hash v of None \<Rightarrow> ''None'' | Some h \<Rightarrow> h)),
          rq_profile = profile_version (replay_snapshot job),
          rq_ownership = \<lparr>uo_actor = subject, uo_role = jb_quota_role job,
             uo_department = jb_quota_department job, uo_cost_center = cost_center,
             uo_space_kind = kind, uo_space_owner = owner\<rparr>,
          rq_deadline = expires, rq_replay_generation = jb_replay_generation job\<rparr>)"

definition new_attempt ::
  "ingest_env \<Rightarrow> string \<Rightarrow> job_row \<Rightarrow> string \<Rightarrow> int \<Rightarrow> int \<Rightarrow> int \<Rightarrow> string \<Rightarrow> time \<Rightarrow> staging_request
   \<Rightarrow> job_attempt_row" where
  "new_attempt env worker_id job attempt_id number cycle fence publication_id expires request =
     \<lparr>ia_id = attempt_id, ia_job_id = jb_id job, ia_number = number, ia_cycle_number = cycle,
      ia_replay_generation = jb_replay_generation job, ia_state = AttRunning,
      ia_owner = Some worker_id, ia_lease_expires_at = Some expires, ia_fence = fence,
      ia_publication_id = Some publication_id, ia_request = Some request, ia_receipt = None,
      ia_failure_class = None, ia_failure_reason = None, ia_created_at = ie_now env,
      ia_updated_at = ie_now env\<rparr>"

definition insert_attempt :: "job_attempt_row \<Rightarrow> docs_db \<Rightarrow> exn + docs_db" where
  "insert_attempt a db =
     (let t = attempts db @ [a] in
      if keyed ia_id t \<and> keyed (\<lambda>x. (ia_job_id x, ia_number x)) t then Inr (db\<lparr>attempts := t\<rparr>)
      else Inl IntegrityError)"

definition claimed :: "ingest_env \<Rightarrow> job_row \<Rightarrow> string \<Rightarrow> string \<Rightarrow> docs_db \<Rightarrow> exn + docs_db" where
  "claimed env job attempt_id publication_id db =
     bindE (update_publications (\<lambda>p. pb_id p = publication_id) (\<lambda>p. p\<lparr>pb_attempt_id := attempt_id\<rparr>)
         (upd_jobs (\<lambda>j. jb_id j = jb_id job \<and> job_runnable (jb_state j))
            (\<lambda>j. j\<lparr>jb_state := JobRunning, jb_stage := Some ''parsing'',
                  jb_active_attempt := Some attempt_id, jb_next_attempt_at := None,
                  jb_updated_at := ie_now env\<rparr>) db))
       (\<lambda>db1. Inr (set_batch_item (ie_now env) job ''running'' db1))"

text \<open>The attempt a claim starts: the next number and fence of the job, and its staging request.\<close>

definition claim_attempt ::
  "ingest_env \<Rightarrow> string \<Rightarrow> time \<Rightarrow> job_row \<Rightarrow> doc_row \<Rightarrow> string \<Rightarrow> auth_fence \<Rightarrow> docs_db \<Rightarrow> job_attempt_row" where
  "claim_attempt env worker_id ttl job document publication_id auth db =
     (let earlier = job_attempts (jb_id job) db;
          fence = max_or_zero (map ia_fence earlier) + 1;
          attempt_id = new_id env ''attempt'' 0;
          expires = ie_now env + ttl;
          revision = (case index_counter db of None \<Rightarrow> 0 | Some n \<Rightarrow> n)
      in new_attempt env worker_id job attempt_id (max_or_zero (map ia_number earlier) + 1)
           (cycle_attempts job db + 1) fence publication_id expires
           (staging_request_of env job document (find_version (jb_version_id job) db)
              attempt_id publication_id fence revision auth expires))"

definition job_lease_of :: "ingest_env \<Rightarrow> string \<Rightarrow> time \<Rightarrow> string \<Rightarrow> auth_fence \<Rightarrow> job_attempt_row \<Rightarrow> job_lease" where
  "job_lease_of env worker_id ttl publication_id auth a =
     \<lparr>jl_job_id = ia_job_id a, jl_attempt_id = ia_id a, jl_attempt_number = ia_number a,
      jl_fence = ia_fence a, jl_owner = worker_id, jl_expires_at = ie_now env + ttl,
      jl_publication_id = publication_id, jl_generation = ie_generation env, jl_auth = auth\<rparr>"

definition restore_is_pending :: "job_row \<Rightarrow> docs_db \<Rightarrow> bool" where
  "restore_is_pending job db \<longleftrightarrow> sql_count (\<lambda>h. ho_job_id h = jb_id job) (holds db) \<noteq> 0"

definition start_claim ::
  "ingest_env \<Rightarrow> job_row \<Rightarrow> string \<Rightarrow> job_attempt_row \<Rightarrow> docs_db \<Rightarrow> exn + docs_db" where
  "start_claim env job publication_id a db =
     bindE (insert_attempt a db) (claimed env job (ia_id a) publication_id)"

definition claim_job ::
  "ingest_env \<Rightarrow> string \<Rightarrow> time \<Rightarrow> job_row \<Rightarrow> doc_row \<Rightarrow> docs_db \<Rightarrow> exn + ((job_lease \<times> bool) \<times> docs_db)" where
  "claim_job env worker_id ttl job document db =
     bindE (ensure_staged env job db) (\<lambda>(publication_id, db1).
     bindE (align_generation env publication_id db1) (\<lambda>db2.
     bindE (worker_authorization_fence job document db2) (\<lambda>auth.
       let a = claim_attempt env worker_id ttl job document publication_id auth db2 in
       bindE (start_claim env job publication_id a db2) (\<lambda>db3.
       Inr ((job_lease_of env worker_id ttl publication_id auth a, restore_is_pending job db3), db3)))))"

text \<open>The second transaction of \<open>claim\<close>: the lease, and whether a restore copy is pending.\<close>

definition claim_next ::
  "ingest_env \<Rightarrow> string \<Rightarrow> string option \<Rightarrow> time \<Rightarrow> docs_db \<Rightarrow> exn + ((job_lease \<times> bool) \<times> docs_db)" where
  "claim_next env worker_id only ttl db =
     (let unavailable = Inl (PlatformError ''job_unavailable'' 409) in
      case claim_candidate (ie_now env) only db of None \<Rightarrow> unavailable
      | Some candidate \<Rightarrow>
        (case (find_document (jb_document_id candidate) db, find_job (jb_id candidate) db) of
           (Some document, Some job) \<Rightarrow>
             if job_claimable (ie_now env) only job then claim_job env worker_id ttl job document db else unavailable
         | _ \<Rightarrow> unavailable))"

section \<open>Renewing and marking\<close>

definition renewable :: "time \<Rightarrow> string \<Rightarrow> job_lease \<Rightarrow> job_attempt_row \<Rightarrow> bool" where
  "renewable now owner lease a \<longleftrightarrow> ia_id a = jl_attempt_id lease \<and> ia_job_id a = jl_job_id lease \<and>
     ia_state a = AttRunning \<and> ia_owner a = Some owner \<and> ia_fence a = jl_fence lease \<and>
     (case ia_lease_expires_at a of None \<Rightarrow> False | Some t \<Rightarrow> now < t)"

definition renew :: "time \<Rightarrow> string \<Rightarrow> time \<Rightarrow> job_lease \<Rightarrow> docs_db \<Rightarrow> exn + (job_lease option \<times> docs_db)" where
  "renew now owner ttl lease db =
     (if blank owner then Inl (PlatformError ''validation_error'' 422)
      else if ttl \<le> 0 then Inl ValueError
      else if (\<exists>a \<in> set (attempts db). renewable now owner lease a) \<and>
              (\<exists>j \<in> set (jobs db). jb_id j = jl_job_id lease \<and> jb_state j = JobRunning \<and>
                 jb_active_attempt j = Some (jl_attempt_id lease))
        then Inr (Some (lease\<lparr>jl_owner := owner, jl_expires_at := now + ttl\<rparr>),
          upd_attempts (renewable now owner lease)
            (\<lambda>a. a\<lparr>ia_lease_expires_at := Some (now + ttl), ia_updated_at := now\<rparr>) db)
      else Inr (None, db))"

definition mark_job_indexing :: "time \<Rightarrow> string \<Rightarrow> string \<Rightarrow> int \<Rightarrow> docs_db \<Rightarrow> exn + docs_db" where
  "mark_job_indexing now job_id attempt_id fence db =
     (case find_attempt attempt_id db of
        None \<Rightarrow> Inl (PlatformError ''fence_conflict'' 409)
      | Some a \<Rightarrow>
        if ia_job_id a \<noteq> job_id \<or> ia_state a \<noteq> AttRunning \<or> ia_fence a \<noteq> fence
          then Inl (PlatformError ''fence_conflict'' 409)
        else (let current = (\<lambda>j. jb_id j = job_id \<and> jb_state j = JobRunning \<and> jb_active_attempt j = Some attempt_id)
          in if sql_count current (jobs db) \<noteq> 1 then Inl (PlatformError ''fence_conflict'' 409)
             else Inr (upd_jobs current (\<lambda>j. j\<lparr>jb_stage := Some ''indexing'', jb_updated_at := now\<rparr>) db)))"

section \<open>Failing\<close>

definition drop_version_claim :: "job_row \<Rightarrow> docs_db \<Rightarrow> docs_db" where
  "drop_version_claim job = del_claims
     (\<lambda>c. dd_document_id c = jb_document_id job \<and> dd_version_id c = jb_version_id job)"

definition failed_state :: "bool \<Rightarrow> int \<Rightarrow> job_state" where
  "failed_state retryable count =
     (if retryable \<and> count < MAX_ATTEMPTS then JobRetryWait
      else if retryable then JobDeadLetter else JobFailed)"

definition job_state_name :: "job_state \<Rightarrow> string" where
  "job_state_name st = (case st of JobPending \<Rightarrow> ''pending'' | JobRunning \<Rightarrow> ''running''
     | JobRetryWait \<Rightarrow> ''retry_wait'' | JobSucceeded \<Rightarrow> ''succeeded'' | JobFailed \<Rightarrow> ''failed''
     | JobCancelled \<Rightarrow> ''cancelled'' | JobDeadLetter \<Rightarrow> ''dead_letter'')"

text \<open>Closing the document operation of a job that ended without a publication.\<close>

definition close_operation ::
  "ingest_env \<Rightarrow> version_state \<Rightarrow> doc_row \<Rightarrow> job_row \<Rightarrow> docs_db \<Rightarrow> docs_db" where
  "close_operation env st document job db =
     (if has_new_version job then
        drop_version_claim job
          (upd_documents (\<lambda>d. dc_id d = jb_document_id job)
            (\<lambda>d. d\<lparr>dc_pending_version := None, dc_active_job := None,
                  dc_version := dc_version document + 1, dc_updated_at := ie_now env\<rparr>)
            (fail_version env st (jb_version_id job) db))
      else upd_documents (\<lambda>d. dc_id d = jb_document_id job)
        (\<lambda>d. d\<lparr>dc_active_job := None, dc_version := dc_version document + 1,
              dc_updated_at := ie_now env\<rparr>) db)"

definition failed :: "ingest_env \<Rightarrow> string \<Rightarrow> bool \<Rightarrow> doc_row \<Rightarrow> job_row \<Rightarrow> string \<Rightarrow> string list
    \<Rightarrow> docs_db \<Rightarrow> docs_db" where
  "failed env reason retryable document job attempt_id event_ids db0 =
     (let now = ie_now env; count = cycle_attempts job db0; st = failed_state retryable count;
          will_retry = (st = JobRetryWait);
          db1 = upd_attempts (\<lambda>a. ia_id a = attempt_id)
            (\<lambda>a. a\<lparr>ia_state := AttFailed, ia_lease_expires_at := None, ia_publication_id := None,
                  ia_failure_reason := Some reason, ia_updated_at := now\<rparr>) db0;
          db2 = upd_jobs (\<lambda>j. jb_id j = jb_id job \<and> jb_state j = JobRunning \<and> jb_active_attempt j = Some attempt_id)
            (\<lambda>j. j\<lparr>jb_state := st, jb_stage := None, jb_active_attempt := None,
                  jb_failure_reason := Some reason,
                  jb_next_attempt_at := (if will_retry then Some (now + retry_delay (ie_jitter env (jb_id job)) count) else None),
                  jb_notification_ids := (if will_retry then jb_notification_ids j else event_ids),
                  jb_updated_at := now\<rparr>) db1;
          db3 = drop_staged (jb_id job) db2;
          db4 = (if will_retry then db3 else close_operation env VFailed document job db3)
      in set_batch_item now job (if will_retry then ''retry_wait'' else job_state_name st) db4)"

definition notify_terminal ::
  "ingest_env \<Rightarrow> job_row \<Rightarrow> string \<Rightarrow> string option \<Rightarrow> docs_db \<Rightarrow> exn + (string list \<times> docs_db)" where
  "notify_terminal env job event reason db =
     bindE (ie_notify_terminal env event (jb_id job))
       (\<lambda>ids. Inr (ids, call_port (NotifyTerminal event (jb_id job) reason) db))"

definition terminal_state :: "job_state \<Rightarrow> bool" where
  "terminal_state st \<longleftrightarrow> st \<in> {JobSucceeded, JobFailed, JobCancelled, JobDeadLetter}"

definition fail_job ::
  "ingest_env \<Rightarrow> string \<Rightarrow> string \<Rightarrow> bool \<Rightarrow> string option \<Rightarrow> int option \<Rightarrow> docs_db \<Rightarrow> exn + (job_state \<times> docs_db)" where
  "fail_job env job_id reason retryable attempt_id fence db =
     (case find_job job_id db of None \<Rightarrow> Inl (PlatformError ''job_not_found'' 404)
      | Some job \<Rightarrow>
        (case find_document (jb_document_id job) db of None \<Rightarrow> Inl (PlatformError ''document_not_found'' 404)
         | Some document \<Rightarrow>
           if terminal_state (jb_state job) then Inl (PlatformError ''job_not_failable'' 409)
           else if jb_state job \<noteq> JobRunning then Inl (PlatformError ''fence_conflict'' 409)
           else (case jb_active_attempt job of None \<Rightarrow> Inl (PlatformError ''fence_conflict'' 409)
             | Some active \<Rightarrow>
               (case find_attempt active db of None \<Rightarrow> Inl (PlatformError ''fence_conflict'' 409)
                | Some a \<Rightarrow>
                  if ia_state a \<noteq> AttRunning \<or> attempt_id \<noteq> Some active \<or> fence \<noteq> Some (ia_fence a)
                    then Inl (PlatformError ''fence_conflict'' 409)
                  else (let st = failed_state retryable (cycle_attempts job db) in
                    bindE (if st = JobRetryWait then Inr ([], db)
                           else notify_terminal env job ''ingestion_failed'' (Some reason) db)
                      (\<lambda>(ids, db1). bindE (discard_indexing_attempt env (Some active) db1)
                        (\<lambda>db2. Inr (st, failed env reason retryable document job active ids db2))))))))"

end
