(* ===== verification/Ingestion_Commands.thy ===== *)
theory Ingestion_Commands
  imports Ingestion_Jobs
begin

text \<open>
  The commands of \<open>DocumentsService\<close> (\<^verbatim>\<open>app/documents/service.py\<close>) that start, cancel and
  replay ingestion jobs: initial upload, replacement, restore and reindexing of a version, each
  idempotent by its key, cancellation and operator replay. A reserved idempotency record is
  completed in the transaction that reserves it, so the committed ones are completed. Writing the
  original object to the store is I/O and left out.
\<close>

section \<open>Shared steps\<close>

definition conflict :: "string \<Rightarrow> exn" where
  "conflict code = PlatformError code 409"

definition required_key :: "string option \<Rightarrow> exn + string" where
  "required_key k = (case k of None \<Rightarrow> Inl (PlatformError ''validation_error'' 422)
     | Some s \<Rightarrow> if blank s \<or> 256 < length (py_strip s) then Inl (PlatformError ''validation_error'' 422)
         else Inr (py_strip s))"

definition fingerprint_of :: "ingest_env \<Rightarrow> pval \<Rightarrow> string" where
  "fingerprint_of env v = ie_sha env (json_dumps (ie_float_repr env) v)"

definition idempotent_row ::
  "ingest_env \<Rightarrow> string \<Rightarrow> string \<Rightarrow> string \<Rightarrow> string \<Rightarrow> docs_db \<Rightarrow> idempotency_row option" where
  "idempotent_row env actor endpoint target key db = sql_first
     (\<lambda>r. ik_actor r = actor \<and> ik_endpoint r = endpoint \<and> ik_target r = target \<and>
        ik_key_hash r = ie_sha env key) (idempotency db)"

text \<open>\<open>_idempotency_replay\<close> and \<open>_complete_idempotency\<close> around a command body.\<close>

definition idempotently ::
  "ingest_env \<Rightarrow> string \<Rightarrow> string \<Rightarrow> string \<Rightarrow> string \<Rightarrow> string
   \<Rightarrow> (docs_db \<Rightarrow> exn + (command_response \<times> docs_db)) \<Rightarrow> docs_db \<Rightarrow> exn + (command_response \<times> docs_db)" where
  "idempotently env actor endpoint target key fingerprint body db =
     (case idempotent_row env actor endpoint target key db of
        Some r \<Rightarrow> if ik_fingerprint r \<noteq> fingerprint then Inl (conflict ''idempotency_key_conflict'')
          else Inr (ik_response r, db)
      | None \<Rightarrow> bindE (body db) (\<lambda>(response, db1). Inr (response,
          db1\<lparr>idempotency := idempotency db1 @ [\<lparr>ik_actor = actor, ik_endpoint = endpoint,
            ik_target = target, ik_key_hash = ie_sha env key, ik_fingerprint = fingerprint,
            ik_response = response\<rparr>]\<rparr>)))"

definition insert_document :: "doc_row \<Rightarrow> docs_db \<Rightarrow> exn + docs_db" where
  "insert_document d db = (let t = documents db @ [d] in
     if keyed dc_id t then Inr (db\<lparr>documents := t\<rparr>) else Inl IntegrityError)"

definition insert_version :: "version_row \<Rightarrow> docs_db \<Rightarrow> exn + docs_db" where
  "insert_version v db = (let t = versions db @ [v] in
     if keyed vr_id t \<and> keyed (\<lambda>r. (vr_document_id r, vr_number r)) t then Inr (db\<lparr>versions := t\<rparr>)
     else Inl IntegrityError)"

definition insert_job :: "job_row \<Rightarrow> docs_db \<Rightarrow> exn + docs_db" where
  "insert_job j db = (let t = jobs db @ [j] in
     if keyed jb_id t then Inr (db\<lparr>jobs := t\<rparr>) else Inl IntegrityError)"

definition new_job ::
  "ingest_env \<Rightarrow> principal \<Rightarrow> string \<Rightarrow> string \<Rightarrow> string option \<Rightarrow> operation \<Rightarrow> string option
   \<Rightarrow> string option \<Rightarrow> string \<Rightarrow> int \<Rightarrow> payload list \<Rightarrow> job_row" where
  "new_job env who job_id document_id version_id op base batch publication_id version degradations =
     \<lparr>jb_id = job_id, jb_document_id = document_id, jb_version_id = version_id, jb_operation = op,
      jb_state = JobPending, jb_stage = Some ''queued'', jb_base_active_version = base,
      jb_batch = batch, jb_active_attempt = None, jb_active_publication = Some publication_id,
      jb_version = version, jb_replay_generation = 0, jb_next_attempt_at = None,
      jb_failure_reason = None, jb_cancelled_by = None, jb_cancelled_at = None,
      jb_replayed_by = None, jb_degradations = degradations, jb_summary = None,
      jb_replay_config = None, jb_usage = None, jb_ocr_low = False, jb_notification_ids = [],
      jb_created_by = pr_user_id who, jb_quota_role = pr_role who,
      jb_quota_department = pr_department who, jb_quota_exempt = None, jb_charge_status = ''pending'',
      jb_charge_reason = None, jb_created_at = ie_now env, jb_updated_at = ie_now env\<rparr>"

definition pending_version ::
  "ingest_env \<Rightarrow> principal \<Rightarrow> string \<Rightarrow> string \<Rightarrow> int \<Rightarrow> string option \<Rightarrow> string option \<Rightarrow> string option
   \<Rightarrow> int \<Rightarrow> string option \<Rightarrow> version_row" where
  "pending_version env who version_id document_id number hash filename media bytes restored_from =
     (let key = ''documents/'' @ document_id @ ''/'' @ version_id @ ''/original'' in
      \<lparr>vr_id = version_id, vr_document_id = document_id, vr_number = number, vr_status = VPending,
       vr_content_hash = hash, vr_manifest_key = Some key, vr_object_key = Some key,
       vr_file_name = filename, vr_media_kind = media, vr_size = bytes,
       vr_created_by = Some (pr_user_id who), vr_activated_at = None, vr_terminal_at = None,
       vr_superseded_at = None, vr_purge_after_at = None, vr_purged_at = None,
       vr_restored_from = restored_from, vr_created_at = ie_now env, vr_updated_at = ie_now env\<rparr>)"

definition next_version_number :: "string \<Rightarrow> docs_db \<Rightarrow> int" where
  "next_version_number document_id db =
     max_or_zero (map vr_number (sql_where (\<lambda>v. vr_document_id v = document_id) (versions db))) + 1"

definition assert_document_writable :: "doc_row \<Rightarrow> int \<Rightarrow> exn + unit" where
  "assert_document_writable d expected =
     (if dc_lifecycle d = DocPendingDelete then Inl (conflict ''document_pending_delete'')
      else if dc_lifecycle d = DocDeleted then Inl (PlatformError ''document_deleted'' 410)
      else if dc_version d \<noteq> expected then Inl (conflict ''document_version_conflict'')
      else if dc_active_job d \<noteq> None then Inl (conflict ''document_operation_in_progress'')
      else Inr ())"

definition dedup_key :: "dedup_row \<Rightarrow> string \<times> string \<times> string" where
  "dedup_key c = (dd_space_id c, dd_name c, dd_hash c)"

definition find_claim :: "string \<times> string \<times> string \<Rightarrow> docs_db \<Rightarrow> dedup_row option" where
  "find_claim key db = sql_first (\<lambda>c. dedup_key c = key) (dedup_claims db)"

text \<open>A claim whose document is gone or going does not count.\<close>

definition claim_owner_gone :: "dedup_row \<Rightarrow> docs_db \<Rightarrow> bool" where
  "claim_owner_gone c db = (case find_document (dd_document_id c) db of
      None \<Rightarrow> True | Some d \<Rightarrow> dc_lifecycle d \<in> {DocDeleted, DocPendingDelete})"

definition assert_replacement_claim_available ::
  "doc_row \<Rightarrow> string \<Rightarrow> string \<Rightarrow> docs_db \<Rightarrow> exn + unit" where
  "assert_replacement_claim_available d name hash db =
     (case find_claim (dc_space_id d, name, hash) db of
        None \<Rightarrow> Inr ()
      | Some c \<Rightarrow> if dd_document_id c = dc_id d \<or> claim_owner_gone c db then Inr ()
          else Inl (conflict ''duplicate_document''))"

text \<open>The writes shared by the commands that start a job on an existing document.\<close>

definition start_job :: "ingest_env \<Rightarrow> job_row \<Rightarrow> docs_db \<Rightarrow> exn + docs_db" where
  "start_job env job db = bindE (insert_job job db)
     (insert_publication (staged_publication env (the (jb_active_publication job)) job))"

definition lock_document :: "string \<Rightarrow> docs_db \<Rightarrow> exn + doc_row" where
  "lock_document i db = (case find_document i db of
      None \<Rightarrow> Inl (PlatformError ''document_not_found'' 404) | Some d \<Rightarrow> Inr d)"

section \<open>Reindex\<close>

definition reindex_body ::
  "ingest_env \<Rightarrow> principal \<Rightarrow> doc_row \<Rightarrow> int \<Rightarrow> docs_db \<Rightarrow> exn + (command_response \<times> docs_db)" where
  "reindex_body env who d expected db =
     bindE (assert_document_writable d expected) (\<lambda>_.
     bindE (ie_check_quota env (pr_user_id who)) (\<lambda>_.
     case dc_active_version d of None \<Rightarrow> Inl (conflict ''document_not_published'')
     | Some active \<Rightarrow>
       (let job_id = new_id env ''job'' 0; publication_id = new_id env ''publication'' 0;
            next = dc_version d + 1 in
        bindE (start_job env (new_job env who job_id (dc_id d) (Some active) OpReindex (Some active)
                 None publication_id next []) db) (\<lambda>db1.
        Inr (VersionAccepted (dc_id d) active job_id publication_id next,
             upd_documents (\<lambda>x. dc_id x = dc_id d)
               (\<lambda>x. x\<lparr>dc_active_job := Some job_id, dc_version := next, dc_updated_at := ie_now env\<rparr>) db1)))))"

definition reindex ::
  "ingest_env \<Rightarrow> principal \<Rightarrow> string \<Rightarrow> int \<Rightarrow> string option \<Rightarrow> docs_db \<Rightarrow> exn + (command_response \<times> docs_db)" where
  "reindex env who document_id expected key db =
     bindE (required_key key) (\<lambda>k.
     if expected < 1 then Inl (PlatformError ''validation_error'' 422) else
     bindE (lock_document document_id db) (\<lambda>d.
     bindE (ie_authorize env (pr_user_id who) (dc_space_id d)) (\<lambda>_.
     idempotently env (pr_user_id who) ''documents.reindex'' document_id k
       (fingerprint_of env (PDict [(''expected_version'', PInt expected)]))
       (reindex_body env who d expected) db)))"

section \<open>Replacement\<close>

definition info_json :: "file_info \<Rightarrow> pval" where
  "info_json i = PDict [(''filename'', PStr (fi_filename i)), (''normalized_filename'', PStr (fi_normalized i)),
     (''media_kind'', PStr (fi_media_kind i)), (''size_bytes'', PInt (fi_size i)),
     (''content_hash_sha256'', PStr (fi_hash i)),
     (''security_risk_fact'', case fi_risk i of None \<Rightarrow> PNull | Some r \<Rightarrow> PDict r)]"

definition security_degradations :: "file_info \<Rightarrow> payload list" where
  "security_degradations i = (case fi_risk i of None \<Rightarrow> [] | Some r \<Rightarrow> [r])"

text \<open>A new pending version of a document and the job that ingests it, for \<open>replace_version\<close> and a restore.\<close>

definition begin_replacement ::
  "ingest_env \<Rightarrow> principal \<Rightarrow> doc_row \<Rightarrow> version_row \<Rightarrow> payload list \<Rightarrow> docs_db \<Rightarrow> exn + docs_db" where
  "begin_replacement env who d version degradations db =
     (let job_id = new_id env ''job'' 0; next = dc_version d + 1 in
      bindE (insert_version version db) (\<lambda>db1.
      bindE (start_job env (new_job env who job_id (dc_id d) (Some (vr_id version)) OpReplace
               (dc_active_version d) None (new_id env ''publication'' 0) next degradations) db1) (\<lambda>db2.
      Inr (upd_documents (\<lambda>x. dc_id x = dc_id d)
             (\<lambda>x. x\<lparr>dc_pending_version := Some (vr_id version), dc_active_job := Some job_id,
                   dc_version := next, dc_updated_at := ie_now env\<rparr>) db2))))"

definition replace_accepted ::
  "ingest_env \<Rightarrow> principal \<Rightarrow> doc_row \<Rightarrow> file_info \<Rightarrow> docs_db \<Rightarrow> exn + (command_response \<times> docs_db)" where
  "replace_accepted env who d info db =
     (let version = pending_version env who (new_id env ''version'' 0) (dc_id d)
            (next_version_number (dc_id d) db) (Some (fi_hash info)) (Some (fi_filename info))
            (Some (fi_media_kind info)) (fi_size info) None in
      bindE (begin_replacement env who d version (security_degradations info) db) (\<lambda>db1.
      Inr (VersionAccepted (dc_id d) (vr_id version) (new_id env ''job'' 0) (new_id env ''publication'' 0)
             (dc_version d + 1), db1)))"

definition replace_body ::
  "ingest_env \<Rightarrow> principal \<Rightarrow> doc_row \<Rightarrow> int \<Rightarrow> file_info \<Rightarrow> docs_db \<Rightarrow> exn + (command_response \<times> docs_db)" where
  "replace_body env who d expected info db =
     bindE (assert_document_writable d expected) (\<lambda>_.
     bindE (assert_replacement_claim_available d (fi_normalized info) (fi_hash info) db) (\<lambda>_.
     (case find_version (dc_active_version d) db of
        Some active \<Rightarrow>
          if vr_content_hash active = Some (fi_hash info)
            then Inr (VersionUnchanged (dc_id d) (vr_id active) (dc_version d), db)
          else bindE (ie_check_quota env (pr_user_id who)) (\<lambda>_. replace_accepted env who d info db)
      | None \<Rightarrow> bindE (ie_check_quota env (pr_user_id who)) (\<lambda>_. replace_accepted env who d info db))))"

definition replace_version ::
  "ingest_env \<Rightarrow> principal \<Rightarrow> string \<Rightarrow> int \<Rightarrow> upload_file \<Rightarrow> string option \<Rightarrow> docs_db
   \<Rightarrow> exn + (command_response \<times> docs_db)" where
  "replace_version env who document_id expected file key db =
     bindE (required_key key) (\<lambda>k.
     if expected < 1 then Inl (PlatformError ''validation_error'' 422) else
     bindE (ie_file_info env file) (\<lambda>info.
     bindE (lock_document document_id db) (\<lambda>d.
     bindE (ie_authorize env (pr_user_id who) (dc_space_id d)) (\<lambda>_.
     idempotently env (pr_user_id who) ''documents.replace_version'' document_id k
       (fingerprint_of env (PDict [(''expected_version'', PInt expected), (''file'', info_json info)]))
       (replace_body env who d expected info) db))))"

section \<open>Restore\<close>

definition py_str_opt :: "string option \<Rightarrow> string" where
  "py_str_opt x = (case x of None \<Rightarrow> ''None'' | Some s \<Rightarrow> s)"

fun py_split_acc :: "string \<Rightarrow> string \<Rightarrow> string list" where
  "py_split_acc word [] = (if word = [] then [] else [rev word])"
| "py_split_acc word (c # s) =
     (if py_isspace c then (if word = [] then py_split_acc [] s else rev word # py_split_acc [] s)
      else py_split_acc (c # word) s)"

definition normalize_filename :: "string \<Rightarrow> exn + (string \<times> string)" where
  "normalize_filename filename =
     (let normalized = join_with '' '' (py_split_acc [] (py_strip filename)) in
      if normalized = [] \<or> CHR ''/'' \<in> set normalized \<or> CHR 0x5C \<in> set normalized \<or> CHR 0x00 \<in> set normalized
      then Inl (PlatformError ''validation_error'' 422)
      else Inr (normalized, casefold normalized))"

definition insert_hold :: "hold_row \<Rightarrow> docs_db \<Rightarrow> exn + docs_db" where
  "insert_hold h db = (let t = holds db @ [h] in
     if keyed ho_id t \<and> keyed ho_job_id t then Inr (db\<lparr>holds := t\<rparr>) else Inl IntegrityError)"

definition add_audit :: "string \<Rightarrow> string \<Rightarrow> string \<Rightarrow> string \<Rightarrow> docs_db \<Rightarrow> docs_db" where
  "add_audit actor resource_type resource_id result db = db\<lparr>audits := audits db @
     [\<lparr>au_actor = actor, au_resource_type = resource_type, au_resource_id = resource_id, au_result = result\<rparr>]\<rparr>"

definition restore_accepted ::
  "ingest_env \<Rightarrow> principal \<Rightarrow> doc_row \<Rightarrow> version_row \<Rightarrow> docs_db \<Rightarrow> exn + (command_response \<times> docs_db)" where
  "restore_accepted env who d source db =
     (let version = pending_version env who (new_id env ''version'' 0) (dc_id d)
            (next_version_number (dc_id d) db) (Some (py_str_opt (vr_content_hash source)))
            (vr_file_name source) (vr_media_kind source) (vr_size source) (Some (vr_id source));
          job_id = new_id env ''job'' 0 in
      bindE (begin_replacement env who d version [] db) (\<lambda>db1.
      bindE (insert_hold \<lparr>ho_id = new_id env ''restore_hold'' 0, ho_version_id = vr_id source,
               ho_job_id = job_id, ho_created_at = ie_now env\<rparr> db1) (\<lambda>db2.
      Inr (RestoreAccepted (dc_id d) (vr_id version) (vr_id source) job_id (new_id env ''publication'' 0)
             (dc_version d + 1),
           add_audit (pr_user_id who) ''documents.version_restore'' (dc_id d) ''succeeded'' db2))))"

definition restore_body ::
  "ingest_env \<Rightarrow> principal \<Rightarrow> doc_row \<Rightarrow> string \<Rightarrow> int \<Rightarrow> docs_db \<Rightarrow> exn + (command_response \<times> docs_db)" where
  "restore_body env who d version_id expected db =
     bindE (assert_document_writable d expected) (\<lambda>_.
     bindE (ie_check_quota env (pr_user_id who)) (\<lambda>_.
     case sql_first (\<lambda>v. vr_id v = version_id \<and> vr_document_id v = dc_id d) (versions db) of
       None \<Rightarrow> Inl (PlatformError ''document_version_not_found'' 404)
     | Some source \<Rightarrow>
         if vr_status source \<noteq> VSuperseded then Inl (conflict ''document_version_not_restorable'') else
         bindE (normalize_filename (py_str_opt (vr_file_name source))) (\<lambda>(_, name).
         bindE (assert_replacement_claim_available d name (py_str_opt (vr_content_hash source)) db) (\<lambda>_.
         if (case vr_purge_after_at source of None \<Rightarrow> False | Some t \<Rightarrow> t \<le> ie_now env)
         then Inl (conflict ''document_version_purged'')
         else restore_accepted env who d source db))))"

definition restore_version_locked ::
  "ingest_env \<Rightarrow> principal \<Rightarrow> string \<Rightarrow> string \<Rightarrow> int \<Rightarrow> string option \<Rightarrow> docs_db
   \<Rightarrow> exn + (command_response \<times> docs_db)" where
  "restore_version_locked env who document_id version_id expected key db =
     bindE (required_key key) (\<lambda>k.
     bindE (lock_document document_id db) (\<lambda>d.
     bindE (ie_authorize env (pr_user_id who) (dc_space_id d)) (\<lambda>_.
     idempotently env (pr_user_id who) ''documents.restore_version'' document_id k
       (fingerprint_of env (PDict [(''document_version_id'', PStr version_id),
          (''expected_version'', PInt expected)]))
       (restore_body env who d version_id expected) db)))"

text \<open>The audit of a refused restore is written after the rollback, in a transaction of its own.\<close>

definition restore_version ::
  "ingest_env \<Rightarrow> principal \<Rightarrow> string \<Rightarrow> string \<Rightarrow> int \<Rightarrow> string option \<Rightarrow> docs_db
   \<Rightarrow> (exn + command_response) \<times> docs_db" where
  "restore_version env who document_id version_id expected key db =
     (case restore_version_locked env who document_id version_id expected key db of
        Inr (response, db1) \<Rightarrow> (Inr response, db1)
      | Inl e \<Rightarrow> (Inl e,
          if \<exists>status. e = PlatformError ''document_version_not_restorable'' status \<or>
                    e = PlatformError ''document_version_purged'' status
          then add_audit (pr_user_id who) ''documents.version_restore'' document_id ''failed'' db else db))"

section \<open>Initial upload\<close>

datatype upload_entry = Refused string exn | Offered upload_file

datatype file_state = FileRejected string exn | FileAccepted file_info

definition upload_safety_codes :: "string list" where
  "upload_safety_codes = [''upload_too_large'', ''upload_media_type_not_allowed'',
     ''upload_content_type_mismatch'', ''upload_media_mismatch'', ''upload_archive_not_allowed'',
     ''upload_content_invalid'', ''malware_detected'', ''validation_error'']"

definition safety_error :: "exn \<Rightarrow> bool" where
  "safety_error e = (case e of PlatformError code _ \<Rightarrow> code \<in> set upload_safety_codes | _ \<Rightarrow> False)"

fun classify_files :: "ingest_env \<Rightarrow> upload_entry list \<Rightarrow> exn + file_state list" where
  "classify_files env [] = Inr []"
| "classify_files env (Refused filename e # rest) =
     bindE (classify_files env rest) (\<lambda>states. Inr (FileRejected filename e # states))"
| "classify_files env (Offered f # rest) = (case ie_file_info env f of
       Inl e \<Rightarrow> if safety_error e
         then bindE (classify_files env rest) (\<lambda>states. Inr (FileRejected (uf_filename f) e # states))
         else Inl e
     | Inr info \<Rightarrow> bindE (classify_files env rest) (\<lambda>states. Inr (FileAccepted info # states)))"

definition accepted_infos :: "file_state list \<Rightarrow> file_info list" where
  "accepted_infos states = concat (map (\<lambda>s. case s of FileAccepted i \<Rightarrow> [i] | FileRejected _ _ \<Rightarrow> []) states)"

text \<open>Sorted by normalised name, hash and media kind; the three sorts are stable.\<close>

definition upload_fingerprint :: "ingest_env \<Rightarrow> file_state list \<Rightarrow> string" where
  "upload_fingerprint env states = fingerprint_of env (PList (map info_json
     (sort_key fi_normalized (sort_key fi_hash (sort_key fi_media_kind (accepted_infos states))))))"

definition insert_batch_item :: "batch_item_row \<Rightarrow> docs_db \<Rightarrow> exn + docs_db" where
  "insert_batch_item i db = (let t = batch_items db @ [i] in
     if keyed bi_id t then Inr (db\<lparr>batch_items := t\<rparr>) else Inl IntegrityError)"

definition batch_item ::
  "ingest_env \<Rightarrow> string \<Rightarrow> string \<Rightarrow> string option \<Rightarrow> string \<Rightarrow> string \<Rightarrow> string \<Rightarrow> bool \<Rightarrow> string option
   \<Rightarrow> string option \<Rightarrow> batch_item_row" where
  "batch_item env item_id batch document_id filename hash st dedup job_id rejection =
     \<lparr>bi_id = item_id, bi_batch = batch, bi_document_id = document_id, bi_file_name = filename,
      bi_hash = hash, bi_state = st, bi_deduplicated = dedup, bi_job_id = job_id,
      bi_rejection = rejection, bi_created_at = ie_now env, bi_updated_at = ie_now env\<rparr>"

definition error_code :: "exn \<Rightarrow> string option" where
  "error_code e = (case e of PlatformError code _ \<Rightarrow> Some code | _ \<Rightarrow> None)"

definition upload_rejected ::
  "ingest_env \<Rightarrow> string \<Rightarrow> nat \<Rightarrow> string \<Rightarrow> exn \<Rightarrow> docs_db \<Rightarrow> exn + (upload_item \<times> docs_db)" where
  "upload_rejected env batch n filename e db =
     bindE (insert_batch_item (batch_item env (new_id env ''batch_item'' n) batch None filename
              [] ''rejected'' False None (error_code e)) db)
       (\<lambda>db1. Inr (ItemRejected filename e, db1))"

definition deduplicated_upload_item ::
  "ingest_env \<Rightarrow> string \<Rightarrow> nat \<Rightarrow> file_info \<Rightarrow> dedup_row \<Rightarrow> docs_db \<Rightarrow> exn + (upload_item \<times> docs_db)" where
  "deduplicated_upload_item env batch n info claim db =
     (let version = (case find_document (dd_document_id claim) db of None \<Rightarrow> None
            | Some d \<Rightarrow> if nonempty (dc_active_version d) then dc_active_version d else dc_pending_version d) in
      bindE (insert_batch_item (batch_item env (new_id env ''batch_item'' n) batch
               (Some (dd_document_id claim)) (fi_filename info) (fi_hash info) ''deduplicated'' True None
               None) db)
        (\<lambda>db1. Inr (ItemDeduplicated (fi_filename info) (dd_space_id claim) (dd_document_id claim) version, db1)))"

definition initial_document ::
  "ingest_env \<Rightarrow> principal \<Rightarrow> string \<Rightarrow> nat \<Rightarrow> file_info \<Rightarrow> doc_row" where
  "initial_document env who space n info =
     \<lparr>dc_id = new_id env ''doc'' n, dc_space_id = space, dc_lifecycle = DocActive,
      dc_active_version = None, dc_pending_version = Some (new_id env ''version'' n),
      dc_active_job = Some (new_id env ''job'' n), dc_deletion_id = None, dc_version = 1,
      dc_name = Some (fi_filename info), dc_normalized_name = Some (fi_normalized info),
      dc_media_kind = Some (fi_media_kind info), dc_uploaded_at = ie_now env,
      dc_created_by = Some (pr_user_id who), dc_created_at = ie_now env, dc_updated_at = ie_now env\<rparr>"

text \<open>INSERT ... ON CONFLICT DO NOTHING on the claim: whether the row was inserted.\<close>

definition insert_claim :: "dedup_row \<Rightarrow> docs_db \<Rightarrow> bool \<times> docs_db" where
  "insert_claim c db = (if dedup_key c \<in> dedup_key ` set (dedup_claims db) then (False, db)
     else (True, db\<lparr>dedup_claims := dedup_claims db @ [c]\<rparr>))"

definition upload_rows ::
  "ingest_env \<Rightarrow> principal \<Rightarrow> string \<Rightarrow> string \<Rightarrow> nat \<Rightarrow> file_info \<Rightarrow> docs_db \<Rightarrow> exn + docs_db" where
  "upload_rows env who space batch n info db =
     (let d = initial_document env who space n info; version_id = new_id env ''version'' n in
      bindE (insert_document d db) (\<lambda>db1.
      bindE (insert_version (pending_version env who version_id (dc_id d) 1 (Some (fi_hash info))
               (Some (fi_filename info)) (Some (fi_media_kind info)) (fi_size info) None) db1)
        (start_job env (new_job env who (new_id env ''job'' n) (dc_id d) (Some version_id) OpInitial None
           (Some batch) (new_id env ''publication'' n) 1 (security_degradations info)))))"

definition upload_claim :: "ingest_env \<Rightarrow> string \<Rightarrow> nat \<Rightarrow> file_info \<Rightarrow> dedup_row" where
  "upload_claim env space n info =
     \<lparr>dd_space_id = space, dd_name = fi_normalized info, dd_hash = fi_hash info,
      dd_document_id = new_id env ''doc'' n, dd_version_id = Some (new_id env ''version'' n),
      dd_created_at = ie_now env\<rparr>"

text \<open>An upload that loses the claim removes its rows again and counts as a duplicate.\<close>

definition upload_new ::
  "ingest_env \<Rightarrow> principal \<Rightarrow> string \<Rightarrow> string \<Rightarrow> nat \<Rightarrow> file_info \<Rightarrow> docs_db
   \<Rightarrow> exn + (upload_item \<times> docs_db)" where
  "upload_new env who space batch n info db =
     bindE (upload_rows env who space batch n info db) (\<lambda>db1.
     let (claimed, db2) = insert_claim (upload_claim env space n info) db1 in
     if \<not> claimed then
       (case find_claim (space, fi_normalized info, fi_hash info) db of None \<Rightarrow> Inl NoResultFound
        | Some winner \<Rightarrow> deduplicated_upload_item env batch n info winner db)
     else bindE (insert_batch_item (batch_item env (new_id env ''batch_item'' n) batch
            (Some (new_id env ''doc'' n)) (fi_filename info) (fi_hash info) ''pending'' False
            (Some (new_id env ''job'' n)) None) db2)
       (\<lambda>db3. Inr (ItemAccepted (fi_filename info) space (new_id env ''doc'' n) (new_id env ''version'' n)
          (new_id env ''job'' n) (new_id env ''publication'' n), db3)))"

definition upload_one ::
  "ingest_env \<Rightarrow> principal \<Rightarrow> string \<Rightarrow> string \<Rightarrow> nat \<Rightarrow> file_state \<Rightarrow> docs_db
   \<Rightarrow> exn + (upload_item \<times> docs_db)" where
  "upload_one env who space batch n st db = (case st of
       FileRejected filename e \<Rightarrow> upload_rejected env batch n filename e db
     | FileAccepted info \<Rightarrow>
         (case find_claim (space, fi_normalized info, fi_hash info) db of
            Some claim \<Rightarrow> deduplicated_upload_item env batch n info claim db
          | None \<Rightarrow> upload_new env who space batch n info db))"

fun upload_each ::
  "ingest_env \<Rightarrow> principal \<Rightarrow> string \<Rightarrow> string \<Rightarrow> nat \<Rightarrow> file_state list \<Rightarrow> docs_db
   \<Rightarrow> exn + (upload_item list \<times> docs_db)" where
  "upload_each env who space batch n [] db = Inr ([], db)"
| "upload_each env who space batch n (st # rest) db =
     bindE (upload_one env who space batch n st db) (\<lambda>(item, db1).
     bindE (upload_each env who space batch (Suc n) rest db1) (\<lambda>(items, db2). Inr (item # items, db2)))"

definition insert_batch :: "batch_row \<Rightarrow> docs_db \<Rightarrow> exn + docs_db" where
  "insert_batch b db = (let t = batches db @ [b] in
     if keyed bt_id t then Inr (db\<lparr>batches := t\<rparr>) else Inl IntegrityError)"

definition upload_body ::
  "ingest_env \<Rightarrow> principal \<Rightarrow> string \<Rightarrow> file_state list \<Rightarrow> docs_db \<Rightarrow> exn + (command_response \<times> docs_db)" where
  "upload_body env who space states db =
     (let batch = new_id env ''batch'' 0 in
      bindE (ie_check_quota env (pr_user_id who)) (\<lambda>_.
      bindE (insert_batch \<lparr>bt_id = batch, bt_actor = pr_user_id who, bt_space_id = space,
               bt_state = ''running'', bt_created_at = ie_now env, bt_updated_at = ie_now env\<rparr> db) (\<lambda>db1.
      bindE (upload_each env who space batch 0 states db1) (\<lambda>(items, db2).
      Inr (UploadAccepted batch items, refresh_upload_batch (ie_now env) (Some batch) db2)))))"

definition create_initial_upload ::
  "ingest_env \<Rightarrow> principal \<Rightarrow> string \<Rightarrow> upload_entry list \<Rightarrow> string option \<Rightarrow> docs_db
   \<Rightarrow> exn + (command_response \<times> docs_db)" where
  "create_initial_upload env who space files key db =
     bindE (required_key key) (\<lambda>k.
     if files = [] then Inl (PlatformError ''validation_error'' 422) else
     bindE (classify_files env files) (\<lambda>states.
     bindE (ie_authorize env (pr_user_id who) space) (\<lambda>_.
     idempotently env (pr_user_id who) ''documents.initial_upload'' space k (upload_fingerprint env states)
       (upload_body env who space states) db)))"

end
