(* ===== verification/Ingestion_Control.thy ===== *)
theory Ingestion_Control
  imports Ingestion_Commands
begin

text \<open>
  Cancellation and operator replay of a job, the copy of a restored object, and the claim that
  puts them together (\<^verbatim>\<open>app/documents/service.py\<close>, \<^verbatim>\<open>app/documents/jobs.py\<close>). Claiming and copying
  span several transactions; each is a definition of its own, so that other operations can run
  between them, and the composite runs them one after the other.
\<close>

section \<open>Cancellation\<close>

definition is_submission_job :: "job_row \<Rightarrow> docs_db \<Rightarrow> bool" where
  "is_submission_job job db \<longleftrightarrow> sql_first (\<lambda>g. gr_job_id g = jb_id job) (grants db) \<noteq> None"

definition job_cancellation_allowed :: "ingest_env \<Rightarrow> principal \<Rightarrow> job_row \<Rightarrow> string \<Rightarrow> docs_db \<Rightarrow> exn + bool" where
  "job_cancellation_allowed env who job space db =
     (if \<not> is_submission_job job db \<and> jb_created_by job = pr_user_id who then Inr True
      else if \<not> is_submission_job job db \<and> pr_role who = ''admin'' then Inr False
      else (case ie_authorize env (pr_user_id who) space of
          Inr _ \<Rightarrow> Inr True
        | Inl (PlatformError _ _) \<Rightarrow> Inr False
        | Inl e \<Rightarrow> Inl e))"

definition cancelled_attempt :: "time \<Rightarrow> job_row \<Rightarrow> docs_db \<Rightarrow> docs_db" where
  "cancelled_attempt now job db =
     (if \<not> nonempty (jb_active_attempt job) then db
      else upd_attempts (\<lambda>a. Some (ia_id a) = jb_active_attempt job)
        (\<lambda>a. a\<lparr>ia_state := AttCancelled,
              ia_fence := max_or_zero (map ia_fence (job_attempts (jb_id job) db)) + 1,
              ia_lease_expires_at := None, ia_publication_id := None, ia_updated_at := now\<rparr>) db)"

definition cancelled :: "ingest_env \<Rightarrow> principal \<Rightarrow> doc_row \<Rightarrow> job_row \<Rightarrow> string list \<Rightarrow> docs_db \<Rightarrow> docs_db" where
  "cancelled env who document job event_ids db0 =
     (let now = ie_now env;
          db1 = upd_jobs (\<lambda>j. jb_id j = jb_id job \<and> jb_state j = jb_state job)
            (\<lambda>j. j\<lparr>jb_state := JobCancelled, jb_stage := None, jb_active_attempt := None,
                  jb_cancelled_by := Some (pr_user_id who), jb_cancelled_at := Some now,
                  jb_notification_ids := event_ids, jb_updated_at := now\<rparr>) db0;
          db2 = cancelled_attempt now job db1;
          db3 = drop_staged (jb_id job) db2;
          db4 = close_operation env VCancelled document job db3
      in set_batch_item now job ''cancelled'' db4)"

definition cancel_job ::
  "ingest_env \<Rightarrow> principal \<Rightarrow> string \<Rightarrow> docs_db \<Rightarrow> exn + (job_state \<times> docs_db)" where
  "cancel_job env who job_id db =
     (case find_job job_id db of None \<Rightarrow> Inl (PlatformError ''job_not_found'' 404)
      | Some job \<Rightarrow>
        (case find_document (jb_document_id job) db of None \<Rightarrow> Inl (PlatformError ''document_not_found'' 404)
         | Some document \<Rightarrow>
           bindE (job_cancellation_allowed env who job (dc_space_id document) db) (\<lambda>allowed.
           if \<not> allowed then Inl (PlatformError ''space_action_forbidden'' 403)
           else if jb_state job = JobCancelled then Inr (JobCancelled, db)
           else if \<not> job_live (jb_state job) then Inl (conflict ''job_not_cancellable'')
           else bindE (notify_terminal env job ''ingestion_cancelled'' None db) (\<lambda>(ids, db1).
             bindE (discard_indexing_attempt env (jb_active_attempt job) db1)
               (\<lambda>db2. Inr (JobCancelled, cancelled env who document job ids db2))))))"

section \<open>Operator replay\<close>

definition assert_replay_eligible ::
  "ingest_env \<Rightarrow> principal \<Rightarrow> job_row \<Rightarrow> doc_row \<Rightarrow> docs_db \<Rightarrow> exn + unit" where
  "assert_replay_eligible env who job d db =
     bindE (ie_authorize env (pr_user_id who) (dc_space_id d)) (\<lambda>_.
     if dc_lifecycle d = DocPendingDelete then Inl (conflict ''document_pending_delete'')
     else if dc_lifecycle d = DocDeleted then Inl (PlatformError ''document_deleted'' 410)
     else if dc_active_job d \<notin> {None, Some (jb_id job)} then Inl (conflict ''document_operation_in_progress'')
     else if dc_active_version d \<noteq> jb_base_active_version job then Inl (conflict ''document_version_changed'')
     else bindE (worker_authorization_fence job d db) (\<lambda>_.
       if \<not> nonempty (jb_version_id job) then Inl (PlatformError ''document_version_purged'' 410)
       else (case find_version (jb_version_id job) db of
           None \<Rightarrow> Inl (PlatformError ''document_version_purged'' 410)
         | Some v \<Rightarrow>
             if vr_status v = VPurged \<or>
                (case vr_purge_after_at v of None \<Rightarrow> False | Some t \<Rightarrow> t \<le> ie_now env) \<or>
                (case vr_object_key v of None \<Rightarrow> True | Some k \<Rightarrow> blank k) \<or>
                (case vr_content_hash v of None \<Rightarrow> True | Some h \<Rightarrow> blank h)
             then Inl (PlatformError ''document_version_purged'' 410)
             else Inr ())))"

definition replay_media_kind :: "job_row \<Rightarrow> doc_row \<Rightarrow> docs_db \<Rightarrow> string" where
  "replay_media_kind job d db =
     (let document_kind = (case dc_media_kind d of None \<Rightarrow> [] | Some k \<Rightarrow> k) in
      if \<not> nonempty (jb_version_id job) then document_kind
      else (case find_version (jb_version_id job) db of None \<Rightarrow> document_kind
        | Some v \<Rightarrow> if nonempty (vr_media_kind v) then the (vr_media_kind v) else document_kind))"

definition new_content :: "job_row \<Rightarrow> bool" where
  "new_content job \<longleftrightarrow> jb_operation job \<in> {OpInitial, OpReplace}"

definition reopened_version :: "time \<Rightarrow> job_row \<Rightarrow> docs_db \<Rightarrow> docs_db" where
  "reopened_version now job db =
     (if new_content job then upd_versions (\<lambda>v. Some (vr_id v) = jb_version_id job)
        (\<lambda>v. v\<lparr>vr_status := VPending, vr_terminal_at := None, vr_purge_after_at := None,
              vr_updated_at := now\<rparr>) db
      else db)"

definition reopened_job ::
  "ingest_env \<Rightarrow> principal \<Rightarrow> job_row \<Rightarrow> (string \<times> string) list \<Rightarrow> string \<Rightarrow> docs_db \<Rightarrow> docs_db" where
  "reopened_job env who job config publication_id =
     upd_jobs (\<lambda>j. jb_id j = jb_id job \<and> job_replayable (jb_state j) \<and>
         jb_replay_generation j = jb_replay_generation job)
       (\<lambda>j. j\<lparr>jb_state := JobPending, jb_stage := Some ''queued'', jb_active_attempt := None,
             jb_active_publication := Some publication_id,
             jb_replay_generation := jb_replay_generation job + 1, jb_replay_config := Some config,
             jb_failure_reason := None, jb_next_attempt_at := None,
             jb_replayed_by := Some (pr_user_id who),
             jb_quota_role := (if jb_quota_exempt job = Some SHARED_SUBMISSION then jb_quota_role j
               else pr_role who),
             jb_quota_department := (if jb_quota_exempt job = Some SHARED_SUBMISSION
               then jb_quota_department j else pr_department who),
             jb_updated_at := ie_now env\<rparr>)"

definition reopened_document :: "time \<Rightarrow> job_row \<Rightarrow> doc_row \<Rightarrow> docs_db \<Rightarrow> docs_db" where
  "reopened_document now job d =
     upd_documents (\<lambda>x. dc_id x = jb_document_id job)
       (\<lambda>x. x\<lparr>dc_active_job := Some (jb_id job), dc_version := dc_version d + 1,
             dc_pending_version := (if new_content job then jb_version_id job else dc_pending_version x),
             dc_updated_at := now\<rparr>)"

definition replay_body ::
  "ingest_env \<Rightarrow> principal \<Rightarrow> job_row \<Rightarrow> doc_row \<Rightarrow> docs_db \<Rightarrow> exn + (command_response \<times> docs_db)" where
  "replay_body env who job d db =
     (if \<not> job_replayable (jb_state job) then Inl (conflict ''job_not_replayable'')
      else bindE (assert_replay_eligible env who job d db) (\<lambda>_.
        let config = ie_replay_config env (replay_media_kind job d db);
            publication_id = new_id env ''publication'' 0 in
        bindE (insert_publication (staged_publication env publication_id job)
            (reopened_version (ie_now env) job db)) (\<lambda>db1.
        Inr (JobReplayed (jb_id job) (jb_replay_generation job + 1) publication_id,
             set_batch_item (ie_now env) job ''pending''
               (reopened_document (ie_now env) job d
                 (reopened_job env who job config publication_id db1))))))"

definition replay_job ::
  "ingest_env \<Rightarrow> principal \<Rightarrow> string \<Rightarrow> string option \<Rightarrow> docs_db \<Rightarrow> exn + (command_response \<times> docs_db)" where
  "replay_job env who job_id key db =
     (if pr_role who \<noteq> ''ops'' then Inl (PlatformError ''forbidden'' 403)
      else bindE (required_key key) (\<lambda>k.
      case find_job job_id db of None \<Rightarrow> Inl (PlatformError ''job_not_found'' 404)
      | Some job \<Rightarrow>
        bindE (lock_document (jb_document_id job) db) (\<lambda>d.
        idempotently env (pr_user_id who) ''documents.job_replay'' job_id k
          (fingerprint_of env (PDict [(''job_id'', PStr job_id)])) (replay_body env who job d) db)))"

section \<open>Copying a restored object\<close>

datatype copy_result = HoldKept | CopyDone int string

text \<open>The first transaction: the source version and the two object keys.\<close>

definition copy_source ::
  "string \<Rightarrow> string \<Rightarrow> int \<Rightarrow> docs_db \<Rightarrow> exn + (version_row \<times> string \<times> string)" where
  "copy_source job_id attempt_id fence db =
     (case find_job job_id db of None \<Rightarrow> Inl (PlatformError ''job_not_found'' 404)
      | Some job \<Rightarrow>
        if jb_state job \<noteq> JobRunning \<or> jb_active_attempt job \<noteq> Some attempt_id then Inl (conflict ''fence_conflict'')
        else if (case find_attempt attempt_id db of None \<Rightarrow> True
                 | Some a \<Rightarrow> ia_state a \<noteq> AttRunning \<or> fence \<noteq> ia_fence a) then Inl (conflict ''fence_conflict'')
        else (case sql_first (\<lambda>h. ho_job_id h = job_id) (holds db) of
            None \<Rightarrow> Inl (conflict ''restore_hold_missing'')
          | Some h \<Rightarrow>
            (case (find_version (Some (ho_version_id h)) db, find_version (jb_version_id job) db) of
               (Some source, Some target) \<Rightarrow>
                 if nonempty (vr_object_key source) \<and> nonempty (vr_object_key target)
                 then Inr (source, the (vr_object_key source), the (vr_object_key target))
                 else Inl (PlatformError ''document_version_purged'' 410)
             | _ \<Rightarrow> Inl (PlatformError ''document_version_purged'' 410))))"

text \<open>A failed copy is charged to the attempt by the failing transaction, and raised.\<close>

definition fail_and_raise ::
  "ingest_env \<Rightarrow> string \<Rightarrow> string \<Rightarrow> bool \<Rightarrow> string \<Rightarrow> int \<Rightarrow> exn \<Rightarrow> docs_db \<Rightarrow> (exn + 'r) \<times> docs_db" where
  "fail_and_raise env job_id reason retryable attempt_id fence e db =
     (case fail_job env job_id reason retryable (Some attempt_id) (Some fence) db of
        Inl e' \<Rightarrow> (Inl e', db) | Inr (_, db1) \<Rightarrow> (Inl e, db1))"

definition release_hold :: "ingest_env \<Rightarrow> string \<Rightarrow> string \<Rightarrow> int \<Rightarrow> string \<Rightarrow> docs_db \<Rightarrow> (exn + copy_result) \<times> docs_db" where
  "release_hold env job_id attempt_id fence content db =
     (case (find_job job_id db, find_attempt attempt_id db) of
        (Some job, Some a) \<Rightarrow>
          if jb_state job = JobRunning \<and> jb_active_attempt job = Some attempt_id \<and> ia_fence a = fence
          then (Inr (CopyDone (int (length content)) (ie_sha env content)),
                db\<lparr>holds := sql_delete (\<lambda>h. ho_job_id h = job_id) (holds db)\<rparr>)
          else (Inr HoldKept, db)
      | _ \<Rightarrow> (Inr HoldKept, db))"

text \<open>What follows the copy, on the database as it then is.\<close>

definition finish_copy ::
  "ingest_env \<Rightarrow> string \<Rightarrow> string \<Rightarrow> int \<Rightarrow> version_row \<Rightarrow> copy_outcome \<Rightarrow> docs_db \<Rightarrow> (exn + copy_result) \<times> docs_db" where
  "finish_copy env job_id attempt_id fence source outcome db = (case outcome of
       CopyMissing \<Rightarrow> fail_and_raise env job_id ''restore_copy_source_unavailable'' False attempt_id fence
         (PlatformError ''restore_copy_failed'' 422) db
     | CopyFailed e \<Rightarrow> fail_and_raise env job_id ''restore_copy_failed'' True attempt_id fence e db
     | Copied content \<Rightarrow>
         if int (length content) \<noteq> vr_size source \<or> ie_sha env content \<noteq> py_str_opt (vr_content_hash source)
         then fail_and_raise env job_id ''restore_copy_mismatch'' False attempt_id fence
           (PlatformError ''restore_copy_mismatch'' 422) db
         else release_hold env job_id attempt_id fence content db)"

definition copy_restore_source ::
  "ingest_env \<Rightarrow> string \<Rightarrow> string \<Rightarrow> int \<Rightarrow> docs_db \<Rightarrow> (exn + copy_result) \<times> docs_db" where
  "copy_restore_source env job_id attempt_id fence db =
     (case copy_source job_id attempt_id fence db of
        Inl e \<Rightarrow> (Inl e, db)
      | Inr (source, source_key, target_key) \<Rightarrow>
          finish_copy env job_id attempt_id fence source (ie_copy env source_key target_key) db)"

section \<open>Claim\<close>

definition claim_with_copy ::
  "ingest_env \<Rightarrow> string \<Rightarrow> string option \<Rightarrow> time \<Rightarrow> docs_db \<Rightarrow> (exn + job_lease) \<times> docs_db" where
  "claim_with_copy env worker_id only ttl db =
     (if blank worker_id then (Inl (PlatformError ''validation_error'' 422), db)
      else (case reclaim_expired_attempts env db of
          Inl e \<Rightarrow> (Inl e, db)
        | Inr db1 \<Rightarrow>
          (case claim_next env worker_id only ttl db1 of
             Inl e \<Rightarrow> (Inl e, db1)
           | Inr ((lease, pending), db2) \<Rightarrow>
               if pending
               then (case copy_restore_source env (jl_job_id lease) (jl_attempt_id lease) (jl_fence lease) db2 of
                   (Inl e, db3) \<Rightarrow> (Inl e, db3) | (Inr _, db3) \<Rightarrow> (Inr lease, db3))
               else (Inr lease, db2))))"

end
