(* ===== verification/Ingestion_Receipts.thy ===== *)
theory Ingestion_Receipts
  imports Ingestion_Control
begin

text \<open>
  Accepting a processing receipt: the transaction of \<open>accept_processing_receipt\<close> that checks the
  receipt against the attempt that is current, publishes it through the index handoff, swaps the
  active version and publication of the document, and accounts for it; and the wrapper that
  turns two of its refusals into a failed attempt (\<^verbatim>\<open>app/documents/service.py\<close>,
  \<^verbatim>\<open>app/documents/indexing.py\<close>). A receipt arrives typed: parsing it is not modelled.
\<close>

section \<open>Refusals\<close>

text \<open>
  The dedup conflict of the publication carries the attempt it must be charged to; every other
  refusal is the exception alone.
\<close>

datatype refusal = Raised exn | ClaimTaken string int

definition raised :: "exn + 'a \<Rightarrow> refusal + 'a" where
  "raised m = (case m of Inl e \<Rightarrow> Inl (Raised e) | Inr x \<Rightarrow> Inr x)"

text \<open>\<open>reject_receipt\<close>: the discard runs in the transaction that the raise rolls back.\<close>

definition reject_receipt :: "ingest_env \<Rightarrow> string \<Rightarrow> docs_db \<Rightarrow> exn \<Rightarrow> exn + 'a" where
  "reject_receipt env attempt_id db e =
     bindE (discard_indexing_attempt env (Some attempt_id) db) (\<lambda>_. Inl e)"

definition check_receipt :: "ingest_env \<Rightarrow> string \<Rightarrow> docs_db \<Rightarrow> (bool \<times> exn) list \<Rightarrow> exn + unit" where
  "check_receipt env attempt_id db checks =
     (case filter (\<lambda>(ok, e). \<not> ok) checks of
        [] \<Rightarrow> Inr () | (_, e) # _ \<Rightarrow> reject_receipt env attempt_id db e)"

definition rejecting :: "ingest_env \<Rightarrow> string \<Rightarrow> docs_db \<Rightarrow> exn + 'a \<Rightarrow> exn + 'a" where
  "rejecting env attempt_id db m = (case m of
       Inl (PlatformError code status) \<Rightarrow> reject_receipt env attempt_id db (PlatformError code status)
     | _ \<Rightarrow> m)"

section \<open>Checks\<close>

text \<open>Equality of two dicts of strings.\<close>

definition same_config :: "(string \<times> string) list \<Rightarrow> (string \<times> string) list \<Rightarrow> bool" where
  "same_config p q \<longleftrightarrow> list_all (\<lambda>k. map_of p k = map_of q k) (map fst p @ map fst q)"

definition validate_against :: "receipt \<Rightarrow> staging_request \<Rightarrow> exn + unit" where
  "validate_against c r =
     (let mismatch = Inl (conflict ''processing_receipt_conflict'') in
      if rc_job_id c \<noteq> rq_job_id r \<or> rc_attempt_id c \<noteq> rq_attempt_id r \<or> rc_fence c \<noteq> rq_fence r \<or>
         rc_publication_id c \<noteq> rq_publication_id r \<or> rc_document_id c \<noteq> rq_document_id r \<or>
         rc_version_id c \<noteq> rq_version_id r then mismatch
      else if rc_auth c \<noteq> rq_auth r then mismatch
      else if rc_generation c \<noteq> rq_generation r then Inl (conflict ''generation_conflict'')
      else if rc_space_id c \<noteq> rq_space_id r \<or> rc_operation c \<noteq> rq_operation r \<or>
         rc_base_active_version c \<noteq> rq_base_active_version r \<or>
         rc_index_revision c \<noteq> rq_index_revision r \<or> rc_object_ref c \<noteq> rq_object_ref r \<or>
         \<not> same_config (rc_config c) (rq_config r) then mismatch
      else if \<exists>s \<in> set (rc_resources c). sr_attempt_id s \<noteq> rq_attempt_id r \<or>
         sr_publication_id s \<noteq> rq_publication_id r \<or> sr_fence s \<noteq> rq_fence r \<or>
         sr_document_id s \<noteq> rq_document_id r \<or> sr_version_id s \<noteq> rq_version_id r \<or>
         sr_generation s \<noteq> rq_generation r then mismatch
      else if rc_resource_ids c \<noteq> map sr_resource_id (rc_resources c) \<or>
         rc_chunk_count c \<noteq> int (length (rc_resources c)) \<or> rc_input_hash c \<noteq> rq_input_hash r \<or>
         rc_profile c \<noteq> rq_profile r then mismatch
      else Inr ())"

definition authorization_changed :: "exn + unit \<Rightarrow> exn + unit" where
  "authorization_changed m = (case m of
       Inl (PlatformError _ _) \<Rightarrow> Inl (conflict ''authorization_changed'') | _ \<Rightarrow> m)"

definition validate_direct_authorization ::
  "ingest_env \<Rightarrow> principal option \<Rightarrow> bool \<Rightarrow> job_row \<Rightarrow> doc_row \<Rightarrow> exn + unit" where
  "validate_direct_authorization env who internal_worker job d =
     (if jb_quota_exempt job = Some SHARED_SUBMISSION then Inr ()
      else if internal_worker
        then authorization_changed (ie_worker_authorize env (jb_created_by job) (dc_space_id d))
      else (case who of None \<Rightarrow> Inl (conflict ''authorization_changed'')
        | Some p \<Rightarrow> if pr_user_id p \<noteq> job_execution_actor job then Inl (conflict ''authorization_changed'')
            else authorization_changed (ie_authorize env (pr_user_id p) (dc_space_id d))))"

text \<open>The document is still the one the job was started for.\<close>

definition document_checks :: "doc_row \<Rightarrow> job_row \<Rightarrow> (bool \<times> exn) list" where
  "document_checks d job =
     [(dc_lifecycle d \<noteq> DocPendingDelete, conflict ''document_pending_delete''),
      (dc_lifecycle d \<noteq> DocDeleted, PlatformError ''document_deleted'' 410),
      (dc_active_job d = Some (jb_id job), conflict ''fence_conflict'')]"

definition version_checks :: "doc_row \<Rightarrow> job_row \<Rightarrow> (bool \<times> exn) list" where
  "version_checks d job =
     [(if new_content job then dc_pending_version d = jb_version_id job else dc_pending_version d = None,
       conflict ''document_version_changed'')]"

definition receipt_version_checks :: "receipt \<Rightarrow> job_row \<Rightarrow> docs_db \<Rightarrow> (bool \<times> exn) list" where
  "receipt_version_checks c job db =
     (if \<not> nonempty (jb_version_id job) then []
      else (case find_version (jb_version_id job) db of
          None \<Rightarrow> [(False, conflict ''processing_receipt_conflict'')]
        | Some v \<Rightarrow> [(rc_input_content_hash c = py_str_opt (vr_content_hash v),
            conflict ''processing_receipt_conflict'')]))"

definition identity_checks :: "ingest_env \<Rightarrow> receipt \<Rightarrow> job_row \<Rightarrow> job_attempt_row \<Rightarrow> (bool \<times> exn) list" where
  "identity_checks env c job a =
     [(ia_state a = AttRunning, conflict ''fence_conflict''),
      (case ia_lease_expires_at a of None \<Rightarrow> False | Some t \<Rightarrow> ie_now env < t, conflict ''fence_conflict''),
      (rc_fence c = ia_fence a, conflict ''fence_conflict'')]"

definition request_checks :: "receipt \<Rightarrow> job_row \<Rightarrow> job_attempt_row \<Rightarrow> (bool \<times> exn) list" where
  "request_checks c job a =
     [(case ia_request a of None \<Rightarrow> False | Some r \<Rightarrow> rq_generation r \<noteq> [] \<and> rc_generation c = rq_generation r,
        conflict ''generation_conflict''),
      (rc_job_id c = jb_id job \<and> rc_document_id c = jb_document_id job \<and>
       rc_version_id c = py_str_opt (jb_version_id job) \<and>
       rc_publication_id c = py_str_opt (jb_active_publication job),
        conflict ''processing_receipt_conflict'')]"

definition is_staged :: "publication_row option \<Rightarrow> bool" where
  "is_staged p = (case p of None \<Rightarrow> False | Some r \<Rightarrow> pb_status r = PubStaged)"

text \<open>Everything up to the publication, in the order of the code.\<close>

definition receipt_guard ::
  "ingest_env \<Rightarrow> principal option \<Rightarrow> bool \<Rightarrow> receipt \<Rightarrow> job_row \<Rightarrow> doc_row \<Rightarrow> job_attempt_row
   \<Rightarrow> docs_db \<Rightarrow> exn + staging_request" where
  "receipt_guard env who internal c job d a db =
     (let check = check_receipt env (ia_id a) db; reject = rejecting env (ia_id a) db in
      bindE (check (identity_checks env c job a)) (\<lambda>_.
      bindE (case worker_authorization_fence job d db of
          Inl (PlatformError code status) \<Rightarrow>
            if code = ''submission_grant_invalid'' then reject_receipt env (ia_id a) db (conflict code)
            else Inl (PlatformError code status)
        | other \<Rightarrow> other) (\<lambda>fence.
      bindE (check [(map_option rq_auth (ia_request a) = Some fence, conflict ''processing_receipt_conflict'')]) (\<lambda>_.
      bindE (reject (validate_direct_authorization env who internal job d)) (\<lambda>_.
      bindE (check (request_checks c job a @ document_checks d job @ version_checks d job @
          receipt_version_checks c job db @
          [(is_staged (find_publication (Some (rc_publication_id c)) db),
            conflict ''processing_receipt_conflict'')])) (\<lambda>_.
      bindE (index_request_from_attempt a) (\<lambda>r.
      case r of None \<Rightarrow> reject_receipt env (ia_id a) db (conflict ''processing_receipt_conflict'')
      | Some request \<Rightarrow>
          bindE (reject (validate_against c request)) (\<lambda>_.
          bindE (check [(ie_has_handoff env, PlatformError ''indexing_handoff_unavailable'' 503)]) (\<lambda>_.
          Inr request)))))))))"

section \<open>Publication\<close>

definition publish_accepted ::
  "ingest_env \<Rightarrow> principal option \<Rightarrow> bool \<Rightarrow> receipt \<Rightarrow> staging_request \<Rightarrow> job_row \<Rightarrow> doc_row
   \<Rightarrow> string \<Rightarrow> docs_db \<Rightarrow> exn + docs_db" where
  "publish_accepted env who internal c request job d attempt_id db =
     bindE (ie_publish env request c) (\<lambda>state.
       let db1 = call_port (Publish request c) db; check = check_receipt env attempt_id db1 in
       bindE (check ((state = ''published'', conflict ''indexing_publish_failed'') # document_checks d job @
           (dc_active_version d = jb_base_active_version job, conflict ''document_version_changed'') #
           version_checks d job)) (\<lambda>_.
       bindE (rejecting env attempt_id db1 (bindE (worker_authorization_fence job d db1)
           (\<lambda>_. validate_direct_authorization env who internal job d))) (\<lambda>_.
       Inr db1)))"

definition accept_attempt :: "time \<Rightarrow> receipt \<Rightarrow> string \<Rightarrow> docs_db \<Rightarrow> docs_db" where
  "accept_attempt now c attempt_id = upd_attempts (\<lambda>a. ia_id a = attempt_id)
     (\<lambda>a. a\<lparr>ia_state := AttSucceeded, ia_lease_expires_at := None, ia_receipt := Some c,
           ia_updated_at := now\<rparr>)"

definition activate_publication ::
  "time \<Rightarrow> receipt \<Rightarrow> job_row \<Rightarrow> string \<Rightarrow> docs_db \<Rightarrow> exn + docs_db" where
  "activate_publication now c job attempt_id db =
     bindE (update_publications (\<lambda>p. pb_id p = rc_publication_id c)
        (\<lambda>p. p\<lparr>pb_status := PubActive, pb_attempt_id := attempt_id, pb_generation := rc_generation c,
              pb_manifest := Some c, pb_activated_at := Some now\<rparr>) db)
     (update_publications (\<lambda>p. pb_document_id p = jb_document_id job \<and> pb_status p = PubActive \<and>
          pb_id p \<noteq> rc_publication_id c)
        (\<lambda>p. p\<lparr>pb_status := PubSuperseded, pb_superseded_at := Some now\<rparr>))"

text \<open>\<open>_replace_dedup_claim\<close>: \<open>None\<close> is the conflict with another live document.\<close>

definition version_claim_key :: "doc_row \<Rightarrow> version_row \<Rightarrow> exn + (string \<times> string \<times> string)" where
  "version_claim_key d v = bindE (normalize_filename (py_str_opt (vr_file_name v)))
     (\<lambda>(_, name). Inr (dc_space_id d, name, py_str_opt (vr_content_hash v)))"

definition version_claim :: "time \<Rightarrow> doc_row \<Rightarrow> version_row \<Rightarrow> string \<times> string \<times> string \<Rightarrow> dedup_row" where
  "version_claim now d v key = (case key of (space, name, hash) \<Rightarrow>
     \<lparr>dd_space_id = space, dd_name = name, dd_hash = hash, dd_document_id = dc_id d,
      dd_version_id = Some (vr_id v), dd_created_at = now\<rparr>)"

definition drop_old_claims :: "doc_row \<Rightarrow> string \<times> string \<times> string \<Rightarrow> docs_db \<Rightarrow> docs_db" where
  "drop_old_claims d key = del_claims (\<lambda>c. dd_document_id c = dc_id d \<and> dedup_key c \<noteq> key)"

definition take_claim :: "time \<Rightarrow> doc_row \<Rightarrow> version_row \<Rightarrow> string \<times> string \<times> string \<Rightarrow> docs_db \<Rightarrow> docs_db option" where
  "take_claim now d v key db =
     (case insert_claim (version_claim now d v key) db of
        (True, db1) \<Rightarrow> Some (drop_old_claims d key db1) | (False, _) \<Rightarrow> None)"

definition replace_dedup_claim :: "time \<Rightarrow> doc_row \<Rightarrow> version_row \<Rightarrow> docs_db \<Rightarrow> exn + docs_db option" where
  "replace_dedup_claim now d v db =
     bindE (version_claim_key d v) (\<lambda>key.
     case find_claim key db of
       None \<Rightarrow> Inr (take_claim now d v key db)
     | Some c \<Rightarrow>
         if dd_document_id c = dc_id d
         then Inr (Some (drop_old_claims d key (db\<lparr>dedup_claims := sql_update (\<lambda>x. dedup_key x = key)
           (\<lambda>x. x\<lparr>dd_version_id := Some (vr_id v)\<rparr>) (dedup_claims db)\<rparr>)))
         else if claim_owner_gone c db
           then Inr (take_claim now d v key (del_claims (\<lambda>x. dedup_key x = key) db))
         else Inr None)"

definition swap_version :: "ingest_env \<Rightarrow> doc_row \<Rightarrow> version_row \<Rightarrow> string \<Rightarrow> docs_db \<Rightarrow> docs_db" where
  "swap_version env d v name db =
     (let now = ie_now env;
          db1 = upd_versions (\<lambda>x. vr_id x = vr_id v)
            (\<lambda>x. x\<lparr>vr_status := VActive, vr_activated_at := Some now, vr_updated_at := now\<rparr>) db;
          db2 = (if nonempty (dc_active_version d) \<and> dc_active_version d \<noteq> Some (vr_id v)
            then upd_versions (\<lambda>x. Some (vr_id x) = dc_active_version d)
              (\<lambda>x. x\<lparr>vr_status := VSuperseded, vr_superseded_at := Some now, vr_terminal_at := Some now,
                    vr_purge_after_at := Some (now + days (ie_retention_days env)), vr_updated_at := now\<rparr>) db1
            else db1)
      in upd_documents (\<lambda>x. dc_id x = dc_id d)
        (\<lambda>x. x\<lparr>dc_active_version := Some (vr_id v), dc_pending_version := None, dc_active_job := None,
              dc_version := dc_version d + 1, dc_name := vr_file_name v, dc_normalized_name := Some name,
              dc_media_kind := vr_media_kind v, dc_updated_at := now\<rparr>) db2)"

definition publish_document ::
  "ingest_env \<Rightarrow> doc_row \<Rightarrow> job_row \<Rightarrow> job_attempt_row \<Rightarrow> docs_db \<Rightarrow> refusal + docs_db" where
  "publish_document env d job a db =
     (if new_content job then
        (case find_version (jb_version_id job) db of
           None \<Rightarrow> Inl (Raised NoResultFound)
         | Some v \<Rightarrow>
             bindE (raised (replace_dedup_claim (ie_now env) d v db)) (\<lambda>claimed.
             case claimed of None \<Rightarrow> Inl (ClaimTaken (ia_id a) (ia_fence a))
             | Some db1 \<Rightarrow> bindE (raised (normalize_filename (py_str_opt (vr_file_name v))))
                 (\<lambda>(_, name). Inr (swap_version env d v name db1))))
      else Inr (upd_documents (\<lambda>x. dc_id x = jb_document_id job)
        (\<lambda>x. x\<lparr>dc_active_job := None, dc_version := dc_version d + 1, dc_updated_at := ie_now env\<rparr>) db))"

section \<open>Accounting\<close>

definition CODE_TOKENS_PER_PAGE :: int where
  "CODE_TOKENS_PER_PAGE = 500"

definition metered_pages :: "int \<Rightarrow> int \<Rightarrow> metering option \<Rightarrow> int" where
  "metered_pages page_count image_count metering =
     (let pages = max page_count 0; images = max image_count 0 in
      case metering of None \<Rightarrow> pages + images
      | Some m \<Rightarrow>
          if me_class m = ''table'' then 0
          else if me_class m \<in> {''code'', ''config''} then
            (let tokens = max (me_tokens m) 0; metered = - ((- tokens) div CODE_TOKENS_PER_PAGE) in
             if me_class m = ''code'' then max metered 1
             else if tokens \<le> CODE_TOKENS_PER_PAGE then 0 else metered)
          else if me_class m = ''image'' then
            (if me_image_provider m = Some ''internvl'' then 0 else images)
          else if me_embedded_provider m = Some ''internvl'' then pages
          else pages + images)"

definition charge_status :: "job_row \<Rightarrow> string option \<Rightarrow> string \<times> string option" where
  "charge_status job debit =
     (if debit \<noteq> None then (''charged'', None)
      else if jb_quota_exempt job \<noteq> None then (''exempt'', jb_quota_exempt job)
      else if jb_quota_role job \<in> {''ops'', ''admin''} then (''exempt'', Some ''unlimited_role'')
      else if 0 < jb_replay_generation job then (''exempt'', Some ''replay_generation'')
      else (''not_charged'', Some ''quota_debit_not_recorded''))"

definition record_publication_quota ::
  "ingest_env \<Rightarrow> job_row \<Rightarrow> receipt \<Rightarrow> docs_db \<Rightarrow> exn + (publication_usage option \<times> docs_db)" where
  "record_publication_quota env job c db =
     (if \<not> ie_has_quota env then Inr (None, db)
      else if \<not> nonempty (rc_processing_list c) then Inl (PlatformError ''validation_error'' 422)
      else (let pages = metered_pages (rc_page_count c) (rc_image_count c) (rc_metering c) in
        if pages < 1 \<and> rc_metering c = None then Inl (PlatformError ''validation_error'' 422)
        else bindE (ie_debit env (jb_id job) (rc_publication_id c) pages) (\<lambda>debit.
          Inr (Some \<lparr>pu_pages = pages, pu_images = max (rc_image_count c) 0,
                 pu_list_id = the (rc_processing_list c), pu_debit_id = debit,
                 pu_status = fst (charge_status job debit), pu_reason = snd (charge_status job debit)\<rparr>,
               call_port (ChargeQuota (jb_id job) (rc_publication_id c) pages) db))))"

definition INJECTION_RISK_KIND :: string where
  "INJECTION_RISK_KIND = ''prompt_injection_risk''"

definition kept_degradations :: "job_row \<Rightarrow> receipt \<Rightarrow> payload list" where
  "kept_degradations job c =
     filter (\<lambda>p. pget ''kind'' p = PStr INJECTION_RISK_KIND) (jb_degradations job) @ rc_degradations c"

definition usage_charge :: "publication_usage option \<Rightarrow> string \<times> string option" where
  "usage_charge usage = (case usage of None \<Rightarrow> (''not_applicable'', Some ''quota_service_unavailable'')
     | Some u \<Rightarrow> (pu_status u, pu_reason u))"

definition accept_job ::
  "time \<Rightarrow> receipt \<Rightarrow> job_row \<Rightarrow> string \<Rightarrow> publication_usage option \<Rightarrow> string list \<Rightarrow> docs_db \<Rightarrow> docs_db" where
  "accept_job now c job attempt_id usage event_ids =
     upd_jobs (\<lambda>j. jb_id j = jb_id job)
       (\<lambda>j. j\<lparr>jb_state := JobSucceeded, jb_stage := None, jb_active_attempt := Some attempt_id,
             jb_summary := Some c, jb_usage := usage, jb_charge_status := fst (usage_charge usage),
             jb_charge_reason := snd (usage_charge usage), jb_degradations := kept_degradations job c,
             jb_ocr_low := rc_ocr_low c, jb_notification_ids := event_ids, jb_updated_at := now\<rparr>)"

section \<open>The index change\<close>

definition change_type :: "operation \<Rightarrow> string" where
  "change_type op = (if op = OpInitial then ''publish'' else operation_name op)"

definition append_index_change ::
  "ingest_env \<Rightarrow> job_row \<Rightarrow> string \<Rightarrow> string \<Rightarrow> string \<Rightarrow> docs_db \<Rightarrow> exn + docs_db" where
  "append_index_change env job publication_id generation space db =
     (let revision = (case index_counter db of None \<Rightarrow> 0 | Some n \<Rightarrow> n) + 1;
          row = \<lparr>ch_revision_id = new_id env ''index_revision'' 0, ch_revision = revision,
            ch_generation = generation, ch_id = new_id env ''index_change'' 0,
            ch_document_id = jb_document_id job, ch_version_id = jb_version_id job,
            ch_publication_id = publication_id, ch_type = change_type (jb_operation job),
            ch_space_id = space, ch_created_at = ie_now env\<rparr>;
          t = index_changes db @ [row]; db1 = db\<lparr>index_counter := Some revision, index_changes := t\<rparr> in
      if \<not> (keyed ch_revision_id t \<and> keyed ch_revision t \<and> keyed ch_id t) then Inl IntegrityError
      else if space \<noteq> ''public'' then Inr db1
      else bindE (ie_graph_source env)
        (\<lambda>_. Inr (call_port (GraphSourceChange (jb_document_id job) (change_type (jb_operation job))) db1)))"

section \<open>The transaction\<close>

definition settle_publication ::
  "ingest_env \<Rightarrow> receipt \<Rightarrow> job_row \<Rightarrow> doc_row \<Rightarrow> publication_row \<Rightarrow> string \<Rightarrow> docs_db \<Rightarrow> exn + docs_db" where
  "settle_publication env c job d p attempt_id db =
     bindE (record_publication_quota env job c db) (\<lambda>(usage, db1).
     bindE (update_publications (\<lambda>q. pb_id q = pb_id p)
        (\<lambda>q. q\<lparr>pb_charge_status := fst (usage_charge usage), pb_charge_reason := snd (usage_charge usage)\<rparr>)
        db1) (\<lambda>db2.
     bindE (ie_notify_published env (jb_id job)) (\<lambda>ids.
     append_index_change env job (pb_id p) (pb_generation p) (dc_space_id d)
       (set_batch_item (ie_now env) job ''succeeded''
         (accept_job (ie_now env) c job attempt_id usage ids
           (call_port (NotifyPublished (jb_id job) (pb_id p)) db2))))))"

definition publish_and_settle ::
  "ingest_env \<Rightarrow> principal option \<Rightarrow> bool \<Rightarrow> receipt \<Rightarrow> job_row \<Rightarrow> doc_row \<Rightarrow> job_attempt_row
   \<Rightarrow> docs_db \<Rightarrow> refusal + docs_db" where
  "publish_and_settle env who internal c job d a db =
     bindE (raised (receipt_guard env who internal c job d a db)) (\<lambda>request.
     case find_publication (Some (rc_publication_id c)) db of None \<Rightarrow> Inl (Raised NoResultFound)
     | Some p \<Rightarrow>
       bindE (raised (publish_accepted env who internal c request job d (ia_id a) db)) (\<lambda>db1.
       bindE (raised (activate_publication (ie_now env) c job (ia_id a)
          (accept_attempt (ie_now env) c (ia_id a) db1))) (\<lambda>db2.
       bindE (publish_document env d job a db2) (\<lambda>db3.
       raised (settle_publication env c job d p (ia_id a) db3)))))"

text \<open>\<open>_accept_processing_receipt_transaction\<close>; the response is read off the job, whose new state it carries.\<close>

definition accept_transaction ::
  "ingest_env \<Rightarrow> principal option \<Rightarrow> bool \<Rightarrow> string \<Rightarrow> receipt \<Rightarrow> docs_db \<Rightarrow> refusal + (job_state \<times> docs_db)" where
  "accept_transaction env who internal job_id c db =
     (case find_job job_id db of None \<Rightarrow> Inl (Raised (PlatformError ''job_not_found'' 404))
      | Some job \<Rightarrow>
        (case find_document (jb_document_id job) db of None \<Rightarrow> Inl (Raised (PlatformError ''document_not_found'' 404))
         | Some d \<Rightarrow>
           if jb_state job = JobSucceeded then Inr (JobSucceeded, db)
           else if jb_state job \<noteq> JobRunning \<or> jb_active_attempt job \<noteq> Some (rc_attempt_id c)
             then Inl (Raised (conflict ''fence_conflict''))
           else (case find_attempt (rc_attempt_id c) db of
               None \<Rightarrow> Inl (Raised (conflict ''fence_conflict''))
             | Some a \<Rightarrow> bindE (publish_and_settle env who internal c job d a db)
                 (\<lambda>db1. Inr (JobSucceeded, db1)))))"

section \<open>After a refusal\<close>

definition refusal_code :: "refusal \<Rightarrow> string option" where
  "refusal_code r = (case r of Raised e \<Rightarrow> error_code e | ClaimTaken _ _ \<Rightarrow> Some ''duplicate_document'')"

definition refusal_effects :: "ingest_env \<Rightarrow> principal option \<Rightarrow> string \<Rightarrow> refusal \<Rightarrow> docs_db \<Rightarrow> docs_db" where
  "refusal_effects env who job_id r db =
     (let db1 = (case r of
            Raised (PlatformError code status) \<Rightarrow>
              if code = ''ledger_invariant_conflict'' \<and> ie_has_quota env
              then call_port (InvariantAlert (PlatformError code status)) db else db
          | _ \<Rightarrow> db)
      in case refusal_code r of
           Some code \<Rightarrow> if code = ''authorization_changed'' \<or> code = ''submission_grant_invalid''
             then add_audit (case who of Some p \<Rightarrow> pr_user_id p | None \<Rightarrow> ''system:documents-worker'')
               ''documents.job_authorization'' job_id code db1
             else db1
         | None \<Rightarrow> db1)"

text \<open>The automatic retry after a generation change, with the fence the attempt has now.\<close>

definition retry_in_generation ::
  "ingest_env \<Rightarrow> string \<Rightarrow> receipt \<Rightarrow> exn \<Rightarrow> docs_db \<Rightarrow> (exn + job_state) \<times> docs_db" where
  "retry_in_generation env job_id c e db =
     (case find_attempt (rc_attempt_id c) db of None \<Rightarrow> (Inl e, db)
      | Some a \<Rightarrow>
        (case fail_job env job_id ''generation_conflict'' True (Some (rc_attempt_id c)) (Some (ia_fence a)) db of
           Inl e' \<Rightarrow> (Inl e', db)
         | Inr (_, db1) \<Rightarrow> (case find_job job_id db1 of None \<Rightarrow> (Inl e, db1)
             | Some job \<Rightarrow> (Inr (jb_state job), db1))))"

definition accept_processing_receipt ::
  "ingest_env \<Rightarrow> principal option \<Rightarrow> bool \<Rightarrow> string \<Rightarrow> receipt \<Rightarrow> docs_db \<Rightarrow> (exn + job_state) \<times> docs_db" where
  "accept_processing_receipt env who internal job_id c db =
     (case accept_transaction env who internal job_id c db of
        Inr (st, db1) \<Rightarrow> (Inr st, db1)
      | Inl (ClaimTaken attempt_id fence) \<Rightarrow>
          fail_and_raise env job_id ''duplicate_document'' False attempt_id fence
            (conflict ''duplicate_document'') db
      | Inl (Raised e) \<Rightarrow>
          (let db1 = refusal_effects env who job_id (Raised e) db in
           if error_code e = Some ''generation_conflict'' then retry_in_generation env job_id c e db1
           else (Inl e, db1)))"

end
