(* ===== verification/Ingestion_Protocol.thy ===== *)
theory Ingestion_Protocol
  imports Ingestion_Model
begin

text \<open>
  The protocol ingestion promises, without its tables: a document has at most one operation, an
  operation has at most one running attempt, and an attempt that has ended stays ended. A
  document maps to the job of its operation, a job to its document, state, current attempt and
  replay generation, an attempt to its job, state and generation; the attempts of a job are
  counted per generation.
\<close>

record job_view =
  jv_document :: string
  jv_state :: job_state
  jv_attempt :: "string option"
  jv_generation :: int

record attempt_view =
  av_job :: string
  av_state :: attempt_state
  av_generation :: int

record op_view =
  ov_operation :: "string \<Rightarrow> string option"
  ov_job :: "string \<Rightarrow> job_view option"
  ov_attempt :: "string \<Rightarrow> attempt_view option"
  ov_count :: "string \<Rightarrow> int \<Rightarrow> nat"

section \<open>Steps\<close>

definition open_operation :: "string \<Rightarrow> string \<Rightarrow> op_view \<Rightarrow> op_view" where
  "open_operation d i v = v\<lparr>ov_operation := (ov_operation v)(d \<mapsto> i),
     ov_job := (ov_job v)(i \<mapsto> \<lparr>jv_document = d, jv_state = JobPending, jv_attempt = None, jv_generation = 0\<rparr>)\<rparr>"

definition start_attempt :: "string \<Rightarrow> job_view \<Rightarrow> string \<Rightarrow> op_view \<Rightarrow> op_view" where
  "start_attempt i j k v = v\<lparr>ov_job := (ov_job v)(i \<mapsto> j\<lparr>jv_state := JobRunning, jv_attempt := Some k\<rparr>),
     ov_attempt := (ov_attempt v)(k \<mapsto> \<lparr>av_job = i, av_state = AttRunning, av_generation = jv_generation j\<rparr>),
     ov_count := (ov_count v)(i := (ov_count v i)(jv_generation j := ov_count v i (jv_generation j) + 1))\<rparr>"

definition end_attempt :: "string option \<Rightarrow> attempt_state \<Rightarrow> op_view \<Rightarrow> op_view" where
  "end_attempt k st v = (case k of None \<Rightarrow> v
     | Some i \<Rightarrow> v\<lparr>ov_attempt := (ov_attempt v)(i := map_option (av_state_update (\<lambda>_. st)) (ov_attempt v i))\<rparr>)"

definition close_job :: "string \<Rightarrow> job_view \<Rightarrow> job_state \<Rightarrow> string option \<Rightarrow> op_view \<Rightarrow> op_view" where
  "close_job i j st k v = v\<lparr>ov_job := (ov_job v)(i \<mapsto> j\<lparr>jv_state := st, jv_attempt := k\<rparr>),
     ov_operation := (if st = JobRetryWait then ov_operation v else (ov_operation v)(jv_document j := None))\<rparr>"

definition reopen_job :: "string \<Rightarrow> job_view \<Rightarrow> op_view \<Rightarrow> op_view" where
  "reopen_job i j v = v\<lparr>ov_job := (ov_job v)(i \<mapsto> j\<lparr>jv_state := JobPending, jv_attempt := None,
       jv_generation := jv_generation j + 1\<rparr>),
     ov_operation := (ov_operation v)(jv_document j \<mapsto> i)\<rparr>"

text \<open>
  A running job ends its attempt with it; a job that only waits has none. A success keeps the
  reference to the attempt that brought it.
\<close>

inductive op_step :: "op_view \<Rightarrow> op_view \<Rightarrow> bool" where
  step_open: "ov_job v i = None \<Longrightarrow> ov_operation v d = None \<Longrightarrow> op_step v (open_operation d i v)"
| step_start: "ov_job v i = Some j \<Longrightarrow> job_runnable (jv_state j) \<Longrightarrow> ov_attempt v k = None \<Longrightarrow> k \<noteq> [] \<Longrightarrow>
    op_step v (start_attempt i j k v)"
| step_end: "ov_job v i = Some j \<Longrightarrow> job_live (jv_state j) \<Longrightarrow> st \<notin> {JobPending, JobRunning} \<Longrightarrow>
    (st = JobRetryWait \<longrightarrow> jv_state j = JobRunning \<and> ov_count v i (jv_generation j) < 4) \<Longrightarrow>
    ast \<noteq> AttRunning \<Longrightarrow> (if st = JobSucceeded then jv_state j = JobRunning \<and> k = jv_attempt j else k = None) \<Longrightarrow>
    op_step v (close_job i j st k (end_attempt (jv_attempt j) ast v))"
| step_reopen: "ov_job v i = Some j \<Longrightarrow> job_replayable (jv_state j) \<Longrightarrow>
    ov_operation v (jv_document j) \<in> {None, Some i} \<Longrightarrow> op_step v (reopen_job i j v)"

section \<open>Invariant\<close>

definition operations_live :: "op_view \<Rightarrow> bool" where
  "operations_live v \<longleftrightarrow> (\<forall>d i. ov_operation v d = Some i \<longrightarrow>
     (\<exists>j. ov_job v i = Some j \<and> jv_document j = d \<and> job_live (jv_state j)))"

definition live_registered :: "op_view \<Rightarrow> bool" where
  "live_registered v \<longleftrightarrow> (\<forall>i j. ov_job v i = Some j \<and> job_live (jv_state j) \<longrightarrow>
     ov_operation v (jv_document j) = Some i)"

definition running_attempted :: "op_view \<Rightarrow> bool" where
  "running_attempted v \<longleftrightarrow> (\<forall>i j. ov_job v i = Some j \<and> jv_state j = JobRunning \<longrightarrow>
     (\<exists>k a. jv_attempt j = Some k \<and> ov_attempt v k = Some a \<and> av_job a = i \<and>
        av_state a = AttRunning \<and> av_generation a = jv_generation j \<and> 1 \<le> ov_count v i (jv_generation j)))"

definition attempts_owned :: "op_view \<Rightarrow> bool" where
  "attempts_owned v \<longleftrightarrow> (\<forall>k a. ov_attempt v k = Some a \<and> av_state a = AttRunning \<longrightarrow>
     (\<exists>j. ov_job v (av_job a) = Some j \<and> jv_state j = JobRunning \<and> jv_attempt j = Some k))"

definition waiting_free :: "op_view \<Rightarrow> bool" where
  "waiting_free v \<longleftrightarrow> (\<forall>i j. ov_job v i = Some j \<and> job_runnable (jv_state j) \<longrightarrow> jv_attempt j = None)"

definition attempts_named :: "op_view \<Rightarrow> bool" where
  "attempts_named v \<longleftrightarrow> (\<forall>i j. ov_job v i = Some j \<longrightarrow> jv_attempt j \<noteq> Some [])"

definition tries_bounded :: "op_view \<Rightarrow> bool" where
  "tries_bounded v \<longleftrightarrow> (\<forall>i g. ov_count v i g \<le> 4 \<and>
     (case ov_job v i of None \<Rightarrow> ov_count v i g = 0
      | Some j \<Rightarrow> (jv_generation j < g \<longrightarrow> ov_count v i g = 0) \<and>
          (jv_state j = JobPending \<longrightarrow> ov_count v i (jv_generation j) = 0) \<and>
          (jv_state j = JobRetryWait \<longrightarrow> ov_count v i (jv_generation j) < 4)))"

definition op_inv :: "op_view \<Rightarrow> bool" where
  "op_inv v \<longleftrightarrow> operations_live v \<and> live_registered v \<and> running_attempted v \<and> attempts_owned v \<and>
     waiting_free v \<and> tries_bounded v \<and> attempts_named v"

lemma op_inv_parts:
  assumes "op_inv v"
  shows "operations_live v" "live_registered v" "running_attempted v" "attempts_owned v"
    "waiting_free v" "tries_bounded v" "attempts_named v"
  using assms by (simp_all add: op_inv_def)

text \<open>Each part, read off at one document, job or attempt.\<close>

lemma operations_liveD:
  "operations_live v \<Longrightarrow> ov_operation v d = Some i \<Longrightarrow>
     \<exists>j. ov_job v i = Some j \<and> jv_document j = d \<and> job_live (jv_state j)"
  by (auto simp: operations_live_def)

lemma live_registeredD:
  "live_registered v \<Longrightarrow> ov_job v i = Some j \<Longrightarrow> job_live (jv_state j) \<Longrightarrow>
     ov_operation v (jv_document j) = Some i"
  by (auto simp: live_registered_def)

lemma running_attemptedD:
  "running_attempted v \<Longrightarrow> ov_job v i = Some j \<Longrightarrow> jv_state j = JobRunning \<Longrightarrow>
     \<exists>k a. jv_attempt j = Some k \<and> ov_attempt v k = Some a \<and> av_job a = i \<and>
        av_state a = AttRunning \<and> av_generation a = jv_generation j \<and> 1 \<le> ov_count v i (jv_generation j)"
  by (auto simp: running_attempted_def)

lemma attempts_ownedD:
  "attempts_owned v \<Longrightarrow> ov_attempt v k = Some a \<Longrightarrow> av_state a = AttRunning \<Longrightarrow>
     \<exists>j. ov_job v (av_job a) = Some j \<and> jv_state j = JobRunning \<and> jv_attempt j = Some k"
  by (auto simp: attempts_owned_def)

lemma waiting_freeD:
  "waiting_free v \<Longrightarrow> ov_job v i = Some j \<Longrightarrow> job_runnable (jv_state j) \<Longrightarrow> jv_attempt j = None"
  by (auto simp: waiting_free_def)

lemma attempts_namedD: "attempts_named v \<Longrightarrow> ov_job v i = Some j \<Longrightarrow> jv_attempt j \<noteq> Some []"
  by (simp add: attempts_named_def)

lemma attempts_boundedD:
  assumes "tries_bounded v"
  shows "ov_count v i g \<le> 4"
    and "ov_job v i = None \<Longrightarrow> ov_count v i g = 0"
    and "ov_job v i = Some j \<Longrightarrow> jv_generation j < g \<Longrightarrow> ov_count v i g = 0"
    and "ov_job v i = Some j \<Longrightarrow> jv_state j = JobPending \<Longrightarrow> ov_count v i (jv_generation j) = 0"
    and "ov_job v i = Some j \<Longrightarrow> jv_state j = JobRetryWait \<Longrightarrow> ov_count v i (jv_generation j) < 4"
proof -
  have a: "ov_count v i g \<le> 4 \<and> (case ov_job v i of None \<Rightarrow> ov_count v i g = 0
      | Some j \<Rightarrow> (jv_generation j < g \<longrightarrow> ov_count v i g = 0) \<and>
          (jv_state j = JobPending \<longrightarrow> ov_count v i (jv_generation j) = 0) \<and>
          (jv_state j = JobRetryWait \<longrightarrow> ov_count v i (jv_generation j) < 4))" for i g
    using assms by (simp add: tries_bounded_def)
  show "ov_count v i g \<le> 4" using a [of i g] by simp
  show "ov_count v i g = 0" if "ov_job v i = None" using a [of i g] that by simp
  show "ov_count v i g = 0" if "ov_job v i = Some j" "jv_generation j < g" using a [of i g] that by simp
  show "ov_count v i (jv_generation j) = 0" if "ov_job v i = Some j" "jv_state j = JobPending"
    using a [of i g] that by simp
  show "ov_count v i (jv_generation j) < 4" if "ov_job v i = Some j" "jv_state j = JobRetryWait"
    using a [of i g] that by simp
qed

lemma attempts_boundedI:
  assumes "\<And>i g. ov_count v i g \<le> 4"
    and "\<And>i g. ov_job v i = None \<Longrightarrow> ov_count v i g = 0"
    and "\<And>i j g. ov_job v i = Some j \<Longrightarrow> jv_generation j < g \<Longrightarrow> ov_count v i g = 0"
    and "\<And>i j. ov_job v i = Some j \<Longrightarrow> jv_state j = JobPending \<Longrightarrow> ov_count v i (jv_generation j) = 0"
    and "\<And>i j. ov_job v i = Some j \<Longrightarrow> jv_state j = JobRetryWait \<Longrightarrow> ov_count v i (jv_generation j) < 4"
  shows "tries_bounded v"
  unfolding tries_bounded_def using assms by (simp split: option.split)

section \<open>Preservation\<close>

lemma open_preserves:
  assumes "op_inv v" and "ov_job v i = None" and "ov_operation v d = None"
  shows "op_inv (open_operation d i v)"
proof -
  note p = op_inv_parts [OF assms(1)]
  have fresh: "ov_operation v x \<noteq> Some i" for x using operations_liveD [OF p(1)] assms(2) by fastforce
  have idle: "ov_operation v (jv_document j) \<noteq> None" if "ov_job v x = Some j" "job_live (jv_state j)" for x j
    using live_registeredD [OF p(2) that] by simp
  have "operations_live (open_operation d i v)"
    using p(1) fresh by (auto simp: open_operation_def operations_live_def job_live_def)
  moreover have "live_registered (open_operation d i v)"
    using p(2) idle assms(3) by (auto simp: open_operation_def live_registered_def)
  moreover have "running_attempted (open_operation d i v)"
    using p(3) by (auto simp: open_operation_def running_attempted_def)
  moreover have "attempts_owned (open_operation d i v)"
    using p(4) assms(2) by (fastforce simp: open_operation_def attempts_owned_def)
  moreover have "waiting_free (open_operation d i v)"
    using p(5) by (auto simp: open_operation_def waiting_free_def)
  moreover have "tries_bounded (open_operation d i v)"
    by (rule attempts_boundedI)
      (use attempts_boundedD [OF p(6)] assms(2) in \<open>auto simp: open_operation_def split: if_splits\<close>)
  moreover have "attempts_named (open_operation d i v)"
    using p(7) by (auto simp: open_operation_def attempts_named_def)
  ultimately show ?thesis by (simp add: op_inv_def)
qed

lemma start_preserves:
  assumes "op_inv v" and job: "ov_job v i = Some j" and st: "job_runnable (jv_state j)"
    and new: "ov_attempt v k = None" "k \<noteq> []"
  shows "op_inv (start_attempt i j k v)"
proof -
  note p = op_inv_parts [OF assms(1)]
  have live: "job_live (jv_state j)" using st by (auto simp: job_live_def job_runnable_def)
  have idle: "jv_state j \<noteq> JobRunning" using st by (auto simp: job_runnable_def)
  have below: "ov_count v i (jv_generation j) < 4"
    using st attempts_boundedD(4,5) [OF p(6) job] by (auto simp: job_runnable_def)
  have owner: "av_job a \<noteq> i" if "ov_attempt v x = Some a" "av_state a = AttRunning" for x a
    using attempts_ownedD [OF p(4) that] job idle by auto
  have "operations_live (start_attempt i j k v)"
    using p(1) job by (fastforce simp: start_attempt_def operations_live_def job_live_def)
  moreover have "live_registered (start_attempt i j k v)"
    using p(2) live_registeredD [OF p(2) job live] by (auto simp: start_attempt_def live_registered_def)
  moreover have "running_attempted (start_attempt i j k v)"
    using running_attemptedD [OF p(3)] new
    by (auto simp: start_attempt_def running_attempted_def split: if_splits) (metis option.distinct(1))
  moreover have "attempts_owned (start_attempt i j k v)"
    using p(4) owner by (fastforce simp: start_attempt_def attempts_owned_def)
  moreover have "waiting_free (start_attempt i j k v)"
    using p(5) by (auto simp: start_attempt_def waiting_free_def job_runnable_def)
  moreover have "tries_bounded (start_attempt i j k v)"
  proof (rule attempts_boundedI, goal_cases)
    case (1 x g)
    then show ?case using attempts_boundedD(1) [OF p(6)] below by (auto simp: start_attempt_def Suc_le_eq)
  next
    case (2 x g)
    then show ?case using attempts_boundedD(2) [OF p(6)] by (auto simp: start_attempt_def split: if_splits)
  next
    case (3 x q g)
    then show ?case
      using attempts_boundedD(3) [OF p(6)] job by (auto simp: start_attempt_def split: if_splits)
  next
    case (4 x q)
    then have "ov_job v x = Some q" "x \<noteq> i" by (auto simp: start_attempt_def split: if_splits)
    then show ?case using attempts_boundedD(4) [OF p(6)] 4 by (simp add: start_attempt_def)
  next
    case (5 x q)
    then have "ov_job v x = Some q" "x \<noteq> i" by (auto simp: start_attempt_def split: if_splits)
    then show ?case using attempts_boundedD(5) [OF p(6)] 5 by (simp add: start_attempt_def)
  qed
  moreover have "attempts_named (start_attempt i j k v)"
    using p(7) new(2) by (auto simp: start_attempt_def attempts_named_def)
  ultimately show ?thesis by (simp add: op_inv_def)
qed

lemma end_preserves:
  assumes "op_inv v" and job: "ov_job v i = Some j" and live: "job_live (jv_state j)"
    and st: "st \<notin> {JobPending, JobRunning}"
    and retry: "st = JobRetryWait \<longrightarrow> jv_state j = JobRunning \<and> ov_count v i (jv_generation j) < 4"
    and ast: "ast \<noteq> AttRunning" and k: "if st = JobSucceeded then k = jv_attempt j else k = None"
  shows "op_inv (close_job i j st k (end_attempt (jv_attempt j) ast v))" (is "op_inv ?w")
proof -
  note p = op_inv_parts [OF assms(1)]
  have reg: "ov_operation v (jv_document j) = Some i" by (rule live_registeredD [OF p(2) job live])
  have one: "d = jv_document j" if "ov_operation v d = Some i" for d
    using operations_liveD [OF p(1) that] job by auto
  have jobs: "ov_job ?w = (ov_job v)(i \<mapsto> j\<lparr>jv_state := st, jv_attempt := k\<rparr>)"
    "ov_operation ?w = (if st = JobRetryWait then ov_operation v else (ov_operation v)(jv_document j := None))"
    "ov_count ?w = ov_count v"
    by (simp_all add: close_job_def end_attempt_def split: option.splits)
  have attempts: "ov_attempt ?w x = (if jv_attempt j = Some x
      then map_option (av_state_update (\<lambda>_. ast)) (ov_attempt v x) else ov_attempt v x)" for x
    by (simp add: close_job_def end_attempt_def split: option.splits)
  have others: "jv_attempt j \<noteq> Some x" if "ov_attempt v x = Some a" "av_job a \<noteq> i" "av_state a = AttRunning" for x a
  proof
    assume cur: "jv_attempt j = Some x"
    then have "\<not> job_runnable (jv_state j)" using waiting_freeD [OF p(5) job] by auto
    then have "jv_state j = JobRunning" using live by (auto simp: job_live_def job_runnable_def)
    then show False using running_attemptedD [OF p(3) job] cur that by auto
  qed
  have own: "jv_attempt j = Some x" if "ov_attempt v x = Some a" "av_job a = i" "av_state a = AttRunning" for x a
    using attempts_ownedD [OF p(4) that(1,3)] that(2) job by auto
  have "operations_live ?w"
    using p(1) one st retry live job by (fastforce simp: jobs operations_live_def job_live_def split: if_splits)
  moreover have "live_registered ?w"
    using p(2) reg st by (fastforce simp: jobs live_registered_def job_live_def split: if_splits)
  moreover have "running_attempted ?w"
  proof -
    have "\<exists>y a. jv_attempt q = Some y \<and> ov_attempt ?w y = Some a \<and> av_job a = x \<and>
        av_state a = AttRunning \<and> av_generation a = jv_generation q \<and> 1 \<le> ov_count ?w x (jv_generation q)"
      if q: "ov_job ?w x = Some q" "jv_state q = JobRunning" for x q
    proof -
      have "x \<noteq> i" using q st by (auto simp: jobs)
      then have "ov_job v x = Some q" using q by (simp add: jobs)
      then obtain y a where a: "jv_attempt q = Some y" "ov_attempt v y = Some a" "av_job a = x"
        "av_state a = AttRunning" "av_generation a = jv_generation q" "1 \<le> ov_count v x (jv_generation q)"
        using running_attemptedD [OF p(3) _ q(2)] by blast
      then have "jv_attempt j \<noteq> Some y" using others \<open>x \<noteq> i\<close> by auto
      then show ?thesis using a by (simp add: attempts jobs(3))
    qed
    then show ?thesis by (simp add: running_attempted_def)
  qed
  moreover have "attempts_owned ?w"
  proof -
    have "\<exists>q. ov_job ?w (av_job a) = Some q \<and> jv_state q = JobRunning \<and> jv_attempt q = Some x"
      if a: "ov_attempt ?w x = Some a" "av_state a = AttRunning" for x a
    proof -
      have n: "jv_attempt j \<noteq> Some x" using a ast by (auto simp: attempts)
      then have v: "ov_attempt v x = Some a" using a by (simp add: attempts)
      then have "av_job a \<noteq> i" using own a(2) n by auto
      then show ?thesis using attempts_ownedD [OF p(4) v a(2)] by (simp add: jobs)
    qed
    then show ?thesis by (simp add: attempts_owned_def)
  qed
  moreover have "waiting_free ?w"
    using p(5) st k by (auto simp: jobs waiting_free_def job_runnable_def)
  moreover have "tries_bounded ?w"
    by (rule attempts_boundedI)
      (use attempts_boundedD [OF p(6)] job st retry in \<open>auto simp: jobs split: if_splits\<close>)
  moreover have "attempts_named ?w"
    using p(7) k attempts_namedD [OF p(7) job] by (auto simp: jobs attempts_named_def split: if_splits)
  ultimately show ?thesis by (simp add: op_inv_def)
qed

lemma reopen_preserves:
  assumes "op_inv v" and job: "ov_job v i = Some j" and st: "job_replayable (jv_state j)"
    and free: "ov_operation v (jv_document j) \<in> {None, Some i}"
  shows "op_inv (reopen_job i j v)"
proof -
  note p = op_inv_parts [OF assms(1)]
  have dead: "\<not> job_live (jv_state j)" "jv_state j \<noteq> JobRunning"
    using st by (auto simp: job_live_def job_replayable_def)
  have none: "ov_operation v x \<noteq> Some i" for x using operations_liveD [OF p(1)] job dead by fastforce
  then have idle: "ov_operation v (jv_document j) = None" using free by auto
  have other: "jv_document q \<noteq> jv_document j" if "ov_job v x = Some q" "job_live (jv_state q)" for x q
    using live_registeredD [OF p(2) that] idle by auto
  have owner: "av_job a \<noteq> i" if "ov_attempt v x = Some a" "av_state a = AttRunning" for x a
    using attempts_ownedD [OF p(4) that] job dead by auto
  have "operations_live (reopen_job i j v)"
    using p(1) none by (auto simp: reopen_job_def operations_live_def job_live_def)
  moreover have "live_registered (reopen_job i j v)"
    using p(2) other by (auto simp: reopen_job_def live_registered_def)
  moreover have "running_attempted (reopen_job i j v)"
    using p(3) by (auto simp: reopen_job_def running_attempted_def)
  moreover have "attempts_owned (reopen_job i j v)"
    using p(4) owner by (fastforce simp: reopen_job_def attempts_owned_def)
  moreover have "waiting_free (reopen_job i j v)"
    using p(5) by (auto simp: reopen_job_def waiting_free_def)
  moreover have "tries_bounded (reopen_job i j v)"
    by (rule attempts_boundedI)
      (use attempts_boundedD [OF p(6)] job in \<open>auto simp: reopen_job_def split: if_splits\<close>)
  moreover have "attempts_named (reopen_job i j v)"
    using p(7) by (auto simp: reopen_job_def attempts_named_def)
  ultimately show ?thesis by (simp add: op_inv_def)
qed

lemma op_step_preserves: "op_step v w \<Longrightarrow> op_inv v \<Longrightarrow> op_inv w"
  by (induction rule: op_step.induct)
    (use open_preserves start_preserves end_preserves reopen_preserves in \<open>auto split: if_splits\<close>)

section \<open>Ended attempts\<close>

text \<open>Every attempt keeps its job and generation; one that has ended keeps its state too.\<close>

definition attempts_kept :: "op_view \<Rightarrow> op_view \<Rightarrow> bool" where
  "attempts_kept v w \<longleftrightarrow> (\<forall>k a. ov_attempt v k = Some a \<longrightarrow>
     (\<exists>b. ov_attempt w k = Some b \<and> av_job b = av_job a \<and> av_generation b = av_generation a \<and>
        (av_state a \<noteq> AttRunning \<longrightarrow> av_state b = av_state a)))"

lemma attempts_kept_refl [simp]: "attempts_kept v v"
  by (simp add: attempts_kept_def)

lemma attempts_kept_trans: "attempts_kept u v \<Longrightarrow> attempts_kept v w \<Longrightarrow> attempts_kept u w"
  unfolding attempts_kept_def by metis

lemma op_step_keeps: "op_step v w \<Longrightarrow> op_inv v \<Longrightarrow> attempts_kept v w"
proof (induction rule: op_step.induct)
  case (step_open v i d)
  show ?case by (simp add: attempts_kept_def open_operation_def)
next
  case (step_start v i j k)
  then show ?case by (auto simp: attempts_kept_def start_attempt_def)
next
  case (step_end v i j st ast k)
  note p = op_inv_parts [OF step_end.prems]
  have "av_state a = AttRunning" if "jv_attempt j = Some x" "ov_attempt v x = Some a" for x a
  proof -
    have "\<not> job_runnable (jv_state j)" using waiting_freeD [OF p(5) step_end.hyps(1)] that by auto
    then have "jv_state j = JobRunning" using step_end.hyps(2) by (auto simp: job_live_def job_runnable_def)
    then show ?thesis using running_attemptedD [OF p(3) step_end.hyps(1)] that by auto
  qed
  then show ?case
    by (auto simp: attempts_kept_def close_job_def end_attempt_def split: option.splits)
next
  case (step_reopen v i j)
  show ?case by (simp add: attempts_kept_def reopen_job_def)
qed

lemma op_steps_inv:
  assumes "op_step\<^sup>*\<^sup>* v w" and "op_inv v"
  shows "op_inv w \<and> attempts_kept v w"
  using assms(1)
proof (induction rule: rtranclp_induct)
  case base
  then show ?case using assms(2) by simp
next
  case (step y z)
  then show ?case using op_step_preserves op_step_keeps attempts_kept_trans by blast
qed

end
