(* ===== verification/Ingestion_Refinement.thy ===== *)
theory Ingestion_Refinement
  imports Ingestion_Receipts Ingestion_Protocol
begin

text \<open>
  The tables of ingestion refine the protocol: \<open>view\<close> reads the protocol's state off the
  documents, jobs and attempts, and every operation that commits is a sequence of its steps.
\<close>

definition job_view_of :: "job_row \<Rightarrow> job_view" where
  "job_view_of j = \<lparr>jv_document = jb_document_id j, jv_state = jb_state j,
     jv_attempt = jb_active_attempt j, jv_generation = jb_replay_generation j\<rparr>"

definition attempt_view_of :: "job_attempt_row \<Rightarrow> attempt_view" where
  "attempt_view_of a = \<lparr>av_job = ia_job_id a, av_state = ia_state a, av_generation = ia_replay_generation a\<rparr>"

definition view :: "docs_db \<Rightarrow> op_view" where
  "view db = \<lparr>ov_operation = (\<lambda>d. Option.bind (find_document d db) dc_active_job),
     ov_job = (\<lambda>i. map_option job_view_of (find_job i db)),
     ov_attempt = (\<lambda>k. map_option attempt_view_of (find_attempt k db)),
     ov_count = (\<lambda>i g. sql_count (\<lambda>a. ia_job_id a = i \<and> ia_replay_generation a = g) (attempts db))\<rparr>"

lemma view_simps [simp]:
  "ov_operation (view db) d = Option.bind (find_document d db) dc_active_job"
  "ov_job (view db) i = map_option job_view_of (find_job i db)"
  "ov_attempt (view db) k = map_option attempt_view_of (find_attempt k db)"
  "ov_count (view db) i g = sql_count (\<lambda>a. ia_job_id a = i \<and> ia_replay_generation a = g) (attempts db)"
  by (simp_all add: view_def)

lemma job_view_simps [simp]:
  "jv_document (job_view_of j) = jb_document_id j" "jv_state (job_view_of j) = jb_state j"
  "jv_attempt (job_view_of j) = jb_active_attempt j" "jv_generation (job_view_of j) = jb_replay_generation j"
  by (simp_all add: job_view_of_def)

lemma attempt_view_simps [simp]:
  "av_job (attempt_view_of a) = ia_job_id a" "av_state (attempt_view_of a) = ia_state a"
  "av_generation (attempt_view_of a) = ia_replay_generation a"
  by (simp_all add: attempt_view_of_def)

section \<open>Finding after a write\<close>

lemma sql_first_updated:
  assumes "\<And>r. key (f r) = key r"
  shows "sql_first (\<lambda>r. key r = k) (sql_update p f t)
    = map_option (\<lambda>r. if p r then f r else r) (sql_first (\<lambda>r. key r = k) t)"
  by (induction t) (auto simp: sql_update_def assms)

lemma sql_count_update:
  assumes "\<And>r. q (f r) \<longleftrightarrow> q r"
  shows "sql_count q (sql_update p f t) = sql_count q t"
  by (induction t) (auto simp: sql_update_def sql_count_def assms)

lemma sql_update_none [simp]: "sql_update (\<lambda>_. False) f t = t"
  by (simp add: sql_update_def)

named_theorems found "what a lookup finds after a write"

lemma find_upd [found]:
  "(\<And>d. dc_id (fd d) = dc_id d) \<Longrightarrow>
    find_document k (upd_documents pd fd db) = map_option (\<lambda>d. if pd d then fd d else d) (find_document k db)"
  "(\<And>j. jb_id (fj j) = jb_id j) \<Longrightarrow>
    find_job k (upd_jobs pj fj db) = map_option (\<lambda>j. if pj j then fj j else j) (find_job k db)"
  "(\<And>a. ia_id (fa a) = ia_id a) \<Longrightarrow>
    find_attempt k (upd_attempts pa fa db) = map_option (\<lambda>a. if pa a then fa a else a) (find_attempt k db)"
  by (simp_all add: find_document_def upd_documents_def find_job_def upd_jobs_def find_attempt_def
      upd_attempts_def sql_first_updated)

text \<open>A write to another table is not seen.\<close>

definition tables :: "docs_db \<Rightarrow> doc_row list \<times> job_row list \<times> job_attempt_row list" where
  "tables db = (documents db, jobs db, attempts db)"

lemma find_tables:
  assumes "tables db' = tables db"
  shows "find_document k db' = find_document k db" "find_job k db' = find_job k db"
    "find_attempt k db' = find_attempt k db" "attempts db' = attempts db" "view db' = view db"
  using assms by (simp_all add: tables_def find_document_def find_job_def find_attempt_def view_def fun_eq_iff)

lemma upd_tables [simp]:
  "documents (upd_jobs pj fj db) = documents db" "attempts (upd_jobs pj fj db) = attempts db"
  "documents (upd_attempts pa fa db) = documents db" "jobs (upd_attempts pa fa db) = jobs db"
  "jobs (upd_documents pd fd db) = jobs db" "attempts (upd_documents pd fd db) = attempts db"
  "documents (upd_documents pd fd db) = sql_update pd fd (documents db)"
  "jobs (upd_jobs pj fj db) = sql_update pj fj (jobs db)"
  "attempts (upd_attempts pa fa db) = sql_update pa fa (attempts db)"
  by (simp_all add: upd_jobs_def upd_attempts_def upd_documents_def)

lemma find_upd_other [found]:
  "find_document k (upd_jobs pj fj db) = find_document k db"
  "find_attempt k (upd_jobs pj fj db) = find_attempt k db"
  "find_document k (upd_attempts pa fa db) = find_document k db"
  "find_job k (upd_attempts pa fa db) = find_job k db"
  "find_job k (upd_documents pd fd db) = find_job k db"
  "find_attempt k (upd_documents pd fd db) = find_attempt k db"
  by (simp_all add: find_document_def find_job_def find_attempt_def)

lemma tables_other [simp]:
  "tables (upd_versions pv fv db) = tables db"
  "tables (del_publications pp db) = tables db"
  "tables (del_claims pc db) = tables db"
  "tables (call_port c db) = tables db"
  "tables (refresh_upload_batch now b db) = tables db"
  "tables (set_batch_item now job st db) = tables db"
  "tables (drop_staged i db) = tables db"
  "tables (fail_version env vs v db) = tables db"
  "tables (drop_version_claim job db) = tables db"
  "tables (reopened_version now job db) = tables db"
  "tables (add_audit actor rt ri res db) = tables db"
  by (simp_all add: tables_def upd_versions_def del_publications_def del_claims_def call_port_def
      refresh_upload_batch_def set_batch_item_def drop_staged_def fail_version_def
      drop_version_claim_def reopened_version_def add_audit_def split: option.split)

lemmas find_other [found] =
  tables_other [THEN find_tables(1)] tables_other [THEN find_tables(2)] tables_other [THEN find_tables(3)]

lemmas attempts_other [simp] = tables_other [THEN find_tables(4)]

lemmas view_other [simp] = tables_other [THEN find_tables(5)]

text \<open>The fallible writes.\<close>

lemma set_publications_tables: "set_publications ps db = Inr db' \<Longrightarrow> tables db' = tables db"
  by (auto simp: set_publications_def tables_def split: if_splits)

lemma update_publications_tables: "update_publications p f db = Inr db' \<Longrightarrow> tables db' = tables db"
  unfolding update_publications_def by (rule set_publications_tables)

lemma insert_publication_tables: "insert_publication p db = Inr db' \<Longrightarrow> tables db' = tables db"
  unfolding insert_publication_def by (rule set_publications_tables)

lemma discard_tables: "discard_indexing_attempt env k db = Inr db' \<Longrightarrow> tables db' = tables db"
  by (auto simp: discard_indexing_attempt_def split: if_splits option.splits)

lemma notify_terminal_tables: "notify_terminal env job event reason db = Inr (ids, db') \<Longrightarrow> tables db' = tables db"
  by (auto simp: notify_terminal_def)

lemma sql_first_new:
  assumes "keyed key (t @ [r])"
  shows "sql_first (\<lambda>x. key x = key r) t = None"
    and "sql_first (\<lambda>x. key x = k) (t @ [r]) = (if k = key r then Some r else sql_first (\<lambda>x. key x = k) t)"
proof -
  have none: "key x \<noteq> key r" if "x \<in> set t" for x
    using assms that by (auto simp: keyed_def image_iff)
  then show first: "sql_first (\<lambda>x. key x = key r) t = None" by (simp add: sql_first_None)
  show "sql_first (\<lambda>x. key x = k) (t @ [r]) = (if k = key r then Some r else sql_first (\<lambda>x. key x = k) t)"
    using first by (auto simp: sql_first_append split: option.split)
qed

lemma insert_job_find:
  assumes "insert_job j db = Inr db'"
  shows "find_job (jb_id j) db = None" "find_job i db' = (if i = jb_id j then Some j else find_job i db)"
    "documents db' = documents db" "attempts db' = attempts db" "jobs db' = jobs db @ [j]"
proof -
  have k: "keyed jb_id (jobs db @ [j])" and db': "db' = db\<lparr>jobs := jobs db @ [j]\<rparr>"
    using assms by (auto simp: insert_job_def Let_def split: if_splits)
  show "find_job (jb_id j) db = None" "find_job i db' = (if i = jb_id j then Some j else find_job i db)"
    using sql_first_new [OF k] by (simp_all add: find_job_def db')
  show "documents db' = documents db" "attempts db' = attempts db" "jobs db' = jobs db @ [j]"
    by (simp_all add: db')
qed

lemma insert_document_find:
  assumes "insert_document d db = Inr db'"
  shows "find_document (dc_id d) db = None" "find_document i db' = (if i = dc_id d then Some d else find_document i db)"
    "jobs db' = jobs db" "attempts db' = attempts db" "documents db' = documents db @ [d]"
proof -
  have k: "keyed dc_id (documents db @ [d])" and db': "db' = db\<lparr>documents := documents db @ [d]\<rparr>"
    using assms by (auto simp: insert_document_def Let_def split: if_splits)
  show "find_document (dc_id d) db = None" "find_document i db' = (if i = dc_id d then Some d else find_document i db)"
    using sql_first_new [OF k] by (simp_all add: find_document_def db')
  show "jobs db' = jobs db" "attempts db' = attempts db" "documents db' = documents db @ [d]"
    by (simp_all add: db')
qed

lemma insert_attempt_find:
  assumes "insert_attempt a db = Inr db'"
  shows "find_attempt (ia_id a) db = None" "find_attempt i db' = (if i = ia_id a then Some a else find_attempt i db)"
    "jobs db' = jobs db" "documents db' = documents db" "attempts db' = attempts db @ [a]"
proof -
  have k: "keyed ia_id (attempts db @ [a])" and db': "db' = db\<lparr>attempts := attempts db @ [a]\<rparr>"
    using assms by (auto simp: insert_attempt_def Let_def split: if_splits)
  show "find_attempt (ia_id a) db = None" "find_attempt i db' = (if i = ia_id a then Some a else find_attempt i db)"
    using sql_first_new [OF k] by (simp_all add: find_attempt_def db')
  show "jobs db' = jobs db" "documents db' = documents db" "attempts db' = attempts db @ [a]"
    by (simp_all add: db')
qed

lemma find_ids:
  "find_document k db = Some d \<Longrightarrow> dc_id d = k" "find_job k db = Some j \<Longrightarrow> jb_id j = k"
  "find_attempt k db = Some a \<Longrightarrow> ia_id a = k"
  by (auto simp: find_document_def find_job_def find_attempt_def dest!: sql_first_Some)

lemma insert_version_tables: "insert_version v db = Inr db' \<Longrightarrow> tables db' = tables db"
  by (auto simp: insert_version_def tables_def Let_def split: if_splits)

lemma insert_hold_tables: "insert_hold v db = Inr db' \<Longrightarrow> tables db' = tables db"
  by (auto simp: insert_hold_def tables_def Let_def split: if_splits)

lemma insert_batch_item_tables: "insert_batch_item v db = Inr db' \<Longrightarrow> tables db' = tables db"
  by (auto simp: insert_batch_item_def tables_def Let_def split: if_splits)

lemma insert_batch_tables: "insert_batch v db = Inr db' \<Longrightarrow> tables db' = tables db"
  by (auto simp: insert_batch_def tables_def Let_def split: if_splits)

section \<open>The shapes of a write\<close>

lemma op_view_eqI:
  assumes "\<And>d. ov_operation v d = ov_operation w d" "\<And>i. ov_job v i = ov_job w i"
    "\<And>k. ov_attempt v k = ov_attempt w k" "\<And>i g. ov_count v i g = ov_count w i g"
  shows "v = (w :: op_view)"
  by (rule op_view.equality) (simp_all add: fun_eq_iff assms)

text \<open>The end of a job's run: the job, its attempt and, unless it waits for a retry, its document.\<close>

lemma ended_step:
  assumes job: "find_job i db = Some job" and live: "job_live (jb_state job)"
    and st: "st \<notin> {JobPending, JobRunning}"
    and retry: "st = JobRetryWait \<longrightarrow> jb_state job = JobRunning \<and> cycle_attempts job db < MAX_ATTEMPTS"
    and ast: "ast \<noteq> AttRunning" and k: "if st = JobSucceeded then jb_state job = JobRunning \<and> k = jb_active_attempt job else k = None"
    and jobs: "\<And>x. map_option job_view_of (find_job x db') = (if x = i
      then Some ((job_view_of job)\<lparr>jv_state := st, jv_attempt := k\<rparr>) else map_option job_view_of (find_job x db))"
    and attempts: "\<And>x. map_option attempt_view_of (find_attempt x db') = (if jb_active_attempt job = Some x
      then map_option (\<lambda>a. attempt_view_of a\<lparr>av_state := ast\<rparr>) (find_attempt x db)
      else map_option attempt_view_of (find_attempt x db))"
    and docs: "\<And>d. Option.bind (find_document d db') dc_active_job = (if st \<noteq> JobRetryWait \<and> d = jb_document_id job
      then None else Option.bind (find_document d db) dc_active_job)"
    and counts: "\<And>x g. ov_count (view db') x g = ov_count (view db) x g"
  shows "op_step (view db) (view db')"
proof -
  have id: "jb_id job = i" by (rule find_ids(2) [OF job])
  have "view db' = close_job i (job_view_of job) st k (end_attempt (jb_active_attempt job) ast (view db))"
    by (rule op_view_eqI)
      (auto simp: jobs attempts docs counts close_job_def end_attempt_def option.map_comp comp_def
        simp del: view_simps(4) split: option.split)
  moreover have "op_step (view db)
      (close_job i (job_view_of job) st k (end_attempt (jv_attempt (job_view_of job)) ast (view db)))"
    by (rule step_end)
      (use job live st retry ast k id in \<open>auto simp: cycle_attempts_def MAX_ATTEMPTS_def\<close>)
  ultimately show ?thesis by simp
qed

text \<open>A new job on a document that has no operation.\<close>

lemma opened_step:
  assumes new: "find_job i db = None" and idle: "Option.bind (find_document d db) dc_active_job = None"
    and jobs: "\<And>x. map_option job_view_of (find_job x db') = (if x = i then Some \<lparr>jv_document = d,
      jv_state = JobPending, jv_attempt = None, jv_generation = 0\<rparr> else map_option job_view_of (find_job x db))"
    and attempts: "attempts db' = attempts db"
    and docs: "\<And>x. Option.bind (find_document x db') dc_active_job = (if x = d
      then Some i else Option.bind (find_document x db) dc_active_job)"
  shows "op_step (view db) (view db')"
proof -
  have "view db' = open_operation d i (view db)"
    by (rule op_view_eqI) (simp_all add: jobs docs attempts find_attempt_def open_operation_def)
  moreover have "op_step (view db) (open_operation d i (view db))"
    by (rule step_open) (use new idle in auto)
  ultimately show ?thesis by simp
qed

lemma live_document:
  assumes "op_inv (view db)" and "find_job i db = Some job" and "job_live (jb_state job)"
  shows "Option.bind (find_document (jb_document_id job) db) dc_active_job = Some i"
  using live_registeredD [OF op_inv_parts(2) [OF assms(1)], of i "job_view_of job"] assms(2,3) by simp

lemma operation_job:
  assumes "op_inv (view db)" and "find_document k db = Some d" and "dc_active_job d = Some i"
  shows "\<exists>j. find_job i db = Some j \<and> jb_document_id j = k \<and> job_live (jb_state j)"
  using operations_liveD [OF op_inv_parts(1) [OF assms(1)], of k i] assms(2,3) by auto

lemma running_attempt:
  assumes "op_inv (view db)" and "find_job i db = Some job" and "jb_state job = JobRunning"
  shows "\<exists>k a. jb_active_attempt job = Some k \<and> find_attempt k db = Some a \<and> ia_job_id a = i \<and>
    ia_state a = AttRunning \<and> ia_replay_generation a = jb_replay_generation job \<and> 1 \<le> cycle_attempts job db"
proof -
  have id: "jb_id job = i" by (rule find_ids(2) [OF assms(2)])
  show ?thesis
    using running_attemptedD [OF op_inv_parts(3) [OF assms(1)], of i "job_view_of job"] assms(2,3) id
    by (auto simp: cycle_attempts_def)
qed

lemma waiting_attempt:
  assumes "op_inv (view db)" and "find_job i db = Some job" and "job_runnable (jb_state job)"
  shows "jb_active_attempt job = None"
  using waiting_freeD [OF op_inv_parts(5) [OF assms(1)], of i "job_view_of job"] assms(2,3) by simp

lemma named_attempt: "op_inv (view db) \<Longrightarrow> find_job i db = Some job \<Longrightarrow> jb_active_attempt job \<noteq> Some []"
  using attempts_namedD [OF op_inv_parts(7), of "view db" i "job_view_of job"] by simp

section \<open>Reclaiming\<close>

lemma expired_job_attempt_simps [simp]:
  "ia_id (expired_job_attempt a now) = ia_id a" "ia_job_id (expired_job_attempt a now) = ia_job_id a"
  "ia_state (expired_job_attempt a now) = AttExpired"
  "ia_replay_generation (expired_job_attempt a now) = ia_replay_generation a"
  by (simp_all add: expired_job_attempt_def)

lemma reclaimed_find:
  "find_job x (reclaimed env document job a db) = map_option (\<lambda>j.
     if jb_id j = jb_id job \<and> jb_state j = JobRunning \<and> jb_active_attempt j = Some (ia_id a)
     then j\<lparr>jb_state := (if cycle_attempts job db < MAX_ATTEMPTS then JobRetryWait else JobDeadLetter),
         jb_stage := None, jb_active_attempt := None, jb_failure_reason := Some ''lease_expired'',
         jb_next_attempt_at := (if cycle_attempts job db < MAX_ATTEMPTS
           then Some (ie_now env + retry_delay (ie_jitter env (jb_id job)) (cycle_attempts job db)) else None),
         jb_updated_at := ie_now env\<rparr>
     else j) (find_job x db)"
  "find_attempt x (reclaimed env document job a db) = map_option (\<lambda>b.
     if ia_id b = ia_id a \<and> ia_state b = AttRunning \<and> ia_fence b = ia_fence a
     then expired_job_attempt b (ie_now env) else b) (find_attempt x db)"
  "attempts (reclaimed env document job a db) = sql_update
     (\<lambda>b. ia_id b = ia_id a \<and> ia_state b = AttRunning \<and> ia_fence b = ia_fence a)
     (\<lambda>b. expired_job_attempt b (ie_now env)) (attempts db)"
  by (simp_all add: reclaimed_def Let_def found)

lemma reclaimed_operation:
  assumes "find_document x db = Some d"
  shows "Option.bind (find_document x (reclaimed env document job a db)) dc_active_job =
    (if MAX_ATTEMPTS \<le> cycle_attempts job db \<and> dc_id d = jb_document_id job \<and> dc_active_job d = Some (jb_id job)
     then None else dc_active_job d)"
  using assms by (simp add: reclaimed_def Let_def found)

lemma reclaimed_no_document: "find_document x db = None \<Longrightarrow> find_document x (reclaimed env document job a db) = None"
  by (simp add: reclaimed_def Let_def found)

lemma reclaimed_step:
  assumes inv: "op_inv (view db)" and job: "find_job i db = Some job" and run: "jb_state job = JobRunning"
    and cur: "jb_active_attempt job = Some k" and att: "find_attempt k db = Some a"
    and ar: "ia_state a = AttRunning"
  shows "op_step (view db) (view (reclaimed env document job a db))"
proof -
  have ids: "jb_id job = i" "ia_id a = k" using find_ids(2) [OF job] find_ids(3) [OF att] by auto
  have live: "job_live (jb_state job)" using run by (simp add: job_live_def)
  note reg = live_document [OF inv job live]
  have one: "dc_id d = jb_document_id job" if "find_document x db = Some d" "dc_active_job d = Some i" for x d
    using operation_job [OF inv that] job find_ids(1) [OF that(1)] by auto
  let ?st = "if cycle_attempts job db < MAX_ATTEMPTS then JobRetryWait else JobDeadLetter"
  show ?thesis
  proof (rule ended_step [OF job live, where st = ?st and ast = AttExpired and k = None])
    fix x
    show "map_option job_view_of (find_job x (reclaimed env document job a db)) = (if x = i
      then Some ((job_view_of job)\<lparr>jv_state := ?st, jv_attempt := None\<rparr>)
      else map_option job_view_of (find_job x db))"
    proof (cases "find_job x db")
      case (Some j)
      then show ?thesis
        using job run cur ids find_ids(2) [OF Some] by (cases "x = i") (simp_all add: reclaimed_find job_view_of_def)
    qed (use job in \<open>auto simp: reclaimed_find\<close>)
  next
    fix x
    show "map_option attempt_view_of (find_attempt x (reclaimed env document job a db)) =
      (if jb_active_attempt job = Some x
      then map_option (\<lambda>a. attempt_view_of a\<lparr>av_state := AttExpired\<rparr>) (find_attempt x db)
      else map_option attempt_view_of (find_attempt x db))"
    proof (cases "find_attempt x db")
      case (Some b)
      then show ?thesis
        using att ar cur ids find_ids(3) [OF Some] by (cases "x = k") (simp_all add: reclaimed_find attempt_view_of_def)
    qed (simp add: reclaimed_find)
  next
    fix d
    show "Option.bind (find_document d (reclaimed env document job a db)) dc_active_job =
      (if ?st \<noteq> JobRetryWait \<and> d = jb_document_id job then None
       else Option.bind (find_document d db) dc_active_job)"
    proof (cases "find_document d db")
      case (Some r)
      then show ?thesis
        using ids reg one [OF Some] find_ids(1) [OF Some] by (auto simp: reclaimed_operation [OF Some])
    qed (simp add: reclaimed_no_document)
  next
    fix x g
    show "ov_count (view (reclaimed env document job a db)) x g = ov_count (view db) x g"
      by (simp add: reclaimed_find sql_count_update)
  qed (use run in auto)
qed

end
