(* ===== verification/Ingestion_Simulation.thy ===== *)
theory Ingestion_Simulation
  imports Ingestion_Refinement
begin

text \<open>
  The execution side is simulated by steps of the protocol: reclaiming, claiming, renewing and
  marking, failing and cancelling a job.
\<close>

named_theorems sim "simulation of an operation by the protocol"

abbreviation op_steps :: "op_view \<Rightarrow> op_view \<Rightarrow> bool" where
  "op_steps \<equiv> op_step\<^sup>*\<^sup>*"

section \<open>Reclaiming\<close>

lemma reclaim_one_sim [sim]:
  assumes "reclaim_one env e db = Inr db'" and "op_inv (view db)"
  shows "op_steps (view db) (view db')"
proof -
  obtain i d where e: "e = (i, d)" by fastforce
  have "db' = db \<or> (\<exists>document job k a db1. find_job i db = Some job \<and>
      jb_state job = JobRunning \<and> jb_active_attempt job = Some k \<and> find_attempt k db = Some a \<and>
      ia_state a = AttRunning \<and> tables db1 = tables db \<and> db' = reclaimed env document job a db1)"
    using assms(1) by (auto simp: reclaim_one_def e split: option.splits if_splits dest!: discard_tables)
  then show ?thesis
  proof (elim disjE exE conjE)
    fix document job k a db1
    assume h: "find_job i db = Some job" "jb_state job = JobRunning" "jb_active_attempt job = Some k"
      "find_attempt k db = Some a" "ia_state a = AttRunning"
      and t: "tables db1 = tables db" and d: "db' = reclaimed env document job a db1"
    note f = find_tables [OF t]
    have "op_step (view db1) (view (reclaimed env document job a db1))"
      by (rule reclaimed_step) (use assms(2) h f in simp_all)
    then show ?thesis by (simp add: d f(5) r_into_rtranclp)
  qed simp
qed

lemma reclaim_each_sim:
  "reclaim_each env es db = Inr db' \<Longrightarrow> op_inv (view db) \<Longrightarrow> op_steps (view db) (view db')"
proof (induction es arbitrary: db)
  case Nil
  then show ?case by simp
next
  case (Cons e es)
  then obtain db1 where one: "reclaim_one env e db = Inr db1" and rest: "reclaim_each env es db1 = Inr db'"
    by auto
  have s: "op_steps (view db) (view db1)" by (rule reclaim_one_sim [OF one Cons.prems(2)])
  then have "op_inv (view db1)" using op_steps_inv Cons.prems(2) by blast
  then show ?case using s Cons.IH [OF rest] by (meson rtranclp_trans)
qed

lemma reclaim_sim [sim]:
  "reclaim_expired_attempts env db = Inr db' \<Longrightarrow> op_inv (view db) \<Longrightarrow> op_steps (view db) (view db')"
  unfolding reclaim_expired_attempts_def by (rule reclaim_each_sim)

section \<open>Claiming, renewing and marking\<close>

text \<open>Two databases whose rows differ only in what the protocol does not see.\<close>

lemma view_eqI:
  assumes "\<And>x. map_option job_view_of (find_job x db') = map_option job_view_of (find_job x db)"
    "documents db' = documents db"
    "\<And>x. map_option attempt_view_of (find_attempt x db') = map_option attempt_view_of (find_attempt x db)"
    "\<And>i g. ov_count (view db') i g = ov_count (view db) i g"
  shows "view db' = view db"
  by (rule op_view_eqI) (use assms in \<open>simp_all add: find_document_def del: view_simps(4)\<close>)

lemma map_option_view: "(\<And>r. g (f r) = g r) \<Longrightarrow> map_option g (map_option f x) = map_option g x"
  by (cases x) simp_all

lemma upd_view:
  "(\<And>j. jb_id (fj j) = jb_id j) \<Longrightarrow> (\<And>j. job_view_of (fj j) = job_view_of j) \<Longrightarrow> view (upd_jobs pj fj db) = view db"
  "(\<And>a. ia_id (fa a) = ia_id a) \<Longrightarrow> (\<And>a. attempt_view_of (fa a) = attempt_view_of a) \<Longrightarrow>
    view (upd_attempts pa fa db) = view db"
proof -
  assume f: "\<And>j. jb_id (fj j) = jb_id j" "\<And>j. job_view_of (fj j) = job_view_of j"
  show "view (upd_jobs pj fj db) = view db"
    by (rule view_eqI) (simp_all add: found f map_option_view)
next
  assume f: "\<And>a. ia_id (fa a) = ia_id a" "\<And>a. attempt_view_of (fa a) = attempt_view_of a"
  have g: "ia_job_id (fa a) = ia_job_id a" "ia_replay_generation (fa a) = ia_replay_generation a" for a
    using f(2) [of a] by (simp_all add: attempt_view_of_def)
  show "view (upd_attempts pa fa db) = view db"
    by (rule view_eqI) (simp_all add: found f g map_option_view sql_count_update)
qed

lemma ensure_staged_view:
  assumes "ensure_staged env job db = Inr (i, db')"
  shows "view db' = view db" "documents db' = documents db" "attempts db' = attempts db"
proof -
  have shape: "tables db' = tables db \<or> (\<exists>db1 p. tables db1 = tables db \<and>
      db' = upd_jobs (\<lambda>j. jb_id j = jb_id job) (\<lambda>j. j\<lparr>jb_active_publication := Some p\<rparr>) db1)"
    using assms by (auto simp: ensure_staged_def Let_def split: option.splits if_splits dest!: insert_publication_tables)
  then show "documents db' = documents db" "attempts db' = attempts db" by (auto simp: tables_def)
  from shape show "view db' = view db"
  proof (elim disjE exE conjE)
    assume "tables db' = tables db"
    then show ?thesis by (rule find_tables(5))
  next
    fix db1 p
    assume t: "tables db1 = tables db"
      and d: "db' = upd_jobs (\<lambda>j. jb_id j = jb_id job) (\<lambda>j. j\<lparr>jb_active_publication := Some p\<rparr>) db1"
    have "view db' = view db1" unfolding d by (rule upd_view) (simp_all add: job_view_of_def)
    then show ?thesis using find_tables(5) [OF t] by simp
  qed
qed

lemma claim_job_sim [sim]:
  assumes "claim_job env worker_id ttl job document db = Inr (r, db')"
    and job: "find_job (jb_id job) db = Some job" and st: "job_runnable (jb_state job)"
  shows "op_step (view db) (view db')"
proof -
  let ?k = "new_id env ''attempt'' 0"
  obtain p db1 db2 auth where 1: "ensure_staged env job db = Inr (p, db1)"
    and 2: "align_generation env p db1 = Inr db2"
    and start: "start_claim env job p (claim_attempt env worker_id ttl job document p auth db2) db2 = Inr db'"
    using assms(1) by (auto simp: claim_job_def Let_def)
  define a where "a = claim_attempt env worker_id ttl job document p auth db2"
  have a: "ia_id a = ?k" "ia_job_id a = jb_id job" "ia_state a = AttRunning"
    "ia_replay_generation a = jb_replay_generation job"
    by (simp_all add: a_def claim_attempt_def new_attempt_def Let_def)
  obtain db3 where 3: "insert_attempt a db2 = Inr db3" and 4: "claimed env job ?k p db3 = Inr db'"
    using start a(1) by (auto simp: start_claim_def a_def [symmetric])
  have t2: "tables db2 = tables db1"
    using 2 by (auto simp: align_generation_def split: option.splits if_splits dest: update_publications_tables)
  then have v2: "view db2 = view db" using ensure_staged_view(1) [OF 1] find_tables(5) [OF t2] by simp
  obtain q where q: "find_job (jb_id job) db2 = Some q" "job_view_of q = job_view_of job"
    using arg_cong [OF v2, of "\<lambda>v. ov_job v (jb_id job)"] job by auto
  obtain db5 where t5: "tables db5 = tables (upd_jobs (\<lambda>j. jb_id j = jb_id job \<and> job_runnable (jb_state j))
            (\<lambda>j. j\<lparr>jb_state := JobRunning, jb_stage := Some ''parsing'',
                  jb_active_attempt := Some ?k, jb_next_attempt_at := None,
                  jb_updated_at := ie_now env\<rparr>) db3)"
    and v4: "view db' = view db5"
    using 4 by (auto simp: claimed_def dest!: update_publications_tables)
  note ins = insert_attempt_find [OF 3]
  note f5 = find_tables [OF t5]
  have jobs3: "find_job x db3 = find_job x db2" for x using ins by (simp add: find_job_def)
  have "view db5 = start_attempt (jb_id job) (job_view_of job) ?k (view db2)"
  proof (rule op_view_eqI)
    fix x
    show "ov_job (view db5) x = ov_job (start_attempt (jb_id job) (job_view_of job) ?k (view db2)) x"
    proof (cases "find_job x db2")
      case (Some j)
      then show ?thesis
        using q st find_ids(2) [OF Some]
        by (cases "x = jb_id job") (auto simp: f5 found jobs3 start_attempt_def job_view_of_def)
    qed (use q in \<open>auto simp: f5 found jobs3 start_attempt_def\<close>)
  next
    fix x
    show "ov_attempt (view db5) x = ov_attempt (start_attempt (jb_id job) (job_view_of job) ?k (view db2)) x"
      using a by (simp add: f5 found ins start_attempt_def attempt_view_of_def)
  next
    fix i g
    show "ov_count (view db5) i g = ov_count (start_attempt (jb_id job) (job_view_of job) ?k (view db2)) i g"
      using a by (auto simp: f5 ins start_attempt_def sql_count_append sql_count_def)
  next
    fix d
    show "ov_operation (view db5) d = ov_operation (start_attempt (jb_id job) (job_view_of job) ?k (view db2)) d"
      using ins by (simp add: f5 found start_attempt_def find_document_def)
  qed
  moreover have "op_step (view db2) (start_attempt (jb_id job) (job_view_of job) ?k (view db2))"
    by (rule step_start) (use q ins a st in auto)
  ultimately show ?thesis using v2 v4 by simp
qed

lemma claim_next_sim [sim]:
  assumes "claim_next env worker_id only ttl db = Inr (r, db')"
  shows "op_steps (view db) (view db')"
proof -
  obtain job document i where c: "claim_job env worker_id ttl job document db = Inr (r, db')"
    and job: "find_job i db = Some job" "job_claimable (ie_now env) only job"
    using assms by (auto simp: claim_next_def Let_def split: option.splits if_splits)
  then have "find_job (jb_id job) db = Some job" "job_runnable (jb_state job)"
    using find_ids(2) [OF job(1)] by (auto simp: job_claimable_def)
  then show ?thesis using claim_job_sim [OF c] by blast
qed

lemma renew_view [sim]: "renew now owner ttl lease db = Inr (r, db') \<Longrightarrow> view db' = view db"
  by (auto simp: renew_def attempt_view_of_def split: if_splits intro!: upd_view)

lemma mark_view [sim]: "mark_job_indexing now i k fence db = Inr db' \<Longrightarrow> view db' = view db"
  by (auto simp: mark_job_indexing_def Let_def job_view_of_def split: option.splits if_splits intro!: upd_view)

section \<open>Failing and cancelling\<close>

lemma close_operation_find [found]:
  "find_job x (close_operation env st document job db) = find_job x db"
  "find_attempt x (close_operation env st document job db) = find_attempt x db"
  "attempts (close_operation env st document job db) = attempts db"
  by (simp_all add: close_operation_def found)

lemma close_operation_operation:
  "Option.bind (find_document x (close_operation env st document job db)) dc_active_job =
    (if x = jb_document_id job then None else Option.bind (find_document x db) dc_active_job)"
proof (cases "find_document x db")
  case (Some d)
  then show ?thesis using find_ids(1) [OF Some] by (auto simp: close_operation_def found)
qed (auto simp: close_operation_def found)

text \<open>What \<open>failed\<close> and \<open>cancelled\<close> share: one job, its attempt, and the document unless it retries.\<close>

lemma ended_update:
  assumes inv: "op_inv (view db)" and job: "find_job i db = Some job" and live: "job_live (jb_state job)"
    and st: "st \<notin> {JobPending, JobRunning}"
    and retry: "st = JobRetryWait \<longrightarrow> jb_state job = JobRunning \<and> cycle_attempts job db < MAX_ATTEMPTS"
    and ast: "ast \<noteq> AttRunning" and k: "if st = JobSucceeded then jb_state job = JobRunning \<and> k = jb_active_attempt job else k = None"
    and fj: "\<And>j. jb_id (fj j) = jb_id j" "\<And>j. jb_document_id (fj j) = jb_document_id j"
      "\<And>j. jb_replay_generation (fj j) = jb_replay_generation j"
      "jb_state (fj job) = st" "jb_active_attempt (fj job) = k" and pj: "pj job"
    and fa: "\<And>a. ia_id (fa a) = ia_id a" "\<And>a. ia_job_id (fa a) = ia_job_id a"
      "\<And>a. ia_replay_generation (fa a) = ia_replay_generation a" "\<And>a. ia_state (fa a) = ast"
    and jobs: "\<And>x. find_job x db' = map_option (\<lambda>j. if jb_id j = i \<and> pj j then fj j else j) (find_job x db)"
    and attempts: "attempts db' = sql_update (\<lambda>a. Some (ia_id a) = jb_active_attempt job) fa (attempts db)"
    and docs: "\<And>d. Option.bind (find_document d db') dc_active_job = (if st \<noteq> JobRetryWait \<and> d = jb_document_id job
      then None else Option.bind (find_document d db) dc_active_job)"
  shows "op_step (view db) (view db')"
proof (rule ended_step [OF job live st retry ast k _ _ docs])
  fix x
  show "map_option job_view_of (find_job x db') = (if x = i
      then Some ((job_view_of job)\<lparr>jv_state := st, jv_attempt := k\<rparr>) else map_option job_view_of (find_job x db))"
  proof (cases "find_job x db")
    case (Some j)
    then show ?thesis
      using job find_ids(2) [OF Some] fj pj by (cases "x = i") (simp_all add: jobs job_view_of_def)
  qed (use job in \<open>auto simp: jobs\<close>)
next
  fix x
  have f: "find_attempt x db' = map_option (\<lambda>a. if Some (ia_id a) = jb_active_attempt job then fa a else a) (find_attempt x db)"
    unfolding find_attempt_def attempts by (rule sql_first_updated) (rule fa)
  show "map_option attempt_view_of (find_attempt x db') = (if jb_active_attempt job = Some x
      then map_option (\<lambda>a. attempt_view_of a\<lparr>av_state := ast\<rparr>) (find_attempt x db)
      else map_option attempt_view_of (find_attempt x db))"
  proof (cases "find_attempt x db")
    case (Some a)
    then show ?thesis
      using find_ids(3) [OF Some] fa by (cases "jb_active_attempt job = Some x") (auto simp: f attempt_view_of_def)
  qed (simp add: f)
next
  fix x g
  show "ov_count (view db') x g = ov_count (view db) x g"
    by (simp add: attempts sql_count_update fa)
qed

lemma failed_step:
  assumes inv: "op_inv (view db)" and job: "find_job i db = Some job" and run: "jb_state job = JobRunning"
    and cur: "jb_active_attempt job = Some k"
  shows "op_step (view db) (view (failed env reason retryable document job k ids db))"
proof -
  let ?st = "failed_state retryable (cycle_attempts job db)" and ?now = "ie_now env"
  have id: "jb_id job = i" by (rule find_ids(2) [OF job])
  let ?fj = "\<lambda>j. j\<lparr>jb_state := ?st, jb_stage := None, jb_active_attempt := None,
       jb_failure_reason := Some reason,
       jb_next_attempt_at := (if ?st = JobRetryWait
         then Some (?now + retry_delay (ie_jitter env (jb_id job)) (cycle_attempts job db)) else None),
       jb_notification_ids := (if ?st = JobRetryWait then jb_notification_ids j else ids),
       jb_updated_at := ?now\<rparr>"
  let ?fa = "\<lambda>a. a\<lparr>ia_state := AttFailed, ia_lease_expires_at := None, ia_publication_id := None,
       ia_failure_reason := Some reason, ia_updated_at := ?now\<rparr>"
  show ?thesis
  proof (rule ended_update [OF inv job, where st = ?st and ast = AttFailed and k = None and fj = ?fj
        and fa = ?fa and pj = "\<lambda>j. jb_state j = JobRunning \<and> jb_active_attempt j = Some k"])
    show "find_job x (failed env reason retryable document job k ids db) =
      map_option (\<lambda>j. if jb_id j = i \<and> jb_state j = JobRunning \<and> jb_active_attempt j = Some k then ?fj j else j)
        (find_job x db)" for x
      by (cases "?st = JobRetryWait") (simp_all add: failed_def Let_def found id cong: if_cong)
    show "attempts (failed env reason retryable document job k ids db) =
      sql_update (\<lambda>a. Some (ia_id a) = jb_active_attempt job) ?fa (attempts db)"
      by (simp add: failed_def Let_def found cur)
    show "Option.bind (find_document d (failed env reason retryable document job k ids db)) dc_active_job =
      (if ?st \<noteq> JobRetryWait \<and> d = jb_document_id job then None
       else Option.bind (find_document d db) dc_active_job)" for d
      by (simp add: failed_def Let_def found close_operation_operation)
  qed (use run cur in \<open>auto simp: job_live_def failed_state_def split: if_splits\<close>)
qed

lemma fail_job_sim [sim]:
  assumes "fail_job env i reason retryable k fence db = Inr (st, db')" and inv: "op_inv (view db)"
  shows "op_steps (view db) (view db')"
proof -
  obtain job document active ids db1 db2 where job: "find_job i db = Some job" "jb_state job = JobRunning"
      "jb_active_attempt job = Some active" and t: "tables db2 = tables db"
    and db': "db' = failed env reason retryable document job active ids db2"
    using assms(1) by (auto simp: fail_job_def Let_def split: option.splits if_splits
        dest!: discard_tables notify_terminal_tables)
  note f = find_tables [OF t]
  have "op_step (view db2) (view db')"
    unfolding db' by (rule failed_step [where i = i]) (use inv job f in simp_all)
  then show ?thesis by (simp add: f(5) r_into_rtranclp)
qed

lemma cancelled_attempt_find [found]:
  "find_document x (cancelled_attempt now job db) = find_document x db"
  "find_job x (cancelled_attempt now job db) = find_job x db"
  by (simp_all add: cancelled_attempt_def found)

lemma cancelled_step:
  assumes inv: "op_inv (view db)" and job: "find_job i db = Some job" and live: "job_live (jb_state job)"
  shows "op_step (view db) (view (cancelled env who document job ids db))"
proof -
  have id: "jb_id job = i" by (rule find_ids(2) [OF job])
  let ?fj = "\<lambda>j. j\<lparr>jb_state := JobCancelled, jb_stage := None, jb_active_attempt := None,
       jb_cancelled_by := Some (pr_user_id who), jb_cancelled_at := Some (ie_now env),
       jb_notification_ids := ids, jb_updated_at := ie_now env\<rparr>"
  let ?fa = "\<lambda>a. a\<lparr>ia_state := AttCancelled,
       ia_fence := max_or_zero (map ia_fence (job_attempts (jb_id job) db)) + 1,
       ia_lease_expires_at := None, ia_publication_id := None, ia_updated_at := ie_now env\<rparr>"
  show ?thesis
  proof (rule ended_update [OF inv job live, where st = JobCancelled and ast = AttCancelled and k = None
        and fj = ?fj and fa = ?fa and pj = "\<lambda>j. jb_state j = jb_state job"])
    show "find_job x (cancelled env who document job ids db) =
      map_option (\<lambda>j. if jb_id j = i \<and> jb_state j = jb_state job then ?fj j else j) (find_job x db)" for x
      by (simp add: cancelled_def Let_def found id)
    have "attempts (cancelled_attempt now job db) = attempts db" if "jb_active_attempt job = None" for now db
      using that by (simp add: cancelled_attempt_def nonempty_def)
    moreover have "nonempty (jb_active_attempt job) \<or> jb_active_attempt job = None"
      using named_attempt [OF inv job] by (cases "jb_active_attempt job") (auto simp: nonempty_def)
    ultimately show "attempts (cancelled env who document job ids db) =
      sql_update (\<lambda>a. Some (ia_id a) = jb_active_attempt job) ?fa (attempts db)"
      by (auto simp: cancelled_def Let_def found cancelled_attempt_def job_attempts_def)
    show "Option.bind (find_document d (cancelled env who document job ids db)) dc_active_job =
      (if JobCancelled \<noteq> JobRetryWait \<and> d = jb_document_id job then None
       else Option.bind (find_document d db) dc_active_job)" for d
      by (simp add: cancelled_def Let_def found close_operation_operation)
  qed (use live in auto)
qed

lemma cancel_job_sim [sim]:
  assumes "cancel_job env who i db = Inr (st, db')" and inv: "op_inv (view db)"
  shows "op_steps (view db) (view db')"
proof -
  have "db' = db \<or> (\<exists>job document ids db2. find_job i db = Some job \<and> job_live (jb_state job) \<and>
      tables db2 = tables db \<and> db' = cancelled env who document job ids db2)"
    using assms(1) by (auto simp: cancel_job_def split: option.splits if_splits
        dest!: discard_tables notify_terminal_tables) blast
  then show ?thesis
  proof (elim disjE exE conjE)
    fix job document ids db2
    assume h: "find_job i db = Some job" "job_live (jb_state job)" and t: "tables db2 = tables db"
      and d: "db' = cancelled env who document job ids db2"
    note f = find_tables [OF t]
    have "op_step (view db2) (view db')"
      unfolding d by (rule cancelled_step [where i = i]) (use inv h f in simp_all)
    then show ?thesis by (simp add: f(5) r_into_rtranclp)
  qed simp
qed

end
