(* ===== verification/Ingestion_Simulation_Commands.thy ===== *)
theory Ingestion_Simulation_Commands
  imports Ingestion_Simulation
begin

text \<open>
  The commands and the end of a job are simulated by steps of the protocol: reindex, replacement,
  restore, initial upload, replay, the end of a copy and the acceptance of a receipt. A step of
  ingestion is any operation that commits; every sequence of them is one of the protocol's.
\<close>

section \<open>Commands\<close>

text \<open>The completed idempotency record is not seen by the protocol.\<close>

lemma idempotently_sim:
  assumes "idempotently env actor endpoint target key fingerprint body db = Inr (r, db')"
    and "\<And>r db1. body db = Inr (r, db1) \<Longrightarrow> op_steps (view db) (view db1)"
  shows "op_steps (view db) (view db')"
proof -
  have "db' = db \<or> (\<exists>db1 rows. body db = Inr (r, db1) \<and> db' = db1\<lparr>idempotency := rows\<rparr>)"
    using assms(1) by (auto simp: idempotently_def split: option.splits if_splits)
  moreover have "view (db1\<lparr>idempotency := rows\<rparr>) = view db1" for db1 rows
    by (rule find_tables(5)) (simp add: tables_def)
  ultimately show ?thesis using assms(2) by auto
qed

text \<open>A pending job started on a document whose operation slot is free.\<close>

lemma started_step:
  assumes ins: "start_job env job db = Inr db1"
    and st: "jb_state job = JobPending" "jb_active_attempt job = None" "jb_replay_generation job = 0"
    and d: "find_document (jb_document_id job) db = Some d" "dc_active_job d = None"
    and fd: "\<And>x. dc_id (fd x) = dc_id x" "\<And>x. dc_active_job (fd x) = Some (jb_id job)"
    and db': "tables db' = tables (upd_documents (\<lambda>x. dc_id x = jb_document_id job) fd db1)"
  shows "op_step (view db) (view db')"
proof -
  obtain db0 where job: "insert_job job db = Inr db0" and t: "tables db1 = tables db0"
    using ins by (auto simp: start_job_def dest: insert_publication_tables)
  note f = find_tables [OF t] and g = find_tables [OF db'] and i = insert_job_find [OF job]
  have docs: "find_document x db1 = find_document x db" for x
    using i(3) unfolding f(1) by (simp add: find_document_def)
  show ?thesis
  proof (rule opened_step [OF i(1)])
    show "attempts db' = attempts db" by (simp add: g f i)
    show "Option.bind (find_document (jb_document_id job) db) dc_active_job = None" using d by simp
    show "map_option job_view_of (find_job x db') = (if x = jb_id job
      then Some \<lparr>jv_document = jb_document_id job, jv_state = JobPending, jv_attempt = None, jv_generation = 0\<rparr>
      else map_option job_view_of (find_job x db))" for x
      by (simp add: g found f i(2) job_view_of_def st)
    show "Option.bind (find_document x db') dc_active_job = (if x = jb_document_id job
      then Some (jb_id job) else Option.bind (find_document x db) dc_active_job)" for x
    proof (cases "find_document x db")
      case (Some r)
      then show ?thesis using fd find_ids(1) [OF Some] by (auto simp: g found docs)
    qed (use d fd in \<open>auto simp: g found docs\<close>)
  qed
qed

lemma new_job_simps [simp]:
  "jb_id (new_job env who i d v op base batch p n degr) = i"
  "jb_document_id (new_job env who i d v op base batch p n degr) = d"
  "jb_version_id (new_job env who i d v op base batch p n degr) = v"
  "jb_operation (new_job env who i d v op base batch p n degr) = op"
  "jb_base_active_version (new_job env who i d v op base batch p n degr) = base"
  "jb_active_publication (new_job env who i d v op base batch p n degr) = Some p"
  "jb_state (new_job env who i d v op base batch p n degr) = JobPending"
  "jb_active_attempt (new_job env who i d v op base batch p n degr) = None"
  "jb_replay_generation (new_job env who i d v op base batch p n degr) = 0"
  by (simp_all add: new_job_def)

lemma writable_idle: "assert_document_writable d expected = Inr u \<Longrightarrow> dc_active_job d = None"
  by (auto simp: assert_document_writable_def split: if_splits)

lemma reindex_sim [sim]:
  assumes "reindex env who document_id expected key db = Inr (r, db')"
  shows "op_steps (view db) (view db')"
proof -
  obtain k d where d: "find_document document_id db = Some d"
    and run: "idempotently env (pr_user_id who) ''documents.reindex'' document_id k
       (fingerprint_of env (PDict [(''expected_version'', PInt expected)]))
       (reindex_body env who d expected) db = Inr (r, db')"
    using assms by (auto simp: reindex_def lock_document_def split: if_splits option.splits)
  show ?thesis
  proof (rule idempotently_sim [OF run])
    fix q db1
    assume "reindex_body env who d expected db = Inr (q, db1)"
    then obtain active db2 where idle: "dc_active_job d = None"
      and start: "start_job env (new_job env who (new_id env ''job'' 0) (dc_id d) (Some active) OpReindex
          (Some active) None (new_id env ''publication'' 0) (dc_version d + 1) []) db = Inr db2"
      and db1: "db1 = upd_documents (\<lambda>x. dc_id x = dc_id d)
          (\<lambda>x. x\<lparr>dc_active_job := Some (new_id env ''job'' 0), dc_version := dc_version d + 1,
                dc_updated_at := ie_now env\<rparr>) db2"
      by (auto simp: reindex_body_def Let_def split: option.splits dest!: writable_idle)
    have "op_step (view db) (view db1)"
      by (rule started_step [OF start]) (use d idle find_ids(1) [OF d] db1 in auto)
    then show "op_steps (view db) (view db1)" by (rule r_into_rtranclp)
  qed
qed

lemma begin_replacement_step:
  assumes "begin_replacement env who d v degr db = Inr db'"
    and d: "find_document (dc_id d) db = Some d" "dc_active_job d = None"
  shows "op_step (view db) (view db')"
proof -
  obtain db1 db2 where 1: "insert_version v db = Inr db1"
    and start: "start_job env (new_job env who (new_id env ''job'' 0) (dc_id d) (Some (vr_id v)) OpReplace
        (dc_active_version d) None (new_id env ''publication'' 0) (dc_version d + 1) degr) db1 = Inr db2"
    and db': "db' = upd_documents (\<lambda>x. dc_id x = dc_id d)
        (\<lambda>x. x\<lparr>dc_pending_version := Some (vr_id v), dc_active_job := Some (new_id env ''job'' 0),
              dc_version := dc_version d + 1, dc_updated_at := ie_now env\<rparr>) db2"
    using assms(1) by (auto simp: begin_replacement_def Let_def)
  note f = find_tables [OF insert_version_tables [OF 1]]
  have "op_step (view db1) (view db')"
    by (rule started_step [OF start]) (use d db' f in auto)
  then show ?thesis by (simp add: f(5))
qed

lemma replace_version_sim [sim]:
  assumes "replace_version env who document_id expected file key db = Inr (r, db')"
  shows "op_steps (view db) (view db')"
proof -
  obtain k d info fp where d: "find_document document_id db = Some d"
    and run: "idempotently env (pr_user_id who) ''documents.replace_version'' document_id k fp
       (replace_body env who d expected info) db = Inr (r, db')"
    using assms by (auto simp: replace_version_def lock_document_def split: if_splits option.splits)
  show ?thesis
  proof (rule idempotently_sim [OF run])
    fix q db1
    assume "replace_body env who d expected info db = Inr (q, db1)"
    then have "db1 = db \<or> (\<exists>v degr. dc_active_job d = None \<and> begin_replacement env who d v degr db = Inr db1)"
      by (auto simp: replace_body_def replace_accepted_def Let_def split: option.splits if_splits
          dest!: writable_idle)
    then show "op_steps (view db) (view db1)"
      using d find_ids(1) [OF d] begin_replacement_step by (auto intro: r_into_rtranclp)
  qed
qed

lemma restore_sim:
  assumes "restore_version_locked env who document_id version_id expected key db = Inr (r, db')"
  shows "op_steps (view db) (view db')"
proof -
  obtain k d fp where d: "find_document document_id db = Some d"
    and run: "idempotently env (pr_user_id who) ''documents.restore_version'' document_id k fp
       (restore_body env who d version_id expected) db = Inr (r, db')"
    using assms by (auto simp: restore_version_locked_def lock_document_def split: if_splits option.splits)
  show ?thesis
  proof (rule idempotently_sim [OF run])
    fix q db1
    assume "restore_body env who d version_id expected db = Inr (q, db1)"
    then obtain v degr db2 where idle: "dc_active_job d = None"
      and b: "begin_replacement env who d v degr db = Inr db2" and t: "tables db1 = tables db2"
      by (auto simp: restore_body_def restore_accepted_def Let_def split: option.splits if_splits
          dest!: writable_idle insert_hold_tables)
    have "op_step (view db) (view db2)"
      by (rule begin_replacement_step [OF b]) (use d idle find_ids(1) [OF d] in auto)
    then show "op_steps (view db) (view db1)" by (simp add: find_tables(5) [OF t] r_into_rtranclp)
  qed
qed

lemma restore_version_sim [sim]:
  assumes "restore_version env who document_id version_id expected key db = (r, db')"
  shows "op_steps (view db) (view db')"
  using assms restore_sim by (auto simp: restore_version_def split: sum.splits prod.splits if_splits)

section \<open>Initial upload\<close>

lemma deduplicated_view: "deduplicated_upload_item env batch n info c db = Inr (item, db') \<Longrightarrow> view db' = view db"
  by (auto simp: deduplicated_upload_item_def Let_def dest!: insert_batch_item_tables intro: find_tables(5))

lemma insert_claim_tables: "insert_claim c db = (b, db') \<Longrightarrow> tables db' = tables db"
  by (auto simp: insert_claim_def tables_def split: if_splits)

lemma start_job_find:
  assumes "start_job env job db = Inr db'"
  shows "find_job (jb_id job) db = None" "find_job i db' = (if i = jb_id job then Some job else find_job i db)"
    "find_document x db' = find_document x db" "attempts db' = attempts db"
proof -
  obtain db0 where job: "insert_job job db = Inr db0" and t: "tables db' = tables db0"
    using assms by (auto simp: start_job_def dest: insert_publication_tables)
  note f = find_tables [OF t] and g = insert_job_find [OF job]
  show "find_job (jb_id job) db = None" "find_job i db' = (if i = jb_id job then Some job else find_job i db)"
    "attempts db' = attempts db" using f g by simp_all
  show "find_document x db' = find_document x db" using g(3) unfolding f(1) by (simp add: find_document_def)
qed

lemma upload_rows_step:
  assumes "upload_rows env who space batch n info db = Inr db'"
  shows "op_step (view db) (view db')"
proof -
  let ?d = "initial_document env who space n info"
  have d: "dc_id ?d = new_id env ''doc'' n" "dc_active_job ?d = Some (new_id env ''job'' n)"
    by (simp_all add: initial_document_def)
  obtain db1 db2 base batch' degr where 1: "insert_document ?d db = Inr db1" and 2: "tables db2 = tables db1"
    and 3: "start_job env (new_job env who (new_id env ''job'' n) (new_id env ''doc'' n)
        (Some (new_id env ''version'' n)) OpInitial base batch' (new_id env ''publication'' n) 1 degr) db2 = Inr db'"
    using assms by (auto simp: upload_rows_def Let_def d dest!: insert_version_tables)
  note i = insert_document_find [OF 1] and f = find_tables [OF 2] and g = start_job_find [OF 3]
  have jobs: "find_job x db2 = find_job x db" for x using i(3) unfolding f(2) by (simp add: find_job_def)
  show ?thesis
  proof (rule opened_step [where i = "new_id env ''job'' n" and d = "dc_id ?d"])
    show "find_job (new_id env ''job'' n) db = None" using g(1) jobs by simp
    show "Option.bind (find_document (dc_id ?d) db) dc_active_job = None" using i(1) by simp
    show "map_option job_view_of (find_job x db') = (if x = new_id env ''job'' n then Some \<lparr>jv_document = dc_id ?d,
      jv_state = JobPending, jv_attempt = None, jv_generation = 0\<rparr> else map_option job_view_of (find_job x db))" for x
      by (simp add: g jobs job_view_of_def d)
    show "attempts db' = attempts db" by (simp add: g f i)
    show "Option.bind (find_document x db') dc_active_job = (if x = dc_id ?d
      then Some (new_id env ''job'' n) else Option.bind (find_document x db) dc_active_job)" for x
      by (simp add: g f(1) i(2) d)
  qed
qed

lemma upload_new_step:
  assumes "upload_new env who space batch n info db = Inr (item, db')"
  shows "op_steps (view db) (view db')"
proof -
  obtain db1 where rows: "upload_rows env who space batch n info db = Inr db1"
    using assms by (auto simp: upload_new_def)
  obtain b db2 where claim: "insert_claim (upload_claim env space n info) db1 = (b, db2)" by fastforce
  have out: "view db' = view db \<or> tables db' = tables db2"
    using assms rows claim by (auto simp: upload_new_def split: if_splits option.splits
        dest!: insert_batch_item_tables deduplicated_view)
  have "view db' = view db \<or> view db' = view db1"
    using out insert_claim_tables [OF claim] find_tables(5) [of db' db1] by auto
  then show ?thesis using upload_rows_step [OF rows] by auto
qed

lemma upload_one_sim: "upload_one env who space batch n st db = Inr (item, db') \<Longrightarrow> op_steps (view db) (view db')"
  by (auto simp: upload_one_def upload_rejected_def split: file_state.splits option.splits
      dest!: upload_new_step deduplicated_view insert_batch_item_tables find_tables(5))

lemma upload_each_sim:
  "upload_each env who space batch n states db = Inr (items, db') \<Longrightarrow> op_steps (view db) (view db')"
proof (induction states arbitrary: n db items)
  case (Cons st states)
  then obtain item db1 rest where one: "upload_one env who space batch n st db = Inr (item, db1)"
    and more: "upload_each env who space batch (Suc n) states db1 = Inr (rest, db')" by auto
  show ?case using upload_one_sim [OF one] Cons.IH [OF more] by (rule rtranclp_trans)
qed simp

lemma create_initial_upload_sim [sim]:
  assumes "create_initial_upload env who space files key db = Inr (r, db')"
  shows "op_steps (view db) (view db')"
proof -
  obtain k fp states where
    run: "idempotently env (pr_user_id who) ''documents.initial_upload'' space k fp
       (upload_body env who space states) db = Inr (r, db')"
    using assms by (auto simp: create_initial_upload_def split: if_splits)
  show ?thesis
  proof (rule idempotently_sim [OF run])
    fix q db1
    assume "upload_body env who space states db = Inr (q, db1)"
    then obtain db2 db3 items where t: "tables db2 = tables db"
      and each: "upload_each env who space (new_id env ''batch'' 0) 0 states db2 = Inr (items, db3)"
      and db1: "db1 = refresh_upload_batch (ie_now env) (Some (new_id env ''batch'' 0)) db3"
      by (auto simp: upload_body_def Let_def dest!: insert_batch_tables)
    show "op_steps (view db) (view db1)"
      using upload_each_sim [OF each] find_tables(5) [OF t] by (simp add: db1)
  qed
qed

section \<open>Replay\<close>

lemma replay_step:
  assumes job: "find_job i db = Some job" and st: "job_replayable (jb_state job)"
    and d: "find_document (jb_document_id job) db = Some d" "dc_active_job d \<in> {None, Some i}"
    and t: "tables db1 = tables db"
  shows "op_step (view db) (view (reopened_document now job d (reopened_job env who job config p db1)))"
proof -
  have id: "jb_id job = i" by (rule find_ids(2) [OF job])
  note f = find_tables [OF t]
  let ?w = "reopened_document now job d (reopened_job env who job config p db1)"
  have "view ?w = reopen_job i (job_view_of job) (view db)"
  proof (rule op_view_eqI)
    fix x
    show "ov_job (view ?w) x = ov_job (reopen_job i (job_view_of job) (view db)) x"
    proof (cases "find_job x db")
      case (Some j)
      then show ?thesis
        using job st id find_ids(2) [OF Some] by (cases "x = i")
          (simp_all add: reopened_document_def reopened_job_def found f reopen_job_def job_view_of_def)
    qed (use job in \<open>auto simp: reopened_document_def reopened_job_def found f reopen_job_def\<close>)
  next
    fix x
    show "ov_operation (view ?w) x = ov_operation (reopen_job i (job_view_of job) (view db)) x"
    proof (cases "find_document x db")
      case (Some r)
      then show ?thesis
        using id find_ids(1) [OF Some]
        by (simp add: reopened_document_def reopened_job_def found f reopen_job_def)
    qed (use d in \<open>auto simp: reopened_document_def reopened_job_def found f reopen_job_def\<close>)
  qed (simp_all add: reopened_document_def reopened_job_def found f reopen_job_def)
  moreover have "op_step (view db) (reopen_job i (job_view_of job) (view db))"
    by (rule step_reopen) (use job st d in auto)
  ultimately show ?thesis by simp
qed

lemma replay_job_sim [sim]:
  assumes "replay_job env who i key db = Inr (r, db')"
  shows "op_steps (view db) (view db')"
proof -
  obtain k job where job: "find_job i db = Some job"
    and rest: "bindE (lock_document (jb_document_id job) db) (\<lambda>d.
        idempotently env (pr_user_id who) ''documents.job_replay'' i k
          (fingerprint_of env (PDict [(''job_id'', PStr i)])) (replay_body env who job d) db) = Inr (r, db')"
    using assms unfolding replay_job_def by (fastforce split: if_splits option.splits)
  then obtain d fp where d: "find_document (jb_document_id job) db = Some d"
    and run: "idempotently env (pr_user_id who) ''documents.job_replay'' i k fp
       (replay_body env who job d) db = Inr (r, db')"
    by (auto simp: lock_document_def split: option.splits)
  show ?thesis
  proof (rule idempotently_sim [OF run])
    fix q db1
    assume "replay_body env who job d db = Inr (q, db1)"
    then obtain p config db2 where st: "job_replayable (jb_state job)"
      and free: "dc_active_job d \<in> {None, Some (jb_id job)}" and t: "tables db2 = tables db"
      and db1: "db1 = set_batch_item (ie_now env) job ''pending''
               (reopened_document (ie_now env) job d (reopened_job env who job config p db2))"
      by (auto simp: replay_body_def assert_replay_eligible_def Let_def split: if_splits option.splits
          dest!: insert_publication_tables)
    have "op_step (view db) (view (reopened_document (ie_now env) job d (reopened_job env who job config p db2)))"
      by (rule replay_step [OF job st d _ t]) (use free find_ids(2) [OF job] in simp)
    then show "op_steps (view db) (view db1)" by (simp add: db1 r_into_rtranclp)
  qed
qed

section \<open>The end of a copy\<close>

lemma fail_and_raise_sim:
  "fail_and_raise env i reason retryable k fence e db = (r, db') \<Longrightarrow> op_inv (view db) \<Longrightarrow> op_steps (view db) (view db')"
  by (auto simp: fail_and_raise_def split: sum.splits prod.splits dest: fail_job_sim)

lemma finish_copy_sim [sim]:
  assumes "finish_copy env i k fence source outcome db = (r, db')" and "op_inv (view db)"
  shows "op_steps (view db) (view db')"
proof -
  have "tables (db\<lparr>holds := h\<rparr>) = tables db" for h by (simp add: tables_def)
  then have hold: "view (db\<lparr>holds := h\<rparr>) = view db" for h by (rule find_tables(5))
  show ?thesis
    using assms hold
    by (auto simp: finish_copy_def release_hold_def split: copy_outcome.splits if_splits option.splits
        dest: fail_and_raise_sim)
qed

lemma copy_restore_source_sim:
  "copy_restore_source env i k fence db = (r, db') \<Longrightarrow> op_inv (view db) \<Longrightarrow> op_steps (view db) (view db')"
  by (auto simp: copy_restore_source_def split: sum.splits prod.splits dest: finish_copy_sim)

section \<open>Acceptance\<close>

lemma raised_Inr [simp]: "raised m = Inr x \<longleftrightarrow> m = Inr x"
  by (auto simp: raised_def split: sum.splits)

lemma replace_dedup_claim_tables:
  assumes "replace_dedup_claim now d v db = Inr (Some db')"
  shows "tables db' = tables db"
proof -
  have take: "tables x = tables y" if "take_claim now d v key y = Some x" for key x y
    using that by (auto simp: take_claim_def drop_old_claims_def split: prod.splits bool.splits
        dest: insert_claim_tables)
  obtain key where key: "version_claim_key d v = Inr key"
    using assms by (cases "version_claim_key d v") (auto simp: replace_dedup_claim_def)
  have "(take_claim now d v key db = Some db') \<or>
      (\<exists>rows. db' = drop_old_claims d key (db\<lparr>dedup_claims := rows\<rparr>)) \<or>
      (\<exists>q. take_claim now d v key (del_claims q db) = Some db')"
    using assms by (cases "find_claim key db") (auto simp: replace_dedup_claim_def key split: if_splits)
  moreover have "tables (drop_old_claims d key (db\<lparr>dedup_claims := rows\<rparr>)) = tables db" for rows
    by (simp add: drop_old_claims_def) (simp add: tables_def)
  ultimately show ?thesis using take tables_other(3) by fastforce
qed

lemma swap_version_find [found]:
  "find_job x (swap_version env d v name db) = find_job x db"
  "attempts (swap_version env d v name db) = attempts db"
  by (simp_all add: swap_version_def Let_def found)

lemma swap_version_operation:
  "Option.bind (find_document x (swap_version env d v name db)) dc_active_job =
    (if x = dc_id d then None else Option.bind (find_document x db) dc_active_job)"
proof (cases "find_document x db")
  case (Some r)
  then show ?thesis using find_ids(1) [OF Some] by (auto simp: swap_version_def Let_def found)
qed (auto simp: swap_version_def Let_def found)

lemma publish_document_find:
  assumes "publish_document env d job a db = Inr db'" and d: "dc_id d = jb_document_id job"
  shows "find_job x db' = find_job x db" "attempts db' = attempts db"
    "Option.bind (find_document x db') dc_active_job =
      (if x = jb_document_id job then None else Option.bind (find_document x db) dc_active_job)"
proof -
  have "(\<exists>v name db1. tables db1 = tables db \<and> db' = swap_version env d v name db1) \<or>
      db' = upd_documents (\<lambda>x. dc_id x = jb_document_id job)
        (\<lambda>x. x\<lparr>dc_active_job := None, dc_version := dc_version d + 1, dc_updated_at := ie_now env\<rparr>) db"
    using assms(1) by (auto simp: publish_document_def split: if_splits option.splits
        dest!: replace_dedup_claim_tables) blast
  then have "find_job x db' = find_job x db \<and> attempts db' = attempts db \<and>
    Option.bind (find_document x db') dc_active_job =
      (if x = jb_document_id job then None else Option.bind (find_document x db) dc_active_job)"
  proof (elim disjE exE conjE)
    fix v name db1
    assume t: "tables db1 = tables db" and "db' = swap_version env d v name db1"
    then show ?thesis using find_tables [OF t] d by (simp add: found swap_version_operation)
  next
    assume e: "db' = upd_documents (\<lambda>x. dc_id x = jb_document_id job)
        (\<lambda>x. x\<lparr>dc_active_job := None, dc_version := dc_version d + 1, dc_updated_at := ie_now env\<rparr>) db"
    show ?thesis
    proof (cases "find_document x db")
      case (Some r)
      then show ?thesis using find_ids(1) [OF Some] by (auto simp: e found)
    qed (auto simp: e found)
  qed
  then show "find_job x db' = find_job x db" "attempts db' = attempts db"
    "Option.bind (find_document x db') dc_active_job =
      (if x = jb_document_id job then None else Option.bind (find_document x db) dc_active_job)" by simp_all
qed

lemma append_index_change_tables: "append_index_change env job p g space db = Inr db' \<Longrightarrow> tables db' = tables db"
  by (auto simp: append_index_change_def Let_def tables_def call_port_def split: if_splits)

lemma record_publication_quota_tables:
  "record_publication_quota env job c db = Inr (usage, db') \<Longrightarrow> tables db' = tables db"
  by (auto simp: record_publication_quota_def Let_def split: if_splits)

lemma accept_job_tables:
  "tables db' = tables db \<Longrightarrow> tables (accept_job now c job k usage ids db') = tables (accept_job now c job k usage ids db)"
  by (simp add: accept_job_def upd_jobs_def tables_def)

lemma settle_publication_tables:
  assumes "settle_publication env c job d p k db = Inr db'"
  shows "\<exists>usage ids. tables db' = tables (accept_job (ie_now env) c job k usage ids db)"
proof -
  obtain usage db1 db2 ids where 1: "record_publication_quota env job c db = Inr (usage, db1)"
    and 2: "tables db2 = tables db1"
    and 3: "tables db' = tables (accept_job (ie_now env) c job k usage ids
        (call_port (NotifyPublished (jb_id job) (pb_id p)) db2))"
    using assms by (auto simp: settle_publication_def dest!: update_publications_tables append_index_change_tables)
  have "tables (call_port (NotifyPublished (jb_id job) (pb_id p)) db2) = tables db"
    using 2 record_publication_quota_tables [OF 1] by simp
  then show ?thesis using 3 accept_job_tables by metis
qed

lemma publish_accepted_tables: "publish_accepted env who internal c request job d k db = Inr db' \<Longrightarrow> tables db' = tables db"
  by (auto simp: publish_accepted_def Let_def)

lemma activate_publication_tables: "activate_publication now c job k db = Inr db' \<Longrightarrow> tables db' = tables db"
  by (auto simp: activate_publication_def dest!: update_publications_tables)

lemma accept_attempt_tables: "tables db' = tables db \<Longrightarrow> tables (accept_attempt now c k db') = tables (accept_attempt now c k db)"
  by (simp add: accept_attempt_def upd_attempts_def tables_def)

lemma accept_attempt_find [found]:
  "find_document x (accept_attempt now c k db) = find_document x db"
  "find_job x (accept_attempt now c k db) = find_job x db"
  by (simp_all add: accept_attempt_def found)

lemma publish_and_settle_step:
  assumes run: "publish_and_settle env who internal c job d a db = Inr db'" and inv: "op_inv (view db)"
    and job: "find_job i db = Some job" "jb_state job = JobRunning" "jb_active_attempt job = Some (ia_id a)"
    and doc: "find_document (jb_document_id job) db = Some d"
  shows "op_step (view db) (view db')"
proof -
  let ?now = "ie_now env" and ?k = "ia_id a"
  have ids: "jb_id job = i" "dc_id d = jb_document_id job" using find_ids(2) [OF job(1)] find_ids(1) [OF doc] by auto
  obtain db1 db2 db3 p where 1: "tables db1 = tables db"
    and 2: "tables db2 = tables (accept_attempt ?now c ?k db1)"
    and 3: "publish_document env d job a db2 = Inr db3"
    and 4: "settle_publication env c job d p ?k db3 = Inr db'"
    using run by (auto simp: publish_and_settle_def split: option.splits
        dest!: publish_accepted_tables activate_publication_tables)
  have t2: "tables db2 = tables (accept_attempt ?now c ?k db)" using 2 accept_attempt_tables [OF 1] by simp
  obtain usage ids' where t4: "tables db' = tables (accept_job ?now c job ?k usage ids' db3)"
    using settle_publication_tables [OF 4] by blast
  note f2 = find_tables [OF t2] and f3 = publish_document_find [OF 3 ids(2)] and f4 = find_tables [OF t4]
  let ?fa = "\<lambda>a. a\<lparr>ia_state := AttSucceeded, ia_lease_expires_at := None, ia_receipt := Some c,
           ia_updated_at := ?now\<rparr>"
  let ?fj = "\<lambda>j. j\<lparr>jb_state := JobSucceeded, jb_stage := None, jb_active_attempt := Some ?k,
             jb_summary := Some c, jb_usage := usage, jb_charge_status := fst (usage_charge usage),
             jb_charge_reason := snd (usage_charge usage), jb_degradations := kept_degradations job c,
             jb_ocr_low := rc_ocr_low c, jb_notification_ids := ids', jb_updated_at := ?now\<rparr>"
  show ?thesis
  proof (rule ended_update [OF inv job(1), where st = JobSucceeded and ast = AttSucceeded and k = "Some ?k"
        and fj = ?fj and fa = ?fa and pj = "\<lambda>j. True"])
    show "find_job x db' = map_option (\<lambda>j. if jb_id j = i \<and> True then ?fj j else j) (find_job x db)" for x
      by (simp add: f4(2) accept_job_def found f3 f2 ids)
    show "attempts db' = sql_update (\<lambda>a. Some (ia_id a) = jb_active_attempt job) ?fa (attempts db)"
      by (simp add: f4(4) accept_job_def f3 f2 accept_attempt_def job)
    show "Option.bind (find_document x db') dc_active_job =
      (if JobSucceeded \<noteq> JobRetryWait \<and> x = jb_document_id job then None
       else Option.bind (find_document x db) dc_active_job)" for x
      by (simp add: f4(1) accept_job_def found f3 f2)
  qed (use job in \<open>auto simp: job_live_def\<close>)
qed

lemma accept_transaction_sim:
  assumes "accept_transaction env who internal i c db = Inr (st, db')" and inv: "op_inv (view db)"
  shows "op_steps (view db) (view db')"
proof -
  have "db' = db \<or> (\<exists>job d a. find_job i db = Some job \<and> jb_state job = JobRunning \<and>
      jb_active_attempt job = Some (ia_id a) \<and> find_document (jb_document_id job) db = Some d \<and>
      publish_and_settle env who internal c job d a db = Inr db')"
    using assms(1) find_ids(3) by (fastforce simp: accept_transaction_def split: option.splits if_splits)
  then show ?thesis using publish_and_settle_step [OF _ inv] by (auto intro: r_into_rtranclp)
qed

lemma refusal_effects_tables: "tables (refusal_effects env who i r db) = tables db"
proof (cases r)
  case (Raised e)
  then show ?thesis by (cases e) (simp_all add: refusal_effects_def Let_def refusal_code_def error_code_def)
qed (simp add: refusal_effects_def Let_def refusal_code_def)

lemma retry_in_generation_sim:
  assumes "retry_in_generation env i c e db = (r, db')" and "op_inv (view db)"
  shows "op_steps (view db) (view db')"
  using assms by (auto simp: retry_in_generation_def split: option.splits sum.splits prod.splits dest: fail_job_sim)

lemma accept_processing_receipt_sim [sim]:
  assumes "accept_processing_receipt env who internal i c db = (r, db')" and inv: "op_inv (view db)"
  shows "op_steps (view db) (view db')"
proof -
  let ?e = "\<lambda>e. refusal_effects env who i (Raised e) db"
  have v: "view (?e e) = view db" for e by (rule find_tables(5) [OF refusal_effects_tables])
  consider (ok) st where "accept_transaction env who internal i c db = Inr (st, db')"
    | (taken) k fence where "fail_and_raise env i ''duplicate_document'' False k fence
        (conflict ''duplicate_document'') db = (r, db')"
    | (retry) e where "retry_in_generation env i c e (?e e) = (r, db')"
    | (none) e where "db' = ?e e"
    using assms(1) by (auto simp: accept_processing_receipt_def Let_def
        split: sum.splits prod.splits refusal.splits if_splits)
  then show ?thesis
  proof cases
    case ok
    then show ?thesis using accept_transaction_sim inv by blast
  next
    case taken
    then show ?thesis using fail_and_raise_sim inv by blast
  next
    case (retry e)
    then show ?thesis using retry_in_generation_sim [OF retry] inv by (simp add: v)
  next
    case (none e)
    then show ?thesis by (simp add: v)
  qed
qed

end
