(* ===== verification/Ingestion_System.thy ===== *)
theory Ingestion_System
  imports Ingestion_Simulation_Commands
begin

text \<open>
  Ingestion as a transition system: a step is any operation of the model that commits, in any
  environment. Commands, workers and the lease clock interleave freely. The locale states what
  the client of the protocol may rely on, and the model is an instance of it.
\<close>

definition initial_docs :: "docs_db \<Rightarrow> bool" where
  "initial_docs db \<longleftrightarrow> documents db = [] \<and> jobs db = [] \<and> attempts db = [] \<and> publications db = []"

inductive docs_step :: "docs_db \<Rightarrow> docs_db \<Rightarrow> bool" where
  upload: "create_initial_upload env who space files key db = Inr (r, db') \<Longrightarrow> docs_step db db'"
| replace_content: "replace_version env who document_id expected file key db = Inr (r, db') \<Longrightarrow> docs_step db db'"
| restore: "restore_version env who document_id version_id expected key db = (r', db') \<Longrightarrow> docs_step db db'"
| reindexing: "reindex env who document_id expected key db = Inr (r, db') \<Longrightarrow> docs_step db db'"
| cancel: "cancel_job env who job_id db = Inr (st, db') \<Longrightarrow> docs_step db db'"
| replay: "replay_job env who job_id key db = Inr (r, db') \<Longrightarrow> docs_step db db'"
| reclaim: "reclaim_expired_attempts env db = Inr db' \<Longrightarrow> docs_step db db'"
| lease: "claim_next env worker_id only ttl db = Inr (l, db') \<Longrightarrow> docs_step db db'"
| copied: "finish_copy env job_id attempt_id fence source outcome db = (c, db') \<Longrightarrow> docs_step db db'"
| renewed: "renew now owner ttl given db = Inr (m, db') \<Longrightarrow> docs_step db db'"
| marked: "mark_job_indexing now job_id attempt_id fence db = Inr db' \<Longrightarrow> docs_step db db'"
| failing: "fail_job env job_id reason retryable k f db = Inr (st, db') \<Longrightarrow> docs_step db db'"
| accepting: "accept_processing_receipt env someone internal job_id c' db = (s, db') \<Longrightarrow> docs_step db db'"

inductive docs_reach :: "docs_db \<Rightarrow> bool" where
  start: "initial_docs db \<Longrightarrow> docs_reach db"
| extend: "docs_reach db \<Longrightarrow> docs_step db db' \<Longrightarrow> docs_reach db'"

lemma docs_step_sim:
  assumes "docs_step db db'" and "op_inv (view db)"
  shows "op_steps (view db) (view db')"
  using assms by (cases rule: docs_step.cases) (auto dest: sim)

lemma initial_docs_inv: "initial_docs db \<Longrightarrow> op_inv (view db)"
  by (simp add: initial_docs_def op_inv_def operations_live_def live_registered_def running_attempted_def
      attempts_owned_def waiting_free_def tries_bounded_def attempts_named_def find_document_def
      find_job_def find_attempt_def sql_count_def)

text \<open>A system whose steps a protocol simulates, and an invariant of the protocol.\<close>

locale simulated =
  fixes step :: "'c \<Rightarrow> 'c \<Rightarrow> bool" and abstraction :: "'c \<Rightarrow> 'a" and spec :: "'a \<Rightarrow> 'a \<Rightarrow> bool"
    and good :: "'a \<Rightarrow> bool" and kept :: "'a \<Rightarrow> 'a \<Rightarrow> bool"
  assumes sim: "step c d \<Longrightarrow> good (abstraction c) \<Longrightarrow> spec\<^sup>*\<^sup>* (abstraction c) (abstraction d)"
    and good_spec: "spec\<^sup>*\<^sup>* a b \<Longrightarrow> good a \<Longrightarrow> good b \<and> kept a b"
    and kept_trans: "kept a b \<Longrightarrow> kept b e \<Longrightarrow> kept a e"
begin

lemma simulated_steps:
  assumes "step\<^sup>*\<^sup>* c d" and "good (abstraction c)"
  shows "good (abstraction d) \<and> spec\<^sup>*\<^sup>* (abstraction c) (abstraction d)"
  using assms(1)
proof (induction rule: rtranclp_induct)
  case base
  then show ?case using assms(2) by simp
next
  case (step y z)
  then have "spec\<^sup>*\<^sup>* (abstraction y) (abstraction z)" using sim by blast
  then show ?case using step.IH good_spec by (meson rtranclp_trans)
qed

lemma kept_steps: "step\<^sup>*\<^sup>* c d \<Longrightarrow> good (abstraction c) \<Longrightarrow> kept (abstraction c) (abstraction d)"
  using simulated_steps good_spec by blast

end

interpretation ingestion: simulated docs_step view op_step op_inv attempts_kept
  by unfold_locales (use docs_step_sim op_steps_inv attempts_kept_trans in blast)+

lemma docs_reach_inv: "docs_reach db \<Longrightarrow> op_inv (view db)"
proof (induction rule: docs_reach.induct)
  case (start db)
  then show ?case by (rule initial_docs_inv)
next
  case (extend db db')
  then show ?case using ingestion.simulated_steps [OF r_into_rtranclp] by blast
qed

end
