(* ===== verification/Ingestion_Examples.thy ===== *)
theory Ingestion_Examples
  imports Ingestion_System
begin

text \<open>
  Runs of ingestion on concrete inputs: a document is uploaded, its job claimed and its receipt
  accepted. The environment answers every port with success and numbers its tokens.
\<close>

definition env_at :: "time \<Rightarrow> string \<Rightarrow> ingest_env" where
  "env_at now token = \<lparr>ie_now = now, ie_token = (\<lambda>prefix n. token @ replicate n (CHR ''x'')), ie_jitter = (\<lambda>_. 20),
     ie_generation = ''g1'', ie_has_handoff = True, ie_publish = (\<lambda>r c. Inr ''published''),
     ie_authorize = (\<lambda>u s. Inr ()), ie_worker_authorize = (\<lambda>u s. Inr ()), ie_check_quota = (\<lambda>u. Inr ()),
     ie_has_quota = False, ie_debit = (\<lambda>j p n. Inr None), ie_notify_published = (\<lambda>j. Inr []),
     ie_notify_terminal = (\<lambda>e j. Inr []), ie_graph_source = Inr (), ie_retention_days = 30,
     ie_file_info = (\<lambda>f. Inr \<lparr>fi_filename = uf_filename f, fi_normalized = uf_filename f,
        fi_media_kind = uf_media_kind f, fi_size = int (length (uf_content f)), fi_hash = uf_content f,
        fi_risk = None\<rparr>),
     ie_replay_config = (\<lambda>m. []), ie_copy = (\<lambda>a b. CopyMissing), ie_sha = (\<lambda>s. s), ie_float_repr = (\<lambda>q. [])\<rparr>"

definition uploader :: principal where
  "uploader = \<lparr>pr_user_id = ''u'', pr_role = ''user'', pr_department = None\<rparr>"

definition operator :: principal where
  "operator = \<lparr>pr_user_id = ''o'', pr_role = ''ops'', pr_department = None\<rparr>"

definition a_file :: upload_file where
  "a_file = \<lparr>uf_filename = ''a.md'', uf_content = ''abc'', uf_media_kind = ''md''\<rparr>"

definition no_docs :: docs_db where
  "no_docs = \<lparr>documents = [], versions = [], jobs = [], attempts = [], publications = [], batches = [],
     batch_items = [], dedup_claims = [], grants = [], holds = [], index_changes = [],
     index_counter = None, idempotency = [], audits = [], port_calls = []\<rparr>"

definition db_of :: "exn + ('r \<times> docs_db) \<Rightarrow> docs_db" where
  "db_of m = (case m of Inl _ \<Rightarrow> no_docs | Inr (_, db) \<Rightarrow> db)"

definition uploaded :: docs_db where
  "uploaded = db_of (create_initial_upload (env_at 0 ''1'') uploader ''s'' [Offered a_file] (Some ''k1'') no_docs)"

definition claimed_docs :: docs_db where
  "claimed_docs = db_of (claim_next (env_at 10 ''2'') ''w'' None (seconds 300) uploaded)"

definition receipt_for :: "staging_request \<Rightarrow> receipt" where
  "receipt_for r = \<lparr>rc_job_id = rq_job_id r, rc_attempt_id = rq_attempt_id r, rc_fence = rq_fence r,
     rc_publication_id = rq_publication_id r, rc_document_id = rq_document_id r,
     rc_version_id = rq_version_id r, rc_input_content_hash = rq_input_hash r, rc_resources = [],
     rc_resource_ids = [], rc_generation = rq_generation r, rc_auth = rq_auth r, rc_chunk_count = 0,
     rc_page_count = 1, rc_image_count = 0, rc_metering = None, rc_processing_list = Some ''pl'',
     rc_input_hash = rq_input_hash r, rc_profile = rq_profile r, rc_space_id = rq_space_id r,
     rc_operation = rq_operation r, rc_base_active_version = rq_base_active_version r,
     rc_index_revision = rq_index_revision r, rc_object_ref = rq_object_ref r, rc_config = rq_config r,
     rc_degradations = [], rc_ocr_low = False, rc_details = []\<rparr>"

definition last_receipt :: "docs_db \<Rightarrow> receipt" where
  "last_receipt db = receipt_for (the (ia_request (last (attempts db))))"

definition published_docs :: docs_db where
  "published_docs = snd (accept_processing_receipt (env_at 20 ''3'') None True ''job_1''
     (last_receipt claimed_docs) claimed_docs)"

definition failed_docs :: docs_db where
  "failed_docs = db_of (fail_job (env_at 20 ''3'') ''job_1'' ''boom'' True (Some ''attempt_2'') (Some 1) claimed_docs)"

text \<open>A document with one active version and publication, and no operation in progress.\<close>

definition live_version :: version_row where
  "live_version = \<lparr>vr_id = ''version_1'', vr_document_id = ''doc_1'', vr_number = 1, vr_status = VActive,
     vr_content_hash = Some ''abc'', vr_manifest_key = Some ''k'', vr_object_key = Some ''k'',
     vr_file_name = Some ''a'', vr_media_kind = Some ''md'', vr_size = 3, vr_created_by = Some ''u'',
     vr_activated_at = Some 20, vr_terminal_at = None, vr_superseded_at = None, vr_purge_after_at = None,
     vr_purged_at = None, vr_restored_from = None, vr_created_at = 0, vr_updated_at = 20\<rparr>"

definition live_publication :: publication_row where
  "live_publication = \<lparr>pb_id = ''publication_1'', pb_document_id = ''doc_1'', pb_version_id = Some ''version_1'',
     pb_job_id = ''job_1'', pb_attempt_id = ''attempt_2'', pb_generation = ''g1'', pb_status = PubActive,
     pb_manifest = None, pb_charge_status = ''not_applicable'', pb_charge_reason = None, pb_created_at = 0,
     pb_activated_at = Some 20, pb_superseded_at = None, pb_discarded_at = None\<rparr>"

definition the_document :: doc_row where
  "the_document = \<lparr>dc_id = ''doc_1'', dc_space_id = ''s'', dc_lifecycle = DocActive,
     dc_active_version = Some ''version_1'', dc_pending_version = None, dc_active_job = None,
     dc_deletion_id = None, dc_version = 2, dc_name = Some ''a'', dc_normalized_name = Some ''a'',
     dc_media_kind = Some ''md'', dc_uploaded_at = 0, dc_created_by = Some ''u'', dc_created_at = 0,
     dc_updated_at = 20\<rparr>"

definition live_docs :: docs_db where
  "live_docs = no_docs\<lparr>documents := [the_document], versions := [live_version],
     publications := [live_publication]\<rparr>"

text \<open>The same document while a job of it runs, at its first attempt.\<close>

definition the_job :: "operation \<Rightarrow> string \<Rightarrow> job_row" where
  "the_job op version = (new_job (env_at 30 ''4'') uploader ''job_4'' ''doc_1'' (Some version) op
     (Some ''version_1'') None ''publication_4'' 3 [])\<lparr>jb_state := JobRunning, jb_stage := Some ''parsing'',
       jb_active_attempt := Some ''attempt_5''\<rparr>"

definition the_request :: "operation \<Rightarrow> string \<Rightarrow> string \<Rightarrow> staging_request" where
  "the_request op version hash = \<lparr>rq_job_id = ''job_4'', rq_attempt_id = ''attempt_5'', rq_fence = 1,
     rq_publication_id = ''publication_4'', rq_document_id = ''doc_1'', rq_version_id = version,
     rq_space_id = ''s'', rq_operation = operation_name op, rq_base_active_version = Some ''version_1'',
     rq_generation = ''g1'', rq_index_revision = 1, rq_object_ref = ''k'', rq_config = [],
     rq_auth = DirectIngest ''u'', rq_input_hash = hash, rq_profile = ''default'',
     rq_ownership = \<lparr>uo_actor = ''u'', uo_role = ''user'', uo_department = None, uo_cost_center = ''user:u'',
       uo_space_kind = None, uo_space_owner = None\<rparr>, rq_deadline = 100, rq_replay_generation = 0\<rparr>"

definition the_attempt :: "staging_request \<Rightarrow> job_attempt_row" where
  "the_attempt r = \<lparr>ia_id = ''attempt_5'', ia_job_id = ''job_4'', ia_number = 1, ia_cycle_number = 1,
     ia_replay_generation = 0, ia_state = AttRunning, ia_owner = Some ''w'', ia_lease_expires_at = Some 100,
     ia_fence = 1, ia_publication_id = Some ''publication_4'', ia_request = Some r, ia_receipt = None,
     ia_failure_class = None, ia_failure_reason = None, ia_created_at = 40, ia_updated_at = 40\<rparr>"

definition in_progress :: "operation \<Rightarrow> string \<Rightarrow> string \<Rightarrow> docs_db" where
  "in_progress op version hash = live_docs\<lparr>jobs := [the_job op version],
     attempts := [the_attempt (the_request op version hash)],
     publications := [live_publication, (staged_publication (env_at 30 ''4'') ''publication_4''
       (the_job op version))\<lparr>pb_attempt_id := ''attempt_5''\<rparr>]\<rparr>"

definition reindex_claimed :: docs_db where
  "reindex_claimed = (in_progress OpReindex ''version_1'' ''abc'')
     \<lparr>documents := [the_document\<lparr>dc_active_job := Some ''job_4'', dc_version := 3\<rparr>]\<rparr>"

definition replace_claimed :: docs_db where
  "replace_claimed = (in_progress OpReplace ''version_4'' ''de'')
     \<lparr>documents := [the_document\<lparr>dc_active_job := Some ''job_4'', dc_pending_version := Some ''version_4'',
        dc_version := 3\<rparr>],
      versions := [live_version, live_version\<lparr>vr_id := ''version_4'', vr_number := 2, vr_status := VPending,
        vr_content_hash := Some ''de'', vr_file_name := Some ''b'', vr_activated_at := None\<rparr>]\<rparr>"

end
