(* ===== verification/Ingestion_Properties.thy ===== *)
theory Ingestion_Properties
  imports Ingestion_Examples
begin

text \<open>
  What ingestion guarantees in every reachable state: it refines its protocol, a document has
  one operation, an operation one running attempt, four attempts per replay generation, and an
  attempt that has ended never publishes.
\<close>

section \<open>Reachability of the examples\<close>

lemma claimed_run: "\<exists>r. claim_next (env_at 10 ''2'') ''w'' None (seconds 300) uploaded = Inr (r, claimed_docs)"
proof -
  have "is_ok (claim_next (env_at 10 ''2'') ''w'' None (seconds 300) uploaded)" by code_simp
  then show ?thesis by (auto simp: claimed_docs_def db_of_def is_ok_def split: sum.splits)
qed

lemma claimed_reach: "docs_reach claimed_docs"
proof -
  have "initial_docs no_docs" by (simp add: initial_docs_def no_docs_def)
  moreover have "\<exists>r. create_initial_upload (env_at 0 ''1'') uploader ''s'' [Offered a_file] (Some ''k1'') no_docs = Inr (r, uploaded)"
  proof -
    have "is_ok (create_initial_upload (env_at 0 ''1'') uploader ''s'' [Offered a_file] (Some ''k1'') no_docs)"
      by code_simp
    then show ?thesis by (auto simp: uploaded_def db_of_def is_ok_def split: sum.splits)
  qed
  ultimately show ?thesis
    using claimed_run by (blast intro: docs_reach.intros docs_step.upload docs_step.lease)
qed

lemma claimed_job:
  obtains j where "find_job ''job_1'' claimed_docs = Some j" "jb_document_id j = ''doc_1''"
    "jb_state j = JobRunning" "cycle_attempts j claimed_docs < MAX_ATTEMPTS"
proof -
  have "let db = claimed_docs in map_option (\<lambda>j. (jb_document_id j, jb_state j, cycle_attempts j db < MAX_ATTEMPTS))
      (find_job ''job_1'' db) = Some (''doc_1'', JobRunning, True)" by code_simp
  then show ?thesis using that by (auto simp: Let_def)
qed

lemma failing_run: "\<exists>st. fail_job (env_at 20 ''3'') ''job_1'' ''boom'' True (Some ''attempt_2'') (Some 1) claimed_docs
    = Inr (st, failed_docs)"
proof -
  have "is_ok (fail_job (env_at 20 ''3'') ''job_1'' ''boom'' True (Some ''attempt_2'') (Some 1) claimed_docs)"
    by code_simp
  then show ?thesis by (auto simp: failed_docs_def db_of_def is_ok_def split: sum.splits)
qed

lemma published_step: "docs_step claimed_docs published_docs"
  unfolding published_docs_def by (rule docs_step.accepting) (rule prod.collapse [symmetric])

section \<open>Refinement\<close>

text \<open>C26: every operation of ingestion that commits, run in any environment from a reachable
  state, is a sequence of steps of the abstract protocol on the state the tables represent, and
  the protocol's invariant holds there before and after it.\<close>

theorem ingestion_refines:
  assumes "docs_reach db" and "docs_step db db'"
  shows "op_inv (view db) \<and> op_step\<^sup>*\<^sup>* (view db) (view db') \<and> op_inv (view db')"
  using docs_reach_inv [OF assms(1)] ingestion.simulated_steps [of db db'] assms(2) by blast

theorem ingestion_refines_witness:
  "op_inv (view claimed_docs) \<and> op_step\<^sup>*\<^sup>* (view claimed_docs) (view published_docs) \<and>
    op_inv (view published_docs)"
  by (rule ingestion_refines [OF claimed_reach published_step])

section \<open>Operations and attempts\<close>

text \<open>C27: in every reachable state a document has at most one job that is pending, running or
  waiting for a retry, and that job is the one the document names as its operation.\<close>

theorem one_operation_per_document:
  assumes "docs_reach db" and "find_job i db = Some j" and "job_live (jb_state j)"
    and "find_job k db = Some l" and "job_live (jb_state l)" and "jb_document_id j = jb_document_id l"
  shows "i = k \<and> (\<exists>d. find_document (jb_document_id j) db = Some d \<and> dc_active_job d = Some i)"
proof -
  note inv = docs_reach_inv [OF assms(1)]
  show ?thesis
    using live_document [OF inv assms(2,3)] live_document [OF inv assms(4,5)] assms(6)
    by (auto simp: Option.bind_eq_Some_conv)
qed

theorem one_operation_per_document_witness:
  "\<exists>d. find_document ''doc_1'' claimed_docs = Some d \<and> dc_active_job d = Some ''job_1''"
proof -
  obtain j where j: "find_job ''job_1'' claimed_docs = Some j" "jb_document_id j = ''doc_1''" "jb_state j = JobRunning"
    by (rule claimed_job)
  then have live: "job_live (jb_state j)" by (simp add: job_live_def)
  show ?thesis using one_operation_per_document [OF claimed_reach j(1) live j(1) live] j(2) by simp
qed

text \<open>C28: in every reachable state a job has at most one running attempt, it is running exactly
  while that attempt is, and the attempt is the one the job names.\<close>

theorem one_running_attempt:
  assumes "docs_reach db" and "find_job i db = Some j"
  shows "(jb_state j = JobRunning \<longleftrightarrow>
      (\<exists>k a. find_attempt k db = Some a \<and> ia_job_id a = i \<and> ia_state a = AttRunning)) \<and>
    (\<forall>k a. find_attempt k db = Some a \<and> ia_job_id a = i \<and> ia_state a = AttRunning \<longrightarrow>
      jb_active_attempt j = Some k)"
proof -
  note inv = docs_reach_inv [OF assms(1)]
  have "jb_state j = JobRunning \<and> jb_active_attempt j = Some k"
    if "find_attempt k db = Some a" "ia_job_id a = i" "ia_state a = AttRunning" for k a
    using attempts_ownedD [OF op_inv_parts(4) [OF inv], of k "attempt_view_of a"] that assms(2) by auto
  then show ?thesis using running_attempt [OF inv assms(2)] by blast
qed

theorem one_running_attempt_witness:
  "\<exists>k a. find_attempt k claimed_docs = Some a \<and> ia_job_id a = ''job_1'' \<and> ia_state a = AttRunning"
proof -
  obtain j where j: "find_job ''job_1'' claimed_docs = Some j" "jb_state j = JobRunning" by (rule claimed_job)
  show ?thesis using one_running_attempt [OF claimed_reach j(1)] j(2) by blast
qed

section \<open>Fencing\<close>

lemma reject_receipt_Inr [simp]: "reject_receipt env k db e \<noteq> Inr x"
  by (simp add: reject_receipt_def)

lemma check_receipt_Inr: "check_receipt env k db checks = Inr u \<Longrightarrow> \<forall>(ok, e) \<in> set checks. ok"
  by (auto simp: check_receipt_def filter_empty_conv split: list.splits)

lemma rejecting_Inr [simp]: "rejecting env k db m = Inr x \<longleftrightarrow> m = Inr x"
  by (auto simp: rejecting_def split: sum.splits exn.splits)

lemma receipt_guard_running: "receipt_guard env who internal c job d a db = Inr r \<Longrightarrow> ia_state a = AttRunning"
  by (auto simp: receipt_guard_def Let_def identity_checks_def dest!: check_receipt_Inr)

lemma refusal_effects_publications [simp]: "publications (refusal_effects env who i r db) = publications db"
proof (cases r)
  case (Raised e)
  then show ?thesis
    by (cases e) (simp_all add: refusal_effects_def Let_def refusal_code_def error_code_def add_audit_def call_port_def)
qed (simp add: refusal_effects_def Let_def refusal_code_def)

lemma ended_not_published:
  assumes "ia_state a \<noteq> AttRunning"
  shows "\<exists>e. publish_and_settle env who internal c job d a db = Inl (Raised e)"
proof -
  obtain e where "receipt_guard env who internal c job d a db = Inl e"
    using receipt_guard_running assms by (cases "receipt_guard env who internal c job d a db") blast+
  then show ?thesis by (simp add: publish_and_settle_def raised_def)
qed

lemma ended_transaction:
  assumes "find_attempt (rc_attempt_id c) db = Some a" and "ia_state a \<noteq> AttRunning"
  shows "accept_transaction env who internal i c db = Inr (JobSucceeded, db) \<or>
    (\<exists>e. accept_transaction env who internal i c db = Inl (Raised e))"
proof -
  have "\<exists>e. bindE (publish_and_settle env who internal c job d a db) g = Inl (Raised e)" for job d
      and g :: "docs_db \<Rightarrow> refusal + (job_state \<times> docs_db)"
    using ended_not_published [OF assms(2)] by (metis bindE_simps(1))
  then show ?thesis using assms(1) by (simp add: accept_transaction_def split: option.split)
qed

lemma ended_attempt_not_failed:
  assumes "op_inv (view db)" and "find_attempt k db = Some a" and "ia_state a \<noteq> AttRunning"
  shows "\<exists>e. fail_job env i reason retryable (Some k) f db = Inl e"
proof (cases "fail_job env i reason retryable (Some k) f db")
  case (Inr p)
  then obtain job active b where "find_job i db = Some job" "jb_active_attempt job = Some active"
    "find_attempt active db = Some b" "ia_state b = AttRunning" "active = k"
    by (auto simp: fail_job_def split: option.splits if_splits)
  then show ?thesis using assms by simp
qed blast

text \<open>C29: an attempt that has ended never publishes: once an attempt of a reachable state is not
  running, a receipt in its name leaves the documents, jobs, attempts and publications of every
  later state as they are, whatever the environment answers and whoever submits it.\<close>

theorem ended_attempt_never_publishes:
  assumes "docs_reach db" and "find_attempt k db = Some a" and "ia_state a \<noteq> AttRunning"
    and later: "docs_step\<^sup>*\<^sup>* db db'" and c: "rc_attempt_id c = k"
    and run: "accept_processing_receipt env who internal i c db' = (r, db'')"
  shows "documents db'' = documents db' \<and> jobs db'' = jobs db' \<and> attempts db'' = attempts db' \<and>
    publications db'' = publications db'"
proof -
  note inv = docs_reach_inv [OF assms(1)]
  have inv': "op_inv (view db')" using ingestion.simulated_steps [OF later inv] by blast
  obtain b where b: "find_attempt k db' = Some b" "ia_state b \<noteq> AttRunning"
    using ingestion.kept_steps [OF later inv] assms(2,3) by (fastforce simp: attempts_kept_def)
  have "db'' = db' \<or> (\<exists>e. db'' = refusal_effects env who i (Raised e) db')"
  proof -
    have "accept_transaction env who internal i c db' = Inr (JobSucceeded, db') \<or>
        (\<exists>e. accept_transaction env who internal i c db' = Inl (Raised e))"
      by (rule ended_transaction) (use b c in simp_all)
    then show ?thesis
  proof (elim disjE exE)
    fix e
    assume e: "accept_transaction env who internal i c db' = Inl (Raised e)"
    let ?w = "refusal_effects env who i (Raised e) db'"
    note f = find_tables [OF refusal_effects_tables [of env who i "Raised e" db']]
    have "\<exists>x. retry_in_generation env i c e ?w = (Inl x, ?w)"
      using ended_attempt_not_failed [of ?w k b env i] inv' b c
      by (auto simp: retry_in_generation_def f) (metis sum.simps(5))
    then show ?thesis using run e by (auto simp: accept_processing_receipt_def Let_def split: if_splits)
  qed (use run in \<open>auto simp: accept_processing_receipt_def\<close>)
  qed
  then show ?thesis using refusal_effects_tables by (auto simp: tables_def)
qed

lemma failed_reach: "docs_reach failed_docs"
  using failing_run claimed_reach by (blast intro: docs_reach.extend docs_step.failing)

definition late_receipt :: receipt where
  "late_receipt = (receipt_for (the_request OpInitial ''version_1'' ''abc''))\<lparr>rc_attempt_id := ''attempt_2''\<rparr>"

theorem ended_attempt_never_publishes_witness:
  "publications (snd (accept_processing_receipt (env_at 60 ''7'') None True ''job_1'' late_receipt failed_docs))
    = publications failed_docs"
proof -
  have "map_option ia_state (find_attempt ''attempt_2'' failed_docs) = Some AttFailed" by code_simp
  then obtain a where a: "find_attempt ''attempt_2'' failed_docs = Some a" "ia_state a \<noteq> AttRunning" by auto
  have c: "rc_attempt_id late_receipt = ''attempt_2''" by (simp add: late_receipt_def)
  show ?thesis
    using ended_attempt_never_publishes [OF failed_reach a rtranclp.rtrancl_refl c prod.collapse [symmetric]] by blast
qed

section \<open>Bounds\<close>

text \<open>C30: in every reachable state a job has at most four attempts in its current replay
  generation; while one runs there is at least one, so the table of delays is read in range, and
  a job that waits for a retry has one left.\<close>

theorem attempts_per_generation:
  assumes "docs_reach db" and "find_job i db = Some j"
  shows "cycle_attempts j db \<le> MAX_ATTEMPTS \<and>
    (jb_state j = JobRunning \<longrightarrow> 1 \<le> cycle_attempts j db) \<and>
    (jb_state j = JobRetryWait \<longrightarrow> cycle_attempts j db < MAX_ATTEMPTS) \<and>
    (jb_state j = JobPending \<longrightarrow> cycle_attempts j db = 0)"
proof -
  note inv = docs_reach_inv [OF assms(1)]
  have id: "jb_id j = i" by (rule find_ids(2) [OF assms(2)])
  note b = attempts_boundedD [OF op_inv_parts(6) [OF inv]]
  have "cycle_attempts j db = int (ov_count (view db) i (jb_replay_generation j))"
    by (simp add: cycle_attempts_def id)
  then show ?thesis
    using b(1) [of i "jb_replay_generation j"] b(4,5) [of i "job_view_of j"] assms(2)
      running_attempt [OF inv assms(2)]
    by (auto simp: MAX_ATTEMPTS_def simp del: view_simps(4))
qed

theorem attempts_per_generation_witness:
  "\<exists>j. find_job ''job_1'' claimed_docs = Some j \<and> cycle_attempts j claimed_docs \<le> MAX_ATTEMPTS \<and>
     1 \<le> cycle_attempts j claimed_docs"
proof -
  obtain j where j: "find_job ''job_1'' claimed_docs = Some j" "jb_state j = JobRunning" by (rule claimed_job)
  show ?thesis using attempts_per_generation [OF claimed_reach j(1)] j by simp
qed

lemma max_or_zero_ge: "x \<in> set xs \<Longrightarrow> x \<le> max_or_zero xs"
  using foldl_max_ge by (auto simp: max_or_zero_def split: list.splits)

text \<open>C31: a lease that is granted carries a fence and an attempt number above those of every
  earlier attempt of its job, and its attempt is recorded as running until the lease expires.\<close>

theorem claim_fences_earlier:
  assumes "claim_next env worker_id only ttl db = Inr ((l, pending), db')"
  shows "(\<forall>a \<in> set (attempts db). ia_job_id a = jl_job_id l \<longrightarrow> ia_fence a < jl_fence l \<and> ia_number a < jl_attempt_number l) \<and>
    (\<exists>a. attempts db' = attempts db @ [a] \<and> ia_id a = jl_attempt_id l \<and> ia_job_id a = jl_job_id l \<and>
       ia_state a = AttRunning \<and> ia_fence a = jl_fence l \<and> ia_owner a = Some worker_id \<and>
       ia_lease_expires_at a = Some (jl_expires_at l) \<and> jl_expires_at l = ie_now env + ttl)"
proof -
  obtain job document p db1 db2 auth where 1: "ensure_staged env job db = Inr (p, db1)"
    and 2: "align_generation env p db1 = Inr db2"
    and start: "start_claim env job p (claim_attempt env worker_id ttl job document p auth db2) db2 = Inr db'"
    and l: "l = job_lease_of env worker_id ttl p auth (claim_attempt env worker_id ttl job document p auth db2)"
    using assms by (auto simp: claim_next_def claim_job_def Let_def split: option.splits if_splits)
  define a where "a = claim_attempt env worker_id ttl job document p auth db2"
  have t2: "tables db2 = tables db1"
    using 2 by (auto simp: align_generation_def split: option.splits if_splits dest: update_publications_tables)
  have att: "attempts db2 = attempts db" using find_tables(4) [OF t2] ensure_staged_view(3) [OF 1] by simp
  obtain db3 where 3: "insert_attempt a db2 = Inr db3" and 4: "claimed env job (ia_id a) p db3 = Inr db'"
    using start by (auto simp: start_claim_def a_def [symmetric])
  have "attempts db' = attempts db3" using 4 by (auto simp: claimed_def dest!: update_publications_tables find_tables(4))
  then have new: "attempts db' = attempts db @ [a]" using insert_attempt_find [OF 3] att by simp
  have a: "ia_job_id a = jb_id job" "ia_state a = AttRunning" "ia_owner a = Some worker_id"
    "ia_lease_expires_at a = Some (ie_now env + ttl)"
    "ia_fence a = max_or_zero (map ia_fence (job_attempts (jb_id job) db)) + 1"
    "ia_number a = max_or_zero (map ia_number (job_attempts (jb_id job) db)) + 1"
    by (simp_all add: a_def claim_attempt_def new_attempt_def Let_def job_attempts_def att)
  have "ia_fence b < ia_fence a \<and> ia_number b < ia_number a"
    if "b \<in> set (attempts db)" "ia_job_id b = jb_id job" for b
    using that max_or_zero_ge [of "ia_fence b" "map ia_fence (job_attempts (jb_id job) db)"]
      max_or_zero_ge [of "ia_number b" "map ia_number (job_attempts (jb_id job) db)"]
    by (auto simp: a job_attempts_def)
  then show ?thesis using new a l by (auto simp: job_lease_of_def a_def [symmetric])
qed

theorem claim_fences_earlier_witness:
  "attempts claimed_docs \<noteq> [] \<and> ia_state (last (attempts claimed_docs)) = AttRunning"
proof -
  obtain l p where "claim_next (env_at 10 ''2'') ''w'' None (seconds 300) uploaded = Inr ((l, p), claimed_docs)"
    using claimed_run by auto
  from claim_fences_earlier [OF this] show ?thesis by auto
qed

text \<open>A retryable failure of a running job of a reachable state either schedules the next
  attempt between 48 seconds and 36 minutes later, before which no worker can claim the job, or,
  at the fourth attempt of the generation, makes it a dead letter.\<close>

theorem job_retry_schedule:
  assumes "docs_reach db" and "fail_job env i reason True k f db = Inr (st, db')"
    and "0 \<le> ie_jitter env i" and "ie_jitter env i \<le> 40" and job: "find_job i db = Some j"
  shows "if cycle_attempts j db < MAX_ATTEMPTS
    then st = JobRetryWait \<and> (\<exists>j' t. find_job i db' = Some j' \<and> jb_state j' = JobRetryWait \<and>
        jb_next_attempt_at j' = Some t \<and> ie_now env + seconds 48 \<le> t \<and> t \<le> ie_now env + seconds 2160 \<and>
        (\<forall>now only. now < t \<longrightarrow> \<not> job_claimable now only j'))
    else st = JobDeadLetter \<and> (\<exists>j'. find_job i db' = Some j' \<and> jb_state j' = JobDeadLetter)"
proof -
  have id: "jb_id j = i" by (rule find_ids(2) [OF job])
  obtain document active ids db2 where run: "jb_state j = JobRunning" "jb_active_attempt j = Some active"
    and t: "tables db2 = tables db" and db': "db' = failed env reason True document j active ids db2"
    and st: "st = failed_state True (cycle_attempts j db)"
    using assms(2) job by (auto simp: fail_job_def Let_def split: option.splits if_splits
        dest!: discard_tables notify_terminal_tables)
  note g = find_tables [OF t]
  have cyc: "cycle_attempts j db2 = cycle_attempts j db" by (simp add: cycle_attempts_def g)
  have j': "find_job i db' = Some (j\<lparr>jb_state := st, jb_stage := None, jb_active_attempt := None,
       jb_failure_reason := Some reason,
       jb_next_attempt_at := (if st = JobRetryWait
         then Some (ie_now env + retry_delay (ie_jitter env i) (cycle_attempts j db)) else None),
       jb_notification_ids := (if st = JobRetryWait then jb_notification_ids j else ids),
       jb_updated_at := ie_now env\<rparr>)"
    using job run id by (simp add: db' failed_def Let_def found g cyc st)
  show ?thesis
  proof (cases "cycle_attempts j db < MAX_ATTEMPTS")
    case True
    have "seconds 48 \<le> retry_delay (ie_jitter env i) (cycle_attempts j db)"
      "retry_delay (ie_jitter env i) (cycle_attempts j db) \<le> seconds 2160"
      using assms(3,4) by (auto simp: retry_delay_def retry_minutes_def seconds_def)
    then show ?thesis using True j' st by (simp add: failed_state_def job_claimable_def)
  next
    case False
    then show ?thesis using j' st by (simp add: failed_state_def)
  qed
qed

theorem job_retry_schedule_witness:
  "\<exists>j'. find_job ''job_1'' failed_docs = Some j' \<and> jb_state j' = JobRetryWait"
proof -
  obtain j where j: "find_job ''job_1'' claimed_docs = Some j" "cycle_attempts j claimed_docs < MAX_ATTEMPTS"
    by (rule claimed_job)
  obtain st where
    f: "fail_job (env_at 20 ''3'') ''job_1'' ''boom'' True (Some ''attempt_2'') (Some 1) claimed_docs = Inr (st, failed_docs)"
    using failing_run by blast
  show ?thesis using job_retry_schedule [OF claimed_reach f _ _ j(1)] j(2) by (auto simp: env_at_def)
qed

end
