(* ===== verification/Ingestion_Effects.thy ===== *)
theory Ingestion_Effects
  imports Ingestion_Properties
begin

text \<open>
  What one operation of ingestion does: the swap of version and publication an accepted receipt
  makes, the refusal of a reindex in an unchanged index generation, the dead letter of an expired
  lease, the repetition of a command with its key, and the pages a receipt is charged.
\<close>

section \<open>Tables an operation leaves alone\<close>

definition content :: "docs_db \<Rightarrow> version_row list \<times> publication_row list \<times> dedup_row list" where
  "content db = (versions db, publications db, dedup_claims db)"

lemma content_simps:
  assumes "content db' = content db"
  shows "versions db' = versions db" "publications db' = publications db" "dedup_claims db' = dedup_claims db"
  using assms by (simp_all add: content_def)

lemma content_other [simp]:
  "content (upd_documents pd fd db) = content db"
  "content (upd_jobs pj fj db) = content db"
  "content (upd_attempts pa fa db) = content db"
  "content (call_port c db) = content db"
  "content (refresh_upload_batch now b db) = content db"
  "content (set_batch_item now job st db) = content db"
  "content (accept_attempt now r k db) = content db"
  "content (accept_job now r job k usage ids db) = content db"
  by (simp_all add: content_def upd_documents_def upd_jobs_def upd_attempts_def call_port_def
      refresh_upload_batch_def set_batch_item_def accept_attempt_def accept_job_def split: option.split)

lemma update_publications_content:
  "update_publications q f db = Inr db' \<Longrightarrow>
    versions db' = versions db \<and> publications db' = sql_update q f (publications db) \<and> dedup_claims db' = dedup_claims db"
  by (auto simp: update_publications_def set_publications_def split: if_splits)

lemma find_version_upd [found]:
  "(\<And>r. vr_id (f r) = vr_id r) \<Longrightarrow>
    find_version v (upd_versions q f db) = map_option (\<lambda>r. if q r then f r else r) (find_version v db)"
  by (simp add: find_version_def upd_versions_def sql_first_updated split: option.split)

lemma find_version_documents [found]: "find_version v (upd_documents q f db) = find_version v db"
  by (simp add: find_version_def upd_documents_def split: option.split)

lemma find_version_content: "versions db' = versions db \<Longrightarrow> find_version v db' = find_version v db"
  by (simp add: find_version_def split: option.split)

lemma find_version_id: "find_version (Some v) db = Some r \<Longrightarrow> vr_id r = v"
  by (auto simp: find_version_def dest!: sql_first_Some)

section \<open>What the guard of a receipt checks\<close>

lemma receipt_guard_facts:
  assumes "receipt_guard env who internal c job d a db = Inr r"
  shows "ia_state a = AttRunning \<and> rc_fence c = ia_fence a \<and>
    (\<exists>t. ia_lease_expires_at a = Some t \<and> ie_now env < t) \<and> dc_active_job d = Some (jb_id job) \<and>
    dc_lifecycle d = DocActive \<and> ia_request a = Some r \<and> rc_generation c = rq_generation r \<and>
    is_staged (find_publication (Some (rc_publication_id c)) db) \<and> ie_has_handoff env \<and>
    rc_publication_id c = py_str_opt (jb_active_publication job)"
  using assms
  by (cases "dc_lifecycle d")
    (auto simp: receipt_guard_def Let_def identity_checks_def request_checks_def document_checks_def
      index_request_from_attempt_def
      split: option.splits if_splits dest!: check_receipt_Inr)

section \<open>An accepted receipt\<close>

lemma publish_and_settle_trace:
  assumes "publish_and_settle env who internal c job d a db = Inr db'"
  obtains r p db1 db2 db3 where
    "receipt_guard env who internal c job d a db = Inr r"
    "find_publication (Some (rc_publication_id c)) db = Some p"
    "publish_accepted env who internal c r job d (ia_id a) db = Inr db1"
    "activate_publication (ie_now env) c job (ia_id a) (accept_attempt (ie_now env) c (ia_id a) db1) = Inr db2"
    "publish_document env d job a db2 = Inr db3"
    "settle_publication env c job d p (ia_id a) db3 = Inr db'"
proof -
  obtain r where r: "receipt_guard env who internal c job d a db = Inr r"
    using assms by (auto simp: publish_and_settle_def)
  then obtain p where p: "find_publication (Some (rc_publication_id c)) db = Some p"
    using assms by (cases "find_publication (Some (rc_publication_id c)) db") (auto simp: publish_and_settle_def)
  from assms r p show ?thesis by (auto simp: publish_and_settle_def intro: that)
qed

lemma publish_accepted_content:
  assumes "publish_accepted env who internal c request job d k db = Inr db'"
  shows "content db' = content db" "dc_active_version d = jb_base_active_version job"
  using assms by (auto simp: publish_accepted_def Let_def dest!: check_receipt_Inr)

lemma append_index_change_content: "append_index_change env job p g space db = Inr db' \<Longrightarrow> content db' = content db"
  by (auto simp: append_index_change_def Let_def content_def call_port_def split: if_splits)

lemma record_publication_quota_content:
  "record_publication_quota env job c db = Inr (usage, db') \<Longrightarrow> content db' = content db"
  by (auto simp: record_publication_quota_def Let_def split: if_splits)

lemma settle_publication_content:
  assumes "settle_publication env c job d p k db = Inr db'"
  shows "versions db' = versions db"
    "\<exists>f. (\<forall>q. pb_id (f q) = pb_id q \<and> pb_status (f q) = pb_status q \<and> pb_document_id (f q) = pb_document_id q \<and>
        pb_manifest (f q) = pb_manifest q \<and> pb_version_id (f q) = pb_version_id q) \<and>
      publications db' = map f (publications db)"
proof -
  obtain usage db1 db2 ids where 1: "record_publication_quota env job c db = Inr (usage, db1)"
    and 2: "update_publications (\<lambda>q. pb_id q = pb_id p)
        (\<lambda>q. q\<lparr>pb_charge_status := fst (usage_charge usage), pb_charge_reason := snd (usage_charge usage)\<rparr>)
        db1 = Inr db2"
    and 3: "content db' = content db2"
    using assms by (auto simp: settle_publication_def dest!: append_index_change_content)
  note c1 = content_simps [OF record_publication_quota_content [OF 1]]
    and c2 = update_publications_content [OF 2] and c3 = content_simps [OF 3]
  show "versions db' = versions db" using c1 c2 c3 by simp
  show "\<exists>f. (\<forall>q. pb_id (f q) = pb_id q \<and> pb_status (f q) = pb_status q \<and> pb_document_id (f q) = pb_document_id q \<and>
        pb_manifest (f q) = pb_manifest q \<and> pb_version_id (f q) = pb_version_id q) \<and>
      publications db' = map f (publications db)"
    using c1 c2 c3
    by (intro exI [of _ "\<lambda>q. if pb_id q = pb_id p then q\<lparr>pb_charge_status := fst (usage_charge usage),
      pb_charge_reason := snd (usage_charge usage)\<rparr> else q"]) (simp add: sql_update_def)
qed

lemma replace_dedup_claim_content:
  assumes "replace_dedup_claim now d v db = Inr (Some db')"
  shows "versions db' = versions db \<and> publications db' = publications db"
proof -
  have take: "versions x = versions y \<and> publications x = publications y" if "take_claim now d v key y = Some x" for key x y
    using that by (auto simp: take_claim_def drop_old_claims_def insert_claim_def del_claims_def split: if_splits)
  obtain key where key: "version_claim_key d v = Inr key"
    using assms by (cases "version_claim_key d v") (auto simp: replace_dedup_claim_def)
  then show ?thesis
    using assms by (cases "find_claim key db")
      (auto simp: replace_dedup_claim_def key drop_old_claims_def del_claims_def split: if_splits dest!: take)
qed

lemma replace_dedup_claim_rest:
  "replace_dedup_claim now d v db = Inr (Some db') \<Longrightarrow>
    tables db' = tables db \<and> versions db' = versions db \<and> publications db' = publications db"
  using replace_dedup_claim_tables replace_dedup_claim_content by blast

lemma swap_version_publications [simp]: "publications (swap_version env d v name db) = publications db"
  by (simp add: swap_version_def Let_def upd_documents_def upd_versions_def)

lemma publish_document_publications:
  "publish_document env d job a db = Inr db' \<Longrightarrow> publications db' = publications db"
  by (auto simp: publish_document_def upd_documents_def split: if_splits option.splits
      dest!: replace_dedup_claim_content)

text \<open>The document and version rows after the swap.\<close>

lemma publish_document_swap:
  assumes "publish_document env d job a db = Inr db'" and "new_content job"
    and doc: "find_document (dc_id d) db = Some d0" and v: "find_version (jb_version_id job) db = Some v"
  shows "\<exists>d' v'. find_document (dc_id d) db' = Some d' \<and> dc_active_version d' = jb_version_id job \<and>
      dc_pending_version d' = None \<and> dc_active_job d' = None \<and> dc_version d' = dc_version d + 1 \<and>
      find_version (jb_version_id job) db' = Some v' \<and> vr_status v' = VActive"
    and "dc_active_version d = Some u \<Longrightarrow> u \<noteq> [] \<Longrightarrow> Some u \<noteq> jb_version_id job \<Longrightarrow>
      find_version (Some u) db = Some w \<Longrightarrow>
      \<exists>w'. find_version (Some u) db' = Some w' \<and> vr_status w' = VSuperseded \<and>
        vr_purge_after_at w' = Some (ie_now env + days (ie_retention_days env))"
proof -
  obtain name db1 where t: "tables db1 = tables db" and c: "versions db1 = versions db"
    and db': "db' = swap_version env d v name db1"
    using assms(1,2) v by (auto simp: publish_document_def split: if_splits option.splits
        dest!: replace_dedup_claim_rest)
  obtain i where i: "jb_version_id job = Some i" using v by (auto simp: find_version_def split: option.splits)
  have id: "vr_id v = i" using find_version_id v i by simp
  note f = find_tables [OF t] find_version_content [OF c]
  show "\<exists>d' v'. find_document (dc_id d) db' = Some d' \<and> dc_active_version d' = jb_version_id job \<and>
      dc_pending_version d' = None \<and> dc_active_job d' = None \<and> dc_version d' = dc_version d + 1 \<and>
      find_version (jb_version_id job) db' = Some v' \<and> vr_status v' = VActive"
    using doc v i id find_ids(1) [OF doc]
    by (cases "nonempty (dc_active_version d) \<and> dc_active_version d \<noteq> Some (vr_id v)")
      (auto simp: db' swap_version_def Let_def found f)
  show "\<exists>w'. find_version (Some u) db' = Some w' \<and> vr_status w' = VSuperseded \<and>
        vr_purge_after_at w' = Some (ie_now env + days (ie_retention_days env))"
    if "dc_active_version d = Some u" "u \<noteq> []" "Some u \<noteq> jb_version_id job" "find_version (Some u) db = Some w"
  proof -
    have w: "vr_id w = u" using find_version_id that(4) by simp
    have "find_version (Some u) db' = find_version (Some u) (upd_versions (\<lambda>x. Some (vr_id x) = dc_active_version d)
              (\<lambda>x. x\<lparr>vr_status := VSuperseded, vr_superseded_at := Some (ie_now env), vr_terminal_at := Some (ie_now env),
                    vr_purge_after_at := Some (ie_now env + days (ie_retention_days env)), vr_updated_at := ie_now env\<rparr>)
              (upd_versions (\<lambda>x. vr_id x = vr_id v)
            (\<lambda>x. x\<lparr>vr_status := VActive, vr_activated_at := Some (ie_now env), vr_updated_at := ie_now env\<rparr>) db1))"
      using that i id
      by (simp add: db' swap_version_def Let_def nonempty_def find_version_documents)
    then show ?thesis using that i id w by (simp add: found f)
  qed
qed

lemma activate_publication_rows:
  assumes "activate_publication now c job k db = Inr db'"
  shows "versions db' = versions db"
    "publications db' = sql_update (\<lambda>p. pb_document_id p = jb_document_id job \<and> pb_status p = PubActive \<and>
          pb_id p \<noteq> rc_publication_id c) (\<lambda>p. p\<lparr>pb_status := PubSuperseded, pb_superseded_at := Some now\<rparr>)
      (sql_update (\<lambda>p. pb_id p = rc_publication_id c)
        (\<lambda>p. p\<lparr>pb_status := PubActive, pb_attempt_id := k, pb_generation := rc_generation c,
              pb_manifest := Some c, pb_activated_at := Some now\<rparr>) (publications db))"
  using assms by (auto simp: activate_publication_def dest!: update_publications_content)

text \<open>The only active publication of the document is the receipt's.\<close>

lemma accepted_publications:
  assumes run: "publish_and_settle env who internal c job d a db = Inr db'"
  shows "(\<exists>p \<in> set (publications db'). pb_id p = rc_publication_id c \<and> pb_status p = PubActive \<and> pb_manifest p = Some c) \<and>
    (\<forall>p \<in> set (publications db'). pb_document_id p = jb_document_id job \<and> pb_status p = PubActive \<longrightarrow>
       pb_id p = rc_publication_id c)"
  using run
proof (rule publish_and_settle_trace)
  fix r p db1 db2 db3
  assume p: "find_publication (Some (rc_publication_id c)) db = Some p"
    and 1: "publish_accepted env who internal c r job d (ia_id a) db = Inr db1"
    and 2: "activate_publication (ie_now env) c job (ia_id a) (accept_attempt (ie_now env) c (ia_id a) db1) = Inr db2"
    and 3: "publish_document env d job a db2 = Inr db3"
    and 4: "settle_publication env c job d p (ia_id a) db3 = Inr db'"
  have same: "publications (accept_attempt (ie_now env) c (ia_id a) db1) = publications db"
    using content_simps(2) [OF publish_accepted_content(1) [OF 1]] content_simps(2) [OF content_other(7)] by simp
  have in_db: "p \<in> set (publications db)" "pb_id p = rc_publication_id c"
    using p by (auto simp: find_publication_def dest!: sql_first_Some)
  obtain f where f: "\<forall>q. pb_id (f q) = pb_id q \<and> pb_status (f q) = pb_status q \<and>
      pb_document_id (f q) = pb_document_id q \<and> pb_manifest (f q) = pb_manifest q \<and> pb_version_id (f q) = pb_version_id q"
    and pubs: "publications db' = map f (publications db2)"
    using settle_publication_content(2) [OF 4] publish_document_publications [OF 3] by auto
  let ?p = "p\<lparr>pb_status := PubActive, pb_attempt_id := ia_id a, pb_generation := rc_generation c,
              pb_manifest := Some c, pb_activated_at := Some (ie_now env)\<rparr>"
  have "?p \<in> set (sql_update (\<lambda>p. pb_id p = rc_publication_id c)
        (\<lambda>p. p\<lparr>pb_status := PubActive, pb_attempt_id := ia_id a, pb_generation := rc_generation c,
              pb_manifest := Some c, pb_activated_at := Some (ie_now env)\<rparr>) (publications db))"
    unfolding set_sql_update using in_db by (intro bexI [of _ p]) simp_all
  then have "?p \<in> set (publications db2)"
    unfolding activate_publication_rows(2) [OF 2] same set_sql_update [of ?p "\<lambda>p. pb_document_id p = jb_document_id job \<and> pb_status p = PubActive \<and> pb_id p \<noteq> rc_publication_id c"]
    using in_db by (intro bexI [of _ ?p]) simp_all
  then have "\<exists>q \<in> set (publications db2). pb_id q = rc_publication_id c \<and> pb_status q = PubActive \<and> pb_manifest q = Some c"
    using in_db by (intro bexI [of _ ?p]) simp_all
  moreover have "pb_id q = rc_publication_id c"
    if "q \<in> set (publications db2)" "pb_document_id q = jb_document_id job" "pb_status q = PubActive" for q
    using that unfolding activate_publication_rows(2) [OF 2] same by (auto simp: sql_update_def split: if_splits)
  ultimately show ?thesis using f by (auto simp: pubs)
qed

text \<open>C32: a receipt that a running job's transaction accepts is the one of its current attempt, in
  its lease and under its fence. The job succeeds; the document's active version becomes the job's
  version, its pending version and its operation are cleared and its version number grows by one;
  the version becomes active and the one it replaces superseded, with its retention deadline; and
  the only active publication of the document is the receipt's.\<close>

theorem receipt_swaps_version:
  assumes run: "accept_transaction env who internal i c db = Inr (st, db')"
    and job: "find_job i db = Some j" "jb_state j = JobRunning" "new_content j"
    and doc: "find_document (jb_document_id j) db = Some d" and v: "find_version (jb_version_id j) db = Some v"
    and old: "dc_active_version d = Some u" "u \<noteq> []" "Some u \<noteq> jb_version_id j" "find_version (Some u) db = Some w"
  shows "st = JobSucceeded \<and> jb_active_attempt j = Some (rc_attempt_id c) \<and>
    (\<exists>a t. find_attempt (rc_attempt_id c) db = Some a \<and> ia_state a = AttRunning \<and> ia_fence a = rc_fence c \<and>
       ia_lease_expires_at a = Some t \<and> ie_now env < t) \<and>
    (\<exists>d' v' w'. find_document (jb_document_id j) db' = Some d' \<and> dc_active_version d' = jb_version_id j \<and>
       dc_pending_version d' = None \<and> dc_active_job d' = None \<and> dc_version d' = dc_version d + 1 \<and>
       find_version (jb_version_id j) db' = Some v' \<and> vr_status v' = VActive \<and>
       find_version (Some u) db' = Some w' \<and> vr_status w' = VSuperseded \<and>
       vr_purge_after_at w' = Some (ie_now env + days (ie_retention_days env))) \<and>
    (\<exists>p \<in> set (publications db'). pb_id p = rc_publication_id c \<and> pb_status p = PubActive \<and> pb_manifest p = Some c) \<and>
    (\<forall>p \<in> set (publications db'). pb_document_id p = jb_document_id j \<and> pb_status p = PubActive \<longrightarrow>
       pb_id p = rc_publication_id c)"
proof -
  obtain a where a: "find_attempt (rc_attempt_id c) db = Some a" and cur: "jb_active_attempt j = Some (rc_attempt_id c)"
    and ps: "publish_and_settle env who internal c j d a db = Inr db'" and st: "st = JobSucceeded"
    using run job doc by (auto simp: accept_transaction_def split: option.splits if_splits)
  have id: "dc_id d = jb_document_id j" by (rule find_ids(1) [OF doc])
  from ps obtain r p db1 db2 db3 where g: "receipt_guard env who internal c j d a db = Inr r"
    and 1: "publish_accepted env who internal c r j d (ia_id a) db = Inr db1"
    and 2: "activate_publication (ie_now env) c j (ia_id a) (accept_attempt (ie_now env) c (ia_id a) db1) = Inr db2"
    and 3: "publish_document env d j a db2 = Inr db3"
    and 4: "settle_publication env c j d p (ia_id a) db3 = Inr db'"
    by (rule publish_and_settle_trace)
  have vs: "versions db2 = versions db"
    using activate_publication_rows(1) [OF 2] content_simps(1) [OF publish_accepted_content(1) [OF 1]]
      content_simps(1) [OF content_other(7)] by simp
  have t2: "tables db2 = tables (accept_attempt (ie_now env) c (ia_id a) db)"
    using activate_publication_tables [OF 2] accept_attempt_tables [OF publish_accepted_tables [OF 1]] by simp
  have doc2: "find_document (dc_id d) db2 = Some d" using doc id by (simp add: find_tables(1) [OF t2] found)
  obtain usage ids where t4: "tables db' = tables (accept_job (ie_now env) c j (ia_id a) usage ids db3)"
    using settle_publication_tables [OF 4] by blast
  have docs4: "find_document x db' = find_document x db3" for x
    by (simp add: find_tables(1) [OF t4] accept_job_def found)
  note vs4 = find_version_content [OF settle_publication_content(1) [OF 4]]
  note fv = find_version_content [OF vs]
  obtain d' v' where s1: "find_document (dc_id d) db3 = Some d'" "dc_active_version d' = jb_version_id j"
      "dc_pending_version d' = None" "dc_active_job d' = None" "dc_version d' = dc_version d + 1"
      "find_version (jb_version_id j) db3 = Some v'" "vr_status v' = VActive"
    using publish_document_swap(1) [OF 3 job(3) doc2] v by (auto simp: fv)
  obtain w' where s2: "find_version (Some u) db3 = Some w'" "vr_status w' = VSuperseded"
      "vr_purge_after_at w' = Some (ie_now env + days (ie_retention_days env))"
    using publish_document_swap(2) [OF 3 job(3) doc2 _ old(1,2,3), of v w] v old(4) by (auto simp: fv)
  have "\<exists>d' v' w'. find_document (jb_document_id j) db' = Some d' \<and> dc_active_version d' = jb_version_id j \<and>
       dc_pending_version d' = None \<and> dc_active_job d' = None \<and> dc_version d' = dc_version d + 1 \<and>
       find_version (jb_version_id j) db' = Some v' \<and> vr_status v' = VActive \<and>
       find_version (Some u) db' = Some w' \<and> vr_status w' = VSuperseded \<and>
       vr_purge_after_at w' = Some (ie_now env + days (ie_retention_days env))"
    using s1 s2 id by (auto simp: docs4 vs4)
  then show ?thesis
    using st cur a receipt_guard_facts [OF g] accepted_publications [OF ps] by auto
qed

theorem receipt_swaps_version_witness:
  "\<exists>db' d'. accept_transaction (env_at 50 ''6'') None True ''job_4'' (last_receipt replace_claimed) replace_claimed
      = Inr (JobSucceeded, db') \<and> find_document ''doc_1'' db' = Some d' \<and> dc_active_version d' = Some ''version_4''"
proof -
  have "map_option (\<lambda>j. (jb_state j, new_content j, jb_document_id j, jb_version_id j)) (find_job ''job_4'' replace_claimed)
      = Some (JobRunning, True, ''doc_1'', Some ''version_4'')" by code_simp
  then obtain j where j: "find_job ''job_4'' replace_claimed = Some j" "jb_state j = JobRunning" "new_content j"
    "jb_document_id j = ''doc_1''" "jb_version_id j = Some ''version_4''" by auto
  have "map_option dc_active_version (find_document ''doc_1'' replace_claimed) = Some (Some ''version_1'')" by code_simp
  then obtain d where d: "find_document ''doc_1'' replace_claimed = Some d" "dc_active_version d = Some ''version_1''" by auto
  have "find_version (Some ''version_4'') replace_claimed \<noteq> None" "find_version (Some ''version_1'') replace_claimed \<noteq> None"
    by code_simp+
  then obtain v w where v: "find_version (Some ''version_4'') replace_claimed = Some v"
    "find_version (Some ''version_1'') replace_claimed = Some w" by auto
  have "case accept_transaction (env_at 50 ''6'') None True ''job_4'' (last_receipt replace_claimed) replace_claimed
    of Inl _ \<Rightarrow> False | Inr _ \<Rightarrow> True" by code_simp
  then obtain st db' where run: "accept_transaction (env_at 50 ''6'') None True ''job_4'' (last_receipt replace_claimed)
      replace_claimed = Inr (st, db')" by (auto split: sum.splits)
  show ?thesis
    using receipt_swaps_version [OF run j(1,2,3), of d v "''version_1''" w] j d v run by auto
qed

section \<open>Reindexing in an unchanged generation\<close>

lemma keyed_distinct_key:
  assumes "keyed key t" and "p \<in> set t" and "q \<in> set t" and "p \<noteq> q"
  shows "key p \<noteq> key q"
  using keyed_eq [OF assms(1,2,3)] assms(4) by blast

text \<open>C33: while a version has an active publication in the generation a receipt is for, no receipt
  for another publication of that version is accepted: the new publication is made active before
  the old one is superseded, and two active publications of one version in one generation violate
  a unique constraint. A reindex whose generation has not changed therefore never succeeds.\<close>

theorem reindex_same_generation_refused:
  assumes job: "find_job i db = Some j" "jb_state j = JobRunning"
    and active: "p0 \<in> set (publications db)" "pb_status p0 = PubActive" "pb_generation p0 = rc_generation c"
      "pb_id p0 \<noteq> rc_publication_id c"
    and own: "find_publication (Some (rc_publication_id c)) db = Some p" "pb_version_id p = pb_version_id p0"
  shows "\<forall>st db'. accept_transaction env who internal i c db \<noteq> Inr (st, db')"
proof (intro allI notI)
  fix st db'
  assume run: "accept_transaction env who internal i c db = Inr (st, db')"
  obtain d a where ps: "publish_and_settle env who internal c j d a db = Inr db'"
    using run job by (auto simp: accept_transaction_def split: option.splits if_splits)
  from ps obtain r q db1 db2 db3 where
    1: "publish_accepted env who internal c r j d (ia_id a) db = Inr db1"
    and 2: "activate_publication (ie_now env) c j (ia_id a) (accept_attempt (ie_now env) c (ia_id a) db1) = Inr db2"
    by (rule publish_and_settle_trace)
  let ?act = "\<lambda>p. p\<lparr>pb_status := PubActive, pb_attempt_id := ia_id a, pb_generation := rc_generation c,
              pb_manifest := Some c, pb_activated_at := Some (ie_now env)\<rparr>"
  let ?t = "sql_update (\<lambda>p. pb_id p = rc_publication_id c) ?act (publications db)"
  have same: "publications (accept_attempt (ie_now env) c (ia_id a) db1) = publications db"
    using content_simps(2) [OF publish_accepted_content(1) [OF 1]] content_simps(2) [OF content_other(7)] by simp
  have k: "keyed publication_key ?t"
    using 2 by (auto simp: activate_publication_def update_publications_def set_publications_def same split: if_splits)
  have p: "p \<in> set (publications db)" "pb_id p = rc_publication_id c"
    using own(1) by (auto simp: find_publication_def dest!: sql_first_Some)
  have q: "?act p \<in> set ?t" unfolding set_sql_update by (rule bexI [of _ p]) (use p in simp_all)
  have q0: "p0 \<in> set ?t" unfolding set_sql_update by (rule bexI [of _ p0]) (use active in simp_all)
  have "?act p \<noteq> p0"
  proof
    assume "?act p = p0"
    then have "pb_id (?act p) = pb_id p0" by (rule arg_cong)
    then show False using p(2) active(4) by simp
  qed
  from keyed_distinct_key [OF k q q0 this] show False
    using active(2,3) own(2) by (simp add: publication_key_def)
qed

theorem reindex_same_generation_refused_witness:
  "(\<forall>st db'. accept_transaction (env_at 50 ''6'') None True ''job_4'' (last_receipt reindex_claimed) reindex_claimed
       \<noteq> Inr (st, db')) \<and>
    accept_processing_receipt (env_at 50 ''6'') None True ''job_4'' (last_receipt reindex_claimed) reindex_claimed
      = (Inl IntegrityError, reindex_claimed)"
proof
  have "map_option jb_state (find_job ''job_4'' reindex_claimed) = Some JobRunning" by code_simp
  then obtain j where j: "find_job ''job_4'' reindex_claimed = Some j" "jb_state j = JobRunning" by auto
  have "map_option (\<lambda>p. (pb_status p, pb_generation p, pb_version_id p)) (find_publication (Some ''publication_1'') reindex_claimed)
      = Some (PubActive, ''g1'', Some ''version_1'')" by code_simp
  then obtain p0 where p0: "find_publication (Some ''publication_1'') reindex_claimed = Some p0"
    "pb_status p0 = PubActive" "pb_generation p0 = ''g1''" "pb_version_id p0 = Some ''version_1''" by auto
  have "map_option pb_version_id (find_publication (Some ''publication_4'') reindex_claimed) = Some (Some ''version_1'')"
    by code_simp
  then obtain p where p: "find_publication (Some ''publication_4'') reindex_claimed = Some p"
    "pb_version_id p = Some ''version_1''" by auto
  have "rc_publication_id (last_receipt reindex_claimed) = ''publication_4''" by code_simp
  moreover have "rc_generation (last_receipt reindex_claimed) = ''g1''" by code_simp
  moreover have "p0 \<in> set (publications reindex_claimed)" "pb_id p0 = ''publication_1''"
    using p0(1) by (auto simp: find_publication_def dest!: sql_first_Some)
  ultimately show "\<forall>st db'. accept_transaction (env_at 50 ''6'') None True ''job_4'' (last_receipt reindex_claimed) reindex_claimed
       \<noteq> Inr (st, db')"
    using p0 p by (intro reindex_same_generation_refused [OF j, where ?p0.0 = p0 and p = p]) simp_all
  show "accept_processing_receipt (env_at 50 ''6'') None True ''job_4'' (last_receipt reindex_claimed) reindex_claimed
      = (Inl IntegrityError, reindex_claimed)"
    by code_simp
qed

end
