(* ===== verification/Ingestion_Repetition.thy ===== *)
theory Ingestion_Repetition
  imports Ingestion_Properties
begin

text \<open>
  Repeating an upload: with its idempotency key it answers as the first time and changes nothing,
  and without it the dedup claim of the file answers for it, also where the document it names was
  given up by the reclaim of its last attempt.
\<close>

section \<open>The idempotency table and the claims\<close>

definition keys_claims :: "docs_db \<Rightarrow> idempotency_row list \<times> dedup_row list" where
  "keys_claims db = (idempotency db, dedup_claims db)"

lemma keys_claims_other [simp]:
  "keys_claims (upd_documents pd fd db) = keys_claims db"
  "keys_claims (upd_versions pv fv db) = keys_claims db"
  "keys_claims (upd_jobs pj fj db) = keys_claims db"
  "keys_claims (upd_attempts pa fa db) = keys_claims db"
  "keys_claims (del_publications pp db) = keys_claims db"
  "keys_claims (call_port c db) = keys_claims db"
  "keys_claims (refresh_upload_batch now b db) = keys_claims db"
  "keys_claims (set_batch_item now job st db) = keys_claims db"
  by (simp_all add: keys_claims_def upd_documents_def upd_versions_def upd_jobs_def upd_attempts_def
      del_publications_def call_port_def refresh_upload_batch_def set_batch_item_def split: option.split)

lemma keys_claims_insert:
  "insert_document d db = Inr db' \<Longrightarrow> keys_claims db' = keys_claims db"
  "insert_version v db = Inr db' \<Longrightarrow> keys_claims db' = keys_claims db"
  "insert_job j db = Inr db' \<Longrightarrow> keys_claims db' = keys_claims db"
  "insert_publication p db = Inr db' \<Longrightarrow> keys_claims db' = keys_claims db"
  "insert_batch b db = Inr db' \<Longrightarrow> keys_claims db' = keys_claims db"
  "insert_batch_item i db = Inr db' \<Longrightarrow> keys_claims db' = keys_claims db"
  by (auto simp: keys_claims_def insert_document_def insert_version_def insert_job_def
      insert_publication_def set_publications_def insert_batch_def insert_batch_item_def Let_def split: if_splits)

lemma upload_rows_keys: "upload_rows env who space batch n info db = Inr db' \<Longrightarrow> keys_claims db' = keys_claims db"
  by (auto simp: upload_rows_def start_job_def Let_def dest!: keys_claims_insert)

lemma deduplicated_keys:
  "deduplicated_upload_item env batch n info claim db = Inr (item, db') \<Longrightarrow> keys_claims db' = keys_claims db"
  by (auto simp: deduplicated_upload_item_def Let_def dest!: keys_claims_insert)

lemma keys_claims_idempotency: "keys_claims db' = keys_claims db \<Longrightarrow> idempotency db' = idempotency db"
  by (simp add: keys_claims_def)

lemma upload_new_keys:
  assumes "upload_new env who space batch n info db = Inr (item, db')"
  shows "idempotency db' = idempotency db"
proof -
  obtain db1 where rows: "upload_rows env who space batch n info db = Inr db1"
    using assms by (auto simp: upload_new_def)
  obtain b db2 where claim: "insert_claim (upload_claim env space n info) db1 = (b, db2)" by fastforce
  then have "idempotency db2 = idempotency db1" by (auto simp: insert_claim_def split: if_splits)
  then show ?thesis
    using assms rows claim keys_claims_idempotency [OF upload_rows_keys [OF rows]]
    by (auto simp: upload_new_def split: if_splits option.splits dest!: keys_claims_insert(6) deduplicated_keys
        keys_claims_idempotency)
qed

lemma upload_one_keys: "upload_one env who space batch n st db = Inr (item, db') \<Longrightarrow> idempotency db' = idempotency db"
  by (auto simp: upload_one_def upload_rejected_def split: file_state.splits option.splits
      dest!: upload_new_keys deduplicated_keys keys_claims_insert(6) keys_claims_idempotency)

lemma upload_each_keys: "upload_each env who space batch n states db = Inr (items, db') \<Longrightarrow> idempotency db' = idempotency db"
  by (induction env who space batch n states db arbitrary: items db' rule: upload_each.induct)
    (auto dest!: upload_one_keys)

lemma upload_body_keys: "upload_body env who space states db = Inr (r, db') \<Longrightarrow> idempotency db' = idempotency db"
  by (auto simp: upload_body_def Let_def keys_claims_idempotency [OF keys_claims_other(7)]
      dest!: upload_each_keys keys_claims_insert(5) keys_claims_idempotency)

section \<open>An idempotency key\<close>

lemma idempotently_again:
  assumes run: "idempotently env actor endpoint target key fingerprint body db = Inr (r, db')"
    and keeps: "\<And>q db1. body db = Inr (q, db1) \<Longrightarrow> idempotency db1 = idempotency db"
    and sha: "ie_sha env' = ie_sha env"
  shows "idempotently env' actor endpoint target key fingerprint body' db' = Inr (r, db')"
proof (cases "idempotent_row env actor endpoint target key db")
  case None
  then obtain db1 where body: "body db = Inr (r, db1)"
    and db': "db' = db1\<lparr>idempotency := idempotency db1 @ [\<lparr>ik_actor = actor, ik_endpoint = endpoint,
            ik_target = target, ik_key_hash = ie_sha env key, ik_fingerprint = fingerprint,
            ik_response = r\<rparr>]\<rparr>"
    using run by (auto simp: idempotently_def)
  have "sql_first p (t @ [x]) = Some x" if "sql_first p t = None" "p x" for p t and x :: idempotency_row
    using that by (simp add: sql_first_def sql_where_def split: list.splits if_splits)
  then show ?thesis using None keeps [OF body] by (simp add: idempotently_def idempotent_row_def db' sha)
next
  case (Some row)
  then show ?thesis using run sha by (auto simp: idempotently_def idempotent_row_def split: if_splits)
qed

lemma classify_files_env: "ie_file_info env' = ie_file_info env \<Longrightarrow> classify_files env' files = classify_files env files"
  by (induction files rule: classify_files.induct) (simp_all split: sum.split)

text \<open>C34: an upload repeated with its key, in the same space by the same user, answers with the
  response of the first one and leaves the database as it is, whatever the clock, the tokens, the
  quota and the index answer then, as long as the files validate to the same facts and the user
  may still manage the space.\<close>

theorem upload_idempotent:
  assumes run: "create_initial_upload env who space files key db = Inr (r, db')"
    and same: "ie_file_info env' = ie_file_info env" "ie_sha env' = ie_sha env" "ie_float_repr env' = ie_float_repr env"
    and allowed: "ie_authorize env' (pr_user_id who) space = Inr ()"
  shows "create_initial_upload env' who space files key db' = Inr (r, db')"
proof -
  obtain k states where k: "required_key key = Inr k" and files: "files \<noteq> []" "classify_files env files = Inr states"
    and idem: "idempotently env (pr_user_id who) ''documents.initial_upload'' space k (upload_fingerprint env states)
       (upload_body env who space states) db = Inr (r, db')"
    using run by (auto simp: create_initial_upload_def split: if_splits)
  have "upload_fingerprint env' states = upload_fingerprint env states"
    by (simp add: upload_fingerprint_def fingerprint_of_def same)
  then show ?thesis
    using idempotently_again [OF idem upload_body_keys same(2)] k files allowed classify_files_env [OF same(1)]
    by (simp add: create_initial_upload_def)
qed

theorem upload_idempotent_witness:
  "\<exists>r. create_initial_upload (env_at 90 ''9'') uploader ''s'' [Offered a_file] (Some ''k1'') uploaded = Inr (r, uploaded)"
proof -
  have "case create_initial_upload (env_at 0 ''1'') uploader ''s'' [Offered a_file] (Some ''k1'') no_docs of
    Inl _ \<Rightarrow> False | Inr _ \<Rightarrow> True" by code_simp
  then obtain r db' where run: "create_initial_upload (env_at 0 ''1'') uploader ''s'' [Offered a_file] (Some ''k1'') no_docs
      = Inr (r, db')" by (auto split: sum.splits)
  then have "uploaded = db'" by (simp add: uploaded_def db_of_def)
  then show ?thesis using upload_idempotent [OF run, of "env_at 90 ''9''"] by (auto simp: env_at_def)
qed

section \<open>A dead letter by lease expiry\<close>

lemma reclaimed_keys: "keys_claims (reclaimed env document job a db) = keys_claims db"
  by (simp add: reclaimed_def Let_def drop_staged_def fail_version_def)

lemma discard_keys: "discard_indexing_attempt env k db = Inr db' \<Longrightarrow> keys_claims db' = keys_claims db"
  by (auto simp: discard_indexing_attempt_def split: if_splits option.splits)

lemma reclaim_one_keys: "reclaim_one env e db = Inr db' \<Longrightarrow> keys_claims db' = keys_claims db"
  by (auto simp: reclaim_one_def reclaimed_keys split: prod.splits option.splits if_splits dest!: discard_keys)

text \<open>C35: reclaiming an expired attempt leaves every dedup claim in place, also when it was the last
  attempt and the job becomes a dead letter. A later upload of a file whose claim exists starts no
  job: it is answered as a duplicate of the document the claim names.\<close>

theorem reclaim_keeps_claims:
  assumes run: "reclaim_one env e db = Inr db'"
    and claim: "find_claim (space, fi_normalized info, fi_hash info) db = Some c"
    and again: "upload_one env' who space batch n (FileAccepted info) db' = Inr (item, db'')"
  shows "dedup_claims db' = dedup_claims db \<and> jobs db'' = jobs db' \<and>
    (\<exists>v. item = ItemDeduplicated (fi_filename info) (dd_space_id c) (dd_document_id c) v)"
proof -
  have claims: "dedup_claims db' = dedup_claims db"
    using reclaim_one_keys [OF run] by (simp add: keys_claims_def)
  then have "find_claim (space, fi_normalized info, fi_hash info) db' = Some c"
    using claim by (simp add: find_claim_def)
  then show ?thesis
    using again claims by (auto simp: upload_one_def deduplicated_upload_item_def Let_def insert_batch_item_def split: if_splits)
qed

text \<open>An uploaded document whose job is at its fourth attempt.\<close>

definition spent_attempt :: "string \<Rightarrow> int \<Rightarrow> attempt_state \<Rightarrow> job_attempt_row" where
  "spent_attempt i n st = \<lparr>ia_id = i, ia_job_id = ''job_1'', ia_number = n, ia_cycle_number = n,
     ia_replay_generation = 0, ia_state = st, ia_owner = Some ''w'',
     ia_lease_expires_at = (if st = AttRunning then Some (days 8) else None), ia_fence = n,
     ia_publication_id = None, ia_request = None, ia_receipt = None, ia_failure_class = None,
     ia_failure_reason = None, ia_created_at = 0, ia_updated_at = 0\<rparr>"

definition spent_docs :: docs_db where
  "spent_docs = no_docs\<lparr>documents := [the_document\<lparr>dc_active_version := None,
       dc_pending_version := Some ''version_1'', dc_active_job := Some ''job_1''\<rparr>],
     versions := [live_version\<lparr>vr_status := VPending\<rparr>],
     jobs := [(new_job (env_at 0 ''1'') uploader ''job_1'' ''doc_1'' (Some ''version_1'') OpInitial None None
       ''publication_1'' 1 [])\<lparr>jb_state := JobRunning, jb_active_attempt := Some ''a4''\<rparr>],
     attempts := [spent_attempt ''a1'' 1 AttExpired, spent_attempt ''a2'' 2 AttFailed,
       spent_attempt ''a3'' 3 AttExpired, spent_attempt ''a4'' 4 AttRunning],
     dedup_claims := [upload_claim (env_at 0 ''1'') ''s'' 0 \<lparr>fi_filename = ''a'', fi_normalized = ''a'',
       fi_media_kind = ''md'', fi_size = 3, fi_hash = ''abc'', fi_risk = None\<rparr>]\<rparr>"

theorem reclaim_keeps_claims_witness:
  "\<exists>db' db'' v. reclaim_one (env_at (days 9) ''6'') (''job_1'', ''doc_1'') spent_docs = Inr db' \<and>
     map_option jb_state (find_job ''job_1'' db') = Some JobDeadLetter \<and>
     upload_one (env_at (days 9) ''7'') uploader ''s'' ''b'' 0
       (FileAccepted \<lparr>fi_filename = ''a'', fi_normalized = ''a'', fi_media_kind = ''md'', fi_size = 3,
          fi_hash = ''abc'', fi_risk = None\<rparr>) db' = Inr (ItemDeduplicated ''a'' ''s'' ''doc_1'' v, db'') \<and>
     jobs db'' = jobs db'"
proof -
  let ?info = "\<lparr>fi_filename = ''a'', fi_normalized = ''a'', fi_media_kind = ''md'', fi_size = 3,
          fi_hash = ''abc'', fi_risk = None\<rparr>"
  let ?run = "reclaim_one (env_at (days 9) ''6'') (''job_1'', ''doc_1'') spent_docs"
  have "case ?run of Inl _ \<Rightarrow> False | Inr db' \<Rightarrow> map_option jb_state (find_job ''job_1'' db') = Some JobDeadLetter \<and>
    (case upload_one (env_at (days 9) ''7'') uploader ''s'' ''b'' 0 (FileAccepted ?info) db' of
      Inl _ \<Rightarrow> False | Inr _ \<Rightarrow> True)" by code_simp
  then obtain db' item db'' where run: "?run = Inr db'"
    and dead: "map_option jb_state (find_job ''job_1'' db') = Some JobDeadLetter"
    and up: "upload_one (env_at (days 9) ''7'') uploader ''s'' ''b'' 0 (FileAccepted ?info) db' = Inr (item, db'')"
    by (auto split: sum.splits)
  have "map_option (\<lambda>c. (dd_space_id c, dd_document_id c)) (find_claim (''s'', fi_normalized ?info, fi_hash ?info) spent_docs)
    = Some (''s'', ''doc_1'')" by code_simp
  then obtain c where c: "find_claim (''s'', fi_normalized ?info, fi_hash ?info) spent_docs = Some c"
    "dd_space_id c = ''s''" "dd_document_id c = ''doc_1''" by auto
  show ?thesis using reclaim_keeps_claims [OF run c(1) up] run dead up c by auto
qed

end
