(* ===== verification/Quota_Ledger.thy ===== *)
theory Quota_Ledger
  imports Json
begin

text \<open>
  The page quota of \<^verbatim>\<open>app/usage/quota.py\<close>: an append-only ledger of debits, reversals,
  supplements and credits (\<^verbatim>\<open>quota_debit\<close>) and the projection derived from it
  (\<^verbatim>\<open>quota_projection\<close>), with the canonical fingerprint of an entry
  (\<^verbatim>\<open>app/usage/_fingerprint.py\<close>). An operation runs in the transaction of its caller: it
  returns an exception, or its result and the next tables. Arguments the code types as \<open>Any\<close>
  and checks itself are JSON values; the ownership, the calendar lock and the times arrive typed.
\<close>

section \<open>Rows\<close>

datatype entry_kind = EntryDebit | EntryReversal | EntrySupplement | EntryCredit

definition kind_name :: "entry_kind \<Rightarrow> string" where
  "kind_name k = (case k of EntryDebit \<Rightarrow> ''debit'' | EntryReversal \<Rightarrow> ''reversal''
     | EntrySupplement \<Rightarrow> ''supplement'' | EntryCredit \<Rightarrow> ''credit'')"

record ownership_snapshot =
  ow_actor :: string
  ow_role :: "string option"
  ow_department :: "string option"
  ow_subject :: "string option"
  ow_cost_center :: string
  ow_space_id :: "string option"
  ow_space_kind :: "string option"
  ow_space_owner :: "string option"
  ow_authorization_version :: "int option"
  ow_fence_token :: "int option"
  ow_source_space_ids :: "string list"

record calendar_lock =
  cy_version_id :: string
  cy_timezone :: string

record quota_entry =
  qt_id :: string
  qt_kind :: entry_kind
  qt_page_delta :: int
  qt_fingerprint :: string
  qt_operation_id :: "string option"
  qt_publication_id :: "string option"
  qt_subject :: string
  qt_period :: string
  qt_exempt_reason :: "string option"
  qt_referenced :: "string option"
  qt_namespace :: "string option"
  qt_source_id :: "string option"
  qt_cost_center :: string
  qt_ownership :: pval
  qt_effective_version :: string
  qt_effective_at :: time
  qt_effective_period :: string
  qt_recorded_version :: string
  qt_recorded_at :: time
  qt_recorded_period :: string
  qt_created_at :: time

record quota_projection =
  qj_subject :: string
  qj_period :: string
  qj_base_limit :: int
  qj_extra_granted :: int
  qj_used :: int
  qj_last_debit :: "string option"
  qj_updated_at :: time

record quota_db =
  entries :: "quota_entry list"
  projections :: "quota_projection list"

text \<open>
  The service: its base limit, the clock, the token of \<open>secrets\<close>, the calendar (year and month of a
  time in a time zone, start of the next month, the locked version) and HMAC-SHA256 with its key.
\<close>

record quota_env =
  qe_base_limit :: int
  qe_now :: time
  qe_token :: string
  qe_lock :: "exn + calendar_lock"
  qe_local_month :: "string \<Rightarrow> time \<Rightarrow> int \<times> int"
  qe_next_month :: "string \<Rightarrow> time \<Rightarrow> time"
  qe_hmac :: "string \<Rightarrow> string"
  qe_float_repr :: "rat \<Rightarrow> string"

section \<open>Input checks\<close>

definition invalid :: "exn + 'a" where
  "invalid = Inl (PlatformError ''validation_error'' 422)"

definition require_text :: "pval \<Rightarrow> nat \<Rightarrow> exn + string" where
  "require_text v max_len = (case v of
      PStr s \<Rightarrow> if py_strip s = [] \<or> max_len < length (py_strip s) then invalid else Inr (py_strip s)
    | _ \<Rightarrow> invalid)"

definition require_role :: "pval \<Rightarrow> exn + string" where
  "require_role v = (case v of
      PStr s \<Rightarrow> if s = [] \<or> 32 < length s \<or> s \<noteq> py_strip s then invalid else Inr s
    | _ \<Rightarrow> invalid)"

definition MAX_PAGE_DELTA :: int where
  "MAX_PAGE_DELTA = 2147483647"

definition require_positive_pages :: "pval \<Rightarrow> exn + int" where
  "require_positive_pages v = (case v of
      PInt n \<Rightarrow> if 1 \<le> n \<and> n \<le> MAX_PAGE_DELTA then Inr n else invalid
    | _ \<Rightarrow> invalid)"

definition PUBLICATION_TERMINAL_STATUSES :: "string list" where
  "PUBLICATION_TERMINAL_STATUSES = [''succeeded'', ''failed'', ''cancelled'', ''dead_letter'']"

definition require_publication_status :: "pval \<Rightarrow> exn + string" where
  "require_publication_status v = (case v of
      PStr s \<Rightarrow> if s \<in> set PUBLICATION_TERMINAL_STATUSES then Inr s else invalid
    | _ \<Rightarrow> invalid)"

definition require_replay_generation :: "pval \<Rightarrow> exn + int" where
  "require_replay_generation v = (case v of PInt n \<Rightarrow> if n < 0 then invalid else Inr n | _ \<Rightarrow> invalid)"

definition ascii_digit :: "char \<Rightarrow> bool" where
  "ascii_digit c \<longleftrightarrow> 48 \<le> (of_char c :: nat) \<and> (of_char c :: nat) \<le> 57"

definition digit_value :: "char \<Rightarrow> int" where
  "digit_value c = int (of_char c) - 48"

definition period_shape :: "string \<Rightarrow> bool" where
  "period_shape s \<longleftrightarrow> (case s of
      [a, b, c, d, h, e, f] \<Rightarrow> list_all ascii_digit [a, b, c, d, e, f] \<and> h = CHR ''-'' \<and>
        1 \<le> digit_value e * 10 + digit_value f \<and> digit_value e * 10 + digit_value f \<le> 12
    | _ \<Rightarrow> False)"

definition require_period :: "pval \<Rightarrow> exn + string" where
  "require_period v = bindE (require_text v 7) (\<lambda>s. if period_shape s then Inr s else invalid)"

definition EXEMPT_REASON :: string where
  "EXEMPT_REASON = ''shared_library_submission''"

definition require_exempt_reason :: "pval \<Rightarrow> exn + string option" where
  "require_exempt_reason v = (case v of
      PNull \<Rightarrow> Inr None
    | PStr s \<Rightarrow> if s = EXEMPT_REASON then Inr (Some s) else invalid
    | _ \<Rightarrow> invalid)"

definition unlimited_role :: "string \<Rightarrow> bool" where
  "unlimited_role role \<longleftrightarrow> role \<in> {''ops'', ''admin''}"

definition check_optional_text :: "string option \<Rightarrow> nat \<Rightarrow> exn + unit" where
  "check_optional_text x n = (case x of None \<Rightarrow> Inr () | Some s \<Rightarrow> bindE (require_text (PStr s) n) (\<lambda>_. Inr ()))"

definition validate_ownership :: "ownership_snapshot \<Rightarrow> exn + unit" where
  "validate_ownership w =
     bindE (require_text (PStr (ow_actor w)) 64) (\<lambda>_.
     bindE (require_text (PStr (ow_cost_center w)) 128) (\<lambda>_.
     bindE (check_optional_text (ow_role w) 32) (\<lambda>_.
     bindE (check_optional_text (ow_department w) 64) (\<lambda>_.
     check_optional_text (ow_subject w) 64))))"

section \<open>Fingerprints\<close>

definition tagged :: "string \<Rightarrow> pval \<Rightarrow> pval" where
  "tagged t v = PDict [(''t'', PStr t), (''v'', v)]"

text \<open>\<open>_to_tagged\<close> on JSON values.\<close>

fun to_tagged :: "pval \<Rightarrow> pval" where
  "to_tagged PNull = tagged ''null'' PNull"
| "to_tagged (PBool b) = tagged ''bool'' (PBool b)"
| "to_tagged (PInt i) = tagged ''num'' (PInt i)"
| "to_tagged (PFloat x) = tagged ''num'' (PFloat x)"
| "to_tagged (PStr s) = tagged ''str'' (PStr s)"
| "to_tagged (PList vs) = tagged ''list'' (PList (map to_tagged vs))"
| "to_tagged (PDict kvs) = tagged ''dict'' (PDict (map (\<lambda>(k, v). (k, to_tagged v)) kvs))"

text \<open>A payload field is a JSON value or an aware time, which is tagged on its own.\<close>

datatype fact = Plain pval | Instant time

definition tagged_fact :: "fact \<Rightarrow> pval" where
  "tagged_fact f = (case f of Plain v \<Rightarrow> to_tagged v | Instant t \<Rightarrow> tagged ''datetime'' (PStr (isoformat t)))"

definition ledger_fingerprint :: "quota_env \<Rightarrow> string \<Rightarrow> (string \<times> fact) list \<Rightarrow> string" where
  "ledger_fingerprint env kind payload = qe_hmac env (json_dumps (qe_float_repr env)
     (PDict [(''kind'', PStr kind),
       (''payload'', tagged ''dict'' (PDict (map (\<lambda>(k, v). (k, tagged_fact v)) payload)))]))"

definition entry_fingerprint :: "quota_env \<Rightarrow> entry_kind \<Rightarrow> (string \<times> fact) list \<Rightarrow> string" where
  "entry_fingerprint env kind = ledger_fingerprint env (''quota_'' @ kind_name kind)"

definition opt_str :: "string option \<Rightarrow> pval" where
  "opt_str x = (case x of None \<Rightarrow> PNull | Some s \<Rightarrow> PStr s)"

definition opt_int :: "int option \<Rightarrow> pval" where
  "opt_int x = (case x of None \<Rightarrow> PNull | Some i \<Rightarrow> PInt i)"

definition ownership_json :: "ownership_snapshot \<Rightarrow> pval" where
  "ownership_json w = PDict ([(''actor_user_id'', PStr (ow_actor w)), (''actor_role_snapshot'', opt_str (ow_role w)),
     (''actor_department_id_snapshot'', opt_str (ow_department w)),
     (''quota_subject_user_id'', opt_str (ow_subject w)), (''cost_center_key'', PStr (ow_cost_center w)),
     (''space_id'', opt_str (ow_space_id w)), (''space_kind'', opt_str (ow_space_kind w)),
     (''space_owner_user_id'', opt_str (ow_space_owner w)),
     (''authorization_version'', opt_int (ow_authorization_version w)),
     (''fence_token'', opt_int (ow_fence_token w))] @
     (if ow_source_space_ids w = [] then [] else
       [(''source_space_ids'', PList (map PStr (ow_source_space_ids w)))]))"

definition period_for :: "quota_env \<Rightarrow> calendar_lock \<Rightarrow> time \<Rightarrow> string" where
  "period_for env cal t = (case qe_local_month env (cy_timezone cal) t of (year, month) \<Rightarrow>
     pad_left 4 (string_of_int year) @ ''-'' @ pad_left 2 (string_of_int month))"

section \<open>Entries\<close>

definition ledger_conflict :: "exn + 'a" where
  "ledger_conflict = Inl (PlatformError ''ledger_invariant_conflict'' 409)"

text \<open>The row a unique key names: its id, or a conflict when its facts differ.\<close>

definition existing_entry :: "(quota_entry \<Rightarrow> bool) \<Rightarrow> string \<Rightarrow> quota_db \<Rightarrow> exn + string option" where
  "existing_entry unique fingerprint db = (case sql_first unique (entries db) of
      None \<Rightarrow> Inr None
    | Some e \<Rightarrow> if qt_fingerprint e \<noteq> fingerprint then ledger_conflict else Inr (Some (qt_id e)))"

definition new_entry ::
  "quota_env \<Rightarrow> entry_kind \<Rightarrow> int \<Rightarrow> string \<Rightarrow> string \<Rightarrow> ownership_snapshot \<Rightarrow> calendar_lock \<Rightarrow> time
   \<Rightarrow> time \<Rightarrow> (string \<times> fact) list \<Rightarrow> quota_entry" where
  "new_entry env kind delta subject period w cal effective recorded payload =
     \<lparr>qt_id = ''qd_'' @ qe_token env, qt_kind = kind, qt_page_delta = delta,
      qt_fingerprint = entry_fingerprint env kind payload, qt_operation_id = None,
      qt_publication_id = None, qt_subject = subject, qt_period = period, qt_exempt_reason = None,
      qt_referenced = None, qt_namespace = None, qt_source_id = None, qt_cost_center = ow_cost_center w,
      qt_ownership = ownership_json w, qt_effective_version = cy_version_id cal,
      qt_effective_at = effective, qt_effective_period = period_for env cal effective,
      qt_recorded_version = cy_version_id cal, qt_recorded_at = recorded,
      qt_recorded_period = period_for env cal recorded, qt_created_at = recorded\<rparr>"

text \<open>The effective facts a reversal and a supplement inherit from the debit they refer to.\<close>

definition inherit_effective :: "quota_entry \<Rightarrow> quota_entry \<Rightarrow> quota_entry" where
  "inherit_effective ref e = e\<lparr>qt_effective_version := qt_effective_version ref,
     qt_effective_at := qt_effective_at ref, qt_effective_period := qt_effective_period ref\<rparr>"

text \<open>
  The unique constraints of the table: the id, the operation id where there is one, and kind,
  namespace and source of an adjustment. The key of the insert is free when it is reached; what
  is left to collide is the random id.
\<close>

definition insert_entry ::
  "quota_entry \<Rightarrow> (quota_entry \<Rightarrow> bool) \<Rightarrow> quota_db \<Rightarrow> exn + ((string \<times> bool) \<times> quota_db)" where
  "insert_entry e unique db =
     bindE (existing_entry unique (qt_fingerprint e) db) (\<lambda>found.
     case found of Some i \<Rightarrow> Inr ((i, False), db)
     | None \<Rightarrow>
         if qt_id e \<in> qt_id ` set (entries db) then Inl IntegrityError
         else Inr ((qt_id e, True), db\<lparr>entries := entries db @ [e]\<rparr>))"

section \<open>The projection\<close>

definition is_projection :: "string \<Rightarrow> string \<Rightarrow> quota_projection \<Rightarrow> bool" where
  "is_projection subject period j \<longleftrightarrow> qj_subject j = subject \<and> qj_period j = period"

definition find_projection :: "string \<Rightarrow> string \<Rightarrow> quota_db \<Rightarrow> quota_projection option" where
  "find_projection subject period db = sql_first (is_projection subject period) (projections db)"

definition lock_projection :: "quota_env \<Rightarrow> string \<Rightarrow> string \<Rightarrow> time \<Rightarrow> quota_db \<Rightarrow> quota_db" where
  "lock_projection env subject period now db = (case find_projection subject period db of
      Some _ \<Rightarrow> db
    | None \<Rightarrow> db\<lparr>projections := projections db @ [\<lparr>qj_subject = subject, qj_period = period,
        qj_base_limit = qe_base_limit env, qj_extra_granted = 0, qj_used = 0, qj_last_debit = None,
        qj_updated_at = now\<rparr>]\<rparr>)"

definition update_projection_locked ::
  "quota_env \<Rightarrow> string \<Rightarrow> string \<Rightarrow> int \<Rightarrow> int \<Rightarrow> string option \<Rightarrow> time \<Rightarrow> quota_db \<Rightarrow> quota_db" where
  "update_projection_locked env subject period debit_delta credit_delta latest now db =
     (let db1 = lock_projection env subject period now db in
      db1\<lparr>projections := sql_update (is_projection subject period)
        (\<lambda>j. j\<lparr>qj_base_limit := qe_base_limit env, qj_extra_granted := qj_extra_granted j + credit_delta,
              qj_used := qj_used j + debit_delta,
              qj_last_debit := (if latest \<noteq> None then latest else qj_last_debit j),
              qj_updated_at := now\<rparr>) (projections db1)\<rparr>)"

section \<open>Debits\<close>

definition debit_facts ::
  "quota_env \<Rightarrow> string \<Rightarrow> string \<Rightarrow> string \<Rightarrow> int \<Rightarrow> ownership_snapshot \<Rightarrow> calendar_lock \<Rightarrow> time
   \<Rightarrow> (string \<times> fact) list" where
  "debit_facts env operation publication subject pages w cal effective =
     [(''operation'', Plain (PStr operation)), (''publication_id'', Plain (PStr publication)),
      (''pages'', Plain (PInt pages)), (''ownership'', Plain (ownership_json w)),
      (''subject'', Plain (PStr subject)), (''effective_at_utc'', Instant effective),
      (''effective_period'', Plain (PStr (period_for env cal effective))),
      (''effective_calendar_version_id'', Plain (PStr (cy_version_id cal)))]"

definition debit_entry ::
  "quota_env \<Rightarrow> string \<Rightarrow> string \<Rightarrow> string \<Rightarrow> int \<Rightarrow> ownership_snapshot \<Rightarrow> calendar_lock \<Rightarrow> time \<Rightarrow> quota_entry" where
  "debit_entry env operation publication subject pages w cal effective =
     (new_entry env EntryDebit pages subject (period_for env cal effective) w cal effective (qe_now env)
        (debit_facts env operation publication subject pages w cal effective))
     \<lparr>qt_operation_id := Some operation, qt_publication_id := Some publication\<rparr>"

text \<open>The insert of a debit and its projection; the repeated reads under the row lock read the same rows.\<close>

definition record_debit :: "quota_env \<Rightarrow> quota_entry \<Rightarrow> quota_db \<Rightarrow> exn + (string \<times> quota_db)" where
  "record_debit env e db =
     (let unique = (\<lambda>x. qt_operation_id x = qt_operation_id e) in
      bindE (existing_entry unique (qt_fingerprint e) db) (\<lambda>found.
      case found of Some i \<Rightarrow> Inr (i, db)
      | None \<Rightarrow>
          bindE (insert_entry e unique (lock_projection env (qt_subject e) (qt_period e) (qe_now env) db))
            (\<lambda>((i, inserted), db1). Inr (i, if inserted
               then update_projection_locked env (qt_subject e) (qt_period e) (qt_page_delta e) 0 (Some i)
                 (qe_now env) db1
               else db1))))"

definition append_debit ::
  "quota_env \<Rightarrow> pval \<Rightarrow> pval \<Rightarrow> pval \<Rightarrow> pval \<Rightarrow> ownership_snapshot \<Rightarrow> calendar_lock \<Rightarrow> pval \<Rightarrow> time
   \<Rightarrow> pval \<Rightarrow> pval \<Rightarrow> quota_db \<Rightarrow> exn + (string option \<times> quota_db)" where
  "append_debit env operation publication subject pages w cal role effective exempt_reason replay db =
     bindE (require_replay_generation replay) (\<lambda>generation.
     bindE (require_exempt_reason exempt_reason) (\<lambda>reason.
     bindE (require_text operation 128) (\<lambda>op.
     bindE (require_text publication 128) (\<lambda>pub.
     bindE (require_text subject 64) (\<lambda>user.
     bindE (require_role role) (\<lambda>r.
     bindE (require_positive_pages pages) (\<lambda>n.
     bindE (validate_ownership w) (\<lambda>_.
     if ow_subject w \<noteq> Some user then invalid
     else if reason \<noteq> None \<or> unlimited_role r \<or> 0 < generation then Inr (None, db)
     else bindE (record_debit env (debit_entry env op pub user n w cal effective) db)
       (\<lambda>(i, db1). Inr (Some i, db1))))))))))"

definition record_publication_debit ::
  "quota_env \<Rightarrow> pval \<Rightarrow> pval \<Rightarrow> pval \<Rightarrow> pval \<Rightarrow> pval \<Rightarrow> ownership_snapshot \<Rightarrow> calendar_lock \<Rightarrow> pval
   \<Rightarrow> pval \<Rightarrow> pval \<Rightarrow> time \<Rightarrow> quota_db \<Rightarrow> exn + (string option \<times> quota_db)" where
  "record_publication_debit env status operation publication subject pages w cal role exempt_reason
     replay published db =
     bindE (require_publication_status status) (\<lambda>st.
     if st \<noteq> ''succeeded'' then Inr (None, db)
     else append_debit env operation publication subject pages w cal role published exempt_reason replay db)"

section \<open>Adjustments\<close>

definition require_referenced_debit :: "string \<Rightarrow> quota_db \<Rightarrow> exn + quota_entry" where
  "require_referenced_debit i db = (case sql_first (\<lambda>e. qt_id e = i) (entries db) of
      None \<Rightarrow> Inl (PlatformError ''quota_debit_not_found'' 404)
    | Some e \<Rightarrow> if qt_kind e \<noteq> EntryDebit then Inl (PlatformError ''quota_debit_not_found'' 404) else Inr e)"

definition adjustment_facts ::
  "string \<Rightarrow> int \<Rightarrow> string \<Rightarrow> string \<Rightarrow> ownership_snapshot \<Rightarrow> (string \<times> fact) list" where
  "adjustment_facts referenced pages namespace source w =
     [(''referenced'', Plain (PStr referenced)), (''pages'', Plain (PInt pages)),
      (''source'', Plain (PList [PStr namespace, PStr source])), (''ownership'', Plain (ownership_json w))]"

definition adjustment_key :: "entry_kind \<Rightarrow> string \<Rightarrow> string \<Rightarrow> quota_entry \<Rightarrow> bool" where
  "adjustment_key kind namespace source e \<longleftrightarrow> qt_kind e = kind \<and> qt_namespace e = Some namespace \<and>
     qt_source_id e = Some source"

definition adjustment_entry ::
  "quota_env \<Rightarrow> entry_kind \<Rightarrow> int \<Rightarrow> int \<Rightarrow> quota_entry \<Rightarrow> string \<Rightarrow> string \<Rightarrow> ownership_snapshot
   \<Rightarrow> calendar_lock \<Rightarrow> time \<Rightarrow> quota_entry" where
  "adjustment_entry env kind delta pages ref namespace source w cal now =
     (inherit_effective ref (new_entry env kind delta (qt_subject ref) (qt_period ref) w cal
        (qt_effective_at ref) now (adjustment_facts (qt_id ref) pages namespace source w)))
     \<lparr>qt_referenced := Some (qt_id ref), qt_namespace := Some namespace, qt_source_id := Some source\<rparr>"

text \<open>An insert by the key of an adjustment, with the projection when the row is new.\<close>

definition record_adjustment ::
  "quota_env \<Rightarrow> quota_entry \<Rightarrow> string \<Rightarrow> string \<Rightarrow> int \<Rightarrow> int \<Rightarrow> bool \<Rightarrow> time \<Rightarrow> quota_db
   \<Rightarrow> exn + (string \<times> quota_db)" where
  "record_adjustment env e namespace source debit_delta credit_delta is_last now db =
     bindE (insert_entry e (adjustment_key (qt_kind e) namespace source) db)
       (\<lambda>((i, inserted), db1). Inr (i, if inserted
          then update_projection_locked env (qt_subject e) (qt_period e) debit_delta credit_delta
            (if is_last then Some i else None) now db1
          else db1))"

definition reversed_total :: "string \<Rightarrow> quota_db \<Rightarrow> int" where
  "reversed_total i db = sum_list (map qt_page_delta
     (sql_where (\<lambda>e. qt_kind e = EntryReversal \<and> qt_referenced e = Some i) (entries db)))"

definition append_reversal ::
  "quota_env \<Rightarrow> pval \<Rightarrow> pval \<Rightarrow> pval \<Rightarrow> pval \<Rightarrow> ownership_snapshot \<Rightarrow> calendar_lock \<Rightarrow> time \<Rightarrow> quota_db
   \<Rightarrow> exn + (string \<times> quota_db)" where
  "append_reversal env referenced pages namespace source w cal now db =
     bindE (require_text referenced 64) (\<lambda>ref_id.
     bindE (require_positive_pages pages) (\<lambda>n.
     bindE (require_text namespace 64) (\<lambda>ns.
     bindE (require_text source 128) (\<lambda>src.
     bindE (validate_ownership w) (\<lambda>_.
     bindE (existing_entry (adjustment_key EntryReversal ns src)
         (entry_fingerprint env EntryReversal (adjustment_facts ref_id n ns src w)) db) (\<lambda>found.
     case found of Some i \<Rightarrow> Inr (i, db)
     | None \<Rightarrow>
       bindE (require_referenced_debit ref_id db) (\<lambda>ref.
       if ow_subject w \<noteq> Some (qt_subject ref) then invalid
       else if qt_page_delta ref < - reversed_total ref_id db + n then ledger_conflict
       else record_adjustment env (adjustment_entry env EntryReversal (- n) n ref ns src w cal now)
         ns src (- n) 0 False now db)))))))"

definition append_supplement ::
  "quota_env \<Rightarrow> pval \<Rightarrow> pval \<Rightarrow> pval \<Rightarrow> pval \<Rightarrow> ownership_snapshot \<Rightarrow> calendar_lock \<Rightarrow> time \<Rightarrow> quota_db
   \<Rightarrow> exn + (string \<times> quota_db)" where
  "append_supplement env referenced pages namespace source w cal now db =
     bindE (require_text referenced 64) (\<lambda>ref_id.
     bindE (require_positive_pages pages) (\<lambda>n.
     bindE (require_text namespace 64) (\<lambda>ns.
     bindE (require_text source 128) (\<lambda>src.
     bindE (validate_ownership w) (\<lambda>_.
     bindE (existing_entry (adjustment_key EntrySupplement ns src)
         (entry_fingerprint env EntrySupplement (adjustment_facts ref_id n ns src w)) db) (\<lambda>found.
     case found of Some i \<Rightarrow> Inr (i, db)
     | None \<Rightarrow>
       bindE (require_referenced_debit ref_id db) (\<lambda>ref.
       if ow_subject w \<noteq> Some (qt_subject ref) then invalid
       else record_adjustment env (adjustment_entry env EntrySupplement n n ref ns src w cal now)
         ns src n 0 True now db)))))))"

definition CREDIT_NAMESPACE :: string where
  "CREDIT_NAMESPACE = ''quota_request''"

definition credit_facts :: "string \<Rightarrow> string \<Rightarrow> int \<Rightarrow> string \<Rightarrow> string \<Rightarrow> ownership_snapshot \<Rightarrow> (string \<times> fact) list" where
  "credit_facts subject period pages namespace source w =
     [(''subject'', Plain (PStr subject)), (''period'', Plain (PStr period)), (''pages'', Plain (PInt pages)),
      (''source'', Plain (PList [PStr namespace, PStr source])), (''ownership'', Plain (ownership_json w))]"

definition credit_entry ::
  "quota_env \<Rightarrow> string \<Rightarrow> string \<Rightarrow> int \<Rightarrow> string \<Rightarrow> string \<Rightarrow> ownership_snapshot \<Rightarrow> calendar_lock \<Rightarrow> time \<Rightarrow> quota_entry" where
  "credit_entry env subject period pages namespace source w cal now =
     (new_entry env EntryCredit (- pages) subject period w cal now now
        (credit_facts subject period pages namespace source w))
     \<lparr>qt_namespace := Some namespace, qt_source_id := Some source\<rparr>"

definition append_credit ::
  "quota_env \<Rightarrow> pval \<Rightarrow> pval \<Rightarrow> pval \<Rightarrow> pval \<Rightarrow> pval \<Rightarrow> ownership_snapshot \<Rightarrow> calendar_lock \<Rightarrow> time
   \<Rightarrow> quota_db \<Rightarrow> exn + (string \<times> quota_db)" where
  "append_credit env subject period pages namespace source w cal now db =
     bindE (require_text subject 64) (\<lambda>user.
     bindE (require_period period) (\<lambda>month.
     bindE (require_positive_pages pages) (\<lambda>n.
     bindE (require_text namespace 64) (\<lambda>ns.
     if ns \<noteq> CREDIT_NAMESPACE then invalid else
     bindE (require_text source 128) (\<lambda>src.
     bindE (validate_ownership w) (\<lambda>_.
     if ow_subject w \<noteq> Some user then invalid else
     bindE (existing_entry (adjustment_key EntryCredit ns src)
         (entry_fingerprint env EntryCredit (credit_facts user month n ns src w)) db) (\<lambda>found.
     case found of Some i \<Rightarrow> Inr (i, db)
     | None \<Rightarrow>
         if month \<noteq> period_for env cal now then invalid
         else record_adjustment env (credit_entry env user month n ns src w cal now) ns src 0 n False now db)))))))"

section \<open>Snapshots\<close>

record quota_snapshot =
  qs_used :: int
  qs_base_limit :: int
  qs_extra_granted :: int
  qs_effective_limit :: int
  qs_unlimited :: bool
  qs_reset_at :: time
  qs_timezone :: string
  qs_period :: string
  qs_calendar_version :: string

definition snapshot_of ::
  "quota_env \<Rightarrow> calendar_lock \<Rightarrow> string \<Rightarrow> time \<Rightarrow> string \<Rightarrow> quota_projection option \<Rightarrow> quota_snapshot" where
  "snapshot_of env cal period reset_at role row =
     (if unlimited_role role then
        \<lparr>qs_used = 0, qs_base_limit = qe_base_limit env, qs_extra_granted = 0, qs_effective_limit = 0,
         qs_unlimited = True, qs_reset_at = reset_at, qs_timezone = cy_timezone cal, qs_period = period,
         qs_calendar_version = cy_version_id cal\<rparr>
      else
        (let used = (case row of None \<Rightarrow> 0 | Some j \<Rightarrow> qj_used j);
             extra = (case row of None \<Rightarrow> 0 | Some j \<Rightarrow> qj_extra_granted j)
         in \<lparr>qs_used = used, qs_base_limit = qe_base_limit env, qs_extra_granted = extra,
             qs_effective_limit = qe_base_limit env + extra, qs_unlimited = False, qs_reset_at = reset_at,
             qs_timezone = cy_timezone cal, qs_period = period, qs_calendar_version = cy_version_id cal\<rparr>))"

definition read_snapshot :: "quota_env \<Rightarrow> pval \<Rightarrow> string \<Rightarrow> quota_db \<Rightarrow> exn + quota_snapshot" where
  "read_snapshot env subject role db =
     bindE (require_text subject 64) (\<lambda>user.
     bindE (qe_lock env) (\<lambda>cal.
       let period = period_for env cal (qe_now env); reset_at = qe_next_month env (cy_timezone cal) (qe_now env);
           row = (if unlimited_role role then None else find_projection user period db) in
       Inr (snapshot_of env cal period reset_at role row)))"

fun normalized_entries :: "(pval \<times> string) list \<Rightarrow> exn + (string \<times> string) list" where
  "normalized_entries [] = Inr []"
| "normalized_entries ((subject, role) # rest) =
     bindE (require_text subject 64) (\<lambda>user.
     bindE (normalized_entries rest) (\<lambda>more. Inr ((user, role) # more)))"

text \<open>The projections of all limited subjects are read at once; the result is a dict.\<close>

definition read_snapshots ::
  "quota_env \<Rightarrow> (pval \<times> string) list \<Rightarrow> quota_db \<Rightarrow> exn + ((string \<times> string) \<Rightarrow> quota_snapshot option)" where
  "read_snapshots env requested db =
     bindE (normalized_entries requested) (\<lambda>normalized.
     bindE (qe_lock env) (\<lambda>cal.
       let period = period_for env cal (qe_now env); reset_at = qe_next_month env (cy_timezone cal) (qe_now env);
           subjects = map fst (filter (\<lambda>(_, role). \<not> unlimited_role role) normalized);
           rows = sql_where (\<lambda>j. qj_subject j \<in> set subjects \<and> qj_period j = period) (projections db);
           by_subject = map_of (rev (map (\<lambda>j. (qj_subject j, j)) rows)) in
       Inr (map_of (map (\<lambda>(user, role). ((user, role), snapshot_of env cal period reset_at role (by_subject user)))
         normalized))))"

definition check_direct_ingest_balance :: "quota_env \<Rightarrow> pval \<Rightarrow> pval \<Rightarrow> string \<Rightarrow> quota_db \<Rightarrow> exn + unit" where
  "check_direct_ingest_balance env subject pages role db =
     bindE (require_text subject 64) (\<lambda>user.
     bindE (require_positive_pages pages) (\<lambda>n.
     if unlimited_role role then Inr ()
     else bindE (read_snapshot env (PStr user) role db) (\<lambda>s.
       if qs_effective_limit s < qs_used s + n then Inl (PlatformError ''quota_exceeded'' 409) else Inr ())))"

section \<open>Rebuilding\<close>

definition replay_entry :: "quota_entry \<Rightarrow> int \<times> int \<times> string option \<Rightarrow> int \<times> int \<times> string option" where
  "replay_entry e s = (case s of (used, extra, latest) \<Rightarrow>
     if qt_kind e = EntryDebit \<or> qt_kind e = EntrySupplement then (used + qt_page_delta e, extra, Some (qt_id e))
     else if qt_kind e = EntryReversal then (used + qt_page_delta e, extra, latest)
     else (used, extra + \<bar>qt_page_delta e\<bar>, latest))"

definition is_account :: "string \<Rightarrow> string \<Rightarrow> quota_entry \<Rightarrow> bool" where
  "is_account subject period e \<longleftrightarrow> qt_subject e = subject \<and> qt_period e = period"

definition account_entries :: "string \<Rightarrow> string \<Rightarrow> quota_db \<Rightarrow> quota_entry list" where
  "account_entries subject period db =
     sort_key qt_created_at (sort_key qt_id (sql_where (is_account subject period) (entries db)))"

definition rebuild_projection :: "quota_env \<Rightarrow> pval \<Rightarrow> pval \<Rightarrow> quota_db \<Rightarrow> exn + quota_db" where
  "rebuild_projection env subject period db =
     bindE (require_text subject 64) (\<lambda>user.
     bindE (require_period period) (\<lambda>month.
       let db1 = lock_projection env user month (qe_now env) db;
           (used, extra, latest) = fold replay_entry (account_entries user month db1) (0, 0, None) in
       Inr (db1\<lparr>projections := sql_update (is_projection user month)
         (\<lambda>j. j\<lparr>qj_base_limit := qe_base_limit env, qj_used := max 0 used, qj_extra_granted := extra,
               qj_last_debit := latest, qj_updated_at := qe_now env\<rparr>) (projections db1)\<rparr>)))"

end
