(* ===== verification/Quota_Invariant.thy ===== *)
theory Quota_Invariant
  imports Quota_Ledger
begin

text \<open>
  The invariant of the quota ledger: the constraints of its table, every reversal within the debit
  it refers to, and each projection equal to the sums over the entries of its account. An
  operation posts at most one admissible entry, a rebuild replaces one projection by its sums;
  both keep the invariant.
\<close>

section \<open>Sums of an account\<close>

definition used_delta :: "quota_entry \<Rightarrow> int" where
  "used_delta e = (if qt_kind e = EntryCredit then 0 else qt_page_delta e)"

definition extra_delta :: "quota_entry \<Rightarrow> int" where
  "extra_delta e = (if qt_kind e = EntryCredit then - qt_page_delta e else 0)"

definition used_sum :: "string \<Rightarrow> string \<Rightarrow> quota_entry list \<Rightarrow> int" where
  "used_sum subject period es = sum_list (map used_delta (filter (is_account subject period) es))"

definition extra_sum :: "string \<Rightarrow> string \<Rightarrow> quota_entry list \<Rightarrow> int" where
  "extra_sum subject period es = sum_list (map extra_delta (filter (is_account subject period) es))"

lemma sums_append [simp]:
  "used_sum s p (es @ [e]) = used_sum s p es + (if is_account s p e then used_delta e else 0)"
  "extra_sum s p (es @ [e]) = extra_sum s p es + (if is_account s p e then extra_delta e else 0)"
  by (simp_all add: used_sum_def extra_sum_def)

lemma sums_none:
  assumes "\<forall>e \<in> set es. \<not> is_account s p e"
  shows "used_sum s p es = 0" "extra_sum s p es = 0"
proof -
  have "filter (is_account s p) es = []" using assms by (simp add: filter_empty_conv)
  then show "used_sum s p es = 0" "extra_sum s p es = 0" by (simp_all add: used_sum_def extra_sum_def)
qed

section \<open>The constraints of the table\<close>

text \<open>The CHECK constraints of \<^verbatim>\<open>quota_debit\<close>.\<close>

definition entry_checked :: "quota_entry \<Rightarrow> bool" where
  "entry_checked e \<longleftrightarrow> (case qt_kind e of
      EntryDebit \<Rightarrow> 0 < qt_page_delta e \<and> qt_operation_id e \<noteq> None \<and> qt_publication_id e \<noteq> None
    | EntryReversal \<Rightarrow> qt_page_delta e < 0 \<and> qt_referenced e \<noteq> None \<and> qt_namespace e \<noteq> None \<and> qt_source_id e \<noteq> None
    | EntrySupplement \<Rightarrow> 0 < qt_page_delta e \<and> qt_referenced e \<noteq> None \<and> qt_namespace e \<noteq> None \<and> qt_source_id e \<noteq> None
    | EntryCredit \<Rightarrow> qt_page_delta e < 0 \<and> qt_namespace e = Some CREDIT_NAMESPACE \<and> qt_source_id e \<noteq> None)"

text \<open>Its unique constraints, where NULL is distinct from NULL.\<close>

definition same_operation :: "quota_entry \<Rightarrow> quota_entry \<Rightarrow> bool" where
  "same_operation e x \<longleftrightarrow> qt_operation_id e \<noteq> None \<and> qt_operation_id x = qt_operation_id e"

definition same_adjustment :: "quota_entry \<Rightarrow> quota_entry \<Rightarrow> bool" where
  "same_adjustment e x \<longleftrightarrow> qt_namespace e \<noteq> None \<and> qt_source_id e \<noteq> None \<and> qt_kind x = qt_kind e \<and>
     qt_namespace x = qt_namespace e \<and> qt_source_id x = qt_source_id e"

definition keys_unique :: "quota_entry list \<Rightarrow> bool" where
  "keys_unique es \<longleftrightarrow> keyed qt_id es \<and>
     (\<forall>e \<in> set es. \<forall>x \<in> set es. same_operation e x \<or> same_adjustment e x \<longrightarrow> x = e)"

definition reversals_of :: "string \<Rightarrow> quota_entry list \<Rightarrow> int" where
  "reversals_of i es = sum_list (map qt_page_delta
     (filter (\<lambda>e. qt_kind e = EntryReversal \<and> qt_referenced e = Some i) es))"

lemma reversals_append [simp]:
  "reversals_of i (es @ [e]) = reversals_of i es +
     (if qt_kind e = EntryReversal \<and> qt_referenced e = Some i then qt_page_delta e else 0)"
  by (simp add: reversals_of_def)

lemma reversed_total_entries: "reversed_total i db = reversals_of i (entries db)"
  by (simp add: reversed_total_def reversals_of_def sql_where_def)

definition refers_to :: "quota_entry \<Rightarrow> quota_entry \<Rightarrow> bool" where
  "refers_to r d \<longleftrightarrow> qt_kind d = EntryDebit \<and> qt_referenced r = Some (qt_id d) \<and>
     qt_subject d = qt_subject r \<and> qt_period d = qt_period r"

definition reversals_bounded :: "quota_entry list \<Rightarrow> bool" where
  "reversals_bounded es \<longleftrightarrow>
     (\<forall>r \<in> set es. qt_kind r = EntryReversal \<longrightarrow> (\<exists>d \<in> set es. refers_to r d)) \<and>
     (\<forall>d \<in> set es. qt_kind d = EntryDebit \<longrightarrow> - reversals_of (qt_id d) es \<le> qt_page_delta d)"

definition projected :: "quota_db \<Rightarrow> bool" where
  "projected db \<longleftrightarrow> (\<forall>s p. case find_projection s p db of
      None \<Rightarrow> \<forall>e \<in> set (entries db). \<not> is_account s p e
    | Some j \<Rightarrow> qj_used j = used_sum s p (entries db) \<and> qj_extra_granted j = extra_sum s p (entries db))"

definition projection_key :: "quota_projection \<Rightarrow> string \<times> string" where
  "projection_key j = (qj_subject j, qj_period j)"

definition ledger_inv :: "quota_db \<Rightarrow> bool" where
  "ledger_inv db \<longleftrightarrow> (\<forall>e \<in> set (entries db). entry_checked e) \<and> keys_unique (entries db) \<and>
     reversals_bounded (entries db) \<and> projected db \<and> keyed projection_key (projections db)"

section \<open>Posting an entry\<close>

text \<open>What an operation has checked when it inserts.\<close>

definition admissible :: "quota_entry \<Rightarrow> quota_entry list \<Rightarrow> bool" where
  "admissible e es \<longleftrightarrow> entry_checked e \<and> qt_id e \<notin> qt_id ` set es \<and>
     (\<forall>x \<in> set es. \<not> same_operation e x \<and> \<not> same_adjustment e x) \<and>
     (qt_kind e = EntryReversal \<longrightarrow> (\<exists>d \<in> set es. refers_to e d \<and>
        - reversals_of (qt_id d) es - qt_page_delta e \<le> qt_page_delta d))"

definition posted :: "quota_env \<Rightarrow> quota_entry \<Rightarrow> string option \<Rightarrow> time \<Rightarrow> quota_db \<Rightarrow> quota_db" where
  "posted env e latest now db = update_projection_locked env (qt_subject e) (qt_period e) (used_delta e)
     (extra_delta e) latest now (db\<lparr>entries := entries db @ [e]\<rparr>)"

lemma keys_unique_append:
  assumes "keys_unique es" and "admissible e es"
  shows "keys_unique (es @ [e])"
proof -
  have "same_operation x e \<longrightarrow> same_operation e x" "same_adjustment x e \<longrightarrow> same_adjustment e x" for x
    by (auto simp: same_operation_def same_adjustment_def)
  then show ?thesis
    using assms by (auto simp: keys_unique_def admissible_def keyed_def)
qed

lemma no_reversal_of_new:
  assumes "\<forall>r \<in> set es. qt_kind r = EntryReversal \<longrightarrow> (\<exists>d \<in> set es. refers_to r d)" and "i \<notin> qt_id ` set es"
  shows "reversals_of i es = 0"
proof -
  have "\<not> (qt_kind r = EntryReversal \<and> qt_referenced r = Some i)" if "r \<in> set es" for r
    using assms that by (fastforce simp: refers_to_def)
  then have "filter (\<lambda>e. qt_kind e = EntryReversal \<and> qt_referenced e = Some i) es = []"
    by (simp add: filter_empty_conv)
  then show ?thesis by (simp add: reversals_of_def)
qed

lemma reversals_bounded_append:
  assumes inv: "reversals_bounded es" "keys_unique es" and e: "admissible e es"
  shows "reversals_bounded (es @ [e])"
proof -
  note refs = inv(1) [unfolded reversals_bounded_def, THEN conjunct1]
    and bound = inv(1) [unfolded reversals_bounded_def, THEN conjunct2]
  have fresh: "qt_id e \<notin> qt_id ` set es" and ok: "entry_checked e" using e by (simp_all add: admissible_def)
  have "\<forall>r \<in> set (es @ [e]). qt_kind r = EntryReversal \<longrightarrow> (\<exists>d \<in> set (es @ [e]). refers_to r d)"
    using refs e by (auto simp: admissible_def)
  moreover have "- reversals_of (qt_id d) (es @ [e]) \<le> qt_page_delta d"
    if d: "d \<in> set (es @ [e])" "qt_kind d = EntryDebit" for d
  proof (cases "d = e")
    case True
    then show ?thesis
      using no_reversal_of_new [OF refs fresh] d ok by (simp add: entry_checked_def)
  next
    case False
    then have d': "d \<in> set es" using d by simp
    show ?thesis
    proof (cases "qt_kind e = EntryReversal \<and> qt_referenced e = Some (qt_id d)")
      case True
      then obtain d0 where d0: "d0 \<in> set es" "refers_to e d0"
          "- reversals_of (qt_id d0) es - qt_page_delta e \<le> qt_page_delta d0"
        using e by (auto simp: admissible_def)
      then have "qt_id d0 = qt_id d" using True by (simp add: refers_to_def)
      moreover have "keyed qt_id es" using inv(2) by (simp add: keys_unique_def)
      ultimately have "d0 = d" using keyed_eq d0(1) d' by metis
      then show ?thesis using d0(3) True by simp
    qed (use bound d' d(2) in auto)
  qed
  ultimately show ?thesis by (simp add: reversals_bounded_def)
qed

section \<open>Projections\<close>

definition empty_projection :: "quota_env \<Rightarrow> string \<Rightarrow> string \<Rightarrow> time \<Rightarrow> quota_projection" where
  "empty_projection env s p now = \<lparr>qj_subject = s, qj_period = p, qj_base_limit = qe_base_limit env,
     qj_extra_granted = 0, qj_used = 0, qj_last_debit = None, qj_updated_at = now\<rparr>"

lemma is_projection_empty [simp]: "is_projection s p (empty_projection env t q now) \<longleftrightarrow> s = t \<and> p = q"
  by (auto simp: is_projection_def empty_projection_def)

lemma lock_projection_cases:
  "lock_projection env s p now db = (case find_projection s p db of Some _ \<Rightarrow> db
     | None \<Rightarrow> db\<lparr>projections := projections db @ [empty_projection env s p now]\<rparr>)"
  by (simp add: lock_projection_def empty_projection_def split: option.split)

lemma entries_lock [simp]: "entries (lock_projection env s p now db) = entries db"
  by (simp add: lock_projection_cases split: option.split)

lemma find_lock:
  "find_projection s p (lock_projection env t q now db) =
    (if s = t \<and> p = q then Some (case find_projection t q db of Some j \<Rightarrow> j | None \<Rightarrow> empty_projection env t q now)
     else find_projection s p db)"
  by (cases "find_projection t q db") (auto simp: lock_projection_cases find_projection_def sql_first_append split: option.split)

lemma sql_first_kept:
  assumes "\<And>r. p (f r) = p r"
  shows "sql_first p (sql_update q f t) = map_option (\<lambda>r. if q r then f r else r) (sql_first p t)"
  using assms by (induction t) (auto simp: sql_update_def)

lemma find_update:
  assumes "\<And>j. qj_subject (f j) = qj_subject j" and "\<And>j. qj_period (f j) = qj_period j"
  shows "find_projection s p (db\<lparr>projections := sql_update (is_projection t q) f (projections db)\<rparr>) =
    map_option (\<lambda>j. if s = t \<and> p = q then f j else j) (find_projection s p db)"
proof -
  have "is_projection s p (f j) = is_projection s p j" for j using assms by (simp add: is_projection_def)
  then have "find_projection s p (db\<lparr>projections := sql_update (is_projection t q) f (projections db)\<rparr>) =
      map_option (\<lambda>j. if is_projection t q j then f j else j) (find_projection s p db)"
    by (simp add: find_projection_def sql_first_kept)
  then show ?thesis
    by (cases "find_projection s p db") (auto simp: find_projection_def is_projection_def dest!: sql_first_Some)
qed

lemma keyed_lock:
  assumes "keyed projection_key (projections db)"
  shows "keyed projection_key (projections (lock_projection env s p now db))"
proof (cases "find_projection s p db")
  case None
  then have "(s, p) \<notin> projection_key ` set (projections db)"
    by (auto simp: find_projection_def sql is_projection_def projection_key_def)
  then show ?thesis
    using assms None by (simp add: lock_projection_cases keyed_def empty_projection_def projection_key_def)
qed (use assms in \<open>simp add: lock_projection_cases\<close>)

lemma keyed_update_kept:
  "(\<And>j. projection_key (f j) = projection_key j) \<Longrightarrow> keyed projection_key t \<Longrightarrow>
    keyed projection_key (sql_update q f t)"
  by (simp add: keyed_def sql_update_def comp_def if_distrib cong: if_cong)

lemma lock_inv:
  assumes "ledger_inv db"
  shows "ledger_inv (lock_projection env s p now db)"
proof -
  have "projected (lock_projection env s p now db)"
    unfolding projected_def
  proof (intro allI)
    fix t q
    have old: "case find_projection t q db of None \<Rightarrow> \<forall>e \<in> set (entries db). \<not> is_account t q e
      | Some j \<Rightarrow> qj_used j = used_sum t q (entries db) \<and> qj_extra_granted j = extra_sum t q (entries db)"
      using assms by (simp add: ledger_inv_def projected_def)
    then show "case find_projection t q (lock_projection env s p now db) of
        None \<Rightarrow> \<forall>e \<in> set (entries (lock_projection env s p now db)). \<not> is_account t q e
      | Some j \<Rightarrow> qj_used j = used_sum t q (entries (lock_projection env s p now db)) \<and>
          qj_extra_granted j = extra_sum t q (entries (lock_projection env s p now db))"
      by (auto simp: find_lock empty_projection_def sums_none split: option.splits if_splits)
  qed
  then show ?thesis using assms by (simp add: ledger_inv_def keyed_lock)
qed

lemma posted_entries [simp]: "entries (posted env e latest now db) = entries db @ [e]"
  by (simp add: posted_def update_projection_locked_def Let_def)

lemma find_posted:
  "map_option (\<lambda>j. (qj_used j, qj_extra_granted j)) (find_projection s p (posted env e latest now db)) =
    (if is_account s p e then Some (case find_projection s p db of
        Some j \<Rightarrow> (qj_used j + used_delta e, qj_extra_granted j + extra_delta e)
      | None \<Rightarrow> (used_delta e, extra_delta e))
     else map_option (\<lambda>j. (qj_used j, qj_extra_granted j)) (find_projection s p db))"
proof -
  have same: "find_projection t q (db\<lparr>entries := es\<rparr>) = find_projection t q db" for t q es
    by (simp add: find_projection_def)
  show ?thesis
    unfolding posted_def update_projection_locked_def Let_def
    by (subst find_update) (auto simp: find_lock same is_account_def empty_projection_def split: option.split)
qed

lemma posted_inv:
  assumes inv: "ledger_inv db" and e: "admissible e (entries db)"
  shows "ledger_inv (posted env e latest now db)"
proof -
  have "projected (posted env e latest now db)"
    unfolding projected_def
  proof (intro allI)
    fix s p
    have old: "case find_projection s p db of None \<Rightarrow> \<forall>e \<in> set (entries db). \<not> is_account s p e
      | Some j \<Rightarrow> qj_used j = used_sum s p (entries db) \<and> qj_extra_granted j = extra_sum s p (entries db)"
      using inv by (simp add: ledger_inv_def projected_def)
    show "case find_projection s p (posted env e latest now db) of
        None \<Rightarrow> \<forall>x \<in> set (entries (posted env e latest now db)). \<not> is_account s p x
      | Some j \<Rightarrow> qj_used j = used_sum s p (entries (posted env e latest now db)) \<and>
          qj_extra_granted j = extra_sum s p (entries (posted env e latest now db))"
      using find_posted [of s p env e latest now db] old sums_none [of "entries db" s p]
      by (auto split: option.splits if_splits)
  qed
  moreover have "keyed projection_key (projections (posted env e latest now db))"
    unfolding posted_def update_projection_locked_def Let_def
    using inv by (auto intro!: keyed_update_kept keyed_lock simp: ledger_inv_def projection_key_def)
  ultimately show ?thesis
    using inv e keys_unique_append reversals_bounded_append
    by (auto simp: ledger_inv_def admissible_def)
qed

section \<open>The used pages are not negative\<close>

lemma sum_by_reference:
  fixes g :: "'r \<Rightarrow> int"
  assumes "distinct ks" and "\<forall>r \<in> set rs. \<exists>k \<in> set ks. h r = Some k"
  shows "sum_list (map g rs) = sum_list (map (\<lambda>k. sum_list (map g (filter (\<lambda>r. h r = Some k) rs))) ks)"
  using assms(2)
proof (induction rs)
  case Nil
  then show ?case by (induction ks) simp_all
next
  case (Cons r rs)
  then obtain k where k: "k \<in> set ks" "h r = Some k" by auto
  have "sum_list (map (\<lambda>x. if x = k then g r else 0) ks) = g r"
    using assms(1) k(1) by (simp add: sum_list_distinct_conv_sum_set)
  moreover have "sum_list (map g (filter (\<lambda>x. h x = Some i) (r # rs))) =
      (if i = k then g r else 0) + sum_list (map g (filter (\<lambda>x. h x = Some i) rs))" for i
    using k(2) by auto
  ultimately show ?case using Cons by (simp add: sum_list_addf)
qed

lemma sum_filter_kinds:
  "sum_list (map used_delta es) =
    sum_list (map qt_page_delta (filter (\<lambda>e. qt_kind e = EntryDebit) es)) +
    sum_list (map qt_page_delta (filter (\<lambda>e. qt_kind e = EntrySupplement) es)) +
    sum_list (map qt_page_delta (filter (\<lambda>e. qt_kind e = EntryReversal) es))"
proof (induction es)
  case (Cons e es)
  then show ?case by (cases "qt_kind e") (simp_all add: used_delta_def)
qed simp

lemma used_sum_nonneg:
  assumes inv: "ledger_inv db"
  shows "0 \<le> used_sum s p (entries db)"
proof -
  let ?es = "entries db" let ?acc = "filter (is_account s p) (entries db)"
  let ?ds = "filter (\<lambda>e. qt_kind e = EntryDebit) ?acc" let ?rs = "filter (\<lambda>e. qt_kind e = EntryReversal) ?acc"
  have keys: "keyed qt_id ?es" and checked: "\<forall>e \<in> set ?es. entry_checked e"
    and refs: "\<forall>r \<in> set ?es. qt_kind r = EntryReversal \<longrightarrow> (\<exists>d \<in> set ?es. refers_to r d)"
    and bound: "\<forall>d \<in> set ?es. qt_kind d = EntryDebit \<longrightarrow> - reversals_of (qt_id d) ?es \<le> qt_page_delta d"
    using inv by (simp_all add: ledger_inv_def keys_unique_def reversals_bounded_def)
  have ids: "distinct (map qt_id ?ds)" using keys by (simp add: keyed_def distinct_map inj_on_def)
  have "\<exists>k \<in> set (map qt_id ?ds). qt_referenced r = Some k" if "r \<in> set ?rs" for r
    using refs that by (fastforce simp: refers_to_def is_account_def)
  then have "sum_list (map qt_page_delta ?rs) =
      sum_list (map (\<lambda>k. sum_list (map qt_page_delta (filter (\<lambda>r. qt_referenced r = Some k) ?rs))) (map qt_id ?ds))"
    by (intro sum_by_reference [OF ids]) simp
  also have "\<dots> = sum_list (map (\<lambda>d. reversals_of (qt_id d) ?es) ?ds)"
  proof -
    have "sum_list (map qt_page_delta (filter (\<lambda>r. qt_referenced r = Some (qt_id d)) ?rs)) = reversals_of (qt_id d) ?es"
      if d: "d \<in> set ?ds" for d
    proof -
      have "is_account s p r" if r: "r \<in> set ?es" "qt_kind r = EntryReversal" "qt_referenced r = Some (qt_id d)" for r
      proof -
        obtain d0 where d0: "d0 \<in> set ?es" "refers_to r d0" using refs r by blast
        then have "qt_id d0 = qt_id d" using r by (simp add: refers_to_def)
        then have "d0 = d" using keyed_eq [OF keys] d0(1) d by simp
        then show ?thesis using d0 d by (simp add: refers_to_def is_account_def)
      qed
      then have "filter (\<lambda>r. qt_referenced r = Some (qt_id d)) ?rs =
          filter (\<lambda>e. qt_kind e = EntryReversal \<and> qt_referenced e = Some (qt_id d)) ?es"
        by (auto simp: filter_filter intro!: filter_cong)
      then show ?thesis by (simp add: reversals_of_def)
    qed
    then have "map (\<lambda>d. sum_list (map qt_page_delta (filter (\<lambda>r. qt_referenced r = Some (qt_id d)) ?rs))) ?ds =
        map (\<lambda>d. reversals_of (qt_id d) ?es) ?ds" by (rule map_cong [OF refl])
    then show ?thesis by (simp only: map_map comp_def)
  qed
  finally have "sum_list (map qt_page_delta ?ds) + sum_list (map qt_page_delta ?rs) =
      sum_list (map (\<lambda>d. qt_page_delta d + reversals_of (qt_id d) ?es) ?ds)" by (simp add: sum_list_addf)
  also have "0 \<le> \<dots>" using bound by (intro sum_list_nonneg) fastforce
  finally have "0 \<le> sum_list (map qt_page_delta ?ds) + sum_list (map qt_page_delta ?rs)" .
  moreover have "0 \<le> sum_list (map qt_page_delta (filter (\<lambda>e. qt_kind e = EntrySupplement) ?acc))"
    using checked by (intro sum_list_nonneg) (auto simp: entry_checked_def dest!: bspec)
  ultimately show ?thesis unfolding used_sum_def sum_filter_kinds by simp
qed

lemma extra_sum_nonneg:
  assumes "ledger_inv db"
  shows "0 \<le> extra_sum s p (entries db)"
proof -
  have "\<forall>e \<in> set (entries db). entry_checked e" using assms by (simp add: ledger_inv_def)
  then have "0 \<le> extra_delta e" if "e \<in> set (entries db)" for e
    using that by (cases "qt_kind e") (auto simp: entry_checked_def extra_delta_def dest!: bspec)
  then show ?thesis unfolding extra_sum_def by (intro sum_list_nonneg) auto
qed

end
