(* ===== verification/Quota_System.thy ===== *)
theory Quota_System
  imports Quota_Invariant "HOL-Library.Multiset"
begin

text \<open>
  The quota service as a transition system: each operation posts at most one admissible entry or
  rebuilds one projection, in any environment. The locale is what a reader of an append-only log
  may rely on; the ledger is an instance of it.
\<close>

section \<open>What an operation does\<close>

text \<open>The result of an operation: nothing, or one admissible entry posted with its projection.\<close>

inductive posts :: "quota_db \<Rightarrow> quota_db \<Rightarrow> bool" where
  nothing: "posts db db"
| entry: "admissible e (entries db) \<Longrightarrow> posts db (posted env e latest now db)"
| entry_locked: "admissible e (entries db) \<Longrightarrow> posts db (posted env e latest now (lock_projection env' s p t db))"

lemma posts_inv: "posts db db' \<Longrightarrow> ledger_inv db \<Longrightarrow> ledger_inv db'"
  by (induction rule: posts.induct) (auto intro: posted_inv lock_inv)

lemma posts_grows: "posts db db' \<Longrightarrow> \<exists>new. entries db' = entries db @ new"
  by (induction rule: posts.induct) auto

lemma existing_entry_None:
  "existing_entry unique f db = Inr None \<longleftrightarrow> (\<forall>e \<in> set (entries db). \<not> unique e)"
  by (auto simp: existing_entry_def sql_first_None [symmetric] ledger_conflict_def split: option.splits)

lemma insert_entry_fresh:
  assumes "\<forall>x \<in> set (entries db). \<not> unique x"
  shows "insert_entry e unique db = (if qt_id e \<in> qt_id ` set (entries db) then Inl IntegrityError
    else Inr ((qt_id e, True), db\<lparr>entries := entries db @ [e]\<rparr>))"
proof -
  have "existing_entry unique (qt_fingerprint e) db = Inr None" using assms by (simp add: existing_entry_None)
  then show ?thesis by (simp add: insert_entry_def)
qed

lemma insert_entry_cases:
  assumes "insert_entry e unique db = Inr ((i, b), db')"
  shows "if b then i = qt_id e \<and> db' = db\<lparr>entries := entries db @ [e]\<rparr> \<and> qt_id e \<notin> qt_id ` set (entries db) \<and>
      (\<forall>x \<in> set (entries db). \<not> unique x)
    else db' = db"
  using assms by (auto simp: insert_entry_def existing_entry_None split: option.splits if_splits)

lemma record_debit_posts:
  assumes run: "record_debit env e db = Inr (i, db')"
    and e: "entry_checked e" "qt_kind e = EntryDebit" "qt_namespace e = None"
  shows "posts db db'"
proof -
  have deltas: "used_delta e = qt_page_delta e" "extra_delta e = 0" using e by (simp_all add: used_delta_def extra_delta_def)
  let ?db = "lock_projection env (qt_subject e) (qt_period e) (qe_now env) db"
  let ?u = "\<lambda>x. qt_operation_id x = qt_operation_id e"
  obtain f where f: "existing_entry ?u (qt_fingerprint e) db = Inr f"
    using run unfolding record_debit_def Let_def bindE_Inr by blast
  show ?thesis
  proof (cases f)
    case None
    then have none: "\<forall>x \<in> set (entries db). \<not> ?u x" using f by (simp add: existing_entry_None)
    then have fresh: "qt_id e \<notin> qt_id ` set (entries db)" and db': "db' = posted env e (Some (qt_id e)) (qe_now env) ?db"
      using run f None by (auto simp: record_debit_def Let_def insert_entry_fresh posted_def deltas split: if_splits)
    have "admissible e (entries db)"
      using fresh none e by (auto simp: admissible_def same_operation_def same_adjustment_def)
    then show ?thesis unfolding db' by (rule posts.entry_locked)
  qed (use run f in \<open>simp add: record_debit_def Let_def posts.nothing\<close>)
qed

lemma record_adjustment_posts:
  assumes run: "record_adjustment env e namespace source dd cd is_last now db = Inr (i, db')"
    and e: "entry_checked e" "qt_operation_id e = None" "qt_namespace e = Some namespace" "qt_source_id e = Some source"
      "dd = used_delta e" "cd = extra_delta e"
    and ref: "qt_kind e = EntryReversal \<Longrightarrow> \<exists>d \<in> set (entries db). refers_to e d \<and>
        - reversals_of (qt_id d) (entries db) - qt_page_delta e \<le> qt_page_delta d"
  shows "posts db db'"
proof -
  obtain b db1 where ins: "insert_entry e (adjustment_key (qt_kind e) namespace source) db = Inr ((i, b), db1)"
    and db': "db' = (if b then update_projection_locked env (qt_subject e) (qt_period e) dd cd
        (if is_last then Some i else None) now db1 else db1)"
    using run by (auto simp: record_adjustment_def)
  note ins' = insert_entry_cases [OF ins]
  show ?thesis
  proof (cases b)
    case True
    then have "admissible e (entries db)"
      using ins' e ref by (auto simp: admissible_def same_operation_def same_adjustment_def adjustment_key_def)
    moreover have "db' = posted env e (if is_last then Some i else None) now db"
      using db' True ins' e by (simp add: posted_def)
    ultimately show ?thesis by (auto intro: posts.entry)
  qed (use ins' db' in \<open>simp add: posts.nothing\<close>)
qed

section \<open>The operations\<close>

lemma new_entry_simps [simp]:
  "qt_kind (new_entry env k n s p w cal eff rec f) = k"
  "qt_page_delta (new_entry env k n s p w cal eff rec f) = n"
  "qt_subject (new_entry env k n s p w cal eff rec f) = s"
  "qt_period (new_entry env k n s p w cal eff rec f) = p"
  "qt_operation_id (new_entry env k n s p w cal eff rec f) = None"
  "qt_namespace (new_entry env k n s p w cal eff rec f) = None"
  "qt_fingerprint (new_entry env k n s p w cal eff rec f) = entry_fingerprint env k f"
  by (simp_all add: new_entry_def)

lemma debit_entry_simps [simp]:
  "qt_kind (debit_entry env op pub u n w cal eff) = EntryDebit"
  "qt_page_delta (debit_entry env op pub u n w cal eff) = n"
  "qt_operation_id (debit_entry env op pub u n w cal eff) = Some op"
  "qt_publication_id (debit_entry env op pub u n w cal eff) = Some pub"
  "qt_namespace (debit_entry env op pub u n w cal eff) = None"
  "qt_subject (debit_entry env op pub u n w cal eff) = u"
  "qt_period (debit_entry env op pub u n w cal eff) = period_for env cal eff"
  "qt_fingerprint (debit_entry env op pub u n w cal eff) =
    entry_fingerprint env EntryDebit (debit_facts env op pub u n w cal eff)"
  by (simp_all add: debit_entry_def)

lemma adjustment_entry_simps [simp]:
  "qt_kind (adjustment_entry env k n m ref ns src w cal now) = k"
  "qt_page_delta (adjustment_entry env k n m ref ns src w cal now) = n"
  "qt_operation_id (adjustment_entry env k n m ref ns src w cal now) = None"
  "qt_namespace (adjustment_entry env k n m ref ns src w cal now) = Some ns"
  "qt_source_id (adjustment_entry env k n m ref ns src w cal now) = Some src"
  "qt_referenced (adjustment_entry env k n m ref ns src w cal now) = Some (qt_id ref)"
  "qt_subject (adjustment_entry env k n m ref ns src w cal now) = qt_subject ref"
  "qt_period (adjustment_entry env k n m ref ns src w cal now) = qt_period ref"
  by (simp_all add: adjustment_entry_def inherit_effective_def)

lemma credit_entry_simps [simp]:
  "qt_kind (credit_entry env u p n ns src w cal now) = EntryCredit"
  "qt_page_delta (credit_entry env u p n ns src w cal now) = - n"
  "qt_operation_id (credit_entry env u p n ns src w cal now) = None"
  "qt_namespace (credit_entry env u p n ns src w cal now) = Some ns"
  "qt_source_id (credit_entry env u p n ns src w cal now) = Some src"
  "qt_subject (credit_entry env u p n ns src w cal now) = u"
  "qt_period (credit_entry env u p n ns src w cal now) = p"
  by (simp_all add: credit_entry_def)

lemma invalid_Inr [simp]: "invalid \<noteq> Inr x" "ledger_conflict \<noteq> Inr x"
  by (simp_all add: invalid_def ledger_conflict_def)

lemma require_positive_pages_Inr: "require_positive_pages v = Inr n \<longleftrightarrow> v = PInt n \<and> 1 \<le> n \<and> n \<le> MAX_PAGE_DELTA"
  by (auto simp: require_positive_pages_def split: pval.splits if_splits)

lemma append_debit_posts:
  assumes "append_debit env op pub u pages w cal role eff reason replay db = Inr (r, db')"
  shows "posts db db'"
proof -
  consider "db' = db"
    | op' pub' u' n i where "1 \<le> n" "record_debit env (debit_entry env op' pub' u' n w cal eff) db = Inr (i, db')"
    using assms unfolding append_debit_def bindE_Inr require_positive_pages_Inr
    by (auto split: if_splits)
  then show ?thesis by cases (auto intro: posts.nothing record_debit_posts simp: entry_checked_def)
qed

lemma record_publication_debit_posts:
  "record_publication_debit env st op pub u pages w cal role reason replay published db = Inr (r, db') \<Longrightarrow> posts db db'"
  by (auto simp: record_publication_debit_def intro: posts.nothing split: if_splits dest: append_debit_posts)

lemma require_referenced_debit_Inr:
  "require_referenced_debit i db = Inr d \<Longrightarrow> d \<in> set (entries db) \<and> qt_id d = i \<and> qt_kind d = EntryDebit"
  by (auto simp: require_referenced_debit_def split: option.splits if_splits dest!: sql_first_Some)

lemma append_reversal_posts:
  assumes "append_reversal env referenced pages namespace source w cal now db = Inr (i, db')"
  shows "posts db db'"
proof -
  consider "db' = db"
    | k ref n ns src where "require_referenced_debit k db = Inr ref" "1 \<le> n"
      "\<not> qt_page_delta ref < - reversed_total k db + n"
      "record_adjustment env (adjustment_entry env EntryReversal (- n) n ref ns src w cal now) ns src (- n) 0 False now db
        = Inr (i, db')"
    using assms by (auto simp: append_reversal_def require_positive_pages_Inr split: option.splits if_splits)
  then show ?thesis
  proof cases
    case 2
    note ref = require_referenced_debit_Inr [OF 2(1)]
    show ?thesis
      by (rule record_adjustment_posts [OF 2(4)])
        (use 2(2,3) ref in \<open>auto simp: entry_checked_def used_delta_def extra_delta_def refers_to_def
          reversed_total_entries intro!: bexI [of _ ref]\<close>)
  qed (simp add: posts.nothing)
qed

lemma append_supplement_posts:
  assumes "append_supplement env referenced pages namespace source w cal now db = Inr (i, db')"
  shows "posts db db'"
proof -
  consider "db' = db"
    | ref n ns src where "1 \<le> n"
      "record_adjustment env (adjustment_entry env EntrySupplement n n ref ns src w cal now) ns src n 0 True now db
        = Inr (i, db')"
    using assms by (auto simp: append_supplement_def require_positive_pages_Inr split: option.splits if_splits)
  then show ?thesis
  proof cases
    case 2
    show ?thesis
      by (rule record_adjustment_posts [OF 2(2)]) (use 2(1) in \<open>auto simp: entry_checked_def used_delta_def extra_delta_def\<close>)
  qed (simp add: posts.nothing)
qed

lemma append_credit_posts:
  assumes "append_credit env subject period pages namespace source w cal now db = Inr (i, db')"
  shows "posts db db'"
proof -
  consider "db' = db"
    | u p n src where "1 \<le> n"
      "record_adjustment env (credit_entry env u p n CREDIT_NAMESPACE src w cal now) CREDIT_NAMESPACE src 0 n False now db
        = Inr (i, db')"
    using assms by (auto simp: append_credit_def require_positive_pages_Inr split: option.splits if_splits)
  then show ?thesis
  proof cases
    case 2
    show ?thesis
      by (rule record_adjustment_posts [OF 2(2)]) (use 2(1) in \<open>auto simp: entry_checked_def used_delta_def extra_delta_def\<close>)
  qed (simp add: posts.nothing)
qed

section \<open>Rebuilding\<close>

lemma fold_replay:
  "\<forall>e \<in> set es. entry_checked e \<Longrightarrow> \<exists>l'. fold replay_entry es (u, x, l) =
    (u + sum_list (map used_delta es), x + sum_list (map extra_delta es), l')"
proof (induction es arbitrary: u x l)
  case (Cons e es)
  have "\<exists>l1. replay_entry e (u, x, l) = (u + used_delta e, x + extra_delta e, l1)"
    using Cons.prems by (cases "qt_kind e") (auto simp: replay_entry_def used_delta_def extra_delta_def entry_checked_def)
  then obtain l1 where "replay_entry e (u, x, l) = (u + used_delta e, x + extra_delta e, l1)" by blast
  then show ?case using Cons.IH [of "u + used_delta e" "x + extra_delta e" l1] Cons.prems by (simp add: add.assoc)
qed simp

lemma sum_list_sort: "sum_list (map (f :: 'r \<Rightarrow> int) (sort_key k xs)) = sum_list (map f xs)"
  by (metis mset_map mset_sort sum_mset_sum_list)

lemma account_sums:
  "sum_list (map used_delta (account_entries s p db)) = used_sum s p (entries db)"
  "sum_list (map extra_delta (account_entries s p db)) = extra_sum s p (entries db)"
  by (simp_all add: account_entries_def sum_list_sort used_sum_def extra_sum_def sql_where_def)

text \<open>A rebuild stores the sums of one account, whatever the projection was before.\<close>

lemma rebuild_effect:
  assumes run: "rebuild_projection env subject period db = Inr db'"
    and checked: "\<forall>e \<in> set (entries db). entry_checked e"
  obtains s p where "require_text subject 64 = Inr s" "require_period period = Inr p" "entries db' = entries db"
    "\<And>t q. map_option (\<lambda>j. (qj_used j, qj_extra_granted j)) (find_projection t q db') =
      (if t = s \<and> q = p then Some (max 0 (used_sum s p (entries db)), extra_sum s p (entries db))
       else map_option (\<lambda>j. (qj_used j, qj_extra_granted j)) (find_projection t q db))"
    "keyed projection_key (projections db) \<Longrightarrow> keyed projection_key (projections db')"
proof -
  obtain s p where s: "require_text subject 64 = Inr s" and p: "require_period period = Inr p"
    using run by (auto simp: rebuild_projection_def)
  let ?db = "lock_projection env s p (qe_now env) db"
  have acc: "account_entries s p ?db = account_entries s p db" by (simp add: account_entries_def)
  have "\<forall>e \<in> set (account_entries s p db). entry_checked e" using checked by (simp add: account_entries_def)
  then obtain l where l: "fold replay_entry (account_entries s p ?db) (0, 0, None) =
      (used_sum s p (entries db), extra_sum s p (entries db), l)"
    using fold_replay [of "account_entries s p db" 0 0 None] by (auto simp: acc account_sums)
  have db': "db' = ?db\<lparr>projections := sql_update (is_projection s p)
      (\<lambda>j. j\<lparr>qj_base_limit := qe_base_limit env, qj_used := max 0 (used_sum s p (entries db)),
            qj_extra_granted := extra_sum s p (entries db), qj_last_debit := l, qj_updated_at := qe_now env\<rparr>)
      (projections ?db)\<rparr>"
    using run s p l by (simp add: rebuild_projection_def Let_def)
  show ?thesis
  proof (rule that [OF s p])
    show "entries db' = entries db" by (simp add: db')
    show "map_option (\<lambda>j. (qj_used j, qj_extra_granted j)) (find_projection t q db') =
      (if t = s \<and> q = p then Some (max 0 (used_sum s p (entries db)), extra_sum s p (entries db))
       else map_option (\<lambda>j. (qj_used j, qj_extra_granted j)) (find_projection t q db))" for t q
      unfolding db' by (subst find_update) (auto simp: find_lock option.map_comp comp_def)
    show "keyed projection_key (projections db')" if "keyed projection_key (projections db)"
      unfolding db' using keyed_lock [OF that] by (auto intro!: keyed_update_kept simp: projection_key_def)
  qed
qed

lemma rebuild_inv:
  assumes run: "rebuild_projection env subject period db = Inr db'" and inv: "ledger_inv db"
  shows "ledger_inv db' \<and> entries db' = entries db"
proof -
  have checked: "\<forall>e \<in> set (entries db). entry_checked e" using inv by (simp add: ledger_inv_def)
  show ?thesis
  proof (rule rebuild_effect [OF run checked])
    fix s p
    assume ent: "entries db' = entries db"
      and find: "\<And>t q. map_option (\<lambda>j. (qj_used j, qj_extra_granted j)) (find_projection t q db') =
        (if t = s \<and> q = p then Some (max 0 (used_sum s p (entries db)), extra_sum s p (entries db))
         else map_option (\<lambda>j. (qj_used j, qj_extra_granted j)) (find_projection t q db))"
      and keys: "keyed projection_key (projections db) \<Longrightarrow> keyed projection_key (projections db')"
    have "projected db'"
      unfolding projected_def
    proof (intro allI)
      fix t q
      have "case find_projection t q db of None \<Rightarrow> \<forall>e \<in> set (entries db). \<not> is_account t q e
        | Some j \<Rightarrow> qj_used j = used_sum t q (entries db) \<and> qj_extra_granted j = extra_sum t q (entries db)"
        using inv by (simp add: ledger_inv_def projected_def)
      then show "case find_projection t q db' of None \<Rightarrow> \<forall>e \<in> set (entries db'). \<not> is_account t q e
        | Some j \<Rightarrow> qj_used j = used_sum t q (entries db') \<and> qj_extra_granted j = extra_sum t q (entries db')"
        using find [of t q] used_sum_nonneg [OF inv, of s p] ent by (auto split: option.splits if_splits)
    qed
    then show ?thesis using inv keys ent by (simp add: ledger_inv_def)
  qed
qed

section \<open>Runs\<close>

inductive quota_step :: "quota_db \<Rightarrow> quota_db \<Rightarrow> bool" where
  debit: "append_debit env op pub u pages w cal role eff reason replay db = Inr (r, db') \<Longrightarrow> quota_step db db'"
| publication: "record_publication_debit env st op pub u pages w cal role reason replay published db = Inr (r, db')
    \<Longrightarrow> quota_step db db'"
| reversal: "append_reversal env referenced pages namespace source w cal now db = Inr (i, db') \<Longrightarrow> quota_step db db'"
| supplement: "append_supplement env referenced pages namespace source w cal now db = Inr (i, db') \<Longrightarrow> quota_step db db'"
| credit: "append_credit env subject period pages namespace source w cal now db = Inr (i, db') \<Longrightarrow> quota_step db db'"
| rebuild: "rebuild_projection env subject period db = Inr db' \<Longrightarrow> quota_step db db'"

inductive quota_reach :: "quota_db \<Rightarrow> bool" where
  empty: "quota_reach \<lparr>entries = [], projections = []\<rparr>"
| extend: "quota_reach db \<Longrightarrow> quota_step db db' \<Longrightarrow> quota_reach db'"

lemma quota_step_keeps:
  assumes "quota_step db db'" and "ledger_inv db"
  shows "ledger_inv db' \<and> (\<exists>new. entries db' = entries db @ new)"
  using assms
  by (cases rule: quota_step.cases)
    (auto dest!: append_debit_posts record_publication_debit_posts append_reversal_posts append_supplement_posts
      append_credit_posts rebuild_inv dest: posts_inv posts_grows)

text \<open>A system with an append-only log and an invariant.\<close>

locale append_only =
  fixes step :: "'s \<Rightarrow> 's \<Rightarrow> bool" and log :: "'s \<Rightarrow> 'e list" and good :: "'s \<Rightarrow> bool"
  assumes step_good: "step a b \<Longrightarrow> good a \<Longrightarrow> good b"
    and step_grows: "step a b \<Longrightarrow> good a \<Longrightarrow> \<exists>new. log b = log a @ new"
begin

lemma runs_grow: "step\<^sup>*\<^sup>* a b \<Longrightarrow> good a \<Longrightarrow> good b \<and> (\<exists>new. log b = log a @ new)"
  by (induction rule: rtranclp_induct) (use step_good step_grows in fastforce)+

lemma first_stays: "step\<^sup>*\<^sup>* a b \<Longrightarrow> good a \<Longrightarrow> sql_first p (log a) = Some e \<Longrightarrow> sql_first p (log b) = Some e"
  using runs_grow by (fastforce simp: sql_first_append)

end

interpretation quota: append_only quota_step entries ledger_inv
  by unfold_locales (use quota_step_keeps in blast)+

lemma quota_reach_inv: "quota_reach db \<Longrightarrow> ledger_inv db"
proof (induction rule: quota_reach.induct)
  case empty
  show ?case
    by (simp add: ledger_inv_def keys_unique_def reversals_bounded_def projected_def find_projection_def keyed_def)
qed (use quota_step_keeps in blast)

end
