(* ===== verification/Quota_Properties.thy ===== *)
theory Quota_Properties
  imports Quota_System
begin

text \<open>
  What the quota ledger promises in every reachable state: the projection is the sum of its
  entries, a debit is recorded once and reversed at most in full, a rebuild changes no balance, and
  the gate of an ingestion compares with exactly what the ledger says.
\<close>

section \<open>A run\<close>

definition demo_calendar :: calendar_lock where
  "demo_calendar = \<lparr>cy_version_id = ''cal'', cy_timezone = ''UTC''\<rparr>"

definition demo_env :: "string \<Rightarrow> quota_env" where
  "demo_env token = \<lparr>qe_base_limit = 500, qe_now = 0, qe_token = token, qe_lock = Inr demo_calendar,
     qe_local_month = (\<lambda>z t. (2026, 7)), qe_next_month = (\<lambda>z t. t + days 31), qe_hmac = (\<lambda>s. ''h''),
     qe_float_repr = (\<lambda>q. [])\<rparr>"

definition demo_owner :: ownership_snapshot where
  "demo_owner = \<lparr>ow_actor = ''u'', ow_role = Some ''user'', ow_department = None, ow_subject = Some ''u'',
     ow_cost_center = ''user:u'', ow_space_id = None, ow_space_kind = None, ow_space_owner = None,
     ow_authorization_version = None, ow_fence_token = None, ow_source_space_ids = []\<rparr>"

definition demo_empty :: quota_db where
  "demo_empty = \<lparr>entries = [], projections = []\<rparr>"

definition demo_debit :: "string \<Rightarrow> quota_db \<Rightarrow> exn + (string option \<times> quota_db)" where
  "demo_debit token = append_debit (demo_env token) (PStr ''op'') (PStr ''p'') (PStr ''u'') (PInt 10) demo_owner
     demo_calendar (PStr ''user'') 0 PNull (PInt 0)"

lemma demo_env_simps:
  "qe_base_limit (demo_env token) = 500" "qe_now (demo_env token) = 0" "qe_token (demo_env token) = token"
  "qe_lock (demo_env token) = Inr demo_calendar" "entry_fingerprint (demo_env token) k f = ''h''"
  "period_for (demo_env token) cal t = ''2026-07''"
proof -
  have "pad_left 4 (string_of_int 2026) @ ''-'' @ pad_left 2 (string_of_int 7) = ''2026-07''" by code_simp
  then show "period_for (demo_env token) cal t = ''2026-07''" by (simp add: demo_env_def period_for_def)
qed (simp_all add: demo_env_def entry_fingerprint_def ledger_fingerprint_def)

lemma demo_texts:
  "require_text (PStr ''op'') 128 = Inr ''op''" "require_text (PStr ''p'') 128 = Inr ''p''"
  "require_text (PStr ''u'') 64 = Inr ''u''" "require_text (PStr ''n'') 64 = Inr ''n''"
  "require_text (PStr ''s'') 128 = Inr ''s''" "require_text (PStr ''qd_1'') 64 = Inr ''qd_1''"
  "require_role (PStr ''user'') = Inr ''user''" "validate_ownership demo_owner = Inr ()"
  "require_period (PStr ''2026-07'') = Inr ''2026-07''"
  by code_simp+

lemma demo_owner_subject: "ow_subject demo_owner = Some ''u''"
  by (simp add: demo_owner_def)

text \<open>The ledger after a debit of ten pages, and after the reversal of four of them.\<close>

lemmas demo_ops = demo_env_simps demo_texts demo_owner_subject require_replay_generation_def
  require_exempt_reason_def require_positive_pages_def MAX_PAGE_DELTA_def unlimited_role_def
  demo_empty_def record_debit_def existing_entry_def insert_entry_def lock_projection_def
  find_projection_def update_projection_locked_def is_projection_def sql_update_def

definition demo_first :: quota_entry where
  "demo_first = debit_entry (demo_env ''1'') ''op'' ''p'' ''u'' 10 demo_owner demo_calendar 0"

definition demo_account :: "int \<Rightarrow> quota_projection" where
  "demo_account used = \<lparr>qj_subject = ''u'', qj_period = ''2026-07'', qj_base_limit = 500, qj_extra_granted = 0,
     qj_used = used, qj_last_debit = Some ''qd_1'', qj_updated_at = 0\<rparr>"

lemma demo_first_simps:
  "qt_id demo_first = ''qd_1''" "qt_kind demo_first = EntryDebit" "qt_page_delta demo_first = 10"
  "qt_operation_id demo_first = Some ''op''" "qt_subject demo_first = ''u''" "qt_period demo_first = ''2026-07''"
  "qt_fingerprint demo_first = ''h''" "qt_namespace demo_first = None"
  by (simp_all add: demo_first_def demo_env_simps) (simp add: debit_entry_def new_entry_def demo_env_simps)

definition demo_charged :: quota_db where
  "demo_charged = \<lparr>entries = [demo_first], projections = [demo_account 10]\<rparr>"

definition demo_second :: quota_entry where
  "demo_second = adjustment_entry (demo_env ''2'') EntryReversal (- 4) 4 demo_first ''n'' ''s'' demo_owner demo_calendar 0"

definition demo_reversed :: quota_db where
  "demo_reversed = \<lparr>entries = [demo_first, demo_second], projections = [demo_account 6]\<rparr>"

lemma demo_charged_run: "demo_debit ''1'' demo_empty = Inr (Some ''qd_1'', demo_charged)"
  unfolding demo_debit_def append_debit_def
  by (simp add: demo_ops demo_first_def [symmetric] demo_first_simps demo_charged_def demo_account_def)

definition demo_reversal :: "quota_db \<Rightarrow> exn + (string \<times> quota_db)" where
  "demo_reversal = append_reversal (demo_env ''2'') (PStr ''qd_1'') (PInt 4) (PStr ''n'') (PStr ''s'') demo_owner
     demo_calendar 0"

lemma demo_second_simps:
  "qt_id demo_second = ''qd_2''" "qt_fingerprint demo_second = ''h''" "qt_kind demo_second = EntryReversal"
  "qt_page_delta demo_second = - 4" "qt_subject demo_second = ''u''" "qt_period demo_second = ''2026-07''"
  "qt_referenced demo_second = Some ''qd_1''" "qt_operation_id demo_second = None"
  by (simp_all add: demo_second_def demo_first_simps)
    (simp_all add: adjustment_entry_def inherit_effective_def new_entry_def demo_env_simps)

lemma demo_reversal_run: "demo_reversal demo_charged = Inr (''qd_2'', demo_reversed)"
  unfolding demo_reversal_def append_reversal_def
  by (simp add: demo_ops demo_charged_def require_referenced_debit_def demo_first_simps adjustment_key_def
      reversed_total_def sql_where_def record_adjustment_def demo_second_def [symmetric] demo_second_simps
      demo_reversed_def demo_account_def)

lemma demo_reach: "quota_reach demo_charged" "quota_reach demo_reversed"
proof -
  have "quota_reach demo_empty" unfolding demo_empty_def by (rule quota_reach.empty)
  then show c: "quota_reach demo_charged"
    using demo_charged_run unfolding demo_debit_def by (blast intro: quota_reach.extend quota_step.debit)
  then show "quota_reach demo_reversed"
    using demo_reversal_run unfolding demo_reversal_def by (blast intro: quota_reach.extend quota_step.reversal)
qed

section \<open>The projection\<close>

lemma find_projection_member:
  assumes "keyed projection_key (projections db)" and "j \<in> set (projections db)"
  shows "find_projection (qj_subject j) (qj_period j) db = Some j"
proof (cases "find_projection (qj_subject j) (qj_period j) db")
  case None
  then show ?thesis using assms(2) by (auto simp: find_projection_def sql_first_None is_projection_def)
next
  case (Some k)
  then have "k \<in> set (projections db)" "projection_key k = projection_key j"
    by (auto simp: find_projection_def is_projection_def projection_key_def dest!: sql_first_Some)
  then show ?thesis using keyed_eq [OF assms(1) _ assms(2)] Some by simp
qed

text \<open>C36: in every reachable state each projection holds exactly the sums of the ledger over its
  account: the pages used, from debits, supplements and reversals, and the extra pages granted,
  from credits. Neither is negative, and every entry has a projection.\<close>

theorem quota_projection_exact:
  assumes "quota_reach db"
  shows "(\<forall>j \<in> set (projections db). qj_used j = used_sum (qj_subject j) (qj_period j) (entries db) \<and>
      qj_extra_granted j = extra_sum (qj_subject j) (qj_period j) (entries db) \<and>
      0 \<le> qj_used j \<and> 0 \<le> qj_extra_granted j) \<and>
    (\<forall>e \<in> set (entries db). \<exists>j \<in> set (projections db). qj_subject j = qt_subject e \<and> qj_period j = qt_period e)"
proof -
  note inv = quota_reach_inv [OF assms]
  have proj: "case find_projection s p db of None \<Rightarrow> \<forall>e \<in> set (entries db). \<not> is_account s p e
      | Some j \<Rightarrow> qj_used j = used_sum s p (entries db) \<and> qj_extra_granted j = extra_sum s p (entries db)" for s p
    using inv by (simp add: ledger_inv_def projected_def)
  have "find_projection (qj_subject j) (qj_period j) db = Some j" if "j \<in> set (projections db)" for j
    using find_projection_member inv that by (simp add: ledger_inv_def)
  then have rows: "qj_used j = used_sum (qj_subject j) (qj_period j) (entries db) \<and>
      qj_extra_granted j = extra_sum (qj_subject j) (qj_period j) (entries db)" if "j \<in> set (projections db)" for j
    using proj [of "qj_subject j" "qj_period j"] that by simp
  have "\<exists>j \<in> set (projections db). qj_subject j = qt_subject e \<and> qj_period j = qt_period e"
    if "e \<in> set (entries db)" for e
    using proj [of "qt_subject e" "qt_period e"] that
    by (fastforce simp: is_account_def find_projection_def is_projection_def split: option.splits dest: sql_first_Some)
  then show ?thesis using rows used_sum_nonneg [OF inv] extra_sum_nonneg [OF inv] by simp
qed

theorem quota_projection_exact_witness:
  "\<exists>j \<in> set (projections demo_reversed). qj_subject j = ''u'' \<and> qj_used j = 6 \<and> qj_used j = used_sum ''u'' ''2026-07'' (entries demo_reversed)"
  using quota_projection_exact [OF demo_reach(2)] by (simp add: demo_reversed_def demo_account_def demo_first_simps demo_second_simps)

section \<open>Entries\<close>

text \<open>Every reachable ledger satisfies the CHECK and unique constraints of its table, so an
  operation whose random id is new raises no integrity error: at most one debit per operation and
  one adjustment per kind and source.\<close>

theorem quota_rows_checked:
  assumes "quota_reach db"
  shows "(\<forall>e \<in> set (entries db). entry_checked e) \<and> keys_unique (entries db)"
  using quota_reach_inv [OF assms] by (simp add: ledger_inv_def)

theorem quota_rows_checked_witness: "entries demo_reversed \<noteq> [] \<and> (\<forall>e \<in> set (entries demo_reversed). entry_checked e)"
  using quota_rows_checked [OF demo_reach(2)] by (simp add: demo_reversed_def)

text \<open>C37: in every reachable state what was reversed of a debit is between zero and the debit.\<close>

theorem reversals_within_debit:
  assumes "quota_reach db" and "d \<in> set (entries db)" and "qt_kind d = EntryDebit"
  shows "0 \<le> - reversed_total (qt_id d) db \<and> - reversed_total (qt_id d) db \<le> qt_page_delta d"
proof -
  note inv = quota_reach_inv [OF assms(1)]
  have "\<forall>e \<in> set (entries db). entry_checked e" using inv by (simp add: ledger_inv_def)
  then have "0 \<le> sum_list (map (\<lambda>e. - qt_page_delta e)
      (filter (\<lambda>e. qt_kind e = EntryReversal \<and> qt_referenced e = Some (qt_id d)) (entries db)))"
    by (intro sum_list_nonneg) (auto simp: entry_checked_def dest!: bspec)
  then have "0 \<le> - reversed_total (qt_id d) db"
    by (simp add: reversed_total_entries reversals_of_def uminus_sum_list_map comp_def)
  then show ?thesis
    using inv assms(2,3) by (simp add: ledger_inv_def reversals_bounded_def reversed_total_entries)
qed

theorem reversals_within_debit_witness:
  "\<exists>d \<in> set (entries demo_reversed). qt_page_delta d = 10 \<and> - reversed_total (qt_id d) demo_reversed \<le> 10"
  using reversals_within_debit [OF demo_reach(2), of demo_first]
  by (simp add: demo_reversed_def demo_first_simps)

section \<open>Rebuilding\<close>

text \<open>C38: rebuilding the projection of an account of a reachable ledger from its entries changes
  no balance: every account has the used and extra pages it had, an account without a projection
  gets an empty one, and the ledger is left alone.\<close>

theorem rebuild_equivalent:
  assumes "quota_reach db" and "rebuild_projection env subject period db = Inr db'"
  shows "entries db' = entries db \<and>
    (\<forall>s p. (case find_projection s p db' of None \<Rightarrow> (0, 0) | Some j \<Rightarrow> (qj_used j, qj_extra_granted j)) =
           (case find_projection s p db of None \<Rightarrow> (0, 0) | Some j \<Rightarrow> (qj_used j, qj_extra_granted j)))"
proof -
  note inv = quota_reach_inv [OF assms(1)]
  have inv': "ledger_inv db'" and same: "entries db' = entries db" using rebuild_inv [OF assms(2) inv] by simp_all
  have balance: "(case find_projection s p x of None \<Rightarrow> (0, 0) | Some j \<Rightarrow> (qj_used j, qj_extra_granted j)) =
      (used_sum s p (entries x), extra_sum s p (entries x))" if "ledger_inv x" for s p x
  proof -
    have "case find_projection s p x of None \<Rightarrow> \<forall>e \<in> set (entries x). \<not> is_account s p e
      | Some j \<Rightarrow> qj_used j = used_sum s p (entries x) \<and> qj_extra_granted j = extra_sum s p (entries x)"
      using that by (simp add: ledger_inv_def projected_def)
    then show ?thesis by (auto simp: sums_none split: option.splits)
  qed
  show ?thesis using balance [OF inv] balance [OF inv'] same by simp
qed

theorem rebuild_equivalent_witness:
  "\<exists>db'. rebuild_projection (demo_env ''3'') (PStr ''u'') (PStr ''2026-07'') demo_reversed = Inr db' \<and>
     entries db' = entries demo_reversed"
proof -
  have "is_ok (rebuild_projection (demo_env ''3'') (PStr ''u'') (PStr ''2026-07'') demo_reversed)"
    by (simp add: rebuild_projection_def demo_texts Let_def split: prod.split)
  then obtain db' where r: "rebuild_projection (demo_env ''3'') (PStr ''u'') (PStr ''2026-07'') demo_reversed = Inr db'"
    by (auto simp: is_ok_def split: sum.splits)
  show ?thesis using rebuild_equivalent [OF demo_reach(2) r] r by auto
qed

section \<open>A debit\<close>

lemma record_debit_row:
  assumes "record_debit env e db = Inr (i, db')"
  shows "\<exists>x. sql_first (\<lambda>x. qt_operation_id x = qt_operation_id e) (entries db') = Some x \<and> qt_id x = i \<and>
    qt_fingerprint x = qt_fingerprint e"
proof (cases "sql_first (\<lambda>x. qt_operation_id x = qt_operation_id e) (entries db)")
  case None
  then show ?thesis
    using assms by (auto simp: record_debit_def Let_def existing_entry_def insert_entry_def sql_first_append
        update_projection_locked_def split: if_splits)
next
  case (Some x)
  then show ?thesis using assms by (auto simp: record_debit_def Let_def existing_entry_def split: if_splits)
qed

lemma record_debit_again:
  assumes "sql_first (\<lambda>x. qt_operation_id x = qt_operation_id e) (entries db) = Some x"
    and "qt_fingerprint x = qt_fingerprint e"
  shows "record_debit env e db = Inr (qt_id x, db)"
  using assms by (simp add: record_debit_def Let_def existing_entry_def)

text \<open>C39: a debit that was recorded is answered with the same entry at any later time, in any
  environment with the same digest and calendar, without a change, and its operation has exactly
  one entry in the ledger.\<close>

theorem debit_recorded_once:
  assumes reach: "quota_reach db" and run: "append_debit env op pub u pages w cal role eff reason replay db = Inr (Some i, db')"
    and later: "quota_step\<^sup>*\<^sup>* db' db''"
    and same: "qe_hmac env' = qe_hmac env" "qe_float_repr env' = qe_float_repr env" "qe_local_month env' = qe_local_month env"
  shows "append_debit env' op pub u pages w cal role eff reason replay db'' = Inr (Some i, db'') \<and>
    (\<exists>o'. require_text op 128 = Inr o' \<and> sql_count (\<lambda>e. qt_operation_id e = Some o') (entries db'') = 1)"
proof -
  have inv': "ledger_inv db'"
    using quota_reach_inv [OF quota_reach.extend [OF reach quota_step.debit [OF run]]] .
  then have inv: "ledger_inv db''" using quota.runs_grow [OF later] by blast
  obtain g o' p' u' r n where ok: "require_replay_generation replay = Inr g" "require_exempt_reason reason = Inr None"
      "require_text op 128 = Inr o'" "require_text pub 128 = Inr p'" "require_text u 64 = Inr u'" "require_role role = Inr r"
      "require_positive_pages pages = Inr n" "validate_ownership w = Inr ()" "ow_subject w = Some u'"
      "\<not> unlimited_role r" "\<not> 0 < g"
    and rec: "record_debit env (debit_entry env o' p' u' n w cal eff) db = Inr (i, db')"
    using run by (auto simp: append_debit_def split: if_splits)
  let ?e = "debit_entry env o' p' u' n w cal eff" let ?e' = "debit_entry env' o' p' u' n w cal eff"
  obtain x where x: "sql_first (\<lambda>x. qt_operation_id x = Some o') (entries db') = Some x" "qt_id x = i"
      "qt_fingerprint x = qt_fingerprint ?e"
    using record_debit_row [OF rec] by auto
  have first: "sql_first (\<lambda>x. qt_operation_id x = Some o') (entries db'') = Some x"
    by (rule quota.first_stays [OF later inv' x(1)])
  have period: "period_for env' = period_for env" by (simp add: fun_eq_iff period_for_def same)
  have print: "entry_fingerprint env' = entry_fingerprint env"
    by (simp add: fun_eq_iff entry_fingerprint_def ledger_fingerprint_def same)
  have "qt_fingerprint ?e' = qt_fingerprint ?e" by (simp add: print debit_facts_def period)
  then have "record_debit env' ?e' db'' = Inr (i, db'')"
    using record_debit_again [of ?e' db'' x env'] first x by simp
  then have again: "append_debit env' op pub u pages w cal role eff reason replay db'' = Inr (Some i, db'')"
    using ok by (simp add: append_debit_def)
  have mem: "x \<in> set (entries db'')" "qt_operation_id x = Some o'" using sql_first_Some [OF first] by simp_all
  have keys: "keyed qt_id (entries db'')" using inv by (simp add: ledger_inv_def keys_unique_def)
  have uniq: "e = x" if "e \<in> set (entries db'')" "qt_operation_id e = Some o'" for e
  proof -
    have "same_operation x e" using that(2) mem(2) by (simp add: same_operation_def)
    then show ?thesis using inv mem(1) that(1) unfolding ledger_inv_def keys_unique_def by blast
  qed
  have "set (filter (\<lambda>e. qt_operation_id e = Some o') (entries db'')) = {x}"
  proof
    show "set (filter (\<lambda>e. qt_operation_id e = Some o') (entries db'')) \<subseteq> {x}" using uniq by simp blast
  qed (use mem in simp)
  moreover have "distinct (filter (\<lambda>e. qt_operation_id e = Some o') (entries db''))"
    using keys by (simp add: keyed_def distinct_map)
  ultimately have "sql_count (\<lambda>e. qt_operation_id e = Some o') (entries db'') = 1"
    unfolding sql_count_def by (metis distinct_card is_singletonI is_singleton_altdef)
  then show ?thesis using again ok(3) by blast
qed

theorem debit_recorded_once_witness: "demo_debit ''9'' demo_charged = Inr (Some ''qd_1'', demo_charged)"
proof -
  have r: "quota_reach demo_empty" unfolding demo_empty_def by (rule quota_reach.empty)
  have "append_debit (demo_env ''9'') (PStr ''op'') (PStr ''p'') (PStr ''u'') (PInt 10) demo_owner
     demo_calendar (PStr ''user'') 0 PNull (PInt 0) demo_charged = Inr (Some ''qd_1'', demo_charged)"
    by (rule debit_recorded_once [OF r demo_charged_run [unfolded demo_debit_def] rtranclp.rtrancl_refl, THEN conjunct1])
      (simp_all add: demo_env_def)
  then show ?thesis by (simp add: demo_debit_def)
qed

text \<open>A debit is charged or exempt, never both: with every input valid, an exemption (the shared
  library reason, an unlimited role or a replay) returns no entry and writes nothing, and
  otherwise the operation has its entry in the ledger. An invalid input is refused before any
  exemption is looked at.\<close>

theorem exempt_or_charged:
  assumes "append_debit env op pub u pages w cal role eff reason replay db = Inr (r, db')"
  shows "\<exists>o' x q g n s. require_text op 128 = Inr o' \<and> require_exempt_reason reason = Inr x \<and> require_role role = Inr q \<and>
    require_replay_generation replay = Inr g \<and> require_positive_pages pages = Inr n \<and>
    require_text u 64 = Inr s \<and> ow_subject w = Some s \<and>
    (if x \<noteq> None \<or> unlimited_role q \<or> 0 < g then r = None \<and> db' = db
     else \<exists>e \<in> set (entries db'). r = Some (qt_id e) \<and> qt_operation_id e = Some o')"
proof -
  obtain g x o' p' s q n where ok: "require_replay_generation replay = Inr g" "require_exempt_reason reason = Inr x"
      "require_text op 128 = Inr o'" "require_text pub 128 = Inr p'" "require_text u 64 = Inr s" "require_role role = Inr q"
      "require_positive_pages pages = Inr n" "validate_ownership w = Inr ()" "ow_subject w = Some s"
    using assms by (auto simp: append_debit_def split: if_splits)
  have "if x \<noteq> None \<or> unlimited_role q \<or> 0 < g then r = None \<and> db' = db
     else \<exists>e \<in> set (entries db'). r = Some (qt_id e) \<and> qt_operation_id e = Some o'"
  proof (cases "x \<noteq> None \<or> unlimited_role q \<or> 0 < g")
    case False
    then obtain i where i: "r = Some i" "record_debit env (debit_entry env o' p' s n w cal eff) db = Inr (i, db')"
      using assms ok by (auto simp: append_debit_def)
    then show ?thesis using False record_debit_row [OF i(2)] by (auto dest!: sql_first_Some)
  qed (use assms ok in \<open>auto simp: append_debit_def\<close>)
  then show ?thesis using ok by blast
qed

theorem exempt_or_charged_witness:
  "append_debit (demo_env ''1'') (PStr ''op'') (PStr ''p'') (PStr ''u'') (PInt 10) demo_owner demo_calendar
     (PStr ''user'') 0 PNull (PInt 1) demo_empty = Inr (None, demo_empty) \<and>
   (\<exists>e \<in> set (entries demo_charged). qt_operation_id e = Some ''op'')"
proof
  have "append_debit (demo_env ''1'') (PStr ''op'') (PStr ''p'') (PStr ''u'') (PInt 10) demo_owner demo_calendar
     (PStr ''user'') 0 PNull (PInt 1) demo_empty = Inr (None, demo_empty)"
    unfolding append_debit_def by (simp add: demo_ops)
  then show "append_debit (demo_env ''1'') (PStr ''op'') (PStr ''p'') (PStr ''u'') (PInt 10) demo_owner demo_calendar
     (PStr ''user'') 0 PNull (PInt 1) demo_empty = Inr (None, demo_empty)" .
  show "\<exists>e \<in> set (entries demo_charged). qt_operation_id e = Some ''op''"
    using exempt_or_charged [OF demo_charged_run [unfolded demo_debit_def]]
    by (auto simp: demo_texts demo_ops split: if_splits)
qed

text \<open>Whatever happens to a reachable ledger later, its entries stay as they are, in their
  order, before the ones that are added.\<close>

theorem ledger_append_only:
  assumes "quota_reach db" and "quota_step\<^sup>*\<^sup>* db db'"
  shows "\<exists>new. entries db' = entries db @ new"
  using quota.runs_grow [OF assms(2) quota_reach_inv [OF assms(1)]] by blast

theorem ledger_append_only_witness: "\<exists>new. entries demo_reversed = entries demo_charged @ new"
proof -
  have "quota_step demo_charged demo_reversed"
    using demo_reversal_run unfolding demo_reversal_def by (rule quota_step.reversal)
  then show ?thesis using ledger_append_only [OF demo_reach(1) r_into_rtranclp] by blast
qed

section \<open>Balances\<close>

lemma py_strip_again: "py_strip (py_strip s) = py_strip s"
proof -
  define t where "t = dropWhile py_isspace s"
  define r where "r = rev (dropWhile py_isspace (rev t))"
  have t: "t = r @ rev (takeWhile py_isspace (rev t))"
    unfolding r_def by (metis rev_append rev_rev_ident takeWhile_dropWhile_id)
  have "dropWhile py_isspace r = r"
  proof (cases r)
    case (Cons c cs)
    then have "t \<noteq> []" "hd t = c" using t by (metis append_is_Nil_conv list.distinct(1), metis hd_append2 list.distinct(1) list.sel(1))
    then have "\<not> py_isspace c" using hd_dropWhile [of py_isspace s] by (auto simp: t_def)
    then show ?thesis using Cons by simp
  qed simp
  then show ?thesis by (simp add: py_strip_def r_def [symmetric] t_def [symmetric]) (simp add: r_def)
qed

lemma require_text_again: "require_text v n = Inr s \<Longrightarrow> require_text (PStr s) n = Inr s"
  by (auto simp: require_text_def py_strip_again split: pval.splits if_splits)

lemma reach_balance:
  assumes "quota_reach db"
  shows "(case find_projection s p db of None \<Rightarrow> (0, 0) | Some j \<Rightarrow> (qj_used j, qj_extra_granted j)) =
    (used_sum s p (entries db), extra_sum s p (entries db))"
proof -
  have "case find_projection s p db of None \<Rightarrow> \<forall>e \<in> set (entries db). \<not> is_account s p e
      | Some j \<Rightarrow> qj_used j = used_sum s p (entries db) \<and> qj_extra_granted j = extra_sum s p (entries db)"
    using quota_reach_inv [OF assms] by (simp add: ledger_inv_def projected_def)
  then show ?thesis by (auto simp: sums_none split: option.splits)
qed

text \<open>C40: the gate of a direct ingestion admits pages exactly when the role is unlimited or the
  pages the ledger has charged to the user in the current month, with these, stay within the base
  limit and what was granted to the user; otherwise it raises quota_exceeded.\<close>

theorem balance_gate_exact:
  assumes "quota_reach db" and "require_text subject 64 = Inr u" and "qe_lock env = Inr cal"
    and "1 \<le> n" and "n \<le> MAX_PAGE_DELTA"
  shows "check_direct_ingest_balance env subject (PInt n) role db =
    (if unlimited_role role \<or> used_sum u (period_for env cal (qe_now env)) (entries db) + n \<le>
          qe_base_limit env + extra_sum u (period_for env cal (qe_now env)) (entries db)
     then Inr () else Inl (PlatformError ''quota_exceeded'' 409))"
proof -
  let ?p = "period_for env cal (qe_now env)"
  have s: "read_snapshot env (PStr u) role db = Inr (snapshot_of env cal ?p
      (qe_next_month env (cy_timezone cal) (qe_now env)) role (find_projection u ?p db))" if "\<not> unlimited_role role"
    using require_text_again [OF assms(2)] assms(3) that by (simp add: read_snapshot_def Let_def)
  show ?thesis
  proof (cases "unlimited_role role")
    case False
    then show ?thesis
      using s assms(2,4,5) reach_balance [OF assms(1), of u ?p]
      by (cases "find_projection u ?p db")
        (auto simp: check_direct_ingest_balance_def require_positive_pages_def snapshot_of_def Let_def)
  qed (use assms in \<open>simp add: check_direct_ingest_balance_def require_positive_pages_def\<close>)
qed

theorem balance_gate_exact_witness:
  "check_direct_ingest_balance (demo_env ''5'') (PStr ''u'') (PInt 494) ''user'' demo_reversed = Inr () \<and>
   check_direct_ingest_balance (demo_env ''5'') (PStr ''u'') (PInt 495) ''user'' demo_reversed
     = Inl (PlatformError ''quota_exceeded'' 409)"
proof -
  have u: "used_sum ''u'' ''2026-07'' (entries demo_reversed) = 6" "extra_sum ''u'' ''2026-07'' (entries demo_reversed) = 0"
    by (simp_all add: demo_reversed_def used_sum_def extra_sum_def is_account_def demo_first_simps demo_second_simps
        used_delta_def extra_delta_def)
  note gate = balance_gate_exact [OF demo_reach(2) demo_texts(3) demo_env_simps(4)]
  show ?thesis
    using gate [of 494 "''5''" "''user''"] gate [of 495 "''5''" "''user''"] u
    by (simp add: demo_env_simps MAX_PAGE_DELTA_def unlimited_role_def)
qed

text \<open>The batch of snapshots agrees with reading them one by one.\<close>

lemma normalized_entries_member:
  "normalized_entries requested = Inr pairs \<Longrightarrow> (subject, role) \<in> set requested \<Longrightarrow>
    \<exists>u. require_text subject 64 = Inr u \<and> (u, role) \<in> set pairs"
  by (induction requested arbitrary: pairs rule: normalized_entries.induct) auto

lemma by_subject:
  assumes keys: "keyed projection_key (projections db)" and u: "u \<in> S"
  shows "map_of (rev (map (\<lambda>j. (qj_subject j, j)) (sql_where (\<lambda>j. qj_subject j \<in> S \<and> qj_period j = p) (projections db)))) u
    = find_projection u p db"
proof (cases "find_projection u p db")
  case None
  then have "\<forall>j \<in> set (projections db). \<not> (qj_subject j = u \<and> qj_period j = p)"
    by (simp add: find_projection_def sql_first_None is_projection_def)
  then show ?thesis using None by (auto simp: map_of_eq_None_iff)
next
  case (Some j)
  then have j: "j \<in> set (projections db)" "qj_subject j = u" "qj_period j = p"
    by (auto simp: find_projection_def is_projection_def dest!: sql_first_Some)
  have "distinct (map qj_subject (sql_where (\<lambda>j. qj_subject j \<in> S \<and> qj_period j = p) (projections db)))"
    using keys by (auto simp: keyed_def distinct_map inj_on_def projection_key_def sql_where_def)
  then have "distinct (map fst (rev (map (\<lambda>j. (qj_subject j, j))
      (sql_where (\<lambda>j. qj_subject j \<in> S \<and> qj_period j = p) (projections db)))))"
    by (simp add: rev_map [symmetric] comp_def)
  then show ?thesis using Some j u by (auto intro!: map_of_is_SomeI)
qed

lemma snapshots_agree:
  assumes "quota_reach db" and run: "read_snapshots env requested db = Inr m" and "(subject, role) \<in> set requested"
  shows "\<exists>u s. require_text subject 64 = Inr u \<and> m (u, role) = Some s \<and> read_snapshot env subject role db = Inr s"
proof -
  obtain pairs cal where pairs: "normalized_entries requested = Inr pairs" and cal: "qe_lock env = Inr cal"
    using run by (auto simp: read_snapshots_def)
  obtain u where u: "require_text subject 64 = Inr u" "(u, role) \<in> set pairs"
    using normalized_entries_member [OF pairs assms(3)] by blast
  let ?p = "period_for env cal (qe_now env)" and ?t = "qe_next_month env (cy_timezone cal) (qe_now env)"
  let ?S = "fst ` {x \<in> set pairs. \<not> unlimited_role (snd x)}"
  let ?rows = "map_of (rev (map (\<lambda>j. (qj_subject j, j))
      (sql_where (\<lambda>j. qj_subject j \<in> ?S \<and> qj_period j = ?p) (projections db))))"
  let ?f = "\<lambda>x. snapshot_of env cal ?p ?t (snd x) (?rows (fst x))"
  have "m = map_of (map (\<lambda>x. (x, ?f x)) pairs)"
    using run pairs cal by (auto simp: read_snapshots_def Let_def case_prod_unfold)
  then have "m (u, role) = Some (?f (u, role))" using u(2) by (simp add: map_of_map_restrict)
  moreover have "?f (u, role) = snapshot_of env cal ?p ?t role (if unlimited_role role then None else find_projection u ?p db)"
  proof (cases "unlimited_role role")
    case False
    then have "u \<in> ?S" using u(2) by force
    then show ?thesis
      using by_subject [of db u ?S ?p] quota_reach_inv [OF assms(1)] False by (simp add: ledger_inv_def)
  qed (simp add: snapshot_of_def)
  ultimately show ?thesis using u(1) cal by (simp add: read_snapshot_def Let_def)
qed

end
