(* ===== verification/Spec2Isabelle.thy ===== *)
theory Spec2Isabelle
  imports Inbox_Properties Lease_Properties Dispatcher_Properties Publisher_Properties Lifecycle_Properties Generation_Properties
    Provider_Properties Budget_Properties Ingestion_Effects Ingestion_Repetition
    Quota_Properties
begin

text \<open>
  A model of the server side of RAGqs, a multi-user question-answering service over documents
  (Python, \<^verbatim>\<open>app/\<close>), with the theorems that make its concurrent and transactional parts
  correct.

  \<^bold>\<open>Parts and theories.\<close> Every part has a theory with its data and operations and one
  or more with its properties; a definition carries the name of the function it translates where
  HOL allows it.

  \<^item> Shared: \<open>Prelude\<close> (time, exceptions, Python strings, sums as results, tables as lists
    of rows with \<open>sql_where\<close>, \<open>sql_update\<close>, \<open>sql_insert\<close> and keys), \<open>Json\<close> (payload values and
    their canonical form, \<^verbatim>\<open>json.dumps\<close>), \<open>Python_Values\<close> (untyped values, their equality and
    the operators the code applies to them).
  \<^item> Outbox (\<^verbatim>\<open>app/outbox/\<close>, with \<^verbatim>\<open>app/graph/outbox.py\<close> and \<^verbatim>\<open>app/evaluation/outbox.py\<close>): domain
    transactions publish events, a dispatcher delivers them to the inboxes of their recipients.
    \<open>Outbox_Model\<close> holds the rows (\<^verbatim>\<open>schema.py\<close>, \<^verbatim>\<open>ports.py\<close>); \<open>Outbox_Publisher\<close> is \<^verbatim>\<open>publisher.py\<close>,
    \<open>Outbox_Adapters\<close> the two facades; \<open>Outbox_Dispatcher\<close> and \<open>Outbox_Delivery\<close> are \<^verbatim>\<open>dispatcher.py\<close>
    and \<^verbatim>\<open>compaction.py\<close> (claim, fence, renew, run, retry, recycle, replay, compact);
    \<open>Outbox_Notifications\<close> is \<^verbatim>\<open>notifications.py\<close>, \<^verbatim>\<open>maintenance.py\<close> and \<^verbatim>\<open>service.py\<close>
    (materialization, retention, inbox operations); \<open>Outbox_Lifecycle\<close> is \<^verbatim>\<open>lifecycle.py\<close>
    (redaction, account retirement, account compaction). \<open>Outbox_System\<close> composes all of them
    into one transition system. The delivery lease is an instance of the locale of
    \<open>Lease_Protocol\<close>. Properties: \<open>Lease_Properties\<close> (fencing, exactly one settlement, the global
    invariant), \<open>Dispatcher_Properties\<close> (retry schedule, recycling, replay, compaction),
    \<open>Publisher_Properties\<close> (idempotence, validation, reach of a delivery), \<open>Inbox_Properties\<close>
    (sequence numbers, cap, unread counts), \<open>Lifecycle_Properties\<close> (redaction and retirement are
    permanent, the read model is consistent).
  \<^item> Index generations (\<^verbatim>\<open>app/indexing/generation.py\<close>, \<^verbatim>\<open>models.py\<close>): \<open>Generation_Manager\<close> is the
    manager with staging, release, rollback, garbage collection and the change log;
    \<open>Generation_Invariants\<close> and \<open>Generation_History\<close> hold its invariants; \<open>Generation_Properties\<close>
    shows that it refines an abstract life cycle and what each operation promises. The runs are those
    of any calls with any arguments, at times that do not go backwards. A staging manifest may bring
    index changes of its own; the code keeps them unchecked in front of those it records.
  \<^item> Provider resilience (\<^verbatim>\<open>app/platform/provider.py\<close>): \<open>Provider_Circuit\<close> is the registry of circuit
    breakers, \<open>Provider_Policy\<close> the whole of \<open>call_with_policy\<close>, \<open>Provider_Effects\<close> what one call
    does to the registry. The half-open probe is an instance of the locale of \<open>Permit_Protocol\<close>.
    \<open>Provider_Properties\<close>: one probe at a time, none left behind, bounded attempts, recovery.
  \<^item> Generation resource budget (\<^verbatim>\<open>app/usage/budget.py\<close>, \<^verbatim>\<open>schema.py\<close>): \<open>Usage_Budget\<close> is the meter
    service; \<open>Budget_Accounting\<close> and \<open>Budget_Invariant\<close> tie each meter to the sums of its
    reservations, \<open>Budget_System\<close> the runs of the service, \<open>Budget_Traces\<close> the RAG calls along a
    run, \<open>Budget_Properties\<close> its limits, its idempotence and the effect of closing a reservation. In
    the runs a reservation is settled, released or given up only through the generation it belongs
    to (\<open>call_owned\<close>), which the code leaves to its callers; accounting and limits rest on it, and a
    theorem shows what a call through another generation does.
  \<^item> Document ingestion (\<^verbatim>\<open>app/documents/\<close>: \<^verbatim>\<open>service.py\<close>, \<^verbatim>\<open>jobs.py\<close>, \<^verbatim>\<open>indexing.py\<close>, \<^verbatim>\<open>domain.py\<close>,
    \<^verbatim>\<open>schema.py\<close>): an upload, a replacement, a restore or a reindex opens the one operation of a
    document and a job; workers claim the job under a fenced lease, stage its content in the index
    and hand in a receipt, whose acceptance swaps the active version and publication.
    \<open>Ingestion_Model\<close> holds the rows, \<open>Ingestion_Jobs\<close> claiming, reclaiming, renewing and failing,
    \<open>Ingestion_Commands\<close> the idempotent commands that open a job, \<open>Ingestion_Control\<close> cancellation,
    operator replay and the restore copy, \<open>Ingestion_Receipts\<close> the acceptance of a receipt.
    \<open>Ingestion_Protocol\<close> is an abstract protocol of document operations, jobs and attempts with
    its invariant; \<open>Ingestion_Refinement\<close>, \<open>Ingestion_Simulation\<close> and
    \<open>Ingestion_Simulation_Commands\<close> show that every operation follows it, \<open>Ingestion_System\<close> lifts
    that to all interleavings by the locale \<open>simulated\<close>. \<open>Ingestion_Properties\<close>: one operation
    per document, one running attempt per job, fencing, the four attempts and their delays;
    \<open>Ingestion_Effects\<close>: what an accepted receipt does and which is refused;
    \<open>Ingestion_Repetition\<close>: repeating an upload. The ports (index handoff, notifications, quota,
    public graph source) take part in the transaction: their answers are the environment, their
    calls a column of the database that is rolled back with it. Submission grants are only read,
    as they stand in the initial state. Between the read of a dedup claim and its insert no other
    transaction commits, so the branch of a lost claim is modelled but not reached.
  \<^item> Page quota (\<^verbatim>\<open>app/usage/quota.py\<close>, \<^verbatim>\<open>_fingerprint.py\<close>): \<open>Quota_Ledger\<close> is the append-only
    ledger of debits, reversals, supplements and credits, the projection kept with it, the
    snapshots and the ingestion gate; \<open>Quota_Invariant\<close> ties the projection to the sums of the
    ledger, \<open>Quota_System\<close> shows that every operation posts at most one admissible entry and runs
    the service as an instance of the locale of append-only logs, \<open>Quota_Properties\<close> proves the
    balances exact, reversals bounded, debits recorded once and a rebuild harmless. The random id
    of an entry and the HMAC are arbitrary; a collision of ids is the integrity error of the table.

  \<^bold>\<open>How code is read.\<close> A function of the code is a function on the state it reads and
  writes. An operation that raises returns \<open>Inl\<close> of an exception, with the state it leaves. A
  database table is the list of its rows in insertion order, a transaction a function on the
  record of the tables, and row and advisory locks make a transaction one step of the systems; where
  a concurrent transaction can still commit in between (between a read and the insert after it),
  what it commits is an argument. Clock readings, fresh ids, random jitter and the answers of
  callbacks and providers are arguments too. A digest is an arbitrary
  function. Times are integers in microseconds, Python integers are \<open>int\<close>,
  \<open>Decimal\<close> amounts rationals, rounded to ten places where a money column stores them. Characters
  are code points below 256.

  \<^bold>\<open>Bounds and fuel.\<close> Loops are structural recursions over the selected rows. The retry loop
  of \<open>call_with_policy\<close> recurses on the attempts left by its own hard limit, and a theorem shows
  that more would change nothing.

  \<^bold>\<open>Not modelled.\<close> HTTP routing, configuration, engines and sessions, logging, threads and
  signal handlers, command lines (I/O around the modelled operations); the adapters to search
  engines, object stores, graph stores and language models (calls to services whose code is not
  here); identity, chat and evaluation services, deletion, retention and submission of documents,
  the ledger of provider and local usage, and the durable index repository; the frontend and the generated migrations.
\<close>

end
